(* ===== verification/Prelude.thy ===== *)
theory Prelude
  imports Complex_Main "HOL-Library.Word" "HOL-Library.Char_ord" "HOL-Library.List_Lexorder"
    "HOL-Library.Product_Lexorder" "HOL-Library.AList"
begin

text \<open>
  What the components share: the Go values they are written with (instants, durations,
  UUIDs, byte strings and the functions of Go's package \<open>strings\<close> the code calls),
  sequences of guarded early returns, Go maps as association lists, and the sorting facts
  about \<open>sort_key\<close>, the model of Go's \<open>sort.Slice\<close> and \<open>sort.SliceStable\<close>.
\<close>

section \<open>Go values\<close>

text \<open>
  An instant is a number of nanoseconds since Go's zero \<open>time.Time\<close>, so \<open>IsZero\<close> is
  equality with 0; locations play no role in the comparisons the code makes. A duration
  is a number of nanoseconds. A UUID is 16 bytes; \<open>uuid.Nil\<close> is 0.
\<close>

type_synonym instant = int
type_synonym duration = int
type_synonym uuid = "128 word"

abbreviation uuid_nil :: uuid where
  "uuid_nil \<equiv> 0"

definition nanos_per_second :: int where
  "nanos_per_second = 1000000000"

text \<open>\<open>time.Time.Truncate(time.Microsecond)\<close>: down to a multiple of 1000 ns.\<close>

definition truncate_micro :: "instant \<Rightarrow> instant" where
  "truncate_micro t = t - t mod 1000"

lemma truncate_micro_idem [simp]: "truncate_micro (truncate_micro t) = truncate_micro t"
proof -
  have "(t - t mod 1000) mod 1000 = 0"
    by (metis minus_mod_eq_mult_div mod_mult_self1_is_0)
  then show ?thesis
    by (simp add: truncate_micro_def)
qed

text \<open>A \<open>float64\<close> is NaN, an infinity (positive or not) or the rational number it stands for.\<close>

datatype float64 = NaN | Inf bool | Fin rat

section \<open>Early returns\<close>

text \<open>
  A Go validation function is a sequence of guards, each returning its error. The model
  lists them in the order of the code: the first guard that holds gives the result.
\<close>

fun first_error :: "(bool \<times> 'e) list \<Rightarrow> 'e option" where
  "first_error [] = None"
| "first_error ((bad, e) # gs) = (if bad then Some e else first_error gs)"

lemma first_error_None_iff: "first_error gs = None \<longleftrightarrow> (\<forall>g \<in> set gs. \<not> fst g)"
  by (induction gs rule: first_error.induct) auto

lemma first_error_append:
  "first_error (gs @ hs) = (case first_error gs of None \<Rightarrow> first_error hs | Some e \<Rightarrow> Some e)"
  by (induction gs rule: first_error.induct) auto

text \<open>The first element of a list on which a check fails, with the check's error.\<close>

fun first_failure :: "('a \<Rightarrow> 'e option) \<Rightarrow> 'a list \<Rightarrow> 'e option" where
  "first_failure f [] = None"
| "first_failure f (x # xs) = (case f x of None \<Rightarrow> first_failure f xs | Some e \<Rightarrow> Some e)"

lemma first_failure_None_iff: "first_failure f xs = None \<longleftrightarrow> (\<forall>x \<in> set xs. f x = None)"
  by (induction xs) (auto split: option.splits)

text \<open>The \<open>if err != nil { return ..., err }\<close> idiom.\<close>

definition and_then :: "'e + 'a \<Rightarrow> ('a \<Rightarrow> 'e + 'b) \<Rightarrow> 'e + 'b" where
  "and_then r k = (case r of Inl e \<Rightarrow> Inl e | Inr x \<Rightarrow> k x)"

lemma and_then_simps [simp]:
  "and_then (Inl e) k = Inl e"
  "and_then (Inr x) k = k x"
  by (simp_all add: and_then_def)

lemma and_then_Inr_iff: "and_then r k = Inr y \<longleftrightarrow> (\<exists>x. r = Inr x \<and> k x = Inr y)"
  by (cases r) auto

section \<open>Byte strings\<close>

text \<open>
  A Go string is a sequence of bytes. \<open>unicode.IsSpace\<close> holds for the ASCII blanks and
  for the code points below, listed by their UTF-8 encodings. No encoding starts with a
  continuation byte, so looking for one at every byte is what Go's rune-wise scan does.
\<close>

definition ascii_space :: "char \<Rightarrow> bool" where
  "ascii_space c \<longleftrightarrow> c \<in> {CHR 0x09, CHR 0x0A, CHR 0x0B, CHR 0x0C, CHR 0x0D, CHR '' ''}"

definition unicode_space2 :: "char \<Rightarrow> char \<Rightarrow> bool" where
  "unicode_space2 a b \<longleftrightarrow> a = CHR 0xC2 \<and> b \<in> {CHR 0x85, CHR 0xA0}"

definition unicode_space3 :: "char \<Rightarrow> char \<Rightarrow> char \<Rightarrow> bool" where
  "unicode_space3 a b c \<longleftrightarrow>
     a = CHR 0xE1 \<and> b = CHR 0x9A \<and> c = CHR 0x80 \<or>
     a = CHR 0xE2 \<and> b = CHR 0x80 \<and>
       c \<in> {CHR 0x80, CHR 0x81, CHR 0x82, CHR 0x83, CHR 0x84, CHR 0x85, CHR 0x86, CHR 0x87,
            CHR 0x88, CHR 0x89, CHR 0x8A, CHR 0xA8, CHR 0xA9, CHR 0xAF} \<or>
     a = CHR 0xE2 \<and> b = CHR 0x81 \<and> c = CHR 0x9F \<or>
     a = CHR 0xE3 \<and> b = CHR 0x80 \<and> c = CHR 0x80"

text \<open>The length of the blank a string starts with, 0 if it starts with none.\<close>

fun space_at :: "string \<Rightarrow> nat" where
  "space_at [] = 0"
| "space_at [a] = (if ascii_space a then 1 else 0)"
| "space_at [a, b] = (if ascii_space a then 1 else if unicode_space2 a b then 2 else 0)"
| "space_at (a # b # c # s) =
     (if ascii_space a then 1 else if unicode_space2 a b then 2
      else if unicode_space3 a b c then 3 else 0)"

text \<open>The same for the blank at the end, on the reversed string.\<close>

fun space_end :: "string \<Rightarrow> nat" where
  "space_end [] = 0"
| "space_end [a] = (if ascii_space a then 1 else 0)"
| "space_end [b, a] = (if ascii_space b then 1 else if unicode_space2 a b then 2 else 0)"
| "space_end (c # b # a # s) =
     (if ascii_space c then 1 else if unicode_space2 b c then 2
      else if unicode_space3 a b c then 3 else 0)"

lemma space_at_le: "space_at s \<le> length s"
  by (cases s rule: space_at.cases) auto

lemma space_end_le: "space_end s \<le> length s"
  by (cases s rule: space_end.cases) auto

function trim_with :: "(string \<Rightarrow> nat) \<Rightarrow> string \<Rightarrow> string" where
  "trim_with f s = (if f s = 0 \<or> length s < f s then s else trim_with f (drop (f s) s))"
  by pat_completeness auto
termination
  by (relation "measure (\<lambda>(f, s). length s)") auto

declare trim_with.simps [simp del]

text \<open>\<open>strings.TrimSpace\<close>: blanks off the left, then off the right.\<close>

definition TrimSpace :: "string \<Rightarrow> string" where
  "TrimSpace s = rev (trim_with space_end (rev (trim_with space_at s)))"

lemma trim_with_stop: "f s = 0 \<Longrightarrow> trim_with f s = s"
  by (subst trim_with.simps) simp

lemma trim_with_step:
  "f s \<noteq> 0 \<Longrightarrow> f s \<le> length s \<Longrightarrow> trim_with f s = trim_with f (drop (f s) s)"
  by (subst trim_with.simps) simp

lemma trim_with_done: "(\<And>s. f s \<le> length s) \<Longrightarrow> f (trim_with f s) = 0"
proof (induction f s rule: trim_with.induct)
  case (1 f s)
  show ?case
  proof (cases "f s = 0")
    case True
    then show ?thesis by (simp add: trim_with_stop)
  next
    case False
    with "1" show ?thesis
      by (simp add: trim_with_step not_less)
  qed
qed

lemma trim_with_suffix: "\<exists>p. s = p @ trim_with f s"
proof (induction f s rule: trim_with.induct)
  case (1 f s)
  show ?case
  proof (cases "f s = 0 \<or> length s < f s")
    case True
    then show ?thesis by (subst trim_with.simps) simp
  next
    case False
    with "1" obtain p where "drop (f s) s = p @ trim_with f (drop (f s) s)" by blast
    with False have "s = (take (f s) s @ p) @ trim_with f s"
      by (metis append.assoc append_take_drop_id linorder_not_less trim_with_step)
    then show ?thesis by blast
  qed
qed

lemma space_at_prefix: "space_at (s @ t) = 0 \<Longrightarrow> space_at s = 0"
proof -
  have alt: "space_at u = 0 \<longleftrightarrow>
      \<not> (\<exists>a v. u = a # v \<and> ascii_space a) \<and>
      \<not> (\<exists>a b v. u = a # b # v \<and> unicode_space2 a b) \<and>
      \<not> (\<exists>a b c v. u = a # b # c # v \<and> unicode_space3 a b c)" for u
    by (cases u rule: space_at.cases) simp_all
  assume "space_at (s @ t) = 0"
  then show ?thesis
    unfolding alt by (metis append_Cons)
qed

lemma TrimSpace_idem [simp]: "TrimSpace (TrimSpace s) = TrimSpace s"
proof -
  let ?l = "trim_with space_at s"
  let ?r = "trim_with space_end (rev ?l)"
  have "space_at ?l = 0" by (rule trim_with_done) (rule space_at_le)
  moreover obtain p where "rev ?l = p @ ?r" using trim_with_suffix by blast
  then have "?l = rev ?r @ rev p" by (metis rev_append rev_rev_ident)
  ultimately have "space_at (rev ?r) = 0" by (metis space_at_prefix)
  moreover have "space_end ?r = 0" by (rule trim_with_done) (rule space_end_le)
  ultimately show ?thesis
    by (simp add: TrimSpace_def trim_with_stop)
qed

lemma TrimSpace_Nil [simp]: "TrimSpace [] = []"
  by (simp add: TrimSpace_def trim_with_stop)

text \<open>
  For evaluation: an untouched string. Its first byte begins no blank, and its last byte
  ends none.
\<close>

definition plain_head :: "char \<Rightarrow> bool" where
  "plain_head c \<longleftrightarrow> \<not> ascii_space c \<and> c \<notin> {CHR 0xC2, CHR 0xE1, CHR 0xE2, CHR 0xE3}"

definition plain_last :: "char \<Rightarrow> bool" where
  "plain_last c \<longleftrightarrow> \<not> ascii_space c \<and>
     c \<notin> {CHR 0x80, CHR 0x81, CHR 0x82, CHR 0x83, CHR 0x84, CHR 0x85, CHR 0x86, CHR 0x87,
          CHR 0x88, CHR 0x89, CHR 0x8A, CHR 0x9F, CHR 0xA0, CHR 0xA8, CHR 0xA9, CHR 0xAF}"

lemma space_at_plain: "plain_head c \<Longrightarrow> space_at (c # s) = 0"
proof -
  assume "plain_head c"
  then have "\<not> ascii_space c" "\<And>b. \<not> unicode_space2 c b" "\<And>a b. \<not> unicode_space3 c a b"
    by (simp_all add: plain_head_def unicode_space2_def unicode_space3_def)
  then show ?thesis
    by (cases "c # s" rule: space_at.cases) simp_all
qed

lemma space_end_plain: "plain_last c \<Longrightarrow> space_end (c # s) = 0"
proof -
  assume c: "plain_last c"
  have "\<not> ascii_space c" "\<And>b. \<not> unicode_space2 b c" "\<And>a b. \<not> unicode_space3 a b c"
    using c by (simp_all add: plain_last_def unicode_space2_def unicode_space3_def)
  then show ?thesis
    by (cases "c # s" rule: space_end.cases) simp_all
qed

lemma TrimSpace_plain: "plain_head (hd s) \<Longrightarrow> plain_last (last s) \<Longrightarrow> TrimSpace s = s"
proof (cases "s = []")
  case False
  assume h: "plain_head (hd s)" and l: "plain_last (last s)"
  from False have hd_s: "hd s # tl s = s" by simp
  from False have rev_s: "rev s = last s # rev (butlast s)"
    by (metis append_butlast_last_id rev_eq_Cons_iff rev_rev_ident)
  from space_at_plain [OF h, of "tl s"] have "space_at s = 0" by (simp only: hd_s)
  moreover have "space_end (rev s) = 0" unfolding rev_s by (rule space_end_plain [OF l])
  ultimately show ?thesis
    by (simp add: TrimSpace_def trim_with_stop)
qed simp

text \<open>
  \<open>strings.ToLower\<close>. Go also folds letters beyond ASCII; the strings the code folds
  (statuses, digests, identifiers) are ASCII, and the model leaves other bytes alone.
\<close>

definition lower_char :: "char \<Rightarrow> char" where
  "lower_char c =
     (if 65 \<le> (of_char c :: nat) \<and> (of_char c :: nat) \<le> 90 then char_of (of_char c + 32 :: nat) else c)"

text \<open>Bit by bit, for evaluation: an upper-case letter gains its sixth bit.\<close>

lemma lower_char_bits [code]:
  "lower_char (Char a b c d e f g h) =
     (if \<not> h \<and> g \<and> \<not> f \<and> (a \<or> b \<or> c \<or> d \<or> e) \<and> \<not> (e \<and> d \<and> (c \<or> b \<and> a))
      then Char a b c d e True g h else Char a b c d e f g h)"
  by (cases a; cases b; cases c; cases d; cases e; cases f; cases g; cases h) (simp_all add: lower_char_def char_of_def bit_iff_odd)

definition ToLower :: "string \<Rightarrow> string" where
  "ToLower s = map lower_char s"

lemma lower_char_idem [simp]: "lower_char (lower_char c) = lower_char c"
proof -
  have "of_char c + 32 < (256 :: nat)" if "(of_char c :: nat) \<le> 90" using that by simp
  then show ?thesis by (auto simp: lower_char_def)
qed

lemma ToLower_idem [simp]: "ToLower (ToLower s) = ToLower s"
  by (simp add: ToLower_def)

lemma ToLower_Nil_iff [simp]: "ToLower s = [] \<longleftrightarrow> s = []"
  by (simp add: ToLower_def)

text \<open>Lower-casing neither makes nor removes a blank.\<close>

lemma lower_char_other:
  assumes "\<not> (65 \<le> (of_char c :: nat) \<and> (of_char c :: nat) \<le> 122)"
  shows "lower_char x = c \<longleftrightarrow> x = c"
proof (cases "65 \<le> (of_char x :: nat) \<and> (of_char x :: nat) \<le> 90")
  case True
  then have "(of_char (lower_char x) :: nat) = of_char x + 32" by (simp add: lower_char_def)
  with True assms show ?thesis by auto
qed (auto simp: lower_char_def)

lemma blank_lower:
  "ascii_space (lower_char a) = ascii_space a"
  "unicode_space2 (lower_char a) (lower_char b) = unicode_space2 a b"
  "unicode_space3 (lower_char a) (lower_char b) (lower_char c) = unicode_space3 a b c"
  unfolding ascii_space_def unicode_space2_def unicode_space3_def insert_iff empty_iff
  by (simp_all add: lower_char_other)

lemma space_at_lower: "space_at (map lower_char s) = space_at s"
  by (cases s rule: space_at.cases) (simp_all add: blank_lower)

lemma space_end_lower: "space_end (map lower_char s) = space_end s"
  by (cases s rule: space_end.cases) (simp_all add: blank_lower)

lemma TrimSpace_fixed_iff: "TrimSpace s = s \<longleftrightarrow> space_at s = 0 \<and> space_end (rev s) = 0"
proof
  assume fixed: "TrimSpace s = s"
  let ?l = "trim_with space_at s"
  obtain p where p: "s = p @ ?l" using trim_with_suffix by blast
  obtain q where q: "rev ?l = q @ trim_with space_end (rev ?l)" using trim_with_suffix by blast
  have "length s = length (trim_with space_end (rev ?l))" using fixed by (metis TrimSpace_def length_rev)
  with arg_cong [OF p, of length] arg_cong [OF q, of length] have "p = []" "q = []" by auto
  with p q have "s = ?l" "rev s = trim_with space_end (rev s)" by auto
  then show "space_at s = 0 \<and> space_end (rev s) = 0"
    using trim_with_done [of space_at s] trim_with_done [of space_end "rev s"] space_at_le space_end_le by simp
qed (simp add: TrimSpace_def trim_with_stop)

lemma TrimSpace_ToLower [simp]: "TrimSpace (ToLower (TrimSpace s)) = ToLower (TrimSpace s)"
proof -
  have "space_at (TrimSpace s) = 0 \<and> space_end (rev (TrimSpace s)) = 0"
    by (simp flip: TrimSpace_fixed_iff)
  then show ?thesis
    unfolding TrimSpace_fixed_iff ToLower_def rev_map space_at_lower space_end_lower .
qed

text \<open>\<open>strings.Join\<close>\<close>

fun Join :: "string list \<Rightarrow> string \<Rightarrow> string" where
  "Join [] sep = []"
| "Join [w] sep = w"
| "Join (w # v # ws) sep = w @ sep @ Join (v # ws) sep"

text \<open>\<open>strings.Fields\<close>: the words between blanks; the first argument is the word being read, reversed.\<close>

function fields_from :: "string \<Rightarrow> string \<Rightarrow> string list" where
  "fields_from w [] = (if w = [] then [] else [rev w])"
| "fields_from w (c # s) =
     (let n = space_at (c # s) in
      if n = 0 then fields_from (c # w) s
      else (if w = [] then [] else [rev w]) @ fields_from [] (drop n (c # s)))"
  by pat_completeness auto
termination
  by (relation "measure (\<lambda>(w, s). length s)") (auto simp del: drop_Cons')

definition Fields :: "string \<Rightarrow> string list" where
  "Fields s = fields_from [] s"

text \<open>\<open>strings.EqualFold\<close>, on texts of which one is ASCII without the letters \<open>k\<close> and \<open>s\<close>.\<close>

definition EqualFold :: "string \<Rightarrow> string \<Rightarrow> bool" where
  "EqualFold a b \<longleftrightarrow> ToLower a = ToLower b"

text \<open>\<open>fmt.Sprintf\<close> of a count.\<close>

fun decimal :: "nat \<Rightarrow> string" where
  "decimal n = (if n < 10 then [char_of (48 + n)] else decimal (n div 10) @ [char_of (48 + n mod 10)])"

declare decimal.simps [simp del]

text \<open>A decoded JSON value, with \<open>UseNumber\<close>; the fields of an object in any order.\<close>

datatype JSON =
    JNull | JBool bool | JNumber string | JString string | JArray "JSON list"
  | JObject "(string \<times> JSON) list"

text \<open>\<open>time.Time.Sub\<close> saturates.\<close>

definition time_Sub :: "instant \<Rightarrow> instant \<Rightarrow> int" where
  "time_Sub t u = max (- (2 ^ 63)) (min (2 ^ 63 - 1) (t - u))"

text \<open>Sorting by keys that are distinct depends on the set only.\<close>

lemma sort_key_fst_cong:
  fixes xs ys :: "(string \<times> 'a) list"
  assumes "distinct (map fst xs)" "distinct (map fst ys)" "set xs = set ys"
  shows "sort_key fst xs = sort_key fst ys"
proof (rule map_sorted_distinct_set_unique [of fst])
  show "inj_on fst (set (sort_key fst xs) \<union> set (sort_key fst ys))"
    using assms by (simp add: distinct_map)
  show "distinct (map fst (sort_key fst xs))" "distinct (map fst (sort_key fst ys))"
    using assms by (simp_all add: distinct_map)
qed (simp_all add: assms(3))

end
