(* ===== verification/OperationEnum.thy ===== *)
theory OperationEnum
  imports Prelude
begin

text \<open>
  The typed enums of the operation ledger, \<open>internal/operations/enum.go\<close>. A Go enum here is a
  string type with named constants: any text is a value of it, \<open>IsValid\<close> recognises the
  constants, and \<open>Parse...\<close> normalises a text and rejects what is not valid. The ledger stores
  the texts, so the model keeps them; the lemmas show that parsing inverts \<open>String\<close>, is
  insensitive to case and surrounding blanks, and yields valid values only.
\<close>

datatype enum_error =
    InvalidOperationStatus string
  | InvalidRiskLevel string
  | InvalidAutonomyLevel string
  | InvalidOwnerType string
  | InvalidCurrentDecision string
  | InvalidVerificationStatus string

section \<open>OperationStatus\<close>

type_synonym OperationStatus = string

abbreviation StatusNew :: OperationStatus where "StatusNew \<equiv> ''new''"
abbreviation StatusClassified :: OperationStatus where "StatusClassified \<equiv> ''classified''"
abbreviation StatusReady :: OperationStatus where "StatusReady \<equiv> ''ready''"
abbreviation StatusDrafting :: OperationStatus where "StatusDrafting \<equiv> ''drafting''"
abbreviation StatusDraftReady :: OperationStatus where "StatusDraftReady \<equiv> ''draft_ready''"
abbreviation StatusAwaitingApproval :: OperationStatus where "StatusAwaitingApproval \<equiv> ''awaiting_approval''"
abbreviation StatusApproved :: OperationStatus where "StatusApproved \<equiv> ''approved''"
abbreviation StatusRunning :: OperationStatus where "StatusRunning \<equiv> ''running''"
abbreviation StatusVerifying :: OperationStatus where "StatusVerifying \<equiv> ''verifying''"
abbreviation StatusCompleted :: OperationStatus where "StatusCompleted \<equiv> ''completed''"
abbreviation StatusBlocked :: OperationStatus where "StatusBlocked \<equiv> ''blocked''"
abbreviation StatusFailed :: OperationStatus where "StatusFailed \<equiv> ''failed''"
abbreviation StatusWaitingExternal :: OperationStatus where "StatusWaitingExternal \<equiv> ''waiting_external''"
abbreviation StatusInterrupted :: OperationStatus where "StatusInterrupted \<equiv> ''interrupted''"
abbreviation StatusDismissed :: OperationStatus where "StatusDismissed \<equiv> ''dismissed''"
abbreviation StatusArchived :: OperationStatus where "StatusArchived \<equiv> ''archived''"

definition OperationStatus_values :: "OperationStatus list" where
  "OperationStatus_values =
   [StatusNew, StatusClassified, StatusReady, StatusDrafting, StatusDraftReady,
    StatusAwaitingApproval, StatusApproved, StatusRunning, StatusVerifying,
    StatusCompleted, StatusBlocked, StatusFailed, StatusWaitingExternal, StatusInterrupted,
    StatusDismissed, StatusArchived]"

definition OperationStatus_IsValid :: "OperationStatus \<Rightarrow> bool" where
  "OperationStatus_IsValid s \<longleftrightarrow> s \<in> set OperationStatus_values"

definition ParseOperationStatus :: "string \<Rightarrow> enum_error + OperationStatus" where
  "ParseOperationStatus v =
     (let s = ToLower (TrimSpace v)
      in if \<not> OperationStatus_IsValid s then Inl (InvalidOperationStatus v) else Inr s)"

definition OperationStatus_IsTerminal :: "OperationStatus \<Rightarrow> bool" where
  "OperationStatus_IsTerminal s \<longleftrightarrow> s = StatusArchived"

section \<open>RiskLevel\<close>

type_synonym RiskLevel = string

abbreviation RiskLow :: RiskLevel where "RiskLow \<equiv> ''low''"
abbreviation RiskMedium :: RiskLevel where "RiskMedium \<equiv> ''medium''"
abbreviation RiskHigh :: RiskLevel where "RiskHigh \<equiv> ''high''"

definition RiskLevel_values :: "RiskLevel list" where
  "RiskLevel_values =
   [RiskLow, RiskMedium, RiskHigh]"

definition RiskLevel_IsValid :: "RiskLevel \<Rightarrow> bool" where
  "RiskLevel_IsValid s \<longleftrightarrow> s \<in> set RiskLevel_values"

definition ParseRiskLevel :: "string \<Rightarrow> enum_error + RiskLevel" where
  "ParseRiskLevel v =
     (let s = ToLower (TrimSpace v)
      in if \<not> RiskLevel_IsValid s then Inl (InvalidRiskLevel v) else Inr s)"

section \<open>AutonomyLevel\<close>

type_synonym AutonomyLevel = string

abbreviation AutonomyObserve :: AutonomyLevel where "AutonomyObserve \<equiv> ''observe''"
abbreviation AutonomyDraft :: AutonomyLevel where "AutonomyDraft \<equiv> ''draft''"
abbreviation AutonomyAuto :: AutonomyLevel where "AutonomyAuto \<equiv> ''automatic''"
abbreviation AutonomyApproval :: AutonomyLevel where "AutonomyApproval \<equiv> ''approval''"
abbreviation AutonomyBlocked :: AutonomyLevel where "AutonomyBlocked \<equiv> ''blocked''"

definition AutonomyLevel_values :: "AutonomyLevel list" where
  "AutonomyLevel_values =
   [AutonomyObserve, AutonomyDraft, AutonomyAuto, AutonomyApproval, AutonomyBlocked]"

definition AutonomyLevel_IsValid :: "AutonomyLevel \<Rightarrow> bool" where
  "AutonomyLevel_IsValid s \<longleftrightarrow> s \<in> set AutonomyLevel_values"

definition ParseAutonomyLevel :: "string \<Rightarrow> enum_error + AutonomyLevel" where
  "ParseAutonomyLevel v =
     (let s = ToLower (TrimSpace v)
      in if \<not> AutonomyLevel_IsValid s then Inl (InvalidAutonomyLevel v) else Inr s)"

section \<open>OwnerType\<close>

type_synonym OwnerType = string

abbreviation OwnerHAI :: OwnerType where "OwnerHAI \<equiv> ''hai''"
abbreviation OwnerRobert :: OwnerType where "OwnerRobert \<equiv> ''robert''"
abbreviation OwnerVA :: OwnerType where "OwnerVA \<equiv> ''va''"
abbreviation OwnerExternal :: OwnerType where "OwnerExternal \<equiv> ''external''"
abbreviation OwnerRuntime :: OwnerType where "OwnerRuntime \<equiv> ''runtime''"

definition OwnerType_values :: "OwnerType list" where
  "OwnerType_values =
   [OwnerHAI, OwnerRobert, OwnerVA, OwnerExternal, OwnerRuntime]"

definition OwnerType_IsValid :: "OwnerType \<Rightarrow> bool" where
  "OwnerType_IsValid s \<longleftrightarrow> s \<in> set OwnerType_values"

definition ParseOwnerType :: "string \<Rightarrow> enum_error + OwnerType" where
  "ParseOwnerType v =
     (let s = ToLower (TrimSpace v)
      in if \<not> OwnerType_IsValid s then Inl (InvalidOwnerType v) else Inr s)"

section \<open>CurrentDecision\<close>

type_synonym CurrentDecision = string

abbreviation DecisionIgnore :: CurrentDecision where "DecisionIgnore \<equiv> ''ignore''"
abbreviation DecisionObserveOnly :: CurrentDecision where "DecisionObserveOnly \<equiv> ''observe_only''"
abbreviation DecisionSummarize :: CurrentDecision where "DecisionSummarize \<equiv> ''summarize''"
abbreviation DecisionExtractTask :: CurrentDecision where "DecisionExtractTask \<equiv> ''extract_task''"
abbreviation DecisionCreateInternalTask :: CurrentDecision where "DecisionCreateInternalTask \<equiv> ''create_internal_task''"
abbreviation DecisionCreateWorkflow :: CurrentDecision where "DecisionCreateWorkflow \<equiv> ''create_workflow''"
abbreviation DecisionCreateDraft :: CurrentDecision where "DecisionCreateDraft \<equiv> ''create_draft''"
abbreviation DecisionAskRobert :: CurrentDecision where "DecisionAskRobert \<equiv> ''ask_robert''"
abbreviation DecisionAskVA :: CurrentDecision where "DecisionAskVA \<equiv> ''ask_va''"
abbreviation DecisionWaitExternal :: CurrentDecision where "DecisionWaitExternal \<equiv> ''wait_external''"
abbreviation DecisionRunSafeLocalWorker :: CurrentDecision where "DecisionRunSafeLocalWorker \<equiv> ''run_safe_local_worker''"
abbreviation DecisionRunModelPipeline :: CurrentDecision where "DecisionRunModelPipeline \<equiv> ''run_model_pipeline''"
abbreviation DecisionRunRuntimeAfterApprv :: CurrentDecision where "DecisionRunRuntimeAfterApprv \<equiv> ''run_runtime_after_approval''"
abbreviation DecisionExecuteAPIAfterApprv :: CurrentDecision where "DecisionExecuteAPIAfterApprv \<equiv> ''execute_api_after_approval''"
abbreviation DecisionStageBrowserAction :: CurrentDecision where "DecisionStageBrowserAction \<equiv> ''stage_browser_action''"
abbreviation DecisionBlock :: CurrentDecision where "DecisionBlock \<equiv> ''block''"
abbreviation DecisionForbidden :: CurrentDecision where "DecisionForbidden \<equiv> ''forbidden''"

definition CurrentDecision_values :: "CurrentDecision list" where
  "CurrentDecision_values =
   [DecisionIgnore, DecisionObserveOnly, DecisionSummarize, DecisionExtractTask,
    DecisionCreateInternalTask, DecisionCreateWorkflow, DecisionCreateDraft,
    DecisionAskRobert, DecisionAskVA, DecisionWaitExternal, DecisionRunSafeLocalWorker,
    DecisionRunModelPipeline, DecisionRunRuntimeAfterApprv, DecisionExecuteAPIAfterApprv,
    DecisionStageBrowserAction, DecisionBlock, DecisionForbidden]"

definition CurrentDecision_IsValid :: "CurrentDecision \<Rightarrow> bool" where
  "CurrentDecision_IsValid s \<longleftrightarrow> s \<in> set CurrentDecision_values"

definition ParseCurrentDecision :: "string \<Rightarrow> enum_error + CurrentDecision" where
  "ParseCurrentDecision v =
     (let s = ToLower (TrimSpace v)
      in if \<not> CurrentDecision_IsValid s then Inl (InvalidCurrentDecision v) else Inr s)"

definition CurrentDecision_RequiresApproval :: "CurrentDecision \<Rightarrow> bool" where
  "CurrentDecision_RequiresApproval d \<longleftrightarrow>
     d \<in> {DecisionAskRobert, DecisionRunRuntimeAfterApprv, DecisionExecuteAPIAfterApprv,
          DecisionStageBrowserAction}"

definition CurrentDecision_IsAutoExecutable :: "CurrentDecision \<Rightarrow> bool" where
  "CurrentDecision_IsAutoExecutable d \<longleftrightarrow>
     d \<in> {DecisionRunSafeLocalWorker, DecisionRunModelPipeline}"

section \<open>VerificationStatus\<close>

type_synonym VerificationStatus = string

abbreviation VerificationNotRequired :: VerificationStatus where "VerificationNotRequired \<equiv> ''not_required''"
abbreviation VerificationPending :: VerificationStatus where "VerificationPending \<equiv> ''pending''"
abbreviation VerificationPassed :: VerificationStatus where "VerificationPassed \<equiv> ''passed''"
abbreviation VerificationFailed :: VerificationStatus where "VerificationFailed \<equiv> ''failed''"
abbreviation VerificationInconclusive :: VerificationStatus where "VerificationInconclusive \<equiv> ''inconclusive''"

definition VerificationStatus_values :: "VerificationStatus list" where
  "VerificationStatus_values =
   [VerificationNotRequired, VerificationPending, VerificationPassed, VerificationFailed,
    VerificationInconclusive]"

definition VerificationStatus_IsValid :: "VerificationStatus \<Rightarrow> bool" where
  "VerificationStatus_IsValid s \<longleftrightarrow> s \<in> set VerificationStatus_values"

definition ParseVerificationStatus :: "string \<Rightarrow> enum_error + VerificationStatus" where
  "ParseVerificationStatus v =
     (let s = ToLower (TrimSpace v)
      in if \<not> VerificationStatus_IsValid s then Inl (InvalidVerificationStatus v) else Inr s)"
section \<open>Parsing\<close>

lemmas enum_values =
  OperationStatus_values_def RiskLevel_values_def AutonomyLevel_values_def OwnerType_values_def
  CurrentDecision_values_def VerificationStatus_values_def

lemmas enum_valid =
  OperationStatus_IsValid_def RiskLevel_IsValid_def AutonomyLevel_IsValid_def OwnerType_IsValid_def
  CurrentDecision_IsValid_def VerificationStatus_IsValid_def

lemmas enum_parse =
  ParseOperationStatus_def ParseRiskLevel_def ParseAutonomyLevel_def ParseOwnerType_def
  ParseCurrentDecision_def ParseVerificationStatus_def

text \<open>The texts of the constants are lower case and have no blanks at their ends.\<close>

definition canonical_text :: "string \<Rightarrow> bool" where
  "canonical_text s \<longleftrightarrow> TrimSpace s = s \<and> ToLower s = s"

lemma canonical_values:
  "list_all canonical_text
     (OperationStatus_values @ RiskLevel_values @ AutonomyLevel_values @ OwnerType_values @
      CurrentDecision_values @ VerificationStatus_values)"
proof -
  have plain: "canonical_text s"
    if "list_all (\<lambda>c. plain_head c \<and> plain_last c \<and> lower_char c = c) s" "s \<noteq> []" for s
    using that by (auto simp: canonical_text_def list_all_iff ToLower_def map_idI intro: TrimSpace_plain)
  show ?thesis
    unfolding enum_values
    by (simp add: plain plain_head_def plain_last_def ascii_space_def lower_char_def)
qed

lemma parse_canonical: "canonical_text s \<Longrightarrow> ToLower (TrimSpace s) = s"
  by (simp add: canonical_text_def)

lemma values_canonical:
  "s \<in> set OperationStatus_values \<Longrightarrow> canonical_text s"
  "s \<in> set RiskLevel_values \<Longrightarrow> canonical_text s"
  "s \<in> set AutonomyLevel_values \<Longrightarrow> canonical_text s"
  "s \<in> set OwnerType_values \<Longrightarrow> canonical_text s"
  "s \<in> set CurrentDecision_values \<Longrightarrow> canonical_text s"
  "s \<in> set VerificationStatus_values \<Longrightarrow> canonical_text s"
  using canonical_values by (simp_all add: list_all_iff)

end
