(* ===== verification/StateMachine.thy ===== *)
theory StateMachine
  imports Prelude
begin

text \<open>
  The generic finite state machine of \<open>internal/statemachine/statemachine.go\<close>: a table of
  allowed transitions built once by \<open>New\<close> and the queries on it. The locale
  \<open>transition_table\<close> is the interface a client of such a table relies on: its list of next
  states names exactly the allowed transitions. Reachability facts of a client are
  proved in the locale from a set of states that is closed under that list.
\<close>

section \<open>The machine\<close>

type_synonym State = string

text \<open>
  A Go map is an association list with distinct keys; \<open>map_of\<close> reads it and
  \<open>AList.update\<close> writes it.
\<close>

record Machine =
  transitions :: "(State \<times> (State \<times> bool) list) list"
  terminal :: "(State \<times> bool) list"

definition target_set :: "State list \<Rightarrow> (State \<times> bool) list" where
  "target_set tos = fold (\<lambda>to s. AList.update to True s) tos []"

definition add_transitions :: "State \<times> State list \<Rightarrow> Machine \<Rightarrow> Machine" where
  "add_transitions ft m =
     (let frm = fst ft; tos = snd ft;
          m = m\<lparr>transitions := AList.update frm (target_set tos) (transitions m)\<rparr>
      in if length tos = 0 then m\<lparr>terminal := AList.update frm True (terminal m)\<rparr> else m)"

definition New_machine :: "(State \<times> State list) list \<Rightarrow> Machine" where
  "New_machine table = fold add_transitions table \<lparr>transitions = [], terminal = []\<rparr>"

definition CanTransition_machine :: "Machine \<Rightarrow> State \<Rightarrow> State \<Rightarrow> bool" where
  "CanTransition_machine m frm to =
     (case map_of (transitions m) frm of None \<Rightarrow> False | Some nexts \<Rightarrow> map_of nexts to = Some True)"

definition Transition_machine :: "Machine \<Rightarrow> State \<Rightarrow> State \<Rightarrow> State \<times> bool" where
  "Transition_machine m frm to =
     (if CanTransition_machine m frm to then (to, True) else (frm, False))"

definition IsTerminal_machine :: "Machine \<Rightarrow> State \<Rightarrow> bool" where
  "IsTerminal_machine m state \<longleftrightarrow> map_of (terminal m) state = Some True"

definition Next_machine :: "Machine \<Rightarrow> State \<Rightarrow> State list" where
  "Next_machine m frm =
     sort (map fst (case map_of (transitions m) frm of None \<Rightarrow> [] | Some s \<Rightarrow> s))"

section \<open>What the table means\<close>

lemma target_set_fold:
  "distinct (map fst s) \<Longrightarrow>
     distinct (map fst (fold (\<lambda>to s. AList.update to True s) tos s)) \<and>
     map_of (fold (\<lambda>to s. AList.update to True s) tos s) x =
       (if x \<in> set tos then Some True else map_of s x)"
proof (induction tos arbitrary: s)
  case (Cons to tos)
  have "distinct (map fst (AList.update to True s))"
    using Cons.prems by (rule distinct_update)
  from Cons.IH [OF this] show ?case
    by (simp add: update_conv')
qed simp

lemma target_set_distinct: "distinct (map fst (target_set tos))"
  unfolding target_set_def using target_set_fold [of "[]" tos] by simp

lemma map_of_target_set: "map_of (target_set tos) x = (if x \<in> set tos then Some True else None)"
  unfolding target_set_def using target_set_fold [of "[]" tos x] by simp

lemma keys_target_set: "set (map fst (target_set tos)) = set tos"
proof -
  have "dom (map_of (target_set tos)) = set tos"
    by (auto simp: map_of_target_set dom_def split: if_splits)
  then show ?thesis
    by (simp add: dom_map_of_conv_image_fst)
qed

lemma add_transitions_lookup:
  "map_of (transitions (add_transitions (frm, tos) m)) x =
     (if x = frm then Some (target_set tos) else map_of (transitions m) x)"
  "map_of (terminal (add_transitions (frm, tos) m)) x =
     (if x = frm \<and> tos = [] then Some True else map_of (terminal m) x)"
  by (auto simp: add_transitions_def Let_def update_conv')

lemma New_machine_fold:
  "distinct (map fst table) \<Longrightarrow>
     map_of (transitions (fold add_transitions table m)) x =
       (case map_of table x of None \<Rightarrow> map_of (transitions m) x | Some tos \<Rightarrow> Some (target_set tos)) \<and>
     map_of (terminal (fold add_transitions table m)) x =
       (if map_of table x = Some [] then Some True else map_of (terminal m) x)"
proof (induction table arbitrary: m)
  case (Cons ft table)
  obtain frm tos where ft: "ft = (frm, tos)" by (cases ft)
  with Cons.prems have "map_of table frm = None"
    by (simp add: map_of_eq_None_iff)
  with Cons show ?case
    by (auto simp: ft add_transitions_lookup split: option.splits)
qed simp

lemma New_machine_transitions:
  "distinct (map fst table) \<Longrightarrow>
     map_of (transitions (New_machine table)) x = map_option target_set (map_of table x)"
  using New_machine_fold [of table "\<lparr>transitions = [], terminal = []\<rparr>" x]
  by (simp add: New_machine_def split: option.splits)

lemma New_machine_terminal:
  "distinct (map fst table) \<Longrightarrow>
     map_of (terminal (New_machine table)) x = (if map_of table x = Some [] then Some True else None)"
  using New_machine_fold [of table "\<lparr>transitions = [], terminal = []\<rparr>" x]
  by (simp add: New_machine_def)

text \<open>The table a machine is built from, as a relation.\<close>

definition table_allows :: "(State \<times> State list) list \<Rightarrow> State \<Rightarrow> State \<Rightarrow> bool" where
  "table_allows table frm to \<longleftrightarrow> (\<exists>tos. map_of table frm = Some tos \<and> to \<in> set tos)"

lemma CanTransition_New:
  "distinct (map fst table) \<Longrightarrow>
     CanTransition_machine (New_machine table) frm to \<longleftrightarrow> table_allows table frm to"
  by (cases "map_of table frm")
    (simp_all add: CanTransition_machine_def table_allows_def New_machine_transitions map_of_target_set)

lemma set_Next_New:
  "distinct (map fst table) \<Longrightarrow>
     to \<in> set (Next_machine (New_machine table) frm) \<longleftrightarrow> table_allows table frm to"
proof -
  assume "distinct (map fst table)"
  then show ?thesis
    using keys_target_set
    by (cases "map_of table frm") (simp_all add: Next_machine_def table_allows_def New_machine_transitions)
qed

lemma Next_New_sorted:
  "distinct (map fst table) \<Longrightarrow>
     sorted (Next_machine (New_machine table) frm) \<and> distinct (Next_machine (New_machine table) frm)"
  by (cases "map_of table frm")
    (simp_all add: Next_machine_def New_machine_transitions target_set_distinct)

lemma IsTerminal_New:
  "distinct (map fst table) \<Longrightarrow>
     IsTerminal_machine (New_machine table) s \<longleftrightarrow> map_of table s = Some []"
  by (simp add: IsTerminal_machine_def New_machine_terminal)

section \<open>The interface of a transition table\<close>

locale transition_table =
  fixes can :: "'s \<Rightarrow> 's \<Rightarrow> bool" and nexts :: "'s \<Rightarrow> 's list"
  assumes nexts_can: "to \<in> set (nexts frm) \<longleftrightarrow> can frm to"
begin

text \<open>A set of states the table does not lead out of.\<close>

lemma closed_reach:
  assumes "list_all (\<lambda>s. list_all (\<lambda>t. t \<in> set S) (nexts s)) S" and "can\<^sup>*\<^sup>* a b" and "a \<in> set S"
  shows "b \<in> set S"
  using assms(2,3)
proof (induction rule: rtranclp_induct)
  case (step y z)
  then show ?case
    using assms(1) nexts_can by (auto simp: list_all_iff)
qed simp

text \<open>
  The same when some transitions are excluded: every run that takes only transitions of \<open>r\<close>
  stays in a list of states closed under the table's transitions in \<open>r\<close>.
\<close>

lemma closed_reach_within:
  assumes "list_all (\<lambda>s. list_all (\<lambda>t. r s t \<longrightarrow> t \<in> set S) (nexts s)) S"
    and "(\<lambda>s t. can s t \<and> r s t)\<^sup>*\<^sup>* a b" and "a \<in> set S"
  shows "b \<in> set S"
  using assms(2,3)
proof (induction rule: rtranclp_induct)
  case (step y z)
  then show ?case
    using assms(1) nexts_can by (auto simp: list_all_iff)
qed simp

text \<open>A path of the table is a run of the relation.\<close>

fun path :: "'s \<Rightarrow> 's list \<Rightarrow> bool" where
  "path a [] = True"
| "path a (b # bs) = (b \<in> set (nexts a) \<and> path b bs)"

lemma path_reach: "path a bs \<Longrightarrow> can\<^sup>*\<^sup>* a (last (a # bs))"
proof (induction bs arbitrary: a)
  case (Cons b bs)
  then have "can a b" "can\<^sup>*\<^sup>* b (last (b # bs))" by (simp_all add: nexts_can)
  then show ?case by (simp add: converse_rtranclp_into_rtranclp)
qed simp

end

text \<open>Every machine built by \<open>New\<close> from a map provides the interface.\<close>

lemma New_transition_table:
  "distinct (map fst table) \<Longrightarrow>
     transition_table (CanTransition_machine (New_machine table)) (Next_machine (New_machine table))"
  by unfold_locales (simp add: set_Next_New CanTransition_New)

end
