(* ===== verification/OperationLedger.thy ===== *)
theory OperationLedger
  imports OperationEnum StateMachine
begin

text \<open>
  The operation ledger of \<open>internal/operations\<close>: the aggregate and its audit events
  (\<open>internal/models/operation.go\<close>), creation, validation and status changes (\<open>domain.go\<close>),
  the status machine (\<open>state_machine.go\<close>), the in-process repository
  (\<open>memory_repository.go\<close>) and the service over it (\<open>service.go\<close>).
\<close>

section \<open>The aggregate\<close>

record Operation =
  op_ID :: uuid
  op_OwnerUserID :: string
  op_WorkspaceID :: string
  op_Title :: string
  op_Description :: string
  op_SourceType :: string
  op_SourceID :: "uuid option"
  op_SourceURI :: string
  op_SourceReceivedAt :: "instant option"
  op_SourceRevisionHash :: string
  op_ProjectKey :: string
  op_PursuitID :: "uuid option"
  op_WorkflowID :: "uuid option"
  op_AccountFeedID :: "uuid option"
  op_OperationType :: string
  op_Status :: string
  op_RiskLevel :: string
  op_AutonomyLevel :: string
  op_OwnerType :: string
  op_CurrentDecision :: string
  op_RequiresApproval :: bool
  op_ApprovalID :: "uuid option"
  op_RecommendedAction :: string
  op_EvidenceJSON :: string
  op_WorldModelStateJSON :: string
  op_RuntimeID :: string
  op_ModelProviderID :: string
  op_ModelID :: string
  op_VerificationStatus :: string
  op_ResultSummary :: string
  op_LastError :: string
  op_DedupeKey :: string
  op_NextReviewAt :: "instant option"
  op_CreatedAt :: instant
  op_UpdatedAt :: instant
  op_CompletedAt :: "instant option"
  op_Version :: "64 word"

record OperationEvent =
  ev_ID :: uuid
  ev_OperationID :: uuid
  ev_EventType :: string
  ev_ActorType :: string
  ev_ActorID :: string
  ev_BeforeStatus :: string
  ev_AfterStatus :: string
  ev_Message :: string
  ev_PayloadJSON :: string
  ev_CreatedAt :: instant

record NewOperationInput =
  in_OwnerUserID :: string
  in_WorkspaceID :: string
  in_Title :: string
  in_Description :: string
  in_OperationType :: string
  in_SourceType :: string
  in_SourceID :: "uuid option"
  in_SourceURI :: string
  in_SourceReceivedAt :: "instant option"
  in_SourceRevisionHash :: string
  in_ProjectKey :: string
  in_AccountFeedID :: "uuid option"
  in_DedupeKey :: string
  in_EvidenceJSON :: string

datatype op_error =
    OwnerUserIdRequired
  | WorkspaceIdRequired
  | TitleRequired
  | OperationTypeRequired
  | SourceTypeRequired
  | DedupeKeyRequired
  | InvalidStatus string
  | InvalidRisk string
  | InvalidAutonomy string
  | InvalidOwner string
  | InvalidDecision string
  | InvalidVerification string
  | CompletedAtNotCompleted string
  | InvalidTargetStatus string
  | IllegalTransition string string
  | CannotComplete string
  | ErrNotFound

section \<open>Creation and validation\<close>

fun firstNonEmpty :: "string list \<Rightarrow> string" where
  "firstNonEmpty [] = ''''"
| "firstNonEmpty (v # vs) = (if TrimSpace v \<noteq> '''' then v else firstNonEmpty vs)"

definition Validate :: "Operation \<Rightarrow> op_error option" where
  "Validate op = first_error
     [(TrimSpace (op_OwnerUserID op) = '''', OwnerUserIdRequired),
      (TrimSpace (op_WorkspaceID op) = '''', WorkspaceIdRequired),
      (TrimSpace (op_Title op) = '''', TitleRequired),
      (TrimSpace (op_DedupeKey op) = '''', DedupeKeyRequired),
      (\<not> OperationStatus_IsValid (op_Status op), InvalidStatus (op_Status op)),
      (\<not> RiskLevel_IsValid (op_RiskLevel op), InvalidRisk (op_RiskLevel op)),
      (\<not> AutonomyLevel_IsValid (op_AutonomyLevel op), InvalidAutonomy (op_AutonomyLevel op)),
      (\<not> OwnerType_IsValid (op_OwnerType op), InvalidOwner (op_OwnerType op)),
      (\<not> CurrentDecision_IsValid (op_CurrentDecision op), InvalidDecision (op_CurrentDecision op)),
      (\<not> VerificationStatus_IsValid (op_VerificationStatus op),
         InvalidVerification (op_VerificationStatus op)),
      (op_CompletedAt op \<noteq> None \<and> op_Status op \<noteq> StatusCompleted,
         CompletedAtNotCompleted (op_Status op))]"

definition NewOperation :: "NewOperationInput \<Rightarrow> instant \<Rightarrow> op_error + Operation" where
  "NewOperation i now =
     (case first_error
        [(TrimSpace (in_OwnerUserID i) = '''', OwnerUserIdRequired),
         (TrimSpace (in_Title i) = '''', TitleRequired),
         (TrimSpace (in_OperationType i) = '''', OperationTypeRequired),
         (TrimSpace (in_SourceType i) = '''', SourceTypeRequired),
         (TrimSpace (in_DedupeKey i) = '''', DedupeKeyRequired)]
      of Some e \<Rightarrow> Inl e
       | None \<Rightarrow>
          let op =
            \<lparr>op_ID = uuid_nil,
             op_OwnerUserID = in_OwnerUserID i,
             op_WorkspaceID = firstNonEmpty [in_WorkspaceID i, ''local''],
             op_Title = in_Title i,
             op_Description = in_Description i,
             op_SourceType = in_SourceType i,
             op_SourceID = in_SourceID i,
             op_SourceURI = in_SourceURI i,
             op_SourceReceivedAt = in_SourceReceivedAt i,
             op_SourceRevisionHash = in_SourceRevisionHash i,
             op_ProjectKey = in_ProjectKey i,
             op_PursuitID = None,
             op_WorkflowID = None,
             op_AccountFeedID = in_AccountFeedID i,
             op_OperationType = in_OperationType i,
             op_Status = StatusNew,
             op_RiskLevel = RiskLow,
             op_AutonomyLevel = AutonomyObserve,
             op_OwnerType = OwnerHAI,
             op_CurrentDecision = DecisionObserveOnly,
             op_RequiresApproval = False,
             op_ApprovalID = None,
             op_RecommendedAction = '''',
             op_EvidenceJSON = firstNonEmpty [in_EvidenceJSON i, ''{}''],
             op_WorldModelStateJSON = ''{}'',
             op_RuntimeID = '''',
             op_ModelProviderID = '''',
             op_ModelID = '''',
             op_VerificationStatus = VerificationNotRequired,
             op_ResultSummary = '''',
             op_LastError = '''',
             op_DedupeKey = in_DedupeKey i,
             op_NextReviewAt = None,
             op_CreatedAt = now,
             op_UpdatedAt = now,
             op_CompletedAt = None,
             op_Version = 1\<rparr>
          in (case Validate op of Some e \<Rightarrow> Inl e | None \<Rightarrow> Inr op))"

definition CanRun :: "Operation \<Rightarrow> bool" where
  "CanRun op = (let s = op_Status op in s = StatusReady \<or> s = StatusApproved)"

definition NeedsRobert :: "Operation \<Rightarrow> bool" where
  "NeedsRobert op \<longleftrightarrow> op_Status op = StatusAwaitingApproval"

definition IsTerminal :: "Operation \<Rightarrow> bool" where
  "IsTerminal op = OperationStatus_IsTerminal (op_Status op)"

section \<open>The status machine\<close>

definition operation_transitions :: "(OperationStatus \<times> OperationStatus list) list" where
  "operation_transitions =
     [(StatusNew, [StatusClassified]),
      (StatusClassified, [StatusReady, StatusDrafting, StatusAwaitingApproval, StatusBlocked,
                          StatusWaitingExternal]),
      (StatusDrafting, [StatusDraftReady]),
      (StatusDraftReady, [StatusAwaitingApproval, StatusCompleted]),
      (StatusReady, [StatusRunning]),
      (StatusAwaitingApproval, [StatusApproved, StatusDismissed, StatusBlocked]),
      (StatusApproved, [StatusRunning]),
      (StatusRunning, [StatusVerifying, StatusFailed, StatusInterrupted]),
      (StatusInterrupted, [StatusAwaitingApproval, StatusBlocked, StatusCompleted]),
      (StatusVerifying, [StatusCompleted, StatusFailed, StatusAwaitingApproval]),
      (StatusFailed, [StatusReady, StatusBlocked]),
      (StatusWaitingExternal, [StatusReady]),
      (StatusCompleted, [StatusArchived]),
      (StatusDismissed, [StatusArchived]),
      (StatusBlocked, [StatusArchived]),
      (StatusArchived, [])]"

definition operationMachine :: Machine where
  "operationMachine = New_machine operation_transitions"

definition CanTransition :: "OperationStatus \<Rightarrow> OperationStatus \<Rightarrow> bool" where
  "CanTransition frm to = CanTransition_machine operationMachine frm to"

definition Transition :: "OperationStatus \<Rightarrow> OperationStatus \<Rightarrow> op_error + OperationStatus" where
  "Transition frm to =
     (if \<not> OperationStatus_IsValid to then Inl (InvalidTargetStatus to)
      else if \<not> CanTransition frm to then Inl (IllegalTransition frm to)
      else Inr to)"

definition NextStatuses :: "OperationStatus \<Rightarrow> OperationStatus list" where
  "NextStatuses frm = Next_machine operationMachine frm"

text \<open>
  A status change: the machine's verdict, the verification gate before \<open>completed\<close>, the
  changed copy and its audit event.
\<close>

definition ApplyTransition ::
  "Operation \<Rightarrow> OperationStatus \<Rightarrow> string \<Rightarrow> string \<Rightarrow> string \<Rightarrow> instant \<Rightarrow>
     op_error + (Operation \<times> OperationEvent)" where
  "ApplyTransition op to actorType actorID message now =
     (let frm = op_Status op in
      case Transition frm to of
        Inl e \<Rightarrow> Inl e
      | Inr _ \<Rightarrow>
          let vs = op_VerificationStatus op in
          if to = StatusCompleted \<and> vs \<noteq> VerificationPassed \<and> vs \<noteq> VerificationNotRequired
          then Inl (CannotComplete vs)
          else
            let op' = op\<lparr>op_Status := to, op_UpdatedAt := now, op_Version := op_Version op + 1\<rparr>;
                op' = (if to = StatusCompleted then op'\<lparr>op_CompletedAt := Some now\<rparr> else op');
                evt = \<lparr>ev_ID = uuid_nil, ev_OperationID = op_ID op, ev_EventType = ''status_change'',
                       ev_ActorType = actorType, ev_ActorID = actorID, ev_BeforeStatus = frm,
                       ev_AfterStatus = to, ev_Message = message, ev_PayloadJSON = ''{}'',
                       ev_CreatedAt = now\<rparr>
            in Inr (op', evt))"

subsection \<open>Facts about the table\<close>

lemma operation_transitions_distinct: "distinct (map fst operation_transitions)"
  by (simp add: operation_transitions_def)

interpretation statuses: transition_table CanTransition NextStatuses
  unfolding CanTransition_def NextStatuses_def operationMachine_def
  by (rule New_transition_table [OF operation_transitions_distinct])

lemma CanTransition_table: "CanTransition frm to \<longleftrightarrow> table_allows operation_transitions frm to"
  by (simp add: CanTransition_def operationMachine_def CanTransition_New [OF operation_transitions_distinct])

lemma table_allows_simps [simp]:
  "\<not> table_allows [] frm to"
  "table_allows ((f, tos) # table) frm to \<longleftrightarrow>
     (if frm = f then to \<in> set tos else table_allows table frm to)"
  by (auto simp: table_allows_def)

lemma CanTransition_cases:
  "CanTransition frm to \<longleftrightarrow> (case map_of operation_transitions frm of
     None \<Rightarrow> False | Some tos \<Rightarrow> to \<in> set tos)"
  by (auto simp: CanTransition_table table_allows_def split: option.splits)

lemma set_NextStatuses:
  "set (NextStatuses frm) = (case map_of operation_transitions frm of None \<Rightarrow> {} | Some tos \<Rightarrow> set tos)"
proof -
  have "(to \<in> set (NextStatuses frm)) = (to \<in> (case map_of operation_transitions frm of
      None \<Rightarrow> {} | Some tos \<Rightarrow> set tos))" for to
    unfolding statuses.nexts_can CanTransition_cases by (simp split: option.splits)
  then show ?thesis by blast
qed

lemmas status_table = CanTransition_table operation_transitions_def

lemma CanTransition_valid:
  "CanTransition frm to \<Longrightarrow> OperationStatus_IsValid frm \<and> OperationStatus_IsValid to"
  by (auto simp: status_table enum_valid enum_values split: if_splits)

lemma into_running: "CanTransition frm StatusRunning \<longleftrightarrow> frm = StatusReady \<or> frm = StatusApproved"
  by (auto simp: status_table)

lemma into_approved: "CanTransition frm StatusApproved \<longleftrightarrow> frm = StatusAwaitingApproval"
  by (auto simp: status_table)

lemma into_completed:
  "CanTransition frm StatusCompleted \<longleftrightarrow>
     frm = StatusDraftReady \<or> frm = StatusInterrupted \<or> frm = StatusVerifying"
  by (auto simp: status_table)

lemma from_completed: "CanTransition StatusCompleted to \<longleftrightarrow> to = StatusArchived"
  by (auto simp: status_table)

lemma from_closed:
  "CanTransition StatusDismissed to \<longleftrightarrow> to = StatusArchived"
  "\<not> CanTransition StatusArchived to"
  by (auto simp: status_table)

lemma Transition_Inr_iff: "Transition frm to = Inr s \<longleftrightarrow> CanTransition frm to \<and> s = to"
  using CanTransition_valid by (auto simp: Transition_def)

subsection \<open>Facts about a status change\<close>

lemma ApplyTransition_Inr:
  "ApplyTransition op to aty ai msg now = Inr (op', evt) \<longleftrightarrow>
     CanTransition (op_Status op) to \<and>
     (to = StatusCompleted \<longrightarrow>
        op_VerificationStatus op \<in> {VerificationPassed, VerificationNotRequired}) \<and>
     op' = op\<lparr>op_Status := to, op_UpdatedAt := now,
              op_CompletedAt := (if to = StatusCompleted then Some now else op_CompletedAt op),
              op_Version := op_Version op + 1\<rparr> \<and>
     evt = \<lparr>ev_ID = uuid_nil, ev_OperationID = op_ID op, ev_EventType = ''status_change'',
            ev_ActorType = aty, ev_ActorID = ai, ev_BeforeStatus = op_Status op,
            ev_AfterStatus = to, ev_Message = msg, ev_PayloadJSON = ''{}'', ev_CreatedAt = now\<rparr>"
proof (cases "CanTransition (op_Status op) to")
  case True
  then have "Transition (op_Status op) to = Inr to" by (simp add: Transition_Inr_iff)
  with True show ?thesis by (auto simp: ApplyTransition_def Let_def)
next
  case False
  then have "\<exists>e. Transition (op_Status op) to = Inl e" by (auto simp: Transition_def)
  with False show ?thesis by (auto simp: ApplyTransition_def)
qed

end
