(* ===== verification/OperationService.thy ===== *)
theory OperationService
  imports OperationLedger
begin

text \<open>
  The in-process repository of the operation ledger (\<open>memory_repository.go\<close>) and the
  service over it (\<open>service.go\<close>). Each repository method holds the mutex, so it is one
  atomic step on the repository's state. The Go map of operations is an association list
  in the order one iteration visits it; \<open>uuid.New\<close> is third-party code, so the fresh
  identifiers a call draws are arguments. The events of the ledger are kept in order of
  appending.
\<close>

section \<open>The repository\<close>

record MemoryRepository =
  mr_ops :: "(uuid \<times> Operation) list"
  mr_events :: "OperationEvent list"

record Filter =
  f_OwnerUserID :: string
  f_WorkspaceID :: string
  f_Status :: OperationStatus
  f_RiskLevel :: RiskLevel
  f_Limit :: int
  f_Offset :: int

record Dashboard =
  d_CountsByStatus :: "(string \<times> int) list"
  d_CountsByRisk :: "(string \<times> int) list"
  d_NeedsRobert :: int
  d_DoneWhileAway :: int
  d_Blocked :: int
  d_Running :: int
  d_Failed :: int
  d_Recent :: "Operation list"

definition NewMemoryRepository :: MemoryRepository where
  "NewMemoryRepository = \<lparr>mr_ops = [], mr_events = []\<rparr>"

definition Create :: "MemoryRepository \<Rightarrow> uuid \<Rightarrow> Operation \<Rightarrow> Operation \<times> MemoryRepository" where
  "Create r fresh op =
     (let op = (if op_ID op = uuid_nil then op\<lparr>op_ID := fresh\<rparr> else op)
      in (op, r\<lparr>mr_ops := AList.update (op_ID op) op (mr_ops r)\<rparr>))"

definition Update :: "MemoryRepository \<Rightarrow> Operation \<Rightarrow> Operation \<times> MemoryRepository" where
  "Update r op = (op, r\<lparr>mr_ops := AList.update (op_ID op) op (mr_ops r)\<rparr>)"

definition GetByID :: "MemoryRepository \<Rightarrow> string \<Rightarrow> string \<Rightarrow> uuid \<Rightarrow> op_error + Operation" where
  "GetByID r owner workspace k =
     (case map_of (mr_ops r) k of
        None \<Rightarrow> Inl ErrNotFound
      | Some op \<Rightarrow>
          if op_OwnerUserID op \<noteq> owner \<or> op_WorkspaceID op \<noteq> workspace then Inl ErrNotFound
          else Inr op)"

definition dedupe_step ::
  "string \<Rightarrow> string \<Rightarrow> Operation \<Rightarrow> Operation option \<Rightarrow> Operation option" where
  "dedupe_step workspace dedupeKey op found =
     (if op_WorkspaceID op \<noteq> workspace \<or> op_DedupeKey op \<noteq> dedupeKey then found
      else if op_Status op = StatusArchived \<or> op_Status op = StatusDismissed then found
      else (case found of
              None \<Rightarrow> Some op
            | Some f \<Rightarrow> if op_CreatedAt op > op_CreatedAt f then Some op else found))"

definition FindByDedupeKey :: "MemoryRepository \<Rightarrow> string \<Rightarrow> string \<Rightarrow> Operation option" where
  "FindByDedupeKey r workspace dedupeKey =
     fold (dedupe_step workspace dedupeKey) (map snd (mr_ops r)) None"

text \<open>
  \<open>applyWindow\<close>: a slice expression with a negative bound panics in Go, which is \<open>None\<close>
  here.
\<close>

definition applyWindow :: "'a list \<Rightarrow> int \<Rightarrow> int \<Rightarrow> 'a list option" where
  "applyWindow items offset limit =
     (if int (length items) \<le> offset then Some []
      else if offset < 0 then None
      else
        let items = drop (nat offset) items
        in if limit < int (length items)
           then (if limit < 0 then None else Some (take (nat limit) items))
           else Some items)"

definition page_limit :: "int \<Rightarrow> int" where
  "page_limit limit = (if limit \<le> 0 \<or> 200 < limit then 50 else limit)"

definition list_match :: "Filter \<Rightarrow> Operation \<Rightarrow> bool" where
  "list_match f op \<longleftrightarrow>
     \<not> (op_OwnerUserID op \<noteq> f_OwnerUserID f \<or> op_WorkspaceID op \<noteq> f_WorkspaceID f) \<and>
     \<not> (f_Status f \<noteq> '''' \<and> op_Status op \<noteq> f_Status f) \<and>
     \<not> (f_RiskLevel f \<noteq> '''' \<and> op_RiskLevel op \<noteq> f_RiskLevel f)"

definition List_ops :: "MemoryRepository \<Rightarrow> Filter \<Rightarrow> Operation list option" where
  "List_ops r f =
     (let out = filter (list_match f) (map snd (mr_ops r));
          out = sort_key (\<lambda>op. - op_UpdatedAt op) out
      in applyWindow out (f_Offset f) (page_limit (f_Limit f)))"

definition actionableStatuses :: "string list" where
  "actionableStatuses =
     [StatusNew, StatusClassified, StatusReady, StatusApproved, StatusVerifying,
      StatusWaitingExternal, StatusInterrupted, StatusFailed]"

definition ListDue :: "MemoryRepository \<Rightarrow> string \<Rightarrow> string \<Rightarrow> int \<Rightarrow> Operation list option" where
  "ListDue r owner workspace limit =
     (let out = filter (\<lambda>op. \<not> (op_OwnerUserID op \<noteq> owner \<or> op_WorkspaceID op \<noteq> workspace) \<and>
                              op_Status op \<in> set actionableStatuses)
                  (map snd (mr_ops r));
          out = sort_key op_CreatedAt out
      in applyWindow out 0 (page_limit limit))"

definition bump :: "string \<Rightarrow> (string \<times> int) list \<Rightarrow> (string \<times> int) list" where
  "bump k counts = AList.update k ((case map_of counts k of None \<Rightarrow> 0 | Some n \<Rightarrow> n) + 1) counts"

definition count_of :: "(string \<times> int) list \<Rightarrow> string \<Rightarrow> int" where
  "count_of counts k = (case map_of counts k of None \<Rightarrow> 0 | Some n \<Rightarrow> n)"

definition Dashboard_of :: "MemoryRepository \<Rightarrow> string \<Rightarrow> string \<Rightarrow> Dashboard option" where
  "Dashboard_of r owner workspace =
     (let all = filter (\<lambda>op. \<not> (op_OwnerUserID op \<noteq> owner \<or> op_WorkspaceID op \<noteq> workspace))
                  (map snd (mr_ops r));
          byStatus = fold (\<lambda>op. bump (op_Status op)) all [];
          byRisk = fold (\<lambda>op. bump (op_RiskLevel op)) all []
      in case applyWindow (sort_key (\<lambda>op. - op_UpdatedAt op) all) 0 20 of
           None \<Rightarrow> None
         | Some recent \<Rightarrow> Some
            \<lparr>d_CountsByStatus = byStatus,
             d_CountsByRisk = byRisk,
             d_NeedsRobert = count_of byStatus StatusAwaitingApproval,
             d_DoneWhileAway = count_of byStatus StatusCompleted,
             d_Blocked = count_of byStatus StatusBlocked,
             d_Running = count_of byStatus StatusRunning,
             d_Failed = count_of byStatus StatusFailed,
             d_Recent = recent\<rparr>)"

definition AppendEvent :: "MemoryRepository \<Rightarrow> uuid \<Rightarrow> OperationEvent \<Rightarrow> MemoryRepository" where
  "AppendEvent r fresh evt =
     (let evt = (if ev_ID evt = uuid_nil then evt\<lparr>ev_ID := fresh\<rparr> else evt)
      in r\<lparr>mr_events := mr_events r @ [evt]\<rparr>)"

definition ListEvents :: "MemoryRepository \<Rightarrow> uuid \<Rightarrow> int \<Rightarrow> OperationEvent list option" where
  "ListEvents r operationID limit =
     (let out = filter (\<lambda>e. ev_OperationID e = operationID) (mr_events r);
          out = sort_key ev_CreatedAt out
      in applyWindow out 0 (if limit \<le> 0 \<or> 500 < limit then 100 else limit))"

section \<open>The service\<close>

record IngestResult =
  ir_Operation :: Operation
  ir_Created :: bool

definition refreshed :: "Operation \<Rightarrow> NewOperationInput \<Rightarrow> instant \<Rightarrow> Operation" where
  "refreshed existing i now =
     (let j = TrimSpace (in_EvidenceJSON i);
          existing = (if j \<noteq> '''' \<and> j \<noteq> ''{}''
                      then existing\<lparr>op_EvidenceJSON := in_EvidenceJSON i\<rparr> else existing)
      in existing\<lparr>op_UpdatedAt := now\<rparr>)"

definition Ingest ::
  "MemoryRepository \<Rightarrow> instant \<Rightarrow> uuid \<Rightarrow> uuid \<Rightarrow> NewOperationInput \<Rightarrow>
     op_error + (IngestResult \<times> MemoryRepository)" where
  "Ingest r now freshOp freshEvent i =
     (case FindByDedupeKey r (firstNonEmpty [in_WorkspaceID i, ''local'']) (in_DedupeKey i) of
        Some existing \<Rightarrow>
          (let (updated, r) = Update r (refreshed existing i now)
           in Inr (\<lparr>ir_Operation = updated, ir_Created = False\<rparr>, r))
      | None \<Rightarrow>
          (case NewOperation i now of
             Inl e \<Rightarrow> Inl e
           | Inr op \<Rightarrow>
               (let (created, r) = Create r freshOp op;
                    r = AppendEvent r freshEvent
                      \<lparr>ev_ID = uuid_nil, ev_OperationID = op_ID created, ev_EventType = ''created'',
                       ev_ActorType = OwnerHAI, ev_ActorID = '''', ev_BeforeStatus = '''',
                       ev_AfterStatus = op_Status created,
                       ev_Message = ''operation created from '' @ op_SourceType created,
                       ev_PayloadJSON = ''{}'', ev_CreatedAt = now\<rparr>
                in Inr (\<lparr>ir_Operation = created, ir_Created = True\<rparr>, r))))"

definition Transition_svc ::
  "MemoryRepository \<Rightarrow> instant \<Rightarrow> uuid \<Rightarrow> Operation \<Rightarrow> OperationStatus \<Rightarrow> string \<Rightarrow> string \<Rightarrow> string \<Rightarrow>
     op_error + (Operation \<times> MemoryRepository)" where
  "Transition_svc r now fresh op to actorType actorID message =
     (case ApplyTransition op to actorType actorID message now of
        Inl e \<Rightarrow> Inl e
      | Inr (updated, evt) \<Rightarrow>
          (let (saved, r) = Update r updated; r = AppendEvent r fresh evt in Inr (saved, r)))"

definition Save_svc ::
  "MemoryRepository \<Rightarrow> instant \<Rightarrow> uuid \<Rightarrow> Operation \<Rightarrow> string \<Rightarrow> string \<Rightarrow> string \<Rightarrow>
     Operation \<times> MemoryRepository" where
  "Save_svc r now fresh op eventType actorType message =
     (let op = op\<lparr>op_UpdatedAt := now, op_Version := op_Version op + 1\<rparr>;
          (saved, r) = Update r op;
          r = AppendEvent r fresh
            \<lparr>ev_ID = uuid_nil, ev_OperationID = op_ID op, ev_EventType = eventType,
             ev_ActorType = actorType, ev_ActorID = '''', ev_BeforeStatus = '''',
             ev_AfterStatus = op_Status op, ev_Message = message, ev_PayloadJSON = ''{}'',
             ev_CreatedAt = now\<rparr>
      in (saved, r))"

end
