(* ===== verification/OperationFacts.thy ===== *)
theory OperationFacts
  imports OperationService
begin

text \<open>
  What the operation ledger promises. The locale \<open>operation_store\<close> is the interface the
  service needs of a repository (a lookup that reads back what was put); its lemmas show
  how the ledger's invariants survive one write, and the in-process repository
  interprets it. The ledger's runs are the relation \<open>ledger_step\<close>: ingesting an item, or
  changing the status of an operation as stored. Reachable ledgers keep the invariants,
  and every operation's audit trail is a path of the status machine.
\<close>

declare firstNonEmpty.simps [simp del]

section \<open>Interface of a repository\<close>

definition active_op :: "Operation \<Rightarrow> bool" where
  "active_op op \<longleftrightarrow> op_Status op \<noteq> StatusArchived \<and> op_Status op \<noteq> StatusDismissed"

definition same_source :: "Operation \<Rightarrow> Operation \<Rightarrow> bool" where
  "same_source a b \<longleftrightarrow> op_WorkspaceID a = op_WorkspaceID b \<and> op_DedupeKey a = op_DedupeKey b"

text \<open>At most one active operation per workspace and dedupe key.\<close>

definition active_unique :: "(uuid \<Rightarrow> Operation option) \<Rightarrow> bool" where
  "active_unique m \<longleftrightarrow>
     (\<forall>i j a b. m i = Some a \<longrightarrow> m j = Some b \<longrightarrow> active_op a \<longrightarrow> active_op b \<longrightarrow> same_source a b \<longrightarrow> i = j)"

definition keyed :: "(uuid \<Rightarrow> Operation option) \<Rightarrow> bool" where
  "keyed m \<longleftrightarrow> (\<forall>k op. m k = Some op \<longrightarrow> op_ID op = k)"

locale operation_store =
  fixes lookup :: "'r \<Rightarrow> uuid \<Rightarrow> Operation option" and put :: "'r \<Rightarrow> Operation \<Rightarrow> 'r"
  assumes lookup_put: "lookup (put r op) k = (if k = op_ID op then Some op else lookup r k)"
begin

lemma put_keyed: "keyed (lookup r) \<Longrightarrow> keyed (lookup (put r op))"
  by (simp add: keyed_def lookup_put)

text \<open>Writing a new operation whose source has no active operation yet.\<close>

lemma put_new_unique:
  assumes "active_unique (lookup r)"
    and "\<And>k a. lookup r k = Some a \<Longrightarrow> active_op a \<Longrightarrow> \<not> same_source a op"
  shows "active_unique (lookup (put r op))"
proof -
  have "same_source op b \<Longrightarrow> same_source b op" for b by (simp add: same_source_def)
  with assms show ?thesis
    unfolding active_unique_def lookup_put by (metis option.inject)
qed

text \<open>Rewriting a stored operation without reviving it or changing its source.\<close>

lemma put_same_unique:
  assumes "active_unique (lookup r)" and "lookup r (op_ID op) = Some old"
    and "active_op op \<Longrightarrow> active_op old" and "same_source op old"
  shows "active_unique (lookup (put r op))"
proof -
  have "same_source op b = same_source old b" "same_source b op = same_source b old" for b
    using assms(4) by (auto simp: same_source_def)
  with assms(1,2,3) show ?thesis
    unfolding active_unique_def lookup_put by (metis option.inject)
qed

end

definition mr_lookup :: "MemoryRepository \<Rightarrow> uuid \<Rightarrow> Operation option" where
  "mr_lookup r = map_of (mr_ops r)"

definition mr_put :: "MemoryRepository \<Rightarrow> Operation \<Rightarrow> MemoryRepository" where
  "mr_put r op = snd (Update r op)"

interpretation store: operation_store mr_lookup mr_put
  by unfold_locales (simp add: mr_lookup_def mr_put_def Update_def update_conv')

lemma mr_lookup_event [simp]: "mr_lookup (AppendEvent r f e) = mr_lookup r"
  by (simp add: mr_lookup_def AppendEvent_def Let_def)

lemma Update_put: "Update r op = (op, mr_put r op)"
  by (simp add: mr_put_def Update_def)

lemma Create_put: "op_ID op = uuid_nil \<Longrightarrow> Create r f op = (op\<lparr>op_ID := f\<rparr>, mr_put r (op\<lparr>op_ID := f\<rparr>))"
  by (simp add: Create_def mr_put_def Update_def Let_def)

section \<open>Finding by dedupe key\<close>

definition dedupe_match :: "string \<Rightarrow> string \<Rightarrow> Operation \<Rightarrow> bool" where
  "dedupe_match w d op \<longleftrightarrow> op_WorkspaceID op = w \<and> op_DedupeKey op = d \<and> active_op op"

lemma dedupe_step_match:
  "dedupe_step w d op found =
     (if dedupe_match w d op
      then (case found of None \<Rightarrow> Some op
            | Some f \<Rightarrow> if op_CreatedAt op > op_CreatedAt f then Some op else found)
      else found)"
  by (auto simp: dedupe_step_def dedupe_match_def active_op_def)

lemma dedupe_fold_None:
  "fold (dedupe_step w d) ops f = None \<longleftrightarrow> f = None \<and> (\<forall>op \<in> set ops. \<not> dedupe_match w d op)"
  by (induction ops arbitrary: f) (auto simp: dedupe_step_match split: option.splits if_splits)

lemma dedupe_fold_Some:
  "fold (dedupe_step w d) ops f = Some op \<Longrightarrow>
     (f = Some op \<or> op \<in> set ops \<and> dedupe_match w d op) \<and>
     (\<forall>g. f = Some g \<longrightarrow> op_CreatedAt g \<le> op_CreatedAt op) \<and>
     (\<forall>o' \<in> set ops. dedupe_match w d o' \<longrightarrow> op_CreatedAt o' \<le> op_CreatedAt op)"
proof (induction ops arbitrary: f)
  case (Cons x xs)
  then have "fold (dedupe_step w d) xs (dedupe_step w d x f) = Some op" by simp
  from Cons.IH [OF this] show ?case
    by (auto simp: dedupe_step_match split: option.splits if_splits)
qed simp

lemma FindByDedupeKey_None:
  "distinct (map fst (mr_ops r)) \<Longrightarrow>
     FindByDedupeKey r w d = None \<longleftrightarrow> (\<forall>k op. mr_lookup r k = Some op \<longrightarrow> \<not> dedupe_match w d op)"
  unfolding FindByDedupeKey_def dedupe_fold_None mr_lookup_def by (auto dest: map_of_SomeD)

lemma FindByDedupeKey_Some:
  assumes "distinct (map fst (mr_ops r))" and "FindByDedupeKey r w d = Some op"
  shows "\<exists>k. mr_lookup r k = Some op" and "dedupe_match w d op"
    and "mr_lookup r k' = Some o' \<Longrightarrow> dedupe_match w d o' \<Longrightarrow> op_CreatedAt o' \<le> op_CreatedAt op"
  using assms dedupe_fold_Some [of w d "map snd (mr_ops r)" None op]
  unfolding FindByDedupeKey_def mr_lookup_def by (force dest: map_of_SomeD)+

section \<open>Runs of the ledger\<close>

text \<open>
  A caller of the service holds an operation it read, may have changed fields other than
  its status and source, and hands it to \<open>Transition\<close> or \<open>Save\<close>. (Phase 2A serialises writers by a
  lease, so what was read is what is stored.) Other event types than \<open>status_change\<close> are the
  callers' own.
\<close>

definition held_copy :: "MemoryRepository \<Rightarrow> Operation \<Rightarrow> bool" where
  "held_copy r op \<longleftrightarrow> (\<exists>old. mr_lookup r (op_ID op) = Some old \<and> op_Status op = op_Status old \<and>
     op_WorkspaceID op = op_WorkspaceID old \<and> op_DedupeKey op = op_DedupeKey old)"

inductive ledger_step :: "MemoryRepository \<Rightarrow> MemoryRepository \<Rightarrow> bool" where
  ingest: "Ingest r now fo fe i = Inr (res, r') \<Longrightarrow> fo \<noteq> uuid_nil \<Longrightarrow> mr_lookup r fo = None \<Longrightarrow>
     ledger_step r r'"
| transition: "held_copy r op \<Longrightarrow> Transition_svc r now f op to aty ai msg = Inr (saved, r') \<Longrightarrow>
     ledger_step r r'"
| save: "held_copy r op \<Longrightarrow> ety \<noteq> ''status_change'' \<Longrightarrow> Save_svc r now f op ety aty msg = (saved, r') \<Longrightarrow>
     ledger_step r r'"

inductive_cases ledger_stepE: "ledger_step r r'"

definition ledger_reachable :: "MemoryRepository \<Rightarrow> bool" where
  "ledger_reachable r \<longleftrightarrow> ledger_step\<^sup>*\<^sup>* NewMemoryRepository r"

definition ledger_inv :: "MemoryRepository \<Rightarrow> bool" where
  "ledger_inv r \<longleftrightarrow>
     distinct (map fst (mr_ops r)) \<and> keyed (mr_lookup r) \<and> active_unique (mr_lookup r)"

text \<open>The status changes recorded for one operation, and the chain they must form.\<close>

definition status_trail :: "MemoryRepository \<Rightarrow> uuid \<Rightarrow> (string \<times> string) list" where
  "status_trail r k = map (\<lambda>e. (ev_BeforeStatus e, ev_AfterStatus e))
     (filter (\<lambda>e. ev_OperationID e = k \<and> ev_EventType e = ''status_change'') (mr_events r))"

fun status_chain :: "string \<Rightarrow> (string \<times> string) list \<Rightarrow> string \<Rightarrow> bool" where
  "status_chain s [] t \<longleftrightarrow> s = t"
| "status_chain s ((a, b) # xs) t \<longleftrightarrow> a = s \<and> CanTransition a b \<and> status_chain b xs t"

definition audit_inv :: "MemoryRepository \<Rightarrow> bool" where
  "audit_inv r \<longleftrightarrow> (\<forall>k. case mr_lookup r k of
       None \<Rightarrow> status_trail r k = []
     | Some op \<Rightarrow> status_chain StatusNew (status_trail r k) (op_Status op))"

lemma status_chain_snoc:
  "status_chain s (xs @ [(a, b)]) t \<longleftrightarrow> status_chain s xs a \<and> CanTransition a b \<and> b = t"
  by (induction xs arbitrary: s) auto

subsection \<open>One write\<close>

lemma distinct_put: "distinct (map fst (mr_ops r)) \<Longrightarrow> distinct (map fst (mr_ops (mr_put r op)))"
  by (simp add: mr_put_def Update_def distinct_update)

lemma ledger_inv_new:
  assumes "ledger_inv r" and "\<And>k a. mr_lookup r k = Some a \<Longrightarrow> active_op a \<Longrightarrow> \<not> same_source a op"
  shows "ledger_inv (mr_put r op)"
  using assms unfolding ledger_inv_def
  by (blast intro: distinct_put store.put_keyed store.put_new_unique)

lemma ledger_inv_same:
  assumes "ledger_inv r" and "mr_lookup r (op_ID op) = Some old"
    and "active_op op \<Longrightarrow> active_op old" and "same_source op old"
  shows "ledger_inv (mr_put r op)"
  using assms unfolding ledger_inv_def
  by (blast intro: distinct_put store.put_keyed store.put_same_unique)

lemma ledger_inv_event [simp]: "ledger_inv (AppendEvent r f e) = ledger_inv r"
proof -
  have "mr_ops (AppendEvent r f e) = mr_ops r" by (simp add: AppendEvent_def Let_def)
  then show ?thesis by (simp add: ledger_inv_def)
qed

lemma mr_events_put [simp]: "mr_events (mr_put r op) = mr_events r"
  by (simp add: mr_put_def Update_def)

lemma status_trail_put [simp]: "status_trail (mr_put r op) k = status_trail r k"
  by (simp add: status_trail_def)

lemma status_trail_event [simp]:
  "status_trail (AppendEvent r f e) k =
     status_trail r k @ (if ev_OperationID e = k \<and> ev_EventType e = ''status_change''
                         then [(ev_BeforeStatus e, ev_AfterStatus e)] else [])"
  by (simp add: status_trail_def AppendEvent_def Let_def)

subsection \<open>The calls of the service\<close>

lemma refreshed_frame [simp]:
  "op_ID (refreshed o' i now) = op_ID o'"
  "op_Status (refreshed o' i now) = op_Status o'"
  "op_WorkspaceID (refreshed o' i now) = op_WorkspaceID o'"
  "op_DedupeKey (refreshed o' i now) = op_DedupeKey o'"
  "op_UpdatedAt (refreshed o' i now) = now"
  by (simp_all add: refreshed_def Let_def)

lemma NewOperation_Inr:
  assumes "NewOperation i now = Inr op"
  shows "op_ID op = uuid_nil" "op_Status op = StatusNew" "op_DedupeKey op = in_DedupeKey i"
    "op_WorkspaceID op = firstNonEmpty [in_WorkspaceID i, ''local'']" "Validate op = None"
    "op_CreatedAt op = now" "op_Version op = 1" "op_CompletedAt op = None"
  using assms unfolding NewOperation_def by (auto simp: Let_def split: option.splits)

text \<open>The two outcomes of ingesting an item.\<close>

lemma Ingest_found:
  "FindByDedupeKey r (firstNonEmpty [in_WorkspaceID i, ''local'']) (in_DedupeKey i) = Some old \<Longrightarrow>
     Ingest r now fo fe i =
       Inr (\<lparr>ir_Operation = refreshed old i now, ir_Created = False\<rparr>, mr_put r (refreshed old i now))"
  by (simp add: Ingest_def Update_put)

lemma Ingest_created:
  assumes "FindByDedupeKey r (firstNonEmpty [in_WorkspaceID i, ''local'']) (in_DedupeKey i) = None"
    and "NewOperation i now = Inr op"
  obtains e where "Ingest r now fo fe i =
      Inr (\<lparr>ir_Operation = op\<lparr>op_ID := fo\<rparr>, ir_Created = True\<rparr>,
           AppendEvent (mr_put r (op\<lparr>op_ID := fo\<rparr>)) fe e)"
    "ev_EventType e = ''created''" "ev_OperationID e = fo" "ev_AfterStatus e = StatusNew"
proof -
  note n = NewOperation_Inr [OF assms(2)]
  show thesis
    by (rule that [of "\<lparr>ev_ID = uuid_nil, ev_OperationID = fo, ev_EventType = ''created'',
            ev_ActorType = OwnerHAI, ev_ActorID = '''', ev_BeforeStatus = '''',
            ev_AfterStatus = op_Status op,
            ev_Message = ''operation created from '' @ op_SourceType op,
            ev_PayloadJSON = ''{}'', ev_CreatedAt = now\<rparr>"])
      (simp_all add: Ingest_def assms Create_put n Let_def)
qed

lemma Transition_svc_Inr:
  assumes "Transition_svc r now f op to aty ai msg = Inr (saved, r')"
  obtains e where "CanTransition (op_Status op) to" "op_ID saved = op_ID op" "op_Status saved = to"
    "op_WorkspaceID saved = op_WorkspaceID op" "op_DedupeKey saved = op_DedupeKey op"
    "r' = AppendEvent (mr_put r saved) f e" "ev_OperationID e = op_ID op"
    "ev_EventType e = ''status_change''" "ev_BeforeStatus e = op_Status op" "ev_AfterStatus e = to"
proof -
  from assms obtain e where a: "ApplyTransition op to aty ai msg now = Inr (saved, e)"
    and r': "r' = AppendEvent (mr_put r saved) f e"
    by (auto simp: Transition_svc_def Update_put split: sum.splits prod.splits)
  from a have "CanTransition (op_Status op) to" "op_ID saved = op_ID op" "op_Status saved = to"
    "op_WorkspaceID saved = op_WorkspaceID op" "op_DedupeKey saved = op_DedupeKey op"
    "ev_OperationID e = op_ID op" "ev_EventType e = ''status_change''"
    "ev_BeforeStatus e = op_Status op" "ev_AfterStatus e = to"
    unfolding ApplyTransition_Inr by simp_all
  with r' show thesis by (intro that)
qed

lemma Save_svc_eq:
  assumes "Save_svc r now f op ety aty msg = (saved, r')"
  obtains e where "op_ID saved = op_ID op" "op_Status saved = op_Status op"
    "op_WorkspaceID saved = op_WorkspaceID op" "op_DedupeKey saved = op_DedupeKey op"
    "r' = AppendEvent (mr_put r saved) f e" "ev_EventType e = ety"
  using assms by (auto simp: Save_svc_def Update_put Let_def)

subsection \<open>The invariants are kept\<close>

lemma active_step: "CanTransition s t \<Longrightarrow> t \<noteq> StatusArchived \<and> t \<noteq> StatusDismissed \<Longrightarrow>
  s \<noteq> StatusArchived \<and> s \<noteq> StatusDismissed"
  using from_closed by blast

lemma held_copy_old:
  "held_copy r op \<Longrightarrow> op_ID x = op_ID op \<Longrightarrow> op_WorkspaceID x = op_WorkspaceID op \<Longrightarrow>
     op_DedupeKey x = op_DedupeKey op \<Longrightarrow>
     \<exists>old. mr_lookup r (op_ID x) = Some old \<and> op_Status op = op_Status old \<and> same_source x old"
  by (auto simp: held_copy_def same_source_def)

lemma Ingest_cases:
  assumes "Ingest r now fo fe i = Inr (res, r')"
  obtains (found) old where
      "FindByDedupeKey r (firstNonEmpty [in_WorkspaceID i, ''local'']) (in_DedupeKey i) = Some old"
      "r' = mr_put r (refreshed old i now)" "ir_Operation res = refreshed old i now"
      "\<not> ir_Created res"
    | (created) op e where
      "FindByDedupeKey r (firstNonEmpty [in_WorkspaceID i, ''local'']) (in_DedupeKey i) = None"
      "NewOperation i now = Inr op" "r' = AppendEvent (mr_put r (op\<lparr>op_ID := fo\<rparr>)) fe e"
      "ev_EventType e = ''created''" "ir_Operation res = op\<lparr>op_ID := fo\<rparr>" "ir_Created res"
proof (cases "FindByDedupeKey r (firstNonEmpty [in_WorkspaceID i, ''local'']) (in_DedupeKey i)")
  case (Some old)
  with assms have "res = \<lparr>ir_Operation = refreshed old i now, ir_Created = False\<rparr>"
    "r' = mr_put r (refreshed old i now)" by (auto simp: Ingest_found)
  with Some show thesis by (intro found) simp_all
next
  case None
  with assms obtain op where op: "NewOperation i now = Inr op"
    by (auto simp: Ingest_def split: sum.splits)
  obtain e where e: "Ingest r now fo fe i =
      Inr (\<lparr>ir_Operation = op\<lparr>op_ID := fo\<rparr>, ir_Created = True\<rparr>,
           AppendEvent (mr_put r (op\<lparr>op_ID := fo\<rparr>)) fe e)" "ev_EventType e = ''created''"
    by (rule Ingest_created [OF None op])
  with assms have "res = \<lparr>ir_Operation = op\<lparr>op_ID := fo\<rparr>, ir_Created = True\<rparr>"
    "r' = AppendEvent (mr_put r (op\<lparr>op_ID := fo\<rparr>)) fe e" by simp_all
  with None op e(2) show thesis by (intro created) simp_all
qed

lemma Ingest_ledger_inv:
  assumes inv: "ledger_inv r" and ing: "Ingest r now fo fe i = Inr (res, r')"
  shows "ledger_inv r'"
  using ing
proof (cases rule: Ingest_cases)
  case (found old)
  from inv have d: "distinct (map fst (mr_ops r))" and "keyed (mr_lookup r)"
    by (simp_all add: ledger_inv_def)
  with FindByDedupeKey_Some [OF d found(1)] have "mr_lookup r (op_ID old) = Some old"
    by (auto simp: keyed_def)
  then show ?thesis
    unfolding found(2) by (intro ledger_inv_same [OF inv]) (simp_all add: active_op_def same_source_def)
next
  case (created op e)
  from inv have d: "distinct (map fst (mr_ops r))" by (simp add: ledger_inv_def)
  from FindByDedupeKey_None [OF d] created(1)
  have no: "mr_lookup r k = Some a \<Longrightarrow> \<not> dedupe_match (op_WorkspaceID op) (op_DedupeKey op) a" for k a
    by (metis NewOperation_Inr(3,4) created(2))
  have "ledger_inv (mr_put r (op\<lparr>op_ID := fo\<rparr>))"
    by (rule ledger_inv_new [OF inv]) (use no in \<open>auto simp: dedupe_match_def same_source_def\<close>)
  then show ?thesis by (simp add: created(3))
qed

lemma Transition_ledger_inv:
  assumes inv: "ledger_inv r" and h: "held_copy r op"
    and t: "Transition_svc r now f op to aty ai msg = Inr (saved, r')"
  shows "ledger_inv r'"
  using t
proof (rule Transition_svc_Inr)
  fix e
  assume c: "CanTransition (op_Status op) to" "op_Status saved = to"
    and fr: "op_ID saved = op_ID op" "op_WorkspaceID saved = op_WorkspaceID op"
      "op_DedupeKey saved = op_DedupeKey op"
    and r': "r' = AppendEvent (mr_put r saved) f e"
  from held_copy_old [OF h fr] obtain old where
    "mr_lookup r (op_ID saved) = Some old" "op_Status op = op_Status old" "same_source saved old" by blast
  moreover from this c have "active_op saved \<Longrightarrow> active_op old"
    unfolding active_op_def using active_step by metis
  ultimately have "ledger_inv (mr_put r saved)" using ledger_inv_same [OF inv] by blast
  then show ?thesis by (simp add: r')
qed

lemma Save_ledger_inv:
  assumes inv: "ledger_inv r" and h: "held_copy r op"
    and s: "Save_svc r now f op ety aty msg = (saved, r')"
  shows "ledger_inv r'"
  using s
proof (rule Save_svc_eq)
  fix e
  assume st: "op_Status saved = op_Status op"
    and fr: "op_ID saved = op_ID op" "op_WorkspaceID saved = op_WorkspaceID op"
      "op_DedupeKey saved = op_DedupeKey op"
    and r': "r' = AppendEvent (mr_put r saved) f e"
  from held_copy_old [OF h fr] obtain old where
    "mr_lookup r (op_ID saved) = Some old" "op_Status op = op_Status old" "same_source saved old" by blast
  with st have "ledger_inv (mr_put r saved)"
    by (intro ledger_inv_same [OF inv]) (simp_all add: active_op_def)
  then show ?thesis by (simp add: r')
qed

lemma ledger_step_inv: "ledger_step r r' \<Longrightarrow> ledger_inv r \<Longrightarrow> ledger_inv r'"
  by (erule ledger_stepE) (auto intro: Ingest_ledger_inv Transition_ledger_inv Save_ledger_inv)

lemma ledger_inv_init: "ledger_inv NewMemoryRepository"
  by (simp add: ledger_inv_def NewMemoryRepository_def keyed_def active_unique_def mr_lookup_def)

lemma reachable_ledger_inv: "ledger_reachable r \<Longrightarrow> ledger_inv r"
  unfolding ledger_reachable_def
  by (induction rule: rtranclp_induct) (auto intro: ledger_inv_init ledger_step_inv)

subsection \<open>The audit trail\<close>

lemma audit_inv_None: "audit_inv r \<Longrightarrow> mr_lookup r k = None \<Longrightarrow> status_trail r k = []"
  unfolding audit_inv_def by (metis (mono_tags) option.simps(4))

lemma audit_inv_Some:
  "audit_inv r \<Longrightarrow> mr_lookup r k = Some op \<Longrightarrow>
     status_chain StatusNew (status_trail r k) (op_Status op)"
  unfolding audit_inv_def by (metis (mono_tags) option.simps(5))

text \<open>A write that keeps every stored status and records no change.\<close>

lemma audit_kept:
  assumes "audit_inv r"
    and "\<And>k op. mr_lookup r k = Some op \<Longrightarrow> \<exists>op'. mr_lookup r' k = Some op' \<and> op_Status op' = op_Status op"
    and "\<And>k op. mr_lookup r k = None \<Longrightarrow> mr_lookup r' k = Some op \<Longrightarrow> op_Status op = StatusNew"
    and "\<And>k. status_trail r' k = status_trail r k"
  shows "audit_inv r'"
  unfolding audit_inv_def
proof
  fix k
  show "case mr_lookup r' k of None \<Rightarrow> status_trail r' k = []
    | Some op \<Rightarrow> status_chain StatusNew (status_trail r' k) (op_Status op)"
  proof (cases "mr_lookup r k")
    case None
    with assms(1) have "status_trail r k = []" by (rule audit_inv_None)
    with None assms(3)[of k] assms(4)[of k] show ?thesis by (auto split: option.splits)
  next
    case (Some op)
    with assms(1) have "status_chain StatusNew (status_trail r k) (op_Status op)"
      by (rule audit_inv_Some)
    with Some assms(2)[of k] assms(4)[of k] show ?thesis by auto
  qed
qed

lemma Ingest_audit_inv:
  assumes inv: "ledger_inv r" and a: "audit_inv r" and fresh: "mr_lookup r fo = None"
    and ing: "Ingest r now fo fe i = Inr (res, r')"
  shows "audit_inv r'"
  using ing
proof (cases rule: Ingest_cases)
  case (found old)
  from inv have d: "distinct (map fst (mr_ops r))" and "keyed (mr_lookup r)"
    by (simp_all add: ledger_inv_def)
  with FindByDedupeKey_Some [OF d found(1)] have "mr_lookup r (op_ID old) = Some old"
    by (auto simp: keyed_def)
  then show ?thesis
    unfolding found(2) by (intro audit_kept [OF a]) (auto simp: store.lookup_put split: if_splits)
next
  case (created op e)
  from created(4) have "ev_EventType e \<noteq> ''status_change''" by simp
  then show ?thesis
    unfolding created(3) using fresh NewOperation_Inr(2) [OF created(2)]
    by (intro audit_kept [OF a]) (auto simp: store.lookup_put split: if_splits)
qed

lemma Transition_audit_inv:
  assumes a: "audit_inv r" and h: "held_copy r op"
    and t: "Transition_svc r now f op to aty ai msg = Inr (saved, r')"
  shows "audit_inv r'"
  using t
proof (rule Transition_svc_Inr)
  fix e
  assume c: "CanTransition (op_Status op) to" "op_Status saved = to" "op_ID saved = op_ID op"
    and r': "r' = AppendEvent (mr_put r saved) f e" and e: "ev_OperationID e = op_ID op"
      "ev_EventType e = ''status_change''" "ev_BeforeStatus e = op_Status op" "ev_AfterStatus e = to"
  from h obtain old where old: "mr_lookup r (op_ID op) = Some old" "op_Status op = op_Status old"
    by (auto simp: held_copy_def)
  with audit_inv_Some [OF a] have ch: "status_chain StatusNew (status_trail r (op_ID op)) (op_Status op)"
    by simp
  show ?thesis
    unfolding audit_inv_def
  proof
    fix k
    show "case mr_lookup r' k of None \<Rightarrow> status_trail r' k = []
      | Some op \<Rightarrow> status_chain StatusNew (status_trail r' k) (op_Status op)"
      using a [unfolded audit_inv_def, rule_format, of k] ch c e
      by (cases "k = op_ID op"; cases "mr_lookup r k")
        (simp_all add: r' store.lookup_put status_chain_snoc)
  qed
qed

lemma Save_audit_inv:
  assumes a: "audit_inv r" and h: "held_copy r op" and ty: "ety \<noteq> ''status_change''"
    and s: "Save_svc r now f op ety aty msg = (saved, r')"
  shows "audit_inv r'"
  using s
proof (rule Save_svc_eq)
  fix e
  assume st: "op_Status saved = op_Status op" "op_ID saved = op_ID op"
    and r': "r' = AppendEvent (mr_put r saved) f e" "ev_EventType e = ety"
  from h obtain old where "mr_lookup r (op_ID op) = Some old" "op_Status op = op_Status old"
    by (auto simp: held_copy_def)
  then show ?thesis
    unfolding r' using st ty r'(2)
    by (intro audit_kept [OF a]) (auto simp: store.lookup_put split: if_splits)
qed

lemma ledger_step_audit: "ledger_step r r' \<Longrightarrow> ledger_inv r \<Longrightarrow> audit_inv r \<Longrightarrow> audit_inv r'"
  by (erule ledger_stepE) (auto intro: Ingest_audit_inv Transition_audit_inv Save_audit_inv)

lemma audit_inv_init: "audit_inv NewMemoryRepository"
  by (simp add: audit_inv_def NewMemoryRepository_def mr_lookup_def status_trail_def)

lemma reachable_audit_inv: "ledger_reachable r \<Longrightarrow> audit_inv r"
proof -
  assume "ledger_reachable r"
  then have "ledger_inv r \<and> audit_inv r"
    unfolding ledger_reachable_def
    by (induction rule: rtranclp_induct)
      (auto intro: ledger_inv_init audit_inv_init ledger_step_inv ledger_step_audit)
  then show ?thesis ..
qed

lemma status_chain_last:
  "status_chain s xs t \<Longrightarrow> s \<noteq> t \<Longrightarrow> \<exists>a. (a, t) \<in> set xs \<and> CanTransition a t"
proof (induction xs arbitrary: s rule: rev_induct)
  case (snoc x xs)
  then show ?case by (cases x) (auto simp: status_chain_snoc)
qed simp

lemma Validate_None_iff:
  "Validate op = None \<longleftrightarrow>
     TrimSpace (op_OwnerUserID op) \<noteq> '''' \<and> TrimSpace (op_WorkspaceID op) \<noteq> '''' \<and>
     TrimSpace (op_Title op) \<noteq> '''' \<and> TrimSpace (op_DedupeKey op) \<noteq> '''' \<and>
     OperationStatus_IsValid (op_Status op) \<and> RiskLevel_IsValid (op_RiskLevel op) \<and>
     AutonomyLevel_IsValid (op_AutonomyLevel op) \<and> OwnerType_IsValid (op_OwnerType op) \<and>
     CurrentDecision_IsValid (op_CurrentDecision op) \<and>
     VerificationStatus_IsValid (op_VerificationStatus op) \<and>
     (op_CompletedAt op = None \<or> op_Status op = StatusCompleted)"
  unfolding Validate_def first_error_None_iff by (simp add: conj_assoc)

text \<open>A window of a list is a contiguous part of it.\<close>

lemma applyWindow_part:
  assumes "applyWindow xs off n = Some ys" and "0 \<le> n"
  shows "\<exists>pre post. xs = pre @ ys @ post \<and> int (length ys) \<le> n"
proof (cases "int (length xs) \<le> off")
  case True
  with assms have "ys = []" by (simp add: applyWindow_def)
  with assms(2) show ?thesis by auto
next
  case False
  let ?zs = "drop (nat off) xs"
  from False assms have ys: "ys = (if n < int (length ?zs) then take (nat n) ?zs else ?zs)"
    by (auto simp: applyWindow_def Let_def split: if_splits)
  have "?zs = ys @ (if n < int (length ?zs) then drop (nat n) ?zs else [])"
    unfolding ys by (simp only: append_take_drop_id append_Nil2 split: if_split) simp
  then have "xs = take (nat off) xs @ ys @ (if n < int (length ?zs) then drop (nat n) ?zs else [])"
    by (metis append_take_drop_id)
  moreover have "int (length ys) \<le> n" using ys assms(2) by auto
  ultimately show ?thesis by blast
qed

lemma applyWindow_None: "applyWindow xs off n = None \<Longrightarrow> 0 \<le> n \<Longrightarrow> off < 0"
  by (auto simp: applyWindow_def Let_def split: if_splits)

end
