(* ===== verification/OperationTheorems.thy ===== *)
theory OperationTheorems
  imports OperationFacts
begin

text \<open>
  The properties of the operation ledger, each a few steps over the library of
  \<open>OperationLedger\<close> and \<open>OperationFacts\<close>, with concrete ledgers that witness them.
\<close>

section \<open>A concrete ledger\<close>

lemmas string_eval =
  TrimSpace_plain plain_head_def plain_last_def ascii_space_def ToLower_def lower_char_def

definition sample_item :: NewOperationInput where
  "sample_item =
     \<lparr>in_OwnerUserID = ''owner'', in_WorkspaceID = '''', in_Title = ''Invoice'', in_Description = '''',
      in_OperationType = ''finance'', in_SourceType = ''email'', in_SourceID = None, in_SourceURI = '''',
      in_SourceReceivedAt = None, in_SourceRevisionHash = '''', in_ProjectKey = '''',
      in_AccountFeedID = None, in_DedupeKey = ''mail-1'', in_EvidenceJSON = ''{}''\<rparr>"

lemma sample_item_new: "\<exists>op. NewOperation sample_item now = Inr op"
  by (simp add: NewOperation_def sample_item_def Let_def Validate_def firstNonEmpty.simps
      string_eval enum_valid enum_values)

definition sample_op :: Operation where
  "sample_op = (case NewOperation sample_item 1 of Inr op \<Rightarrow> op\<lparr>op_ID := 7\<rparr>)"

lemma NewOperation_sample: "NewOperation sample_item 1 = Inr (sample_op\<lparr>op_ID := uuid_nil\<rparr>)"
  using sample_item_new [of 1] NewOperation_Inr(1) [of sample_item 1]
  by (auto simp: sample_op_def split: sum.splits)

definition sample_ledger :: MemoryRepository where
  "sample_ledger = (case Ingest NewMemoryRepository 1 7 8 sample_item of Inr (_, r) \<Rightarrow> r)"

lemma sample_op_fields [simp]:
  "op_ID sample_op = 7" "op_Status sample_op = StatusNew" "op_DedupeKey sample_op = ''mail-1''"
  "op_CompletedAt sample_op = None"
proof -
  have d: "in_DedupeKey sample_item = ''mail-1''" by (simp add: sample_item_def)
  show "op_ID sample_op = 7" "op_Status sample_op = StatusNew" "op_DedupeKey sample_op = ''mail-1''"
    "op_CompletedAt sample_op = None"
    using NewOperation_Inr [OF NewOperation_sample] sample_item_new [of 1]
    by (auto simp: sample_op_def d split: sum.splits)
qed

lemma Ingest_sample:
  "\<exists>res. Ingest NewMemoryRepository 1 7 8 sample_item = Inr (res, sample_ledger) \<and>
     ir_Created res \<and> mr_lookup sample_ledger 7 = Some sample_op \<and>
     mr_ops sample_ledger = [(7, sample_op)]"
proof -
  have none: "FindByDedupeKey NewMemoryRepository (firstNonEmpty [in_WorkspaceID sample_item, ''local''])
      (in_DedupeKey sample_item) = None"
    by (simp add: FindByDedupeKey_def NewMemoryRepository_def)
  have op: "sample_op\<lparr>op_ID := uuid_nil, op_ID := 7\<rparr> = sample_op" by simp
  obtain e where "Ingest NewMemoryRepository 1 7 8 sample_item =
      Inr (\<lparr>ir_Operation = sample_op\<lparr>op_ID := uuid_nil, op_ID := 7\<rparr>, ir_Created = True\<rparr>,
        AppendEvent (mr_put NewMemoryRepository (sample_op\<lparr>op_ID := uuid_nil, op_ID := 7\<rparr>)) 8 e)"
    by (rule Ingest_created [OF none NewOperation_sample])
  then show ?thesis
    unfolding op by (simp add: sample_ledger_def store.lookup_put mr_put_def Update_def
        AppendEvent_def NewMemoryRepository_def Let_def mr_lookup_def)
qed

lemma sample_ledger_reachable: "ledger_reachable sample_ledger"
proof -
  obtain res where "Ingest NewMemoryRepository 1 7 8 sample_item = Inr (res, sample_ledger)"
    using Ingest_sample by blast
  then have "ledger_step NewMemoryRepository sample_ledger"
    by (rule ledger_step.ingest) (simp_all add: mr_lookup_def NewMemoryRepository_def)
  then show ?thesis by (simp add: ledger_reachable_def)
qed

lemma sample_lookup: "mr_lookup sample_ledger 7 = Some sample_op"
  using Ingest_sample by blast

text \<open>Moving a stored operation along the status machine.\<close>

lemma advance:
  assumes "ledger_reachable r" "mr_lookup r k = Some op" "CanTransition (op_Status op) to"
    "to \<noteq> StatusCompleted"
  shows "\<exists>r' op'. ledger_reachable r' \<and> mr_lookup r' k = Some op' \<and> op_Status op' = to"
proof -
  from reachable_ledger_inv [OF assms(1)] assms(2) have k: "op_ID op = k"
    by (simp add: ledger_inv_def keyed_def)
  from assms(3,4) obtain op' evt where
    "ApplyTransition op to ''hai'' '''' '''' 2 = Inr (op', evt)" and st: "op_Status op' = to" "op_ID op' = k"
    by (auto simp: ApplyTransition_Inr k)
  then have tr: "Transition_svc r 2 9 op to ''hai'' '''' '''' = Inr (op', AppendEvent (mr_put r op') 9 evt)"
    by (simp add: Transition_svc_def Update_put)
  have "held_copy r op" using assms(2) by (simp add: held_copy_def k)
  then have "ledger_step r (AppendEvent (mr_put r op') 9 evt)"
    using tr by (rule ledger_step.transition)
  with assms(1) have "ledger_reachable (AppendEvent (mr_put r op') 9 evt)"
    by (simp add: ledger_reachable_def)
  with st show ?thesis by (auto simp: store.lookup_put)
qed

lemma running_reachable:
  "\<exists>r op. ledger_reachable r \<and> mr_lookup r 7 = Some op \<and> op_Status op = StatusRunning"
proof -
  obtain r1 o1 where 1: "ledger_reachable r1" "mr_lookup r1 7 = Some o1" "op_Status o1 = StatusClassified"
    using advance [OF sample_ledger_reachable sample_lookup, of StatusClassified]
    by (auto simp: status_table)
  obtain r2 o2 where 2: "ledger_reachable r2" "mr_lookup r2 7 = Some o2" "op_Status o2 = StatusReady"
    using advance [OF 1(1,2), of StatusReady] 1(3) by (auto simp: status_table)
  show ?thesis
    using advance [OF 2(1,2), of StatusRunning] 2(3) by (auto simp: status_table)
qed

section \<open>Properties\<close>





text \<open>
  An operation is running only after the ledger recorded it entering \<open>running\<close> from \<open>ready\<close> or
  \<open>approved\<close>, the two statuses in which \<open>CanRun\<close> holds.
\<close>

theorem running_was_cleared:
  assumes "ledger_reachable r" and "mr_lookup r k = Some op" and "op_Status op = StatusRunning"
  shows "\<exists>s. (s, StatusRunning) \<in> set (status_trail r k) \<and> CanRun (op\<lparr>op_Status := s\<rparr>)"
proof -
  have "status_chain StatusNew (status_trail r k) StatusRunning"
    using audit_inv_Some [OF reachable_audit_inv [OF assms(1)] assms(2)] assms(3) by simp
  from status_chain_last [OF this] obtain s where
    "(s, StatusRunning) \<in> set (status_trail r k)" "CanTransition s StatusRunning" by auto
  then show ?thesis by (auto simp: CanRun_def into_running)
qed

theorem running_was_cleared_witness:
  "\<exists>r s. (s, StatusRunning) \<in> set (status_trail r 7) \<and> (s = StatusReady \<or> s = StatusApproved)"
  using running_reachable running_was_cleared by (fastforce simp: CanRun_def)

text \<open>
  C3. The approval gate cannot be bypassed: an operation awaiting approval that is never
  moved to \<open>approved\<close> can only stay, be dismissed, blocked or archived; it never runs,
  verifies or completes.
\<close>

theorem approval_gate:
  assumes "(\<lambda>s t. CanTransition s t \<and> t \<noteq> StatusApproved)\<^sup>*\<^sup>* StatusAwaitingApproval s"
  shows "s \<in> {StatusAwaitingApproval, StatusDismissed, StatusBlocked, StatusArchived}"
proof -
  let ?S = "[StatusAwaitingApproval, StatusDismissed, StatusBlocked, StatusArchived]"
  have "list_all (\<lambda>s. list_all (\<lambda>t. t \<noteq> StatusApproved \<longrightarrow> t \<in> set ?S) (NextStatuses s)) ?S"
    by (simp add: list_all_iff set_NextStatuses operation_transitions_def)
  from statuses.closed_reach_within [OF this assms] show ?thesis by simp
qed

theorem approval_gate_witness:
  "(\<lambda>s t. CanTransition s t \<and> t \<noteq> StatusApproved)\<^sup>*\<^sup>* StatusAwaitingApproval StatusArchived \<and>
   StatusArchived \<in> {StatusAwaitingApproval, StatusDismissed, StatusBlocked, StatusArchived}"
proof -
  let ?R = "\<lambda>s t. CanTransition s t \<and> t \<noteq> StatusApproved"
  have "?R StatusAwaitingApproval StatusDismissed" "?R StatusDismissed StatusArchived"
    by (simp_all add: status_table)
  then have "?R\<^sup>*\<^sup>* StatusAwaitingApproval StatusArchived"
    by (rule converse_rtranclp_into_rtranclp [of ?R, OF _ r_into_rtranclp [of ?R]])
  then show ?thesis using approval_gate [of StatusArchived] by blast
qed



text \<open>
  What a status change does to validity: from a valid operation it yields a valid one
  unless the operation already carries a completion time. A completed operation can only
  be archived, and it keeps \<open>completedAt\<close>, which \<open>Validate\<close> rejects on any status but \<open>completed\<close>.
\<close>

theorem ApplyTransition_validity:
  assumes "Validate op = None" and "ApplyTransition op to aty ai msg now = Inr (op', evt)"
  shows "Validate op' = (if op_CompletedAt op = None then None
           else Some (CompletedAtNotCompleted StatusArchived))"
proof -
  from assms(2) have c: "CanTransition (op_Status op) to"
    and op': "op' = op\<lparr>op_Status := to, op_UpdatedAt := now,
              op_CompletedAt := (if to = StatusCompleted then Some now else op_CompletedAt op),
              op_Version := op_Version op + 1\<rparr>"
    by (simp_all add: ApplyTransition_Inr)
  note valid = assms(1) [unfolded Validate_None_iff]
  then have dn: "op_CompletedAt op \<noteq> None \<longrightarrow> op_Status op = StatusCompleted" by auto
  with c have "op_CompletedAt op \<noteq> None \<longrightarrow> to = StatusArchived"
    using from_completed by metis
  with valid CanTransition_valid [OF c] show ?thesis
    unfolding Validate_def op' by auto
qed

theorem ApplyTransition_validity_witness:
  "\<exists>op op' evt. Validate op = None \<and>
     ApplyTransition op StatusArchived ''hai'' '''' '''' 9 = Inr (op', evt) \<and>
     Validate op' = Some (CompletedAtNotCompleted StatusArchived)"
proof -
  let ?op = "sample_op\<lparr>op_Status := StatusCompleted, op_CompletedAt := Some 5\<rparr>"
  have "Validate (sample_op\<lparr>op_ID := uuid_nil\<rparr>) = None"
    using NewOperation_Inr(5) [OF NewOperation_sample] .
  moreover have "OperationStatus_IsValid StatusCompleted" by (simp add: enum_valid enum_values)
  ultimately have v: "Validate ?op = None" by (simp add: Validate_None_iff)
  have "CanTransition (op_Status ?op) StatusArchived" by (simp add: status_table)
  then obtain op' evt where
    a: "ApplyTransition ?op StatusArchived ''hai'' '''' '''' 9 = Inr (op', evt)"
    by (auto simp: ApplyTransition_Inr)
  with ApplyTransition_validity [OF v a] v show ?thesis by auto
qed

text \<open>
  No status is a dead end: from every valid status the machine has a path to
  \<open>archived\<close>, which is the only terminal status.
\<close>

theorem archived_always_reachable:
  "(OperationStatus_IsValid s \<longleftrightarrow> CanTransition\<^sup>*\<^sup>* s StatusArchived) \<and>
   (OperationStatus_IsValid s \<and> NextStatuses s = [] \<longleftrightarrow> s = StatusArchived)"
proof -
  have step: "CanTransition a b \<Longrightarrow> CanTransition\<^sup>*\<^sup>* b StatusArchived \<Longrightarrow> CanTransition\<^sup>*\<^sup>* a StatusArchived"
    for a b by (rule converse_rtranclp_into_rtranclp)
  note e = status_table
  have 0: "CanTransition\<^sup>*\<^sup>* StatusBlocked StatusArchived" "CanTransition\<^sup>*\<^sup>* StatusCompleted StatusArchived"
    "CanTransition\<^sup>*\<^sup>* StatusDismissed StatusArchived"
    by (rule r_into_rtranclp, simp add: e)+
  have 1: "CanTransition\<^sup>*\<^sup>* s StatusArchived"
    if "s \<in> {StatusFailed, StatusVerifying, StatusInterrupted, StatusAwaitingApproval,
             StatusDraftReady, StatusClassified}" for s
    using that by (elim insertE) (auto intro: step [OF _ 0(1)] step [OF _ 0(2)] simp: e)
  have 2: "CanTransition\<^sup>*\<^sup>* s StatusArchived" if "s \<in> {StatusRunning, StatusDrafting, StatusNew}" for s
    using that by (elim insertE)
      (auto intro: step [OF _ 1, of _ StatusVerifying] step [OF _ 1, of _ StatusDraftReady]
        step [OF _ 1, of _ StatusClassified] simp: e)
  have 3: "CanTransition\<^sup>*\<^sup>* s StatusArchived" if "s \<in> {StatusReady, StatusApproved}" for s
    using that by (elim insertE) (auto intro: step [OF _ 2, of _ StatusRunning] simp: e)
  have 4: "CanTransition\<^sup>*\<^sup>* StatusWaitingExternal StatusArchived"
    by (rule step [OF _ 3, of _ StatusReady]) (simp_all add: e)
  have "list_all (\<lambda>s. CanTransition\<^sup>*\<^sup>* s StatusArchived) OperationStatus_values"
    by (simp add: enum_values 0 1 2 3 4)
  then have "CanTransition\<^sup>*\<^sup>* s StatusArchived" if "OperationStatus_IsValid s"
    using that by (simp add: list_all_iff enum_valid(1))
  moreover have "OperationStatus_IsValid s" if "CanTransition\<^sup>*\<^sup>* s StatusArchived"
    using that
  proof (cases rule: converse_rtranclpE)
    case base
    then show ?thesis by (simp add: enum_valid enum_values)
  qed (blast dest: CanTransition_valid)
  moreover have "list_all (\<lambda>s. set (NextStatuses s) = {} \<longleftrightarrow> s = StatusArchived) OperationStatus_values"
    by (simp add: enum_values set_NextStatuses operation_transitions_def)
  then have "OperationStatus_IsValid s \<Longrightarrow> NextStatuses s = [] \<longleftrightarrow> s = StatusArchived"
    by (simp add: list_all_iff enum_valid(1))
  moreover have "OperationStatus_IsValid StatusArchived" by (simp add: enum_valid enum_values)
  ultimately show ?thesis by blast
qed

text \<open>
  Ingest is idempotent per source item: once an item was ingested, ingesting it again
  (before its operation is closed) creates nothing; it refreshes the one active operation
  of that source, keeping its identity and status.
\<close>

theorem Ingest_again:
  assumes "ledger_inv r" and "Ingest r now fo fe i = Inr (res, r1)"
  shows "\<exists>res' r2. Ingest r1 now' fo' fe' i = Inr (res', r2) \<and> \<not> ir_Created res' \<and>
    op_ID (ir_Operation res') = op_ID (ir_Operation res) \<and>
    op_Status (ir_Operation res') = op_Status (ir_Operation res) \<and>
    op_UpdatedAt (ir_Operation res') = now'"
proof -
  let ?w = "firstNonEmpty [in_WorkspaceID i, ''local'']"
  from assms have inv1: "ledger_inv r1" by (rule Ingest_ledger_inv)
  then have d1: "distinct (map fst (mr_ops r1))" by (simp add: ledger_inv_def)
  have stored: "mr_lookup r1 (op_ID (ir_Operation res)) = Some (ir_Operation res) \<and>
      dedupe_match ?w (in_DedupeKey i) (ir_Operation res)"
    using assms(2)
  proof (cases rule: Ingest_cases)
    case (found old)
    from assms(1) have "distinct (map fst (mr_ops r))" by (simp add: ledger_inv_def)
    from FindByDedupeKey_Some(2) [OF this found(1)] found(2,3) show ?thesis
      by (simp add: store.lookup_put dedupe_match_def active_op_def)
  next
    case (created op e)
    with NewOperation_Inr [OF created(2)] show ?thesis
      by (simp add: store.lookup_put dedupe_match_def active_op_def)
  qed
  with FindByDedupeKey_None [OF d1] obtain old where
    f: "FindByDedupeKey r1 ?w (in_DedupeKey i) = Some old" by (meson option.exhaust)
  from FindByDedupeKey_Some [OF d1 f] inv1 stored have "old = ir_Operation res"
    unfolding ledger_inv_def active_unique_def dedupe_match_def same_source_def
    by (metis option.inject)
  with Ingest_found [OF f] show ?thesis by simp
qed

theorem Ingest_again_witness:
  "\<exists>res' r2. Ingest sample_ledger 3 9 10 sample_item = Inr (res', r2) \<and> \<not> ir_Created res'"
proof -
  obtain res where "Ingest NewMemoryRepository 1 7 8 sample_item = Inr (res, sample_ledger)"
    using Ingest_sample by blast
  from Ingest_again [OF ledger_inv_init this, of 3 9 10] show ?thesis by blast
qed

text \<open>
  A page of the ledger shows the caller's own operations only: every entry belongs to
  the filter's owner and workspace (and matches its status, when one is set), newest
  update first, at most 200 of them; only a negative offset into the matches panics.
\<close>

theorem List_page:
  "case List_ops r f of
     None \<Rightarrow> f_Offset f < 0
   | Some ops \<Rightarrow> (\<forall>op \<in> set ops. op \<in> snd ` set (mr_ops r) \<and>
         op_OwnerUserID op = f_OwnerUserID f \<and> op_WorkspaceID op = f_WorkspaceID f \<and>
         (f_Status f = '''' \<or> op_Status op = f_Status f)) \<and>
       sorted (map (\<lambda>op. - op_UpdatedAt op) ops) \<and> length ops \<le> 200"
proof -
  let ?all = "sort_key (\<lambda>op. - op_UpdatedAt op) (filter (list_match f) (map snd (mr_ops r)))"
  have lim: "0 < page_limit (f_Limit f)" "page_limit (f_Limit f) \<le> 200"
    by (auto simp: page_limit_def)
  have win: "List_ops r f = applyWindow ?all (f_Offset f) (page_limit (f_Limit f))"
    by (simp add: List_ops_def)
  show ?thesis
  proof (cases "List_ops r f")
    case None
    with win have "applyWindow ?all (f_Offset f) (page_limit (f_Limit f)) = None" by simp
    then have "f_Offset f < 0" by (rule applyWindow_None) (use lim in simp)
    with None show ?thesis by simp
  next
    case (Some ops)
    then have aw: "applyWindow ?all (f_Offset f) (page_limit (f_Limit f)) = Some ops" using win by simp
    from applyWindow_part [OF aw] lim obtain pre post where
      parts: "?all = pre @ ops @ post" and "int (length ops) \<le> page_limit (f_Limit f)" by auto
    then have "length ops \<le> 200" using lim by simp
    moreover have "sorted (map (\<lambda>op. - op_UpdatedAt op) (pre @ ops @ post))"
      unfolding parts [symmetric] by (rule sorted_sort_key)
    then have "sorted (map (\<lambda>op. - op_UpdatedAt op) ops)" by (simp add: sorted_append)
    moreover have "set ops \<subseteq> set ?all" unfolding parts by auto
    then have "set ops \<subseteq> {op \<in> snd ` set (mr_ops r). list_match f op}" by auto
    ultimately show ?thesis using Some by (auto simp: list_match_def)
  qed
qed

theorem List_page_witness:
  "List_ops sample_ledger \<lparr>f_OwnerUserID = ''stranger'', f_WorkspaceID = ''local'', f_Status = '''',
     f_RiskLevel = '''', f_Limit = 0, f_Offset = 0\<rparr> = Some []"
proof -
  let ?f = "\<lparr>f_OwnerUserID = ''stranger'', f_WorkspaceID = ''local'', f_Status = '''',
     f_RiskLevel = '''', f_Limit = 0, f_Offset = 0\<rparr>"
  have "NewOperation sample_item 1 = Inr op \<Longrightarrow> op_OwnerUserID op = ''owner''" for op
    by (auto simp: NewOperation_def sample_item_def Let_def split: option.splits)
  then have o: "op_OwnerUserID sample_op = ''owner''" using NewOperation_sample by fastforce
  have "op \<in> snd ` set (mr_ops sample_ledger) \<Longrightarrow> op_OwnerUserID op = ''owner''" for op
    using Ingest_sample o by auto
  note owner = this
  note page = List_page [where r = sample_ledger and f = ?f]
  show ?thesis
  proof (cases "List_ops sample_ledger ?f")
    case (Some ops)
    have "op \<notin> set ops" for op
    proof
      assume "op \<in> set ops"
      with page Some have "op \<in> snd ` set (mr_ops sample_ledger)" "op_OwnerUserID op = ''stranger''"
        by simp_all
      with owner [of op] show False by simp
    qed
    then have "ops = []" by (cases ops) auto
    with Some show ?thesis by simp
  next
    case None
    with page show ?thesis by simp
  qed
qed


end
