(* ===== verification/AutonomyPolicy.thy ===== *)
theory AutonomyPolicy
  imports OperationEnum
begin

text \<open>
  How far the assistant may act on an operation: the background modes (\<open>autonomypolicy/mode.go\<close>),
  the risk of a text (\<open>risk.go\<close>), the autonomy gate (\<open>autonomygate/autonomygate.go\<close>) and the
  decision over them (\<open>decision.go\<close>). A constant of type \<open>float64\<close> is the fraction it stands for.
\<close>

section \<open>Modes\<close>

datatype Mode =
    ModePaused | ModeReadOnly | ModeDraftOnly | ModeApprovalRequired | ModeAutonomousSafe
  | ModeEmergencyStopped | ModeOther string

definition Mode_texts :: "(string \<times> Mode) list" where
  "Mode_texts = [(''paused'', ModePaused), (''read_only'', ModeReadOnly), (''draft_only'', ModeDraftOnly),
     (''approval_required'', ModeApprovalRequired), (''autonomous_safe'', ModeAutonomousSafe),
     (''emergency_stopped'', ModeEmergencyStopped)]"

definition Mode_IsValid :: "Mode \<Rightarrow> bool" where
  "Mode_IsValid m = (case m of ModeOther t \<Rightarrow> False | _ \<Rightarrow> True)"

definition AllowsBackgroundProcessing :: "Mode \<Rightarrow> bool" where
  "AllowsBackgroundProcessing m \<longleftrightarrow> m \<noteq> ModePaused \<and> m \<noteq> ModeEmergencyStopped"

text \<open>A text that is no mode is the error.\<close>

definition ParseMode :: "string \<Rightarrow> string + Mode" where
  "ParseMode v =
     (let s = ToLower (TrimSpace v) in
      if s = '''' then Inr ModeAutonomousSafe
      else case map_of Mode_texts s of Some m \<Rightarrow> Inr m | None \<Rightarrow> Inl v)"

section \<open>Risk\<close>

definition highRiskKeywords :: "string list" where
  "highRiskKeywords = [''government'', ''municipality'', ''court'', ''lawyer'', ''landlord'',
     ''housing corporation'', ''debt collection'', ''insurance'', ''medical'', ''banking'', ''bank '',
     ''payment'', ''invoice'', ''tax'', ''taxes'', ''contract'', ''legal'', ''hiring'', ''firing'', ''dispute'',
     ''deletion'', ''credential'', ''account settings'', ''password'', ''deadline commitment'',
     ''public posting'']"

definition mediumRiskKeywords :: "string list" where
  "mediumRiskKeywords = [''draft'', ''follow-up'', ''follow up'', ''reply'', ''github comment'', ''comment'',
     ''calendar'', ''outreach'', ''upwork'', ''trello'', ''review'', ''pull request'']"

text \<open>\<open>strings.Contains\<close>\<close>

fun Contains :: "string \<Rightarrow> string \<Rightarrow> bool" where
  "Contains [] k = (k = [])"
| "Contains (c # s) k = (take (length k) (c # s) = k \<or> Contains s k)"

definition ClassifyRisk :: "string \<Rightarrow> RiskLevel" where
  "ClassifyRisk text =
     (let t = ToLower text in
      if list_ex (Contains t) highRiskKeywords then RiskHigh
      else if list_ex (Contains t) mediumRiskKeywords then RiskMedium
      else RiskLow)"

section \<open>The autonomy gate\<close>

datatype GateDecision = GateAuto | GateReview | GateBlock

record Signals =
  sg_Confidence :: float64
  sg_Risk :: string
  sg_Reversible :: bool
  sg_Approved :: bool

text \<open>The comparison \<open>c < 0.6\<close>, which is false of NaN, and the constant \<open>0.9\<close>.\<close>

definition below_confidence :: "float64 \<Rightarrow> bool" where
  "below_confidence c =
     (case c of NaN \<Rightarrow> False | Inf positive \<Rightarrow> \<not> positive
      | Fin q \<Rightarrow> q < 5404319552844595 / 9007199254740992)"

definition Decide_gate :: "Signals \<Rightarrow> GateDecision" where
  "Decide_gate s =
     (if sg_Approved s then GateAuto
      else
        (let risk = ToLower (TrimSpace (sg_Risk s)) in
         if risk = ''high'' \<and> \<not> sg_Reversible s then GateBlock
         else if risk = ''high'' \<or> risk = ''medium'' then GateReview
         else if below_confidence (sg_Confidence s) then GateReview
         else if risk = ''medium'' \<and> \<not> sg_Reversible s then GateReview
         else GateAuto))"

section \<open>The decision\<close>

record PolicyInput =
  pi_Title :: string
  pi_Content :: string
  pi_OperationType :: string
  pi_Mode :: Mode
  pi_Reversible :: bool
  pi_EmergencyStop :: bool

record PolicyDecision =
  pd_Risk :: RiskLevel
  pd_Autonomy :: AutonomyLevel
  pd_Decision :: CurrentDecision
  pd_RequiresApproval :: bool
  pd_Reversible :: bool
  pd_Owner :: OwnerType
  pd_Reason :: string
  pd_PolicyRule :: string
  pd_RecommendedAction :: string
  pd_NextReviewAt :: "instant option"

definition gateAllowsAuto :: "RiskLevel \<Rightarrow> bool \<Rightarrow> bool" where
  "gateAllowsAuto risk reversible \<longleftrightarrow>
     Decide_gate \<lparr>sg_Confidence = Fin (8106479329266893 / 9007199254740992), sg_Risk = risk,
       sg_Reversible = reversible, sg_Approved = False\<rparr> = GateAuto"

definition decide_auto :: "RiskLevel \<Rightarrow> string \<Rightarrow> string \<Rightarrow> PolicyDecision" where
  "decide_auto risk rule reason =
     \<lparr>pd_Risk = risk, pd_Autonomy = AutonomyAuto, pd_Decision = DecisionRunSafeLocalWorker,
      pd_RequiresApproval = False, pd_Reversible = True, pd_Owner = OwnerHAI, pd_Reason = reason,
      pd_PolicyRule = rule, pd_RecommendedAction = ''run safe local worker'', pd_NextReviewAt = None\<rparr>"

definition decide_approval :: "RiskLevel \<Rightarrow> string \<Rightarrow> string \<Rightarrow> instant \<Rightarrow> PolicyDecision" where
  "decide_approval risk rule reason now =
     \<lparr>pd_Risk = risk, pd_Autonomy = AutonomyApproval, pd_Decision = DecisionAskRobert,
      pd_RequiresApproval = True, pd_Reversible = False, pd_Owner = OwnerRobert, pd_Reason = reason,
      pd_PolicyRule = rule, pd_RecommendedAction = ''ask Robert to approve'',
      pd_NextReviewAt = Some (now + 24 * 3600 * 10 ^ 9)\<rparr>"

definition decide_draft :: "RiskLevel \<Rightarrow> string \<Rightarrow> string \<Rightarrow> PolicyDecision" where
  "decide_draft risk rule reason =
     \<lparr>pd_Risk = risk, pd_Autonomy = AutonomyDraft, pd_Decision = DecisionCreateDraft,
      pd_RequiresApproval = False, pd_Reversible = True, pd_Owner = OwnerHAI, pd_Reason = reason,
      pd_PolicyRule = rule, pd_RecommendedAction = ''prepare an internal draft'', pd_NextReviewAt = None\<rparr>"

definition decide_observe :: "RiskLevel \<Rightarrow> string \<Rightarrow> string \<Rightarrow> PolicyDecision" where
  "decide_observe risk rule reason =
     \<lparr>pd_Risk = risk, pd_Autonomy = AutonomyObserve, pd_Decision = DecisionObserveOnly,
      pd_RequiresApproval = False, pd_Reversible = True, pd_Owner = OwnerHAI, pd_Reason = reason,
      pd_PolicyRule = rule, pd_RecommendedAction = ''observe only'', pd_NextReviewAt = None\<rparr>"

definition decide_block :: "RiskLevel \<Rightarrow> string \<Rightarrow> string \<Rightarrow> PolicyDecision" where
  "decide_block risk rule reason =
     \<lparr>pd_Risk = risk, pd_Autonomy = AutonomyBlocked, pd_Decision = DecisionBlock,
      pd_RequiresApproval = False, pd_Reversible = False, pd_Owner = OwnerHAI, pd_Reason = reason,
      pd_PolicyRule = rule, pd_RecommendedAction = ''blocked'', pd_NextReviewAt = None\<rparr>"

text \<open>The two permissive modes: automatic below the bar, approval above it.\<close>

definition decide_permissive :: "PolicyInput \<Rightarrow> RiskLevel \<Rightarrow> instant \<Rightarrow> PolicyDecision" where
  "decide_permissive i risk now =
     (let lowSafe = (risk = RiskLow \<and> pi_Reversible i) in
      if pi_Mode i = ModeApprovalRequired then
        (if lowSafe \<and> gateAllowsAuto risk (pi_Reversible i)
         then decide_auto risk ''mode_approval_required_low_safe''
                ''low-risk reversible internal work runs automatically''
         else decide_approval risk ''mode_approval_required''
                ''approval required for anything beyond internal low-risk'' now)
      else if pi_Mode i = ModeAutonomousSafe then
        (if lowSafe \<and> gateAllowsAuto risk (pi_Reversible i)
         then decide_auto risk ''mode_autonomous_safe_low''
                ''low-risk reversible operation runs via the safe local worker''
         else decide_approval risk ''mode_autonomous_safe_medium_high''
                ''medium/high risk requires approval in autonomous-safe mode'' now)
      else decide_approval risk ''default_conservative'' ''no permissive mode matched; requiring approval'' now)"

definition Decide_policy :: "PolicyInput \<Rightarrow> instant \<Rightarrow> PolicyDecision" where
  "Decide_policy i now =
     (let risk = ClassifyRisk (pi_Title i @ '' '' @ pi_Content i) in
      if pi_EmergencyStop i \<or> pi_Mode i = ModeEmergencyStopped
      then decide_block risk ''emergency_stop'' ''emergency stop active; execution blocked''
      else if pi_Mode i = ModePaused
      then decide_observe risk ''mode_paused'' ''background processing paused''
      else if risk = RiskHigh
      then decide_approval risk ''always_high_risk'' (''high-risk domain requires Robert'' @ [CHR 39] @ ''s approval'') now
      else if pi_Mode i = ModeReadOnly
      then decide_observe risk ''mode_read_only'' ''read-only mode; observe/summarize only''
      else if pi_Mode i = ModeDraftOnly
      then decide_draft risk ''mode_draft_only'' ''draft-only mode; internal draft prepared''
      else decide_permissive i risk now)"

end
