(* ===== verification/Idempotency.thy ===== *)
theory Idempotency
  imports Prelude
begin

text \<open>
  Package \<open>idempotency\<close>: canonical JSON (\<open>canonical_json.go\<close>), the hashes that identify source
  revisions, feed items, operations and attempts (\<open>hash.go\<close>) and the store of seen keys
  (\<open>idempotency.go\<close>). SHA-256 in hexadecimal, the JSON text of a string and what \<open>json.Marshal\<close>
  followed by decoding makes of a value are the library \<open>IdemLib\<close>.
\<close>

section \<open>Canonical JSON\<close>

record IdemLib =
  lib_sha256Hex :: "string \<Rightarrow> string"
  lib_quote :: "string \<Rightarrow> string"
  lib_reread :: "JSON \<Rightarrow> string + JSON"

fun encodeCanonical :: "(string \<Rightarrow> string) \<Rightarrow> JSON \<Rightarrow> string" where
  "encodeCanonical quote (JObject kvs) =
     ''{'' @ Join (map (\<lambda>(k, text). quote k @ '':'' @ text)
        (sort_key fst (map (\<lambda>(k, v). (k, encodeCanonical quote v)) kvs))) '','' @ ''}''"
| "encodeCanonical quote (JArray vs) = ''['' @ Join (map (encodeCanonical quote) vs) '','' @ '']''"
| "encodeCanonical quote JNull = ''null''"
| "encodeCanonical quote (JBool b) = (if b then ''true'' else ''false'')"
| "encodeCanonical quote (JNumber text) = text"
| "encodeCanonical quote (JString s) = quote s"

definition CanonicalJSONString :: "IdemLib \<Rightarrow> JSON \<Rightarrow> string + string" where
  "CanonicalJSONString lib v =
     (case lib_reread lib v of
        Inl e \<Rightarrow> Inl e
      | Inr decoded \<Rightarrow> Inr (encodeCanonical (lib_quote lib) decoded))"

section \<open>Hashes\<close>

definition join :: "string list \<Rightarrow> string" where
  "join parts = Join parts ''|''"

definition SourceRevisionHash :: "IdemLib \<Rightarrow> string \<Rightarrow> string \<Rightarrow> string" where
  "SourceRevisionHash lib content metadata = lib_sha256Hex lib (join [''srev'', content, metadata])"

definition FeedItemDedupeKey :: "IdemLib \<Rightarrow> string \<Rightarrow> string \<Rightarrow> string \<Rightarrow> string \<Rightarrow> string" where
  "FeedItemDedupeKey lib provider accountLabel externalID sourceRevisionHash =
     lib_sha256Hex lib (join [''feed'', provider, accountLabel, externalID, sourceRevisionHash])"

definition OperationDedupeKey ::
  "IdemLib \<Rightarrow> string \<Rightarrow> string \<Rightarrow> string \<Rightarrow> string \<Rightarrow> string \<Rightarrow> string" where
  "OperationDedupeKey lib workspaceID operationType sourceType sourceID sourceRevisionHash =
     lib_sha256Hex lib
       (join [''op'', workspaceID, operationType, sourceType, sourceID, sourceRevisionHash])"

definition ActionPayloadHash ::
  "IdemLib \<Rightarrow> JSON \<Rightarrow> string \<Rightarrow> string \<Rightarrow> string \<Rightarrow> string + string" where
  "ActionPayloadHash lib exactPayload sourceRevisionHash targetSystem actionType =
     (case CanonicalJSONString lib exactPayload of
        Inl e \<Rightarrow> Inl e
      | Inr canonical \<Rightarrow>
          Inr (lib_sha256Hex lib (join [''action'', canonical, sourceRevisionHash, targetSystem, actionType])))"

definition RuntimeAttemptIdempotencyKey ::
  "IdemLib \<Rightarrow> string \<Rightarrow> string \<Rightarrow> string \<Rightarrow> string \<Rightarrow> string" where
  "RuntimeAttemptIdempotencyKey lib operationID actionPlanID runtimeID payloadHash =
     lib_sha256Hex lib (join [''attempt'', operationID, actionPlanID, runtimeID, payloadHash])"

section \<open>The store of seen keys\<close>

record IdemStore =
  is_ttl :: duration
  is_seen :: "(string \<times> instant) list"

definition New_store :: "duration \<Rightarrow> IdemStore" where
  "New_store ttl = \<lparr>is_ttl = ttl, is_seen = []\<rparr>"

definition IsDuplicate :: "IdemStore \<Rightarrow> string \<Rightarrow> instant \<Rightarrow> bool" where
  "IsDuplicate s k now =
     (case map_of (is_seen s) k of
        None \<Rightarrow> False
      | Some seenAt \<Rightarrow> if is_ttl s \<le> 0 then True else now - seenAt < is_ttl s)"

definition FirstSeen :: "IdemStore \<Rightarrow> string \<Rightarrow> instant \<Rightarrow> bool \<times> IdemStore" where
  "FirstSeen s k now =
     (let record_key = (True, s\<lparr>is_seen := AList.update k now (is_seen s)\<rparr>) in
      case map_of (is_seen s) k of
        None \<Rightarrow> record_key
      | Some seenAt \<Rightarrow>
          if is_ttl s \<le> 0 \<or> now - seenAt < is_ttl s then (False, s) else record_key)"

section \<open>Facts\<close>

text \<open>Two values that differ in the order of their maps only.\<close>

inductive same_value :: "JSON \<Rightarrow> JSON \<Rightarrow> bool" where
  null: "same_value JNull JNull"
| bool: "same_value (JBool b) (JBool b)"
| number: "same_value (JNumber t) (JNumber t)"
| string: "same_value (JString s) (JString s)"
| array: "list_all2 same_value vs ws \<Longrightarrow> same_value (JArray vs) (JArray ws)"
| object: "distinct (map fst kvs) \<Longrightarrow> distinct (map fst kws) \<Longrightarrow> fst ` set kvs = fst ` set kws \<Longrightarrow>
     (\<And>k v w. (k, v) \<in> set kvs \<Longrightarrow> (k, w) \<in> set kws \<Longrightarrow> same_value v w) \<Longrightarrow>
     same_value (JObject kvs) (JObject kws)"
  monos list_all2_mono

lemma encodeCanonical_same: "same_value v w \<Longrightarrow> encodeCanonical quote v = encodeCanonical quote w"
proof (induction rule: same_value.induct)
  case (array vs ws)
  then have "map (encodeCanonical quote) vs = map (encodeCanonical quote) ws"
    by (induction rule: list_all2_induct) auto
  then show ?case by simp
next
  case (object kvs kws)
  let ?enc = "map (\<lambda>(k, v). (k, encodeCanonical quote v))"
  have fsts: "map fst (?enc l) = map fst l" for l by (induction l) auto
  have sub: "set (?enc as) \<subseteq> set (?enc bs)"
    if "fst ` set as = fst ` set bs"
      and "\<And>k v w. (k, v) \<in> set as \<Longrightarrow> (k, w) \<in> set bs \<Longrightarrow> encodeCanonical quote v = encodeCanonical quote w"
    for as bs
  proof
    fix p assume "p \<in> set (?enc as)"
    then obtain k v where kv: "(k, v) \<in> set as" "p = (k, encodeCanonical quote v)" by auto
    then have "k \<in> fst ` set bs" using that(1) by force
    then obtain w where "(k, w) \<in> set bs" by auto
    with kv that(2) show "p \<in> set (?enc bs)" by force
  qed
  have "set (?enc kvs) = set (?enc kws)"
  proof
    show "set (?enc kvs) \<subseteq> set (?enc kws)" by (rule sub [OF object.hyps(3) object.IH])
    show "set (?enc kws) \<subseteq> set (?enc kvs)"
      by (rule sub [OF object.hyps(3) [symmetric] object.IH [symmetric]])
  qed
  then have "sort_key fst (?enc kvs) = sort_key fst (?enc kws)"
    by (intro sort_key_fst_cong) (simp_all only: fsts object.hyps)
  then show ?case by simp
qed simp_all

text \<open>The delimiter of \<open>join\<close> is not escaped.\<close>

lemma Join_absorb: "Join (xs @ (a @ sep @ b) # ys) sep = Join (xs @ a # b # ys) sep"
proof (induction xs)
  case Nil
  then show ?case by (cases ys) simp_all
next
  case (Cons x xs)
  then show ?case by (cases xs) simp_all
qed

text \<open>The store's duplicate test agrees with the recording call.\<close>

lemma FirstSeen_iff: "fst (FirstSeen s k now) \<longleftrightarrow> \<not> IsDuplicate s k now"
  by (simp add: FirstSeen_def IsDuplicate_def Let_def split: option.splits)

lemma FirstSeen_once:
  assumes "fst (FirstSeen s k now)" and "is_ttl s \<le> 0 \<or> later - now < is_ttl s"
  shows "\<not> fst (FirstSeen (snd (FirstSeen s k now)) k later)"
  using assms by (auto simp: FirstSeen_def Let_def update_conv' split: option.splits if_splits)

end
