(* ===== verification/AccountFeed.thy ===== *)
theory AccountFeed
  imports Idempotency OperationLedger
begin

text \<open>
  Account feeds (\<open>accountfeed/feed.go\<close>): a feed's raw items become inputs for the operation ledger,
  with the hash of the item's revision and the key that recognises the item when it is read again.
\<close>

datatype FeedSource = SourceLocalJSONFile | SourceHTTPJSONFeed | SourceTypeOther string

fun FeedSource_text :: "FeedSource \<Rightarrow> string" where
  "FeedSource_text SourceLocalJSONFile = ''local_json_file''"
| "FeedSource_text SourceHTTPJSONFeed = ''http_json_feed''"
| "FeedSource_text (SourceTypeOther t) = t"

record Feed =
  fd_ID :: uuid
  fd_Name :: string
  fd_Provider :: string
  fd_AccountLabel :: string
  fd_SourceType :: FeedSource
  fd_Path :: string
  fd_URL :: string
  fd_WorkspaceID :: string
  fd_OwnerUserID :: string
  fd_ProjectKey :: string
  fd_OperationType :: string
  fd_Enabled :: bool

record FeedItem =
  fi_ExternalID :: string
  fi_Title :: string
  fi_Body :: string
  fi_OperationType :: string
  fi_ReceivedAt :: "instant option"
  fi_Metadata :: JSON
  fi_RawJSON :: string

datatype FeedError = ItemExternalIdRequired | ItemTitleRequired | MetadataError string

definition Validate_item :: "FeedItem \<Rightarrow> FeedError option" where
  "Validate_item it = first_error
     [(TrimSpace (fi_ExternalID it) = '''', ItemExternalIdRequired),
      (TrimSpace (fi_Title it) = '''', ItemTitleRequired)]"

definition ToOperationInput :: "IdemLib \<Rightarrow> Feed \<Rightarrow> FeedItem \<Rightarrow> FeedError + NewOperationInput" where
  "ToOperationInput lib f it =
     (case Validate_item it of
        Some e \<Rightarrow> Inl e
      | None \<Rightarrow>
          (case CanonicalJSONString lib (fi_Metadata it) of
             Inl e \<Rightarrow> Inl (MetadataError e)
           | Inr metaCanonical \<Rightarrow>
               (let revHash = SourceRevisionHash lib (fi_Body it) metaCanonical;
                    dedupe = FeedItemDedupeKey lib (fd_Provider f) (fd_AccountLabel f) (fi_ExternalID it) revHash;
                    opType = firstNonEmpty [fi_OperationType it, fd_OperationType f, ''review_source_item''];
                    evidence = firstNonEmpty [TrimSpace (fi_RawJSON it), ''{}'']
                in Inr
                  \<lparr>in_OwnerUserID = fd_OwnerUserID f,
                   in_WorkspaceID = firstNonEmpty [fd_WorkspaceID f, ''local''],
                   in_Title = fi_Title it,
                   in_Description = fi_Body it,
                   in_OperationType = opType,
                   in_SourceType = FeedSource_text (fd_SourceType f),
                   in_SourceID = None,
                   in_SourceURI = fd_Provider f @ '':'' @ fd_AccountLabel f @ '':'' @ fi_ExternalID it,
                   in_SourceReceivedAt = fi_ReceivedAt it,
                   in_SourceRevisionHash = revHash,
                   in_ProjectKey = fd_ProjectKey f,
                   in_AccountFeedID = Some (fd_ID f),
                   in_DedupeKey = dedupe,
                   in_EvidenceJSON = evidence\<rparr>)))"

text \<open>What an accepted item becomes.\<close>

lemma ToOperationInput_Inr:
  assumes "ToOperationInput lib f it = Inr i"
  obtains metadata where "CanonicalJSONString lib (fi_Metadata it) = Inr metadata"
    "in_SourceRevisionHash i = SourceRevisionHash lib (fi_Body it) metadata"
    "in_DedupeKey i = FeedItemDedupeKey lib (fd_Provider f) (fd_AccountLabel f) (fi_ExternalID it)
       (SourceRevisionHash lib (fi_Body it) metadata)"
    "in_WorkspaceID i = firstNonEmpty [fd_WorkspaceID f, ''local'']"
    "in_SourceURI i = fd_Provider f @ '':'' @ fd_AccountLabel f @ '':'' @ fi_ExternalID it"
  using assms unfolding ToOperationInput_def by (auto simp: Let_def split: option.splits sum.splits)

end
