(* ===== verification/BackgroundWorker.thy ===== *)
theory BackgroundWorker
  imports AutonomyPolicy AccountFeed OperationService
begin

text \<open>
  The background loop (\<open>internal/background\<close>): one pass ingests feed items into the operation ledger,
  decides on every new operation and routes it (\<open>worker.go\<close>), running the local safe worker for
  those it may run (\<open>execute.go\<close>). What a pass gets from outside is its argument: the items of the
  feeds, and per operation the live mode and emergency stop, the verdict of the block rules, the
  privacy scan, the triage of the model service, the result of the safe worker, the clock and the
  fresh identifiers of the ledger's events. The text of a report's errors is a value of
  \<open>PassError\<close>.
\<close>

section \<open>What a pass is given\<close>

record ScanResult =
  sc_PrivacyRiskLevel :: string
  sc_SensitiveFields :: "string list option"
  sc_RedactedPreview :: string
  sc_SafeForCloudModel :: bool

text \<open>A triage that returned no error and was routed.\<close>

record TriageResult =
  tr_ProviderID :: string
  tr_ModelID :: string
  tr_Category :: string

record ExecutionResult =
  xr_OK :: bool
  xr_BoundedOutput :: string
  xr_Passed :: bool

text \<open>
  The fields name the calls of \<open>processOne\<close>; \<open>env_clock\<close> and \<open>env_fresh\<close> give the ledger's clock and a
  fresh identifier for its n-th status change of the operation.
\<close>

record OpEnv =
  env_now :: instant
  env_mode :: Mode
  env_stop :: bool
  env_block :: "string option"
  env_scan :: ScanResult
  env_triage :: "TriageResult option"
  env_lib :: IdemLib
  env_worker :: "string + ExecutionResult"
  env_clock :: "nat \<Rightarrow> instant"
  env_fresh :: "nat \<Rightarrow> uuid"

text \<open>What reading a feed gave; each item comes with the clock and the identifiers its ingestion draws.\<close>

record Draw =
  dr_now :: instant
  dr_freshOp :: uuid
  dr_freshEvent :: uuid

record FeedReader =
  fr_Feed :: Feed
  fr_items :: "string + (FeedItem \<times> Draw) list"

record BackgroundOptions =
  bo_OwnerUserID :: string
  bo_WorkspaceID :: string
  bo_MaxOps :: int

section \<open>The report\<close>

datatype WorkerError = LedgerError op_error | NotSafeExecutable string | NotExecutableFrom string

datatype PassError =
    FeedFailed string string | ItemFailed string string FeedError | IngestFailed string op_error
  | ListFailed | OperationFailed uuid WorkerError

record Report =
  bg_FeedsRead :: nat
  bg_ItemsIngested :: nat
  bg_OperationsCreated :: nat
  bg_Classified :: nat
  bg_Triaged :: nat
  bg_AutoExecuted :: nat
  bg_Verified :: nat
  bg_Failed :: nat
  bg_AwaitingApproval :: nat
  bg_Blocked :: nat
  bg_Drafted :: nat
  bg_Observed :: nat
  bg_Errors :: "PassError list"

definition empty_report :: Report where
  "empty_report = \<lparr>bg_FeedsRead = 0, bg_ItemsIngested = 0, bg_OperationsCreated = 0, bg_Classified = 0,
     bg_Triaged = 0, bg_AutoExecuted = 0, bg_Verified = 0, bg_Failed = 0, bg_AwaitingApproval = 0,
     bg_Blocked = 0, bg_Drafted = 0, bg_Observed = 0, bg_Errors = []\<rparr>"

definition add_error :: "PassError \<Rightarrow> Report \<Rightarrow> Report" where
  "add_error e rep = rep\<lparr>bg_Errors := bg_Errors rep @ [e]\<rparr>"

section \<open>Options\<close>

definition New_options :: "BackgroundOptions \<Rightarrow> BackgroundOptions" where
  "New_options opts =
     opts\<lparr>bo_WorkspaceID := (if bo_WorkspaceID opts = '''' then ''local'' else bo_WorkspaceID opts),
          bo_MaxOps := (if bo_MaxOps opts \<le> 0 then 50 else bo_MaxOps opts)\<rparr>"

section \<open>Executing a safe operation\<close>

text \<open>A status change by the service with the actor \<open>hai\<close>, the n-th one of the operation.\<close>

definition hai_transition ::
  "OpEnv \<Rightarrow> nat \<Rightarrow> MemoryRepository \<Rightarrow> Operation \<Rightarrow> OperationStatus \<Rightarrow> string \<Rightarrow>
     WorkerError + (Operation \<times> MemoryRepository)" where
  "hai_transition env n r op to message =
     (case Transition_svc r (env_clock env n) (env_fresh env n) op to ''hai'' '''' message of
        Inl e \<Rightarrow> Inl (LedgerError e)
      | Inr result \<Rightarrow> Inr result)"

record SafeOutcome =
  so_Operation :: "Operation option"
  so_Verified :: bool
  so_Failed :: bool

type_synonym 'a pass = "(WorkerError + 'a) \<times> MemoryRepository"

text \<open>The idiom \<open>op', err := svc.Transition(...); if err != nil { return ..., err }\<close>.\<close>

definition then_transition ::
  "OpEnv \<Rightarrow> nat \<Rightarrow> MemoryRepository \<Rightarrow> Operation \<Rightarrow> OperationStatus \<Rightarrow> string \<Rightarrow>
     (Operation \<Rightarrow> MemoryRepository \<Rightarrow> 'a pass) \<Rightarrow> 'a pass" where
  "then_transition env n r op to message k =
     (case hai_transition env n r op to message of
        Inl e \<Rightarrow> (Inl e, r)
      | Inr (op', r') \<Rightarrow> k op' r')"

definition LocalSafeWorkerID :: string where
  "LocalSafeWorkerID = ''hai-local-safe-worker''"

definition fail_safe ::
  "OpEnv \<Rightarrow> nat \<Rightarrow> MemoryRepository \<Rightarrow> Operation \<Rightarrow> string \<Rightarrow> string \<Rightarrow> SafeOutcome pass" where
  "fail_safe env n r op lastError message =
     then_transition env n r
       (op\<lparr>op_VerificationStatus := VerificationFailed, op_LastError := lastError\<rparr>) StatusFailed message
       (\<lambda>failed r. (Inr \<lparr>so_Operation = Some failed, so_Verified = False, so_Failed = True\<rparr>, r))"

text \<open>The end of the execution: completion is gated on the worker's verification.\<close>

definition conclude_safe :: "OpEnv \<Rightarrow> ExecutionResult \<Rightarrow> Operation \<Rightarrow> MemoryRepository \<Rightarrow> SafeOutcome pass" where
  "conclude_safe env res op r =
     (if xr_OK res \<and> xr_Passed res
      then then_transition env 4 r (op\<lparr>op_VerificationStatus := VerificationPassed\<rparr>)
             StatusCompleted ''verified and completed''
             (\<lambda>completed r. (Inr \<lparr>so_Operation = Some completed, so_Verified = True, so_Failed = False\<rparr>, r))
      else fail_safe env 4 r op ''safe worker verification failed'' ''verification failed'')"

definition run_ready :: "OpEnv \<Rightarrow> MemoryRepository \<Rightarrow> Operation \<Rightarrow> SafeOutcome pass" where
  "run_ready env r op =
     then_transition env 2 r
       (op\<lparr>op_RuntimeID := LocalSafeWorkerID, op_VerificationStatus := VerificationPending\<rparr>)
       StatusRunning ''running safe local worker'' (\<lambda>op r.
         case env_worker env of
           Inl err \<Rightarrow> fail_safe env 3 r op err (''safe worker error: '' @ err)
         | Inr res \<Rightarrow>
             then_transition env 3 r (op\<lparr>op_ResultSummary := xr_BoundedOutput res\<rparr>) StatusVerifying
               ''verifying safe worker result'' (conclude_safe env res))"

definition ExecuteSafeOperation :: "OpEnv \<Rightarrow> MemoryRepository \<Rightarrow> Operation \<Rightarrow> SafeOutcome pass" where
  "ExecuteSafeOperation env r op =
     (if op_CurrentDecision op \<noteq> DecisionRunSafeLocalWorker
      then (Inl (NotSafeExecutable (op_CurrentDecision op)), r)
      else if op_Status op = StatusClassified \<or> op_Status op = StatusFailed
      then then_transition env 1 r op StatusReady ''ready for safe local worker'' (\<lambda>op r. run_ready env r op)
      else if op_Status op = StatusReady then run_ready env r op
      else (Inl (NotExecutableFrom (op_Status op)), r))"

section \<open>Processing one operation\<close>

text \<open>The recorded reasons; a slice that is \<open>nil\<close> is \<open>null\<close>.\<close>

definition world_model :: "PolicyDecision \<Rightarrow> ScanResult \<Rightarrow> JSON" where
  "world_model d scan = JObject
     [(''policyRule'', JString (pd_PolicyRule d)),
      (''reason'', JString (pd_Reason d)),
      (''privacyRiskLevel'', JString (sc_PrivacyRiskLevel scan)),
      (''sensitiveFields'', (case sc_SensitiveFields scan of
          None \<Rightarrow> JNull | Some fs \<Rightarrow> JArray (map JString fs))),
      (''safeForCloud'', JBool (sc_SafeForCloudModel scan)),
      (''redactedPreview'', JString (sc_RedactedPreview scan))]"

definition applyDecision :: "OpEnv \<Rightarrow> Operation \<Rightarrow> PolicyDecision \<Rightarrow> Operation" where
  "applyDecision env op d =
     (let op = op\<lparr>op_RiskLevel := pd_Risk d, op_AutonomyLevel := pd_Autonomy d,
                  op_CurrentDecision := pd_Decision d, op_RequiresApproval := pd_RequiresApproval d,
                  op_OwnerType := pd_Owner d, op_RecommendedAction := pd_RecommendedAction d,
                  op_NextReviewAt := pd_NextReviewAt d\<rparr>;
          op = (if pd_Decision d = DecisionRunSafeLocalWorker
                then op\<lparr>op_VerificationStatus := VerificationPending\<rparr> else op)
      in case CanonicalJSONString (env_lib env) (world_model d (env_scan env)) of
           Inl _ \<Rightarrow> op
         | Inr wm \<Rightarrow> op\<lparr>op_WorldModelStateJSON := wm\<rparr>)"

definition policy_input :: "OpEnv \<Rightarrow> Operation \<Rightarrow> PolicyInput" where
  "policy_input env op =
     \<lparr>pi_Title = op_Title op, pi_Content = op_Description op, pi_OperationType = op_OperationType op,
      pi_Mode = env_mode env, pi_Reversible = True, pi_EmergencyStop = env_stop env\<rparr>"

definition runSafe :: "OpEnv \<Rightarrow> MemoryRepository \<Rightarrow> Report \<Rightarrow> Operation \<Rightarrow> (WorkerError option \<times> Report) \<times> MemoryRepository" where
  "runSafe env r rep op =
     (let rep = rep\<lparr>bg_AutoExecuted := bg_AutoExecuted rep + 1\<rparr> in
      case ExecuteSafeOperation env r op of
        (Inl e, r) \<Rightarrow> ((Some e, rep), r)
      | (Inr outcome, r) \<Rightarrow>
          ((None, rep\<lparr>bg_Verified := bg_Verified rep + (if so_Verified outcome then 1 else 0),
                      bg_Failed := bg_Failed rep + (if so_Failed outcome then 1 else 0)\<rparr>), r))"

text \<open>A transition that is the last call of its branch, with its counter.\<close>

definition finish ::
  "OpEnv \<Rightarrow> nat \<Rightarrow> MemoryRepository \<Rightarrow> Report \<Rightarrow> Operation \<Rightarrow> OperationStatus \<Rightarrow> string \<Rightarrow> Report \<Rightarrow>
     (WorkerError option \<times> Report) \<times> MemoryRepository" where
  "finish env n r rep op to message counted =
     (case hai_transition env n r op to message of
        Inl e \<Rightarrow> ((Some e, rep), r)
      | Inr (_, r) \<Rightarrow> ((None, counted), r))"

definition runDraft ::
  "OpEnv \<Rightarrow> MemoryRepository \<Rightarrow> Report \<Rightarrow> Operation \<Rightarrow> PolicyDecision \<Rightarrow>
     (WorkerError option \<times> Report) \<times> MemoryRepository" where
  "runDraft env r rep op decision =
     (case hai_transition env 1 r op StatusDrafting ''preparing internal draft'' of
        Inl e \<Rightarrow> ((Some e, rep), r)
      | Inr (op, r) \<Rightarrow>
          finish env 2 r rep (op\<lparr>op_ResultSummary := pd_RecommendedAction decision\<rparr>) StatusDraftReady
            ''internal draft ready for review'' (rep\<lparr>bg_Drafted := bg_Drafted rep + 1\<rparr>))"

definition route ::
  "OpEnv \<Rightarrow> MemoryRepository \<Rightarrow> Report \<Rightarrow> Operation \<Rightarrow> PolicyDecision \<Rightarrow>
     (WorkerError option \<times> Report) \<times> MemoryRepository" where
  "route env r rep op decision =
     (if pd_Decision decision = DecisionRunSafeLocalWorker then runSafe env r rep op
      else if pd_Decision decision = DecisionBlock then
        finish env 1 r rep op StatusBlocked (''blocked: '' @ pd_Reason decision)
          (rep\<lparr>bg_Blocked := bg_Blocked rep + 1\<rparr>)
      else if pd_Decision decision = DecisionCreateDraft then runDraft env r rep op decision
      else if pd_Decision decision = DecisionObserveOnly then
        ((None, rep\<lparr>bg_Observed := bg_Observed rep + 1\<rparr>), r)
      else if pd_RequiresApproval decision then
        finish env 1 r rep op StatusAwaitingApproval (''awaiting approval: '' @ pd_Reason decision)
          (rep\<lparr>bg_AwaitingApproval := bg_AwaitingApproval rep + 1\<rparr>)
      else ((None, rep\<lparr>bg_Observed := bg_Observed rep + 1\<rparr>), r))"

definition block_by_rule ::
  "OpEnv \<Rightarrow> MemoryRepository \<Rightarrow> Report \<Rightarrow> Operation \<Rightarrow> PolicyDecision \<Rightarrow> string \<Rightarrow>
     (WorkerError option \<times> Report) \<times> MemoryRepository" where
  "block_by_rule env r rep op decision reason =
     (let op = (applyDecision env op decision)\<lparr>op_RiskLevel := RiskHigh,
                  op_CurrentDecision := DecisionBlock, op_RecommendedAction := ''blocked by operator rule''\<rparr>
      in case hai_transition env 0 r op StatusClassified (''classified (block rule): '' @ reason) of
           Inl e \<Rightarrow> ((Some e, rep), r)
         | Inr (classified, r) \<Rightarrow>
             (let rep = rep\<lparr>bg_Classified := bg_Classified rep + 1\<rparr> in
              finish env 1 r rep classified StatusBlocked (''blocked by operator rule: '' @ reason)
                (rep\<lparr>bg_Blocked := bg_Blocked rep + 1\<rparr>)))"

definition processOne ::
  "OpEnv \<Rightarrow> MemoryRepository \<Rightarrow> Report \<Rightarrow> Operation \<Rightarrow> (WorkerError option \<times> Report) \<times> MemoryRepository" where
  "processOne env r rep op =
     (let decision = Decide_policy (policy_input env op) (env_now env) in
      case env_block env of
        Some reason \<Rightarrow> block_by_rule env r rep op decision reason
      | None \<Rightarrow>
          (let op = applyDecision env op decision;
               (op, message, rep) = (case env_triage env of
                  None \<Rightarrow> (op, ''classified: '' @ pd_Reason decision, rep)
                | Some tri \<Rightarrow>
                    (op\<lparr>op_ModelProviderID := tr_ProviderID tri, op_ModelID := tr_ModelID tri\<rparr>,
                     ''classified ['' @ tr_Category tri @ '']: '' @ pd_Reason decision,
                     rep\<lparr>bg_Triaged := bg_Triaged rep + 1\<rparr>))
           in case hai_transition env 0 r op StatusClassified message of
                Inl e \<Rightarrow> ((Some e, rep), r)
              | Inr (classified, r) \<Rightarrow>
                  route env r (rep\<lparr>bg_Classified := bg_Classified rep + 1\<rparr>) classified decision))"

section \<open>A pass\<close>

text \<open>The environment of an operation is looked up by its identifier.\<close>

fun process_all ::
  "(uuid \<Rightarrow> OpEnv) \<Rightarrow> MemoryRepository \<Rightarrow> Report \<Rightarrow> Operation list \<Rightarrow> Report \<times> MemoryRepository" where
  "process_all envs r rep [] = (rep, r)"
| "process_all envs r rep (op # due) =
     (if op_Status op \<noteq> StatusNew then process_all envs r rep due
      else (case processOne (envs (op_ID op)) r rep op of
              ((None, rep), r) \<Rightarrow> process_all envs r rep due
            | ((Some e, rep), r) \<Rightarrow>
                process_all envs r (add_error (OperationFailed (op_ID op) e) rep) due))"

definition process :: "BackgroundOptions \<Rightarrow> (uuid \<Rightarrow> OpEnv) \<Rightarrow> MemoryRepository \<Rightarrow> Report \<Rightarrow> Report \<times> MemoryRepository" where
  "process opts envs r rep =
     (case ListDue r (bo_OwnerUserID opts) (bo_WorkspaceID opts) (bo_MaxOps opts) of
        None \<Rightarrow> (add_error ListFailed rep, r)
      | Some due \<Rightarrow> process_all envs r rep due)"

fun ingest_items ::
  "IdemLib \<Rightarrow> Feed \<Rightarrow> MemoryRepository \<Rightarrow> Report \<Rightarrow> (FeedItem \<times> Draw) list \<Rightarrow> Report \<times> MemoryRepository" where
  "ingest_items lib feed r rep [] = (rep, r)"
| "ingest_items lib feed r rep ((it, draw) # items) =
     (let rep = rep\<lparr>bg_ItemsIngested := bg_ItemsIngested rep + 1\<rparr> in
      case ToOperationInput lib feed it of
        Inl err \<Rightarrow>
          ingest_items lib feed r (add_error (ItemFailed (fd_Name feed) (fi_ExternalID it) err) rep) items
      | Inr i \<Rightarrow>
          (case Ingest r (dr_now draw) (dr_freshOp draw) (dr_freshEvent draw) i of
             Inl e \<Rightarrow> ingest_items lib feed r (add_error (IngestFailed (fi_ExternalID it) e) rep) items
           | Inr (res, r) \<Rightarrow>
               ingest_items lib feed r
                 (rep\<lparr>bg_OperationsCreated := bg_OperationsCreated rep + (if ir_Created res then 1 else 0)\<rparr>) items))"

fun ingest_feeds :: "IdemLib \<Rightarrow> MemoryRepository \<Rightarrow> Report \<Rightarrow> FeedReader list \<Rightarrow> Report \<times> MemoryRepository" where
  "ingest_feeds lib r rep [] = (rep, r)"
| "ingest_feeds lib r rep (reader # readers) =
     (if \<not> fd_Enabled (fr_Feed reader) then ingest_feeds lib r rep readers
      else
        (let rep = rep\<lparr>bg_FeedsRead := bg_FeedsRead rep + 1\<rparr> in
         case fr_items reader of
           Inl err \<Rightarrow> ingest_feeds lib r (add_error (FeedFailed (fd_Name (fr_Feed reader)) err) rep) readers
         | Inr items \<Rightarrow>
             (let (rep, r) = ingest_items lib (fr_Feed reader) r rep items
              in ingest_feeds lib r rep readers)))"

text \<open>
  \<open>RunOnce\<close>: \<open>held\<close> says that the lease is taken, which is \<open>ErrBusy\<close> (\<open>None\<close>); the lease is released at
  the end. \<open>stop\<close> is the emergency stop read after ingesting.
\<close>

definition RunOnce_background ::
  "IdemLib \<Rightarrow> bool \<Rightarrow> BackgroundOptions \<Rightarrow> FeedReader list \<Rightarrow> bool \<Rightarrow> (uuid \<Rightarrow> OpEnv) \<Rightarrow> MemoryRepository \<Rightarrow>
     Report option \<times> MemoryRepository" where
  "RunOnce_background lib held opts readers stop envs r =
     (if held then (None, r)
      else
        (let (rep, r) = ingest_feeds lib r empty_report readers;
             (rep, r) = (if stop then (rep, r) else process opts envs r rep)
         in (Some rep, r)))"

end
