(* ===== verification/BackgroundFacts.thy ===== *)
theory BackgroundFacts
  imports BackgroundWorker OperationFacts
begin

text \<open>
  What one background pass does to the ledger. \<open>moves\<close> says that a held operation was taken along a
  list of statuses by steps of the ledger, leaving every other operation alone; the stages of
  \<open>execute.go\<close> and \<open>worker.go\<close> are shown to move their operation along \<open>planned_path\<close>, the route the
  policy's decision and the worker's result determine.
\<close>

section \<open>Moving one operation\<close>

fun walk :: "string \<Rightarrow> string list \<Rightarrow> (string \<times> string) list" where
  "walk s [] = []"
| "walk s (t # ts) = (s, t) # walk t ts"

definition end_status :: "string \<Rightarrow> string list \<Rightarrow> string" where
  "end_status s ts = (if ts = [] then s else last ts)"

lemma end_status_simps [simp]:
  "end_status s [] = s" "end_status s (t # ts) = end_status t ts"
  by (simp_all add: end_status_def)

lemma walk_append: "walk s (xs @ ys) = walk s xs @ walk (end_status s xs) ys"
  by (induction xs arbitrary: s) simp_all

lemma end_status_append: "end_status s (xs @ ys) = end_status (end_status s xs) ys"
  by (induction xs arbitrary: s) simp_all

lemma set_walk: "(a, b) \<in> set (walk s xs) \<Longrightarrow> b \<in> set xs"
  by (induction xs arbitrary: s) auto

definition same_operation :: "Operation \<Rightarrow> Operation \<Rightarrow> bool" where
  "same_operation a b \<longleftrightarrow> op_ID a = op_ID b \<and> op_WorkspaceID a = op_WorkspaceID b \<and>
     op_DedupeKey a = op_DedupeKey b"

definition moves :: "Operation \<Rightarrow> string list \<Rightarrow> MemoryRepository \<Rightarrow> MemoryRepository \<Rightarrow> Operation \<Rightarrow> bool" where
  "moves op ts r r' saved \<longleftrightarrow>
     ledger_step\<^sup>*\<^sup>* r r' \<and> same_operation saved op \<and> op_Status saved = end_status (op_Status op) ts \<and>
     mr_lookup r' = (mr_lookup r)(op_ID op \<mapsto> saved) \<and>
     (\<forall>k. status_trail r' k =
        status_trail r k @ (if k = op_ID op then walk (op_Status op) ts else []))"

lemma moves_held: "moves op ts r r' saved \<Longrightarrow> same_operation op' saved \<Longrightarrow>
    op_Status op' = op_Status saved \<Longrightarrow> held_copy r' op'"
  by (simp add: moves_def same_operation_def held_copy_def)

lemma moves_trans:
  assumes "moves op ts r r' saved" and "moves op' ts' r' r'' saved'"
    and "same_operation op' saved" and "op_Status op' = op_Status saved"
  shows "moves op (ts @ ts') r r'' saved'"
proof -
  note a = assms [unfolded moves_def same_operation_def]
  from a have "ledger_step\<^sup>*\<^sup>* r r''" by (meson rtranclp_trans)
  moreover from a have "op_ID op' = op_ID op" by simp
  ultimately show ?thesis
    unfolding moves_def same_operation_def using a
    by (simp add: end_status_append walk_append)
qed

lemma moves_one:
  assumes "held_copy r op" "CanTransition (op_Status op) to"
    and "to = StatusCompleted \<Longrightarrow>
      op_VerificationStatus op \<in> {VerificationPassed, VerificationNotRequired}"
  obtains saved r' where "hai_transition env n r op to message = Inr (saved, r')"
    "moves op [to] r r' saved" "op_CurrentDecision saved = op_CurrentDecision op"
proof -
  from assms(2,3) obtain saved evt where
    a: "ApplyTransition op to ''hai'' '''' message (env_clock env n) = Inr (saved, evt)"
    by (auto simp: ApplyTransition_Inr)
  let ?r = "AppendEvent (mr_put r saved) (env_fresh env n) evt"
  have t: "Transition_svc r (env_clock env n) (env_fresh env n) op to ''hai'' '''' message =
      Inr (saved, ?r)" using a by (simp add: Transition_svc_def Update_put)
  note f = a [unfolded ApplyTransition_Inr]
  from f have s: "same_operation saved op" "op_Status saved = to" "op_ID saved = op_ID op"
    "op_CurrentDecision saved = op_CurrentDecision op"
    by (simp_all add: same_operation_def)
  have "ledger_step r ?r" using assms(1) t by (rule ledger_step.transition)
  then have "ledger_step\<^sup>*\<^sup>* r ?r" by (rule r_into_rtranclp)
  moreover have "mr_lookup ?r = (mr_lookup r)(op_ID op \<mapsto> saved)"
    by (rule ext) (simp add: store.lookup_put s)
  moreover have "status_trail ?r k =
      status_trail r k @ (if k = op_ID op then walk (op_Status op) [to] else [])" for k
    using f by auto
  ultimately have "moves op [to] r ?r saved" using s by (simp add: moves_def)
  moreover have "hai_transition env n r op to message = Inr (saved, ?r)"
    using t by (simp add: hai_transition_def)
  ultimately show thesis using s(4) that by blast
qed

text \<open>The same, for the calls that go on with the saved operation, and for the last call of a branch.\<close>

lemma then_transition_step:
  assumes "held_copy r op" "CanTransition (op_Status op) to"
    and "to = StatusCompleted \<Longrightarrow>
      op_VerificationStatus op \<in> {VerificationPassed, VerificationNotRequired}"
  obtains saved r' where "then_transition env n r op to message k = k saved r'"
    "moves op [to] r r' saved" "op_CurrentDecision saved = op_CurrentDecision op"
  by (rule moves_one [OF assms, of env n message]) (simp_all add: then_transition_def that)

lemma finish_step:
  assumes "held_copy r op" "CanTransition (op_Status op) to" "to \<noteq> StatusCompleted"
  obtains saved r' where "finish env n r rep op to message counted = ((None, counted), r')"
    "moves op [to] r r' saved"
  by (rule moves_one [OF assms(1,2), of env n message]) (simp_all add: assms finish_def that)

lemma moves_status: "moves op ts r r' saved \<Longrightarrow> op_Status saved = end_status (op_Status op) ts"
  and moves_same: "moves op ts r r' saved \<Longrightarrow> same_operation saved op"
  by (simp_all add: moves_def)

lemma same_operation_refl [simp]: "same_operation op op"
  by (simp add: same_operation_def)

text \<open>The moves of the status machine the pass uses.\<close>

lemma pass_moves_allowed [simp]:
  "CanTransition StatusNew StatusClassified" "CanTransition StatusClassified StatusReady"
  "CanTransition StatusClassified StatusBlocked" "CanTransition StatusClassified StatusDrafting"
  "CanTransition StatusClassified StatusAwaitingApproval" "CanTransition StatusDrafting StatusDraftReady"
  "CanTransition StatusReady StatusRunning" "CanTransition StatusRunning StatusVerifying"
  "CanTransition StatusRunning StatusFailed" "CanTransition StatusVerifying StatusFailed"
  "CanTransition StatusVerifying StatusCompleted" "CanTransition StatusFailed StatusReady"
  by (simp_all add: status_table)

section \<open>Executing a safe operation\<close>

definition worker_succeeds :: "OpEnv \<Rightarrow> bool" where
  "worker_succeeds env \<longleftrightarrow> (case env_worker env of Inl _ \<Rightarrow> False | Inr res \<Rightarrow> xr_OK res \<and> xr_Passed res)"

definition worker_path :: "OpEnv \<Rightarrow> string list" where
  "worker_path env = (case env_worker env of
       Inl _ \<Rightarrow> [StatusRunning, StatusFailed]
     | Inr res \<Rightarrow> [StatusRunning, StatusVerifying,
         if worker_succeeds env then StatusCompleted else StatusFailed])"

lemma fail_safe_step:
  assumes "held_copy r op" and "CanTransition (op_Status op) StatusFailed"
  obtains saved r' where
    "fail_safe env n r op e m =
       (Inr \<lparr>so_Operation = Some saved, so_Verified = False, so_Failed = True\<rparr>, r')"
    "moves op [StatusFailed] r r' saved"
proof -
  let ?op = "op\<lparr>op_VerificationStatus := VerificationFailed, op_LastError := e\<rparr>"
  from assms(1) have "held_copy r ?op" by (simp add: held_copy_def)
  moreover have "CanTransition (op_Status ?op) StatusFailed" using assms(2) by simp
  moreover have "StatusFailed = StatusCompleted \<Longrightarrow> op_VerificationStatus ?op \<in>
      {VerificationPassed, VerificationNotRequired}" by simp
  ultimately show thesis
  proof (rule then_transition_step)
    fix saved r'
    assume "then_transition env n r ?op StatusFailed m
        (\<lambda>failed r. (Inr \<lparr>so_Operation = Some failed, so_Verified = False, so_Failed = True\<rparr>, r)) =
        (Inr \<lparr>so_Operation = Some saved, so_Verified = False, so_Failed = True\<rparr>, r')"
      and "moves ?op [StatusFailed] r r' saved"
    then show thesis
      by (intro that [of saved r']) (simp_all add: fail_safe_def moves_def same_operation_def)
  qed
qed

lemma moves_cong:
  "moves op' ts r r' saved \<Longrightarrow> same_operation op' op \<Longrightarrow> op_Status op' = op_Status op \<Longrightarrow>
     moves op ts r r' saved"
  by (simp add: moves_def same_operation_def)

lemma held_copy_cong:
  "held_copy r op \<Longrightarrow> same_operation op' op \<Longrightarrow> op_Status op' = op_Status op \<Longrightarrow> held_copy r op'"
  by (simp add: held_copy_def same_operation_def)

text \<open>A transition of an edited copy, then whatever follows on the saved operation.\<close>

lemma then_edited_step:
  assumes "held_copy r op" "same_operation op' op" "op_Status op' = op_Status op"
    and "CanTransition (op_Status op) to"
    and "to = StatusCompleted \<Longrightarrow>
      op_VerificationStatus op' \<in> {VerificationPassed, VerificationNotRequired}"
  obtains saved r' where "then_transition env n r op' to message k = k saved r'"
    "moves op [to] r r' saved" "held_copy r' saved" "op_Status saved = to"
    "op_CurrentDecision saved = op_CurrentDecision op'"
proof -
  have c: "CanTransition (op_Status op') to" using assms(3,4) by simp
  show thesis
  proof (rule then_transition_step [OF held_copy_cong [OF assms(1-3)] c assms(5), of env n message k])
    fix saved r'
    assume eq: "then_transition env n r op' to message k = k saved r'"
      and m: "moves op' [to] r r' saved" and d: "op_CurrentDecision saved = op_CurrentDecision op'"
    from m have "held_copy r' saved" by (rule moves_held) simp_all
    with eq d moves_cong [OF m assms(2,3)] moves_status [OF m] show thesis
      by (intro that [of saved r']) simp_all
  qed
qed

text \<open>The worker's part of the route.\<close>

lemma conclude_safe_follows:
  assumes h: "held_copy r op" and st: "op_Status op = StatusVerifying"
    and w: "worker_succeeds env \<longleftrightarrow> xr_OK res \<and> xr_Passed res"
  obtains saved r' where
    "conclude_safe env res op r = (Inr \<lparr>so_Operation = Some saved, so_Verified = worker_succeeds env,
       so_Failed = (\<not> worker_succeeds env)\<rparr>, r')"
    "moves op [if worker_succeeds env then StatusCompleted else StatusFailed] r r' saved"
proof (cases "xr_OK res \<and> xr_Passed res")
  case True
  let ?op = "op\<lparr>op_VerificationStatus := VerificationPassed\<rparr>"
  let ?k = "\<lambda>completed r. (Inr \<lparr>so_Operation = Some completed, so_Verified = True, so_Failed = False\<rparr>
      :: WorkerError + SafeOutcome, r)"
  have same: "same_operation ?op op" "op_Status ?op = op_Status op" by (simp_all add: same_operation_def)
  have c: "CanTransition (op_Status op) StatusCompleted" by (simp add: st)
  obtain saved r' where
    k: "then_transition env 4 r ?op StatusCompleted ''verified and completed'' ?k = ?k saved r'"
    and m: "moves op [StatusCompleted] r r' saved"
    by (rule then_edited_step [OF h same c, of env 4 "''verified and completed''" ?k]) simp_all
  have "conclude_safe env res op r = ?k saved r'"
    unfolding conclude_safe_def if_P [OF True] by (rule k)
  with m w True show thesis by (intro that [of saved r']) simp_all
next
  case False
  have "CanTransition (op_Status op) StatusFailed" by (simp add: st)
  from h this obtain saved r' where
    k: "fail_safe env 4 r op ''safe worker verification failed'' ''verification failed'' =
      (Inr \<lparr>so_Operation = Some saved, so_Verified = False, so_Failed = True\<rparr>, r')"
    and m: "moves op [StatusFailed] r r' saved" by (rule fail_safe_step)
  have "conclude_safe env res op r =
      (Inr \<lparr>so_Operation = Some saved, so_Verified = False, so_Failed = True\<rparr>, r')"
    unfolding conclude_safe_def if_not_P [OF False] by (rule k)
  with m w False show thesis by (intro that [of saved r']) simp_all
qed

lemma run_ready_follows:
  assumes h: "held_copy r op" and st: "op_Status op = StatusReady"
  obtains saved r' where
    "run_ready env r op = (Inr \<lparr>so_Operation = Some saved, so_Verified = worker_succeeds env,
       so_Failed = (\<not> worker_succeeds env)\<rparr>, r')"
    "moves op (worker_path env) r r' saved"
proof -
  let ?op = "op\<lparr>op_RuntimeID := LocalSafeWorkerID, op_VerificationStatus := VerificationPending\<rparr>"
  have same: "same_operation ?op op" "op_Status ?op = op_Status op" by (simp_all add: same_operation_def)
  have c: "CanTransition (op_Status op) StatusRunning" by (simp add: st)
  obtain running r1 where
    1: "run_ready env r op = (case env_worker env of
         Inl err \<Rightarrow> fail_safe env 3 r1 running err (''safe worker error: '' @ err)
       | Inr res \<Rightarrow>
           then_transition env 3 r1 (running\<lparr>op_ResultSummary := xr_BoundedOutput res\<rparr>) StatusVerifying
             ''verifying safe worker result'' (conclude_safe env res))"
    and m1: "moves op [StatusRunning] r r1 running" "held_copy r1 running" "op_Status running = StatusRunning"
    unfolding run_ready_def by (rule then_edited_step [OF h same c]) simp_all
  show thesis
  proof (cases "env_worker env")
    case (Inl err)
    have "CanTransition (op_Status running) StatusFailed" by (simp add: m1)
    from m1(2) this obtain saved r2 where
      2: "fail_safe env 3 r1 running err (''safe worker error: '' @ err) =
        (Inr \<lparr>so_Operation = Some saved, so_Verified = False, so_Failed = True\<rparr>, r2)"
      and m2: "moves running [StatusFailed] r1 r2 saved" by (rule fail_safe_step)
    have "moves op ([StatusRunning] @ [StatusFailed]) r r2 saved"
      by (rule moves_trans [OF m1(1) m2]) simp_all
    then have "moves op (worker_path env) r r2 saved" by (simp add: Inl worker_path_def)
    moreover have "\<not> worker_succeeds env" by (simp add: Inl worker_succeeds_def)
    ultimately show thesis
      by (intro that [of saved r2]) (simp_all only: 1 2 Inl sum.case simp_thms)
  next
    case (Inr res)
    let ?running = "running\<lparr>op_ResultSummary := xr_BoundedOutput res\<rparr>"
    have same: "same_operation ?running running" "op_Status ?running = op_Status running"
      by (simp_all add: same_operation_def)
    have c: "CanTransition (op_Status running) StatusVerifying" by (simp add: m1)
    obtain verifying r2 where
      2: "run_ready env r op = conclude_safe env res verifying r2"
      and m2: "moves running [StatusVerifying] r1 r2 verifying" "held_copy r2 verifying"
        "op_Status verifying = StatusVerifying"
      unfolding 1 Inr sum.case by (rule then_edited_step [OF m1(2) same c]) simp_all
    have "worker_succeeds env \<longleftrightarrow> xr_OK res \<and> xr_Passed res" by (simp add: Inr worker_succeeds_def)
    from m2(2,3) this obtain saved r3 where
      3: "conclude_safe env res verifying r2 = (Inr \<lparr>so_Operation = Some saved,
        so_Verified = worker_succeeds env, so_Failed = (\<not> worker_succeeds env)\<rparr>, r3)"
      and m3: "moves verifying [if worker_succeeds env then StatusCompleted else StatusFailed] r2 r3 saved"
      by (rule conclude_safe_follows)
    have "moves op ([StatusRunning] @ [StatusVerifying] @
        [if worker_succeeds env then StatusCompleted else StatusFailed]) r r3 saved"
      by (rule moves_trans [OF m1(1) moves_trans [OF m2(1) m3]]) simp_all
    then have "moves op (worker_path env) r r3 saved" by (simp add: worker_path_def Inr)
    with 2 3 show thesis by (intro that [of saved r3]) simp_all
  qed
qed

lemma ExecuteSafe_from_classified:
  assumes h: "held_copy r op" and st: "op_Status op = StatusClassified \<or> op_Status op = StatusFailed"
    and d: "op_CurrentDecision op = DecisionRunSafeLocalWorker"
  obtains saved r' where
    "ExecuteSafeOperation env r op = (Inr \<lparr>so_Operation = Some saved,
       so_Verified = worker_succeeds env, so_Failed = (\<not> worker_succeeds env)\<rparr>, r')"
    "moves op (StatusReady # worker_path env) r r' saved"
proof -
  have c: "CanTransition (op_Status op) StatusReady" using st by auto
  have d': "\<not> op_CurrentDecision op \<noteq> DecisionRunSafeLocalWorker" using d by simp
  obtain ready r1 where
    1: "ExecuteSafeOperation env r op = run_ready env r1 ready"
    and m1: "moves op [StatusReady] r r1 ready" "held_copy r1 ready" "op_Status ready = StatusReady"
    unfolding ExecuteSafeOperation_def if_not_P [OF d'] if_P [OF st]
    by (rule then_edited_step [OF h same_operation_refl refl c]) simp_all
  from m1(2,3) obtain saved r2 where
    2: "run_ready env r1 ready = (Inr \<lparr>so_Operation = Some saved,
       so_Verified = worker_succeeds env, so_Failed = (\<not> worker_succeeds env)\<rparr>, r2)"
    and m2: "moves ready (worker_path env) r1 r2 saved" by (rule run_ready_follows)
  have "moves op ([StatusReady] @ worker_path env) r r2 saved"
    by (rule moves_trans [OF m1(1) m2]) simp_all
  with 1 2 show thesis by (intro that [of saved r2]) simp_all
qed

section \<open>Processing one operation\<close>

definition decision_path :: "OpEnv \<Rightarrow> PolicyDecision \<Rightarrow> string list" where
  "decision_path env d =
     (if pd_Decision d = DecisionRunSafeLocalWorker then StatusReady # worker_path env
      else if pd_Decision d = DecisionBlock then [StatusBlocked]
      else if pd_Decision d = DecisionCreateDraft then [StatusDrafting, StatusDraftReady]
      else if pd_Decision d = DecisionObserveOnly then []
      else if pd_RequiresApproval d then [StatusAwaitingApproval]
      else [])"

definition policy_of :: "OpEnv \<Rightarrow> Operation \<Rightarrow> PolicyDecision" where
  "policy_of env op = Decide_policy (policy_input env op) (env_now env)"

text \<open>The statuses a new operation is to visit.\<close>

definition planned_path :: "OpEnv \<Rightarrow> Operation \<Rightarrow> string list" where
  "planned_path env op =
     StatusClassified # (if env_block env \<noteq> None then [StatusBlocked]
                         else decision_path env (policy_of env op))"

text \<open>A report that says exactly what the path has.\<close>

definition counted_tail :: "string list \<Rightarrow> Report \<Rightarrow> Report" where
  "counted_tail p rep =
     rep\<lparr>bg_AutoExecuted := bg_AutoExecuted rep + of_bool (StatusRunning \<in> set p),
         bg_Verified := bg_Verified rep + of_bool (StatusCompleted \<in> set p),
         bg_Failed := bg_Failed rep + of_bool (StatusFailed \<in> set p),
         bg_AwaitingApproval := bg_AwaitingApproval rep + of_bool (StatusAwaitingApproval \<in> set p),
         bg_Blocked := bg_Blocked rep + of_bool (StatusBlocked \<in> set p),
         bg_Drafted := bg_Drafted rep + of_bool (StatusDraftReady \<in> set p),
         bg_Observed := bg_Observed rep + of_bool (p = [])\<rparr>"

definition counted :: "OpEnv \<Rightarrow> Operation \<Rightarrow> Report \<Rightarrow> Report" where
  "counted env op rep =
     counted_tail (tl (planned_path env op))
       (rep\<lparr>bg_Triaged := bg_Triaged rep + of_bool (env_block env = None \<and> env_triage env \<noteq> None),
            bg_Classified := bg_Classified rep + 1\<rparr>)"

lemma worker_path_set:
  "StatusRunning \<in> set (worker_path env)"
  "StatusCompleted \<in> set (worker_path env) \<longleftrightarrow> worker_succeeds env"
  "StatusFailed \<in> set (worker_path env) \<longleftrightarrow> \<not> worker_succeeds env"
  "StatusAwaitingApproval \<notin> set (worker_path env)" "StatusBlocked \<notin> set (worker_path env)"
  "StatusDraftReady \<notin> set (worker_path env)"
  by (simp_all add: worker_path_def worker_succeeds_def split: sum.splits)

lemma runSafe_follows:
  assumes "held_copy r op" and "op_Status op = StatusClassified"
    and "op_CurrentDecision op = DecisionRunSafeLocalWorker"
  obtains saved r' where
    "runSafe env r rep op = ((None, counted_tail (StatusReady # worker_path env) rep), r')"
    "moves op (StatusReady # worker_path env) r r' saved"
proof -
  from assms(2) have st: "op_Status op = StatusClassified \<or> op_Status op = StatusFailed" ..
  from assms(1) st assms(3) obtain saved r' where
    1: "ExecuteSafeOperation env r op = (Inr \<lparr>so_Operation = Some saved,
       so_Verified = worker_succeeds env, so_Failed = (\<not> worker_succeeds env)\<rparr>, r')"
    and m: "moves op (StatusReady # worker_path env) r r' saved"
    by (rule ExecuteSafe_from_classified)
  have "runSafe env r rep op = ((None, counted_tail (StatusReady # worker_path env) rep), r')"
    by (simp add: runSafe_def 1 counted_tail_def worker_path_set)
  then show thesis using m by (rule that)
qed

lemma runDraft_follows:
  assumes h: "held_copy r op" and st: "op_Status op = StatusClassified"
  obtains saved r' where
    "runDraft env r rep op d = ((None, counted_tail [StatusDrafting, StatusDraftReady] rep), r')"
    "moves op [StatusDrafting, StatusDraftReady] r r' saved"
proof -
  have c: "CanTransition (op_Status op) StatusDrafting" by (simp add: st)
  obtain drafting r1 where
    1: "hai_transition env 1 r op StatusDrafting ''preparing internal draft'' = Inr (drafting, r1)"
    and m1: "moves op [StatusDrafting] r r1 drafting"
    by (rule moves_one [OF h c, of env 1 "''preparing internal draft''"]) simp_all
  let ?op = "drafting\<lparr>op_ResultSummary := pd_RecommendedAction d\<rparr>"
  have same: "same_operation ?op drafting" "op_Status ?op = op_Status drafting"
    by (simp_all add: same_operation_def)
  from m1 same have "held_copy r1 ?op" by (rule moves_held)
  moreover have "CanTransition (op_Status ?op) StatusDraftReady" by (simp add: moves_status [OF m1])
  ultimately obtain saved r2 where
    2: "finish env 2 r1 rep ?op StatusDraftReady ''internal draft ready for review''
          (rep\<lparr>bg_Drafted := bg_Drafted rep + 1\<rparr>) = ((None, rep\<lparr>bg_Drafted := bg_Drafted rep + 1\<rparr>), r2)"
    and m2: "moves ?op [StatusDraftReady] r1 r2 saved"
    by (rule finish_step [of r1 ?op StatusDraftReady env 2 rep "''internal draft ready for review''"
          "rep\<lparr>bg_Drafted := bg_Drafted rep + 1\<rparr>"]) simp_all
  have "moves op ([StatusDrafting] @ [StatusDraftReady]) r r2 saved"
    by (rule moves_trans [OF m1 m2]) (simp_all add: same_operation_def)
  moreover have "runDraft env r rep op d =
      ((None, counted_tail [StatusDrafting, StatusDraftReady] rep), r2)"
    unfolding runDraft_def 1 sum.case prod.case 2 by (simp add: counted_tail_def)
  ultimately show thesis by (intro that [of r2 saved]) simp_all
qed

lemma moves_stored: "moves op ts r r' saved \<Longrightarrow> mr_lookup r' (op_ID saved) = Some saved"
  by (simp add: moves_def same_operation_def)

lemma moves_none: "mr_lookup r (op_ID op) = Some op \<Longrightarrow> moves op [] r r op"
  by (simp add: moves_def map_upd_triv)

lemma route_follows:
  assumes stored: "mr_lookup r (op_ID op) = Some op" and st: "op_Status op = StatusClassified"
    and cd: "op_CurrentDecision op = pd_Decision d"
  obtains saved r' where
    "route env r rep op d = ((None, counted_tail (decision_path env d) rep), r')"
    "moves op (decision_path env d) r r' saved"
proof -
  have h: "held_copy r op" using stored by (simp add: held_copy_def)
  consider (safe) "pd_Decision d = DecisionRunSafeLocalWorker" | (block) "pd_Decision d = DecisionBlock"
    | (draft) "pd_Decision d = DecisionCreateDraft"
    | (ask) "pd_Decision d \<notin> {DecisionRunSafeLocalWorker, DecisionBlock, DecisionCreateDraft, DecisionObserveOnly}"
        "pd_RequiresApproval d"
    | (watch) "pd_Decision d \<notin> {DecisionRunSafeLocalWorker, DecisionBlock, DecisionCreateDraft}"
        "pd_Decision d = DecisionObserveOnly \<or> \<not> pd_RequiresApproval d"
    by blast
  then show thesis
  proof cases
    case safe
    with cd have "op_CurrentDecision op = DecisionRunSafeLocalWorker" by simp
    from h st this obtain saved r' where
      "runSafe env r rep op = ((None, counted_tail (StatusReady # worker_path env) rep), r')"
      "moves op (StatusReady # worker_path env) r r' saved" by (rule runSafe_follows)
    with safe show thesis by (intro that [of r' saved]) (simp_all add: route_def decision_path_def)
  next
    case block
    let ?rep = "rep\<lparr>bg_Blocked := bg_Blocked rep + 1\<rparr>"
    have c: "CanTransition (op_Status op) StatusBlocked" by (simp add: st)
    obtain saved r' where
      "finish env 1 r rep op StatusBlocked (''blocked: '' @ pd_Reason d) ?rep = ((None, ?rep), r')"
      "moves op [StatusBlocked] r r' saved"
      by (rule finish_step [OF h c, of env 1 rep "''blocked: '' @ pd_Reason d" ?rep]) simp_all
    with block show thesis
      by (intro that [of r' saved]) (simp_all add: route_def decision_path_def counted_tail_def)
  next
    case draft
    from h st obtain saved r' where
      "runDraft env r rep op d = ((None, counted_tail [StatusDrafting, StatusDraftReady] rep), r')"
      "moves op [StatusDrafting, StatusDraftReady] r r' saved" by (rule runDraft_follows)
    with draft show thesis by (intro that [of r' saved]) (simp_all add: route_def decision_path_def)
  next
    case ask
    let ?rep = "rep\<lparr>bg_AwaitingApproval := bg_AwaitingApproval rep + 1\<rparr>"
    have c: "CanTransition (op_Status op) StatusAwaitingApproval" by (simp add: st)
    obtain saved r' where
      "finish env 1 r rep op StatusAwaitingApproval (''awaiting approval: '' @ pd_Reason d) ?rep = ((None, ?rep), r')"
      "moves op [StatusAwaitingApproval] r r' saved"
      by (rule finish_step [OF h c, of env 1 rep "''awaiting approval: '' @ pd_Reason d" ?rep]) simp_all
    with ask show thesis
      by (intro that [of r' saved]) (simp_all add: route_def decision_path_def counted_tail_def)
  next
    case watch
    then show thesis
      by (intro that [of r op] moves_none stored)
        (auto simp: route_def decision_path_def counted_tail_def moves_none [OF stored])
  qed
qed

section \<open>A whole operation\<close>

lemma applyDecision_frame [simp]:
  "same_operation (applyDecision env op d) op" "op_Status (applyDecision env op d) = op_Status op"
  "op_CurrentDecision (applyDecision env op d) = pd_Decision d"
  by (simp_all add: applyDecision_def same_operation_def Let_def split: sum.splits)

text \<open>Classifying an edited copy of a held new operation.\<close>

lemma classified_step:
  assumes "held_copy r op" "op_Status op = StatusNew" "same_operation op' op" "op_Status op' = op_Status op"
  obtains saved r' where "hai_transition env 0 r op' StatusClassified message = Inr (saved, r')"
    "moves op [StatusClassified] r r' saved" "op_CurrentDecision saved = op_CurrentDecision op'"
proof -
  have h: "held_copy r op'" by (rule held_copy_cong [OF assms(1,3,4)])
  have c: "CanTransition (op_Status op') StatusClassified" using assms(2,4) by simp
  show thesis
    by (rule moves_one [OF h c, of env 0 message]) (simp_all add: that moves_cong [OF _ assms(3,4)])
qed

lemma block_by_rule_follows:
  assumes h: "held_copy r op" and new: "op_Status op = StatusNew"
  obtains saved r' where
    "block_by_rule env r rep op d reason =
       ((None, counted_tail [StatusBlocked] (rep\<lparr>bg_Classified := bg_Classified rep + 1\<rparr>)), r')"
    "moves op [StatusClassified, StatusBlocked] r r' saved"
proof -
  let ?op = "(applyDecision env op d)\<lparr>op_RiskLevel := RiskHigh,
     op_CurrentDecision := DecisionBlock, op_RecommendedAction := ''blocked by operator rule''\<rparr>"
  let ?rep = "rep\<lparr>bg_Classified := bg_Classified rep + 1\<rparr>"
  let ?rep2 = "?rep\<lparr>bg_Blocked := bg_Blocked ?rep + 1\<rparr>"
  have same: "same_operation ?op op" "op_Status ?op = op_Status op"
    using applyDecision_frame [of env op d] by (simp_all add: same_operation_def)
  obtain cl r1 where
    1: "hai_transition env 0 r ?op StatusClassified (''classified (block rule): '' @ reason) = Inr (cl, r1)"
    and m1: "moves op [StatusClassified] r r1 cl"
    by (rule classified_step [OF h new same, of env "''classified (block rule): '' @ reason"])
  have h1: "held_copy r1 cl" using m1 by (rule moves_held) simp_all
  have c1: "CanTransition (op_Status cl) StatusBlocked" by (simp add: moves_status [OF m1])
  obtain saved r2 where
    2: "finish env 1 r1 ?rep cl StatusBlocked (''blocked by operator rule: '' @ reason) ?rep2 = ((None, ?rep2), r2)"
    and m2: "moves cl [StatusBlocked] r1 r2 saved"
    by (rule finish_step [OF h1 c1, of env 1 ?rep "''blocked by operator rule: '' @ reason" ?rep2]) simp_all
  have "moves op ([StatusClassified] @ [StatusBlocked]) r r2 saved"
    by (rule moves_trans [OF m1 m2]) simp_all
  moreover have "block_by_rule env r rep op d reason = ((None, ?rep2), r2)"
    unfolding block_by_rule_def Let_def 1 sum.case prod.case by (rule 2)
  ultimately show thesis by (intro that [of r2 saved]) (simp_all add: counted_tail_def)
qed

lemma processOne_follows:
  assumes h: "held_copy r op" and new: "op_Status op = StatusNew"
  obtains saved r' where "processOne env r rep op = ((None, counted env op rep), r')"
    "moves op (planned_path env op) r r' saved"
proof (cases "env_block env")
  case (Some reason)
  from h new obtain saved r' where
    "block_by_rule env r rep op (policy_of env op) reason =
       ((None, counted_tail [StatusBlocked] (rep\<lparr>bg_Classified := bg_Classified rep + 1\<rparr>)), r')"
    "moves op [StatusClassified, StatusBlocked] r r' saved"
    by (rule block_by_rule_follows)
  with Some show thesis
    by (intro that [of r' saved])
      (simp_all add: processOne_def Let_def policy_of_def planned_path_def counted_def)
next
  case None
  let ?d = "policy_of env op"
  obtain op' message rep' where tri: "(case env_triage env of
        None \<Rightarrow> (applyDecision env op ?d, ''classified: '' @ pd_Reason ?d, rep)
      | Some tri \<Rightarrow>
          ((applyDecision env op ?d)\<lparr>op_ModelProviderID := tr_ProviderID tri, op_ModelID := tr_ModelID tri\<rparr>,
           ''classified ['' @ tr_Category tri @ '']: '' @ pd_Reason ?d,
           rep\<lparr>bg_Triaged := bg_Triaged rep + 1\<rparr>)) = (op', message, rep')"
    by (rule prod_cases3)
  then have same: "same_operation op' op" "op_Status op' = op_Status op"
    and cd: "op_CurrentDecision op' = pd_Decision ?d"
    and rep': "rep' = rep\<lparr>bg_Triaged := bg_Triaged rep + of_bool (env_triage env \<noteq> None)\<rparr>"
    using applyDecision_frame [of env op ?d]
    by (auto simp: same_operation_def split: option.splits)
  obtain cl r1 where
    1: "hai_transition env 0 r op' StatusClassified message = Inr (cl, r1)"
    and m1: "moves op [StatusClassified] r r1 cl" and cd1: "op_CurrentDecision cl = op_CurrentDecision op'"
    by (rule classified_step [OF h new same, of env message])
  have "op_Status cl = StatusClassified" by (simp add: moves_status [OF m1])
  moreover have "op_CurrentDecision cl = pd_Decision ?d" using cd cd1 by simp
  ultimately obtain saved r2 where
    2: "route env r1 (rep'\<lparr>bg_Classified := bg_Classified rep' + 1\<rparr>) cl ?d =
      ((None, counted_tail (decision_path env ?d) (rep'\<lparr>bg_Classified := bg_Classified rep' + 1\<rparr>)), r2)"
    and m2: "moves cl (decision_path env ?d) r1 r2 saved"
    using route_follows [OF moves_stored [OF m1]] by blast
  have "moves op ([StatusClassified] @ decision_path env ?d) r r2 saved"
    by (rule moves_trans [OF m1 m2]) simp_all
  moreover have "processOne env r rep op =
      ((None, counted_tail (decision_path env ?d) (rep'\<lparr>bg_Classified := bg_Classified rep' + 1\<rparr>)), r2)"
    unfolding processOne_def Let_def policy_of_def [symmetric] None option.case tri prod.case 1 sum.case
    by (rule 2)
  ultimately show thesis
    using None by (intro that [of r2 saved]) (simp_all add: planned_path_def counted_def rep')
qed

end
