(* ===== verification/BackgroundRun.thy ===== *)
theory BackgroundRun
  imports BackgroundFacts
begin

text \<open>
  A whole background pass: the operations of the due page take their planned paths, ingesting makes
  steps of the ledger, and the policy's automatic decision is characterised.
\<close>

section \<open>The due page\<close>

definition due_new :: "Operation list \<Rightarrow> uuid \<Rightarrow> Operation option" where
  "due_new due k = find (\<lambda>op. op_ID op = k \<and> op_Status op = StatusNew) due"

definition due_trail :: "(uuid \<Rightarrow> OpEnv) \<Rightarrow> Operation list \<Rightarrow> uuid \<Rightarrow> (string \<times> string) list" where
  "due_trail envs due k = (case due_new due k of None \<Rightarrow> []
     | Some op \<Rightarrow> walk StatusNew (planned_path (envs k) op))"

fun due_report :: "(uuid \<Rightarrow> OpEnv) \<Rightarrow> Operation list \<Rightarrow> Report \<Rightarrow> Report" where
  "due_report envs [] rep = rep"
| "due_report envs (op # due) rep = due_report envs due
     (if op_Status op = StatusNew then counted (envs (op_ID op)) op rep else rep)"

lemma due_new_simps [simp]:
  "due_new [] k = None"
  "due_new (op # due) k = (if op_ID op = k \<and> op_Status op = StatusNew then Some op else due_new due k)"
  by (simp_all add: due_new_def)

lemma due_new_SomeD: "due_new due k = Some op \<Longrightarrow> op \<in> set due \<and> op_ID op = k \<and> op_Status op = StatusNew"
  by (induction due) (auto split: if_splits)

lemma due_new_absent: "k \<notin> op_ID ` set due \<Longrightarrow> due_new due k = None"
  by (induction due) auto

lemma process_all_follows:
  assumes "distinct (map op_ID due)" and "\<forall>op \<in> set due. mr_lookup r (op_ID op) = Some op"
  shows "\<exists>r'. process_all envs r rep due = (due_report envs due rep, r') \<and> ledger_step\<^sup>*\<^sup>* r r' \<and>
     (\<forall>k. status_trail r' k = status_trail r k @ due_trail envs due k)"
  using assms
proof (induction due arbitrary: r rep)
  case Nil
  then show ?case by (simp add: due_trail_def)
next
  case (Cons op due)
  show ?case
  proof (cases "op_Status op = StatusNew")
    case False
    then have "due_trail envs (op # due) k = due_trail envs due k" for k by (simp add: due_trail_def)
    with Cons False show ?thesis by simp
  next
    case True
    let ?env = "envs (op_ID op)"
    from Cons.prems have "held_copy r op" by (simp add: held_copy_def)
    from this True obtain saved r1 where
      1: "processOne ?env r rep op = ((None, counted ?env op rep), r1)"
      and m: "moves op (planned_path ?env op) r r1 saved" by (rule processOne_follows)
    from Cons.prems(1) have new: "op_ID op \<notin> op_ID ` set due" by simp
    then have "\<forall>o' \<in> set due. mr_lookup r1 (op_ID o') = Some o'"
      using m Cons.prems(2) by (auto simp: moves_def image_iff)
    with Cons.prems(1) obtain r' where
      2: "process_all envs r1 (counted ?env op rep) due = (due_report envs due (counted ?env op rep), r')"
      and s: "ledger_step\<^sup>*\<^sup>* r1 r'"
      and t: "status_trail r' k = status_trail r1 k @ due_trail envs due k" for k
      using Cons.IH [of r1 "counted ?env op rep"] by auto
    from m s have "ledger_step\<^sup>*\<^sup>* r r'" unfolding moves_def by (meson rtranclp_trans)
    moreover have "status_trail r' k = status_trail r k @ due_trail envs (op # due) k" for k
    proof (cases "k = op_ID op")
      case True
      with new have "due_trail envs due k = []" by (simp add: due_trail_def due_new_absent)
      with True t m \<open>op_Status op = StatusNew\<close> show ?thesis by (simp add: moves_def due_trail_def)
    next
      case False
      with t m show ?thesis by (auto simp: moves_def due_trail_def)
    qed
    ultimately show ?thesis using True 1 2 by simp
  qed
qed

lemma page_limit_pos: "0 < page_limit n"
  by (simp add: page_limit_def)

lemma applyWindow_first: "0 \<le> n \<Longrightarrow> applyWindow xs 0 n = Some (take (nat n) xs)"
  by (auto simp: applyWindow_def Let_def)

definition due_candidates :: "MemoryRepository \<Rightarrow> string \<Rightarrow> string \<Rightarrow> Operation list" where
  "due_candidates r owner workspace = sort_key op_CreatedAt
     (filter (\<lambda>op. op_OwnerUserID op = owner \<and> op_WorkspaceID op = workspace \<and>
        op_Status op \<in> set actionableStatuses) (map snd (mr_ops r)))"

definition due_page :: "MemoryRepository \<Rightarrow> BackgroundOptions \<Rightarrow> Operation list" where
  "due_page r opts = take (nat (page_limit (bo_MaxOps opts)))
     (due_candidates r (bo_OwnerUserID opts) (bo_WorkspaceID opts))"

lemma process_page: "process opts envs r rep = process_all envs r rep (due_page r opts)"
proof -
  have "0 \<le> page_limit (bo_MaxOps opts)" using page_limit_pos [of "bo_MaxOps opts"] by simp
  then have "ListDue r (bo_OwnerUserID opts) (bo_WorkspaceID opts) (bo_MaxOps opts) = Some (due_page r opts)"
    by (simp add: ListDue_def applyWindow_first due_page_def due_candidates_def)
  then show ?thesis by (simp add: process_def)
qed

lemma due_page_stored:
  assumes "ledger_inv r"
  shows "distinct (map op_ID (due_page r opts))"
    and "\<forall>op \<in> set (due_page r opts). mr_lookup r (op_ID op) = Some op"
proof -
  note inv = assms [unfolded ledger_inv_def]
  have keys: "op_ID (snd p) = fst p \<and> mr_lookup r (fst p) = Some (snd p)" if "p \<in> set (mr_ops r)" for p
    using inv that by (cases p) (auto simp: keyed_def mr_lookup_def)
  then have "map op_ID (map snd (mr_ops r)) = map fst (mr_ops r)" by simp
  with inv have "distinct (map op_ID (map snd (mr_ops r)))" by metis
  then have "distinct (map op_ID (filter P (map snd (mr_ops r))))" for P by (rule distinct_map_filter)
  moreover have "distinct (map op_ID (sort_key op_CreatedAt xs)) = distinct (map op_ID xs)"
    for xs :: "Operation list"
    by (simp add: distinct_map)
  ultimately show "distinct (map op_ID (due_page r opts))"
    unfolding due_page_def due_candidates_def take_map [symmetric]
    by (intro distinct_take) (simp only:)
  show "\<forall>op \<in> set (due_page r opts). mr_lookup r (op_ID op) = Some op"
  proof
    fix op assume "op \<in> set (due_page r opts)"
    then have "op \<in> set (due_candidates r (bo_OwnerUserID opts) (bo_WorkspaceID opts))"
      unfolding due_page_def by (rule in_set_takeD)
    then show "mr_lookup r (op_ID op) = Some op" using keys by (auto simp: due_candidates_def)
  qed
qed

lemma process_follows:
  assumes "ledger_inv r"
  obtains r' where "process opts envs r rep = (due_report envs (due_page r opts) rep, r')"
    "ledger_step\<^sup>*\<^sup>* r r'"
    "\<forall>k. status_trail r' k = status_trail r k @ due_trail envs (due_page r opts) k"
  using process_all_follows [OF due_page_stored [OF assms]] process_page by metis

section \<open>Ingesting\<close>

definition item_id :: "FeedItem \<times> Draw \<Rightarrow> uuid" where
  "item_id item = dr_freshOp (snd item)"

definition reader_ids :: "FeedReader \<Rightarrow> uuid list" where
  "reader_ids reader = (case fr_items reader of Inl _ \<Rightarrow> [] | Inr items \<Rightarrow> map item_id items)"

text \<open>The identifiers a pass draws for new operations are fresh: \<open>uuid.New\<close> does not repeat.\<close>

definition fresh_ids :: "MemoryRepository \<Rightarrow> uuid list \<Rightarrow> bool" where
  "fresh_ids r ids \<longleftrightarrow> distinct ids \<and> uuid_nil \<notin> set ids \<and> (\<forall>k \<in> set ids. mr_lookup r k = None)"

definition ingested :: "uuid list \<Rightarrow> MemoryRepository \<Rightarrow> MemoryRepository \<Rightarrow> bool" where
  "ingested ids r r' \<longleftrightarrow> ledger_step\<^sup>*\<^sup>* r r' \<and> dom (mr_lookup r') \<subseteq> dom (mr_lookup r) \<union> set ids \<and>
     status_trail r' = status_trail r"

lemma ingested_refl: "ingested ids r r"
  by (simp add: ingested_def)

lemma ingested_trans: "ingested xs r r' \<Longrightarrow> ingested ys r' r'' \<Longrightarrow> ingested (xs @ ys) r r''"
  unfolding ingested_def set_append by (blast intro: rtranclp_trans dest: trans)

lemma fresh_ids_after: "fresh_ids r (xs @ ys) \<Longrightarrow> ingested xs r r' \<Longrightarrow> fresh_ids r' ys"
  unfolding fresh_ids_def ingested_def by (auto simp: dom_def)

lemma Ingest_ingested:
  assumes "ledger_inv r" and "fresh_ids r [fo]" and ing: "Ingest r now fo fe i = Inr (res, r')"
  shows "ingested [fo] r r'"
proof -
  have "ledger_step r r'" using ing assms(2) by (intro ledger_step.ingest) (auto simp: fresh_ids_def)
  then have "ledger_step\<^sup>*\<^sup>* r r'" by (rule r_into_rtranclp)
  moreover have "status_trail r' = status_trail r \<and> dom (mr_lookup r') \<subseteq> dom (mr_lookup r) \<union> {fo}"
    using ing
  proof (cases rule: Ingest_cases)
    case (found old)
    from assms(1) have d: "distinct (map fst (mr_ops r))" and "keyed (mr_lookup r)"
      by (simp_all add: ledger_inv_def)
    with FindByDedupeKey_Some [OF d found(1)] have "mr_lookup r (op_ID old) = Some old"
      by (auto simp: keyed_def)
    then show ?thesis
      unfolding found(2) by (auto simp: store.lookup_put status_trail_put fun_eq_iff split: if_splits)
  next
    case (created op e)
    from created(4) have "ev_EventType e \<noteq> ''status_change''" by simp
    then show ?thesis
      unfolding created(3) by (auto simp: store.lookup_put fun_eq_iff split: if_splits)
  qed
  ultimately show ?thesis by (simp add: ingested_def)
qed

lemma ledger_steps_inv: "ledger_step\<^sup>*\<^sup>* r r' \<Longrightarrow> ledger_inv r \<Longrightarrow> ledger_inv r'"
  by (induction rule: rtranclp_induct) (auto intro: ledger_step_inv)

lemma ingest_items_ingested:
  assumes "ledger_inv r" and "fresh_ids r (map item_id items)"
  shows "ingested (map item_id items) r (snd (ingest_items lib feed r rep items))"
  using assms
proof (induction items arbitrary: r rep)
  case Nil
  then show ?case by (simp add: ingested_refl)
next
  case (Cons item items)
  obtain it draw where item: "item = (it, draw)" by (cases item)
  then have fo: "dr_freshOp draw = item_id item" by (simp add: item_id_def)
  have rest: "ingested (map item_id (item # items)) r (snd (ingest_items lib feed r1 rep1 items))"
    if "ingested [item_id item] r r1" for r1 rep1
  proof -
    have "ledger_inv r1" using that Cons.prems(1) by (auto simp: ingested_def intro: ledger_steps_inv)
    moreover have "fresh_ids r1 (map item_id items)"
      using fresh_ids_after [of r "[item_id item]" "map item_id items"] Cons.prems(2) that by simp
    ultimately show ?thesis using ingested_trans [OF that] Cons.IH by simp
  qed
  have skip: "ingested [item_id item] r r" by (rule ingested_refl)
  show ?case
  proof (cases "ToOperationInput lib feed it")
    case (Inl err)
    then show ?thesis using rest [OF skip] by (simp add: item)
  next
    case (Inr i)
    note inp = Inr
    show ?thesis
    proof (cases "Ingest r (dr_now draw) (dr_freshOp draw) (dr_freshEvent draw) i")
      case (Inl e)
      then show ?thesis using inp rest [OF skip] by (simp add: item)
    next
      case (Inr p)
      obtain res r1 where p: "p = (res, r1)" by (cases p)
      have "fresh_ids r [dr_freshOp draw]" using Cons.prems(2) by (simp add: fresh_ids_def fo)
      from Ingest_ingested [OF Cons.prems(1) this Inr [unfolded p]]
      have "ingested [item_id item] r r1" by (simp add: fo)
      then show ?thesis using inp Inr p rest by (simp add: item)
    qed
  qed
qed

lemma ingest_feeds_ingested:
  assumes "ledger_inv r" and "fresh_ids r (concat (map reader_ids readers))"
  shows "ingested (concat (map reader_ids readers)) r (snd (ingest_feeds lib r rep readers))"
  using assms
proof (induction readers arbitrary: r rep)
  case Nil
  then show ?case by (simp add: ingested_refl)
next
  case (Cons reader readers)
  have rest: "ingested (concat (map reader_ids (reader # readers))) r (snd (ingest_feeds lib r1 rep1 readers))"
    if "ingested (reader_ids reader) r r1" for r1 rep1
  proof -
    have "ledger_inv r1" using that Cons.prems(1) by (auto simp: ingested_def intro: ledger_steps_inv)
    moreover have "fresh_ids r1 (concat (map reader_ids readers))"
      using fresh_ids_after [of r "reader_ids reader"] Cons.prems(2) that by simp
    ultimately show ?thesis using ingested_trans [OF that] Cons.IH by simp
  qed
  have skip: "ingested (reader_ids reader) r r" by (rule ingested_refl)
  show ?case
  proof (cases "fd_Enabled (fr_Feed reader)")
    case False
    then show ?thesis using rest [OF skip] by simp
  next
    case True
    note on = True
    show ?thesis
    proof (cases "fr_items reader")
      case (Inl err)
      then show ?thesis using on rest [OF skip] by (simp add: Let_def)
    next
      case (Inr items)
      then have ids: "reader_ids reader = map item_id items" by (simp add: reader_ids_def)
      with Cons.prems(2) have "fresh_ids r (map item_id items)" by (simp add: fresh_ids_def)
      from ingest_items_ingested [OF Cons.prems(1) this] ids
      have "ingested (reader_ids reader) r (snd (ingest_items lib (fr_Feed reader) r
          (rep\<lparr>bg_FeedsRead := bg_FeedsRead rep + 1\<rparr>) items))" by simp
      then show ?thesis using on Inr rest by (simp add: Let_def split_beta)
    qed
  qed
qed

end
