(* ===== verification/BackgroundTheorems.thy ===== *)
theory BackgroundTheorems
  imports BackgroundRun OperationTheorems
begin

text \<open>
  The properties of the autonomy policy and of the background loop over the operation ledger.
\<close>

section \<open>The policy\<close>

lemma gateAllowsAuto_low [simp]: "gateAllowsAuto RiskLow reversible"
  by (simp add: gateAllowsAuto_def Decide_gate_def string_eval Let_def below_confidence_def)

lemmas decisions = decide_auto_def decide_approval_def decide_draft_def decide_observe_def decide_block_def

lemma risk_values: "ClassifyRisk t \<in> {RiskLow, RiskMedium, RiskHigh}"
  by (simp add: ClassifyRisk_def Let_def)

lemma Decide_auto_conditions:
  "pd_Decision (Decide_policy i now) = DecisionRunSafeLocalWorker \<longleftrightarrow>
     \<not> pi_EmergencyStop i \<and> pi_Mode i \<in> {ModeApprovalRequired, ModeAutonomousSafe} \<and>
     ClassifyRisk (pi_Title i @ '' '' @ pi_Content i) = RiskLow \<and> pi_Reversible i"
  by (cases "pi_Mode i") (auto simp: Decide_policy_def decide_permissive_def decisions Let_def)

text \<open>
  The policy lets an operation run by itself exactly when there is no emergency stop, the mode
  is \<open>approval_required\<close> or \<open>autonomous_safe\<close>, the text has neither a high-risk nor a medium-risk
  keyword and the operation is reversible; every other decision either asks for approval or runs
  nothing, and a high-risk text never gets a decision other than to block, observe or ask.
\<close>

theorem Decide_auto_iff:
  "(pd_Decision (Decide_policy i now) = DecisionRunSafeLocalWorker \<longleftrightarrow>
     \<not> pi_EmergencyStop i \<and> pi_Mode i \<in> {ModeApprovalRequired, ModeAutonomousSafe} \<and>
     ClassifyRisk (pi_Title i @ '' '' @ pi_Content i) = RiskLow \<and> pi_Reversible i) \<and>
   (ClassifyRisk (pi_Title i @ '' '' @ pi_Content i) \<noteq> RiskHigh \<or>
     pd_Decision (Decide_policy i now) \<in> {DecisionBlock, DecisionObserveOnly, DecisionAskRobert}) \<and>
   (pd_Decision (Decide_policy i now) = DecisionAskRobert \<longleftrightarrow> pd_RequiresApproval (Decide_policy i now))"
proof -
  note [simp] = Decide_policy_def decide_permissive_def decisions Let_def
  have "ClassifyRisk (pi_Title i @ '' '' @ pi_Content i) \<noteq> RiskHigh \<or>
     pd_Decision (Decide_policy i now) \<in> {DecisionBlock, DecisionObserveOnly, DecisionAskRobert}"
    by simp
  moreover have "pd_Decision (Decide_policy i now) = DecisionAskRobert \<longleftrightarrow>
      pd_RequiresApproval (Decide_policy i now)" by simp
  ultimately show ?thesis using Decide_auto_conditions by blast
qed

text \<open>
  The verdict of the autonomy gate is \<open>auto\<close> exactly for an approved action or one whose risk is
  neither \<open>high\<close> nor \<open>medium\<close> and whose confidence is not below the bar: reversibility, which its
  documentation asks for, never matters, and a risk text it does not know counts as low.
\<close>

theorem Decide_gate_exact:
  "Decide_gate s = GateAuto \<longleftrightarrow> sg_Approved s \<or>
     \<not> (ToLower (TrimSpace (sg_Risk s)) \<in> {''high'', ''medium''} \<or> below_confidence (sg_Confidence s))"
  by (auto simp: Decide_gate_def Let_def)

theorem Decide_gate_exact_witness:
  "Decide_gate \<lparr>sg_Confidence = Fin 1, sg_Risk = ''critical'', sg_Reversible = False, sg_Approved = False\<rparr>
     = GateAuto"
proof -
  have "TrimSpace ''critical'' = ''critical''" by (simp add: string_eval)
  then show ?thesis by (simp add: Decide_gate_exact string_eval below_confidence_def)
qed

section \<open>A concrete pass\<close>

definition feed_lib :: IdemLib where
  "feed_lib = \<lparr>lib_sha256Hex = (\<lambda>s. s), lib_quote = (\<lambda>s. s), lib_reread = Inr\<rparr>"

definition demo_env :: OpEnv where
  "demo_env = \<lparr>env_now = 5, env_mode = ModeAutonomousSafe, env_stop = False, env_block = None,
     env_scan = \<lparr>sc_PrivacyRiskLevel = ''low'', sc_SensitiveFields = None, sc_RedactedPreview = '''',
       sc_SafeForCloudModel = True\<rparr>,
     env_triage = None, env_lib = feed_lib,
     env_worker = Inr \<lparr>xr_OK = True, xr_BoundedOutput = ''written'', xr_Passed = True\<rparr>,
     env_clock = (\<lambda>n. 5), env_fresh = (\<lambda>n. 9)\<rparr>"

definition demo_feed :: Feed where
  "demo_feed = \<lparr>fd_ID = 3, fd_Name = ''inbox'', fd_Provider = ''mail'', fd_AccountLabel = ''home'',
     fd_SourceType = SourceLocalJSONFile, fd_Path = ''inbox.json'', fd_URL = '''', fd_WorkspaceID = '''',
     fd_OwnerUserID = ''owner'', fd_ProjectKey = '''', fd_OperationType = '''', fd_Enabled = True\<rparr>"

definition demo_item :: "string \<Rightarrow> string \<Rightarrow> FeedItem" where
  "demo_item title ext = \<lparr>fi_ExternalID = ext, fi_Title = title, fi_Body = '''', fi_OperationType = '''',
     fi_ReceivedAt = None, fi_Metadata = JNull, fi_RawJSON = ''''\<rparr>"

definition demo_reader :: "string \<Rightarrow> string \<Rightarrow> uuid \<Rightarrow> instant \<Rightarrow> FeedReader" where
  "demo_reader title ext k now = \<lparr>fr_Feed = demo_feed,
     fr_items = Inr [(demo_item title ext, \<lparr>dr_now = now, dr_freshOp = k, dr_freshEvent = 8\<rparr>)]\<rparr>"

definition demo_opts :: BackgroundOptions where
  "demo_opts = \<lparr>bo_OwnerUserID = ''owner'', bo_WorkspaceID = ''local'', bo_MaxOps = 1\<rparr>"

definition demo_pass :: MemoryRepository where
  "demo_pass = snd (RunOnce_background feed_lib False demo_opts [demo_reader ''Tidy notes'' ''m1'' 7 1]
     False (\<lambda>k. demo_env) NewMemoryRepository)"

lemma demo_pass_trail: "status_trail demo_pass 7 =
    [(StatusNew, StatusClassified), (StatusClassified, StatusReady), (StatusReady, StatusRunning),
     (StatusRunning, StatusVerifying), (StatusVerifying, StatusCompleted)]"
  by code_simp

text \<open>Two passes over one operation each, the first in read-only mode.\<close>

definition demo_stuck :: MemoryRepository where
  "demo_stuck =
     snd (ingest_feeds feed_lib
       (snd (RunOnce_background feed_lib False demo_opts [demo_reader ''Tidy notes'' ''m1'' 7 1] False
          (\<lambda>k. demo_env\<lparr>env_mode := ModeReadOnly\<rparr>) NewMemoryRepository))
       empty_report [demo_reader ''Sort files'' ''m2'' 6 2])"

lemma demo_stuck_ops: "map (\<lambda>op. (op_ID op, op_Status op)) (map snd (mr_ops demo_stuck)) =
    [(7, StatusClassified), (6, StatusNew)]"
  by code_simp

lemma demo_stuck_page: "map (\<lambda>op. (op_ID op, op_Status op)) (due_page demo_stuck demo_opts) =
    [(7, StatusClassified)]"
  by code_simp

section \<open>Properties of a pass\<close>

theorem Decide_auto_iff_witness:
  "pd_Decision (Decide_policy \<lparr>pi_Title = ''Court date'', pi_Content = '''', pi_OperationType = ''mail'',
     pi_Mode = ModeAutonomousSafe, pi_Reversible = True, pi_EmergencyStop = False\<rparr> 0)
   \<in> {DecisionBlock, DecisionObserveOnly, DecisionAskRobert}"
proof -
  let ?i = "\<lparr>pi_Title = ''Court date'', pi_Content = '''', pi_OperationType = ''mail'',
     pi_Mode = ModeAutonomousSafe, pi_Reversible = True, pi_EmergencyStop = False\<rparr>"
  have "ClassifyRisk (pi_Title ?i @ '' '' @ pi_Content ?i) = RiskHigh" by code_simp
  then have "\<not> ClassifyRisk (pi_Title ?i @ '' '' @ pi_Content ?i) \<noteq> RiskHigh" by (rule contrapos_pn) simp
  with Decide_auto_iff [of ?i 0] show ?thesis by blast
qed

text \<open>
  C14. Processing a new operation never fails: whatever the mode, the block rules, the triage and the
  worker answer, the operation as held is taken by legal status changes along exactly the path its
  decision plans, no other operation is touched, and the report counts exactly what that path has.
\<close>

theorem processOne_route:
  assumes "held_copy r op" and "op_Status op = StatusNew"
  shows "\<exists>saved r'. processOne env r rep op = ((None, counted env op rep), r') \<and>
     moves op (planned_path env op) r r' saved"
  by (rule processOne_follows [OF assms, of env rep]) blast

theorem processOne_route_witness:
  "\<exists>saved r'. processOne demo_env sample_ledger empty_report sample_op =
      ((None, counted demo_env sample_op empty_report), r') \<and>
      moves sample_op (planned_path demo_env sample_op) sample_ledger r' saved"
  by (rule processOne_route) (simp_all add: held_copy_def sample_lookup)

lemma ingest_feeds_reachable:
  assumes "ledger_reachable r" and "fresh_ids r (concat (map reader_ids readers))"
  shows "ledger_reachable (snd (ingest_feeds lib r rep readers))"
    and "status_trail (snd (ingest_feeds lib r rep readers)) = status_trail r"
  using ingest_feeds_ingested [OF reachable_ledger_inv [OF assms(1)] assms(2)] assms(1)
  unfolding ingested_def ledger_reachable_def by (meson rtranclp_trans)+

lemma RunOnce_background_cases:
  "snd (RunOnce_background lib held opts readers stop envs r) =
     (if held then r
      else if stop then snd (ingest_feeds lib r empty_report readers)
      else snd (process opts envs (snd (ingest_feeds lib r empty_report readers))
                  (fst (ingest_feeds lib r empty_report readers))))"
  by (simp add: RunOnce_background_def split_beta)

text \<open>
  C15. A background pass is a run of the operation ledger: from a reachable ledger, with fresh
  identifiers for what it ingests, every pass ends in a reachable ledger, so the ledger's
  properties (no duplicate active operation, a complete audit trail) hold after any number of passes.
\<close>

theorem RunOnce_background_reachable:
  assumes "ledger_reachable r" and "fresh_ids r (concat (map reader_ids readers))"
  shows "ledger_reachable (snd (RunOnce_background lib held opts readers stop envs r))"
proof -
  let ?r = "snd (ingest_feeds lib r empty_report readers)"
  have r1: "ledger_reachable ?r" by (rule ingest_feeds_reachable [OF assms])
  obtain r2 where "process opts envs ?r (fst (ingest_feeds lib r empty_report readers)) =
      (due_report envs (due_page ?r opts) (fst (ingest_feeds lib r empty_report readers)), r2)"
    "ledger_step\<^sup>*\<^sup>* ?r r2"
    by (rule process_follows [OF reachable_ledger_inv [OF r1]])
  with r1 have "ledger_reachable (snd (process opts envs ?r (fst (ingest_feeds lib r empty_report readers))))"
    unfolding ledger_reachable_def by simp
  with r1 assms(1) show ?thesis by (simp add: RunOnce_background_cases)
qed

lemma demo_fresh: "fresh_ids NewMemoryRepository (concat (map reader_ids [demo_reader t d 7 n]))"
  by (simp add: fresh_ids_def reader_ids_def demo_reader_def item_id_def mr_lookup_def NewMemoryRepository_def)

lemma empty_reachable: "ledger_reachable NewMemoryRepository"
  by (simp add: ledger_reachable_def)

theorem RunOnce_background_reachable_witness:
  "ledger_reachable demo_pass \<and> length (status_trail demo_pass 7) = 5"
  using RunOnce_background_reachable [OF empty_reachable demo_fresh] demo_pass_trail
  by (simp add: demo_pass_def)

text \<open>
  C13. Nothing runs behind the operator's back: if a pass starts an operation then no pass was running,
  neither emergency stop was on, the mode was \<open>approval_required\<close> or \<open>autonomous_safe\<close>, no block rule
  matched and the operation's text is low-risk; and it is completed only if the safe worker
  succeeded and its verification passed.
\<close>

theorem background_execution_gate:
  assumes "ledger_reachable r" and "fresh_ids r (concat (map reader_ids readers))"
    and "status_trail (snd (RunOnce_background lib held opts readers stop envs r)) k =
      status_trail r k @ changes"
    and "t \<in> snd ` set changes" and "t \<in> {StatusRunning, StatusVerifying, StatusCompleted}"
  shows "\<not> held \<and> \<not> stop \<and> env_block (envs k) = None \<and> \<not> env_stop (envs k) \<and>
     env_mode (envs k) \<in> {ModeApprovalRequired, ModeAutonomousSafe} \<and>
     (\<exists>op. mr_lookup (snd (ingest_feeds lib r empty_report readers)) k = Some op \<and>
        op_Status op = StatusNew \<and> ClassifyRisk (op_Title op @ '' '' @ op_Description op) = RiskLow) \<and>
     (t = StatusCompleted \<longrightarrow> worker_succeeds (envs k))"
proof -
  let ?r = "snd (ingest_feeds lib r empty_report readers)" and ?rep = "fst (ingest_feeds lib r empty_report readers)"
  have r1: "ledger_reachable ?r" and t1: "status_trail ?r = status_trail r"
    by (rule ingest_feeds_reachable [OF assms(1,2)])+
  note inv = reachable_ledger_inv [OF r1]
  obtain r2 where p: "process opts envs ?r ?rep = (due_report envs (due_page ?r opts) ?rep, r2)"
    "\<forall>k. status_trail r2 k = status_trail ?r k @ due_trail envs (due_page ?r opts) k"
    by (rule process_follows [OF inv])
  have live: "\<not> held \<and> \<not> stop"
    using assms(3,4) t1 by (auto simp: RunOnce_background_cases split: if_splits)
  with assms(3) p t1 have "changes = due_trail envs (due_page ?r opts) k"
    by (simp add: RunOnce_background_cases)
  with assms(4) obtain op where op: "due_new (due_page ?r opts) k = Some op"
    and "t \<in> snd ` set (walk StatusNew (planned_path (envs k) op))"
    by (auto simp: due_trail_def split: option.splits)
  then have t: "t \<in> set (planned_path (envs k) op)" using set_walk by (auto simp: image_iff)
  from due_new_SomeD [OF op] due_page_stored(2) [OF inv, of opts]
  have stored: "mr_lookup ?r k = Some op" "op_Status op = StatusNew" by auto
  have auto: "env_block (envs k) = None \<and> pd_Decision (policy_of (envs k) op) = DecisionRunSafeLocalWorker \<and>
      (t = StatusCompleted \<longrightarrow> worker_succeeds (envs k))"
    using t assms(5) unfolding planned_path_def decision_path_def
    by (auto simp: worker_path_set split: if_splits)
  note safe = Decide_auto_conditions [THEN iffD1, OF auto [unfolded policy_of_def, THEN conjunct2, THEN conjunct1]]
  from safe have "\<not> env_stop (envs k)" "env_mode (envs k) \<in> {ModeApprovalRequired, ModeAutonomousSafe}"
    "ClassifyRisk (op_Title op @ '' '' @ op_Description op) = RiskLow" by (simp_all add: policy_input_def)
  with live auto stored show ?thesis by blast
qed

theorem background_execution_gate_witness:
  "worker_succeeds demo_env \<and> (StatusVerifying, StatusCompleted) \<in> set (status_trail demo_pass 7)"
proof -
  let ?envs = "\<lambda>k :: uuid. demo_env"
  let ?readers = "[demo_reader ''Tidy notes'' ''m1'' 7 1]"
  have e: "status_trail NewMemoryRepository 7 = []" by (simp add: status_trail_def NewMemoryRepository_def)
  have "status_trail (snd (RunOnce_background feed_lib False demo_opts ?readers False ?envs NewMemoryRepository)) 7 =
      status_trail NewMemoryRepository 7 @ status_trail demo_pass 7"
    unfolding e by (simp add: demo_pass_def)
  from background_execution_gate [OF empty_reachable demo_fresh this, of StatusCompleted]
  show ?thesis by (simp add: demo_pass_trail)
qed

text \<open>
  A full page of operations that are not new starves the loop: \<open>process\<close> asks for the oldest
  \<open>MaxOps\<close> actionable operations and skips those that are not \<open>new\<close>, so once the page holds only
  observed, failed or otherwise settled ones, no later pass processes anything, whatever the modes and
  decisions; a new operation beyond the page is never classified.
\<close>

theorem full_page_starves:
  assumes "\<forall>op \<in> set (due_page r opts). op_Status op \<noteq> StatusNew"
  shows "foldl (\<lambda>(rep, r) envs. process opts envs r rep) (rep, r) passes = (rep, r)"
proof -
  have "process_all envs r rep due = (rep, r)" if "\<forall>op \<in> set due. op_Status op \<noteq> StatusNew" for envs due
    using that by (induction due) auto
  with assms have "process opts envs r rep = (rep, r)" for envs by (simp add: process_page)
  then show ?thesis by (induction passes) simp_all
qed

theorem full_page_starves_witness:
  "(6, StatusNew) \<in> set (map (\<lambda>op. (op_ID op, op_Status op)) (map snd (mr_ops demo_stuck))) \<and>
   (\<forall>passes. foldl (\<lambda>(rep, r) envs. process demo_opts envs r rep) (empty_report, demo_stuck) passes =
      (empty_report, demo_stuck))"
proof -
  have "(op_ID op, op_Status op) \<in> set [(7, StatusClassified)]" if "op \<in> set (due_page demo_stuck demo_opts)" for op
    using that unfolding demo_stuck_page [symmetric] by auto
  then have "\<forall>op \<in> set (due_page demo_stuck demo_opts). op_Status op \<noteq> StatusNew" by auto
  note stuck = full_page_starves [OF this]
  have "(6, StatusNew) \<in> set (map (\<lambda>op. (op_ID op, op_Status op)) (map snd (mr_ops demo_stuck)))"
    unfolding demo_stuck_ops by simp
  with stuck show ?thesis by blast
qed

end
