(* ===== verification/FeedSync.thy ===== *)
theory FeedSync
  imports BackgroundRun
begin

text \<open>
  Reading a feed again: an item is settled when ingesting it creates nothing, because an active
  operation holds its dedupe key or because it can never become an operation. One pass over a feed
  settles its items, and settled items stay settled.
\<close>

declare firstNonEmpty.simps [simp del]

definition holds_key :: "MemoryRepository \<Rightarrow> NewOperationInput \<Rightarrow> bool" where
  "holds_key r i \<longleftrightarrow> (\<exists>k op. mr_lookup r k = Some op \<and>
     dedupe_match (firstNonEmpty [in_WorkspaceID i, ''local'']) (in_DedupeKey i) op)"

definition input_settled :: "MemoryRepository \<Rightarrow> NewOperationInput \<Rightarrow> bool" where
  "input_settled r i \<longleftrightarrow> holds_key r i \<or> (\<forall>now. \<exists>e. NewOperation i now = Inl e)"

lemma holds_key_found:
  assumes "ledger_inv r"
  shows "holds_key r i \<longleftrightarrow>
    FindByDedupeKey r (firstNonEmpty [in_WorkspaceID i, ''local'']) (in_DedupeKey i) \<noteq> None"
proof -
  from assms have "distinct (map fst (mr_ops r))" by (simp add: ledger_inv_def)
  note none = FindByDedupeKey_None [OF this]
  show ?thesis
    unfolding holds_key_def none by blast
qed

text \<open>Whether an input can become an operation does not depend on the clock.\<close>

lemma NewOperation_time:
  "NewOperation i now' = (case NewOperation i now of Inl e \<Rightarrow> Inl e
     | Inr op \<Rightarrow> Inr (op\<lparr>op_CreatedAt := now', op_UpdatedAt := now'\<rparr>))"
  unfolding NewOperation_def Let_def Validate_def
  by (simp del: first_error.simps split: option.split)

lemma NewOperation_fails: "NewOperation i now = Inl e \<Longrightarrow> NewOperation i now' = Inl e"
  by (simp add: NewOperation_time [of i now' now])

lemma dedupe_match_refreshed [simp]: "dedupe_match w d (refreshed op i now) = dedupe_match w d op"
  by (simp add: dedupe_match_def active_op_def)

text \<open>A write that keeps every stored key keeps what is settled.\<close>

definition keys_kept :: "MemoryRepository \<Rightarrow> MemoryRepository \<Rightarrow> bool" where
  "keys_kept r r' \<longleftrightarrow> (\<forall>w d. (\<exists>k op. mr_lookup r k = Some op \<and> dedupe_match w d op) \<longrightarrow>
     (\<exists>k op. mr_lookup r' k = Some op \<and> dedupe_match w d op))"

lemma keys_kept_refl: "keys_kept r r"
  and keys_kept_trans: "keys_kept r r' \<Longrightarrow> keys_kept r' r'' \<Longrightarrow> keys_kept r r''"
  by (simp_all add: keys_kept_def)

lemma settled_kept: "input_settled r i \<Longrightarrow> keys_kept r r' \<Longrightarrow> input_settled r' i"
  unfolding input_settled_def holds_key_def keys_kept_def by blast

lemma put_event_lookup: "mr_lookup (AppendEvent (mr_put r op) f e) k =
    (if k = op_ID op then Some op else mr_lookup r k)"
  by (simp add: store.lookup_put)

lemma refresh_kept:
  assumes inv: "ledger_inv r"
    and found: "FindByDedupeKey r (firstNonEmpty [in_WorkspaceID i, ''local'']) (in_DedupeKey i) = Some old"
  shows "keys_kept r (mr_put r (refreshed old i now))" and "holds_key (mr_put r (refreshed old i now)) i"
proof -
  from inv have d: "distinct (map fst (mr_ops r))" and k: "keyed (mr_lookup r)"
    by (simp_all add: ledger_inv_def)
  with FindByDedupeKey_Some [OF d found] have old: "mr_lookup r (op_ID old) = Some old"
    by (auto simp: keyed_def)
  show "keys_kept r (mr_put r (refreshed old i now))"
    unfolding keys_kept_def
  proof (intro allI impI, elim exE conjE)
    fix w dk j op assume "mr_lookup r j = Some op" and m: "dedupe_match w dk op"
    then show "\<exists>j op. mr_lookup (mr_put r (refreshed old i now)) j = Some op \<and> dedupe_match w dk op"
      using old by (intro exI [of _ j]) (auto simp: store.lookup_put)
  qed
  show "holds_key (mr_put r (refreshed old i now)) i"
    unfolding holds_key_def using FindByDedupeKey_Some(2) [OF d found]
    by (intro exI [of _ "op_ID old"]) (simp add: store.lookup_put)
qed

lemma Ingest_settles:
  assumes inv: "ledger_inv r" and fresh: "mr_lookup r fo = None"
    and ing: "Ingest r now fo fe i = Inr (res, r')"
  shows "keys_kept r r' \<and> holds_key r' i"
  using ing
proof (cases rule: Ingest_cases)
  case (found old)
  then show ?thesis using refresh_kept [OF inv found(1)] by simp
next
  case (created op e)
  have look: "mr_lookup r' j = (if j = fo then Some (op\<lparr>op_ID := fo\<rparr>) else mr_lookup r j)" for j
    unfolding created(3) by (simp add: store.lookup_put)
  have "keys_kept r r'"
    unfolding keys_kept_def
  proof (intro allI impI, elim exE conjE)
    fix w dk j o' assume "mr_lookup r j = Some o'" "dedupe_match w dk o'"
    then show "\<exists>j op. mr_lookup r' j = Some op \<and> dedupe_match w dk op"
      using fresh by (intro exI [of _ j]) (auto simp: look)
  qed
  moreover have "holds_key r' i"
    unfolding holds_key_def using NewOperation_Inr [OF created(2)]
    by (intro exI [of _ fo]) (simp add: look dedupe_match_def active_op_def)
  ultimately show ?thesis ..
qed

text \<open>Ingesting a settled input creates nothing, whatever the clock and the identifiers.\<close>

lemma Ingest_settled:
  assumes inv: "ledger_inv r" and s: "input_settled r i" and ing: "Ingest r now fo fe i = Inr (res, r')"
  shows "\<not> ir_Created res \<and> ledger_inv r' \<and> keys_kept r r'"
  using ing
proof (cases rule: Ingest_cases)
  case (found old)
  then show ?thesis using refresh_kept(1) [OF inv found(1)] Ingest_ledger_inv [OF inv ing] by simp
next
  case (created op e)
  from s created(1,2) holds_key_found [OF inv, of i] show ?thesis
    by (auto simp: input_settled_def dest: spec [of _ now])
qed

section \<open>A whole feed\<close>

definition item_settled :: "IdemLib \<Rightarrow> Feed \<Rightarrow> MemoryRepository \<Rightarrow> FeedItem \<Rightarrow> bool" where
  "item_settled lib feed r it \<longleftrightarrow> (\<forall>i. ToOperationInput lib feed it = Inr i \<longrightarrow> input_settled r i)"

lemma item_settled_kept: "item_settled lib feed r it \<Longrightarrow> keys_kept r r' \<Longrightarrow> item_settled lib feed r' it"
  unfolding item_settled_def by (blast intro: settled_kept)

text \<open>One item: what its ingestion leaves behind, given a fresh identifier.\<close>

definition ingest_one :: "IdemLib \<Rightarrow> Feed \<Rightarrow> MemoryRepository \<Rightarrow> FeedItem \<times> Draw \<Rightarrow> MemoryRepository \<times> nat" where
  "ingest_one lib feed r item = (case ToOperationInput lib feed (fst item) of
       Inl _ \<Rightarrow> (r, 0)
     | Inr i \<Rightarrow> (case Ingest r (dr_now (snd item)) (dr_freshOp (snd item)) (dr_freshEvent (snd item)) i of
           Inl _ \<Rightarrow> (r, 0)
         | Inr (res, r') \<Rightarrow> (r', if ir_Created res then 1 else 0)))"

lemma ingest_items_one:
  "\<exists>rep'. ingest_items lib feed r rep (item # items) =
      ingest_items lib feed (fst (ingest_one lib feed r item)) rep' items \<and>
    bg_OperationsCreated rep' = bg_OperationsCreated rep + snd (ingest_one lib feed r item)"
  by (cases item) (auto simp: ingest_one_def add_error_def Let_def split: sum.split)

lemma ingest_one_settles:
  assumes inv: "ledger_inv r" and fresh: "fresh_ids r [item_id item]"
  shows "keys_kept r (fst (ingest_one lib feed r item))"
    and "item_settled lib feed (fst (ingest_one lib feed r item)) (fst item)"
    and "ingested [item_id item] r (fst (ingest_one lib feed r item))"
proof -
  let ?d = "snd item"
  have id: "dr_freshOp ?d = item_id item" by (simp add: item_id_def)
  have "keys_kept r (fst (ingest_one lib feed r item)) \<and>
      item_settled lib feed (fst (ingest_one lib feed r item)) (fst item) \<and>
      ingested [item_id item] r (fst (ingest_one lib feed r item))"
  proof (cases "ToOperationInput lib feed (fst item)")
    case (Inl e)
    then show ?thesis by (simp add: ingest_one_def item_settled_def keys_kept_refl ingested_refl)
  next
    case (Inr i)
    note inp = Inr
    show ?thesis
    proof (cases "Ingest r (dr_now ?d) (dr_freshOp ?d) (dr_freshEvent ?d) i")
      case (Inl e)
      then have "NewOperation i (dr_now ?d) = Inl e"
        by (auto simp: Ingest_def Let_def split: option.splits sum.splits prod.splits)
      then have "input_settled r i" unfolding input_settled_def using NewOperation_fails by blast
      with Inl inp show ?thesis by (simp add: ingest_one_def item_settled_def keys_kept_refl ingested_refl)
    next
      case (Inr p)
      obtain res r' where p: "p = (res, r')" by (cases p)
      note ing = Inr [unfolded p]
      from fresh have none: "mr_lookup r (dr_freshOp ?d) = None" by (simp add: fresh_ids_def id)
      from fresh have "fresh_ids r [dr_freshOp ?d]" by (simp add: id)
      from Ingest_ingested [OF inv this ing] have "ingested [item_id item] r r'" by (simp add: id)
      moreover have "keys_kept r r'" "input_settled r' i"
        using Ingest_settles [OF inv none ing] by (simp_all add: input_settled_def)
      ultimately show ?thesis using inp ing by (simp add: ingest_one_def item_settled_def)
    qed
  qed
  then show "keys_kept r (fst (ingest_one lib feed r item))"
    and "item_settled lib feed (fst (ingest_one lib feed r item)) (fst item)"
    and "ingested [item_id item] r (fst (ingest_one lib feed r item))" by blast+
qed

lemma ingest_one_settled:
  assumes "ledger_inv r" and "item_settled lib feed r (fst item)"
  shows "snd (ingest_one lib feed r item) = 0" and "ledger_inv (fst (ingest_one lib feed r item))"
    and "keys_kept r (fst (ingest_one lib feed r item))"
proof -
  have "snd (ingest_one lib feed r item) = 0 \<and> ledger_inv (fst (ingest_one lib feed r item)) \<and>
      keys_kept r (fst (ingest_one lib feed r item))"
    using assms Ingest_settled [OF assms(1)]
    by (auto simp: ingest_one_def item_settled_def keys_kept_refl split: sum.split)
  then show "snd (ingest_one lib feed r item) = 0" "ledger_inv (fst (ingest_one lib feed r item))"
    "keys_kept r (fst (ingest_one lib feed r item))" by blast+
qed

lemma ingest_items_settles:
  assumes "ledger_inv r" and "fresh_ids r (map item_id items)"
  shows "keys_kept r (snd (ingest_items lib feed r rep items)) \<and>
    (\<forall>item \<in> set items. item_settled lib feed (snd (ingest_items lib feed r rep items)) (fst item))"
  using assms
proof (induction items arbitrary: r rep)
  case Nil
  then show ?case by (simp add: keys_kept_refl)
next
  case (Cons item items)
  let ?r1 = "fst (ingest_one lib feed r item)"
  obtain rep' where step: "ingest_items lib feed r rep (item # items) = ingest_items lib feed ?r1 rep' items"
    using ingest_items_one by metis
  have "fresh_ids r [item_id item]" using Cons.prems(2) by (simp add: fresh_ids_def)
  note one = ingest_one_settles [OF Cons.prems(1) this, of lib feed]
  have "ledger_inv ?r1" using one(3) Cons.prems(1) by (auto simp: ingested_def intro: ledger_steps_inv)
  moreover have "fresh_ids ?r1 (map item_id items)"
    using fresh_ids_after [of r "[item_id item]" "map item_id items"] Cons.prems(2) one(3) by simp
  ultimately have "keys_kept ?r1 (snd (ingest_items lib feed ?r1 rep' items)) \<and>
      (\<forall>item \<in> set items. item_settled lib feed (snd (ingest_items lib feed ?r1 rep' items)) (fst item))"
    by (rule Cons.IH)
  with one(1,2) show ?case
    unfolding step by (auto intro: keys_kept_trans item_settled_kept)
qed

lemma ingest_items_settled:
  assumes "ledger_inv r" and "\<forall>item \<in> set items. item_settled lib feed r (fst item)"
  shows "bg_OperationsCreated (fst (ingest_items lib feed r rep items)) = bg_OperationsCreated rep \<and>
    ledger_inv (snd (ingest_items lib feed r rep items)) \<and>
    keys_kept r (snd (ingest_items lib feed r rep items))"
  using assms
proof (induction items arbitrary: r rep)
  case Nil
  then show ?case by (simp add: keys_kept_refl)
next
  case (Cons item items)
  let ?r1 = "fst (ingest_one lib feed r item)"
  obtain rep' where step: "ingest_items lib feed r rep (item # items) = ingest_items lib feed ?r1 rep' items"
    and n: "bg_OperationsCreated rep' = bg_OperationsCreated rep + snd (ingest_one lib feed r item)"
    using ingest_items_one by metis
  from Cons.prems have "item_settled lib feed r (fst item)" by simp
  note one = ingest_one_settled [OF Cons.prems(1) this]
  have "\<forall>item \<in> set items. item_settled lib feed ?r1 (fst item)"
    using Cons.prems(2) one(3) by (auto intro: item_settled_kept)
  from Cons.IH [OF one(2) this, of rep'] one n show ?case
    unfolding step by (auto intro: keys_kept_trans)
qed

section \<open>All feeds\<close>

definition reader_items :: "FeedReader \<Rightarrow> FeedItem list" where
  "reader_items reader = (case fr_items reader of Inl _ \<Rightarrow> [] | Inr items \<Rightarrow> map fst items)"

definition reader_settled :: "IdemLib \<Rightarrow> MemoryRepository \<Rightarrow> FeedReader \<Rightarrow> bool" where
  "reader_settled lib r reader \<longleftrightarrow> \<not> fd_Enabled (fr_Feed reader) \<or>
     (\<forall>it \<in> set (reader_items reader). item_settled lib (fr_Feed reader) r it)"

lemma reader_settled_kept: "reader_settled lib r reader \<Longrightarrow> keys_kept r r' \<Longrightarrow> reader_settled lib r' reader"
  unfolding reader_settled_def by (blast intro: item_settled_kept)

lemma ingest_feeds_settles:
  assumes "ledger_inv r" and "fresh_ids r (concat (map reader_ids readers))"
  shows "keys_kept r (snd (ingest_feeds lib r rep readers)) \<and>
    (\<forall>reader \<in> set readers. reader_settled lib (snd (ingest_feeds lib r rep readers)) reader)"
  using assms
proof (induction readers arbitrary: r rep)
  case Nil
  then show ?case by (simp add: keys_kept_refl)
next
  case (Cons reader readers)
  have rest: "keys_kept r (snd (ingest_feeds lib r1 rep1 readers)) \<and>
      (\<forall>rd \<in> set (reader # readers). reader_settled lib (snd (ingest_feeds lib r1 rep1 readers)) rd)"
    if "ingested (reader_ids reader) r r1" "keys_kept r r1" "reader_settled lib r1 reader" for r1 rep1
  proof -
    have "ledger_inv r1" using that(1) Cons.prems(1) by (auto simp: ingested_def intro: ledger_steps_inv)
    moreover have "fresh_ids r1 (concat (map reader_ids readers))"
      using fresh_ids_after [of r "reader_ids reader"] Cons.prems(2) that(1) by simp
    ultimately show ?thesis
      using Cons.IH [of r1 rep1] that(2,3) by (auto intro: keys_kept_trans reader_settled_kept)
  qed
  show ?case
  proof (cases "fd_Enabled (fr_Feed reader)")
    case False
    then have "reader_settled lib r reader" by (simp add: reader_settled_def)
    with False rest [OF ingested_refl keys_kept_refl] show ?thesis by simp
  next
    case True
    note on = True
    let ?rep = "rep\<lparr>bg_FeedsRead := bg_FeedsRead rep + 1\<rparr>"
    show ?thesis
    proof (cases "fr_items reader")
      case (Inl err)
      then have "reader_settled lib r reader" by (simp add: reader_settled_def reader_items_def)
      with on Inl rest [OF ingested_refl keys_kept_refl] show ?thesis by (simp add: Let_def)
    next
      case (Inr items)
      let ?res = "ingest_items lib (fr_Feed reader) r ?rep items"
      have ids: "reader_ids reader = map item_id items" by (simp add: reader_ids_def Inr)
      with Cons.prems(2) have f: "fresh_ids r (map item_id items)" by (simp add: fresh_ids_def)
      have "reader_settled lib (snd ?res) reader"
        using ingest_items_settles [OF Cons.prems(1) f] by (auto simp: reader_settled_def reader_items_def Inr)
      moreover have "keys_kept r (snd ?res)" using ingest_items_settles [OF Cons.prems(1) f] by blast
      moreover have "ingested (reader_ids reader) r (snd ?res)"
        using ingest_items_ingested [OF Cons.prems(1) f] by (simp add: ids)
      ultimately show ?thesis using on Inr rest [of "snd ?res"] by (simp add: Let_def split_beta)
    qed
  qed
qed

lemma ingest_feeds_settled:
  assumes "ledger_inv r" and "\<forall>reader \<in> set readers. reader_settled lib r reader"
  shows "bg_OperationsCreated (fst (ingest_feeds lib r rep readers)) = bg_OperationsCreated rep"
  using assms
proof (induction readers arbitrary: r rep)
  case (Cons reader readers)
  show ?case
  proof (cases "fd_Enabled (fr_Feed reader)")
    case False
    then show ?thesis using Cons by simp
  next
    case True
    show ?thesis
    proof (cases "fr_items reader")
      case (Inl err)
      then show ?thesis using Cons True by (simp add: Let_def add_error_def)
    next
      case (Inr items)
      let ?res = "ingest_items lib (fr_Feed reader) r (rep\<lparr>bg_FeedsRead := bg_FeedsRead rep + 1\<rparr>) items"
      have "\<forall>item \<in> set items. item_settled lib (fr_Feed reader) r (fst item)"
        using Cons.prems(2) True by (auto simp: reader_settled_def reader_items_def Inr)
      note one = ingest_items_settled [OF Cons.prems(1) this]
      have "\<forall>reader \<in> set readers. reader_settled lib (snd ?res) reader"
        using Cons.prems(2) one by (auto intro: reader_settled_kept)
      from Cons.IH [OF _ this] one show ?thesis using True Inr by (simp add: Let_def split_beta)
    qed
  qed
qed simp

text \<open>The same feeds with the same items, read with any clocks and identifiers.\<close>

definition same_reading :: "FeedReader \<Rightarrow> FeedReader \<Rightarrow> bool" where
  "same_reading a b \<longleftrightarrow> fr_Feed a = fr_Feed b \<and> reader_items a = reader_items b"

lemma same_reading_settled: "same_reading a b \<Longrightarrow> reader_settled lib r a = reader_settled lib r b"
  by (simp add: same_reading_def reader_settled_def)

lemma list_all2_settled:
  "list_all2 same_reading readers readers' \<Longrightarrow> \<forall>reader \<in> set readers. reader_settled lib r reader \<Longrightarrow>
     \<forall>reader \<in> set readers'. reader_settled lib r reader"
  by (induction rule: list_all2_induct) (auto simp: same_reading_settled)

end
