(* ===== verification/FeedTheorems.thy ===== *)
theory FeedTheorems
  imports FeedSync BackgroundTheorems
begin

text \<open>
  The properties of the account feeds over the operation ledger and of the keys and canonical texts
  they rest on.
\<close>

text \<open>
  C16. Reading the same feeds again creates no operation: whatever the ledger, the settings of the feeds,
  the errors on single items, the clock and the identifiers of the second reading, once a pass has
  ingested the items a second pass over them only refreshes what is stored.
\<close>

theorem feed_resync_creates_nothing:
  assumes "ledger_reachable r" and "fresh_ids r (concat (map reader_ids readers))"
    and "list_all2 same_reading readers readers'"
  shows "bg_OperationsCreated (fst (ingest_feeds lib (snd (ingest_feeds lib r rep readers)) rep' readers')) =
    bg_OperationsCreated rep'"
proof -
  let ?r1 = "snd (ingest_feeds lib r rep readers)"
  have "ledger_inv ?r1"
    using reachable_ledger_inv ingest_feeds_reachable(1) [OF assms(1,2)] by blast
  moreover have "\<forall>reader \<in> set readers. reader_settled lib ?r1 reader"
    using ingest_feeds_settles [OF reachable_ledger_inv [OF assms(1)] assms(2)] by blast
  ultimately show ?thesis using ingest_feeds_settled list_all2_settled [OF assms(3)] by blast
qed

theorem feed_resync_creates_nothing_witness:
  "bg_OperationsCreated (fst (ingest_feeds feed_lib (snd (ingest_feeds feed_lib NewMemoryRepository
     empty_report [demo_reader ''Tidy notes'' ''m1'' 7 1])) empty_report
     [demo_reader ''Tidy notes'' ''m1'' 6 2])) = 0"
proof -
  have "list_all2 same_reading [demo_reader ''Tidy notes'' ''m1'' 7 1] [demo_reader ''Tidy notes'' ''m1'' 6 2]"
    by (simp add: same_reading_def reader_items_def demo_reader_def)
  from feed_resync_creates_nothing [OF empty_reachable demo_fresh this] show ?thesis
    by (simp add: empty_report_def)
qed

text \<open>
  The keys of feed items collide: the delimiter that joins the hashed fields is not escaped, so an
  item of the account \<open>a|b\<close> with identifier \<open>c\<close> and the item of the account \<open>a\<close> with identifier
  \<open>b|c\<close> have the same key whatever the hash, and the second of them is never created although it
  comes from another source.
\<close>

theorem feed_keys_collide:
  assumes "ledger_reachable r" and "mr_lookup r fo = None"
    and "ToOperationInput lib (feed\<lparr>fd_AccountLabel := a @ ''|'' @ b\<rparr>) (it\<lparr>fi_ExternalID := c\<rparr>) = Inr i"
    and "ToOperationInput lib (feed\<lparr>fd_AccountLabel := a\<rparr>) (it\<lparr>fi_ExternalID := b @ ''|'' @ c\<rparr>) = Inr j"
    and "Ingest r now fo fe i = Inr (res, r1)" and "Ingest r1 now' fo' fe' j = Inr (res', r2)"
  shows "in_SourceURI i \<noteq> in_SourceURI j \<and> in_DedupeKey i = in_DedupeKey j \<and> \<not> ir_Created res'"
proof -
  note inv = reachable_ledger_inv [OF assms(1)]
  have join: "join [''feed'', p, a @ ''|'' @ b, c, revision] = join [''feed'', p, a, b @ ''|'' @ c, revision]" for p revision
    by (simp add: join_def)
  obtain m where i: "in_DedupeKey i = FeedItemDedupeKey lib (fd_Provider feed) (a @ ''|'' @ b) c
      (SourceRevisionHash lib (fi_Body it) m)" "CanonicalJSONString lib (fi_Metadata it) = Inr m"
    "in_WorkspaceID i = firstNonEmpty [fd_WorkspaceID feed, ''local'']"
    "in_SourceURI i = fd_Provider feed @ '':'' @ (a @ ''|'' @ b) @ '':'' @ c"
    by (rule ToOperationInput_Inr [OF assms(3)]) simp
  obtain m' where j: "in_DedupeKey j = FeedItemDedupeKey lib (fd_Provider feed) a (b @ ''|'' @ c)
      (SourceRevisionHash lib (fi_Body it) m')" "CanonicalJSONString lib (fi_Metadata it) = Inr m'"
    "in_WorkspaceID j = firstNonEmpty [fd_WorkspaceID feed, ''local'']"
    "in_SourceURI j = fd_Provider feed @ '':'' @ a @ '':'' @ (b @ ''|'' @ c)"
    by (rule ToOperationInput_Inr [OF assms(4)]) simp
  from i(1,2) j(1,2) join have key: "in_DedupeKey i = in_DedupeKey j" by (simp add: FeedItemDedupeKey_def)
  from i(4) j(4) have "in_SourceURI i \<noteq> in_SourceURI j" by simp
  moreover have "holds_key r1 i" using Ingest_settles [OF inv assms(2,5)] ..
  with key i(3) j(3) have "input_settled r1 j" by (simp add: input_settled_def holds_key_def)
  with Ingest_settled [OF Ingest_ledger_inv [OF inv assms(5)] _ assms(6)] have "\<not> ir_Created res'" by blast
  ultimately show ?thesis using key by blast
qed

definition collide_feed :: "string \<Rightarrow> Feed" where
  "collide_feed label = demo_feed\<lparr>fd_AccountLabel := label\<rparr>"

definition collide_input :: "string \<Rightarrow> string \<Rightarrow> NewOperationInput" where
  "collide_input label ext =
     (case ToOperationInput feed_lib (collide_feed label) (demo_item ''Tidy notes'' ext) of Inr i \<Rightarrow> i)"

definition collide_ledger :: MemoryRepository where
  "collide_ledger = (case Ingest NewMemoryRepository 1 7 8 (collide_input ''home|x'' ''m1'') of Inr (_, r) \<Rightarrow> r)"

theorem feed_keys_collide_witness:
  "\<exists>res r. Ingest collide_ledger 2 6 8 (collide_input ''home'' ''x|m1'') = Inr (res, r) \<and> \<not> ir_Created res"
proof -
  let ?it = "demo_item ''Tidy notes'' ''m1''"
  have 1: "ToOperationInput feed_lib (demo_feed\<lparr>fd_AccountLabel := ''home'' @ ''|'' @ ''x''\<rparr>)
      (?it\<lparr>fi_ExternalID := ''m1''\<rparr>) = Inr (collide_input ''home|x'' ''m1'')" by code_simp
  have 2: "ToOperationInput feed_lib (demo_feed\<lparr>fd_AccountLabel := ''home''\<rparr>)
      (?it\<lparr>fi_ExternalID := ''x'' @ ''|'' @ ''m1''\<rparr>) = Inr (collide_input ''home'' ''x|m1'')" by code_simp
  have 3: "Ingest NewMemoryRepository 1 7 8 (collide_input ''home|x'' ''m1'') =
      Inr (fst (projr (Ingest NewMemoryRepository 1 7 8 (collide_input ''home|x'' ''m1''))), collide_ledger)"
    by code_simp
  have 4: "Ingest collide_ledger 2 6 8 (collide_input ''home'' ''x|m1'') =
      Inr (projr (Ingest collide_ledger 2 6 8 (collide_input ''home'' ''x|m1'')))" by code_simp
  have none: "mr_lookup NewMemoryRepository 7 = None" by code_simp
  obtain res r2 where 5: "projr (Ingest collide_ledger 2 6 8 (collide_input ''home'' ''x|m1'')) = (res, r2)"
    by (cases "projr (Ingest collide_ledger 2 6 8 (collide_input ''home'' ''x|m1''))")
  from feed_keys_collide [OF empty_reachable none 1 2 3 4 [unfolded 5]] 4 [unfolded 5] show ?thesis by blast
qed

text \<open>
  Canonical JSON does not depend on the order in which maps are ranged over, at any depth: two
  values that decode to the same values up to that order have the same text and, as the payload of
  an action, the same hash.
\<close>

theorem CanonicalJSON_order_independent:
  assumes "lib_reread lib v = Inr v'" and "lib_reread lib w = Inr w'" and "same_value v' w'"
  shows "CanonicalJSONString lib v = CanonicalJSONString lib w \<and>
    ActionPayloadHash lib v revision target action = ActionPayloadHash lib w revision target action"
  using assms encodeCanonical_same [OF assms(3), of "lib_quote lib"]
  by (simp add: CanonicalJSONString_def ActionPayloadHash_def)

theorem CanonicalJSON_order_independent_witness:
  "CanonicalJSONString feed_lib (JObject [(''b'', JNull), (''a'', JBool True)]) =
   CanonicalJSONString feed_lib (JObject [(''a'', JBool True), (''b'', JNull)])"
proof -
  have "same_value (JObject [(''b'', JNull), (''a'', JBool True)]) (JObject [(''a'', JBool True), (''b'', JNull)])"
    by (rule same_value.object) (auto intro: same_value.null same_value.bool)
  then show ?thesis
    using CanonicalJSON_order_independent [of feed_lib] by (simp add: feed_lib_def)
qed

end
