(* ===== verification/MandatePolicy.thy ===== *)
theory MandatePolicy
  imports Prelude
begin

text \<open>
  Standing mandates: bounded grants of authority (\<open>standingmandate/types.go\<close>), their validation
  (\<open>validation.go\<close>) and the evaluation of an action request against one (\<open>evaluator.go\<close>). The advisory
  projection into the life graph, which grants nothing, is left out of the records. Parsing a
  floating-point number and the SHA-256 digests of encoded values are the library \<open>MandateLib\<close>; a
  digest is \<open>None\<close> when encoding fails.
\<close>

section \<open>Types\<close>

datatype MandateStatus = MandateDraft | MandateActive | MandateRevoked | MandateStatusOther string

datatype MandateRisk =
    MandateRiskLow | MandateRiskMedium | MandateRiskHigh | MandateRiskCritical | MandateRiskOther string

datatype MandateApprovalMode =
    ApprovalNever | ApprovalAlways | ApprovalAtOrAboveAutonomy | ApprovalForRiskOrAction
  | ApprovalModeUnknown string

datatype StopEffect = StopDeny | StopRequireApproval | StopEffectOther string

datatype StopOperator =
    StopEquals | StopNotEquals | StopPresent | StopAbsent | StopGreaterOrEqual | StopLessOrEqual
  | StopOperatorOther string

datatype DecisionOutcome = DecisionAuthorized | DecisionRequiresApproval | DecisionDenied

record ResourceScope =
  rs_Type :: string
  rs_IDs :: "string list"

record Scope =
  sp_ID :: string
  sp_Actions :: "string list"
  sp_Resources :: "ResourceScope list"
  sp_Projects :: "string list"
  sp_Domains :: "string list"
  sp_Tools :: "string list"
  sp_MaximumRisk :: MandateRisk

record ApprovalPolicy =
  ap_Mode :: MandateApprovalMode
  ap_AutonomyThreshold :: int
  ap_RiskLevels :: "MandateRisk list"
  ap_Actions :: "string list"
  ap_ApproverRoles :: "string list"
  ap_MaximumEvidenceAgeSeconds :: int

record StopCondition =
  st_ID :: string
  st_Description :: string
  st_FactKey :: string
  st_Operator :: StopOperator
  st_ExpectedValue :: string
  st_Required :: bool
  st_Effect :: StopEffect

record StandingMandate =
  sm_ID :: uuid
  sm_OwnerIdentity :: string
  sm_Name :: string
  sm_Purpose :: string
  sm_Status :: MandateStatus
  sm_Version :: string
  sm_Revision :: "64 word"
  sm_Scopes :: "Scope list"
  sm_AutonomyCeiling :: int
  sm_ApprovalPolicy :: ApprovalPolicy
  sm_StopConditions :: "StopCondition list"
  sm_SourceReferences :: "string list"
  sm_CreatedBy :: string
  sm_CreatedAt :: instant
  sm_UpdatedAt :: instant
  sm_ActivatedAt :: "instant option"
  sm_ExpiresAt :: "instant option"
  sm_RevokedAt :: "instant option"
  sm_RevokedBy :: string
  sm_RevocationReason :: string

record CreateMandateRequest =
  cq_OwnerIdentity :: string
  cq_Name :: string
  cq_Purpose :: string
  cq_Version :: string
  cq_Scopes :: "Scope list"
  cq_AutonomyCeiling :: int
  cq_ApprovalPolicy :: ApprovalPolicy
  cq_StopConditions :: "StopCondition list"
  cq_SourceReferences :: "string list"
  cq_CreatedBy :: string
  cq_ExpiresAt :: "instant option"

record ApprovalEvidence =
  av_ID :: string
  av_ApprovedBy :: string
  av_ApproverRoles :: "string list"
  av_ActionDigest :: string
  av_ApprovedAt :: instant
  av_ExpiresAt :: instant
  av_Revoked :: bool
  av_Source :: string

text \<open>The facts are a map, in the order one iteration visits it.\<close>

record ActionRequest =
  aq_OwnerIdentity :: string
  aq_ActorIdentity :: string
  aq_Action :: string
  aq_ResourceType :: string
  aq_ResourceID :: string
  aq_ProjectKey :: string
  aq_Domain :: string
  aq_ToolID :: string
  aq_Risk :: MandateRisk
  aq_RequestedAutonomy :: int
  aq_UpstreamApprovalRequired :: bool
  aq_Facts :: "(string \<times> string) list"
  aq_Approval :: "ApprovalEvidence option"
  aq_SourceReferences :: "string list"
  aq_RequestedAt :: instant

type_synonym DecisionTrace = "string \<times> string"

record TriggeredStop =
  ts_ConditionID :: string
  ts_Effect :: StopEffect
  ts_Reason :: string

record DecisionEvidence =
  dn_RequestDigest :: string
  dn_MandateDigest :: string
  dn_DecisionDigest :: string
  dn_MandateRevision :: "64 word"
  dn_MatchedScopeIDs :: "string list"
  dn_TriggeredStops :: "TriggeredStop list"
  dn_ApprovalEvidenceID :: string
  dn_SourceReferences :: "string list"
  dn_Trace :: "DecisionTrace list"

record AuthorizationDecision =
  ad_ID :: uuid
  ad_MandateID :: uuid
  ad_OwnerIdentity :: string
  ad_ActorIdentity :: string
  ad_Action :: string
  ad_Outcome :: DecisionOutcome
  ad_Reason :: string
  ad_EffectiveAutonomy :: int
  ad_ApprovalRequired :: bool
  ad_ApprovalSatisfied :: bool
  ad_EvaluatedAt :: instant
  ad_Evidence :: DecisionEvidence

text \<open>The anonymous struct whose digest identifies a decision.\<close>

record DecisionPayload =
  dp_ID :: uuid
  dp_MandateID :: uuid
  dp_Outcome :: DecisionOutcome
  dp_Reason :: string
  dp_EffectiveAutonomy :: int
  dp_ApprovalRequired :: bool
  dp_ApprovalSatisfied :: bool
  dp_EvaluatedAt :: instant
  dp_Evidence :: DecisionEvidence

record MandateLib =
  ml_ParseFloat :: "string \<Rightarrow> float64 option"
  ml_hash_request :: "ActionRequest \<Rightarrow> string option"
  ml_hash_mandate :: "StandingMandate \<Rightarrow> string option"
  ml_hash_decision :: "DecisionPayload \<Rightarrow> string option"

datatype MandateError =
    OwnerRequired | NameRequired | PurposeRequired | CreatorRequired | CeilingOutOfRange | ScopeRequired
  | ScopeError nat MandateError | ScopeIDsNotUnique | ScopeIDRequired | ActionsRequired | ScopeUnbounded
  | MaximumRiskInvalid | ApprovalModeInvalid | ThresholdOutOfRange | ThresholdRequired | TriggerRequired
  | PolicyRiskInvalid | EvidenceAgeOutOfRange | StopError nat MandateError | StopIDsNotUnique
  | StopIDRequired | FactKeyRequired | OperatorInvalid | EffectInvalid | ExpectedValueRequired
  | ExpectedValueNotNumeric | ExpiryNotInFuture | IdentitiesRequired | RequestedAutonomyOutOfRange
  | RiskInvalid | ValueRequired string | ValueNotBounded string
  | MandateNotFound | MandateRevisionConflict | DecisionConflict | NotDraft | MandateExpired
  | RevokerRequired | AlreadyRevoked | DigestFailed

section \<open>Texts\<close>

definition normalize_text :: "string \<Rightarrow> string" where
  "normalize_text value = ToLower (TrimSpace value)"

definition cleanValues :: "string list \<Rightarrow> string list" where
  "cleanValues values =
     sort_key normalize_text (map snd
       (fold (\<lambda>v unique. if TrimSpace v \<noteq> '''' then AList.update (normalize_text (TrimSpace v)) (TrimSpace v) unique else unique)
          values []))"

definition mergeValues :: "string list list \<Rightarrow> string list" where
  "mergeValues groups = cleanValues (concat groups)"

definition containsNormalized :: "string list \<Rightarrow> string \<Rightarrow> bool" where
  "containsNormalized values candidate =
     (let candidate = normalize_text candidate in
      if candidate = '''' then False else list_ex (\<lambda>v. normalize_text v = candidate) values)"

definition intersectsNormalized :: "string list \<Rightarrow> string list \<Rightarrow> bool" where
  "intersectsNormalized left right \<longleftrightarrow> list_ex (containsNormalized right) left"

definition containsRisk :: "MandateRisk list \<Rightarrow> MandateRisk \<Rightarrow> bool" where
  "containsRisk values candidate \<longleftrightarrow> list_ex (\<lambda>v. v = candidate) values"

section \<open>Validation\<close>

definition MandateRisk_valid :: "MandateRisk \<Rightarrow> bool" where
  "MandateRisk_valid r = (case r of MandateRiskOther t \<Rightarrow> False | _ \<Rightarrow> True)"

definition ApprovalMode_valid :: "MandateApprovalMode \<Rightarrow> bool" where
  "ApprovalMode_valid m = (case m of ApprovalModeUnknown t \<Rightarrow> False | _ \<Rightarrow> True)"

definition StopOperator_valid :: "StopOperator \<Rightarrow> bool" where
  "StopOperator_valid x = (case x of StopOperatorOther t \<Rightarrow> False | _ \<Rightarrow> True)"

fun riskRank :: "MandateRisk \<Rightarrow> int" where
  "riskRank MandateRiskLow = 1"
| "riskRank MandateRiskMedium = 2"
| "riskRank MandateRiskHigh = 3"
| "riskRank MandateRiskCritical = 4"
| "riskRank (MandateRiskOther t) = 0"

definition validateBoundedValue :: "string \<Rightarrow> string \<Rightarrow> MandateError option" where
  "validateBoundedValue label v =
     (let v = TrimSpace v in
      first_error
        [(v = '''', ValueRequired label),
         (v = ''*'' \<or> list_ex (\<lambda>c. c \<in> {CHR 0x0D, CHR 0x0A, CHR 0x00}) v \<or> 256 < length v,
           ValueNotBounded label)])"

definition validateResource :: "ResourceScope \<Rightarrow> MandateError option" where
  "validateResource resource =
     (case validateBoundedValue ''resource type'' (rs_Type resource) of
        Some e \<Rightarrow> Some e
      | None \<Rightarrow> first_failure (validateBoundedValue ''resource ID'') (rs_IDs resource))"

fun first_problem :: "'e option list \<Rightarrow> 'e option" where
  "first_problem [] = None"
| "first_problem (p # ps) = (case p of None \<Rightarrow> first_problem ps | Some e \<Rightarrow> Some e)"

definition validateScope :: "Scope \<Rightarrow> MandateError option" where
  "validateScope scope = first_problem
     [first_error
        [(TrimSpace (sp_ID scope) = '''', ScopeIDRequired), (sp_Actions scope = [], ActionsRequired)],
      first_failure (validateBoundedValue ''action'') (sp_Actions scope),
      first_error
        [(sp_Resources scope = [] \<and> sp_Projects scope = [] \<and> sp_Domains scope = [] \<and> sp_Tools scope = [],
           ScopeUnbounded)],
      first_failure validateResource (sp_Resources scope),
      first_failure (validateBoundedValue ''scope value'') (sp_Projects scope @ sp_Domains scope @ sp_Tools scope),
      first_error
        [(sp_MaximumRisk scope \<noteq> MandateRiskOther '''' \<and> \<not> MandateRisk_valid (sp_MaximumRisk scope),
           MaximumRiskInvalid)]]"

definition validateApprovalPolicy :: "ApprovalPolicy \<Rightarrow> MandateError option" where
  "validateApprovalPolicy policy = first_problem
     [first_error
        [(\<not> ApprovalMode_valid (ap_Mode policy), ApprovalModeInvalid),
         (ap_AutonomyThreshold policy < 0 \<or> 10 < ap_AutonomyThreshold policy, ThresholdOutOfRange),
         (ap_Mode policy = ApprovalAtOrAboveAutonomy \<and> ap_AutonomyThreshold policy = 0, ThresholdRequired),
         (ap_Mode policy = ApprovalForRiskOrAction \<and> ap_RiskLevels policy = [] \<and> ap_Actions policy = [],
           TriggerRequired),
         (list_ex (\<lambda>r. \<not> MandateRisk_valid r) (ap_RiskLevels policy), PolicyRiskInvalid)],
      first_failure (validateBoundedValue ''approval action'') (ap_Actions policy),
      first_failure (validateBoundedValue ''approver role'') (ap_ApproverRoles policy),
      first_error
        [(ap_MaximumEvidenceAgeSeconds policy < 0 \<or> 24 * 60 * 60 < ap_MaximumEvidenceAgeSeconds policy,
           EvidenceAgeOutOfRange)]]"

definition validateStopCondition :: "MandateLib \<Rightarrow> StopCondition \<Rightarrow> MandateError option" where
  "validateStopCondition lib condition = first_error
     [(TrimSpace (st_ID condition) = '''' \<or> TrimSpace (st_Description condition) = '''', StopIDRequired),
      (TrimSpace (st_FactKey condition) = '''', FactKeyRequired),
      (\<not> StopOperator_valid (st_Operator condition), OperatorInvalid),
      (st_Effect condition \<noteq> StopDeny \<and> st_Effect condition \<noteq> StopRequireApproval, EffectInvalid),
      (st_Operator condition \<noteq> StopPresent \<and> st_Operator condition \<noteq> StopAbsent \<and>
         TrimSpace (st_ExpectedValue condition) = '''', ExpectedValueRequired),
      ((st_Operator condition = StopGreaterOrEqual \<or> st_Operator condition = StopLessOrEqual) \<and>
         ml_ParseFloat lib (TrimSpace (st_ExpectedValue condition)) = None, ExpectedValueNotNumeric)]"

text \<open>The loops over scopes and stop conditions: each item's own check, then its identifier's.\<close>

fun check_items ::
  "('a \<Rightarrow> MandateError option) \<Rightarrow> ('a \<Rightarrow> string) \<Rightarrow> (nat \<Rightarrow> MandateError \<Rightarrow> MandateError) \<Rightarrow> MandateError \<Rightarrow>
     nat \<Rightarrow> string list \<Rightarrow> 'a list \<Rightarrow> MandateError option" where
  "check_items check name wrap dup n seen [] = None"
| "check_items check name wrap dup n seen (x # xs) =
     (case check x of
        Some e \<Rightarrow> Some (wrap n e)
      | None \<Rightarrow>
          if normalize_text (name x) \<in> set seen then Some dup
          else check_items check name wrap dup (n + 1) (normalize_text (name x) # seen) xs)"

definition validateCreateRequest :: "MandateLib \<Rightarrow> CreateMandateRequest \<Rightarrow> instant \<Rightarrow> MandateError option" where
  "validateCreateRequest lib request now = first_problem
     [first_error
        [(TrimSpace (cq_OwnerIdentity request) = '''', OwnerRequired),
         (TrimSpace (cq_Name request) = '''', NameRequired),
         (TrimSpace (cq_Purpose request) = '''', PurposeRequired),
         (TrimSpace (cq_CreatedBy request) = '''', CreatorRequired),
         (cq_AutonomyCeiling request < 0 \<or> 10 < cq_AutonomyCeiling request, CeilingOutOfRange),
         (cq_Scopes request = [], ScopeRequired)],
      check_items validateScope sp_ID ScopeError ScopeIDsNotUnique 0 [] (cq_Scopes request),
      validateApprovalPolicy (cq_ApprovalPolicy request),
      check_items (validateStopCondition lib) st_ID StopError StopIDsNotUnique 0 [] (cq_StopConditions request),
      first_error
        [(case cq_ExpiresAt request of None \<Rightarrow> False | Some t \<Rightarrow> \<not> now < t, ExpiryNotInFuture)]]"

definition validateActionRequest :: "ActionRequest \<Rightarrow> MandateError option" where
  "validateActionRequest request = first_problem
     [first_error
        [(TrimSpace (aq_OwnerIdentity request) = '''' \<or> TrimSpace (aq_ActorIdentity request) = '''',
           IdentitiesRequired)],
      validateBoundedValue ''action'' (aq_Action request),
      validateBoundedValue ''resource type'' (aq_ResourceType request),
      first_error
        [(aq_RequestedAutonomy request < 0 \<or> 10 < aq_RequestedAutonomy request, RequestedAutonomyOutOfRange),
         (\<not> MandateRisk_valid (aq_Risk request), RiskInvalid)]]"

end
