(* ===== verification/MandateEvaluator.thy ===== *)
theory MandateEvaluator
  imports MandatePolicy
begin

text \<open>
  The evaluation of an action request against a standing mandate (\<open>evaluator.go\<close>): scopes, stop
  conditions, the need for an approval, the evidence that satisfies it, and the decision with its trace
  and digests.
\<close>

section \<open>Scopes\<close>

fun resourceMatches :: "ResourceScope list \<Rightarrow> ActionRequest \<Rightarrow> bool" where
  "resourceMatches [] request = False"
| "resourceMatches (resource # resources) request =
     (if normalize_text (rs_Type resource) \<noteq> normalize_text (aq_ResourceType request)
      then resourceMatches resources request
      else if rs_IDs resource = [] \<or> containsNormalized (rs_IDs resource) (aq_ResourceID request) then True
      else resourceMatches resources request)"

definition scopeMatches :: "Scope \<Rightarrow> ActionRequest \<Rightarrow> bool" where
  "scopeMatches scope request =
     (if \<not> containsNormalized (sp_Actions scope) (aq_Action request) then False
      else if sp_MaximumRisk scope \<noteq> MandateRiskOther '''' \<and>
              riskRank (sp_MaximumRisk scope) < riskRank (aq_Risk request) then False
      else if sp_Projects scope \<noteq> [] \<and> \<not> containsNormalized (sp_Projects scope) (aq_ProjectKey request) then False
      else if sp_Domains scope \<noteq> [] \<and> \<not> containsNormalized (sp_Domains scope) (aq_Domain request) then False
      else if sp_Tools scope \<noteq> [] \<and> \<not> containsNormalized (sp_Tools scope) (aq_ToolID request) then False
      else if sp_Resources scope = [] then True
      else resourceMatches (sp_Resources scope) request)"

definition matchingScopeIDs :: "Scope list \<Rightarrow> ActionRequest \<Rightarrow> string list" where
  "matchingScopeIDs scopes request = sort (map sp_ID (filter (\<lambda>scope. scopeMatches scope request) scopes))"

section \<open>Stop conditions\<close>

text \<open>The comparison \<open><=\<close> of Go, false as soon as one side is NaN.\<close>

fun float64_le :: "float64 \<Rightarrow> float64 \<Rightarrow> bool" where
  "float64_le (Fin x) (Fin y) = (x \<le> y)"
| "float64_le (Inf p) (Inf q) = (p \<longrightarrow> q)"
| "float64_le (Inf p) (Fin y) = (\<not> p)"
| "float64_le (Fin x) (Inf q) = q"
| "float64_le NaN y = False"
| "float64_le x NaN = False"

fun factValue :: "(string \<times> string) list \<Rightarrow> string \<Rightarrow> string option" where
  "factValue [] k = None"
| "factValue ((candidate, v) # facts) k =
     (if normalize_text candidate = normalize_text k then Some v else factValue facts k)"

definition stopMatches :: "MandateLib \<Rightarrow> StopCondition \<Rightarrow> string option \<Rightarrow> bool" where
  "stopMatches lib condition actual =
     (case st_Operator condition of
        StopPresent \<Rightarrow> actual \<noteq> None
      | StopAbsent \<Rightarrow> actual = None
      | StopEquals \<Rightarrow> (case actual of None \<Rightarrow> False
          | Some v \<Rightarrow> normalize_text v = normalize_text (st_ExpectedValue condition))
      | StopNotEquals \<Rightarrow> (case actual of None \<Rightarrow> False
          | Some v \<Rightarrow> normalize_text v \<noteq> normalize_text (st_ExpectedValue condition))
      | StopOperatorOther t \<Rightarrow> True
      | _ \<Rightarrow> (case actual of None \<Rightarrow> False
          | Some v \<Rightarrow>
              (case (ml_ParseFloat lib (TrimSpace v), ml_ParseFloat lib (TrimSpace (st_ExpectedValue condition))) of
                 (Some x, Some y) \<Rightarrow>
                   if st_Operator condition = StopGreaterOrEqual then float64_le y x else float64_le x y
               | _ \<Rightarrow> st_Required condition)))"

fun stop_of :: "MandateLib \<Rightarrow> (string \<times> string) list \<Rightarrow> StopCondition \<Rightarrow> TriggeredStop list" where
  "stop_of lib facts condition =
     (let actual = factValue facts (st_FactKey condition) in
      if actual = None \<and> st_Required condition
      then [\<lparr>ts_ConditionID = st_ID condition, ts_Effect = st_Effect condition,
             ts_Reason = ''required fact is unavailable''\<rparr>]
      else if stopMatches lib condition actual
      then [\<lparr>ts_ConditionID = st_ID condition, ts_Effect = st_Effect condition,
             ts_Reason = st_Description condition\<rparr>]
      else [])"

definition evaluateStops :: "MandateLib \<Rightarrow> StopCondition list \<Rightarrow> (string \<times> string) list \<Rightarrow> TriggeredStop list" where
  "evaluateStops lib conditions facts =
     sort_key ts_ConditionID (concat (map (stop_of lib facts) conditions))"

definition containsApprovalStop :: "TriggeredStop list \<Rightarrow> bool" where
  "containsApprovalStop stops \<longleftrightarrow> list_ex (\<lambda>stop. ts_Effect stop = StopRequireApproval) stops"

section \<open>Approval\<close>

definition approvalRequiredByPolicy :: "ApprovalPolicy \<Rightarrow> ActionRequest \<Rightarrow> bool" where
  "approvalRequiredByPolicy policy request =
     (case ap_Mode policy of
        ApprovalAlways \<Rightarrow> True
      | ApprovalAtOrAboveAutonomy \<Rightarrow> ap_AutonomyThreshold policy \<le> aq_RequestedAutonomy request
      | ApprovalForRiskOrAction \<Rightarrow>
          containsRisk (ap_RiskLevels policy) (aq_Risk request) \<or>
          containsNormalized (ap_Actions policy) (aq_Action request)
      | _ \<Rightarrow> False)"

text \<open>The reason why the evidence does not satisfy the policy, if it does not.\<close>

definition approvalProblem ::
  "ApprovalPolicy \<Rightarrow> ActionRequest \<Rightarrow> string \<Rightarrow> instant \<Rightarrow> string option" where
  "approvalProblem policy request actionDigest now =
     (case aq_Approval request of
        None \<Rightarrow> Some ''action-bound approval evidence is required''
      | Some evidence \<Rightarrow> first_error
          [(av_Revoked evidence, ''approval evidence has been revoked''),
           (TrimSpace (av_ID evidence) = '''' \<or> TrimSpace (av_ApprovedBy evidence) = '''' \<or>
              TrimSpace (av_Source evidence) = '''',
              ''approval evidence identity, approver, and source are required''),
           (\<not> EqualFold (TrimSpace (av_ActionDigest evidence)) actionDigest,
              ''approval evidence is bound to a different action''),
           (av_ApprovedAt evidence = 0 \<or> av_ExpiresAt evidence = 0 \<or>
              now + 5 * 10 ^ 9 < av_ApprovedAt evidence \<or> \<not> now < av_ExpiresAt evidence,
              ''approval evidence is expired or has an invalid time window''),
           (0 < ap_MaximumEvidenceAgeSeconds policy \<and>
              ap_MaximumEvidenceAgeSeconds policy * 10 ^ 9 < time_Sub now (av_ApprovedAt evidence),
              ''approval evidence is older than the mandate policy permits''),
           (ap_ApproverRoles policy \<noteq> [] \<and>
              \<not> intersectsNormalized (ap_ApproverRoles policy) (av_ApproverRoles evidence),
              ''approval evidence does not contain a permitted approver role'')])"

section \<open>Normal forms that are digested\<close>

text \<open>The encoder lists a map in the order of its keys.\<close>

definition cloneNormalizedMap :: "(string \<times> string) list \<Rightarrow> (string \<times> string) list" where
  "cloneNormalizedMap facts =
     sort_key fst (fold (\<lambda>(k, v) m. AList.update (normalize_text k) (TrimSpace v) m) facts [])"

definition normalizedActionRequest :: "ActionRequest \<Rightarrow> ActionRequest" where
  "normalizedActionRequest request = request
     \<lparr>aq_OwnerIdentity := TrimSpace (aq_OwnerIdentity request),
      aq_ActorIdentity := TrimSpace (aq_ActorIdentity request),
      aq_Action := normalize_text (aq_Action request),
      aq_ResourceType := normalize_text (aq_ResourceType request),
      aq_ResourceID := TrimSpace (aq_ResourceID request),
      aq_ProjectKey := normalize_text (aq_ProjectKey request),
      aq_Domain := normalize_text (aq_Domain request),
      aq_ToolID := normalize_text (aq_ToolID request),
      aq_SourceReferences := cleanValues (aq_SourceReferences request),
      aq_Facts := cloneNormalizedMap (aq_Facts request),
      aq_Approval := None\<rparr>"

definition normalized_scope :: "Scope \<Rightarrow> Scope" where
  "normalized_scope scope = scope
     \<lparr>sp_ID := normalize_text (sp_ID scope),
      sp_Actions := cleanValues (sp_Actions scope),
      sp_Projects := cleanValues (sp_Projects scope),
      sp_Domains := cleanValues (sp_Domains scope),
      sp_Tools := cleanValues (sp_Tools scope)\<rparr>"

definition normalizedMandate :: "StandingMandate \<Rightarrow> StandingMandate" where
  "normalizedMandate mandate = mandate
     \<lparr>sm_Scopes := map normalized_scope (sort_key (\<lambda>scope. normalize_text (sp_ID scope)) (sm_Scopes mandate)),
      sm_SourceReferences := cleanValues (sm_SourceReferences mandate)\<rparr>"

section \<open>The decision\<close>

definition add_trace :: "string \<Rightarrow> string \<Rightarrow> AuthorizationDecision \<Rightarrow> AuthorizationDecision" where
  "add_trace code message decision = decision
     \<lparr>ad_Evidence := (ad_Evidence decision)\<lparr>dn_Trace := dn_Trace (ad_Evidence decision) @ [(code, message)]\<rparr>\<rparr>"

definition decision_payload :: "AuthorizationDecision \<Rightarrow> DecisionPayload" where
  "decision_payload decision =
     \<lparr>dp_ID = ad_ID decision, dp_MandateID = ad_MandateID decision, dp_Outcome = ad_Outcome decision,
      dp_Reason = ad_Reason decision, dp_EffectiveAutonomy = ad_EffectiveAutonomy decision,
      dp_ApprovalRequired = ad_ApprovalRequired decision,
      dp_ApprovalSatisfied = ad_ApprovalSatisfied decision, dp_EvaluatedAt = ad_EvaluatedAt decision,
      dp_Evidence = (ad_Evidence decision)\<lparr>dn_DecisionDigest := ''''\<rparr>\<rparr>"

definition finishDecision ::
  "MandateLib \<Rightarrow> AuthorizationDecision \<Rightarrow> DecisionOutcome \<Rightarrow> string \<Rightarrow> string \<Rightarrow>
     MandateError + AuthorizationDecision" where
  "finishDecision lib decision outcome reason code =
     (let decision = add_trace code reason (decision\<lparr>ad_Outcome := outcome, ad_Reason := reason\<rparr>) in
      case ml_hash_decision lib (decision_payload decision) of
        None \<Rightarrow> Inl DigestFailed
      | Some v \<Rightarrow> Inr (decision\<lparr>ad_Evidence := (ad_Evidence decision)\<lparr>dn_DecisionDigest := v\<rparr>\<rparr>))"

definition first_decision ::
  "uuid \<Rightarrow> StandingMandate \<Rightarrow> ActionRequest \<Rightarrow> instant \<Rightarrow> string \<Rightarrow> string \<Rightarrow> AuthorizationDecision" where
  "first_decision fresh mandate request now requestDigest mandateDigest =
     \<lparr>ad_ID = fresh, ad_MandateID = sm_ID mandate, ad_OwnerIdentity = aq_OwnerIdentity request,
      ad_ActorIdentity = aq_ActorIdentity request, ad_Action = aq_Action request,
      ad_Outcome = DecisionDenied, ad_Reason = '''',
      ad_EffectiveAutonomy = min (sm_AutonomyCeiling mandate) (aq_RequestedAutonomy request),
      ad_ApprovalRequired = False, ad_ApprovalSatisfied = False, ad_EvaluatedAt = now,
      ad_Evidence = \<lparr>dn_RequestDigest = requestDigest, dn_MandateDigest = mandateDigest,
        dn_DecisionDigest = '''', dn_MandateRevision = sm_Revision mandate, dn_MatchedScopeIDs = [],
        dn_TriggeredStops = [], dn_ApprovalEvidenceID = '''',
        dn_SourceReferences = mergeValues [sm_SourceReferences mandate, aq_SourceReferences request],
        dn_Trace = []\<rparr>\<rparr>"

text \<open>The loop over the triggered stops: their traces, up to the first that denies.\<close>

definition stop_code :: "StopEffect \<Rightarrow> string" where
  "stop_code e = ''stop.'' @ (case e of StopDeny \<Rightarrow> ''deny'' | StopRequireApproval \<Rightarrow> ''require_approval''
     | StopEffectOther t \<Rightarrow> t)"

fun trace_stops :: "TriggeredStop list \<Rightarrow> AuthorizationDecision \<Rightarrow> bool \<times> AuthorizationDecision" where
  "trace_stops [] decision = (False, decision)"
| "trace_stops (stop # stops) decision =
     (let decision = add_trace (stop_code (ts_Effect stop))
            (ts_ConditionID stop @ '': '' @ ts_Reason stop) decision in
      if ts_Effect stop = StopDeny then (True, decision) else trace_stops stops decision)"

definition evaluate_approval ::
  "MandateLib \<Rightarrow> StandingMandate \<Rightarrow> ActionRequest \<Rightarrow> instant \<Rightarrow> string \<Rightarrow> TriggeredStop list \<Rightarrow>
     AuthorizationDecision \<Rightarrow> MandateError + AuthorizationDecision" where
  "evaluate_approval lib mandate request now requestDigest triggered decision =
     (let approvalRequired = (aq_UpstreamApprovalRequired request \<or>
            approvalRequiredByPolicy (sm_ApprovalPolicy mandate) request \<or> containsApprovalStop triggered);
          decision = decision\<lparr>ad_ApprovalRequired := approvalRequired\<rparr> in
      if \<not> approvalRequired
      then finishDecision lib decision DecisionAuthorized
             ''action is authorized by the active standing mandate'' ''decision.authorized''
      else
        (let problem = approvalProblem (sm_ApprovalPolicy mandate) request requestDigest now;
             decision = decision\<lparr>ad_ApprovalSatisfied := problem = None\<rparr>;
             decision = (case aq_Approval request of
                None \<Rightarrow> decision
              | Some evidence \<Rightarrow> decision\<lparr>ad_Evidence :=
                    (ad_Evidence decision)\<lparr>dn_ApprovalEvidenceID := TrimSpace (av_ID evidence)\<rparr>\<rparr>)
         in case problem of
              Some reason \<Rightarrow>
                finishDecision lib (add_trace ''approval.unsatisfied'' reason decision)
                  DecisionRequiresApproval reason ''approval.required''
            | None \<Rightarrow>
                finishDecision lib (add_trace ''approval.satisfied''
                    ''action-bound approval evidence satisfies the mandate policy'' decision)
                  DecisionAuthorized ''action is authorized by the active standing mandate''
                  ''decision.authorized''))"

definition evaluate_matched ::
  "MandateLib \<Rightarrow> StandingMandate \<Rightarrow> ActionRequest \<Rightarrow> instant \<Rightarrow> string \<Rightarrow> string list \<Rightarrow>
     AuthorizationDecision \<Rightarrow> MandateError + AuthorizationDecision" where
  "evaluate_matched lib mandate request now requestDigest matched decision =
     (let decision = decision\<lparr>ad_Evidence := (ad_Evidence decision)\<lparr>dn_MatchedScopeIDs := matched\<rparr>\<rparr>;
          decision = add_trace ''scope.matched''
            (''matched '' @ decimal (length matched) @ '' bounded scope(s)'') decision;
          triggered = evaluateStops lib (sm_StopConditions mandate) (aq_Facts request);
          decision = decision\<lparr>ad_Evidence := (ad_Evidence decision)\<lparr>dn_TriggeredStops := triggered\<rparr>\<rparr>;
          (denied, decision) = trace_stops triggered decision
      in if denied
         then finishDecision lib decision DecisionDenied ''a mandate stop condition blocks this action''
                ''stop.denied''
         else evaluate_approval lib mandate request now requestDigest triggered decision)"

definition evaluate_digested ::
  "MandateLib \<Rightarrow> uuid \<Rightarrow> StandingMandate \<Rightarrow> ActionRequest \<Rightarrow> instant \<Rightarrow> string \<Rightarrow> string \<Rightarrow>
     MandateError + AuthorizationDecision" where
  "evaluate_digested lib fresh mandate request now requestDigest mandateDigest =
     (let decision = first_decision fresh mandate request now requestDigest mandateDigest;
          matched = matchingScopeIDs (sm_Scopes mandate) request in
      if sm_Status mandate \<noteq> MandateActive
      then finishDecision lib decision DecisionDenied ''mandate is not active'' ''mandate.inactive''
      else if (case sm_ExpiresAt mandate of None \<Rightarrow> False | Some t \<Rightarrow> \<not> now < t)
      then finishDecision lib decision DecisionDenied ''mandate has expired'' ''mandate.expired''
      else if now + 5 * 60 * 10 ^ 9 < aq_RequestedAt request
      then finishDecision lib decision DecisionDenied ''action request time is in the future'' ''request.future''
      else if sm_AutonomyCeiling mandate < aq_RequestedAutonomy request
      then finishDecision lib decision DecisionDenied ''requested autonomy exceeds mandate ceiling''
             ''autonomy.exceeds_ceiling''
      else if matched = []
      then finishDecision lib decision DecisionDenied ''action is outside every mandate scope'' ''scope.no_match''
      else evaluate_matched lib mandate request now requestDigest matched decision)"

definition evaluate ::
  "MandateLib \<Rightarrow> uuid \<Rightarrow> StandingMandate \<Rightarrow> ActionRequest \<Rightarrow> instant \<Rightarrow> MandateError + AuthorizationDecision" where
  "evaluate lib fresh mandate request now =
     (case ml_hash_request lib (normalizedActionRequest request) of
        None \<Rightarrow> Inl DigestFailed
      | Some requestDigest \<Rightarrow>
          (case ml_hash_mandate lib (normalizedMandate mandate) of
             None \<Rightarrow> Inl DigestFailed
           | Some mandateDigest \<Rightarrow>
               evaluate_digested lib fresh mandate request now requestDigest mandateDigest))"

end
