(* ===== verification/MandateService.thy ===== *)
theory MandateService
  imports MandateEvaluator
begin

text \<open>
  The in-process store of mandates and decisions (\<open>standingmandate/repository.go\<close>) and the service over
  it (\<open>service.go\<close>, \<open>Authorize\<close> in \<open>evaluator.go\<close>). A method of the store holds its mutex and is one step;
  a call of the service reads in one step and writes in another, so each of \<open>Activate\<close> and \<open>Revoke\<close> is the
  pair of the changed copy it computes from what it read and the guarded update. Maps are association
  lists; clocks and the identifiers \<open>uuid.New\<close> draws are arguments.
\<close>

section \<open>The store\<close>

record MandateStore =
  ms_records :: "(uuid \<times> StandingMandate) list"
  ms_decisions :: "(uuid \<times> AuthorizationDecision) list"

definition NewMandateStore :: MandateStore where
  "NewMandateStore = \<lparr>ms_records = [], ms_decisions = []\<rparr>"

definition Create_mandate :: "MandateStore \<Rightarrow> StandingMandate \<Rightarrow> MandateError + MandateStore" where
  "Create_mandate r mandate =
     (case map_of (ms_records r) (sm_ID mandate) of
        Some _ \<Rightarrow> Inl MandateRevisionConflict
      | None \<Rightarrow> Inr (r\<lparr>ms_records := AList.update (sm_ID mandate) mandate (ms_records r)\<rparr>))"

definition Get_mandate :: "MandateStore \<Rightarrow> string \<Rightarrow> uuid \<Rightarrow> MandateError + StandingMandate" where
  "Get_mandate r owner k =
     (case map_of (ms_records r) k of
        None \<Rightarrow> Inl MandateNotFound
      | Some mandate \<Rightarrow> if sm_OwnerIdentity mandate \<noteq> owner then Inl MandateNotFound else Inr mandate)"

definition Update_mandate :: "MandateStore \<Rightarrow> StandingMandate \<Rightarrow> 64 word \<Rightarrow> MandateError + MandateStore" where
  "Update_mandate r mandate expectedRevision =
     (case map_of (ms_records r) (sm_ID mandate) of
        None \<Rightarrow> Inl MandateNotFound
      | Some current \<Rightarrow>
          if sm_OwnerIdentity current \<noteq> sm_OwnerIdentity mandate then Inl MandateNotFound
          else if sm_Revision current \<noteq> expectedRevision then Inl MandateRevisionConflict
          else Inr (r\<lparr>ms_records := AList.update (sm_ID mandate) mandate (ms_records r)\<rparr>))"

definition List_mandates :: "MandateStore \<Rightarrow> string \<Rightarrow> StandingMandate list" where
  "List_mandates r owner =
     sort_key (\<lambda>m. (sm_CreatedAt m, sm_ID m))
       (filter (\<lambda>m. sm_OwnerIdentity m = owner) (map snd (ms_records r)))"

definition CreateDecision :: "MandateStore \<Rightarrow> AuthorizationDecision \<Rightarrow> MandateError + MandateStore" where
  "CreateDecision r decision =
     (if map_of (ms_decisions r) (ad_ID decision) \<noteq> None then Inl DecisionConflict
      else if list_ex (\<lambda>(k, existing). dn_DecisionDigest (ad_Evidence existing) =
                         dn_DecisionDigest (ad_Evidence decision)) (ms_decisions r)
      then Inl DecisionConflict
      else Inr (r\<lparr>ms_decisions := AList.update (ad_ID decision) decision (ms_decisions r)\<rparr>))"

definition GetDecision :: "MandateStore \<Rightarrow> string \<Rightarrow> uuid \<Rightarrow> MandateError + AuthorizationDecision" where
  "GetDecision r owner k =
     (case map_of (ms_decisions r) k of
        None \<Rightarrow> Inl MandateNotFound
      | Some decision \<Rightarrow> if ad_OwnerIdentity decision \<noteq> owner then Inl MandateNotFound else Inr decision)"

definition boundedDecisionLimit :: "int \<Rightarrow> int" where
  "boundedDecisionLimit limit = (if limit \<le> 0 then 100 else if 1000 < limit then 1000 else limit)"

definition ListDecisions :: "MandateStore \<Rightarrow> string \<Rightarrow> uuid option \<Rightarrow> int \<Rightarrow> AuthorizationDecision list" where
  "ListDecisions r owner mandateID limit =
     take (nat (boundedDecisionLimit limit))
       (sort_key (\<lambda>d. (- ad_EvaluatedAt d, - uint (ad_ID d)))
          (filter (\<lambda>d. ad_OwnerIdentity d = owner \<and>
             (case mandateID of None \<Rightarrow> True | Some k \<Rightarrow> ad_MandateID d = k)) (map snd (ms_decisions r))))"

section \<open>The service\<close>

text \<open>\<open>firstNonEmpty\<close> of this package returns the trimmed text.\<close>

fun firstTrimmed :: "string list \<Rightarrow> string" where
  "firstTrimmed [] = ''''"
| "firstTrimmed (v # vs) = (if TrimSpace v \<noteq> '''' then TrimSpace v else firstTrimmed vs)"

definition monotonicTime :: "instant \<Rightarrow> instant \<Rightarrow> instant" where
  "monotonicTime now previous = (if \<not> previous < now then previous + 1000 else now)"

definition new_mandate :: "CreateMandateRequest \<Rightarrow> instant \<Rightarrow> uuid \<Rightarrow> StandingMandate" where
  "new_mandate request now fresh =
     \<lparr>sm_ID = fresh,
      sm_OwnerIdentity = TrimSpace (cq_OwnerIdentity request),
      sm_Name = TrimSpace (cq_Name request),
      sm_Purpose = TrimSpace (cq_Purpose request),
      sm_Status = MandateDraft,
      sm_Version = firstTrimmed [cq_Version request, ''1.0.0''],
      sm_Revision = 1,
      sm_Scopes = cq_Scopes request,
      sm_AutonomyCeiling = cq_AutonomyCeiling request,
      sm_ApprovalPolicy = cq_ApprovalPolicy request,
      sm_StopConditions = cq_StopConditions request,
      sm_SourceReferences = cleanValues (cq_SourceReferences request),
      sm_CreatedBy = TrimSpace (cq_CreatedBy request),
      sm_CreatedAt = now,
      sm_UpdatedAt = now,
      sm_ActivatedAt = None,
      sm_ExpiresAt = cq_ExpiresAt request,
      sm_RevokedAt = None,
      sm_RevokedBy = '''',
      sm_RevocationReason = ''''\<rparr>"

definition Create_svc ::
  "MandateLib \<Rightarrow> MandateStore \<Rightarrow> instant \<Rightarrow> uuid \<Rightarrow> CreateMandateRequest \<Rightarrow>
     MandateError + (StandingMandate \<times> MandateStore)" where
  "Create_svc lib r now fresh request =
     (case validateCreateRequest lib request now of
        Some e \<Rightarrow> Inl e
      | None \<Rightarrow>
          and_then (Create_mandate r (new_mandate request now fresh))
            (\<lambda>r. Inr (new_mandate request now fresh, r)))"

definition activated :: "StandingMandate \<Rightarrow> 64 word \<Rightarrow> instant \<Rightarrow> MandateError + StandingMandate" where
  "activated mandate expectedRevision clock =
     (let now = monotonicTime clock (sm_UpdatedAt mandate) in
      if sm_Revision mandate \<noteq> expectedRevision then Inl MandateRevisionConflict
      else if sm_Status mandate \<noteq> MandateDraft then Inl NotDraft
      else if (case sm_ExpiresAt mandate of None \<Rightarrow> False | Some t \<Rightarrow> \<not> now < t) then Inl MandateExpired
      else Inr (mandate\<lparr>sm_Status := MandateActive, sm_ActivatedAt := Some now, sm_UpdatedAt := now,
                        sm_Revision := sm_Revision mandate + 1\<rparr>))"

definition Activate ::
  "MandateStore \<Rightarrow> instant \<Rightarrow> string \<Rightarrow> uuid \<Rightarrow> 64 word \<Rightarrow> MandateError + (StandingMandate \<times> MandateStore)" where
  "Activate r clock owner k expectedRevision =
     and_then (Get_mandate r (TrimSpace owner) k) (\<lambda>mandate.
     and_then (activated mandate expectedRevision clock) (\<lambda>mandate.
     and_then (Update_mandate r mandate expectedRevision) (\<lambda>r.
     Inr (mandate, r))))"

definition revoked ::
  "StandingMandate \<Rightarrow> 64 word \<Rightarrow> instant \<Rightarrow> string \<Rightarrow> string \<Rightarrow> MandateError + StandingMandate" where
  "revoked mandate expectedRevision clock revokedBy reason =
     (let now = monotonicTime clock (sm_UpdatedAt mandate) in
      if sm_Revision mandate \<noteq> expectedRevision then Inl MandateRevisionConflict
      else if sm_Status mandate = MandateRevoked then Inl AlreadyRevoked
      else Inr (mandate\<lparr>sm_Status := MandateRevoked, sm_RevokedAt := Some now, sm_RevokedBy := revokedBy,
                        sm_RevocationReason := reason, sm_UpdatedAt := now,
                        sm_Revision := sm_Revision mandate + 1\<rparr>))"

definition Revoke ::
  "MandateStore \<Rightarrow> instant \<Rightarrow> string \<Rightarrow> uuid \<Rightarrow> 64 word \<Rightarrow> string \<Rightarrow> string \<Rightarrow>
     MandateError + (StandingMandate \<times> MandateStore)" where
  "Revoke r clock owner k expectedRevision revokedBy reason =
     (let revokedBy = TrimSpace revokedBy; reason = TrimSpace reason in
      if revokedBy = '''' \<or> reason = '''' then Inl RevokerRequired
      else
        and_then (Get_mandate r (TrimSpace owner) k) (\<lambda>mandate.
        and_then (revoked mandate expectedRevision clock revokedBy reason) (\<lambda>mandate.
        and_then (Update_mandate r mandate expectedRevision) (\<lambda>r.
        Inr (mandate, r)))))"

record AuthorizationSnapshot =
  as_ID :: uuid
  as_OwnerIdentity :: string
  as_Status :: MandateStatus
  as_Revision :: "64 word"
  as_ExpiresAt :: "instant option"
  as_Digest :: string

definition GetAuthorizationSnapshot ::
  "MandateLib \<Rightarrow> MandateStore \<Rightarrow> string \<Rightarrow> uuid \<Rightarrow> MandateError + AuthorizationSnapshot" where
  "GetAuthorizationSnapshot lib r owner k =
     and_then (Get_mandate r (TrimSpace owner) k) (\<lambda>mandate.
       case ml_hash_mandate lib (normalizedMandate mandate) of
         None \<Rightarrow> Inl DigestFailed
       | Some v \<Rightarrow> Inr \<lparr>as_ID = sm_ID mandate, as_OwnerIdentity = sm_OwnerIdentity mandate,
           as_Status = sm_Status mandate, as_Revision = sm_Revision mandate,
           as_ExpiresAt = sm_ExpiresAt mandate, as_Digest = v\<rparr>)"

text \<open>\<open>Authorize\<close>: the request with its time, then the mandate as read, then the stored decision.\<close>

definition timed_request :: "ActionRequest \<Rightarrow> instant \<Rightarrow> ActionRequest" where
  "timed_request request now = (if aq_RequestedAt request = 0 then request\<lparr>aq_RequestedAt := now\<rparr> else request)"

definition Authorize ::
  "MandateLib \<Rightarrow> MandateStore \<Rightarrow> instant \<Rightarrow> uuid \<Rightarrow> uuid \<Rightarrow> ActionRequest \<Rightarrow>
     MandateError + (AuthorizationDecision \<times> MandateStore)" where
  "Authorize lib r now fresh mandateID request =
     (let request = timed_request request now in
      case validateActionRequest request of
        Some e \<Rightarrow> Inl e
      | None \<Rightarrow>
          and_then (Get_mandate r (TrimSpace (aq_OwnerIdentity request)) mandateID) (\<lambda>mandate.
          and_then (evaluate lib fresh mandate request now) (\<lambda>decision.
          and_then (CreateDecision r decision) (\<lambda>r.
          Inr (decision, r)))))"

end
