(* ===== verification/MandateFacts.thy ===== *)
theory MandateFacts
  imports MandateService
begin

text \<open>
  What a mandate permits, stated without the evaluator's order of checks, and that the evaluator decides
  exactly that; the store as an optimistic one (the locale \<open>guarded_store\<close>), and what later revisions
  of a mandate have in common with earlier ones.
\<close>

declare decimal.simps [simp del]

section \<open>What a mandate permits\<close>

text \<open>A list of names covers a name that is the same up to case and blanks.\<close>

definition covers :: "string list \<Rightarrow> string \<Rightarrow> bool" where
  "covers values v \<longleftrightarrow> normalize_text v \<noteq> '''' \<and> normalize_text v \<in> normalize_text ` set values"

definition scope_permits :: "Scope \<Rightarrow> ActionRequest \<Rightarrow> bool" where
  "scope_permits scope request \<longleftrightarrow>
     covers (sp_Actions scope) (aq_Action request) \<and>
     (sp_MaximumRisk scope = MandateRiskOther '''' \<or> riskRank (aq_Risk request) \<le> riskRank (sp_MaximumRisk scope)) \<and>
     (sp_Projects scope = [] \<or> covers (sp_Projects scope) (aq_ProjectKey request)) \<and>
     (sp_Domains scope = [] \<or> covers (sp_Domains scope) (aq_Domain request)) \<and>
     (sp_Tools scope = [] \<or> covers (sp_Tools scope) (aq_ToolID request)) \<and>
     (sp_Resources scope = [] \<or> (\<exists>resource \<in> set (sp_Resources scope).
        normalize_text (rs_Type resource) = normalize_text (aq_ResourceType request) \<and>
        (rs_IDs resource = [] \<or> covers (rs_IDs resource) (aq_ResourceID request))))"

definition stop_fires :: "MandateLib \<Rightarrow> (string \<times> string) list \<Rightarrow> StopCondition \<Rightarrow> bool" where
  "stop_fires lib facts c \<longleftrightarrow>
     factValue facts (st_FactKey c) = None \<and> st_Required c \<or>
     stopMatches lib c (factValue facts (st_FactKey c))"

definition needs_evidence :: "MandateLib \<Rightarrow> StandingMandate \<Rightarrow> ActionRequest \<Rightarrow> bool" where
  "needs_evidence lib m request \<longleftrightarrow>
     aq_UpstreamApprovalRequired request \<or> approvalRequiredByPolicy (sm_ApprovalPolicy m) request \<or>
     (\<exists>c \<in> set (sm_StopConditions m). stop_fires lib (aq_Facts request) c \<and> st_Effect c = StopRequireApproval)"

definition evidence_valid :: "ApprovalPolicy \<Rightarrow> ApprovalEvidence \<Rightarrow> string \<Rightarrow> instant \<Rightarrow> bool" where
  "evidence_valid policy ev actionDigest now \<longleftrightarrow>
     \<not> av_Revoked ev \<and> TrimSpace (av_ID ev) \<noteq> '''' \<and> TrimSpace (av_ApprovedBy ev) \<noteq> '''' \<and>
     TrimSpace (av_Source ev) \<noteq> '''' \<and> EqualFold (TrimSpace (av_ActionDigest ev)) actionDigest \<and>
     av_ApprovedAt ev \<noteq> 0 \<and> av_ApprovedAt ev \<le> now + 5 * 10 ^ 9 \<and> now < av_ExpiresAt ev \<and> av_ExpiresAt ev \<noteq> 0 \<and>
     (ap_MaximumEvidenceAgeSeconds policy \<le> 0 \<or>
        time_Sub now (av_ApprovedAt ev) \<le> ap_MaximumEvidenceAgeSeconds policy * 10 ^ 9) \<and>
     (ap_ApproverRoles policy = [] \<or>
        (\<exists>role \<in> set (ap_ApproverRoles policy). covers (av_ApproverRoles ev) role))"

text \<open>All but the approval.\<close>

definition within_mandate :: "MandateLib \<Rightarrow> StandingMandate \<Rightarrow> ActionRequest \<Rightarrow> instant \<Rightarrow> bool" where
  "within_mandate lib m request now \<longleftrightarrow>
     sm_Status m = MandateActive \<and> (\<forall>t. sm_ExpiresAt m = Some t \<longrightarrow> now < t) \<and>
     aq_RequestedAt request \<le> now + 5 * 60 * 10 ^ 9 \<and>
     aq_RequestedAutonomy request \<le> sm_AutonomyCeiling m \<and>
     (\<exists>scope \<in> set (sm_Scopes m). scope_permits scope request) \<and>
     (\<forall>c \<in> set (sm_StopConditions m). stop_fires lib (aq_Facts request) c \<longrightarrow> st_Effect c \<noteq> StopDeny)"

definition approved :: "MandateLib \<Rightarrow> StandingMandate \<Rightarrow> ActionRequest \<Rightarrow> string \<Rightarrow> instant \<Rightarrow> bool" where
  "approved lib m request actionDigest now \<longleftrightarrow> needs_evidence lib m request \<longrightarrow>
     (\<exists>ev. aq_Approval request = Some ev \<and> evidence_valid (sm_ApprovalPolicy m) ev actionDigest now)"

section \<open>The evaluator's tests\<close>

lemma containsNormalized_iff: "containsNormalized values v = covers values v"
  by (auto simp: containsNormalized_def covers_def Let_def list_ex_iff intro: rev_image_eqI)

lemma resourceMatches_iff: "resourceMatches resources request \<longleftrightarrow> (\<exists>resource \<in> set resources.
    normalize_text (rs_Type resource) = normalize_text (aq_ResourceType request) \<and>
    (rs_IDs resource = [] \<or> covers (rs_IDs resource) (aq_ResourceID request)))"
  by (induction resources) (auto simp: containsNormalized_iff)

lemma scopeMatches_iff: "scopeMatches scope request = scope_permits scope request"
  unfolding scopeMatches_def scope_permits_def containsNormalized_iff resourceMatches_iff
  by (simp add: linorder_not_less)

lemma matchingScopeIDs_empty:
  "matchingScopeIDs scopes request = [] \<longleftrightarrow> \<not> (\<exists>scope \<in> set scopes. scope_permits scope request)"
proof -
  have "sort xs = [] \<longleftrightarrow> xs = []" for xs :: "string list" by (metis length_0_conv length_sort)
  then show ?thesis by (simp add: matchingScopeIDs_def scopeMatches_iff filter_empty_conv)
qed

lemma stop_of_eq: "stop_of lib facts c = (if stop_fires lib facts c
    then [\<lparr>ts_ConditionID = st_ID c, ts_Effect = st_Effect c,
      ts_Reason = (if factValue facts (st_FactKey c) = None \<and> st_Required c
                   then ''required fact is unavailable'' else st_Description c)\<rparr>]
    else [])"
  by (simp add: stop_fires_def Let_def)

declare stop_of.simps [simp del]

lemma evaluateStops_effect:
  "(\<exists>stop \<in> set (evaluateStops lib conditions facts). ts_Effect stop = e) \<longleftrightarrow>
     (\<exists>c \<in> set conditions. stop_fires lib facts c \<and> st_Effect c = e)"
  by (auto simp: evaluateStops_def stop_of_eq)

lemma containsApprovalStop_iff: "containsApprovalStop (evaluateStops lib conditions facts) \<longleftrightarrow>
    (\<exists>c \<in> set conditions. stop_fires lib facts c \<and> st_Effect c = StopRequireApproval)"
  unfolding containsApprovalStop_def list_ex_iff by (rule evaluateStops_effect)

lemma approvalProblem_None:
  "approvalProblem policy request d now = None \<longleftrightarrow>
     (\<exists>ev. aq_Approval request = Some ev \<and> evidence_valid policy ev d now)"
proof (cases "aq_Approval request")
  case None
  then show ?thesis by (simp add: approvalProblem_def)
next
  case (Some ev)
  have "intersectsNormalized l r \<longleftrightarrow> (\<exists>x \<in> set l. covers r x)" for l r
    by (simp add: intersectsNormalized_def list_ex_iff containsNormalized_iff)
  with Some show ?thesis
    unfolding approvalProblem_def evidence_valid_def
    by (simp add: linorder_not_less linorder_not_le)
qed

lemma trace_stops_fst: "fst (trace_stops stops d) \<longleftrightarrow> (\<exists>stop \<in> set stops. ts_Effect stop = StopDeny)"
  by (induction stops arbitrary: d) (auto simp: Let_def)

section \<open>Fields of a decision\<close>

text \<open>What the later stages of the evaluation leave alone.\<close>

definition same_request :: "AuthorizationDecision \<Rightarrow> AuthorizationDecision \<Rightarrow> bool" where
  "same_request a b \<longleftrightarrow> ad_ID a = ad_ID b \<and> ad_MandateID a = ad_MandateID b \<and>
     ad_EffectiveAutonomy a = ad_EffectiveAutonomy b \<and> ad_EvaluatedAt a = ad_EvaluatedAt b \<and>
     dn_RequestDigest (ad_Evidence a) = dn_RequestDigest (ad_Evidence b) \<and>
     dn_MandateRevision (ad_Evidence a) = dn_MandateRevision (ad_Evidence b)"

lemma finishDecision_Inr:
  "finishDecision lib d outcome reason code = Inr d' \<Longrightarrow> ad_Outcome d' = outcome \<and> same_request d' d"
  by (auto simp: finishDecision_def add_trace_def same_request_def Let_def split: option.splits)

lemma trace_stops_same: "same_request (snd (trace_stops stops d)) d"
proof (induction stops arbitrary: d)
  case (Cons stop stops)
  have "same_request (add_trace c m d) d" for c m by (simp add: add_trace_def same_request_def)
  with Cons.IH show ?case by (auto simp: Let_def same_request_def)
qed (simp add: same_request_def)

lemma evaluate_approval_Inr:
  assumes "evaluate_approval lib m request now dg (evaluateStops lib (sm_StopConditions m) (aq_Facts request)) d = Inr d'"
  shows "ad_Outcome d' = (if approved lib m request dg now then DecisionAuthorized else DecisionRequiresApproval) \<and>
    same_request d' d"
proof -
  let ?stops = "evaluateStops lib (sm_StopConditions m) (aq_Facts request)"
  have needs: "(aq_UpstreamApprovalRequired request \<or>
      approvalRequiredByPolicy (sm_ApprovalPolicy m) request \<or> containsApprovalStop ?stops) = needs_evidence lib m request"
    by (simp add: needs_evidence_def containsApprovalStop_iff)
  have ok: "approved lib m request dg now \<longleftrightarrow> (needs_evidence lib m request \<longrightarrow>
      approvalProblem (sm_ApprovalPolicy m) request dg now = None)"
    by (simp add: approved_def approvalProblem_None)
  note a = assms [unfolded evaluate_approval_def needs Let_def]
  show ?thesis
  proof (cases "needs_evidence lib m request")
    case False
    with a ok show ?thesis
      by (auto dest!: finishDecision_Inr simp: same_request_def)
  next
    case True
    then show ?thesis
      using a ok
      by (cases "approvalProblem (sm_ApprovalPolicy m) request dg now"; cases "aq_Approval request")
        (auto dest!: finishDecision_Inr simp: same_request_def add_trace_def)
  qed
qed

section \<open>The whole evaluation\<close>

text \<open>The evaluation of an outcome: denied outside the mandate, else authorised if approved.\<close>

definition planned_outcome :: "MandateLib \<Rightarrow> StandingMandate \<Rightarrow> ActionRequest \<Rightarrow> string \<Rightarrow> instant \<Rightarrow> DecisionOutcome" where
  "planned_outcome lib m request dg now =
     (if \<not> within_mandate lib m request now then DecisionDenied
      else if approved lib m request dg now then DecisionAuthorized
      else DecisionRequiresApproval)"

lemma evaluate_matched_Inr:
  assumes "evaluate_matched lib m request now dg matched d = Inr d'"
  shows "ad_Outcome d' =
      (if \<exists>c \<in> set (sm_StopConditions m). stop_fires lib (aq_Facts request) c \<and> st_Effect c = StopDeny
       then DecisionDenied
       else if approved lib m request dg now then DecisionAuthorized else DecisionRequiresApproval) \<and>
    same_request d' d"
proof -
  let ?stops = "evaluateStops lib (sm_StopConditions m) (aq_Facts request)"
  let ?d1 = "add_trace ''scope.matched'' (''matched '' @ decimal (length matched) @ '' bounded scope(s)'')
      (d\<lparr>ad_Evidence := (ad_Evidence d)\<lparr>dn_MatchedScopeIDs := matched\<rparr>\<rparr>)"
  let ?d2 = "?d1\<lparr>ad_Evidence := (ad_Evidence ?d1)\<lparr>dn_TriggeredStops := ?stops\<rparr>\<rparr>"
  obtain denied d3 where t: "trace_stops ?stops ?d2 = (denied, d3)" by fastforce
  have "same_request ?d2 d" by (simp add: same_request_def add_trace_def)
  with trace_stops_same [of ?stops ?d2] t have same: "same_request d3 d" by (simp add: same_request_def)
  have deny: "denied \<longleftrightarrow>
      (\<exists>c \<in> set (sm_StopConditions m). stop_fires lib (aq_Facts request) c \<and> st_Effect c = StopDeny)"
    using trace_stops_fst [of ?stops ?d2] t evaluateStops_effect by auto
  note a = assms [unfolded evaluate_matched_def Let_def t prod.case]
  show ?thesis
  proof (cases denied)
    case True
    with a have "finishDecision lib d3 DecisionDenied ''a mandate stop condition blocks this action''
        ''stop.denied'' = Inr d'" by simp
    from finishDecision_Inr [OF this] same True deny show ?thesis by (simp add: same_request_def)
  next
    case False
    with a have "evaluate_approval lib m request now dg ?stops d3 = Inr d'" by simp
    from evaluate_approval_Inr [OF this] same False deny show ?thesis by (simp add: same_request_def)
  qed
qed

lemma evaluate_digested_Inr:
  assumes "evaluate_digested lib fresh m request now dg md = Inr d"
  shows "ad_Outcome d = planned_outcome lib m request dg now \<and>
    same_request d (first_decision fresh m request now dg md)"
proof -
  let ?fd = "first_decision fresh m request now dg md"
  let ?matched = "matchingScopeIDs (sm_Scopes m) request"
  have denied: "ad_Outcome d = DecisionDenied \<and> same_request d ?fd"
    if "finishDecision lib ?fd DecisionDenied reason code = Inr d" for reason code
    using finishDecision_Inr [OF that] by simp
  consider (outside) "\<not> (sm_Status m = MandateActive \<and> (\<forall>t. sm_ExpiresAt m = Some t \<longrightarrow> now < t) \<and>
       aq_RequestedAt request \<le> now + 5 * 60 * 10 ^ 9 \<and> aq_RequestedAutonomy request \<le> sm_AutonomyCeiling m \<and>
       (\<exists>scope \<in> set (sm_Scopes m). scope_permits scope request))"
    | (inside) "sm_Status m = MandateActive" "\<forall>t. sm_ExpiresAt m = Some t \<longrightarrow> now < t"
       "aq_RequestedAt request \<le> now + 5 * 60 * 10 ^ 9" "aq_RequestedAutonomy request \<le> sm_AutonomyCeiling m"
       "\<exists>scope \<in> set (sm_Scopes m). scope_permits scope request" by blast
  then show ?thesis
  proof cases
    case outside
    then have "\<not> within_mandate lib m request now" by (auto simp: within_mandate_def)
    then have p: "planned_outcome lib m request dg now = DecisionDenied" by (simp add: planned_outcome_def)
    note a = assms [unfolded evaluate_digested_def Let_def matchingScopeIDs_empty]
    from outside a have "\<exists>reason code. finishDecision lib ?fd DecisionDenied reason code = Inr d"
      by (auto split: if_splits option.splits)
    with p denied show ?thesis by auto
  next
    case inside
    have "?matched \<noteq> []" unfolding matchingScopeIDs_empty using inside(5) by simp
    then have "evaluate_matched lib m request now dg ?matched ?fd = Inr d"
      using assms inside(1-4) by (auto simp: evaluate_digested_def Let_def split: option.splits)
    from evaluate_matched_Inr [OF this] inside show ?thesis
      by (auto simp: planned_outcome_def within_mandate_def)
  qed
qed

lemma evaluate_Inr:
  assumes "evaluate lib fresh m request now = Inr d"
  obtains dg md where "ml_hash_request lib (normalizedActionRequest request) = Some dg"
    "ml_hash_mandate lib (normalizedMandate m) = Some md"
    "ad_Outcome d = planned_outcome lib m request dg now"
    "same_request d (first_decision fresh m request now dg md)"
  using assms evaluate_digested_Inr by (auto simp: evaluate_def split: option.splits)

section \<open>The order of the facts\<close>

definition clear_facts :: "(string \<times> string) list \<Rightarrow> bool" where
  "clear_facts facts \<longleftrightarrow> distinct (map (\<lambda>f. normalize_text (fst f)) facts)"

lemma factValue_map_of: "factValue facts k = map_of (map (\<lambda>(c, v). (normalize_text c, v)) facts) (normalize_text k)"
  by (induction facts) auto

lemma cloneNormalizedMap_clear:
  assumes "clear_facts facts"
  shows "cloneNormalizedMap facts = sort_key fst (map (\<lambda>(c, v). (normalize_text c, TrimSpace v)) facts)"
proof -
  have upd: "AList.update k v m = m @ [(k, v)]" if "k \<notin> fst ` set m" for k and v :: string and m
    using that by (induction m) auto
  have "fold (\<lambda>(k, v) m. AList.update (normalize_text k) (TrimSpace v) m) facts m =
      m @ map (\<lambda>(c, v). (normalize_text c, TrimSpace v)) facts"
    if "clear_facts facts" "\<forall>f \<in> set facts. normalize_text (fst f) \<notin> fst ` set m" for m
    using that
  proof (induction facts arbitrary: m)
    case (Cons f facts)
    obtain a b where f: "f = (a, b)" by (cases f)
    have "clear_facts facts" using Cons.prems(1) by (simp add: clear_facts_def f)
    moreover have "\<forall>f \<in> set facts. normalize_text (fst f) \<notin> fst ` set (m @ [(normalize_text a, TrimSpace b)])"
      using Cons.prems by (auto simp: clear_facts_def f image_iff)
    moreover have "normalize_text a \<notin> fst ` set m" using Cons.prems(2) by (simp add: f)
    ultimately show ?case using Cons.IH [of "m @ [(normalize_text a, TrimSpace b)]"] by (simp add: f upd)
  qed simp
  with assms show ?thesis by (simp add: cloneNormalizedMap_def)
qed

lemma clear_facts_order:
  assumes "clear_facts facts" "clear_facts facts'" "set facts = set facts'"
  shows "factValue facts k = factValue facts' k" and "cloneNormalizedMap facts = cloneNormalizedMap facts'"
proof -
  let ?n = "map (\<lambda>(c, v). (normalize_text c, v))" and ?t = "map (\<lambda>(c, v). (normalize_text c, TrimSpace v))"
  have keys: "map fst (?n l) = map (\<lambda>f. normalize_text (fst f)) l" "map fst (?t l) = map (\<lambda>f. normalize_text (fst f)) l" for l
    by (induction l) auto
  have d: "distinct (map fst (?n facts)) = True" "distinct (map fst (?n facts')) = True"
    "distinct (map fst (?t facts)) = True" "distinct (map fst (?t facts')) = True"
    unfolding keys using assms(1,2) by (simp_all add: clear_facts_def)
  have "map_of (?n facts) = map_of (?n facts')"
    by (rule map_of_inject_set [THEN iffD2]) (simp_all only: d, simp add: assms(3))
  then show "factValue facts k = factValue facts' k" by (simp add: factValue_map_of)
  show "cloneNormalizedMap facts = cloneNormalizedMap facts'"
    unfolding cloneNormalizedMap_clear [OF assms(1)] cloneNormalizedMap_clear [OF assms(2)]
    by (rule sort_key_fst_cong) (simp_all only: d, simp add: assms(3))
qed

text \<open>Facts that answer every lookup alike give the same decision.\<close>

lemma evaluate_facts_cong:
  assumes "\<And>k. factValue facts k = factValue facts' k" and "cloneNormalizedMap facts = cloneNormalizedMap facts'"
  shows "evaluate lib fresh m (request\<lparr>aq_Facts := facts\<rparr>) now = evaluate lib fresh m (request\<lparr>aq_Facts := facts'\<rparr>) now"
proof -
  have "stop_of lib facts c = stop_of lib facts' c" for c by (simp add: stop_of_eq stop_fires_def assms(1))
  then have stops: "evaluateStops lib cs facts = evaluateStops lib cs facts'" for cs
    by (simp add: evaluateStops_def cong: map_cong)
  have norm: "normalizedActionRequest (request\<lparr>aq_Facts := facts\<rparr>) = normalizedActionRequest (request\<lparr>aq_Facts := facts'\<rparr>)"
    by (simp add: normalizedActionRequest_def assms(2))
  have res: "resourceMatches rs (request\<lparr>aq_Facts := f\<rparr>) = resourceMatches rs request" for rs f
    by (induction rs) simp_all
  have match: "matchingScopeIDs scopes (request\<lparr>aq_Facts := f\<rparr>) = matchingScopeIDs scopes request" for scopes f
    by (simp add: matchingScopeIDs_def scopeMatches_def res)
  have fields: "aq_Approval (request\<lparr>aq_Facts := f\<rparr>) = aq_Approval request"
    "aq_RequestedAutonomy (request\<lparr>aq_Facts := f\<rparr>) = aq_RequestedAutonomy request"
    "aq_Risk (request\<lparr>aq_Facts := f\<rparr>) = aq_Risk request"
    "aq_Action (request\<lparr>aq_Facts := f\<rparr>) = aq_Action request"
    "aq_RequestedAt (request\<lparr>aq_Facts := f\<rparr>) = aq_RequestedAt request"
    "aq_Facts (request\<lparr>aq_Facts := f\<rparr>) = f"
    "aq_UpstreamApprovalRequired (request\<lparr>aq_Facts := f\<rparr>) = aq_UpstreamApprovalRequired request" for f
    by simp_all
  have app: "evaluate_approval lib m (request\<lparr>aq_Facts := f\<rparr>) now dg st d = evaluate_approval lib m request now dg st d" for f dg st d
    unfolding evaluate_approval_def approvalRequiredByPolicy_def approvalProblem_def fields ..
  have first: "first_decision fresh m (request\<lparr>aq_Facts := f\<rparr>) now dg md = first_decision fresh m request now dg md" for f dg md
    by (simp add: first_decision_def)
  show ?thesis
    unfolding evaluate_def norm evaluate_digested_def evaluate_matched_def match first app fields
      ActionRequest.simps stops ..
qed

end
