(* ===== verification/MandateRun.thy ===== *)
theory MandateRun
  imports MandateFacts
begin

text \<open>
  Runs of the mandate service. The locale \<open>guarded_store\<close> is the contract of a store whose writes name the
  version they replace; it is interpreted on the mandate store. Clients that keep stale copies
  (\<open>client_step\<close>) make only the atomic changes of \<open>mandate_step\<close>, and a later record of a mandate
  \<open>follows\<close> an earlier one: the same authority, a later revision, a status further on.
\<close>

section \<open>Guarded writes\<close>

locale guarded_store =
  fixes lookup :: "'r \<Rightarrow> 'k \<Rightarrow> 'v option" and write_if :: "'r \<Rightarrow> 'v \<Rightarrow> 'n \<Rightarrow> 'r option"
    and key_of :: "'v \<Rightarrow> 'k" and version_of :: "'v \<Rightarrow> 'n"
  assumes guard: "write_if r v n = Some r' \<Longrightarrow> \<exists>cur. lookup r (key_of v) = Some cur \<and> version_of cur = n"
    and effect: "write_if r v n = Some r' \<Longrightarrow> lookup r' k = (if k = key_of v then Some v else lookup r k)"
begin

text \<open>A write made from a copy succeeds only if the copy is what is stored, once a version identifies it.\<close>

lemma copy_is_current:
  assumes "write_if r v (version_of m) = Some r'" and "key_of v = key_of m"
    and "\<And>cur. lookup r (key_of m) = Some cur \<Longrightarrow> version_of cur = version_of m \<Longrightarrow> cur = m"
  shows "lookup r (key_of m) = Some m"
  using guard [OF assms(1)] assms(2,3) by auto

text \<open>A relation between a record and its replacement extends to the whole store.\<close>

lemma write_related:
  assumes "write_if r v n = Some r'" and "lookup r (key_of v) = Some m" and "R m v" and "\<And>x. R x x"
    and "lookup r k = Some c"
  shows "\<exists>c'. lookup r' k = Some c' \<and> R c c'"
  using effect [OF assms(1), of k] assms(2-) by (cases "k = key_of v") auto

end

definition ms_lookup :: "MandateStore \<Rightarrow> uuid \<Rightarrow> StandingMandate option" where
  "ms_lookup r = map_of (ms_records r)"

definition ms_write :: "MandateStore \<Rightarrow> StandingMandate \<Rightarrow> 64 word \<Rightarrow> MandateStore option" where
  "ms_write r m n = (case Update_mandate r m n of Inl _ \<Rightarrow> None | Inr r' \<Rightarrow> Some r')"

lemma Update_mandate_Inr: "Update_mandate r m n = Inr r' \<longleftrightarrow>
    (\<exists>cur. ms_lookup r (sm_ID m) = Some cur \<and> sm_OwnerIdentity cur = sm_OwnerIdentity m \<and> sm_Revision cur = n) \<and>
    r' = r\<lparr>ms_records := AList.update (sm_ID m) m (ms_records r)\<rparr>"
  by (auto simp: Update_mandate_def ms_lookup_def split: option.splits)

interpretation mandates: guarded_store ms_lookup ms_write sm_ID sm_Revision
  by unfold_locales
    (auto simp: ms_write_def Update_mandate_Inr ms_lookup_def update_conv' split: sum.splits)

lemma ms_write_iff: "ms_write r m n = Some r' \<longleftrightarrow> Update_mandate r m n = Inr r'"
  by (simp add: ms_write_def split: sum.splits)

section \<open>Later records of a mandate\<close>

definition same_authority :: "StandingMandate \<Rightarrow> StandingMandate \<Rightarrow> bool" where
  "same_authority m m' \<longleftrightarrow> sm_ID m' = sm_ID m \<and> sm_OwnerIdentity m' = sm_OwnerIdentity m \<and>
     sm_Scopes m' = sm_Scopes m \<and> sm_AutonomyCeiling m' = sm_AutonomyCeiling m \<and>
     sm_ApprovalPolicy m' = sm_ApprovalPolicy m \<and> sm_StopConditions m' = sm_StopConditions m \<and>
     sm_ExpiresAt m' = sm_ExpiresAt m"

definition follows :: "StandingMandate \<Rightarrow> StandingMandate \<Rightarrow> bool" where
  "follows m m' \<longleftrightarrow> same_authority m m' \<and> uint (sm_Revision m) \<le> uint (sm_Revision m') \<and>
     (sm_Revision m = sm_Revision m' \<longrightarrow> m' = m) \<and> (sm_Status m = MandateRevoked \<longrightarrow> m' = m) \<and>
     (sm_Status m' = MandateDraft \<longrightarrow> m' = m) \<and> sm_UpdatedAt m \<le> sm_UpdatedAt m'"

lemma follows_refl: "follows m m"
  by (simp add: follows_def same_authority_def)

lemma follows_trans:
  assumes "follows a b" and "follows b c"
  shows "follows a c"
proof -
  note f = assms [unfolded follows_def]
  have "same_authority a c" using conjunct1 [OF f(1)] conjunct1 [OF f(2)] by (simp add: same_authority_def)
  moreover have "uint (sm_Revision a) \<le> uint (sm_Revision c)" "sm_UpdatedAt a \<le> sm_UpdatedAt c"
    using f by (blast intro: order_trans)+
  moreover have "sm_Revision a = sm_Revision c \<longrightarrow> c = a"
  proof
    assume eq: "sm_Revision a = sm_Revision c"
    from f have "uint (sm_Revision a) \<le> uint (sm_Revision b)" "uint (sm_Revision b) \<le> uint (sm_Revision c)"
      by blast+
    then have "uint (sm_Revision a) = uint (sm_Revision b)" unfolding eq by (rule order_antisym)
    then have "sm_Revision a = sm_Revision b" by (simp only: word_uint_eq_iff)
    then show "c = a" using f eq by metis
  qed
  moreover have "sm_Status a = MandateRevoked \<longrightarrow> c = a" "sm_Status c = MandateDraft \<longrightarrow> c = a"
    using f by blast+
  ultimately show ?thesis unfolding follows_def by blast
qed

text \<open>The revision counts the status changes, so it never wraps.\<close>

definition mandate_ok :: "StandingMandate \<Rightarrow> bool" where
  "mandate_ok m \<longleftrightarrow>
     sm_Status m = MandateDraft \<and> sm_Revision m = 1 \<and> sm_ActivatedAt m = None \<or>
     sm_Status m = MandateActive \<and> sm_Revision m = 2 \<and> sm_ActivatedAt m \<noteq> None \<or>
     sm_Status m = MandateRevoked \<and> sm_Revision m = (if sm_ActivatedAt m = None then 2 else 3)"

definition store_ok :: "MandateStore \<Rightarrow> bool" where
  "store_ok r \<longleftrightarrow> (\<forall>k m. ms_lookup r k = Some m \<longrightarrow> sm_ID m = k \<and> mandate_ok m)"

lemma monotonicTime_le: "previous \<le> monotonicTime now previous"
  by (simp add: monotonicTime_def)

lemma activated_Inr:
  assumes "activated m e clock = Inr m'" and "mandate_ok m"
  shows "e = sm_Revision m" "follows m m'" "mandate_ok m'" "sm_Status m' = MandateActive"
  using assms monotonicTime_le [of "sm_UpdatedAt m" clock]
  by (auto simp: activated_def Let_def follows_def same_authority_def mandate_ok_def split: if_splits)

lemma revoked_Inr:
  assumes "revoked m e clock by_whom why = Inr m'" and "mandate_ok m"
  shows "e = sm_Revision m" "follows m m'" "mandate_ok m'" "sm_Status m' = MandateRevoked"
  using assms monotonicTime_le [of "sm_UpdatedAt m" clock]
  by (auto simp: revoked_def Let_def follows_def same_authority_def mandate_ok_def split: if_splits)

section \<open>Atomic runs\<close>

inductive mandate_step :: "MandateLib \<Rightarrow> MandateStore \<Rightarrow> MandateStore \<Rightarrow> bool" for lib where
  create: "Create_svc lib r now fresh request = Inr (m, r') \<Longrightarrow> mandate_step lib r r'"
| activate: "Activate r clock owner k e = Inr (m, r') \<Longrightarrow> mandate_step lib r r'"
| revoke: "Revoke r clock owner k e by_whom why = Inr (m, r') \<Longrightarrow> mandate_step lib r r'"
| decide: "CreateDecision r d = Inr r' \<Longrightarrow> mandate_step lib r r'"

definition later :: "MandateStore \<Rightarrow> MandateStore \<Rightarrow> bool" where
  "later r r' \<longleftrightarrow> (\<forall>k m. ms_lookup r k = Some m \<longrightarrow> (\<exists>m'. ms_lookup r' k = Some m' \<and> follows m m'))"

lemma later_refl: "later r r"
  using follows_refl by (auto simp: later_def)

lemma later_trans: "later r r' \<Longrightarrow> later r' r'' \<Longrightarrow> later r r''"
  unfolding later_def using follows_trans by meson

lemma Get_mandate_Inr: "Get_mandate r owner k = Inr m \<longleftrightarrow> ms_lookup r k = Some m \<and> sm_OwnerIdentity m = owner"
  by (auto simp: Get_mandate_def ms_lookup_def split: option.splits)

text \<open>A guarded write of a successor of what is stored.\<close>

lemma successor_written:
  assumes "store_ok r" and "ms_lookup r (sm_ID m) = Some m" and "follows m m'" and "mandate_ok m'"
    and "Update_mandate r m' e = Inr r'"
  shows "store_ok r' \<and> later r r'"
proof -
  note w = assms(5) [folded ms_write_iff]
  from assms(3) have key: "sm_ID m' = sm_ID m" by (simp add: follows_def same_authority_def)
  have "store_ok r'"
    using assms(1,4) by (auto simp: store_ok_def mandates.effect [OF w])
  moreover have "later r r'"
    unfolding later_def
  proof (intro allI impI)
    fix k c assume "ms_lookup r k = Some c"
    then show "\<exists>c'. ms_lookup r' k = Some c' \<and> follows c c'"
      by (rule mandates.write_related [OF w assms(2) [folded key] assms(3) follows_refl])
  qed
  ultimately show ?thesis ..
qed

lemma CreateDecision_lookup: "CreateDecision r d = Inr r' \<Longrightarrow> ms_lookup r' = ms_lookup r"
  by (auto simp: CreateDecision_def ms_lookup_def split: if_splits)

lemma Create_svc_written:
  assumes "store_ok r" and "Create_svc lib r now fresh request = Inr (m, r')"
  shows "store_ok r' \<and> later r r'"
proof -
  from assms(2) have none: "ms_lookup r fresh = None"
    and m: "m = new_mandate request now fresh"
    and r': "r' = r\<lparr>ms_records := AList.update fresh m (ms_records r)\<rparr>"
    by (auto simp: Create_svc_def Create_mandate_def and_then_Inr_iff ms_lookup_def new_mandate_def
        split: option.splits)
  have look: "ms_lookup r' k = (if k = fresh then Some m else ms_lookup r k)" for k
    unfolding r' by (simp add: ms_lookup_def update_conv')
  have "mandate_ok m" "sm_ID m = fresh" by (simp_all add: m new_mandate_def mandate_ok_def)
  with assms(1) have "store_ok r'" by (auto simp: store_ok_def look)
  moreover have "later r r'" using none follows_refl by (auto simp: later_def look)
  ultimately show ?thesis ..
qed

lemma mandate_step_ok:
  assumes "mandate_step lib r r'" and "store_ok r"
  shows "store_ok r' \<and> later r r'"
  using assms(1)
proof cases
  case (create now fresh request m)
  then show ?thesis by (rule Create_svc_written [OF assms(2)])
next
  case (activate clock owner k e m)
  then obtain cur where cur: "ms_lookup r k = Some cur" and a: "activated cur e clock = Inr m"
    and w: "Update_mandate r m e = Inr r'" by (auto simp: Activate_def and_then_Inr_iff Get_mandate_Inr)
  from cur assms(2) have ok: "sm_ID cur = k" "mandate_ok cur" by (auto simp: store_ok_def)
  from cur ok(1) have "ms_lookup r (sm_ID cur) = Some cur" by simp
  then show ?thesis using successor_written [OF assms(2)] activated_Inr [OF a ok(2)] w by blast
next
  case (revoke clock owner k e by_whom why m)
  then obtain cur where cur: "ms_lookup r k = Some cur"
    and a: "revoked cur e clock (TrimSpace by_whom) (TrimSpace why) = Inr m"
    and w: "Update_mandate r m e = Inr r'"
    by (auto simp: Revoke_def Let_def and_then_Inr_iff Get_mandate_Inr split: if_splits)
  from cur assms(2) have ok: "sm_ID cur = k" "mandate_ok cur" by (auto simp: store_ok_def)
  from cur ok(1) have "ms_lookup r (sm_ID cur) = Some cur" by simp
  then show ?thesis using successor_written [OF assms(2)] revoked_Inr [OF a ok(2)] w by blast
next
  case (decide d)
  then show ?thesis using assms(2) CreateDecision_lookup [OF decide] later_refl [of r]
    by (simp add: store_ok_def later_def)
qed

lemma mandate_steps_ok: "(mandate_step lib)\<^sup>*\<^sup>* r r' \<Longrightarrow> store_ok r \<Longrightarrow> store_ok r' \<and> later r r'"
  by (induction rule: rtranclp_induct) (auto intro: later_refl later_trans dest: mandate_step_ok)

lemma store_ok_init: "store_ok NewMandateStore"
  by (simp add: store_ok_def NewMandateStore_def ms_lookup_def)

text \<open>A revoked mandate is what is stored from then on.\<close>

lemma Revoke_lookup:
  assumes "store_ok r" and "Revoke r clock owner k e by_whom why = Inr (m, r')"
  shows "ms_lookup r' k = Some m" and "sm_Status m = MandateRevoked"
proof -
  from assms(2) obtain old where old: "ms_lookup r k = Some old"
    and m: "revoked old e clock (TrimSpace by_whom) (TrimSpace why) = Inr m" and u: "Update_mandate r m e = Inr r'"
    by (auto simp: Revoke_def Let_def and_then_Inr_iff Get_mandate_Inr split: if_splits)
  from old assms(1) have ok: "sm_ID old = k" "mandate_ok old" by (auto simp: store_ok_def)
  with revoked_Inr [OF m ok(2)] show "ms_lookup r' k = Some m" "sm_Status m = MandateRevoked"
    using mandates.effect [OF u [folded ms_write_iff]] by (auto simp: follows_def same_authority_def)
qed

lemma revoked_stays: "later r r' \<Longrightarrow> ms_lookup r k = Some m \<Longrightarrow> sm_Status m = MandateRevoked \<Longrightarrow> ms_lookup r' k = Some m"
  by (auto simp: later_def follows_def)

section \<open>Clients with copies\<close>

text \<open>
  A client reads a mandate and keeps the copy; later it writes the changed copy, or stores a decision it
  made from a copy. Other clients act in between.
\<close>

inductive client_step ::
  "MandateLib \<Rightarrow> MandateStore \<times> StandingMandate set \<Rightarrow> MandateStore \<times> StandingMandate set \<Rightarrow> bool" for lib where
  create: "Create_svc lib r now fresh request = Inr (m, r') \<Longrightarrow> client_step lib (r, seen) (r', seen)"
| read: "Get_mandate r (TrimSpace owner) k = Inr m \<Longrightarrow> client_step lib (r, seen) (r, insert m seen)"
| activate: "m \<in> seen \<Longrightarrow> activated m e clock = Inr m' \<Longrightarrow> Update_mandate r m' e = Inr r' \<Longrightarrow>
     client_step lib (r, seen) (r', seen)"
| revoke: "m \<in> seen \<Longrightarrow> TrimSpace by_whom \<noteq> '''' \<Longrightarrow> TrimSpace why \<noteq> '''' \<Longrightarrow>
     revoked m e clock (TrimSpace by_whom) (TrimSpace why) = Inr m' \<Longrightarrow> Update_mandate r m' e = Inr r' \<Longrightarrow>
     client_step lib (r, seen) (r', seen)"
| decide: "m \<in> seen \<Longrightarrow> evaluate lib fresh m request now = Inr d \<Longrightarrow> CreateDecision r d = Inr r' \<Longrightarrow>
     client_step lib (r, seen) (r', seen)"

definition copies_ok :: "MandateStore \<Rightarrow> StandingMandate set \<Rightarrow> bool" where
  "copies_ok r seen \<longleftrightarrow> (\<forall>m \<in> seen. mandate_ok m \<and> TrimSpace (sm_OwnerIdentity m) = sm_OwnerIdentity m \<and>
     (\<exists>cur. ms_lookup r (sm_ID m) = Some cur \<and> follows m cur))"

lemma copies_later: "copies_ok r seen \<Longrightarrow> later r r' \<Longrightarrow> copies_ok r' seen"
  unfolding copies_ok_def later_def by (meson follows_trans)

text \<open>The guard makes a copy that is written the current record.\<close>

lemma copy_current:
  assumes "store_ok r" "copies_ok r seen" "m \<in> seen" "follows m m'" "Update_mandate r m' (sm_Revision m) = Inr r'"
  shows "ms_lookup r (sm_ID m) = Some m"
proof (rule mandates.copy_is_current [OF assms(5) [folded ms_write_iff]])
  show "sm_ID m' = sm_ID m" using assms(4) by (simp add: follows_def same_authority_def)
  fix cur assume "ms_lookup r (sm_ID m) = Some cur" "sm_Revision cur = sm_Revision m"
  with assms(2,3) show "cur = m" unfolding copies_ok_def follows_def by (metis option.inject)
qed

lemma client_step_atomic:
  assumes "client_step lib (r, seen) (r', seen')" and ok: "store_ok r" "copies_ok r seen"
  shows "(mandate_step lib)\<^sup>*\<^sup>* r r' \<and> copies_ok r' seen'"
proof -
  have one: ?thesis if "mandate_step lib r r'" "seen' = seen"
    using that mandate_step_ok [OF that(1) ok(1)] copies_later [OF ok(2)] by auto
  show ?thesis
    using assms(1)
  proof cases
    case (create now fresh request m)
    then show ?thesis by (intro one mandate_step.create) auto
  next
    case (read owner k m)
    from read ok(1) have look: "ms_lookup r k = Some m" "sm_ID m = k" "mandate_ok m" "sm_OwnerIdentity m = TrimSpace owner"
      by (auto simp: Get_mandate_Inr store_ok_def)
    then show ?thesis using read ok(2) follows_refl by (auto simp: copies_ok_def)
  next
    case (activate m e clock m')
    with ok have m: "mandate_ok m" "TrimSpace (sm_OwnerIdentity m) = sm_OwnerIdentity m" by (auto simp: copies_ok_def)
    note a = activated_Inr [OF activate(3) m(1)]
    from copy_current [OF ok activate(2) a(2)] activate(4) a(1) have "ms_lookup r (sm_ID m) = Some m" by simp
    then have "Activate r clock (sm_OwnerIdentity m) (sm_ID m) e = Inr (m', r')"
      using activate(3,4) m(2) by (simp add: Activate_def Get_mandate_Inr and_then_Inr_iff)
    then show ?thesis using activate by (intro one mandate_step.activate)
  next
    case (revoke m by_whom why e clock m')
    with ok have m: "mandate_ok m" "TrimSpace (sm_OwnerIdentity m) = sm_OwnerIdentity m" by (auto simp: copies_ok_def)
    note a = revoked_Inr [OF revoke(5) m(1)]
    from copy_current [OF ok revoke(2) a(2)] revoke(6) a(1) have "ms_lookup r (sm_ID m) = Some m" by simp
    then have "Revoke r clock (sm_OwnerIdentity m) (sm_ID m) e by_whom why = Inr (m', r')"
      using revoke m(2) by (simp add: Revoke_def Get_mandate_Inr and_then_Inr_iff)
    then show ?thesis using revoke by (intro one mandate_step.revoke)
  next
    case (decide m fresh request now d)
    then show ?thesis by (intro one mandate_step.decide) auto
  qed
qed

end
