(* ===== verification/MandateTheorems.thy ===== *)
theory MandateTheorems
  imports MandateRun
begin

text \<open>
  The properties of standing mandates: what an authorisation means, that revocation is final, that
  concurrent clients cannot widen an authority, and how facts decide.
\<close>

section \<open>A concrete mandate\<close>

definition demo_parse :: "string \<Rightarrow> float64 option" where
  "demo_parse s = (if s = ''NaN'' then Some NaN else if s = ''100'' then Some (Fin 100)
     else if s = ''5'' then Some (Fin 5) else None)"

definition demo_mlib :: MandateLib where
  "demo_mlib = \<lparr>ml_ParseFloat = demo_parse, ml_hash_request = (\<lambda>q. Some ''ab12''),
     ml_hash_mandate = (\<lambda>m. Some ''cd34''), ml_hash_decision = (\<lambda>p. Some ''ef56'')\<rparr>"

definition demo_scope :: Scope where
  "demo_scope = \<lparr>sp_ID = ''s1'', sp_Actions = [''pay invoice''], sp_Resources = [], sp_Projects = [''home''],
     sp_Domains = [], sp_Tools = [], sp_MaximumRisk = MandateRiskMedium\<rparr>"

definition demo_stop :: StopCondition where
  "demo_stop = \<lparr>st_ID = ''limit'', st_Description = ''amount too high'', st_FactKey = ''amount'',
     st_Operator = StopGreaterOrEqual, st_ExpectedValue = ''100'', st_Required = True, st_Effect = StopDeny\<rparr>"

definition demo_create :: CreateMandateRequest where
  "demo_create = \<lparr>cq_OwnerIdentity = ''owner'', cq_Name = ''Bills'', cq_Purpose = ''small bills'', cq_Version = '''',
     cq_Scopes = [demo_scope], cq_AutonomyCeiling = 4,
     cq_ApprovalPolicy = \<lparr>ap_Mode = ApprovalNever, ap_AutonomyThreshold = 0, ap_RiskLevels = [], ap_Actions = [],
       ap_ApproverRoles = [], ap_MaximumEvidenceAgeSeconds = 0\<rparr>,
     cq_StopConditions = [demo_stop], cq_SourceReferences = [], cq_CreatedBy = ''owner'', cq_ExpiresAt = None\<rparr>"

definition demo_request :: "(string \<times> string) list \<Rightarrow> ActionRequest" where
  "demo_request facts = \<lparr>aq_OwnerIdentity = ''owner'', aq_ActorIdentity = ''agent'', aq_Action = ''Pay invoice'',
     aq_ResourceType = ''invoice'', aq_ResourceID = '''', aq_ProjectKey = ''home'', aq_Domain = '''', aq_ToolID = '''',
     aq_Risk = MandateRiskLow, aq_RequestedAutonomy = 2, aq_UpstreamApprovalRequired = False, aq_Facts = facts,
     aq_Approval = None, aq_SourceReferences = [], aq_RequestedAt = 0\<rparr>"

text \<open>The mandate as it is written, activated and revoked.\<close>

definition demo_written :: StandingMandate where
  "demo_written =
     \<lparr>sm_ID = 7, sm_OwnerIdentity = ''owner'', sm_Name = ''Bills'', sm_Purpose = ''small bills'',
      sm_Status = MandateDraft, sm_Version = ''1.0.0'', sm_Revision = 1, sm_Scopes = [demo_scope],
      sm_AutonomyCeiling = 4, sm_ApprovalPolicy = cq_ApprovalPolicy demo_create,
      sm_StopConditions = [demo_stop], sm_SourceReferences = [], sm_CreatedBy = ''owner'', sm_CreatedAt = 10,
      sm_UpdatedAt = 10, sm_ActivatedAt = None, sm_ExpiresAt = None, sm_RevokedAt = None,
      sm_RevokedBy = '''', sm_RevocationReason = ''''\<rparr>"

definition demo_mandate :: StandingMandate where
  "demo_mandate = demo_written\<lparr>sm_Status := MandateActive, sm_Revision := 2, sm_UpdatedAt := 20,
     sm_ActivatedAt := Some 20\<rparr>"

definition demo_ended :: StandingMandate where
  "demo_ended = demo_mandate\<lparr>sm_Status := MandateRevoked, sm_Revision := 3, sm_UpdatedAt := 30,
     sm_RevokedAt := Some 30, sm_RevokedBy := ''owner'', sm_RevocationReason := ''done with it''\<rparr>"

definition demo_store :: "StandingMandate \<Rightarrow> MandateStore" where
  "demo_store m = \<lparr>ms_records = [(7, m)], ms_decisions = []\<rparr>"

definition demo_created :: MandateStore where "demo_created = demo_store demo_written"

definition demo_active :: MandateStore where "demo_active = demo_store demo_mandate"

definition demo_revoked :: MandateStore where "demo_revoked = demo_store demo_ended"

definition outcome_text :: "MandateError + (AuthorizationDecision \<times> MandateStore) \<Rightarrow> string" where
  "outcome_text res = (case res of Inl _ \<Rightarrow> ''error''
     | Inr (d, _) \<Rightarrow> (case ad_Outcome d of DecisionAuthorized \<Rightarrow> ''authorized'' | DecisionRequiresApproval \<Rightarrow> ''approval''
         | DecisionDenied \<Rightarrow> ''denied''))"

lemma demo_outcomes:
  "outcome_text (Authorize demo_mlib demo_active 40 9 7 (demo_request [(''amount'', ''5'')])) = ''authorized''"
  "outcome_text (Authorize demo_mlib demo_active 40 9 7 (demo_request [(''amount'', ''100'')])) = ''denied''"
  "outcome_text (Authorize demo_mlib demo_active 40 9 7 (demo_request [])) = ''denied''"
  "outcome_text (Authorize demo_mlib demo_active 40 9 7 (demo_request [(''amount'', ''NaN'')])) = ''authorized''"
  "outcome_text (Authorize demo_mlib demo_revoked 40 9 7 (demo_request [(''amount'', ''5'')])) = ''denied''"
  by code_simp+

section \<open>Properties\<close>

text \<open>
  C9. The evaluator decides exactly what the mandate permits: an action is authorised if and only if the
  mandate is active and unexpired, the request is not from the future, its autonomy is within the
  ceiling, some scope permits it, no denying stop condition fires, and where evidence is needed (by the
  caller, the approval policy or a stop condition) valid evidence bound to the digest of this very
  request is present; with everything but the evidence it is sent for approval, otherwise denied. The
  autonomy granted never exceeds the ceiling.
\<close>

theorem evaluate_exact:
  assumes "evaluate lib fresh m request now = Inr d"
  shows "ad_Outcome d =
      (if \<not> within_mandate lib m request now then DecisionDenied
       else if approved lib m request (dn_RequestDigest (ad_Evidence d)) now then DecisionAuthorized
       else DecisionRequiresApproval) \<and>
    ml_hash_request lib (normalizedActionRequest request) = Some (dn_RequestDigest (ad_Evidence d)) \<and>
    dn_MandateRevision (ad_Evidence d) = sm_Revision m \<and>
    ad_EffectiveAutonomy d = min (sm_AutonomyCeiling m) (aq_RequestedAutonomy request)"
  by (rule evaluate_Inr [OF assms]) (simp add: planned_outcome_def same_request_def first_decision_def)

theorem evaluate_exact_witness:
  "within_mandate demo_mlib demo_mandate (demo_request [(''amount'', ''5'')]) 40"
proof -
  let ?e = "evaluate demo_mlib 9 demo_mandate (demo_request [(''amount'', ''5'')]) 40"
  have e: "?e = Inr (projr ?e)" and o: "ad_Outcome (projr ?e) = DecisionAuthorized" by code_simp+
  from evaluate_exact [OF e] o show ?thesis by (metis DecisionOutcome.distinct(3))
qed

lemma client_run:
  assumes "(client_step lib)\<^sup>*\<^sup>* (NewMandateStore, {}) s"
  shows "(mandate_step lib)\<^sup>*\<^sup>* NewMandateStore (fst s) \<and> store_ok (fst s) \<and> copies_ok (fst s) (snd s)"
  using assms
proof (induction rule: rtranclp_induct)
  case base
  then show ?case by (simp add: store_ok_init copies_ok_def)
next
  case (step s s')
  from client_step_atomic [of lib "fst s" "snd s" "fst s'" "snd s'"] step
  have "(mandate_step lib)\<^sup>*\<^sup>* (fst s) (fst s') \<and> copies_ok (fst s') (snd s')" by simp
  with step.IH show ?case using mandate_steps_ok by (meson rtranclp_trans)
qed

text \<open>
  C10. Clients that work on stale copies cannot do more than atomic calls: every interleaving of reads,
  activations, revocations, creations and stored decisions is a run of atomic calls, and whatever copy
  of a mandate a client ever read, the record now stored follows it: the same owner, scopes, ceiling,
  approval policy, stop conditions and expiry, a revision at least as high, unchanged if the revision is
  the same or the mandate was revoked, and never a draft again.
\<close>

theorem clients_refine:
  assumes "(client_step lib)\<^sup>*\<^sup>* (NewMandateStore, {}) (r, seen)"
  shows "(mandate_step lib)\<^sup>*\<^sup>* NewMandateStore r \<and>
    (\<forall>m \<in> seen. \<exists>cur. ms_lookup r (sm_ID m) = Some cur \<and> follows m cur)"
  using client_run [OF assms] by (simp add: copies_ok_def)

lemma demo_client: "(client_step demo_mlib)\<^sup>*\<^sup>* (NewMandateStore, {}) (demo_active, {demo_draft})"
  if "demo_draft = projr (Get_mandate demo_created ''owner'' 7)" for demo_draft
proof -
  have c: "Create_svc demo_mlib NewMandateStore 10 7 demo_create =
      Inr (fst (projr (Create_svc demo_mlib NewMandateStore 10 7 demo_create)), demo_created)" by code_simp
  have g: "Get_mandate demo_created (TrimSpace ''owner'') 7 = Inr demo_draft" unfolding that by code_simp
  have a: "activated demo_draft 1 20 = Inr (fst (projr (Activate demo_created 20 ''owner'' 7 1)))"
    and u: "Update_mandate demo_created (fst (projr (Activate demo_created 20 ''owner'' 7 1))) 1 = Inr demo_active"
    unfolding that by code_simp+
  have "client_step demo_mlib (NewMandateStore, {}) (demo_created, {})" using c by (rule client_step.create)
  moreover have "client_step demo_mlib (demo_created, {}) (demo_created, {demo_draft})"
    using g by (rule client_step.read)
  moreover have "client_step demo_mlib (demo_created, {demo_draft}) (demo_active, {demo_draft})"
    by (rule client_step.activate [OF _ a u]) simp
  ultimately show ?thesis by (meson converse_rtranclp_into_rtranclp rtranclp.rtrancl_refl)
qed

theorem clients_refine_witness:
  "\<exists>cur. ms_lookup demo_active 7 = Some cur \<and> follows (projr (Get_mandate demo_created ''owner'' 7)) cur"
proof -
  let ?m = "projr (Get_mandate demo_created ''owner'' 7)"
  have "sm_ID ?m = 7" by code_simp
  with clients_refine [OF demo_client [OF refl]] show ?thesis by simp
qed

text \<open>
  C11. Revocation is final: once a revocation succeeded, whatever clients did before with whatever copies
  and do afterwards, every later request under the mandate is denied.
\<close>

theorem revocation_final:
  assumes "(client_step lib)\<^sup>*\<^sup>* (NewMandateStore, {}) (r, seen)"
    and "Revoke r clock owner k e by_whom why = Inr (m, r1)"
    and "(client_step lib)\<^sup>*\<^sup>* (r1, seen) (r2, seen2)"
    and "Authorize lib r2 now fresh k request = Inr (d, r3)"
  shows "ad_Outcome d = DecisionDenied"
proof -
  from client_run [OF assms(1)] have ok: "store_ok r" "copies_ok r seen" by simp_all
  have step: "mandate_step lib r r1" using assms(2) by (rule mandate_step.revoke)
  then have ok1: "store_ok r1" "copies_ok r1 seen" using mandate_step_ok ok copies_later by blast+
  have run: "store_ok (fst s) \<and> copies_ok (fst s) (snd s) \<and> later r1 (fst s)"
    if "(client_step lib)\<^sup>*\<^sup>* (r1, seen) s" for s
    using that
  proof (induction rule: rtranclp_induct)
    case base
    then show ?case using ok1 later_refl by simp
  next
    case (step s s')
    from client_step_atomic [of lib "fst s" "snd s" "fst s'" "snd s'"] step
    have "(mandate_step lib)\<^sup>*\<^sup>* (fst s) (fst s') \<and> copies_ok (fst s') (snd s')" by simp
    with step.IH show ?case using mandate_steps_ok later_trans by blast
  qed
  note m = Revoke_lookup [OF ok(1) assms(2)]
  with run [OF assms(3)] have look: "ms_lookup r2 k = Some m" by (auto intro: revoked_stays)
  from assms(4) obtain m' where get: "Get_mandate r2 (TrimSpace (aq_OwnerIdentity (timed_request request now))) k = Inr m'"
    and ev: "evaluate lib fresh m' (timed_request request now) now = Inr d"
    by (auto simp: Authorize_def Let_def and_then_Inr_iff split: option.splits)
  from get look have "m' = m" by (simp add: Get_mandate_Inr)
  with m have out: "\<not> within_mandate lib m' (timed_request request now) now" by (simp add: within_mandate_def)
  from ev obtain dg where "ad_Outcome d = planned_outcome lib m' (timed_request request now) dg now"
    by (rule evaluate_Inr)
  with out show ?thesis by (simp add: planned_outcome_def)
qed

theorem revocation_final_witness:
  "\<exists>d r. Authorize demo_mlib demo_revoked 40 9 7 (demo_request [(''amount'', ''5'')]) = Inr (d, r) \<and>
     ad_Outcome d = DecisionDenied"
proof -
  let ?a = "Authorize demo_mlib demo_revoked 40 9 7 (demo_request [(''amount'', ''5'')])"
  have r: "Revoke demo_active 30 ''owner'' 7 2 ''owner'' ''done with it'' =
      Inr (fst (projr (Revoke demo_active 30 ''owner'' 7 2 ''owner'' ''done with it'')), demo_revoked)" by code_simp
  have a: "?a = Inr (fst (projr ?a), snd (projr ?a))" by code_simp
  from revocation_final [OF demo_client [OF refl] r rtranclp.rtrancl_refl a] a show ?thesis by blast
qed

text \<open>
  Where the normalised names of the facts are distinct, the decision does not depend on the order in
  which the map of facts is ranged over.
\<close>

theorem decision_order_independent:
  assumes "clear_facts facts" and "clear_facts facts'" and "set facts = set facts'"
  shows "evaluate lib fresh m (request\<lparr>aq_Facts := facts\<rparr>) now = evaluate lib fresh m (request\<lparr>aq_Facts := facts'\<rparr>) now"
  by (rule evaluate_facts_cong) (rule clear_facts_order [OF assms])+

theorem decision_order_independent_witness:
  "evaluate demo_mlib 9 demo_mandate ((demo_request [])\<lparr>aq_Facts := [(''amount'', ''5''), (''day'', ''1'')]\<rparr>) 40 =
   evaluate demo_mlib 9 demo_mandate ((demo_request [])\<lparr>aq_Facts := [(''day'', ''1''), (''amount'', ''5'')]\<rparr>) 40"
proof (rule decision_order_independent)
  show "clear_facts [(''amount'', ''5''), (''day'', ''1'')]" "clear_facts [(''day'', ''1''), (''amount'', ''5'')]"
    by code_simp+
qed auto

text \<open>
  Where two names of facts are the same up to case and blanks, the decision depends on the order of
  the map: the same mandate and the same facts are authorised in one order and denied by the mandate's
  stop condition in the other, although Go ranges over a map in a random order.
\<close>

theorem facts_order_decides:
  "\<exists>lib fresh m request facts facts' now d d'. set facts = set facts' \<and> distinct (map fst facts) \<and>
     evaluate lib fresh m (request\<lparr>aq_Facts := facts\<rparr>) now = Inr d \<and>
     evaluate lib fresh m (request\<lparr>aq_Facts := facts'\<rparr>) now = Inr d' \<and>
     ad_Outcome d = DecisionAuthorized \<and> ad_Outcome d' = DecisionDenied"
proof -
  let ?f = "[(''amount'', ''5''), (''Amount'', ''100'')]" and ?f' = "[(''Amount'', ''100''), (''amount'', ''5'')]"
  let ?e = "\<lambda>f. evaluate demo_mlib 9 demo_mandate ((demo_request [])\<lparr>aq_Facts := f\<rparr>) 40"
  have "set ?f = set ?f'" "distinct (map fst ?f)" by auto
  moreover have "?e ?f = Inr (projr (?e ?f))" "?e ?f' = Inr (projr (?e ?f'))"
    "ad_Outcome (projr (?e ?f)) = DecisionAuthorized" "ad_Outcome (projr (?e ?f')) = DecisionDenied"
    by code_simp+
  ultimately show ?thesis by blast
qed

text \<open>
  A fact that parses to NaN passes every numeric stop condition, also a required one that denies:
  \<open>strconv.ParseFloat\<close> accepts the text \<open>NaN\<close> and both comparisons are false of it, while a text that is no
  number makes a required condition fire.
\<close>

theorem nan_passes_stops:
  assumes "ml_ParseFloat lib (TrimSpace v) = Some NaN" and "factValue facts (st_FactKey c) = Some v"
    and "st_Operator c \<in> {StopGreaterOrEqual, StopLessOrEqual}"
    and "ml_ParseFloat lib (TrimSpace (st_ExpectedValue c)) \<noteq> None"
  shows "\<not> stop_fires lib facts c"
proof -
  obtain y where y: "ml_ParseFloat lib (TrimSpace (st_ExpectedValue c)) = Some y" using assms(4) by blast
  have "\<not> float64_le NaN y" "\<not> float64_le y NaN" by (cases y; simp)+
  with assms(1-3) y show ?thesis by (auto simp: stop_fires_def stopMatches_def)
qed

theorem nan_passes_stops_witness: "\<not> stop_fires demo_mlib [(''amount'', ''NaN'')] demo_stop"
proof (rule nan_passes_stops)
  show "ml_ParseFloat demo_mlib (TrimSpace ''NaN'') = Some NaN"
    "factValue [(''amount'', ''NaN'')] (st_FactKey demo_stop) = Some ''NaN''"
    "st_Operator demo_stop \<in> {StopGreaterOrEqual, StopLessOrEqual}"
    "ml_ParseFloat demo_mlib (TrimSpace (st_ExpectedValue demo_stop)) \<noteq> None" by code_simp+
qed

end
