(* ===== verification/TextForms.thy ===== *)
theory TextForms
  imports Prelude
begin

text \<open>
  Text functions of the Go library that execution authorisation uses: runes, bounded
  identifiers, digests, cleaned paths and the texts of an instant. A string is a list of bytes.
\<close>

abbreviation byte :: "char \<Rightarrow> nat" where
  "byte c \<equiv> of_char c"

section \<open>Runes\<close>

text \<open>
  \<open>[]rune(s)\<close> and back: the encodings of the runes of a string. A byte that begins no valid
  encoding is a rune of its own and is written back as U+FFFD.
\<close>

definition continuation :: "char \<Rightarrow> bool" where
  "continuation c \<longleftrightarrow> 0x80 \<le> byte c \<and> byte c \<le> 0xBF"

definition second_of_three :: "char \<Rightarrow> char \<Rightarrow> bool" where
  "second_of_three a b \<longleftrightarrow> (if byte a = 0xE0 then 0xA0 \<le> byte b \<and> byte b \<le> 0xBF
     else if byte a = 0xED then 0x80 \<le> byte b \<and> byte b \<le> 0x9F else continuation b)"

definition second_of_four :: "char \<Rightarrow> char \<Rightarrow> bool" where
  "second_of_four a b \<longleftrightarrow> (if byte a = 0xF0 then 0x90 \<le> byte b \<and> byte b \<le> 0xBF
     else if byte a = 0xF4 then 0x80 \<le> byte b \<and> byte b \<le> 0x8F else continuation b)"

text \<open>The length of the encoding a string starts with, 0 if it starts with none.\<close>

fun encoding_at :: "string \<Rightarrow> nat" where
  "encoding_at [] = 0"
| "encoding_at (a # s) =
     (if byte a < 0x80 then 1
      else if 0xC2 \<le> byte a \<and> byte a \<le> 0xDF then
        (case s of b # t \<Rightarrow> if continuation b then 2 else 0 | [] \<Rightarrow> 0)
      else if 0xE0 \<le> byte a \<and> byte a \<le> 0xEF then
        (case s of b # c # t \<Rightarrow> if second_of_three a b \<and> continuation c then 3 else 0 | _ \<Rightarrow> 0)
      else if 0xF0 \<le> byte a \<and> byte a \<le> 0xF4 then
        (case s of b # c # d # t \<Rightarrow>
           if second_of_four a b \<and> continuation c \<and> continuation d then 4 else 0 | _ \<Rightarrow> 0)
      else 0)"

definition replacement_rune :: string where
  "replacement_rune = [CHR 0xEF, CHR 0xBF, CHR 0xBD]"

function runes :: "string \<Rightarrow> string list" where
  "runes [] = []"
| "runes (c # s) =
     (let n = encoding_at (c # s) in
      if n = 0 then replacement_rune # runes s else take n (c # s) # runes (drop n (c # s)))"
  by pat_completeness auto
termination by (relation "measure length") auto

definition truncate_runes :: "nat \<Rightarrow> string \<Rightarrow> string" where
  "truncate_runes n s = (let rs = runes s in if n < length rs then concat (take n rs) else s)"

section \<open>Identifiers and digests\<close>

definition letter_or_digit :: "char \<Rightarrow> bool" where
  "letter_or_digit c \<longleftrightarrow>
     (65 \<le> byte c \<and> byte c \<le> 90) \<or> (97 \<le> byte c \<and> byte c \<le> 122) \<or> (48 \<le> byte c \<and> byte c \<le> 57)"

text \<open>The regular expression \<open>boundedIdentifier\<close>, and \<open>validateIdentifier\<close>.\<close>

definition boundedIdentifier :: "string \<Rightarrow> bool" where
  "boundedIdentifier s =
     (case s of [] \<Rightarrow> False
      | c # t \<Rightarrow> letter_or_digit c \<and> list_all (\<lambda>x. letter_or_digit x \<or> x \<in> set ''._:/@+-'') t)"

definition identifier_ok :: "string \<Rightarrow> bool" where
  "identifier_ok v \<longleftrightarrow> v \<noteq> '''' \<and> length v \<le> 256 \<and> boundedIdentifier v"

definition exact_digest :: "string \<Rightarrow> bool" where
  "exact_digest v \<longleftrightarrow> length v = 64 \<and> list_all (\<lambda>c. c \<in> set ''0123456789abcdef'') v"

section \<open>Paths\<close>

text \<open>The parts of a string between the bytes \<open>/\<close>.\<close>

fun split_slash :: "string \<Rightarrow> string list" where
  "split_slash [] = [[]]"
| "split_slash (c # s) =
     (if c = CHR ''/'' then [] # split_slash s
      else (case split_slash s of [] \<Rightarrow> [[c]] | p # ps \<Rightarrow> (c # p) # ps))"

definition rooted :: "string \<Rightarrow> bool" where
  "rooted s \<longleftrightarrow> s \<noteq> [] \<and> hd s = CHR ''/''"

text \<open>\<open>filepath.Clean\<close> on a system with forward slashes; \<open>out\<close> is the result so far, reversed.\<close>

fun clean_parts :: "bool \<Rightarrow> string list \<Rightarrow> string list \<Rightarrow> string list" where
  "clean_parts absolute out [] = rev out"
| "clean_parts absolute out (p # ps) =
     (if p = '''' \<or> p = ''.'' then clean_parts absolute out ps
      else if p = ''..'' then
        (case out of
           [] \<Rightarrow> clean_parts absolute (if absolute then [] else [''..'']) ps
         | q # rest \<Rightarrow> clean_parts absolute (if q = ''..'' then ''..'' # out else rest) ps)
      else clean_parts absolute (p # out) ps)"

definition cleaned_parts :: "string \<Rightarrow> string list" where
  "cleaned_parts s = clean_parts (rooted s) [] (split_slash s)"

definition Clean :: "string \<Rightarrow> string" where
  "Clean s =
     (if rooted s then ''/'' @ Join (cleaned_parts s) ''/''
      else if cleaned_parts s = [] then ''.'' else Join (cleaned_parts s) ''/'')"

text \<open>\<open>filepath.Rel\<close>: the elements of the cleaned paths without their common start.\<close>

definition path_elements :: "string \<Rightarrow> string list" where
  "path_elements s =
     (if s = '''' \<or> s = ''/'' then [] else split_slash (if rooted s then tl s else s))"

fun strip_common :: "string list \<Rightarrow> string list \<Rightarrow> string list \<times> string list" where
  "strip_common (b # bs) (t # ts) = (if b = t then strip_common bs ts else (b # bs, t # ts))"
| "strip_common bs ts = (bs, ts)"

definition Rel :: "string \<Rightarrow> string \<Rightarrow> string option" where
  "Rel basepath targpath =
     (let base = Clean basepath; targ = Clean targpath in
      if targ = base then Some ''.''
      else
        (let base = (if base = ''.'' then '''' else base) in
         if rooted base \<noteq> rooted targ then None
         else
           (case strip_common (path_elements base) (path_elements targ) of
              ([], ts) \<Rightarrow> Some (Join ts ''/'')
            | (b # bs, ts) \<Rightarrow>
                if b = ''..'' \<and> ts \<noteq> [] then None
                else Some (Join (replicate (length (b # bs)) ''..'' @ ts) ''/''))))"

section \<open>Texts of numbers and instants\<close>

text \<open>\<open>fmt.Sprintf\<close> of a count with leading zeros.\<close>

definition padded :: "nat \<Rightarrow> nat \<Rightarrow> string" where
  "padded width n = (let s = decimal n in replicate (width - length s) (CHR ''0'') @ s)"

text \<open>\<open>fmt.Sprintf("%.6f")\<close> of a number that is not negative: rounded half to even.\<close>

definition round_half_even :: "rat \<Rightarrow> int" where
  "round_half_even x =
     (let n = \<lfloor>x\<rfloor>; r = x - of_int n in
      if r < 1 / 2 then n else if 1 / 2 < r then n + 1 else if even n then n else n + 1)"

definition six_decimals :: "rat \<Rightarrow> string" where
  "six_decimals x =
     (let n = round_half_even (x * 10 ^ 6) in decimal (nat (n div 10 ^ 6)) @ ''.'' @ padded 6 (nat (n mod 10 ^ 6)))"

text \<open>The hour, the weekday and the date of an instant; Go's zero time is a Monday, 1 January of the year 1.\<close>

definition day_number :: "instant \<Rightarrow> int" where
  "day_number t = t div (24 * 60 * 60 * nanos_per_second)"

definition utc_hour :: "instant \<Rightarrow> nat" where
  "utc_hour t = nat (t div (60 * 60 * nanos_per_second) mod 24)"

definition weekday_name :: "instant \<Rightarrow> string" where
  "weekday_name t =
     [''monday'', ''tuesday'', ''wednesday'', ''thursday'', ''friday'', ''saturday'', ''sunday''] ! nat (day_number t mod 7)"

text \<open>
  The year of a day, by the days of its 400, 100, 4 and 1 year cycles, and the day of that year. The last day of a
  cycle belongs to its last year.
\<close>

definition year_and_day :: "int \<Rightarrow> int \<times> int" where
  "year_and_day d =
     (let n400 = d div 146097; d = d mod 146097;
          n100 = min 3 (d div 36524); d = d - n100 * 36524;
          n4 = d div 1461; d = d mod 1461;
          n1 = min 3 (d div 365); d = d - n1 * 365
      in (400 * n400 + 100 * n100 + 4 * n4 + n1 + 1, d))"

definition leap_year :: "int \<Rightarrow> bool" where
  "leap_year y \<longleftrightarrow> y mod 4 = 0 \<and> (y mod 100 \<noteq> 0 \<or> y mod 400 = 0)"

fun month_and_day :: "int list \<Rightarrow> nat \<Rightarrow> int \<Rightarrow> nat \<times> nat" where
  "month_and_day [] month d = (month, nat (d + 1))"
| "month_and_day (n # ns) month d = (if d < n then (month, nat (d + 1)) else month_and_day ns (month + 1) (d - n))"

definition date_text :: "instant \<Rightarrow> string" where
  "date_text t =
     (let (y, d) = year_and_day (day_number t);
          (m, day) = month_and_day [31, if leap_year y then 29 else 28, 31, 30, 31, 30, 31, 31, 30, 31, 30, 31] 1 d
      in padded 4 (nat y) @ ''-'' @ padded 2 m @ ''-'' @ padded 2 day)"

end
