(* ===== verification/AuthTypes.thy ===== *)
theory AuthTypes
  imports TextForms MandateService
begin

text \<open>
  The data of execution authorisation (\<open>executionauth/types.go\<close>, the parts of \<open>agentregistry/types.go\<close>
  and \<open>sourceevidence/repository.go\<close> it reads, and what it is given by other services).
\<close>

section \<open>Requests\<close>

datatype Outcome = OutcomeAuthorized | OutcomeRequiresApproval | OutcomeDenied

datatype ActorKind = ActorSystem | ActorAgent | ActorHuman | ActorKindOther string

datatype Stage =
    StageDataAccess | StageToolUse | StageExpenditure | StageCommunication | StageCommitment | StageExecution
  | StagePublication | StageDeletion | StagePrivilegeEscalation | StageSelfModification | StageOther string

text \<open>Risk levels are compared and folded as texts.\<close>

type_synonym RiskLevel = string

record Governance =
  gv_TaskPlanID :: string
  gv_TaskPlanDigest :: string
  gv_PreflightDigest :: string
  gv_SelectionID :: string
  gv_CatalogVersion :: string
  gv_SelectorVersion :: string
  gv_TaskRiskLevel :: RiskLevel
  gv_RiskCeiling :: RiskLevel
  gv_MaximumAutonomy :: "int option"
  gv_RequiresApproval :: "bool option"
  gv_CatalogDigest :: string
  gv_PreferenceDigest :: string
  gv_ConstitutionDigest :: string
  gv_ContractDigest :: string
  gv_DomainPackDecisionID :: string
  gv_DomainPackCatalogVersion :: string
  gv_DomainPackCatalogDigest :: string
  gv_DomainPackDecisionDigest :: string
  gv_ResourceDecisionDigest :: string
  gv_ResourceFeasibility :: string
  gv_EvidenceReferences :: "string list"

definition no_governance :: Governance where
  "no_governance =
     \<lparr>gv_TaskPlanID = '''', gv_TaskPlanDigest = '''', gv_PreflightDigest = '''', gv_SelectionID = '''',
      gv_CatalogVersion = '''', gv_SelectorVersion = '''', gv_TaskRiskLevel = '''', gv_RiskCeiling = '''',
      gv_MaximumAutonomy = None, gv_RequiresApproval = None, gv_CatalogDigest = '''', gv_PreferenceDigest = '''',
      gv_ConstitutionDigest = '''', gv_ContractDigest = '''', gv_DomainPackDecisionID = '''',
      gv_DomainPackCatalogVersion = '''', gv_DomainPackCatalogDigest = '''', gv_DomainPackDecisionDigest = '''',
      gv_ResourceDecisionDigest = '''', gv_ResourceFeasibility = '''', gv_EvidenceReferences = []\<rparr>"

record AuthRequest =
  rq_OwnerIdentity :: string
  rq_IdempotencyKey :: string
  rq_ActorIdentity :: string
  rq_ActorKind :: ActorKind
  rq_TaskID :: string
  rq_Action :: string
  rq_Stage :: Stage
  rq_ResourceType :: string
  rq_ResourceID :: string
  rq_ProjectKey :: string
  rq_Domain :: string
  rq_ToolID :: string
  rq_RuntimeID :: string
  rq_DataScopes :: "string list"
  rq_FolderPaths :: "string list"
  rq_RequiredAuthority :: int
  rq_RequestedAutonomy :: int
  rq_Risk :: RiskLevel
  rq_Reversible :: bool
  rq_EstimatedCostEUR :: float64
  rq_MandateID :: string
  rq_AgentID :: string
  rq_AssignmentID :: string
  rq_ApprovalSourceID :: string
  rq_ApprovalBindingDigest :: string
  rq_EffectDigest :: string
  rq_Facts :: "(string \<times> string) list"
  rq_SourceReferences :: "string list"
  rq_Governance :: "Governance option"
  rq_RequestedAt :: instant

section \<open>What other services answer\<close>

record ConstitutionDecision =
  cd_ID :: string
  cd_Version :: int
  cd_Source :: string
  cd_Digest :: string
  cd_AuthorityCeiling :: int
  cd_DeniedCapabilities :: "string list"
  cd_ApprovalRequiredCapabilities :: "string list"

record ResolvedApproval =
  ra_SourceID :: string
  ra_DecisionID :: string
  ra_DecisionDigest :: string
  ra_BindingDigest :: string
  ra_ApprovedBy :: string
  ra_ApproverRoles :: "string list"
  ra_ApprovedAt :: instant
  ra_ExpiresAt :: instant

record EmergencyStop =
  es_Active :: bool
  es_Source :: string
  es_Reason :: string

record FrameworkSelection =
  fs_SelectionID :: string
  fs_TaskPlanID :: string
  fs_CatalogVersion :: string
  fs_SelectorVersion :: string
  fs_TaskRiskLevel :: RiskLevel
  fs_RiskCeiling :: RiskLevel
  fs_MaximumAutonomy :: int
  fs_RequiresApproval :: bool
  fs_CatalogDigest :: string
  fs_PreferenceDigest :: string
  fs_ConstitutionDigest :: string
  fs_ContractDigest :: string

record Preflight =
  pf_OwnerIdentity :: string
  pf_TaskPlanID :: string
  pf_SelectionID :: string
  pf_Digest :: string
  pf_Status :: string
  pf_AssertionsJSON :: string

record Claim =
  cl_RequirementID :: string
  cl_Validator :: string
  cl_ExtractionID :: string
  cl_SourceID :: string
  cl_RawItemID :: string
  cl_SnapshotDigest :: string
  cl_MaxAgeSeconds :: "64 word"

record Assertion =
  sa_RequirementID :: string
  sa_Validator :: string
  sa_Status :: string
  sa_SourceClaims :: "Claim list"

record Snapshot =
  sn_OwnerIdentity :: string
  sn_ExtractionID :: string
  sn_SourceID :: string
  sn_RawItemID :: string
  sn_ProjectKey :: string
  sn_RawProjectKey :: string
  sn_ExtractionURI :: string
  sn_RawItemURI :: string
  sn_ExtractionHash :: string
  sn_RawItemHash :: string
  sn_ExtractionPayloadDigest :: string
  sn_SnapshotDigest :: string
  sn_FetchedAt :: instant
  sn_ExtractionAt :: instant
  sn_Sensitive :: bool
  sn_LocalOnly :: bool
  sn_ConnectorKey :: string

datatype LifecycleState =
  StateRegistered | StateEnabled | StateDraining | StateDisabled | StateQuarantined | StateOther string

datatype HealthStatus = HealthUnknown | HealthHealthy | HealthDegraded | HealthUnhealthy | HealthOther string

record HealthEvidence =
  he_Status :: HealthStatus
  he_Ready :: bool
  he_CheckedAt :: instant
  he_FreshFor :: duration

text \<open>The fields of a registered agent and of an assignment that are read.\<close>

record RegisteredAgent =
  gt_ID :: string
  gt_RuntimeID :: string
  gt_AuthorityCeiling :: int
  gt_AutonomyCeiling :: int
  gt_ToolAllowlist :: "string list"
  gt_DataAllowlist :: "string list"
  gt_FolderAllowlist :: "string list"
  gt_Health :: HealthEvidence
  gt_State :: LifecycleState
  gt_Revision :: "64 word"

record Assignment =
  an_ID :: string
  an_OwnerIdentity :: string
  an_TaskID :: string
  an_AgentID :: string
  an_GrantedAuthority :: int
  an_GrantedAutonomy :: int

section \<open>Receipts\<close>

record ConstitutionEvidence =
  ce_ID :: string
  ce_Version :: int
  ce_Source :: string
  ce_Digest :: string
  ce_RequestedCapabilities :: "string list"
  ce_DeniedCapabilities :: "string list"
  ce_ApprovalRequiredCapabilities :: "string list"
  ce_AuthorityCeiling :: int

record MandateEvidence =
  me_ID :: string
  me_Revision :: "64 word"
  me_RequestDigest :: string
  me_MandateDigest :: string
  me_DecisionID :: string
  me_DecisionDigest :: string
  me_Outcome :: string

record AgentEvidence =
  ae_AgentID :: string
  ae_AgentRevision :: "64 word"
  ae_AssignmentID :: string
  ae_GrantedAuthority :: int
  ae_GrantedAutonomy :: int
  ae_RuntimeID :: string

record WorkloadEvidence =
  we_PolicyID :: string
  we_ActorIdentity :: string
  we_Matched :: bool

record GrantEvidence =
  ge_SourceID :: string
  ge_DecisionID :: string
  ge_DecisionDigest :: string
  ge_ApprovedBy :: string
  ge_ApprovedAt :: instant
  ge_ExpiresAt :: instant

record SelectionEvidence =
  se_SelectionID :: string
  se_SelectorVersion :: string
  se_OwnerScoped :: bool
  se_Verified :: bool

record PreflightEvidence =
  pe_Digest :: string
  pe_OwnerScoped :: bool
  pe_Verified :: bool
  pe_SourceClaimsVerified :: nat
  pe_SourceClaimsDigest :: string

record ReceiptEvidence =
  ev_EmergencyStop :: EmergencyStop
  ev_SystemWorkload :: WorkloadEvidence
  ev_Constitution :: ConstitutionEvidence
  ev_Mandate :: MandateEvidence
  ev_Agent :: AgentEvidence
  ev_Approval :: GrantEvidence
  ev_FrameworkSelection :: SelectionEvidence
  ev_Preflight :: PreflightEvidence
  ev_Governance :: Governance
  ev_ReasonCodes :: "string list"
  ev_Trace :: "string list"

record Receipt =
  rc_ID :: uuid
  rc_ContractVersion :: int
  rc_OwnerIdentity :: string
  rc_IdempotencyKey :: string
  rc_ActorIdentity :: string
  rc_ActorKind :: ActorKind
  rc_TaskID :: string
  rc_Action :: string
  rc_Stage :: Stage
  rc_ResourceType :: string
  rc_ResourceID :: string
  rc_ProjectKey :: string
  rc_Domain :: string
  rc_RuntimeID :: string
  rc_ApprovalSourceID :: string
  rc_EffectDigest :: string
  rc_Outcome :: Outcome
  rc_Reason :: string
  rc_RequestDigest :: string
  rc_DecisionDigest :: string
  rc_RequiredAuthority :: int
  rc_RequestedAutonomy :: int
  rc_EffectiveAutonomy :: int
  rc_Risk :: RiskLevel
  rc_Reversible :: bool
  rc_EstimatedCostEUR :: float64
  rc_NotificationRequired :: bool
  rc_EvaluatedAt :: instant
  rc_Evidence :: ReceiptEvidence

record Consumption =
  cn_ReceiptID :: uuid
  cn_OwnerIdentity :: string
  cn_Consumer :: string
  cn_ExecutionTarget :: string
  cn_ReceiptDigest :: string
  cn_ConsumedAt :: instant

record FinalEffectExercise =
  fx_ReceiptID :: uuid
  fx_OwnerIdentity :: string
  fx_RuntimeID :: string
  fx_TaskID :: string
  fx_Action :: string
  fx_ResourceType :: string
  fx_ResourceID :: string
  fx_ProjectKey :: string
  fx_ApprovalSourceID :: string
  fx_EffectDigest :: string
  fx_AuthorizationRequestDigest :: string
  fx_DecisionDigest :: string
  fx_RuntimeRequestDigest :: string
  fx_ConsumptionTarget :: string
  fx_ExercisedAt :: instant

text \<open>What the agent runtime asks for, and the references it presents (\<open>agentruntime/final_effect_authorization.go\<close>).\<close>

record FinalEffectAuthorizationRequest =
  fr_Operation :: string
  fr_RuntimeID :: string
  fr_TaskID :: string
  fr_OwnerIdentity :: string
  fr_ProjectKey :: string
  fr_PromptDigest :: string
  fr_ApprovalSourceID :: string
  fr_RequiresApproval :: bool

record FinalEffectAuthorizationProof =
  fp_ReceiptID :: string
  fp_AuthorizationRequestDigest :: string
  fp_DecisionDigest :: string
  fp_RuntimeRequestDigest :: string
  fp_RuntimeProof :: string

section \<open>Parameters\<close>

text \<open>
  \<open>safety.RedactSecrets\<close> and \<open>RedactURL\<close> (regular expressions and URL parsing); \<open>uuid.Parse\<close> and
  \<open>UUID.String\<close>; the digests of a request, of a receipt, of claims and of a snapshot (\<open>None\<close> where
  the value cannot be encoded), of bytes and of a final request; \<open>json.Unmarshal\<close> of assertions; the library of the mandates.
\<close>

record AuthLib =
  al_redact :: "string \<Rightarrow> string"
  al_redact_url :: "string \<Rightarrow> string"
  al_parse_uuid :: "string \<Rightarrow> uuid option"
  al_uuid_text :: "uuid \<Rightarrow> string"
  al_hash_request :: "AuthRequest \<Rightarrow> string option"
  al_hash_receipt :: "Receipt \<Rightarrow> string option"
  al_hash_claims :: "Claim list \<Rightarrow> string option"
  al_hash_snapshot :: "Snapshot \<Rightarrow> string"
  al_sha256 :: "string \<Rightarrow> string"
  al_hash_final :: "FinalEffectAuthorizationRequest \<Rightarrow> string"
  al_assertions :: "string \<Rightarrow> Assertion list option"
  al_mandates :: MandateLib

text \<open>
  What the services a call consults answer, the readings of the clocks and the fresh identifiers, in the
  order of the calls. A service that is not installed is \<open>None\<close>; a failed lookup is \<open>None\<close>.
\<close>

record World =
  w_stop :: EmergencyStop
  w_constitution :: "string \<Rightarrow> string list \<Rightarrow> int \<Rightarrow> ConstitutionDecision option"
  w_mandates :: bool
  w_agents :: "((string \<Rightarrow> string \<Rightarrow> RegisteredAgent option) \<times> (string \<Rightarrow> string \<Rightarrow> Assignment option)) option"
  w_approvals :: "(string \<Rightarrow> string \<Rightarrow> string \<Rightarrow> ResolvedApproval option) option"
  w_frameworks :: "(string \<Rightarrow> string \<Rightarrow> FrameworkSelection option) option"
  w_preflights :: "(string \<Rightarrow> string \<Rightarrow> string \<Rightarrow> string \<Rightarrow> Preflight option) option"
  w_sources :: "(string \<Rightarrow> string \<Rightarrow> Snapshot option) option"
  w_now :: instant
  w_now_claims :: instant
  w_now_agent :: instant
  w_now_mandate :: instant
  w_now_approval :: instant
  w_now_consumed :: instant
  w_mandate_now1 :: instant
  w_mandate_now2 :: instant
  w_fresh_receipt :: uuid
  w_fresh_decision1 :: uuid
  w_fresh_decision2 :: uuid

end
