(* ===== verification/AuthValidation.thy ===== *)
theory AuthValidation
  imports AuthTypes
begin

text \<open>
  What execution authorisation accepts: \<open>executionauth/validation.go\<close> and the checks of records in
  \<open>repository_postgres.go\<close>. A map of labelled checks is ranged over in any order; the errors here
  carry no label, so that they do not depend on it.
\<close>

datatype AuthError =
    NotIdentifier | EffectDigestNotExact | GovernanceDigestInvalid | DomainTooLong | ActorKindInvalid | StageInvalid
  | AuthRiskInvalid | ExecutionRiskContractInvalid | RiskBelowTask | RiskAboveCeiling | LevelsOutOfRange
  | AutonomyContractMissing | AutonomyAboveFramework | CostInvalid | AgentIDsRequired | AgentIDsNotAllowed
  | BindingDigestRequired | BindingDigestInvalid
  | TaskPlanDigestRequired | FrameworkDigestsRequired | LegacyContract | ContractsRequired | SelectorUnsupported
  | TaskRiskInvalid | CeilingInvalid | TaskRiskAboveCeiling | MaximumAutonomyOutOfRange
  | DomainPackDigestsRequired | ResourceGovernanceIncomplete | FeasibilityInvalid
  | RequestInFuture | DigestError | ReceiptInvalid | ConsumptionInvalid | ReceiptIDRequired
  | ErrNotFound | ErrIdempotencyConflict | ErrAlreadyConsumed | ErrAlreadyExercised | ErrNotAuthorized
  | ErrFinalEffectMismatch | ErrPolicyUnavailable | ErrAuthorizationChanged string | FinalEffectInvalid
  | NilMandates

definition check :: "bool \<Rightarrow> 'e \<Rightarrow> 'e option" where
  "check bad e = (if bad then Some e else None)"

section \<open>Cleaning\<close>

definition compact :: "AuthLib \<Rightarrow> string \<Rightarrow> string" where
  "compact lib v = Join (Fields (TrimSpace (al_redact lib v))) '' ''"

text \<open>
  The loop of \<open>cleanValues\<close> and \<open>cleanReferences\<close> over values already cleaned by \<open>tidy\<close>: the first of
  equal values (but for case), at most \<open>limit\<close> of them.
\<close>

fun first_values :: "(string \<Rightarrow> string) \<Rightarrow> nat \<Rightarrow> nat \<Rightarrow> string list \<Rightarrow> string list \<Rightarrow> string list \<Rightarrow> string list" where
  "first_values tidy bound maxRunes seen result [] = rev result"
| "first_values tidy bound maxRunes seen result (raw # values) =
     (let v = truncate_runes maxRunes (tidy raw) in
      if tidy raw = '''' \<or> ToLower v \<in> set seen then first_values tidy bound maxRunes seen result values
      else if length result + 1 = bound then rev (v # result)
      else first_values tidy bound maxRunes (ToLower v # seen) (v # result) values)"

definition clean_values :: "AuthLib \<Rightarrow> string list \<Rightarrow> nat \<Rightarrow> nat \<Rightarrow> string list" where
  "clean_values lib values bound maxRunes = sort (first_values (compact lib) bound maxRunes [] [] values)"

definition clean_references :: "AuthLib \<Rightarrow> string list \<Rightarrow> nat \<Rightarrow> nat \<Rightarrow> string list" where
  "clean_references lib values bound maxRunes =
     sort (first_values (\<lambda>v. Join (Fields (TrimSpace (al_redact_url lib v))) '' '') bound maxRunes [] [] values)"

fun first_folders :: "AuthLib \<Rightarrow> string list \<Rightarrow> string list \<Rightarrow> string list \<Rightarrow> string list" where
  "first_folders lib seen result [] = rev result"
| "first_folders lib seen result (raw # values) =
     (let v = Clean (truncate_runes 512 (compact lib raw)) in
      if compact lib raw = '''' \<or> ToLower v \<in> set seen then first_folders lib seen result values
      else first_folders lib (ToLower v # seen) (v # result) values)"

definition clean_folders :: "AuthLib \<Rightarrow> string list \<Rightarrow> string list" where
  "clean_folders lib values = take 32 (sort (first_folders lib [] [] values))"

text \<open>The facts in the order of their keys; a key cleaned to one already stored replaces its value.\<close>

fun clean_facts_from :: "AuthLib \<Rightarrow> (string \<times> string) list \<Rightarrow> (string \<times> string) list \<Rightarrow> (string \<times> string) list" where
  "clean_facts_from lib result [] = result"
| "clean_facts_from lib result ((k, v) # facts) =
     (if length result = 32 then result
      else if compact lib k = '''' \<or> compact lib v = '''' then clean_facts_from lib result facts
      else clean_facts_from lib
        (AList.update (truncate_runes 128 (compact lib k)) (truncate_runes 512 (compact lib v)) result) facts)"

definition clean_facts :: "AuthLib \<Rightarrow> (string \<times> string) list \<Rightarrow> (string \<times> string) list" where
  "clean_facts lib facts = clean_facts_from lib [] (sort_key fst facts)"

section \<open>Governance evidence\<close>

text \<open>\<open>frameworkRiskRank\<close>; a critical risk has no rank.\<close>

definition frameworkRiskRank :: "RiskLevel \<Rightarrow> nat option" where
  "frameworkRiskRank r = (if r = ''low'' then Some 1 else if r = ''medium'' then Some 2
     else if r = ''high'' then Some 3 else None)"

definition selector_v4 :: string where "selector_v4 = ''selector-v4''"
definition selector_v5 :: string where "selector_v5 = ''selector-v5''"

definition framework_present :: "Governance \<Rightarrow> bool" where
  "framework_present g \<longleftrightarrow> gv_SelectionID g \<noteq> '''' \<or> gv_CatalogVersion g \<noteq> '''' \<or> gv_CatalogDigest g \<noteq> '''' \<or>
     gv_SelectorVersion g \<noteq> '''' \<or> gv_TaskRiskLevel g \<noteq> '''' \<or> gv_RiskCeiling g \<noteq> '''' \<or>
     gv_MaximumAutonomy g \<noteq> None \<or> gv_RequiresApproval g \<noteq> None \<or> gv_PreferenceDigest g \<noteq> '''' \<or>
     gv_ConstitutionDigest g \<noteq> '''' \<or> gv_ContractDigest g \<noteq> ''''"

definition domain_pack_present :: "Governance \<Rightarrow> bool" where
  "domain_pack_present g \<longleftrightarrow> gv_DomainPackDecisionID g \<noteq> '''' \<or> gv_DomainPackCatalogVersion g \<noteq> '''' \<or>
     gv_DomainPackCatalogDigest g \<noteq> '''' \<or> gv_DomainPackDecisionDigest g \<noteq> ''''"

definition resource_present :: "Governance \<Rightarrow> bool" where
  "resource_present g \<longleftrightarrow> gv_ResourceDecisionDigest g \<noteq> '''' \<or> gv_ResourceFeasibility g \<noteq> ''''"

definition governanceEvidencePresent :: "Governance \<Rightarrow> bool" where
  "governanceEvidencePresent g \<longleftrightarrow> gv_TaskPlanID g \<noteq> '''' \<or> gv_TaskPlanDigest g \<noteq> '''' \<or> gv_PreflightDigest g \<noteq> '''' \<or>
     framework_present g \<or> domain_pack_present g \<or> resource_present g \<or> gv_EvidenceReferences g \<noteq> []"

definition validateFrameworkRiskContract :: "Governance \<Rightarrow> AuthError option" where
  "validateFrameworkRiskContract g =
     (if gv_SelectorVersion g = '''' \<or> gv_SelectorVersion g = selector_v4
      then check (gv_TaskRiskLevel g \<noteq> '''' \<or> gv_RiskCeiling g \<noteq> '''' \<or>
                  gv_MaximumAutonomy g \<noteq> None \<or> gv_RequiresApproval g \<noteq> None) LegacyContract
      else if gv_SelectorVersion g \<noteq> selector_v5 then Some SelectorUnsupported
      else if gv_TaskRiskLevel g = '''' \<or> gv_RiskCeiling g = '''' \<or>
              gv_MaximumAutonomy g = None \<or> gv_RequiresApproval g = None then Some ContractsRequired
      else
        (case frameworkRiskRank (gv_TaskRiskLevel g) of
           None \<Rightarrow> Some TaskRiskInvalid
         | Some task \<Rightarrow>
             (case frameworkRiskRank (gv_RiskCeiling g) of
                None \<Rightarrow> Some CeilingInvalid
              | Some rank \<Rightarrow> first_error
                  [(rank < task, TaskRiskAboveCeiling),
                   (the (gv_MaximumAutonomy g) < 0 \<or> 10 < the (gv_MaximumAutonomy g), MaximumAutonomyOutOfRange)])))"

definition tidy_governance :: "AuthLib \<Rightarrow> Governance \<Rightarrow> Governance" where
  "tidy_governance lib g = g
     \<lparr>gv_TaskPlanID := compact lib (gv_TaskPlanID g),
      gv_SelectionID := compact lib (gv_SelectionID g),
      gv_CatalogVersion := compact lib (gv_CatalogVersion g),
      gv_SelectorVersion := compact lib (gv_SelectorVersion g),
      gv_TaskRiskLevel := ToLower (compact lib (gv_TaskRiskLevel g)),
      gv_RiskCeiling := ToLower (compact lib (gv_RiskCeiling g)),
      gv_DomainPackDecisionID := compact lib (gv_DomainPackDecisionID g),
      gv_DomainPackCatalogVersion := compact lib (gv_DomainPackCatalogVersion g),
      gv_ResourceFeasibility := compact lib (gv_ResourceFeasibility g),
      gv_EvidenceReferences := clean_references lib (gv_EvidenceReferences g) 32 512\<rparr>"

definition governance_digests :: "Governance \<Rightarrow> string list" where
  "governance_digests g =
     [gv_TaskPlanDigest g, gv_PreflightDigest g, gv_CatalogDigest g, gv_PreferenceDigest g, gv_ConstitutionDigest g,
      gv_ContractDigest g, gv_DomainPackCatalogDigest g, gv_DomainPackDecisionDigest g, gv_ResourceDecisionDigest g]"

definition check_governance :: "Governance \<Rightarrow> AuthError option" where
  "check_governance g = first_problem
     [first_error
        [(\<not> identifier_ok (gv_TaskPlanID g), NotIdentifier), (gv_TaskPlanDigest g = '''', TaskPlanDigestRequired)],
      (if \<not> framework_present g then None else first_problem
         [first_error
            [(\<not> identifier_ok (gv_SelectionID g) \<or> \<not> identifier_ok (gv_CatalogVersion g), NotIdentifier),
             (gv_CatalogDigest g = '''' \<or> gv_PreferenceDigest g = '''' \<or> gv_ConstitutionDigest g = '''' \<or>
                gv_ContractDigest g = '''', FrameworkDigestsRequired),
             (gv_SelectorVersion g \<noteq> '''' \<and> \<not> identifier_ok (gv_SelectorVersion g), NotIdentifier)],
          validateFrameworkRiskContract g]),
      (if \<not> domain_pack_present g then None else first_error
         [(\<not> identifier_ok (gv_DomainPackDecisionID g) \<or> \<not> identifier_ok (gv_DomainPackCatalogVersion g), NotIdentifier),
          (gv_DomainPackCatalogDigest g = '''' \<or> gv_DomainPackDecisionDigest g = '''', DomainPackDigestsRequired)]),
      (if \<not> resource_present g then None else first_error
         [(gv_ResourceDecisionDigest g = '''' \<or> gv_ResourceFeasibility g = '''', ResourceGovernanceIncomplete),
          (gv_ResourceFeasibility g \<notin> {''feasible'', ''feasible_with_approvals'', ''infeasible''}, FeasibilityInvalid)])]"

definition normalizeGovernanceEvidence :: "AuthLib \<Rightarrow> Governance \<Rightarrow> AuthError + Governance" where
  "normalizeGovernanceEvidence lib g =
     (let g = tidy_governance lib g in
      if list_ex (\<lambda>raw. raw \<noteq> ToLower (TrimSpace raw) \<or> (raw \<noteq> '''' \<and> \<not> exact_digest raw)) (governance_digests g)
      then Inl GovernanceDigestInvalid
      else if \<not> governanceEvidencePresent g then Inr no_governance
      else (case check_governance g of Some e \<Rightarrow> Inl e | None \<Rightarrow> Inr g))"

definition validateFrameworkRiskForExecution :: "RiskLevel \<Rightarrow> Governance \<Rightarrow> AuthError option" where
  "validateFrameworkRiskForExecution requestRisk g =
     (if gv_SelectorVersion g \<noteq> selector_v5 then None
      else (case (frameworkRiskRank requestRisk, frameworkRiskRank (gv_TaskRiskLevel g),
                  frameworkRiskRank (gv_RiskCeiling g)) of
              (Some request, Some task, Some rank) \<Rightarrow>
                first_error [(request < task, RiskBelowTask), (rank < request, RiskAboveCeiling)]
            | _ \<Rightarrow> Some ExecutionRiskContractInvalid))"

definition validateFrameworkAutonomyForExecution :: "int \<Rightarrow> Governance \<Rightarrow> AuthError option" where
  "validateFrameworkAutonomyForExecution requestedAutonomy g =
     (if gv_SelectorVersion g \<noteq> selector_v5 then None
      else (case gv_MaximumAutonomy g of
              None \<Rightarrow> Some AutonomyContractMissing
            | Some m \<Rightarrow> check (m < requestedAutonomy) AutonomyAboveFramework))"

section \<open>Requests\<close>

definition Stage_valid :: "Stage \<Rightarrow> bool" where
  "Stage_valid s = (case s of StageOther t \<Rightarrow> False | _ \<Rightarrow> True)"

definition ActorKind_valid :: "ActorKind \<Rightarrow> bool" where
  "ActorKind_valid k = (case k of ActorKindOther t \<Rightarrow> False | _ \<Rightarrow> True)"

definition Risk_valid :: "RiskLevel \<Rightarrow> bool" where
  "Risk_valid r \<longleftrightarrow> r \<in> {''low'', ''medium'', ''high'', ''critical''}"

definition cost_valid :: "float64 \<Rightarrow> bool" where
  "cost_valid c = (case c of Fin x \<Rightarrow> 0 \<le> x \<and> x \<le> 1000000 | _ \<Rightarrow> False)"

definition level_valid :: "int \<Rightarrow> bool" where
  "level_valid n \<longleftrightarrow> 0 \<le> n \<and> n \<le> 10"

definition tidy_request :: "AuthLib \<Rightarrow> AuthRequest \<Rightarrow> AuthRequest" where
  "tidy_request lib q = q
     \<lparr>rq_OwnerIdentity := compact lib (rq_OwnerIdentity q),
      rq_IdempotencyKey := compact lib (rq_IdempotencyKey q),
      rq_ActorIdentity := compact lib (rq_ActorIdentity q),
      rq_TaskID := compact lib (rq_TaskID q),
      rq_Action := compact lib (rq_Action q),
      rq_ResourceType := compact lib (rq_ResourceType q),
      rq_ResourceID := compact lib (rq_ResourceID q),
      rq_ProjectKey := compact lib (rq_ProjectKey q),
      rq_Domain := compact lib (rq_Domain q),
      rq_ToolID := compact lib (rq_ToolID q),
      rq_RuntimeID := compact lib (rq_RuntimeID q),
      rq_MandateID := compact lib (rq_MandateID q),
      rq_AgentID := compact lib (rq_AgentID q),
      rq_AssignmentID := compact lib (rq_AssignmentID q),
      rq_ApprovalSourceID := compact lib (rq_ApprovalSourceID q),
      rq_ApprovalBindingDigest := ToLower (compact lib (rq_ApprovalBindingDigest q)),
      rq_DataScopes := clean_values lib (rq_DataScopes q) 32 256,
      rq_FolderPaths := clean_folders lib (rq_FolderPaths q),
      rq_SourceReferences := clean_references lib (rq_SourceReferences q) 32 512,
      rq_Facts := clean_facts lib (rq_Facts q)\<rparr>"

definition check_request :: "AuthRequest \<Rightarrow> AuthError option" where
  "check_request q = first_problem
     [first_error
        [(\<not> list_all identifier_ok
            [rq_OwnerIdentity q, rq_IdempotencyKey q, rq_ActorIdentity q, rq_TaskID q, rq_Action q, rq_ResourceType q],
          NotIdentifier),
         (64 < length (rq_Domain q), DomainTooLong),
         (\<not> ActorKind_valid (rq_ActorKind q), ActorKindInvalid),
         (\<not> Stage_valid (rq_Stage q), StageInvalid),
         (\<not> Risk_valid (rq_Risk q), AuthRiskInvalid)],
      (case rq_Governance q of None \<Rightarrow> None | Some g \<Rightarrow> validateFrameworkRiskForExecution (rq_Risk q) g),
      check (\<not> level_valid (rq_RequiredAuthority q) \<or> \<not> level_valid (rq_RequestedAutonomy q)) LevelsOutOfRange,
      (case rq_Governance q of None \<Rightarrow> None
       | Some g \<Rightarrow> validateFrameworkAutonomyForExecution (rq_RequestedAutonomy q) g),
      first_error
        [(\<not> cost_valid (rq_EstimatedCostEUR q), CostInvalid),
         (rq_ActorKind q = ActorAgent \<and> (rq_AgentID q = '''' \<or> rq_AssignmentID q = ''''), AgentIDsRequired),
         (rq_ActorKind q \<noteq> ActorAgent \<and> (rq_AgentID q \<noteq> '''' \<or> rq_AssignmentID q \<noteq> ''''), AgentIDsNotAllowed),
         (rq_ApprovalSourceID q \<noteq> '''' \<and> rq_ApprovalBindingDigest q = '''', BindingDigestRequired),
         (rq_ApprovalBindingDigest q \<noteq> '''' \<and> \<not> exact_digest (rq_ApprovalBindingDigest q), BindingDigestInvalid),
         (\<not> exact_digest (rq_EffectDigest q), EffectDigestNotExact)]]"

definition with_governance :: "AuthLib \<Rightarrow> AuthRequest \<Rightarrow> AuthError + AuthRequest" where
  "with_governance lib q =
     (case rq_Governance q of
        None \<Rightarrow> Inr q
      | Some g \<Rightarrow> and_then (normalizeGovernanceEvidence lib g) (\<lambda>g.
          Inr (q\<lparr>rq_Governance := (if governanceEvidencePresent g then Some g else None)\<rparr>)))"

definition normalizeRequest :: "AuthLib \<Rightarrow> AuthRequest \<Rightarrow> AuthError + AuthRequest" where
  "normalizeRequest lib q =
     (if TrimSpace (rq_EffectDigest q) \<noteq> rq_EffectDigest q \<or>
         TrimSpace (rq_EffectDigest q) \<noteq> ToLower (TrimSpace (rq_EffectDigest q))
      then Inl EffectDigestNotExact
      else and_then (with_governance lib (tidy_request lib q)) (\<lambda>q.
        case check_request q of Some e \<Rightarrow> Inl e | None \<Rightarrow> Inr q))"

section \<open>Records\<close>

definition validateReceiptLookup :: "string \<Rightarrow> uuid \<Rightarrow> AuthError option" where
  "validateReceiptLookup owner k = first_error
     [(\<not> identifier_ok (TrimSpace owner), NotIdentifier), (k = uuid_nil, ReceiptIDRequired)]"

definition validateConsumption :: "Consumption \<Rightarrow> AuthError option" where
  "validateConsumption c = first_problem
     [validateReceiptLookup (cn_OwnerIdentity c) (cn_ReceiptID c),
      first_error
        [(\<not> identifier_ok (cn_Consumer c), NotIdentifier),
         (TrimSpace (cn_ExecutionTarget c) = '''' \<or> 1024 < length (TrimSpace (cn_ExecutionTarget c)), ConsumptionInvalid),
         (\<not> exact_digest (cn_ReceiptDigest c), ConsumptionInvalid),
         (cn_ConsumedAt c = 0, ConsumptionInvalid)]]"

definition receipt_ok :: "Receipt \<Rightarrow> bool" where
  "receipt_ok r \<longleftrightarrow>
     rc_ID r \<noteq> uuid_nil \<and> 0 < rc_ContractVersion r \<and>
     list_all identifier_ok
       [rc_OwnerIdentity r, rc_IdempotencyKey r, rc_ActorIdentity r, rc_TaskID r, rc_Action r, rc_ResourceType r] \<and>
     length (rc_ResourceID r) \<le> 256 \<and> ActorKind_valid (rc_ActorKind r) \<and> Stage_valid (rc_Stage r) \<and>
     TrimSpace (rc_Reason r) \<noteq> '''' \<and> length (rc_Reason r) \<le> 4096 \<and>
     exact_digest (rc_RequestDigest r) \<and> exact_digest (rc_DecisionDigest r) \<and> exact_digest (rc_EffectDigest r) \<and>
     length (rc_ProjectKey r) \<le> 256 \<and> length (rc_Domain r) \<le> 64 \<and> length (rc_RuntimeID r) \<le> 256 \<and>
     length (rc_ApprovalSourceID r) \<le> 256 \<and>
     (let source = ge_SourceID (ev_Approval (rc_Evidence r)) in
        (source \<noteq> '''' \<longrightarrow> rc_ApprovalSourceID r = source) \<and>
        (rc_Outcome r = OutcomeAuthorized \<longrightarrow> rc_ApprovalSourceID r = source)) \<and>
     level_valid (rc_RequiredAuthority r) \<and> level_valid (rc_RequestedAutonomy r) \<and>
     level_valid (rc_EffectiveAutonomy r) \<and> Risk_valid (rc_Risk r) \<and> cost_valid (rc_EstimatedCostEUR r) \<and>
     rc_EvaluatedAt r \<noteq> 0"

definition validateReceipt :: "Receipt \<Rightarrow> AuthError option" where
  "validateReceipt r = check (\<not> receipt_ok r) ReceiptInvalid"

end
