(* ===== verification/AuthPolicies.thy ===== *)
theory AuthPolicies
  imports AuthValidation "HOL-Library.Sublist"
begin

text \<open>
  The policy boundaries of execution authorisation, one definition per boundary: the emergency stop
  (\<open>safety/emergency_stop.go\<close>), \<open>system_workload_policy.go\<close>, \<open>framework_selection.go\<close>,
  \<open>framework_evidence_preflight.go\<close> with \<open>sourceevidence.VerifyClaim\<close>, and from \<open>service.go\<close> the agent, the
  capabilities, the approval and the facts handed to a mandate.
\<close>

section \<open>Emergency stop\<close>

text \<open>The variables of the environment, and the persisted control if one is installed (\<open>None\<close>: it failed).\<close>

record StopSources =
  ss_getenv :: "string \<Rightarrow> string"
  ss_provider :: "(bool \<times> string) option option"

definition default_stop_reason :: string where
  "default_stop_reason =
     ''emergency stop is active; autonomous execution is blocked until the stop is cleared''"

definition unavailable_stop_reason :: string where
  "unavailable_stop_reason =
     ''persisted emergency-stop state is unavailable; autonomous execution is blocked until the control plane is healthy''"

definition truthyEnv :: "StopSources \<Rightarrow> string \<Rightarrow> bool" where
  "truthyEnv src name \<longleftrightarrow>
     ToLower (TrimSpace (ss_getenv src name)) \<in> {''1'', ''true'', ''yes'', ''on'', ''enabled''}"

definition environmentEmergencyStopActive :: "StopSources \<Rightarrow> bool" where
  "environmentEmergencyStopActive src \<longleftrightarrow>
     truthyEnv src ''HAI_EMERGENCY_STOP'' \<or> truthyEnv src ''AUTONOMY_EMERGENCY_STOP'' \<or> truthyEnv src ''EMERGENCY_STOP''"

definition or_default :: "string \<Rightarrow> string" where
  "or_default reason = (if TrimSpace reason = '''' then default_stop_reason else TrimSpace reason)"

definition EvaluateEmergencyStop :: "AuthLib \<Rightarrow> StopSources \<Rightarrow> EmergencyStop" where
  "EvaluateEmergencyStop lib src =
     (if environmentEmergencyStopActive src
      then \<lparr>es_Active = True, es_Source = ''environment'',
            es_Reason = al_redact lib (or_default (ss_getenv src ''HAI_EMERGENCY_STOP_REASON''))\<rparr>
      else
        (case ss_provider src of
           None \<Rightarrow> \<lparr>es_Active = False, es_Source = ''none'', es_Reason = default_stop_reason\<rparr>
         | Some None \<Rightarrow>
             \<lparr>es_Active = True, es_Source = ''persisted_control_error'', es_Reason = unavailable_stop_reason\<rparr>
         | Some (Some (engaged, reason)) \<Rightarrow>
             if \<not> engaged
             then \<lparr>es_Active = False, es_Source = ''persisted_control'', es_Reason = default_stop_reason\<rparr>
             else \<lparr>es_Active = True, es_Source = ''persisted_control'',
                   es_Reason = al_redact lib (or_default reason)\<rparr>))"

section \<open>System workloads\<close>

record WorkloadPolicy =
  wp_ID :: string
  wp_ActorIdentity :: string
  wp_Action :: string
  wp_Stage :: Stage
  wp_ResourceType :: string
  wp_ToolID :: string
  wp_RuntimeID :: string
  wp_RequireRuntimeID :: bool
  wp_RequiredAuthority :: int
  wp_RequestedAutonomy :: int
  wp_Risk :: RiskLevel
  wp_Reversible :: bool
  wp_MaximumCostEUR :: float64

definition workload ::
  "string \<Rightarrow> string \<Rightarrow> string \<Rightarrow> Stage \<Rightarrow> string \<Rightarrow> string \<Rightarrow> string \<Rightarrow> bool \<Rightarrow> int \<Rightarrow> int \<Rightarrow> RiskLevel \<Rightarrow> bool \<Rightarrow>
     WorkloadPolicy" where
  "workload policy actor action stage resource tool runtime needs_runtime authority autonomy risk reversible =
     \<lparr>wp_ID = policy, wp_ActorIdentity = actor, wp_Action = action, wp_Stage = stage, wp_ResourceType = resource,
      wp_ToolID = tool, wp_RuntimeID = runtime, wp_RequireRuntimeID = needs_runtime,
      wp_RequiredAuthority = authority, wp_RequestedAutonomy = autonomy, wp_Risk = risk,
      wp_Reversible = reversible, wp_MaximumCostEUR = Fin 0\<rparr>"

definition AgentRuntimeExecuteAction :: string where
  "AgentRuntimeExecuteAction = ''agent-runtime.execute-task''"

definition AgentRuntimeResourceType :: string where
  "AgentRuntimeResourceType = ''agent-runtime-task''"

definition builtInSystemWorkloadPolicies :: "WorkloadPolicy list" where
  "builtInSystemWorkloadPolicies =
     [workload ''phase2-local-safe-worker-v1'' ''system:phase2-safe-worker'' ''executionbroker.local-safe-worker.write''
        StageExecution ''executionbroker.final-effect'' ''phase2-local-safe-worker'' ''hai-local-safe-worker'' False
        1 8 ''low'' True,
      workload ''task-agent-runtime-v1'' ''hai-task-engine'' AgentRuntimeExecuteAction
        StageExecution AgentRuntimeResourceType ''automation-agent-runtime'' '''' True 6 6 ''high'' False,
      workload ''task-automation-api-read-autonomous-v1'' ''hai-task-engine'' ''automation.api.read''
        StageDataAccess ''automation'' ''automation-api-client'' '''' False 8 8 ''low'' True,
      workload ''task-automation-api-read-approved-v1'' ''hai-task-engine'' ''automation.api.read''
        StageDataAccess ''automation'' ''automation-api-client'' '''' False 6 6 ''low'' True,
      workload ''task-automation-api-mutate-v1'' ''hai-task-engine'' ''automation.api.mutate''
        StageCommitment ''automation'' ''automation-api-client'' '''' False 6 6 ''high'' False,
      workload ''task-automation-script-v1'' ''hai-task-engine'' ''automation.script.execute''
        StageExecution ''automation'' ''automation-script-runner'' '''' False 6 6 ''high'' False,
      workload ''task-automation-docker-v1'' ''hai-task-engine'' ''automation.docker.start''
        StageExecution ''automation'' ''automation-docker-client'' '''' False 6 6 ''high'' True,
      workload ''local-model-maintenance-v1'' ''hai:model-maintenance'' ''llm.model.pull''
        StageToolUse ''llm-model'' '''' '''' True 4 8 ''low'' True]"

text \<open>Go's \<open>>\<close> on numbers, false as soon as one side is NaN.\<close>

definition float64_gt :: "float64 \<Rightarrow> float64 \<Rightarrow> bool" where
  "float64_gt x y \<longleftrightarrow> float64_le y x \<and> \<not> float64_le x y"

definition effect_matches :: "WorkloadPolicy \<Rightarrow> AuthRequest \<Rightarrow> bool" where
  "effect_matches p q \<longleftrightarrow>
     \<not> (rq_Action q \<noteq> wp_Action p \<or> rq_Stage q \<noteq> wp_Stage p \<or> rq_ResourceType q \<noteq> wp_ResourceType p \<or>
        (wp_ToolID p \<noteq> '''' \<and> rq_ToolID q \<noteq> wp_ToolID p) \<or>
        (wp_RuntimeID p \<noteq> '''' \<and> rq_RuntimeID q \<noteq> wp_RuntimeID p) \<or>
        (wp_RequireRuntimeID p \<and> rq_RuntimeID q = ''''))"

definition classification_matches :: "WorkloadPolicy \<Rightarrow> AuthRequest \<Rightarrow> bool" where
  "classification_matches p q \<longleftrightarrow>
     \<not> (rq_RequiredAuthority q \<noteq> wp_RequiredAuthority p \<or> rq_RequestedAutonomy q \<noteq> wp_RequestedAutonomy p \<or>
        rq_Risk q \<noteq> wp_Risk p \<or> rq_Reversible q \<noteq> wp_Reversible p \<or>
        float64_gt (rq_EstimatedCostEUR q) (wp_MaximumCostEUR p))"

text \<open>The loop over the policies: whether the actor and the effect are registered, and the first that matches.\<close>

fun scan_policies ::
  "AuthRequest \<Rightarrow> bool \<Rightarrow> bool \<Rightarrow> WorkloadPolicy list \<Rightarrow> bool \<times> bool \<times> WorkloadPolicy option" where
  "scan_policies q actor effect [] = (actor, effect, None)"
| "scan_policies q actor effect (p # ps) =
     (if wp_ActorIdentity p \<noteq> rq_ActorIdentity q then scan_policies q actor effect ps
      else if \<not> effect_matches p q then scan_policies q True effect ps
      else if \<not> classification_matches p q then scan_policies q True True ps
      else (True, True, Some p))"

definition evaluateSystemWorkload :: "AuthRequest \<Rightarrow> WorkloadEvidence \<times> string option" where
  "evaluateSystemWorkload q =
     (let evidence = \<lparr>we_PolicyID = '''', we_ActorIdentity = rq_ActorIdentity q, we_Matched = False\<rparr>;
          (actor, effect, policy) = scan_policies q False False builtInSystemWorkloadPolicies in
      if \<not> actor then (evidence, Some ''system actor is not registered as an executable workload'')
      else if \<not> effect
      then (evidence, Some ''system workload effect does not match its registered operation contract'')
      else (case policy of
              None \<Rightarrow> (evidence, Some ''system workload classification differs from its server-owned policy'')
            | Some p \<Rightarrow>
                (let evidence = evidence\<lparr>we_PolicyID := wp_ID p\<rparr> in
                 if wp_ID p = ''local-model-maintenance-v1'' \<and> rq_ToolID q \<noteq> rq_RuntimeID q
                 then (evidence, Some ''model maintenance provider binding does not match its registered runtime'')
                 else (evidence\<lparr>we_Matched := True\<rparr>, None))))"

section \<open>Framework evidence\<close>

text \<open>A selection that is verified leaves its evidence; \<open>None\<close> is the error.\<close>

definition selection_matches :: "FrameworkSelection \<Rightarrow> Governance \<Rightarrow> bool" where
  "selection_matches s g \<longleftrightarrow>
     fs_SelectionID s = gv_SelectionID g \<and> fs_TaskPlanID s = gv_TaskPlanID g \<and>
     fs_CatalogVersion s = gv_CatalogVersion g \<and> fs_SelectorVersion s = gv_SelectorVersion g \<and>
     fs_TaskRiskLevel s = gv_TaskRiskLevel g \<and> fs_RiskCeiling s = gv_RiskCeiling g \<and>
     Some (fs_MaximumAutonomy s) = gv_MaximumAutonomy g \<and> Some (fs_RequiresApproval s) = gv_RequiresApproval g \<and>
     fs_CatalogDigest s = gv_CatalogDigest g \<and> fs_PreferenceDigest s = gv_PreferenceDigest g \<and>
     fs_ConstitutionDigest s = gv_ConstitutionDigest g \<and> fs_ContractDigest s = gv_ContractDigest g"

definition verifyFrameworkSelection :: "World \<Rightarrow> AuthRequest \<Rightarrow> ReceiptEvidence \<Rightarrow> ReceiptEvidence option" where
  "verifyFrameworkSelection w q e =
     (case rq_Governance q of
        None \<Rightarrow> Some e
      | Some g \<Rightarrow>
          if gv_SelectorVersion g \<noteq> selector_v5 then Some e
          else
            (case w_frameworks w of
               None \<Rightarrow> None
             | Some resolve \<Rightarrow>
                 (case resolve (rq_OwnerIdentity q) (gv_SelectionID g) of
                    None \<Rightarrow> None
                  | Some s \<Rightarrow>
                      if \<not> selection_matches s g then None
                      else Some (e\<lparr>ev_FrameworkSelection :=
                        \<lparr>se_SelectionID = fs_SelectionID s, se_SelectorVersion = fs_SelectorVersion s,
                         se_OwnerScoped = True, se_Verified = True\<rparr>\<rparr>))))"

text \<open>\<open>sourceevidence.VerifyClaim\<close>; the product of seconds wraps at 64 bits.\<close>

definition claim_bound :: "Snapshot \<Rightarrow> Claim \<Rightarrow> string \<Rightarrow> AuthLib \<Rightarrow> bool" where
  "claim_bound s c owner lib \<longleftrightarrow>
     \<not> (TrimSpace owner = '''' \<or> sn_OwnerIdentity s \<noteq> TrimSpace owner \<or>
        cl_RequirementID c = '''' \<or> cl_ExtractionID c \<noteq> sn_ExtractionID s \<or>
        cl_SourceID c \<noteq> sn_SourceID s \<or> cl_RawItemID c \<noteq> sn_RawItemID s \<or>
        \<not> exact_digest (cl_SnapshotDigest c) \<or> cl_SnapshotDigest c \<noteq> sn_SnapshotDigest s \<or>
        sn_SnapshotDigest s \<noteq> al_hash_snapshot lib s \<or>
        TrimSpace (sn_ProjectKey s) \<noteq> TrimSpace (sn_RawProjectKey s) \<or>
        TrimSpace (sn_ExtractionURI s) = '''' \<or> sn_ExtractionURI s \<noteq> sn_RawItemURI s \<or>
        \<not> exact_digest (sn_ExtractionHash s) \<or> sn_ExtractionHash s \<noteq> sn_RawItemHash s \<or>
        \<not> exact_digest (sn_ExtractionPayloadDigest s) \<or> sn_FetchedAt s = 0 \<or>
        sn_ExtractionAt s = 0 \<or> TrimSpace (sn_ConnectorKey s) = '''')"

definition VerifyClaim :: "AuthLib \<Rightarrow> Snapshot \<Rightarrow> Claim \<Rightarrow> string \<Rightarrow> instant \<Rightarrow> bool" where
  "VerifyClaim lib s c owner now \<longleftrightarrow> claim_bound s c owner lib \<and>
     (if cl_Validator c \<in> {''primary_source'', ''source_context''} then True
      else if cl_Validator c = ''fresh_source'' then
        0 < sint (cl_MaxAgeSeconds c) \<and>
        \<not> now + 5 * 60 * nanos_per_second < sn_FetchedAt s \<and>
        \<not> sint (cl_MaxAgeSeconds c * 1000000000) < time_Sub now (sn_FetchedAt s)
      else False)"

definition isSourceEvidenceValidator :: "string \<Rightarrow> bool" where
  "isSourceEvidenceValidator v \<longleftrightarrow> TrimSpace v \<in> {''primary_source'', ''fresh_source'', ''source_context''}"

text \<open>The claims of the verified source assertions, or \<open>None\<close> if one has none or one that does not belong to it.\<close>

fun collect_claims :: "Assertion list \<Rightarrow> Claim list option" where
  "collect_claims [] = Some []"
| "collect_claims (a # rest) =
     (if \<not> isSourceEvidenceValidator (sa_Validator a) \<or> sa_Status a \<noteq> ''verified'' then collect_claims rest
      else if sa_SourceClaims a = [] then None
      else if list_ex (\<lambda>c. cl_RequirementID c \<noteq> sa_RequirementID a \<or> cl_Validator c \<noteq> sa_Validator a) (sa_SourceClaims a)
      then None
      else map_option (\<lambda>cs. sa_SourceClaims a @ cs) (collect_claims rest))"

definition verifySourceEvidenceClaims :: "AuthLib \<Rightarrow> World \<Rightarrow> string \<Rightarrow> string \<Rightarrow> (nat \<times> string) option" where
  "verifySourceEvidenceClaims lib w owner assertionsJSON =
     (case (if assertionsJSON = '''' then None else al_assertions lib assertionsJSON) of
        None \<Rightarrow> None
      | Some assertions \<Rightarrow>
          (case collect_claims assertions of
             None \<Rightarrow> None
           | Some claims \<Rightarrow>
               if claims = [] then Some (0, '''')
               else
                 (case w_sources w of
                    None \<Rightarrow> None
                  | Some resolve \<Rightarrow>
                      (let claims = sort_key (\<lambda>c. (cl_RequirementID c, cl_ExtractionID c)) claims in
                       if list_all (\<lambda>c. case resolve owner (cl_ExtractionID c) of
                              None \<Rightarrow> False | Some s \<Rightarrow> VerifyClaim lib s c owner (w_now_claims w)) claims
                       then map_option (\<lambda>h. (length claims, h)) (al_hash_claims lib claims)
                       else None))))"

text \<open>\<open>Inl True\<close> is \<open>ErrSourceEvidenceUnverified\<close>, \<open>Inl False\<close> any other error.\<close>

definition verifyPreflight :: "AuthLib \<Rightarrow> World \<Rightarrow> AuthRequest \<Rightarrow> ReceiptEvidence \<Rightarrow> bool + ReceiptEvidence" where
  "verifyPreflight lib w q e =
     (case rq_Governance q of
        None \<Rightarrow> Inr e
      | Some g \<Rightarrow>
          if gv_SelectorVersion g \<noteq> selector_v5 then Inr e
          else if gv_PreflightDigest g = '''' \<or> gv_PreflightDigest g \<noteq> ToLower (TrimSpace (gv_PreflightDigest g)) \<or>
                  \<not> exact_digest (gv_PreflightDigest g) then Inl False
          else
            (case w_preflights w of
               None \<Rightarrow> Inl False
             | Some resolve \<Rightarrow>
                 (case resolve (rq_OwnerIdentity q) (gv_TaskPlanID g) (gv_SelectionID g) (gv_PreflightDigest g) of
                    None \<Rightarrow> Inl False
                  | Some p \<Rightarrow>
                      if pf_OwnerIdentity p \<noteq> rq_OwnerIdentity q \<or> pf_TaskPlanID p \<noteq> gv_TaskPlanID g \<or>
                         pf_SelectionID p \<noteq> gv_SelectionID g \<or> pf_Digest p \<noteq> gv_PreflightDigest g \<or>
                         pf_Status p \<noteq> ''passed'' then Inl False
                      else
                        (case verifySourceEvidenceClaims lib w (rq_OwnerIdentity q) (pf_AssertionsJSON p) of
                           None \<Rightarrow> Inl True
                         | Some (n, h) \<Rightarrow> Inr (e\<lparr>ev_Preflight :=
                             \<lparr>pe_Digest = pf_Digest p, pe_OwnerScoped = True, pe_Verified = True,
                              pe_SourceClaimsVerified = n, pe_SourceClaimsDigest = h\<rparr>\<rparr>)))))"

section \<open>Capabilities\<close>

definition isConsequentialStage :: "Stage \<Rightarrow> bool" where
  "isConsequentialStage s \<longleftrightarrow> s \<in> {StageExpenditure, StageCommunication, StageCommitment, StagePublication,
     StageDeletion, StagePrivilegeEscalation, StageSelfModification}"

definition Contains :: "string \<Rightarrow> string \<Rightarrow> bool" where
  "Contains s t \<longleftrightarrow> list_ex (\<lambda>u. prefix t u) (suffixes s)"

definition web_access :: "AuthRequest \<Rightarrow> bool" where
  "web_access q \<longleftrightarrow>
     (let action = ToLower (TrimSpace (rq_Action q)); resource = ToLower (TrimSpace (rq_ResourceType q)) in
      Contains action ''.api.'' \<or> Contains action ''.http.'' \<or> Contains resource ''api'' \<or>
      Contains resource ''network'' \<or> Contains resource ''http'' \<or> Contains resource ''browser'')"

definition stage_capabilities :: "Stage \<Rightarrow> string list" where
  "stage_capabilities s = (case s of
       StageCommunication \<Rightarrow> [''external-communication'']
     | StageExpenditure \<Rightarrow> [''financial-action'']
     | StagePublication \<Rightarrow> [''external-communication'', ''public-posting'']
     | StageDeletion \<Rightarrow> [''destructive-action'']
     | StagePrivilegeEscalation \<Rightarrow> [''account-change'']
     | StageCommitment \<Rightarrow> [''consequential-action'']
     | StageSelfModification \<Rightarrow> [''consequential-action'']
     | _ \<Rightarrow> [])"

definition deriveCapabilities :: "AuthRequest \<Rightarrow> string list" where
  "deriveCapabilities q =
     (let domain = ToLower (rq_Domain q) in
      sort (remdups
        ([''execution''] @
         (if rq_ToolID q \<noteq> '''' then [''tool-execution''] else []) @
         (if rq_RuntimeID q \<noteq> '''' \<or> rq_FolderPaths q \<noteq> [] then [''local-execution''] else []) @
         (if rq_Stage q = StageDataAccess then [''document-read''] else []) @
         (if web_access q then [''web-access''] else []) @
         stage_capabilities (rq_Stage q) @
         (if Contains domain ''legal'' \<or> Contains domain ''government'' then [''legal-government-action''] else []) @
         (if rq_Risk q = ''high'' \<or> rq_Risk q = ''critical'' \<or> isConsequentialStage (rq_Stage q)
          then [''consequential-action''] else []))))"

section \<open>Agents\<close>

definition containsFold :: "string list \<Rightarrow> string \<Rightarrow> bool" where
  "containsFold values candidate \<longleftrightarrow> list_ex (\<lambda>v. EqualFold (TrimSpace v) (TrimSpace candidate)) values"

definition containsAllFold :: "string list \<Rightarrow> string list \<Rightarrow> bool" where
  "containsAllFold allowed requested \<longleftrightarrow> list_all (containsFold allowed) requested"

definition folder_within :: "string \<Rightarrow> string \<Rightarrow> bool" where
  "folder_within d candidate \<longleftrightarrow>
     (case Rel (Clean d) (Clean candidate) of
        None \<Rightarrow> False
      | Some relative \<Rightarrow> relative \<noteq> ''..'' \<and> \<not> prefix ''../'' relative)"

definition foldersAllowed :: "string list \<Rightarrow> string list \<Rightarrow> bool" where
  "foldersAllowed allowed requested \<longleftrightarrow> list_all (\<lambda>c. list_ex (\<lambda>d. folder_within d c) allowed) requested"

definition agent_unhealthy :: "World \<Rightarrow> RegisteredAgent \<Rightarrow> bool" where
  "agent_unhealthy w a \<longleftrightarrow>
     gt_State a \<noteq> StateEnabled \<or> \<not> he_Ready (gt_Health a) \<or> he_Status (gt_Health a) = HealthUnhealthy \<or>
     he_Status (gt_Health a) = HealthUnknown \<or> he_CheckedAt (gt_Health a) = 0 \<or>
     he_CheckedAt (gt_Health a) + he_FreshFor (gt_Health a) < w_now_agent w"

definition agent_reach :: "AuthRequest \<Rightarrow> RegisteredAgent \<Rightarrow> string option" where
  "agent_reach q a = first_error
     [(rq_RuntimeID q \<noteq> '''' \<and> \<not> EqualFold (rq_RuntimeID q) (gt_RuntimeID a),
        ''runtime does not match the assigned agent adapter''),
      (rq_ToolID q \<noteq> '''' \<and> \<not> containsFold (gt_ToolAllowlist a) (rq_ToolID q),
        ''requested tool is not in the assigned agent allowlist''),
      (\<not> containsAllFold (gt_DataAllowlist a) (rq_DataScopes q),
        ''requested data exceeds the assigned agent allowlist''),
      (\<not> foldersAllowed (gt_FolderAllowlist a) (rq_FolderPaths q),
        ''requested folder exceeds the assigned agent allowlist'')]"

definition agent_refused :: "World \<Rightarrow> AuthRequest \<Rightarrow> RegisteredAgent \<Rightarrow> Assignment \<Rightarrow> string option" where
  "agent_refused w q a g = first_error
     [(an_OwnerIdentity g \<noteq> rq_OwnerIdentity q \<or> an_TaskID g \<noteq> rq_TaskID q \<or> an_AgentID g \<noteq> rq_AgentID q,
        ''agent assignment does not match this task and actor''),
      (agent_unhealthy w a, ''assigned agent is not enabled with fresh executable health''),
      (an_GrantedAuthority g < rq_RequiredAuthority q \<or> gt_AuthorityCeiling a < rq_RequiredAuthority q \<or>
         an_GrantedAutonomy g < rq_RequestedAutonomy q \<or> gt_AutonomyCeiling a < rq_RequestedAutonomy q,
        ''requested authority or autonomy exceeds the assignment'')]"

text \<open>The receipt is changed in place, also by an evaluation that ends in an error.\<close>

definition evaluateAgent :: "World \<Rightarrow> AuthRequest \<Rightarrow> Receipt \<Rightarrow> Receipt \<times> string option" where
  "evaluateAgent w q r =
     (case w_agents w of
        None \<Rightarrow> (r, Some ''execution authorization policy is unavailable'')
      | Some (getAgent, getAssignment) \<Rightarrow>
          (case getAssignment (rq_OwnerIdentity q) (rq_AssignmentID q) of
             None \<Rightarrow> (r, Some ''agent assignment is unavailable'')
           | Some g \<Rightarrow>
               (case getAgent (rq_OwnerIdentity q) (rq_AgentID q) of
                  None \<Rightarrow> (r, Some ''assigned agent is unavailable'')
                | Some a \<Rightarrow>
                    (let r = r\<lparr>rc_Evidence := (rc_Evidence r)\<lparr>ev_Agent :=
                           \<lparr>ae_AgentID = gt_ID a, ae_AgentRevision = gt_Revision a, ae_AssignmentID = an_ID g,
                            ae_GrantedAuthority = an_GrantedAuthority g, ae_GrantedAutonomy = an_GrantedAutonomy g,
                            ae_RuntimeID = gt_RuntimeID a\<rparr>\<rparr>\<rparr>
                     in case agent_refused w q a g of
                          Some e \<Rightarrow> (r, Some e)
                        | None \<Rightarrow>
                            (r\<lparr>rc_EffectiveAutonomy := min (rc_EffectiveAutonomy r)
                                 (min (an_GrantedAutonomy g) (gt_AutonomyCeiling a))\<rparr>,
                             agent_reach q a)))))"

section \<open>Approvals and mandates\<close>

text \<open>\<open>Inr None\<close>: no approval is claimed; \<open>Inl ()\<close>: the claimed one is not valid.\<close>

definition resolveApproval :: "World \<Rightarrow> AuthRequest \<Rightarrow> instant \<Rightarrow> unit + ResolvedApproval option" where
  "resolveApproval w q now =
     (if rq_ApprovalSourceID q = '''' then Inr None
      else
        (case w_approvals w of
           None \<Rightarrow> Inl ()
         | Some resolve \<Rightarrow>
             (case resolve (rq_OwnerIdentity q) (rq_ApprovalSourceID q) (rq_ApprovalBindingDigest q) of
                None \<Rightarrow> Inl ()
              | Some v \<Rightarrow>
                  if ra_SourceID v \<noteq> rq_ApprovalSourceID q \<or> ra_BindingDigest v \<noteq> rq_ApprovalBindingDigest q \<or>
                     ra_DecisionID v = '''' \<or> ra_DecisionDigest v = '''' \<or> ra_ApprovedBy v = '''' \<or>
                     ra_ApprovedAt v = 0 \<or> ra_ExpiresAt v = 0 \<or>
                     now + 5 * nanos_per_second < ra_ApprovedAt v \<or> \<not> now < ra_ExpiresAt v
                  then Inl () else Inr (Some v))))"

definition standingRisk :: "RiskLevel \<Rightarrow> MandateRisk" where
  "standingRisk r = (if r = ''low'' then MandateRiskLow else if r = ''medium'' then MandateRiskMedium
     else if r = ''high'' then MandateRiskHigh else MandateRiskCritical)"

text \<open>The text of a cost; a request that was accepted has a finite one.\<close>

definition cost_text :: "float64 \<Rightarrow> string" where
  "cost_text c = (case c of Fin x \<Rightarrow> six_decimals x | NaN \<Rightarrow> ''NaN'' | Inf p \<Rightarrow> if p then ''+Inf'' else ''-Inf'')"

definition trustedMandateFacts :: "AuthRequest \<Rightarrow> (string \<times> string) list" where
  "trustedMandateFacts q =
     (let t = rq_RequestedAt q in
      AList.update ''requested_at_utc_date'' (date_text t)
       (AList.update ''requested_at_utc_weekday'' (weekday_name t)
        (AList.update ''requested_at_utc_hour'' (padded 2 (utc_hour t))
         (AList.update ''estimated_cost_eur'' (cost_text (rq_EstimatedCostEUR q)) (rq_Facts q)))))"

definition mandate_request :: "AuthRequest \<Rightarrow> ActionRequest" where
  "mandate_request q =
     \<lparr>aq_OwnerIdentity = rq_OwnerIdentity q, aq_ActorIdentity = rq_ActorIdentity q, aq_Action = rq_Action q,
      aq_ResourceType = rq_ResourceType q, aq_ResourceID = rq_ResourceID q, aq_ProjectKey = rq_ProjectKey q,
      aq_Domain = rq_Domain q, aq_ToolID = firstTrimmed [rq_ToolID q, rq_RuntimeID q],
      aq_Risk = standingRisk (rq_Risk q), aq_RequestedAutonomy = rq_RequestedAutonomy q,
      aq_UpstreamApprovalRequired = False, aq_Facts = trustedMandateFacts q, aq_Approval = None,
      aq_SourceReferences = rq_SourceReferences q, aq_RequestedAt = rq_RequestedAt q\<rparr>"

definition bound_approval :: "ResolvedApproval \<Rightarrow> string \<Rightarrow> ApprovalEvidence" where
  "bound_approval v actionDigest =
     \<lparr>av_ID = ra_DecisionID v, av_ApprovedBy = ra_ApprovedBy v, av_ApproverRoles = ra_ApproverRoles v,
      av_ActionDigest = actionDigest, av_ApprovedAt = ra_ApprovedAt v, av_ExpiresAt = ra_ExpiresAt v,
      av_Revoked = False, av_Source = ra_SourceID v\<rparr>"

end
