(* ===== verification/AuthService.thy ===== *)
theory AuthService
  imports AuthPolicies
begin

text \<open>
  The service of execution authorisation: \<open>executionauth/repository.go\<close>, \<open>service.go\<close>, \<open>digest.go\<close> and
  \<open>final_effect_bridge.go\<close>. A receipt is decided once per idempotency key, consumed at most once after the
  policies were checked again, and exercised at most once.
\<close>

section \<open>The repository\<close>

record AuthStore =
  au_receipts :: "(string \<times> Receipt) list"
  au_byID :: "(string \<times> string) list"
  au_consumptions :: "(string \<times> Consumption) list"
  au_exercises :: "(string \<times> FinalEffectExercise) list"

definition NewAuthStore :: AuthStore where
  "NewAuthStore = \<lparr>au_receipts = [], au_byID = [], au_consumptions = [], au_exercises = []\<rparr>"

definition ownerKey :: "string \<Rightarrow> string \<Rightarrow> string" where
  "ownerKey owner k = owner @ [CHR 0x00] @ k"

definition CreateOrGet :: "AuthLib \<Rightarrow> AuthStore \<Rightarrow> Receipt \<Rightarrow> (AuthError + Receipt \<times> bool) \<times> AuthStore" where
  "CreateOrGet lib s receipt =
     (case validateReceipt receipt of
        Some e \<Rightarrow> (Inl e, s)
      | None \<Rightarrow>
          (let key = ownerKey (rc_OwnerIdentity receipt) (rc_IdempotencyKey receipt) in
           case map_of (au_receipts s) key of
             Some existing \<Rightarrow>
               if rc_RequestDigest existing \<noteq> rc_RequestDigest receipt then (Inl ErrIdempotencyConflict, s)
               else (Inr (existing, False), s)
           | None \<Rightarrow>
               (Inr (receipt, True),
                s\<lparr>au_receipts := AList.update key receipt (au_receipts s),
                  au_byID := AList.update (ownerKey (rc_OwnerIdentity receipt) (al_uuid_text lib (rc_ID receipt))) key
                    (au_byID s)\<rparr>)))"

text \<open>Entries are never removed, so that a key of \<open>byID\<close> always has its receipt.\<close>

definition receipt_at :: "AuthLib \<Rightarrow> AuthStore \<Rightarrow> string \<Rightarrow> uuid \<Rightarrow> Receipt option" where
  "receipt_at lib s owner k =
     (case map_of (au_byID s) (ownerKey owner (al_uuid_text lib k)) of
        None \<Rightarrow> None
      | Some key \<Rightarrow> map_of (au_receipts s) key)"

definition Get_receipt :: "AuthLib \<Rightarrow> AuthStore \<Rightarrow> string \<Rightarrow> uuid \<Rightarrow> AuthError + Receipt" where
  "Get_receipt lib s owner k = (case receipt_at lib s owner k of None \<Rightarrow> Inl ErrNotFound | Some r \<Rightarrow> Inr r)"

definition boundedLimit :: "int \<Rightarrow> int" where
  "boundedLimit v = (if v \<le> 0 then 50 else if 200 < v then 200 else v)"

definition List_receipts :: "AuthStore \<Rightarrow> string \<Rightarrow> int \<Rightarrow> Receipt list" where
  "List_receipts s owner limit =
     take (nat (boundedLimit limit))
       (sort_key (\<lambda>r. (- rc_EvaluatedAt r, - uint (rc_ID r)))
          (filter (\<lambda>r. rc_OwnerIdentity r = owner) (map snd (au_receipts s))))"

definition Consume :: "AuthLib \<Rightarrow> AuthStore \<Rightarrow> Consumption \<Rightarrow> AuthError + AuthStore" where
  "Consume lib s c =
     (case validateConsumption c of
        Some e \<Rightarrow> Inl e
      | None \<Rightarrow>
          (let key = ownerKey (cn_OwnerIdentity c) (al_uuid_text lib (cn_ReceiptID c)) in
           case receipt_at lib s (cn_OwnerIdentity c) (cn_ReceiptID c) of
             None \<Rightarrow> Inl ErrNotFound
           | Some receipt \<Rightarrow>
               if rc_Outcome receipt \<noteq> OutcomeAuthorized \<or> rc_DecisionDigest receipt \<noteq> cn_ReceiptDigest c
               then Inl ErrNotAuthorized
               else if map_of (au_consumptions s) key \<noteq> None then Inl ErrAlreadyConsumed
               else Inr (s\<lparr>au_consumptions := AList.update key c (au_consumptions s)\<rparr>)))"

definition GetConsumption :: "AuthLib \<Rightarrow> AuthStore \<Rightarrow> string \<Rightarrow> uuid \<Rightarrow> AuthError + Consumption" where
  "GetConsumption lib s owner k =
     (case map_of (au_consumptions s) (ownerKey owner (al_uuid_text lib k)) of
        None \<Rightarrow> Inl ErrNotFound | Some c \<Rightarrow> Inr c)"

section \<open>The final effect\<close>

definition FinalEffectExecutionTarget :: "string \<Rightarrow> string option" where
  "FinalEffectExecutionTarget effectDigest =
     (if exact_digest (TrimSpace effectDigest) then Some (''agent-runtime:'' @ TrimSpace effectDigest) else None)"

definition validateFinalEffectExercise :: "FinalEffectExercise \<Rightarrow> AuthError option" where
  "validateFinalEffectExercise x = first_problem
     [validateReceiptLookup (fx_OwnerIdentity x) (fx_ReceiptID x),
      first_error
        [(\<not> list_all identifier_ok [fx_RuntimeID x, fx_TaskID x, fx_Action x, fx_ResourceType x, fx_ResourceID x],
          NotIdentifier),
         (fx_Action x \<noteq> AgentRuntimeExecuteAction \<or> fx_ResourceType x \<noteq> AgentRuntimeResourceType \<or>
            fx_ResourceID x \<noteq> fx_TaskID x, ErrFinalEffectMismatch),
         (256 < length (fx_ProjectKey x) \<or> 256 < length (fx_ApprovalSourceID x), FinalEffectInvalid),
         (\<not> list_all exact_digest [fx_EffectDigest x, fx_AuthorizationRequestDigest x, fx_DecisionDigest x,
            fx_RuntimeRequestDigest x], FinalEffectInvalid),
         (FinalEffectExecutionTarget (fx_EffectDigest x) \<noteq> Some (fx_ConsumptionTarget x) \<or>
            fx_RuntimeRequestDigest x \<noteq> fx_EffectDigest x, ErrFinalEffectMismatch),
         (fx_ExercisedAt x = 0, FinalEffectInvalid)]]"

definition finalEffectMatches :: "Receipt \<Rightarrow> Consumption \<Rightarrow> FinalEffectExercise \<Rightarrow> bool" where
  "finalEffectMatches r c x \<longleftrightarrow>
     rc_Outcome r = OutcomeAuthorized \<and> rc_Stage r = StageExecution \<and> rc_ID r = fx_ReceiptID x \<and>
     rc_OwnerIdentity r = fx_OwnerIdentity x \<and> rc_TaskID r = fx_TaskID x \<and> rc_Action r = fx_Action x \<and>
     rc_ResourceType r = fx_ResourceType x \<and> rc_ResourceID r = fx_ResourceID x \<and>
     rc_ProjectKey r = fx_ProjectKey x \<and> rc_RuntimeID r = fx_RuntimeID x \<and>
     rc_ApprovalSourceID r = fx_ApprovalSourceID x \<and> rc_EffectDigest r = fx_EffectDigest x \<and>
     rc_RequestDigest r = fx_AuthorizationRequestDigest x \<and> rc_DecisionDigest r = fx_DecisionDigest x \<and>
     rc_ApprovalSourceID r = ge_SourceID (ev_Approval (rc_Evidence r)) \<and>
     cn_ReceiptID c = fx_ReceiptID x \<and> cn_OwnerIdentity c = fx_OwnerIdentity x \<and>
     cn_ReceiptDigest c = fx_DecisionDigest x \<and> cn_ExecutionTarget c = fx_ConsumptionTarget x"

definition ExerciseFinalEffect :: "AuthLib \<Rightarrow> AuthStore \<Rightarrow> FinalEffectExercise \<Rightarrow> AuthError + AuthStore" where
  "ExerciseFinalEffect lib s x =
     (case validateFinalEffectExercise x of
        Some e \<Rightarrow> Inl e
      | None \<Rightarrow>
          (let key = ownerKey (fx_OwnerIdentity x) (al_uuid_text lib (fx_ReceiptID x)) in
           case receipt_at lib s (fx_OwnerIdentity x) (fx_ReceiptID x) of
             None \<Rightarrow> Inl ErrNotFound
           | Some receipt \<Rightarrow>
               (case map_of (au_consumptions s) key of
                  None \<Rightarrow> Inl ErrNotAuthorized
                | Some consumption \<Rightarrow>
                    if map_of (au_exercises s) key \<noteq> None then Inl ErrAlreadyExercised
                    else if \<not> finalEffectMatches receipt consumption x then Inl ErrFinalEffectMismatch
                    else Inr (s\<lparr>au_exercises := AList.update key x (au_exercises s)\<rparr>))))"

definition GetFinalEffectExercise :: "AuthLib \<Rightarrow> AuthStore \<Rightarrow> string \<Rightarrow> uuid \<Rightarrow> AuthError + FinalEffectExercise" where
  "GetFinalEffectExercise lib s owner k =
     (case map_of (au_exercises s) (ownerKey owner (al_uuid_text lib k)) of
        None \<Rightarrow> Inl ErrNotFound | Some x \<Rightarrow> Inr x)"

section \<open>Deciding a request\<close>

text \<open>
  A boundary either ends the evaluation with a verdict on the receipt as it stands, or goes on with the
  receipt.
\<close>

type_synonym Verdict = "Receipt \<times> Outcome \<times> string \<times> string"

definition no_evidence :: ReceiptEvidence where
  "no_evidence =
     \<lparr>ev_EmergencyStop = \<lparr>es_Active = False, es_Source = '''', es_Reason = ''''\<rparr>,
      ev_SystemWorkload = \<lparr>we_PolicyID = '''', we_ActorIdentity = '''', we_Matched = False\<rparr>,
      ev_Constitution = \<lparr>ce_ID = '''', ce_Version = 0, ce_Source = '''', ce_Digest = '''', ce_RequestedCapabilities = [],
        ce_DeniedCapabilities = [], ce_ApprovalRequiredCapabilities = [], ce_AuthorityCeiling = 0\<rparr>,
      ev_Mandate = \<lparr>me_ID = '''', me_Revision = 0, me_RequestDigest = '''', me_MandateDigest = '''', me_DecisionID = '''',
        me_DecisionDigest = '''', me_Outcome = ''''\<rparr>,
      ev_Agent = \<lparr>ae_AgentID = '''', ae_AgentRevision = 0, ae_AssignmentID = '''', ae_GrantedAuthority = 0,
        ae_GrantedAutonomy = 0, ae_RuntimeID = ''''\<rparr>,
      ev_Approval = \<lparr>ge_SourceID = '''', ge_DecisionID = '''', ge_DecisionDigest = '''', ge_ApprovedBy = '''',
        ge_ApprovedAt = 0, ge_ExpiresAt = 0\<rparr>,
      ev_FrameworkSelection = \<lparr>se_SelectionID = '''', se_SelectorVersion = '''', se_OwnerScoped = False,
        se_Verified = False\<rparr>,
      ev_Preflight = \<lparr>pe_Digest = '''', pe_OwnerScoped = False, pe_Verified = False, pe_SourceClaimsVerified = 0,
        pe_SourceClaimsDigest = ''''\<rparr>,
      ev_Governance = no_governance, ev_ReasonCodes = [], ev_Trace = []\<rparr>"

definition first_receipt :: "World \<Rightarrow> AuthRequest \<Rightarrow> string \<Rightarrow> Receipt" where
  "first_receipt w q requestHash =
     \<lparr>rc_ID = w_fresh_receipt w, rc_ContractVersion = 1, rc_OwnerIdentity = rq_OwnerIdentity q,
      rc_IdempotencyKey = rq_IdempotencyKey q, rc_ActorIdentity = rq_ActorIdentity q, rc_ActorKind = rq_ActorKind q,
      rc_TaskID = rq_TaskID q, rc_Action = rq_Action q, rc_Stage = rq_Stage q, rc_ResourceType = rq_ResourceType q,
      rc_ResourceID = rq_ResourceID q, rc_ProjectKey = rq_ProjectKey q, rc_Domain = rq_Domain q,
      rc_RuntimeID = rq_RuntimeID q, rc_ApprovalSourceID = '''', rc_EffectDigest = rq_EffectDigest q,
      rc_Outcome = OutcomeDenied, rc_Reason = ''execution is denied until every policy boundary is evaluated'',
      rc_RequestDigest = requestHash, rc_DecisionDigest = '''', rc_RequiredAuthority = rq_RequiredAuthority q,
      rc_RequestedAutonomy = rq_RequestedAutonomy q, rc_EffectiveAutonomy = rq_RequestedAutonomy q,
      rc_Risk = rq_Risk q, rc_Reversible = rq_Reversible q, rc_EstimatedCostEUR = rq_EstimatedCostEUR q,
      rc_NotificationRequired = (9 \<le> rq_RequestedAutonomy q), rc_EvaluatedAt = w_now w,
      rc_Evidence = no_evidence\<lparr>ev_Governance := (case rq_Governance q of None \<Rightarrow> no_governance | Some g \<Rightarrow> g)\<rparr>\<rparr>"

definition stop_gate :: "AuthLib \<Rightarrow> World \<Rightarrow> Receipt \<Rightarrow> Verdict + Receipt" where
  "stop_gate lib w r =
     (let stop = (w_stop w)\<lparr>es_Reason := al_redact lib (es_Reason (w_stop w))\<rparr>;
          r = r\<lparr>rc_Evidence := (rc_Evidence r)\<lparr>ev_EmergencyStop := stop\<rparr>\<rparr> in
      if es_Active stop
      then Inl (r, OutcomeDenied, firstTrimmed [es_Reason stop, ''emergency stop is active''], ''emergency_stop.active'')
      else Inr r)"

definition workload_gate :: "AuthRequest \<Rightarrow> Receipt \<Rightarrow> Verdict + Receipt" where
  "workload_gate q r =
     (if rq_ActorKind q \<noteq> ActorSystem then Inr r
      else
        (let (workload, problem) = evaluateSystemWorkload q;
             r = r\<lparr>rc_Evidence := (rc_Evidence r)\<lparr>ev_SystemWorkload := workload\<rparr>\<rparr> in
         case problem of Some e \<Rightarrow> Inl (r, OutcomeDenied, e, ''system_workload.denied'') | None \<Rightarrow> Inr r))"

definition framework_gate :: "AuthLib \<Rightarrow> World \<Rightarrow> AuthRequest \<Rightarrow> Receipt \<Rightarrow> Verdict + Receipt" where
  "framework_gate lib w q r =
     (case verifyFrameworkSelection w q (rc_Evidence r) of
        None \<Rightarrow> Inl (r, OutcomeDenied, ''framework selection could not be independently verified'',
                  ''framework.selection_unverified'')
      | Some e \<Rightarrow>
          (let r = r\<lparr>rc_Evidence := e\<rparr> in
           case verifyPreflight lib w q e of
             Inl sources \<Rightarrow>
               if sources
               then Inl (r, OutcomeDenied, ''source evidence could not be independently verified'',
                      ''source.evidence_unverified'')
               else Inl (r, OutcomeDenied, ''framework evidence preflight could not be independently verified'',
                      ''framework.evidence_preflight_unverified'')
           | Inr e \<Rightarrow> Inr (r\<lparr>rc_Evidence := e\<rparr>)))"

definition constitution_gate :: "World \<Rightarrow> AuthRequest \<Rightarrow> Receipt \<Rightarrow> Verdict + (Receipt \<times> ConstitutionDecision)" where
  "constitution_gate w q r =
     (let capabilities = deriveCapabilities q in
      case w_constitution w (rq_OwnerIdentity q) capabilities (rq_RequiredAuthority q) of
        None \<Rightarrow> Inl (r, OutcomeDenied, ''active Constitution could not be evaluated'', ''constitution.unavailable'')
      | Some c \<Rightarrow>
          (let r = r\<lparr>rc_Evidence := (rc_Evidence r)\<lparr>ev_Constitution :=
                 \<lparr>ce_ID = cd_ID c, ce_Version = cd_Version c, ce_Source = cd_Source c, ce_Digest = cd_Digest c,
                  ce_RequestedCapabilities = capabilities, ce_DeniedCapabilities = cd_DeniedCapabilities c,
                  ce_ApprovalRequiredCapabilities = cd_ApprovalRequiredCapabilities c,
                  ce_AuthorityCeiling = cd_AuthorityCeiling c\<rparr>\<rparr>\<rparr> in
           if cd_DeniedCapabilities c \<noteq> []
           then Inl (r, OutcomeDenied, ''active Constitution denies a requested execution capability'',
                  ''constitution.denied'')
           else if cd_AuthorityCeiling c < rq_RequiredAuthority q
           then Inl (r, OutcomeDenied, ''required authority exceeds the active Constitution ceiling'',
                  ''constitution.authority_ceiling'')
           else Inr (r\<lparr>rc_EffectiveAutonomy := min (rq_RequestedAutonomy q) (cd_AuthorityCeiling c)\<rparr>, c)))"

definition agent_gate :: "World \<Rightarrow> AuthRequest \<Rightarrow> Receipt \<Rightarrow> Verdict + Receipt" where
  "agent_gate w q r =
     (if rq_ActorKind q \<noteq> ActorAgent then Inr r
      else (case evaluateAgent w q r of
              (r, Some e) \<Rightarrow> Inl (r, OutcomeDenied, e, ''agent.authority_denied'')
            | (r, None) \<Rightarrow> Inr r))"

definition autonomy_gate :: "AuthRequest \<Rightarrow> Receipt \<Rightarrow> Verdict + Receipt" where
  "autonomy_gate q r =
     (if rq_RequestedAutonomy q < 6
      then Inl (r, OutcomeDenied, ''autonomy levels 0 through 5 cannot perform external execution'',
             ''autonomy.non_executing'')
      else Inr r)"

definition with_approval :: "ResolvedApproval option \<Rightarrow> Receipt \<Rightarrow> Receipt" where
  "with_approval approval r =
     (case approval of
        None \<Rightarrow> r
      | Some v \<Rightarrow> r\<lparr>rc_ApprovalSourceID := ra_SourceID v,
          rc_Evidence := (rc_Evidence r)\<lparr>ev_Approval :=
            \<lparr>ge_SourceID = ra_SourceID v, ge_DecisionID = ra_DecisionID v, ge_DecisionDigest = ra_DecisionDigest v,
             ge_ApprovedBy = ra_ApprovedBy v, ge_ApprovedAt = ra_ApprovedAt v, ge_ExpiresAt = ra_ExpiresAt v\<rparr>\<rparr>\<rparr>)"

definition framework_requires_approval :: "AuthRequest \<Rightarrow> bool" where
  "framework_requires_approval q \<longleftrightarrow>
     (case rq_Governance q of None \<Rightarrow> False | Some g \<Rightarrow> gv_RequiresApproval g = Some True)"

definition approval_gate :: "World \<Rightarrow> AuthRequest \<Rightarrow> Receipt \<Rightarrow> Verdict + (Receipt \<times> ResolvedApproval option)" where
  "approval_gate w q r =
     (case resolveApproval w q (w_now w) of
        Inl _ \<Rightarrow> Inl (r, OutcomeDenied, ''claimed approval evidence could not be verified'', ''approval.invalid'')
      | Inr approval \<Rightarrow>
          (let r = with_approval approval r in
           if framework_requires_approval q \<and> approval = None
           then Inl (r, OutcomeRequiresApproval, ''selected frameworks require an exact case-specific approval'',
                  ''framework.approval_required'')
           else Inr (r, approval)))"

text \<open>
  The texts of the errors a mandate's \<open>Authorize\<close> returns (validation, lookup and storing; encoding the digested
  structs cannot fail in Go).
\<close>

fun mandate_error_text :: "MandateError \<Rightarrow> string" where
  "mandate_error_text IdentitiesRequired = ''owner and actor identities are required''"
| "mandate_error_text (ValueRequired label) = label @ '' is required''"
| "mandate_error_text (ValueNotBounded label) = label @ '' must be an exact bounded value''"
| "mandate_error_text RequestedAutonomyOutOfRange = ''requested autonomy must be between 0 and 10''"
| "mandate_error_text RiskInvalid = ''risk level is invalid''"
| "mandate_error_text MandateNotFound = ''standing mandate not found''"
| "mandate_error_text DecisionConflict =
     ''persist authorization decision: standing mandate decision already exists''"
| "mandate_error_text e = ''''"

definition outcome_word :: "DecisionOutcome \<Rightarrow> string" where
  "outcome_word d = (case d of DecisionAuthorized \<Rightarrow> ''authorized'' | DecisionRequiresApproval \<Rightarrow> ''requires_approval''
     | DecisionDenied \<Rightarrow> ''denied'')"

definition mandate_evidence :: "AuthLib \<Rightarrow> AuthorizationDecision \<Rightarrow> MandateEvidence" where
  "mandate_evidence lib d =
     \<lparr>me_ID = al_uuid_text lib (ad_MandateID d), me_Revision = dn_MandateRevision (ad_Evidence d),
      me_RequestDigest = dn_RequestDigest (ad_Evidence d), me_MandateDigest = dn_MandateDigest (ad_Evidence d),
      me_DecisionID = al_uuid_text lib (ad_ID d), me_DecisionDigest = dn_DecisionDigest (ad_Evidence d),
      me_Outcome = outcome_word (ad_Outcome d)\<rparr>"

definition conclude_mandate :: "AuthLib \<Rightarrow> AuthorizationDecision \<Rightarrow> Receipt \<Rightarrow> Receipt \<times> (string + bool)" where
  "conclude_mandate lib d r =
     (r\<lparr>rc_Evidence := (rc_Evidence r)\<lparr>ev_Mandate := mandate_evidence lib d\<rparr>\<rparr>,
      (case ad_Outcome d of
         DecisionAuthorized \<Rightarrow> Inr True
       | DecisionRequiresApproval \<Rightarrow> Inr False
       | DecisionDenied \<Rightarrow> Inl ''standing mandate denied this exact execution''))"

definition evaluateMandate ::
  "AuthLib \<Rightarrow> World \<Rightarrow> MandateStore \<Rightarrow> AuthRequest \<Rightarrow> ResolvedApproval option \<Rightarrow> Receipt \<Rightarrow>
     MandateStore \<times> Receipt \<times> (string + bool)" where
  "evaluateMandate lib w ms q approval r =
     (if \<not> w_mandates w then (ms, r, Inl ''execution authorization policy is unavailable'')
      else
        (case al_parse_uuid lib (rq_MandateID q) of
           None \<Rightarrow> (ms, r, Inl ''standing mandate id is invalid'')
         | Some k \<Rightarrow>
             if k = uuid_nil then (ms, r, Inl ''standing mandate id is invalid'')
             else
               (case Authorize (al_mandates lib) ms (w_mandate_now1 w) (w_fresh_decision1 w) k (mandate_request q) of
                  Inl e \<Rightarrow> (ms, r, Inl (''standing mandate evaluation failed: '' @ mandate_error_text e))
                | Inr (d, ms) \<Rightarrow>
                    (case (ad_Outcome d, approval) of
                       (DecisionRequiresApproval, Some v) \<Rightarrow>
                         (case Authorize (al_mandates lib) ms (w_mandate_now2 w) (w_fresh_decision2 w) k
                                 ((mandate_request q)
                                    \<lparr>aq_Approval := Some (bound_approval v (dn_RequestDigest (ad_Evidence d)))\<rparr>) of
                            Inl e \<Rightarrow>
                              (ms, r, Inl (''standing mandate approval evaluation failed: '' @ mandate_error_text e))
                          | Inr (d, ms) \<Rightarrow> (ms, conclude_mandate lib d r))
                     | _ \<Rightarrow> (ms, conclude_mandate lib d r)))))"

text \<open>A request that names no mandate is not authorised by one.\<close>

definition claimed_mandate ::
  "AuthLib \<Rightarrow> World \<Rightarrow> MandateStore \<Rightarrow> AuthRequest \<Rightarrow> ResolvedApproval option \<Rightarrow> Receipt \<Rightarrow>
     MandateStore \<times> Receipt \<times> (string + bool)" where
  "claimed_mandate lib w ms q approval r =
     (if rq_MandateID q = '''' then (ms, r, Inr False) else evaluateMandate lib w ms q approval r)"

definition mandate_gate ::
  "AuthLib \<Rightarrow> World \<Rightarrow> MandateStore \<Rightarrow> AuthRequest \<Rightarrow> ResolvedApproval option \<Rightarrow> Receipt \<Rightarrow>
     MandateStore \<times> (Verdict + (Receipt \<times> bool))" where
  "mandate_gate lib w ms q approval r =
     (let (ms, r, answer) = claimed_mandate lib w ms q approval r in
      case answer of
        Inl e \<Rightarrow> (ms, Inl (r, OutcomeDenied, e, ''mandate.denied''))
      | Inr authorized \<Rightarrow>
          if (rq_RequestedAutonomy q = 7 \<or> rq_RequestedAutonomy q = 10) \<and> \<not> authorized
          then (ms, Inl (r, OutcomeRequiresApproval,
                 ''requested autonomy requires an active bounded standing mandate'', ''mandate.required''))
          else (ms, Inr (r, authorized)))"

definition approval_required :: "AuthRequest \<Rightarrow> ConstitutionDecision \<Rightarrow> bool" where
  "approval_required q c \<longleftrightarrow>
     cd_ApprovalRequiredCapabilities c \<noteq> [] \<or> rq_RequestedAutonomy q = 6 \<or> \<not> rq_Reversible q \<or>
     rq_Risk q = ''high'' \<or> rq_Risk q = ''critical'' \<or> isConsequentialStage (rq_Stage q) \<or>
     ((rq_RequestedAutonomy q = 8 \<or> rq_RequestedAutonomy q = 9) \<and> (rq_Risk q \<noteq> ''low'' \<or> \<not> rq_Reversible q))"

definition final_gate :: "AuthRequest \<Rightarrow> ConstitutionDecision \<Rightarrow> ResolvedApproval option \<Rightarrow> bool \<Rightarrow> Receipt \<Rightarrow> Verdict" where
  "final_gate q c approval authorized r =
     (if rq_RequestedAutonomy q = 6 \<and> approval = None
      then (r, OutcomeRequiresApproval, ''autonomy level 6 requires an exact case-specific approval'',
             ''approval.case_required'')
      else if approval_required q c \<and> approval = None \<and> \<not> authorized
      then (r, OutcomeRequiresApproval, ''this execution requires case-specific or standing approval'',
             ''approval.required'')
      else (r, OutcomeAuthorized, ''execution is authorized within the evaluated policy boundaries'',
             ''decision.authorized''))"

text \<open>The boundaries before the mandate, which only read.\<close>

definition pure_gates ::
  "AuthLib \<Rightarrow> World \<Rightarrow> AuthRequest \<Rightarrow> Receipt \<Rightarrow> Verdict + (Receipt \<times> ConstitutionDecision \<times> ResolvedApproval option)" where
  "pure_gates lib w q r =
     and_then (stop_gate lib w r) (\<lambda>r.
     and_then (workload_gate q r) (\<lambda>r.
     and_then (framework_gate lib w q r) (\<lambda>r.
     and_then (constitution_gate w q r) (\<lambda>(r, c).
     and_then (agent_gate w q r) (\<lambda>r.
     and_then (autonomy_gate q r) (\<lambda>r.
     and_then (approval_gate w q r) (\<lambda>(r, approval).
     Inr (r, c, approval))))))))"

definition evaluate_request ::
  "AuthLib \<Rightarrow> World \<Rightarrow> MandateStore \<Rightarrow> AuthRequest \<Rightarrow> Receipt \<Rightarrow> MandateStore \<times> Verdict" where
  "evaluate_request lib w ms q r =
     (case pure_gates lib w q r of
        Inl verdict \<Rightarrow> (ms, verdict)
      | Inr (r, c, approval) \<Rightarrow>
          (case mandate_gate lib w ms q approval r of
             (ms, Inl verdict) \<Rightarrow> (ms, verdict)
           | (ms, Inr (r, authorized)) \<Rightarrow> (ms, final_gate q c approval authorized r)))"

section \<open>The service\<close>

record AuthState =
  st_mandates :: MandateStore
  st_auth :: AuthStore

definition finish_receipt :: "AuthLib \<Rightarrow> Verdict \<Rightarrow> Receipt" where
  "finish_receipt lib v =
     (case v of (r, result, reason, code) \<Rightarrow>
        let text = al_redact lib reason in
        r\<lparr>rc_Outcome := result, rc_Reason := text,
          rc_Evidence := (rc_Evidence r)
            \<lparr>ev_ReasonCodes := ev_ReasonCodes (rc_Evidence r) @ [code],
             ev_Trace := ev_Trace (rc_Evidence r) @ [text]\<rparr>\<rparr>)"

definition persist :: "AuthLib \<Rightarrow> AuthStore \<Rightarrow> Receipt \<Rightarrow> (AuthError + Receipt) \<times> AuthStore" where
  "persist lib s receipt =
     (case al_hash_receipt lib (receipt\<lparr>rc_DecisionDigest := ''''\<rparr>) of
        None \<Rightarrow> (Inl DigestError, s)
      | Some h \<Rightarrow>
          (case CreateOrGet lib s (receipt\<lparr>rc_DecisionDigest := h\<rparr>) of
             (Inl e, s) \<Rightarrow> (Inl e, s)
           | (Inr (stored, created), s) \<Rightarrow> (Inr stored, s)))"

text \<open>The request that is decided, with its time, and its digest, which leaves the time out.\<close>

definition prepare :: "AuthLib \<Rightarrow> World \<Rightarrow> AuthRequest \<Rightarrow> AuthError + (AuthRequest \<times> string)" where
  "prepare lib w input =
     and_then (normalizeRequest lib input) (\<lambda>q.
       let q = (if rq_RequestedAt q = 0 then q\<lparr>rq_RequestedAt := w_now w\<rparr> else q) in
       if w_now w + 5 * 60 * nanos_per_second < rq_RequestedAt q then Inl RequestInFuture
       else (case al_hash_request lib (q\<lparr>rq_RequestedAt := 0\<rparr>) of None \<Rightarrow> Inl DigestError | Some h \<Rightarrow> Inr (q, h)))"

definition Authorize_effect ::
  "AuthLib \<Rightarrow> World \<Rightarrow> AuthState \<Rightarrow> AuthRequest \<Rightarrow> (AuthError + Receipt) \<times> AuthState" where
  "Authorize_effect lib w s input =
     (case prepare lib w input of
        Inl e \<Rightarrow> (Inl e, s)
      | Inr (q, requestHash) \<Rightarrow>
          (let (ms, verdict) = evaluate_request lib w (st_mandates s) q (first_receipt w q requestHash);
               (answer, a) = persist lib (st_auth s) (finish_receipt lib verdict)
           in (answer, \<lparr>st_mandates = ms, st_auth = a\<rparr>)))"

text \<open>The mandate of a receipt is still the one it was decided with, and its decision is stored.\<close>

definition mandate_unchanged :: "AuthLib \<Rightarrow> World \<Rightarrow> MandateStore \<Rightarrow> AuthRequest \<Rightarrow> MandateEvidence \<Rightarrow> AuthError option" where
  "mandate_unchanged lib w ms q me =
     (case al_parse_uuid lib (me_ID me) of
        None \<Rightarrow> Some (ErrAuthorizationChanged ''mandate identity invalid'')
      | Some mandateID \<Rightarrow>
          if mandateID = uuid_nil then Some (ErrAuthorizationChanged ''mandate identity invalid'')
          else
            (case al_parse_uuid lib (me_DecisionID me) of
               None \<Rightarrow> Some (ErrAuthorizationChanged ''mandate decision identity invalid'')
             | Some decisionID \<Rightarrow>
                 if decisionID = uuid_nil then Some (ErrAuthorizationChanged ''mandate decision identity invalid'')
                 else if \<not> w_mandates w then Some NilMandates
                 else
                   (case (GetAuthorizationSnapshot (al_mandates lib) ms (rq_OwnerIdentity q) mandateID,
                          GetDecision ms (TrimSpace (rq_OwnerIdentity q)) decisionID) of
                      (Inr snapshot, Inr decision) \<Rightarrow>
                        check
                          (as_ID snapshot \<noteq> mandateID \<or> as_OwnerIdentity snapshot \<noteq> rq_OwnerIdentity q \<or>
                           as_Status snapshot \<noteq> MandateActive \<or> as_Revision snapshot \<noteq> me_Revision me \<or>
                           as_Digest snapshot \<noteq> me_MandateDigest me \<or>
                           (case as_ExpiresAt snapshot of None \<Rightarrow> False | Some t \<Rightarrow> \<not> w_now_mandate w < t) \<or>
                           ad_ID decision \<noteq> decisionID \<or> ad_MandateID decision \<noteq> mandateID \<or>
                           ad_OwnerIdentity decision \<noteq> rq_OwnerIdentity q \<or>
                           ad_ActorIdentity decision \<noteq> rq_ActorIdentity q \<or> ad_Action decision \<noteq> rq_Action q \<or>
                           ad_Outcome decision \<noteq> DecisionAuthorized \<or>
                           dn_MandateRevision (ad_Evidence decision) \<noteq> me_Revision me \<or>
                           dn_RequestDigest (ad_Evidence decision) \<noteq> me_RequestDigest me \<or>
                           dn_MandateDigest (ad_Evidence decision) \<noteq> me_MandateDigest me \<or>
                           dn_DecisionDigest (ad_Evidence decision) \<noteq> me_DecisionDigest me)
                          (ErrAuthorizationChanged ''standing mandate changed'')
                    | _ \<Rightarrow> Some (ErrAuthorizationChanged ''standing mandate changed''))))"

text \<open>\<open>recheck\<close> reads the request as the caller gave it, not the normalised one.\<close>

definition recheck :: "AuthLib \<Rightarrow> World \<Rightarrow> MandateStore \<Rightarrow> AuthRequest \<Rightarrow> Receipt \<Rightarrow> AuthError option" where
  "recheck lib w ms q r =
     (let e = rc_Evidence r in
      first_problem
       [check (es_Active (w_stop w)) (ErrAuthorizationChanged ''emergency stop became active''),
        (if rq_ActorKind q \<noteq> ActorSystem then None
         else (case evaluateSystemWorkload q of (now, problem) \<Rightarrow>
            check (problem \<noteq> None \<or> \<not> we_Matched now \<or> we_PolicyID now \<noteq> we_PolicyID (ev_SystemWorkload e))
              (ErrAuthorizationChanged ''system workload policy changed''))),
        check (case verifyFrameworkSelection w q e of
                 None \<Rightarrow> True | Some now \<Rightarrow> ev_FrameworkSelection now \<noteq> ev_FrameworkSelection e)
          (ErrAuthorizationChanged ''framework selection changed''),
        check (case w_constitution w (rq_OwnerIdentity q) (ce_RequestedCapabilities (ev_Constitution e))
                      (rq_RequiredAuthority q) of
                 None \<Rightarrow> True
               | Some c \<Rightarrow> cd_Digest c \<noteq> ce_Digest (ev_Constitution e) \<or> cd_DeniedCapabilities c \<noteq> [])
          (ErrAuthorizationChanged ''Constitution changed''),
        (if rq_ActorKind q \<noteq> ActorAgent then None
         else (case evaluateAgent w q r of (now, problem) \<Rightarrow>
            check (problem \<noteq> None \<or> ae_AgentRevision (ev_Agent (rc_Evidence now)) \<noteq> ae_AgentRevision (ev_Agent e))
              (ErrAuthorizationChanged ''agent authority changed''))),
        (if me_ID (ev_Mandate e) = '''' then None else mandate_unchanged lib w ms q (ev_Mandate e)),
        (if rq_ApprovalSourceID q = '''' then None
         else check (isl (resolveApproval w q (w_now_approval w))) (ErrAuthorizationChanged ''approval changed'')),
        (case verifyPreflight lib w q e of
           Inl sources \<Rightarrow> Some (ErrAuthorizationChanged (if sources then ''source evidence changed''
              else ''framework evidence preflight changed''))
         | Inr now \<Rightarrow> check (ev_Preflight now \<noteq> ev_Preflight e)
             (ErrAuthorizationChanged ''framework evidence preflight changed''))])"

text \<open>
  The second half of \<open>AuthorizeAndConsume\<close>: from the receipt to its consumption. The receipt is returned
  beside an error; there is none if the first half failed.
\<close>

definition consumption_of :: "AuthLib \<Rightarrow> World \<Rightarrow> Receipt \<Rightarrow> string \<Rightarrow> string \<Rightarrow> Consumption" where
  "consumption_of lib w r consumer target =
     \<lparr>cn_ReceiptID = rc_ID r, cn_OwnerIdentity = rc_OwnerIdentity r, cn_Consumer = compact lib consumer,
      cn_ExecutionTarget = compact lib target, cn_ReceiptDigest = rc_DecisionDigest r,
      cn_ConsumedAt = w_now_consumed w\<rparr>"

definition consume_receipt ::
  "AuthLib \<Rightarrow> World \<Rightarrow> AuthState \<Rightarrow> AuthRequest \<Rightarrow> Receipt \<Rightarrow> string \<Rightarrow> string \<Rightarrow> AuthError option \<times> AuthState" where
  "consume_receipt lib w s request r consumer target =
     (if rc_Outcome r \<noteq> OutcomeAuthorized then (Some ErrNotAuthorized, s)
      else
        (case recheck lib w (st_mandates s) request r of
           Some e \<Rightarrow> (Some e, s)
         | None \<Rightarrow>
             if \<not> identifier_ok (compact lib consumer) \<or> \<not> identifier_ok (compact lib target) then (Some NotIdentifier, s)
             else
               (case Consume lib (st_auth s) (consumption_of lib w r consumer target) of
                  Inl e \<Rightarrow> (Some e, s)
                | Inr a \<Rightarrow> (None, s\<lparr>st_auth := a\<rparr>))))"

text \<open>\<open>between\<close> is what other calls do to the stores between the decision and the second check.\<close>

definition AuthorizeAndConsume ::
  "AuthLib \<Rightarrow> World \<Rightarrow> (AuthState \<Rightarrow> AuthState) \<Rightarrow> World \<Rightarrow> AuthState \<Rightarrow> AuthRequest \<Rightarrow> string \<Rightarrow> string \<Rightarrow>
     Receipt option \<times> AuthError option \<times> AuthState" where
  "AuthorizeAndConsume lib w between w' s request consumer target =
     (case Authorize_effect lib w s request of
        (Inl e, s) \<Rightarrow> (None, Some e, s)
      | (Inr r, s) \<Rightarrow> (Some r, consume_receipt lib w' (between s) request r consumer target))"

end
