(* ===== verification/FinalEffect.thy ===== *)
theory FinalEffect
  imports AuthService
begin

text \<open>
  The bridge from a consumed receipt to the agent runtime: \<open>executionauth/final_effect_bridge.go\<close>. The
  bridge grants nothing; it checks that a consumed receipt is for exactly this request and records one exercise.
\<close>

record FinalEffectBinding =
  fb_ReceiptID :: string
  fb_AuthorizationRequestDigest :: string
  fb_DecisionDigest :: string
  fb_RuntimeProof :: string

definition validateAgentRuntimeFinalRequest :: "FinalEffectAuthorizationRequest \<Rightarrow> AuthError option" where
  "validateAgentRuntimeFinalRequest q = first_error
     [(fr_Operation q \<noteq> AgentRuntimeExecuteAction, FinalEffectInvalid),
      (fr_RuntimeID q \<noteq> ToLower (TrimSpace (fr_RuntimeID q)), FinalEffectInvalid),
      (\<not> list_all identifier_ok [fr_RuntimeID q, fr_TaskID q, fr_OwnerIdentity q], NotIdentifier),
      (fr_TaskID q \<noteq> TrimSpace (fr_TaskID q) \<or> fr_OwnerIdentity q \<noteq> TrimSpace (fr_OwnerIdentity q) \<or>
         fr_ProjectKey q \<noteq> TrimSpace (fr_ProjectKey q) \<or>
         fr_ApprovalSourceID q \<noteq> TrimSpace (fr_ApprovalSourceID q), FinalEffectInvalid),
      (256 < length (fr_ProjectKey q) \<or> 256 < length (fr_ApprovalSourceID q), FinalEffectInvalid),
      (\<not> exact_digest (fr_PromptDigest q), FinalEffectInvalid),
      (fr_RequiresApproval q \<and> fr_ApprovalSourceID q = '''', FinalEffectInvalid)]"

definition FinalEffectDigest :: "AuthLib \<Rightarrow> FinalEffectAuthorizationRequest \<Rightarrow> AuthError + string" where
  "FinalEffectDigest lib q =
     (case validateAgentRuntimeFinalRequest q of Some e \<Rightarrow> Inl e | None \<Rightarrow> Inr (al_hash_final lib q))"

definition BuildAgentRuntimeFinalEffectRequest ::
  "AuthLib \<Rightarrow> string \<Rightarrow> string \<Rightarrow> string \<Rightarrow> string \<Rightarrow> string \<Rightarrow> string \<Rightarrow> bool \<Rightarrow>
     AuthError + FinalEffectAuthorizationRequest" where
  "BuildAgentRuntimeFinalEffectRequest lib runtimeID taskID owner projectKey prompt approvalSourceID requiresApproval =
     (if TrimSpace prompt = '''' then Inl FinalEffectInvalid
      else
        (let q = \<lparr>fr_Operation = AgentRuntimeExecuteAction, fr_RuntimeID = ToLower (TrimSpace runtimeID),
               fr_TaskID = TrimSpace taskID, fr_OwnerIdentity = TrimSpace owner, fr_ProjectKey = TrimSpace projectKey,
               fr_PromptDigest = al_sha256 lib prompt, fr_ApprovalSourceID = TrimSpace approvalSourceID,
               fr_RequiresApproval = requiresApproval\<rparr> in
         and_then (FinalEffectDigest lib q) (\<lambda>_. Inr q)))"

text \<open>The receipt identifier is parsed before; an effect digest that is no digest leaves the target empty.\<close>

definition finalEffectExercise ::
  "FinalEffectAuthorizationRequest \<Rightarrow> FinalEffectAuthorizationProof \<Rightarrow> uuid \<Rightarrow> instant \<Rightarrow> FinalEffectExercise" where
  "finalEffectExercise q proof_refs receiptID exercisedAt =
     \<lparr>fx_ReceiptID = receiptID, fx_OwnerIdentity = fr_OwnerIdentity q, fx_RuntimeID = fr_RuntimeID q,
      fx_TaskID = fr_TaskID q, fx_Action = fr_Operation q, fx_ResourceType = AgentRuntimeResourceType,
      fx_ResourceID = fr_TaskID q, fx_ProjectKey = fr_ProjectKey q, fx_ApprovalSourceID = fr_ApprovalSourceID q,
      fx_EffectDigest = fp_RuntimeProof proof_refs,
      fx_AuthorizationRequestDigest = fp_AuthorizationRequestDigest proof_refs,
      fx_DecisionDigest = fp_DecisionDigest proof_refs,
      fx_RuntimeRequestDigest = fp_RuntimeRequestDigest proof_refs,
      fx_ConsumptionTarget =
        (case FinalEffectExecutionTarget (fp_RuntimeRequestDigest proof_refs) of None \<Rightarrow> '''' | Some t \<Rightarrow> t),
      fx_ExercisedAt = exercisedAt\<rparr>"

definition BindConsumedFinalEffect ::
  "AuthLib \<Rightarrow> AuthStore \<Rightarrow> FinalEffectAuthorizationRequest \<Rightarrow> uuid \<Rightarrow> AuthError + FinalEffectBinding" where
  "BindConsumedFinalEffect lib s q receiptID =
     and_then (FinalEffectDigest lib q) (\<lambda>effectDigest.
     and_then (Get_receipt lib s (fr_OwnerIdentity q) receiptID) (\<lambda>receipt.
     and_then (GetConsumption lib s (fr_OwnerIdentity q) receiptID) (\<lambda>consumption.
     let proof_refs = \<lparr>fp_ReceiptID = al_uuid_text lib (rc_ID receipt),
           fp_AuthorizationRequestDigest = rc_RequestDigest receipt, fp_DecisionDigest = rc_DecisionDigest receipt,
           fp_RuntimeRequestDigest = effectDigest, fp_RuntimeProof = effectDigest\<rparr> in
     if \<not> finalEffectMatches receipt consumption (finalEffectExercise q proof_refs (rc_ID receipt) 0)
     then Inl ErrFinalEffectMismatch
     else Inr \<lparr>fb_ReceiptID = al_uuid_text lib (rc_ID receipt),
            fb_AuthorizationRequestDigest = rc_RequestDigest receipt, fb_DecisionDigest = rc_DecisionDigest receipt,
            fb_RuntimeProof = effectDigest\<rparr>)))"

definition VerifyFinalEffectProof ::
  "AuthLib \<Rightarrow> instant \<Rightarrow> AuthStore \<Rightarrow> FinalEffectAuthorizationRequest \<Rightarrow> FinalEffectAuthorizationProof \<Rightarrow>
     AuthError + AuthStore" where
  "VerifyFinalEffectProof lib now s q proof_refs =
     and_then (FinalEffectDigest lib q) (\<lambda>effectDigest.
       case al_parse_uuid lib (TrimSpace (fp_ReceiptID proof_refs)) of
         None \<Rightarrow> Inl ErrFinalEffectMismatch
       | Some receiptID \<Rightarrow>
           if receiptID = uuid_nil then Inl ErrFinalEffectMismatch
           else if list_ex (\<lambda>v. v \<noteq> ToLower (TrimSpace v) \<or> \<not> exact_digest v)
             [fp_AuthorizationRequestDigest proof_refs, fp_DecisionDigest proof_refs,
              fp_RuntimeRequestDigest proof_refs, fp_RuntimeProof proof_refs]
           then Inl ErrFinalEffectMismatch
           else if fp_RuntimeRequestDigest proof_refs \<noteq> effectDigest \<or> fp_RuntimeProof proof_refs \<noteq> effectDigest
           then Inl ErrFinalEffectMismatch
           else ExerciseFinalEffect lib s (finalEffectExercise q proof_refs receiptID now))"

end
