(* ===== verification/AuthRun.thy ===== *)
theory AuthRun
  imports FinalEffect MandateRun
begin

text \<open>
  Runs of execution authorisation: many callers decide, consume and exercise in any order while mandates
  change. The locale \<open>write_once\<close> is the contract of a store whose entries are never replaced; the
  receipts, the consumptions and the exercises are interpretations of it.
\<close>

section \<open>Stores that are written once\<close>

locale write_once =
  fixes entry :: "'s \<Rightarrow> 'k \<Rightarrow> 'v option" and step :: "'s \<Rightarrow> 's \<Rightarrow> bool"
  assumes kept: "step s s' \<Longrightarrow> entry s k = Some v \<Longrightarrow> entry s' k = Some v"
begin

lemma steps_kept: "step\<^sup>*\<^sup>* s s' \<Longrightarrow> entry s k = Some v \<Longrightarrow> entry s' k = Some v"
  by (induction rule: rtranclp_induct) (auto dest: kept)

lemma steps_agree: "step\<^sup>*\<^sup>* s s' \<Longrightarrow> entry s k = Some v \<Longrightarrow> entry s' k = Some u \<Longrightarrow> u = v"
  by (auto dest: steps_kept)

end

section \<open>Writes of the repository\<close>

definition receipt_by :: "AuthStore \<Rightarrow> string \<Rightarrow> Receipt option" where
  "receipt_by a b = (case map_of (au_byID a) b of None \<Rightarrow> None | Some key \<Rightarrow> map_of (au_receipts a) key)"

lemma receipt_at_by: "receipt_at lib a owner k = receipt_by a (ownerKey owner (al_uuid_text lib k))"
  by (simp add: receipt_at_def receipt_by_def)

definition receipt_key :: "Receipt \<Rightarrow> string" where
  "receipt_key r = ownerKey (rc_OwnerIdentity r) (rc_IdempotencyKey r)"

definition id_key :: "AuthLib \<Rightarrow> Receipt \<Rightarrow> string" where
  "id_key lib r = ownerKey (rc_OwnerIdentity r) (al_uuid_text lib (rc_ID r))"

text \<open>What the operations do to the maps.\<close>

lemma CreateOrGet_cases:
  assumes "CreateOrGet lib a r = (res, a')"
  obtains (refused) e where "res = Inl e" "a' = a"
  | (found) old where "res = Inr (old, False)" "a' = a" "map_of (au_receipts a) (receipt_key r) = Some old"
      "rc_RequestDigest old = rc_RequestDigest r"
  | (created) "res = Inr (r, True)" "receipt_ok r" "map_of (au_receipts a) (receipt_key r) = None"
      "map_of (au_receipts a') = (map_of (au_receipts a))(receipt_key r \<mapsto> r)"
      "map_of (au_byID a') = (map_of (au_byID a))(id_key lib r \<mapsto> receipt_key r)"
      "au_consumptions a' = au_consumptions a" "au_exercises a' = au_exercises a"
proof (cases "receipt_ok r")
  case False
  with assms have "res = Inl ReceiptInvalid" "a' = a" by (simp_all add: CreateOrGet_def validateReceipt_def check_def)
  then show thesis by (rule refused)
next
  case ok: True
  note def = assms [unfolded CreateOrGet_def, simplified validateReceipt_def check_def ok, simplified, folded receipt_key_def id_key_def]
  show thesis
  proof (cases "map_of (au_receipts a) (receipt_key r)")
    case None
    with def have "res = Inr (r, True)" and a': "a' = a\<lparr>au_receipts := AList.update (receipt_key r) r (au_receipts a),
        au_byID := AList.update (id_key lib r) (receipt_key r) (au_byID a)\<rparr>" by (simp_all add: Let_def)
    then show thesis using created ok None by (simp add: update_conv')
  next
    case (Some old)
    with def have "(if rc_RequestDigest old \<noteq> rc_RequestDigest r then (Inl ErrIdempotencyConflict, a)
        else (Inr (old, False), a)) = (res, a')" by (simp add: Let_def)
    with Some show thesis using refused found by (metis Pair_inject)
  qed
qed

lemma Consume_Inr:
  assumes "Consume lib a c = Inr a'"
  obtains r where "receipt_at lib a (cn_OwnerIdentity c) (cn_ReceiptID c) = Some r"
    "rc_Outcome r = OutcomeAuthorized" "rc_DecisionDigest r = cn_ReceiptDigest c" "validateConsumption c = None"
    "map_of (au_consumptions a) (ownerKey (cn_OwnerIdentity c) (al_uuid_text lib (cn_ReceiptID c))) = None"
    "map_of (au_consumptions a') = (map_of (au_consumptions a))
       (ownerKey (cn_OwnerIdentity c) (al_uuid_text lib (cn_ReceiptID c)) \<mapsto> c)"
    "au_receipts a' = au_receipts a" "au_byID a' = au_byID a" "au_exercises a' = au_exercises a"
  using assms by (auto simp: Consume_def Let_def update_conv' split: option.splits if_splits)

lemma ExerciseFinalEffect_Inr:
  assumes "ExerciseFinalEffect lib a x = Inr a'"
  obtains r c where "receipt_at lib a (fx_OwnerIdentity x) (fx_ReceiptID x) = Some r"
    "map_of (au_consumptions a) (ownerKey (fx_OwnerIdentity x) (al_uuid_text lib (fx_ReceiptID x))) = Some c"
    "finalEffectMatches r c x" "validateFinalEffectExercise x = None"
    "map_of (au_exercises a) (ownerKey (fx_OwnerIdentity x) (al_uuid_text lib (fx_ReceiptID x))) = None"
    "map_of (au_exercises a') = (map_of (au_exercises a))
       (ownerKey (fx_OwnerIdentity x) (al_uuid_text lib (fx_ReceiptID x)) \<mapsto> x)"
    "au_receipts a' = au_receipts a" "au_byID a' = au_byID a" "au_consumptions a' = au_consumptions a"
  using assms by (auto simp: ExerciseFinalEffect_def Let_def update_conv' split: option.splits if_splits)

lemma VerifyFinalEffectProof_Inr:
  assumes "VerifyFinalEffectProof lib now a q p = Inr a'"
  obtains x where "ExerciseFinalEffect lib a x = Inr a'" "FinalEffectDigest lib q = Inr (fx_EffectDigest x)"
    "fx_OwnerIdentity x = fr_OwnerIdentity q" "fx_TaskID x = fr_TaskID q" "fx_RuntimeID x = fr_RuntimeID q"
    "al_parse_uuid lib (TrimSpace (fp_ReceiptID p)) = Some (fx_ReceiptID x)"
proof -
  from assms obtain digest k where q: "FinalEffectDigest lib q = Inr digest"
    and k: "al_parse_uuid lib (TrimSpace (fp_ReceiptID p)) = Some k"
    and d: "fp_RuntimeProof p = digest"
    and x: "ExerciseFinalEffect lib a (finalEffectExercise q p k now) = Inr a'"
    by (simp add: VerifyFinalEffectProof_def and_then_Inr_iff split: option.splits if_splits) blast
  show thesis using x q k d by (intro that [of "finalEffectExercise q p k now"]) (simp_all add: finalEffectExercise_def)
qed

section \<open>Steps\<close>

text \<open>A fresh identifier belongs to no receipt.\<close>

definition fresh_receipt :: "AuthLib \<Rightarrow> World \<Rightarrow> AuthStore \<Rightarrow> bool" where
  "fresh_receipt lib w a \<longleftrightarrow> (\<forall>owner. map_of (au_byID a) (ownerKey owner (al_uuid_text lib (w_fresh_receipt w))) = None)"

inductive auth_step :: "AuthLib \<Rightarrow> AuthState \<Rightarrow> AuthState \<Rightarrow> bool" for lib where
  authorize: "fresh_receipt lib w (st_auth s) \<Longrightarrow> Authorize_effect lib w s q = (res, s') \<Longrightarrow> auth_step lib s s'"
| consume: "consume_receipt lib w s q r consumer target = (res, s') \<Longrightarrow> auth_step lib s s'"
| exercise: "VerifyFinalEffectProof lib now (st_auth s) q p = Inr a \<Longrightarrow> auth_step lib s (s\<lparr>st_auth := a\<rparr>)"
| mandate: "mandate_step (al_mandates lib) (st_mandates s) ms \<Longrightarrow> auth_step lib s (s\<lparr>st_mandates := ms\<rparr>)"

definition NewAuthState :: AuthState where
  "NewAuthState = \<lparr>st_mandates = NewMandateStore, st_auth = NewAuthStore\<rparr>"

lemma persist_CreateOrGet:
  assumes "persist lib a r = (res, a')"
  obtains (refused) e where "res = Inl e" "a' = a"
  | (stored) h old created where "al_hash_receipt lib (r\<lparr>rc_DecisionDigest := ''''\<rparr>) = Some h" "res = Inr old"
      "CreateOrGet lib a (r\<lparr>rc_DecisionDigest := h\<rparr>) = (Inr (old, created), a')"
  using assms by (auto simp: persist_def split: option.splits prod.splits sum.splits elim: CreateOrGet_cases)

text \<open>A decision reads the mandates and stores decisions of theirs.\<close>

lemma Authorize_decides:
  assumes "Authorize lib ms now fresh k q = Inr (d, ms')"
  obtains m where "Get_mandate ms (TrimSpace (aq_OwnerIdentity q)) k = Inr m"
    "evaluate lib fresh m (timed_request q now) now = Inr d" "CreateDecision ms d = Inr ms'"
  using assms
  by (auto simp: Authorize_def Let_def and_then_Inr_iff timed_request_def split: option.splits if_splits)

lemma Authorize_step: "Authorize lib ms now fresh k q = Inr (d, ms') \<Longrightarrow> mandate_step lib ms ms'"
  by (elim Authorize_decides) (rule mandate_step.decide)

lemma evaluateMandate_steps:
  assumes "evaluateMandate lib w ms q approval r = (ms', r', answer)"
  shows "(mandate_step (al_mandates lib))\<^sup>*\<^sup>* ms ms'"
  using assms
  by (auto simp: evaluateMandate_def split: if_splits option.splits sum.splits prod.splits DecisionOutcome.splits
      dest!: Authorize_step intro: rtranclp_trans r_into_rtranclp)

text \<open>Deciding a request changes the repository only by storing the receipt, of the owner and key it prepared.\<close>

lemma evaluate_request_steps:
  assumes "evaluate_request lib w ms q r = (ms', verdict)"
  shows "(mandate_step (al_mandates lib))\<^sup>*\<^sup>* ms ms'"
  using assms
  by (auto simp: evaluate_request_def mandate_gate_def claimed_mandate_def Let_def
      split: sum.splits prod.splits if_splits dest: evaluateMandate_steps)

lemma Authorize_effect_cases:
  assumes "Authorize_effect lib w s input = (res, s')"
  obtains (refused) e where "res = Inl e" "st_auth s' = st_auth s"
      "(mandate_step (al_mandates lib))\<^sup>*\<^sup>* (st_mandates s) (st_mandates s')"
  | (decided) q h verdict where "prepare lib w input = Inr (q, h)"
      "evaluate_request lib w (st_mandates s) q (first_receipt w q h) = (st_mandates s', verdict)"
      "persist lib (st_auth s) (finish_receipt lib verdict) = (res, st_auth s')"
      "(mandate_step (al_mandates lib))\<^sup>*\<^sup>* (st_mandates s) (st_mandates s')"
proof (cases "prepare lib w input")
  case (Inl e)
  with assms have "res = Inl e" "s' = s" by (simp_all add: Authorize_effect_def)
  then show thesis by (intro refused [of e]) simp_all
next
  case (Inr p)
  obtain q h where p: "p = (q, h)" by (cases p)
  obtain ms verdict where e: "evaluate_request lib w (st_mandates s) q (first_receipt w q h) = (ms, verdict)"
    by (cases "evaluate_request lib w (st_mandates s) q (first_receipt w q h)")
  obtain answer a where a: "persist lib (st_auth s) (finish_receipt lib verdict) = (answer, a)"
    by (cases "persist lib (st_auth s) (finish_receipt lib verdict)")
  from assms have "res = answer" "s' = \<lparr>st_mandates = ms, st_auth = a\<rparr>"
    by (simp_all add: Authorize_effect_def Inr p e a)
  then show thesis using Inr p e a evaluate_request_steps [OF e] by (intro decided [of q h verdict]) simp_all
qed

lemma consume_receipt_cases:
  assumes "consume_receipt lib w s q r consumer target = (res, s')"
  obtains (refused) e where "res = Some e" "s' = s"
  | (consumed) a where "res = None" "s' = s\<lparr>st_auth := a\<rparr>" "rc_Outcome r = OutcomeAuthorized"
      "recheck lib w (st_mandates s) q r = None"
      "Consume lib (st_auth s) (consumption_of lib w r consumer target) = Inr a"
proof (cases "fst (consume_receipt lib w s q r consumer target)")
  case None
  then show thesis using assms consumed
    unfolding consume_receipt_def by (auto split: if_splits option.splits sum.splits)
next
  case (Some e)
  have "snd (consume_receipt lib w s q r consumer target) = s"
    using Some unfolding consume_receipt_def by (auto split: if_splits option.splits sum.splits)
  with Some assms show thesis by (intro refused [of e]) simp_all
qed

section \<open>Entries are kept\<close>

lemma CreateOrGet_kept:
  assumes "CreateOrGet lib a r = (res, a')"
  shows "map_of (au_receipts a) \<subseteq>\<^sub>m map_of (au_receipts a')"
    and "au_consumptions a' = au_consumptions a" "au_exercises a' = au_exercises a"
  using assms by (cases rule: CreateOrGet_cases; auto simp: map_le_def)+

lemma persist_kept:
  assumes "persist lib a r = (res, a')"
  shows "map_of (au_receipts a) \<subseteq>\<^sub>m map_of (au_receipts a')"
    and "au_consumptions a' = au_consumptions a" "au_exercises a' = au_exercises a"
  using assms by (cases rule: persist_CreateOrGet; auto dest: CreateOrGet_kept)+

definition auth_kept :: "AuthStore \<Rightarrow> AuthStore \<Rightarrow> bool" where
  "auth_kept a a' \<longleftrightarrow> map_of (au_receipts a) \<subseteq>\<^sub>m map_of (au_receipts a') \<and>
     map_of (au_consumptions a) \<subseteq>\<^sub>m map_of (au_consumptions a') \<and>
     map_of (au_exercises a) \<subseteq>\<^sub>m map_of (au_exercises a')"

lemma map_le_put: "f k = None \<Longrightarrow> f \<subseteq>\<^sub>m f(k \<mapsto> v)"
  by (auto simp: map_le_def)

lemma map_le_Some: "f \<subseteq>\<^sub>m g \<Longrightarrow> f k = Some v \<Longrightarrow> g k = Some v"
  by (metis domI map_le_def)

lemma Consume_kept: "Consume lib a c = Inr a' \<Longrightarrow> auth_kept a a'"
  by (erule Consume_Inr) (simp add: auth_kept_def map_le_put)

lemma ExerciseFinalEffect_kept: "ExerciseFinalEffect lib a x = Inr a' \<Longrightarrow> auth_kept a a'"
  by (erule ExerciseFinalEffect_Inr) (simp add: auth_kept_def map_le_put)

lemma auth_step_kept:
  assumes "auth_step lib s s'"
  shows "auth_kept (st_auth s) (st_auth s')"
  using assms
proof cases
  case (authorize w q res)
  from authorize(2) show ?thesis
    by (cases rule: Authorize_effect_cases) (simp_all add: auth_kept_def persist_kept)
next
  case (consume w q r consumer target res)
  then show ?thesis
    by (cases rule: consume_receipt_cases) (auto simp: auth_kept_def [of "st_auth s" "st_auth s"] intro: Consume_kept)
next
  case (exercise now q p a)
  then show ?thesis by (auto elim!: VerifyFinalEffectProof_Inr intro: ExerciseFinalEffect_kept)
qed (simp add: auth_kept_def)

interpretation receipts: write_once "\<lambda>s. map_of (au_receipts (st_auth s))" "auth_step lib" for lib
  by unfold_locales (auto simp: auth_kept_def dest!: auth_step_kept intro: map_le_Some)

interpretation consumptions: write_once "\<lambda>s. map_of (au_consumptions (st_auth s))" "auth_step lib" for lib
  by unfold_locales (auto simp: auth_kept_def dest!: auth_step_kept intro: map_le_Some)

interpretation exercises: write_once "\<lambda>s. map_of (au_exercises (st_auth s))" "auth_step lib" for lib
  by unfold_locales (auto simp: auth_kept_def dest!: auth_step_kept intro: map_le_Some)

text \<open>The mandates only make their own steps.\<close>

lemma auth_step_mandates:
  "auth_step lib s s' \<Longrightarrow> (mandate_step (al_mandates lib))\<^sup>*\<^sup>* (st_mandates s) (st_mandates s')"
proof (induction rule: auth_step.cases)
  case (authorize w s q res s')
  from authorize(4) show ?case unfolding authorize(1,2) by (cases rule: Authorize_effect_cases) simp_all
next
  case (consume w s q r consumer target res s')
  from consume(3) show ?case unfolding consume(1,2) by (cases rule: consume_receipt_cases) simp_all
qed auto

lemma auth_steps_mandates:
  "(auth_step lib)\<^sup>*\<^sup>* s s' \<Longrightarrow> (mandate_step (al_mandates lib))\<^sup>*\<^sup>* (st_mandates s) (st_mandates s')"
  by (induction rule: rtranclp_induct) (auto intro: rtranclp_trans dest: auth_step_mandates)

section \<open>The invariant of the repository\<close>

definition auth_inv :: "AuthLib \<Rightarrow> AuthStore \<Rightarrow> bool" where
  "auth_inv lib a \<longleftrightarrow>
     (\<forall>key r. map_of (au_receipts a) key = Some r \<longrightarrow>
        key = receipt_key r \<and> receipt_ok r \<and> receipt_by a (id_key lib r) = Some r) \<and>
     (\<forall>b key. map_of (au_byID a) b = Some key \<longrightarrow> (\<exists>r. map_of (au_receipts a) key = Some r \<and> b = id_key lib r)) \<and>
     (\<forall>b c. map_of (au_consumptions a) b = Some c \<longrightarrow>
        b = ownerKey (cn_OwnerIdentity c) (al_uuid_text lib (cn_ReceiptID c)) \<and>
        (\<exists>r. receipt_by a b = Some r \<and> rc_Outcome r = OutcomeAuthorized \<and> rc_DecisionDigest r = cn_ReceiptDigest c)) \<and>
     (\<forall>b x. map_of (au_exercises a) b = Some x \<longrightarrow>
        b = ownerKey (fx_OwnerIdentity x) (al_uuid_text lib (fx_ReceiptID x)) \<and>
        (\<exists>r c. receipt_by a b = Some r \<and> map_of (au_consumptions a) b = Some c \<and> finalEffectMatches r c x))"

lemma auth_inv_init: "auth_inv lib NewAuthStore"
  by (simp add: auth_inv_def NewAuthStore_def)

lemma auth_inv_created:
  assumes inv: "auth_inv lib a" and ok: "receipt_ok r"
    and none: "map_of (au_receipts a) (receipt_key r) = None" "map_of (au_byID a) (id_key lib r) = None"
    and new: "map_of (au_receipts a') = (map_of (au_receipts a))(receipt_key r \<mapsto> r)"
      "map_of (au_byID a') = (map_of (au_byID a))(id_key lib r \<mapsto> receipt_key r)"
      "au_consumptions a' = au_consumptions a" "au_exercises a' = au_exercises a"
  shows "auth_inv lib a'"
proof -
  note i = inv [unfolded auth_inv_def]
  have by_new: "receipt_by a' (id_key lib r) = Some r" by (simp add: receipt_by_def new)
  have by_old: "receipt_by a' b = Some u" if "receipt_by a b = Some u" for b u
    using that none by (auto simp: receipt_by_def new split: option.splits)
  have "key = receipt_key u \<and> receipt_ok u \<and> receipt_by a' (id_key lib u) = Some u"
    if "map_of (au_receipts a') key = Some u" for key u
    using that ok by_new by_old i by (cases "key = receipt_key r") (auto simp: new)
  moreover have "\<exists>u. map_of (au_receipts a') key = Some u \<and> b = id_key lib u"
    if "map_of (au_byID a') b = Some key" for b key
  proof (cases "b = id_key lib r")
    case True
    with that show ?thesis by (simp add: new)
  next
    case False
    with that have "map_of (au_byID a) b = Some key" by (simp add: new)
    with i obtain u where "map_of (au_receipts a) key = Some u" "b = id_key lib u" by blast
    with none(1) show ?thesis by (auto simp: new)
  qed
  ultimately show ?thesis using i by_old unfolding auth_inv_def new(3,4) by blast
qed

lemma Consume_inv:
  assumes inv: "auth_inv lib a" and "Consume lib a c = Inr a'"
  shows "auth_inv lib a'"
  using assms(2)
proof (rule Consume_Inr)
  fix r
  let ?b = "ownerKey (cn_OwnerIdentity c) (al_uuid_text lib (cn_ReceiptID c))"
  assume r: "receipt_at lib a (cn_OwnerIdentity c) (cn_ReceiptID c) = Some r" "rc_Outcome r = OutcomeAuthorized"
      "rc_DecisionDigest r = cn_ReceiptDigest c"
    and none: "map_of (au_consumptions a) ?b = None"
    and new: "map_of (au_consumptions a') = (map_of (au_consumptions a))(?b \<mapsto> c)"
      "au_receipts a' = au_receipts a" "au_byID a' = au_byID a" "au_exercises a' = au_exercises a"
  note i = inv [unfolded auth_inv_def]
  have same: "receipt_by a' = receipt_by a" by (simp add: receipt_by_def new fun_eq_iff split: option.split)
  have "b = ownerKey (cn_OwnerIdentity d) (al_uuid_text lib (cn_ReceiptID d)) \<and>
      (\<exists>r. receipt_by a b = Some r \<and> rc_Outcome r = OutcomeAuthorized \<and> rc_DecisionDigest r = cn_ReceiptDigest d)"
    if "map_of (au_consumptions a') b = Some d" for b d
    using that r i by (cases "b = ?b") (auto simp: new receipt_at_by)
  moreover have "b = ownerKey (fx_OwnerIdentity x) (al_uuid_text lib (fx_ReceiptID x)) \<and>
      (\<exists>r d. receipt_by a b = Some r \<and> map_of (au_consumptions a') b = Some d \<and> finalEffectMatches r d x)"
    if "map_of (au_exercises a) b = Some x" for b x
  proof -
    from that i obtain u d where u: "b = ownerKey (fx_OwnerIdentity x) (al_uuid_text lib (fx_ReceiptID x))"
      "receipt_by a b = Some u" "map_of (au_consumptions a) b = Some d" "finalEffectMatches u d x" by blast
    with none have "b \<noteq> ?b" by auto
    with u show ?thesis by (auto simp: new)
  qed
  ultimately show ?thesis using i unfolding auth_inv_def same new(2-4) by blast
qed

lemma ExerciseFinalEffect_inv:
  assumes inv: "auth_inv lib a" and "ExerciseFinalEffect lib a x = Inr a'"
  shows "auth_inv lib a'"
  using assms(2)
proof (rule ExerciseFinalEffect_Inr)
  fix r c
  let ?b = "ownerKey (fx_OwnerIdentity x) (al_uuid_text lib (fx_ReceiptID x))"
  assume r: "receipt_at lib a (fx_OwnerIdentity x) (fx_ReceiptID x) = Some r"
      "map_of (au_consumptions a) ?b = Some c" "finalEffectMatches r c x"
    and new: "map_of (au_exercises a') = (map_of (au_exercises a))(?b \<mapsto> x)"
      "au_receipts a' = au_receipts a" "au_byID a' = au_byID a" "au_consumptions a' = au_consumptions a"
  note i = inv [unfolded auth_inv_def]
  have same: "receipt_by a' = receipt_by a" by (simp add: receipt_by_def new fun_eq_iff split: option.split)
  have "b = ownerKey (fx_OwnerIdentity y) (al_uuid_text lib (fx_ReceiptID y)) \<and>
      (\<exists>r c. receipt_by a b = Some r \<and> map_of (au_consumptions a) b = Some c \<and> finalEffectMatches r c y)"
    if "map_of (au_exercises a') b = Some y" for b y
    using that r i by (cases "b = ?b") (auto simp: new receipt_at_by)
  then show ?thesis using i unfolding auth_inv_def same new(2-4) by blast
qed

text \<open>The verdict is on the receipt that was begun: its identity, owner and key stay.\<close>

definition same_subject :: "Receipt \<Rightarrow> Receipt \<Rightarrow> bool" where
  "same_subject r r' \<longleftrightarrow> rc_ID r' = rc_ID r \<and> rc_OwnerIdentity r' = rc_OwnerIdentity r \<and>
     rc_IdempotencyKey r' = rc_IdempotencyKey r \<and> rc_RequestDigest r' = rc_RequestDigest r \<and>
     rc_EffectDigest r' = rc_EffectDigest r"

lemma same_subject_trans: "same_subject a b \<Longrightarrow> same_subject b c \<Longrightarrow> same_subject a c"
  by (simp add: same_subject_def)

definition keeps :: "Receipt \<Rightarrow> ('a \<Rightarrow> Receipt) \<Rightarrow> Verdict + 'a \<Rightarrow> bool" where
  "keeps r f x \<longleftrightarrow> (case x of Inl v \<Rightarrow> same_subject r (fst v) | Inr y \<Rightarrow> same_subject r (f y))"

lemma keeps_then:
  assumes "keeps r f x" and "\<And>y. x = Inr y \<Longrightarrow> keeps (f y) g (k y)"
  shows "keeps r g (and_then x k)"
  using assms by (cases x) (auto simp: keeps_def and_then_def split: sum.splits intro: same_subject_trans)

lemma gates_keep:
  "keeps r id (stop_gate lib w r)" "keeps r id (workload_gate q r)" "keeps r id (framework_gate lib w q r)"
  "keeps r fst (constitution_gate w q r)" "keeps r id (autonomy_gate q r)" "keeps r fst (approval_gate w q r)"
  by (simp_all add: keeps_def same_subject_def stop_gate_def workload_gate_def framework_gate_def
      constitution_gate_def autonomy_gate_def approval_gate_def with_approval_def Let_def
      split: option.split sum.split prod.split)

lemma evaluateAgent_keeps: "same_subject r (fst (evaluateAgent w q r))"
  by (simp add: evaluateAgent_def same_subject_def Let_def split: option.split prod.split)

lemma agent_gate_keeps: "keeps r id (agent_gate w q r)"
proof -
  obtain r' e where e: "evaluateAgent w q r = (r', e)" by (cases "evaluateAgent w q r")
  have "same_subject r r'" using evaluateAgent_keeps [of r w q] by (simp add: e)
  then show ?thesis
    by (cases e) (simp_all add: keeps_def agent_gate_def e same_subject_def)
qed

lemma pure_gates_keep: "keeps r fst (pure_gates lib w q r)"
proof -
  let ?approval = "\<lambda>c r. and_then (approval_gate w q r) (\<lambda>(r, approval). Inr (r, c, approval))"
  let ?autonomy = "\<lambda>c r. and_then (autonomy_gate q r) (?approval c)"
  let ?agent = "\<lambda>c r. and_then (agent_gate w q r) (?autonomy c)"
  let ?constitution = "\<lambda>r. and_then (constitution_gate w q r) (\<lambda>(r, c). ?agent c r)"
  let ?framework = "\<lambda>r. and_then (framework_gate lib w q r) ?constitution"
  let ?workload = "\<lambda>r. and_then (workload_gate q r) ?framework"
  have "keeps r fst (?approval c r)" for r c
    by (rule keeps_then [OF gates_keep(6)]) (auto simp: keeps_def same_subject_def)
  then have "keeps r fst (?autonomy c r)" for r c
    by (intro keeps_then [OF gates_keep(5)]) (simp add: id_def)
  then have "keeps r fst (?agent c r)" for r c
    by (intro keeps_then [OF agent_gate_keeps]) (simp add: id_def)
  then have "keeps r fst (?constitution r)" for r
    by (intro keeps_then [OF gates_keep(4)]) (simp add: split_beta)
  then have "keeps r fst (?framework r)" for r
    by (intro keeps_then [OF gates_keep(3)]) (simp add: id_def)
  then have "keeps r fst (?workload r)" for r
    by (intro keeps_then [OF gates_keep(2)]) (simp add: id_def)
  then show ?thesis
    unfolding pure_gates_def by (intro keeps_then [OF gates_keep(1)]) (simp add: id_def)
qed

lemma evaluateMandate_keeps: "same_subject r (fst (snd (evaluateMandate lib w ms q approval r)))"
  by (simp add: evaluateMandate_def conclude_mandate_def same_subject_def
      split: option.split sum.split prod.split DecisionOutcome.split)

lemma evaluate_request_keeps: "same_subject r (fst (snd (evaluate_request lib w ms q r)))"
proof (cases "pure_gates lib w q r")
  case (Inl v)
  then show ?thesis using pure_gates_keep [of r lib w q] by (simp add: evaluate_request_def keeps_def)
next
  case (Inr x)
  obtain r1 c approval where x: "x = (r1, c, approval)" by (cases x)
  have r1: "same_subject r r1" using pure_gates_keep [of r lib w q] by (simp add: Inr x keeps_def)
  obtain ms' r2 answer where a: "claimed_mandate lib w ms q approval r1 = (ms', r2, answer)" by (rule prod_cases3)
  have "same_subject r1 (fst (snd (claimed_mandate lib w ms q approval r1)))"
    using evaluateMandate_keeps by (simp add: claimed_mandate_def same_subject_def)
  then have "same_subject r1 r2" unfolding a by simp
  moreover have "fst (snd (evaluate_request lib w ms q r)) = r2"
    by (cases answer) (simp_all add: evaluate_request_def Inr x mandate_gate_def a final_gate_def)
  ultimately show ?thesis using r1 same_subject_trans by simp
qed

lemma finish_keeps: "same_subject (fst v) (finish_receipt lib v)"
  by (simp add: finish_receipt_def same_subject_def Let_def split: prod.split)

text \<open>What is stored under a key is the receipt that was decided first.\<close>

lemma decided_receipt:
  assumes "evaluate_request lib w ms q (first_receipt w q h) = (ms', verdict)"
  shows "same_subject (first_receipt w q h) (finish_receipt lib verdict)"
  using evaluate_request_keeps [of "first_receipt w q h" lib w ms q] finish_keeps [of verdict lib] same_subject_trans
  by (simp add: assms)

lemma Authorize_effect_inv:
  assumes "Authorize_effect lib w s input = (res, s')" and "fresh_receipt lib w (st_auth s)"
    and "auth_inv lib (st_auth s)"
  shows "auth_inv lib (st_auth s')"
  using assms(1)
proof (cases rule: Authorize_effect_cases)
  case (decided q h verdict)
  let ?r = "finish_receipt lib verdict"
  have fresh: "rc_ID ?r = w_fresh_receipt w"
    using decided_receipt [OF decided(2)] by (simp add: same_subject_def first_receipt_def)
  from decided(3) show ?thesis
  proof (cases rule: persist_CreateOrGet)
    case (stored d old created)
    let ?s = "?r\<lparr>rc_DecisionDigest := d\<rparr>"
    from stored(3) show ?thesis
    proof (cases rule: CreateOrGet_cases)
      case created
      have "id_key lib ?s = ownerKey (rc_OwnerIdentity ?s) (al_uuid_text lib (w_fresh_receipt w))"
        using fresh by (simp add: id_key_def)
      then have "map_of (au_byID (st_auth s)) (id_key lib ?s) = None"
        using assms(2) by (simp only: fresh_receipt_def)
      from auth_inv_created [OF assms(3) created(2,3) this created(4-7)] show ?thesis .
    qed (use assms(3) in simp_all)
  qed (use assms(3) in simp)
qed (use assms(3) in simp)

lemma auth_step_inv:
  assumes "auth_step lib s s'" and "auth_inv lib (st_auth s)"
  shows "auth_inv lib (st_auth s')"
  using assms(1)
proof cases
  case (authorize w q res)
  then show ?thesis using Authorize_effect_inv assms(2) by blast
next
  case (consume w q r consumer target res)
  then show ?thesis
    by (cases rule: consume_receipt_cases) (auto simp: assms(2) intro: Consume_inv [OF assms(2)])
next
  case (exercise now q p a)
  then show ?thesis using assms(2) by (auto elim!: VerifyFinalEffectProof_Inr intro: ExerciseFinalEffect_inv)
qed (simp add: assms(2))

lemma auth_steps_inv: "(auth_step lib)\<^sup>*\<^sup>* s s' \<Longrightarrow> auth_inv lib (st_auth s) \<Longrightarrow> auth_inv lib (st_auth s')"
  by (induction rule: rtranclp_induct) (auto dest: auth_step_inv)

lemma reachable_auth_inv: "(auth_step lib)\<^sup>*\<^sup>* NewAuthState s \<Longrightarrow> auth_inv lib (st_auth s)"
  by (erule auth_steps_inv) (simp add: NewAuthState_def auth_inv_init)

lemma reachable_mandates: "(auth_step lib)\<^sup>*\<^sup>* NewAuthState s \<Longrightarrow> store_ok (st_mandates s)"
  using auth_steps_mandates [of lib NewAuthState s] mandate_steps_ok store_ok_init by (auto simp: NewAuthState_def)

text \<open>An answer is the receipt stored under the owner and key of the prepared request.\<close>

lemma Authorize_effect_stored:
  assumes "Authorize_effect lib w s input = (Inr r, s')"
  obtains q h where "prepare lib w input = Inr (q, h)" "rc_RequestDigest r = h"
    "map_of (au_receipts (st_auth s')) (ownerKey (rq_OwnerIdentity q) (rq_IdempotencyKey q)) = Some r"
  using assms
proof (cases rule: Authorize_effect_cases)
  case (decided q h verdict)
  let ?r = "finish_receipt lib verdict"
  have f: "rc_OwnerIdentity ?r = rq_OwnerIdentity q" "rc_IdempotencyKey ?r = rq_IdempotencyKey q" "rc_RequestDigest ?r = h"
    using decided_receipt [OF decided(2)] by (simp_all add: same_subject_def first_receipt_def)
  from decided(3) show thesis
  proof (cases rule: persist_CreateOrGet)
    case (stored d old created)
    from stored(3) have "map_of (au_receipts (st_auth s')) (receipt_key ?r) = Some old \<and> rc_RequestDigest old = h"
      using f(3) by (cases rule: CreateOrGet_cases) (auto simp: receipt_key_def)
    then show thesis using stored(2) decided(1) f by (intro that [of q h]) (simp_all add: receipt_key_def)
  qed simp
qed simp

end
