(* ===== verification/PathFacts.thy ===== *)
theory PathFacts
  imports AuthPolicies
begin

text \<open>
  Cleaned paths as lists of parts, and what an allowed folder is: a path below an allowed one, part by
  part.
\<close>

section \<open>Parts\<close>

definition part_ok :: "string \<Rightarrow> bool" where
  "part_ok p \<longleftrightarrow> p \<noteq> '''' \<and> p \<noteq> ''.'' \<and> CHR ''/'' \<notin> set p"

text \<open>The normal form: going up only at the start, and never from the root.\<close>

definition normal_parts :: "bool \<Rightarrow> string list \<Rightarrow> bool" where
  "normal_parts absolute ps \<longleftrightarrow> list_all part_ok ps \<and>
     (\<exists>n qs. ps = replicate n ''..'' @ qs \<and> ''..'' \<notin> set qs \<and> (absolute \<longrightarrow> n = 0))"

lemma normal_partsI:
  "ps = replicate n ''..'' @ qs \<Longrightarrow> ''..'' \<notin> set qs \<Longrightarrow> absolute \<longrightarrow> n = 0 \<Longrightarrow> list_all part_ok ps \<Longrightarrow>
     normal_parts absolute ps"
  unfolding normal_parts_def by blast

lemma split_slash_part: "CHR ''/'' \<notin> set p \<Longrightarrow> split_slash p = [p]"
  by (induction p) auto

lemma split_slash_append: "CHR ''/'' \<notin> set p \<Longrightarrow> split_slash (p @ CHR ''/'' # s) = p # split_slash s"
  by (induction p) auto

lemma split_slash_Join: "ps \<noteq> [] \<Longrightarrow> list_all part_ok ps \<Longrightarrow> split_slash (Join ps ''/'') = ps"
  by (induction ps "''/''" rule: Join.induct) (auto simp: part_ok_def split_slash_part split_slash_append)

lemma split_slash_free: "p \<in> set (split_slash s) \<Longrightarrow> CHR ''/'' \<notin> set p"
  by (induction s arbitrary: p rule: split_slash.induct) (auto split: if_splits list.splits)

lemma clean_parts_normal:
  assumes "\<forall>p \<in> set ps. CHR ''/'' \<notin> set p" and "normal_parts absolute (rev out)"
  shows "normal_parts absolute (clean_parts absolute out ps)"
  using assms
proof (induction absolute out ps rule: clean_parts.induct)
  case (2 absolute out p ps)
  have dots: "part_ok ''..''" by (simp add: part_ok_def)
  obtain n qs where out: "rev out = replicate n ''..'' @ qs" "''..'' \<notin> set qs" "absolute \<longrightarrow> n = 0"
    and ok: "list_all part_ok out" using 2(6) by (auto simp: normal_parts_def)
  consider (skip) "p = '''' \<or> p = ''.''" | (up) "p = ''..''" | (down) "p \<noteq> ''''" "p \<noteq> ''.''" "p \<noteq> ''..''" by blast
  then show ?case
  proof cases
    case skip
    then show ?thesis using 2 by auto
  next
    case up
    show ?thesis
    proof (cases out)
      case Nil
      have "normal_parts absolute (rev (if absolute then [] else [''..'']))"
        using dots by (auto simp: normal_parts_def intro: exI [of _ "0::nat"] exI [of _ "1::nat"])
      then show ?thesis using 2(2) 2(5) up Nil by simp
    next
      case (Cons q rest)
      have "normal_parts absolute (rev (if q = ''..'' then ''..'' # out else rest))"
      proof (cases "q = ''..''")
        case True
        with out(1,2) Cons have "qs = []" by (cases qs rule: rev_cases) auto
        with out Cons True have "rev (''..'' # out) = replicate (n + 1) ''..'' @ []" by (simp add: replicate_append_same)
        moreover have "\<not> absolute" using out Cons \<open>qs = []\<close> by auto
        ultimately show ?thesis using ok dots True by (intro normal_partsI [of _ "n + 1" "[]"]) (simp_all add: list_all_iff)
      next
        case False
        have "qs \<noteq> []"
        proof
          assume "qs = []"
          then have "q \<in> set (replicate n ''..'')" using out(1) Cons by (metis append_Nil2 in_set_conv_decomp rev.simps(2))
          with False show False by simp
        qed
        with out(1) Cons obtain rs where "qs = rs @ [q]" by (cases qs rule: rev_cases) auto
        with out Cons have "rev rest = replicate n ''..'' @ rs" "''..'' \<notin> set rs" by auto
        moreover have "list_all part_ok (rev rest)" using ok Cons by simp
        ultimately show ?thesis using False out(3) by (simp add: normal_partsI [of _ n rs])
      qed
      then show ?thesis using 2(3) [of q rest] 2(5) up Cons by (cases "q = ''..''") simp_all
    qed
  next
    case down
    have "rev (p # out) = replicate n ''..'' @ (qs @ [p])" "''..'' \<notin> set (qs @ [p])" using out down by auto
    moreover have "list_all part_ok (rev (p # out))" using ok down 2(5) by (simp add: part_ok_def)
    ultimately have "normal_parts absolute (rev (p # out))" using out(3) normal_partsI by blast
    then show ?thesis using 2(4,5) down by simp
  qed
qed simp

lemma cleaned_normal: "normal_parts (rooted s) (cleaned_parts s)"
  unfolding cleaned_parts_def
  by (rule clean_parts_normal) (auto simp: normal_parts_def dest: split_slash_free)

section \<open>Cleaning again\<close>

lemma clean_parts_skip:
  "list_all part_ok qs \<Longrightarrow> ''..'' \<notin> set qs \<Longrightarrow> clean_parts absolute out qs = rev out @ qs"
  by (induction qs arbitrary: out) (auto simp: part_ok_def)

lemma clean_parts_up:
  "clean_parts False (replicate m ''..'') (replicate n ''..'' @ qs) = clean_parts False (replicate (m + n) ''..'') qs"
proof (induction n arbitrary: m)
  case (Suc n)
  have "clean_parts False (replicate m ''..'') (''..'' # ps) = clean_parts False (replicate (m + 1) ''..'') ps" for ps
    by (cases m) (simp_all add: replicate_append_same)
  from this [of "replicate n ''..'' @ qs"] show ?case
    by (simp only: replicate_Suc append_Cons Suc.IH) (simp add: replicate_append_same)
qed simp

lemma clean_parts_idem:
  assumes "normal_parts absolute ps"
  shows "clean_parts absolute [] ps = ps"
proof -
  obtain n qs where ps: "ps = replicate n ''..'' @ qs" "''..'' \<notin> set qs" "absolute \<longrightarrow> n = 0" "list_all part_ok qs"
    using assms unfolding normal_parts_def by (metis list_all_append)
  show ?thesis
  proof (cases absolute)
    case True
    with ps show ?thesis by (simp add: clean_parts_skip)
  next
    case False
    with clean_parts_up [of 0 n qs] ps show ?thesis by (simp add: clean_parts_skip)
  qed
qed

lemma Join_nonempty: "ps \<noteq> [] \<Longrightarrow> list_all part_ok ps \<Longrightarrow>
    Join ps ''/'' \<noteq> '''' \<and> hd (Join ps ''/'') \<noteq> CHR ''/'' \<and> Join ps ''/'' \<noteq> ''.''"
proof (induction ps "''/''" rule: Join.induct)
  case (3 w v ws)
  then obtain c u where "w = c # u" "c \<noteq> CHR ''/''" by (cases w) (auto simp: part_ok_def)
  then show ?case by simp
next
  case (2 w)
  then show ?case by (cases w) (auto simp: part_ok_def)
qed simp

lemma cleaned_ok: "list_all part_ok (cleaned_parts s)"
  using cleaned_normal by (simp add: normal_parts_def)

lemma Clean_form:
  "rooted (Clean s) = rooted s"
  "path_elements (Clean s) = (if Clean s = ''.'' then [''.''] else cleaned_parts s)"
  "Clean s = ''.'' \<longleftrightarrow> \<not> rooted s \<and> cleaned_parts s = []"
proof -
  note j = Join_nonempty [OF _ cleaned_ok, of s] and split = split_slash_Join [OF _ cleaned_ok, of s]
  show "rooted (Clean s) = rooted s" "Clean s = ''.'' \<longleftrightarrow> \<not> rooted s \<and> cleaned_parts s = []"
    using j by (auto simp: Clean_def rooted_def)
  show "path_elements (Clean s) = (if Clean s = ''.'' then [''.''] else cleaned_parts s)"
  proof (cases "cleaned_parts s = []")
    case True
    then show ?thesis by (simp add: Clean_def path_elements_def rooted_def)
  next
    case False
    then have "Join (cleaned_parts s) ''/'' \<noteq> ''/''" using j by auto
    with j [OF False] split [OF False] show ?thesis
      by (cases "rooted s") (simp_all add: Clean_def False path_elements_def rooted_def)
  qed
qed

lemma split_Clean:
  "clean_parts (rooted s) [] (split_slash (Clean s)) = cleaned_parts s"
proof (cases "cleaned_parts s = []")
  case True
  then show ?thesis by (simp add: Clean_def)
next
  case False
  from split_slash_Join [OF False cleaned_ok] have "split_slash (Join (cleaned_parts s) ''/'') = cleaned_parts s" .
  with False clean_parts_idem [OF cleaned_normal [of s]] show ?thesis by (cases "rooted s") (simp_all add: Clean_def)
qed

lemma Clean_again: "cleaned_parts (Clean s) = cleaned_parts s" "Clean (Clean s) = Clean s"
proof -
  show p: "cleaned_parts (Clean s) = cleaned_parts s"
    by (simp add: cleaned_parts_def [of "Clean s"] Clean_form(1) split_Clean)
  show "Clean (Clean s) = Clean s" by (simp add: Clean_def [of "Clean s"] p Clean_form(1)) (simp add: Clean_def)
qed

lemma Clean_eq_iff: "Clean c = Clean d \<longleftrightarrow> rooted c = rooted d \<and> cleaned_parts c = cleaned_parts d"
proof
  assume eq: "Clean c = Clean d"
  show "rooted c = rooted d \<and> cleaned_parts c = cleaned_parts d"
    using Clean_form(1) [of c] Clean_form(1) [of d] Clean_again(1) [of c] Clean_again(1) [of d] by (simp add: eq)
qed (simp add: Clean_def)

section \<open>Folders\<close>

text \<open>A path that goes up.\<close>

lemma goes_up_iff:
  assumes "ps \<noteq> []" and "CHR ''/'' \<notin> set (hd ps)"
  shows "(Join ps ''/'' = ''..'' \<or> prefix ''../'' (Join ps ''/'')) \<longleftrightarrow> hd ps = ''..''"
proof (cases ps)
  case (Cons p qs)
  show ?thesis
  proof (cases qs)
    case Nil
    have "\<not> prefix ''../'' p" using assms(2) Cons set_mono_prefix by fastforce
    with Cons Nil show ?thesis by simp
  next
    case (Cons q rs)
    have "Join ps ''/'' = p @ CHR ''/'' # Join (q # rs) ''/''" by (simp add: \<open>ps = p # qs\<close> Cons)
    moreover have "prefix ''../'' (p @ CHR ''/'' # u) \<longleftrightarrow> p = ''..''" for u
    proof -
      have "CHR ''/'' \<notin> set p" using assms(2) \<open>ps = p # qs\<close> by simp
      then show ?thesis by (cases p; cases "tl p"; cases "tl (tl p)") auto
    qed
    moreover have "p @ CHR ''/'' # u \<noteq> ''..''" for u by (cases p; cases "tl p") auto
    ultimately show ?thesis by (simp add: \<open>ps = p # qs\<close>)
  qed
qed (use assms in simp)

lemma strip_common_append: "strip_common bs (bs @ ts) = ([], ts)"
  by (induction bs) simp_all

lemma strip_common_Nil: "strip_common bs ts = ([], rest) \<Longrightarrow> ts = bs @ rest"
  by (induction bs ts rule: strip_common.induct) (auto split: if_splits)

text \<open>The allowed folders are those that continue the parts of an allowed one, without going up.\<close>

lemma folder_within_iff:
  "folder_within d c \<longleftrightarrow> rooted c = rooted d \<and>
     (\<exists>rest. cleaned_parts c = cleaned_parts d @ rest \<and> (rest = [] \<or> hd rest \<noteq> ''..''))"
proof (cases "Clean c = Clean d")
  case True
  then show ?thesis by (auto simp: folder_within_def Rel_def Clean_again Clean_eq_iff [symmetric]) (auto simp: Clean_eq_iff)
next
  case differ: False
  let ?P = "cleaned_parts d" and ?Q = "cleaned_parts c"
  let ?base = "if Clean d = ''.'' then '''' else Clean d"
  have base: "rooted ?base = rooted d" "path_elements ?base = ?P"
    using Clean_form [of d] by (auto simp: rooted_def path_elements_def)
  show ?thesis
  proof (cases "rooted c = rooted d")
    case False
    then show ?thesis using differ base(1) by (simp add: folder_within_def Rel_def Clean_again Clean_form(1) Let_def)
  next
    case same: True
    have noslash: "p \<in> set ?Q \<Longrightarrow> CHR ''/'' \<notin> set p" for p
      using cleaned_ok [of c] unfolding list_all_iff part_ok_def by blast
    define T where "T = (if Clean c = ''.'' then [''.''] else ?Q)"
    have rel: "Rel (Clean d) (Clean c) =
        (case strip_common ?P T of ([], ts) \<Rightarrow> Some (Join ts ''/'')
         | (b # bs, ts) \<Rightarrow> if b = ''..'' \<and> ts \<noteq> [] then None
             else Some (Join (replicate (length (b # bs)) ''..'' @ ts) ''/''))"
      using same differ
      by (simp only: Rel_def Clean_again(2) Let_def base Clean_form(1) Clean_form(2) [of c] T_def if_False simp_thms)
    obtain bs ts where strip: "strip_common ?P T = (bs, ts)" by fastforce
    show ?thesis
    proof (cases bs)
      case Nil
      then have T: "T = ?P @ ts" using strip strip_common_Nil by simp
      have "ts \<noteq> []"
      proof
        assume "ts = []"
        with T have "T = ?P" by simp
        moreover have "[''.''] \<noteq> ?P" using cleaned_ok [of d] by (metis list_all_iff list.set_intros(1) part_ok_def)
        ultimately show False using same differ by (auto simp: T_def Clean_eq_iff split: if_splits)
      qed
      moreover have "CHR ''/'' \<notin> set (hd ts)"
        using noslash \<open>ts \<noteq> []\<close> T
        by (cases ts) (auto simp: T_def Cons_eq_append_conv split: if_splits)
      ultimately have "folder_within d c \<longleftrightarrow> hd ts \<noteq> ''..''"
        using goes_up_iff [of ts] by (auto simp: folder_within_def rel strip Nil)
      then show ?thesis using T same \<open>ts \<noteq> []\<close> Clean_form(3) [of c] Clean_form(3) [of d] differ cleaned_ok [of d]
        by (auto simp: T_def part_ok_def Cons_eq_append_conv split: if_splits)
    next
      case (Cons b bs')
      have up: "Join (''..'' # us) ''/'' = ''..'' \<or> prefix ''../'' (Join (''..'' # us) ''/'')" for us
        by (subst goes_up_iff) simp_all
      have "\<not> folder_within d c"
        using up [of "replicate (length bs') ''..'' @ ts"] by (auto simp: folder_within_def rel strip Cons)
      moreover have "?Q \<noteq> ?P @ rest" for rest
      proof
        assume q: "?Q = ?P @ rest"
        show False
        proof (cases "Clean c = ''.''")
          case True
          with q Clean_form(3) [of c] have "?Q = []" "?P = []" by auto
          with same differ show False by (simp add: Clean_eq_iff)
        next
          case False
          then have "strip_common ?P T = ([], rest)" by (simp add: T_def q strip_common_append)
          with strip Cons show False by simp
        qed
      qed
      ultimately show ?thesis by blast
    qed
  qed
qed

end
