(* ===== verification/AuthFacts.thy ===== *)
theory AuthFacts
  imports AuthRun PathFacts
begin

text \<open>
  What must hold for an effect to be authorised, stated boundary by boundary without the service's order of
  checks, and that the service decides exactly that.
\<close>

section \<open>What authorises an effect\<close>

definition workload_registered :: "AuthRequest \<Rightarrow> bool" where
  "workload_registered q \<longleftrightarrow> (\<exists>p \<in> set builtInSystemWorkloadPolicies. wp_ActorIdentity p = rq_ActorIdentity q \<and>
     effect_matches p q \<and> classification_matches p q \<and>
     (wp_ID p = ''local-model-maintenance-v1'' \<longrightarrow> rq_ToolID q = rq_RuntimeID q))"

definition frameworks_verified :: "World \<Rightarrow> AuthRequest \<Rightarrow> bool" where
  "frameworks_verified w q \<longleftrightarrow> (\<forall>g. rq_Governance q = Some g \<and> gv_SelectorVersion g = selector_v5 \<longrightarrow>
     (\<exists>resolve s. w_frameworks w = Some resolve \<and> resolve (rq_OwnerIdentity q) (gv_SelectionID g) = Some s \<and>
        selection_matches s g))"

definition sources_verified :: "AuthLib \<Rightarrow> World \<Rightarrow> AuthRequest \<Rightarrow> bool" where
  "sources_verified lib w q \<longleftrightarrow> (\<forall>g. rq_Governance q = Some g \<and> gv_SelectorVersion g = selector_v5 \<longrightarrow>
     exact_digest (gv_PreflightDigest g) \<and> gv_PreflightDigest g = ToLower (TrimSpace (gv_PreflightDigest g)) \<and>
     (\<exists>resolve p. w_preflights w = Some resolve \<and>
        resolve (rq_OwnerIdentity q) (gv_TaskPlanID g) (gv_SelectionID g) (gv_PreflightDigest g) = Some p \<and>
        pf_OwnerIdentity p = rq_OwnerIdentity q \<and> pf_TaskPlanID p = gv_TaskPlanID g \<and>
        pf_SelectionID p = gv_SelectionID g \<and> pf_Digest p = gv_PreflightDigest g \<and> pf_Status p = ''passed'' \<and>
        verifySourceEvidenceClaims lib w (rq_OwnerIdentity q) (pf_AssertionsJSON p) \<noteq> None))"

definition constitution_of :: "World \<Rightarrow> AuthRequest \<Rightarrow> ConstitutionDecision option" where
  "constitution_of w q = w_constitution w (rq_OwnerIdentity q) (deriveCapabilities q) (rq_RequiredAuthority q)"

definition constitution_allows :: "World \<Rightarrow> AuthRequest \<Rightarrow> bool" where
  "constitution_allows w q \<longleftrightarrow> (\<exists>c. constitution_of w q = Some c \<and> cd_DeniedCapabilities c = [] \<and>
     rq_RequiredAuthority q \<le> cd_AuthorityCeiling c)"

text \<open>The candidate folder continues the parts of an allowed one without going up.\<close>

definition below :: "string \<Rightarrow> string \<Rightarrow> bool" where
  "below d c \<longleftrightarrow> rooted c = rooted d \<and>
     (\<exists>rest. cleaned_parts c = cleaned_parts d @ rest \<and> (rest = [] \<or> hd rest \<noteq> ''..''))"

definition agent_covers :: "World \<Rightarrow> AuthRequest \<Rightarrow> RegisteredAgent \<Rightarrow> Assignment \<Rightarrow> bool" where
  "agent_covers w q a g \<longleftrightarrow>
     an_OwnerIdentity g = rq_OwnerIdentity q \<and> an_TaskID g = rq_TaskID q \<and> an_AgentID g = rq_AgentID q \<and>
     \<not> agent_unhealthy w a \<and>
     rq_RequiredAuthority q \<le> min (an_GrantedAuthority g) (gt_AuthorityCeiling a) \<and>
     rq_RequestedAutonomy q \<le> min (an_GrantedAutonomy g) (gt_AutonomyCeiling a) \<and>
     (rq_RuntimeID q = '''' \<or> EqualFold (rq_RuntimeID q) (gt_RuntimeID a)) \<and>
     (rq_ToolID q = '''' \<or> containsFold (gt_ToolAllowlist a) (rq_ToolID q)) \<and>
     (\<forall>scope \<in> set (rq_DataScopes q). containsFold (gt_DataAllowlist a) scope) \<and>
     (\<forall>c \<in> set (rq_FolderPaths q). \<exists>d \<in> set (gt_FolderAllowlist a). below d c)"

definition agent_allows :: "World \<Rightarrow> AuthRequest \<Rightarrow> bool" where
  "agent_allows w q \<longleftrightarrow> (\<exists>agents assignments a g. w_agents w = Some (agents, assignments) \<and>
     assignments (rq_OwnerIdentity q) (rq_AssignmentID q) = Some g \<and>
     agents (rq_OwnerIdentity q) (rq_AgentID q) = Some a \<and> agent_covers w q a g)"

definition boundaries_allow :: "AuthLib \<Rightarrow> World \<Rightarrow> AuthRequest \<Rightarrow> bool" where
  "boundaries_allow lib w q \<longleftrightarrow>
     \<not> es_Active (w_stop w) \<and> (rq_ActorKind q = ActorSystem \<longrightarrow> workload_registered q) \<and>
     frameworks_verified w q \<and> sources_verified lib w q \<and> constitution_allows w q \<and>
     (rq_ActorKind q = ActorAgent \<longrightarrow> agent_allows w q) \<and> 6 \<le> rq_RequestedAutonomy q"

text \<open>
  The standing authority: the answer of the mandate the request names, which does not depend on the receipt.
\<close>

definition standing_answer ::
  "AuthLib \<Rightarrow> World \<Rightarrow> MandateStore \<Rightarrow> AuthRequest \<Rightarrow> ResolvedApproval option \<Rightarrow> string + bool" where
  "standing_answer lib w ms q approval =
     snd (snd (claimed_mandate lib w ms q approval (first_receipt w q '''')))"

text \<open>The approvals that are needed: \<open>approval\<close> the resolved one, \<open>standing\<close> that of a mandate.\<close>

definition approvals_suffice ::
  "AuthRequest \<Rightarrow> ConstitutionDecision \<Rightarrow> ResolvedApproval option \<Rightarrow> bool \<Rightarrow> bool" where
  "approvals_suffice q c approval standing \<longleftrightarrow>
     (framework_requires_approval q \<or> rq_RequestedAutonomy q = 6 \<longrightarrow> approval \<noteq> None) \<and>
     (rq_RequestedAutonomy q \<in> {7, 10} \<longrightarrow> standing) \<and>
     (approval_required q c \<longrightarrow> approval \<noteq> None \<or> standing)"

definition may_execute :: "AuthLib \<Rightarrow> World \<Rightarrow> MandateStore \<Rightarrow> AuthRequest \<Rightarrow> bool" where
  "may_execute lib w ms q \<longleftrightarrow> boundaries_allow lib w q \<and>
     (\<exists>c approval standing. constitution_of w q = Some c \<and> resolveApproval w q (w_now w) = Inr approval \<and>
        standing_answer lib w ms q approval = Inr standing \<and> approvals_suffice q c approval standing)"

section \<open>The boundaries\<close>

lemma first_problem_None_iff: "first_problem ps = None \<longleftrightarrow> (\<forall>p \<in> set ps. p = None)"
  by (induction ps rule: first_problem.induct) (auto split: option.splits)

lemma scan_policies_find:
  "snd (snd (scan_policies q actor effect ps)) =
     find (\<lambda>p. wp_ActorIdentity p = rq_ActorIdentity q \<and> effect_matches p q \<and> classification_matches p q) ps"
  by (induction q actor effect ps rule: scan_policies.induct) auto

lemma scan_policies_found:
  "snd (snd (scan_policies q actor effect ps)) = Some p \<Longrightarrow> scan_policies q actor effect ps = (True, True, Some p)"
  by (induction q actor effect ps rule: scan_policies.induct) (auto split: if_splits)

lemma evaluateSystemWorkload_found:
  "snd (evaluateSystemWorkload q) = None \<longleftrightarrow>
     (\<exists>p. find (\<lambda>p. wp_ActorIdentity p = rq_ActorIdentity q \<and> effect_matches p q \<and> classification_matches p q)
        builtInSystemWorkloadPolicies = Some p \<and>
        (wp_ID p = ''local-model-maintenance-v1'' \<longrightarrow> rq_ToolID q = rq_RuntimeID q))"
proof -
  note find = scan_policies_find [of q False False builtInSystemWorkloadPolicies]
  show ?thesis
  proof (cases "snd (snd (scan_policies q False False builtInSystemWorkloadPolicies))")
    case None
    then show ?thesis unfolding find [symmetric] by (auto simp: evaluateSystemWorkload_def Let_def split: prod.split)
  next
    case (Some p)
    then show ?thesis
      unfolding find [symmetric] by (simp add: evaluateSystemWorkload_def Let_def scan_policies_found [OF Some])
  qed
qed

lemma maintenance_policy:
  assumes "p \<in> set builtInSystemWorkloadPolicies" and "wp_ActorIdentity p = wp_ActorIdentity p'"
    and "p' \<in> set builtInSystemWorkloadPolicies" and "wp_ID p' = ''local-model-maintenance-v1''"
  shows "p = p'"
proof -
  let ?m = "last builtInSystemWorkloadPolicies"
  have one: "filter (\<lambda>p. wp_ID p = ''local-model-maintenance-v1'') builtInSystemWorkloadPolicies = [?m]"
    "filter (\<lambda>p. wp_ActorIdentity p = wp_ActorIdentity ?m) builtInSystemWorkloadPolicies = [?m]" by code_simp+
  have "p' \<in> set (filter (\<lambda>p. wp_ID p = ''local-model-maintenance-v1'') builtInSystemWorkloadPolicies)"
    using assms(3,4) by simp
  then have p': "p' = ?m" unfolding one by simp
  have "p \<in> set (filter (\<lambda>p. wp_ActorIdentity p = wp_ActorIdentity ?m) builtInSystemWorkloadPolicies)"
    using assms(1,2) unfolding p' by simp
  then show ?thesis unfolding one p' by simp
qed

lemma evaluateSystemWorkload_iff: "snd (evaluateSystemWorkload q) = None \<longleftrightarrow> workload_registered q"
proof -
  let ?P = "\<lambda>p. wp_ActorIdentity p = rq_ActorIdentity q \<and> effect_matches p q \<and> classification_matches p q"
  show ?thesis
  proof (cases "find ?P builtInSystemWorkloadPolicies")
    case None
    then have "\<not> workload_registered q" unfolding workload_registered_def find_None_iff by auto
    then show ?thesis unfolding evaluateSystemWorkload_found None by simp
  next
    case (Some p)
    then obtain i where "i < length builtInSystemWorkloadPolicies" "?P p" "p = builtInSystemWorkloadPolicies ! i"
      by (auto simp: find_Some_iff)
    then have p: "p \<in> set builtInSystemWorkloadPolicies" "?P p" by simp_all
    have "p' = p" if "p' \<in> set builtInSystemWorkloadPolicies" "?P p'" "wp_ID p = ''local-model-maintenance-v1''" for p'
      using maintenance_policy [OF that(1) _ p(1) that(3)] p(2) that(2) by simp
    with p have "workload_registered q \<longleftrightarrow> (wp_ID p = ''local-model-maintenance-v1'' \<longrightarrow> rq_ToolID q = rq_RuntimeID q)"
      unfolding workload_registered_def by metis
    then show ?thesis unfolding evaluateSystemWorkload_found Some by simp
  qed
qed

text \<open>A gate goes on exactly where its condition holds, and its verdict never authorises.\<close>

definition gate :: "Verdict + 'a \<Rightarrow> bool \<Rightarrow> bool" where
  "gate x c \<longleftrightarrow> (case x of Inl v \<Rightarrow> \<not> c \<and> fst (snd v) \<noteq> OutcomeAuthorized | Inr y \<Rightarrow> c)"

lemma gate_then:
  assumes "gate x c" and "\<And>y. x = Inr y \<Longrightarrow> gate (k y) d"
  shows "gate (and_then x k) (c \<and> d)"
  using assms by (cases x) (auto simp: gate_def split: sum.splits)

lemma gate_end: "gate (Inr y) True"
  by (simp add: gate_def)

lemma stop_gate_iff: "gate (stop_gate lib w r) (\<not> es_Active (w_stop w))"
  by (simp add: gate_def stop_gate_def Let_def)

lemma workload_gate_iff: "gate (workload_gate q r) (rq_ActorKind q = ActorSystem \<longrightarrow> workload_registered q)"
proof -
  obtain we e where "evaluateSystemWorkload q = (we, e)" by fastforce
  with evaluateSystemWorkload_iff [of q] show ?thesis by (cases e) (auto simp: gate_def workload_gate_def Let_def)
qed

lemma verifyFrameworkSelection_iff: "verifyFrameworkSelection w q e \<noteq> None \<longleftrightarrow> frameworks_verified w q"
  by (auto simp: verifyFrameworkSelection_def frameworks_verified_def split: option.splits)

lemma preflight_resolved_iff:
  assumes "rq_Governance q = Some g" and "gv_SelectorVersion g = selector_v5"
  shows "(\<exists>y. verifyPreflight lib w q e = Inr y) \<longleftrightarrow> sources_verified lib w q"
proof -
  let ?digest = "exact_digest (gv_PreflightDigest g) \<and> gv_PreflightDigest g = ToLower (TrimSpace (gv_PreflightDigest g))"
  have e: "\<not> exact_digest ''''" by (simp add: exact_digest_def)
  show ?thesis
  proof (cases ?digest)
    case False
    then show ?thesis using assms by (auto simp: verifyPreflight_def sources_verified_def)
  next
    case True
    with e have "gv_PreflightDigest g \<noteq> ''''" by metis
    note d = this True
    show ?thesis
    proof (cases "w_preflights w")
      case None
      then show ?thesis using assms d by (simp add: verifyPreflight_def sources_verified_def)
    next
      case (Some resolve)
      note r = this
      show ?thesis
      proof (cases "resolve (rq_OwnerIdentity q) (gv_TaskPlanID g) (gv_SelectionID g) (gv_PreflightDigest g)")
        case None
        then show ?thesis using assms d r by (simp add: verifyPreflight_def sources_verified_def)
      next
        case (Some p)
        show ?thesis
          by (cases "verifySourceEvidenceClaims lib w (rq_OwnerIdentity q) (pf_AssertionsJSON p)")
            (use assms d r Some in \<open>auto simp: verifyPreflight_def sources_verified_def\<close>)
      qed
    qed
  qed
qed

lemma verifyPreflight_iff: "(\<exists>y. verifyPreflight lib w q e = Inr y) \<longleftrightarrow> sources_verified lib w q"
proof (cases "\<exists>g. rq_Governance q = Some g \<and> gv_SelectorVersion g = selector_v5")
  case True
  then show ?thesis using preflight_resolved_iff by blast
next
  case False
  then have "verifyPreflight lib w q e = Inr e" by (auto simp: verifyPreflight_def split: option.split)
  with False show ?thesis by (auto simp: sources_verified_def)
qed

lemma framework_gate_iff: "gate (framework_gate lib w q r) (frameworks_verified w q \<and> sources_verified lib w q)"
proof (cases "verifyFrameworkSelection w q (rc_Evidence r)")
  case None
  with verifyFrameworkSelection_iff [of w q "rc_Evidence r"] show ?thesis by (auto simp: gate_def framework_gate_def)
next
  case (Some e)
  with verifyFrameworkSelection_iff [of w q] have f: "frameworks_verified w q" by auto
  show ?thesis
  proof (cases "verifyPreflight lib w q e")
    case (Inl b)
    then show ?thesis using verifyPreflight_iff [of lib w q e] by (cases b) (simp_all add: gate_def framework_gate_def Some)
  next
    case (Inr y)
    then show ?thesis using verifyPreflight_iff [of lib w q e] f by (simp add: gate_def framework_gate_def Some)
  qed
qed

lemma constitution_gate_iff: "gate (constitution_gate w q r) (constitution_allows w q)"
  by (cases "constitution_of w q")
    (auto simp: gate_def constitution_gate_def constitution_allows_def constitution_of_def Let_def)

lemma foldersAllowed_iff: "foldersAllowed allowed requested \<longleftrightarrow> (\<forall>c \<in> set requested. \<exists>d \<in> set allowed. below d c)"
  by (simp add: foldersAllowed_def list_all_iff list_ex_iff folder_within_iff below_def)

lemma agent_covers_iff: "agent_covers w q a g \<longleftrightarrow> agent_refused w q a g = None \<and> agent_reach q a = None"
  by (auto simp: agent_covers_def agent_refused_def agent_reach_def foldersAllowed_iff containsAllFold_def list_all_iff)

lemma evaluateAgent_iff: "snd (evaluateAgent w q r) = None \<longleftrightarrow> agent_allows w q"
proof (cases "w_agents w")
  case None
  then show ?thesis by (simp add: evaluateAgent_def agent_allows_def)
next
  case (Some p)
  obtain agents assignments where p: "p = (agents, assignments)" by (cases p)
  show ?thesis
  proof (cases "assignments (rq_OwnerIdentity q) (rq_AssignmentID q)")
    case None
    then show ?thesis by (simp add: evaluateAgent_def agent_allows_def Some p)
  next
    case g: (Some g)
    show ?thesis
    proof (cases "agents (rq_OwnerIdentity q) (rq_AgentID q)")
      case None
      then show ?thesis by (simp add: evaluateAgent_def agent_allows_def Some p g)
    next
      case a: (Some a)
      show ?thesis
        by (cases "agent_refused w q a g") (simp_all add: evaluateAgent_def agent_allows_def Some p g a agent_covers_iff Let_def)
    qed
  qed
qed

lemma agent_gate_iff: "gate (agent_gate w q r) (rq_ActorKind q = ActorAgent \<longrightarrow> agent_allows w q)"
proof -
  obtain r' e where "evaluateAgent w q r = (r', e)" by fastforce
  with evaluateAgent_iff [of w q r] show ?thesis by (cases e) (auto simp: gate_def agent_gate_def)
qed

lemma autonomy_gate_iff: "gate (autonomy_gate q r) (6 \<le> rq_RequestedAutonomy q)"
  by (simp add: gate_def autonomy_gate_def)

definition approval_resolved :: "World \<Rightarrow> AuthRequest \<Rightarrow> bool" where
  "approval_resolved w q \<longleftrightarrow> (\<exists>approval. resolveApproval w q (w_now w) = Inr approval \<and>
     (framework_requires_approval q \<longrightarrow> approval \<noteq> None))"

lemma approval_gate_iff: "gate (approval_gate w q r) (approval_resolved w q)"
  by (cases "resolveApproval w q (w_now w)") (auto simp: gate_def approval_gate_def approval_resolved_def Let_def)

lemma pure_gates_iff: "gate (pure_gates lib w q r) (boundaries_allow lib w q \<and> approval_resolved w q)"
proof -
  have a: "gate (and_then (approval_gate w q r) (\<lambda>(r, approval). Inr (r, c, approval))) (approval_resolved w q)" for r and c :: 'a
    using gate_then [OF approval_gate_iff, of w q r "\<lambda>(r, approval). Inr (r, c, approval)" True]
    by (simp add: gate_end split_beta)
  show ?thesis
    unfolding pure_gates_def boundaries_allow_def
    by (rule subst [where P = "gate _", rotated],
        rule gate_then [OF stop_gate_iff], rule gate_then [OF workload_gate_iff],
        rule gate_then [OF framework_gate_iff], rule gate_then [OF constitution_gate_iff], clarsimp,
        rule gate_then [OF agent_gate_iff], rule gate_then [OF autonomy_gate_iff], rule a, blast)
qed

section \<open>The decision\<close>

text \<open>What the boundaries leave to the mandate is what the services answered.\<close>

lemma constitution_gate_answer: "constitution_gate w q r = Inr (r', c) \<Longrightarrow> constitution_of w q = Some c"
  by (auto simp: constitution_gate_def constitution_of_def Let_def split: option.splits if_splits)

lemma approval_gate_answer: "approval_gate w q r = Inr (r', approval) \<Longrightarrow> resolveApproval w q (w_now w) = Inr approval"
  by (auto simp: approval_gate_def Let_def split: sum.splits if_splits)

lemma pure_gates_answer:
  assumes "pure_gates lib w q r = Inr (r', c, approval)"
  shows "constitution_of w q = Some c" and "resolveApproval w q (w_now w) = Inr approval"
  using assms by (auto simp: pure_gates_def and_then_Inr_iff split_beta
      dest!: constitution_gate_answer approval_gate_answer)

text \<open>The answer of a mandate does not depend on the receipt.\<close>

lemma conclude_mandate_answer: "snd (conclude_mandate lib d r) = snd (conclude_mandate lib d r')"
  by (simp add: conclude_mandate_def)

lemma claimed_mandate_answer: "snd (snd (claimed_mandate lib w ms q approval r)) = standing_answer lib w ms q approval"
  unfolding standing_answer_def claimed_mandate_def evaluateMandate_def
  by (simp split: option.split sum.split prod.split DecisionOutcome.split add: conclude_mandate_answer)

lemma final_gate_iff:
  "fst (snd (final_gate q c approval standing r)) = OutcomeAuthorized \<longleftrightarrow>
     (rq_RequestedAutonomy q = 6 \<longrightarrow> approval \<noteq> None) \<and> (approval_required q c \<longrightarrow> approval \<noteq> None \<or> standing)"
  by (simp add: final_gate_def)

lemma mandate_gate_outcome:
  "(framework_requires_approval q \<longrightarrow> approval \<noteq> None) \<Longrightarrow> (case mandate_gate lib w ms q approval r of
      (ms, Inl verdict) \<Rightarrow> (ms, verdict)
    | (ms, Inr (r, standing)) \<Rightarrow> (ms, final_gate q c approval standing r)) = (ms', verdict) \<Longrightarrow>
   fst (snd verdict) = OutcomeAuthorized \<longleftrightarrow>
     (\<exists>standing. standing_answer lib w ms q approval = Inr standing \<and> approvals_suffice q c approval standing)"
proof -
  assume f: "framework_requires_approval q \<longrightarrow> approval \<noteq> None"
  obtain ms1 r1 answer where m: "claimed_mandate lib w ms q approval r = (ms1, r1, answer)" by (rule prod_cases3)
  have a: "standing_answer lib w ms q approval = answer"
    using claimed_mandate_answer [of lib w ms q approval r] by (simp add: m)
  assume v: "(case mandate_gate lib w ms q approval r of
      (ms, Inl verdict) \<Rightarrow> (ms, verdict)
    | (ms, Inr (r, standing)) \<Rightarrow> (ms, final_gate q c approval standing r)) = (ms', verdict)"
  show ?thesis
  proof (cases answer)
    case (Inl e)
    with v have "fst (snd verdict) = OutcomeDenied" by (auto simp: mandate_gate_def m)
    then show ?thesis by (simp add: a Inl)
  next
    case (Inr standing)
    show ?thesis
    proof (cases "rq_RequestedAutonomy q \<in> {7, 10} \<and> \<not> standing")
      case True
      with v have "fst (snd verdict) = OutcomeRequiresApproval" by (auto simp: mandate_gate_def m Inr)
      then show ?thesis using True by (auto simp: a Inr approvals_suffice_def)
    next
      case False
      with v have "verdict = final_gate q c approval standing r1" by (auto simp: mandate_gate_def m Inr)
      then show ?thesis using False f by (auto simp: a Inr final_gate_iff approvals_suffice_def)
    qed
  qed
qed

lemma evaluate_request_outcome:
  assumes "evaluate_request lib w ms q r = (ms', verdict)"
  shows "fst (snd verdict) = OutcomeAuthorized \<longleftrightarrow> may_execute lib w ms q"
proof (cases "pure_gates lib w q r")
  case (Inl v)
  then have "\<not> (boundaries_allow lib w q \<and> approval_resolved w q)" "fst (snd v) \<noteq> OutcomeAuthorized"
    using pure_gates_iff [of lib w q r] by (simp_all add: gate_def)
  moreover from this have "\<not> may_execute lib w ms q"
    unfolding may_execute_def approval_resolved_def approvals_suffice_def by blast
  ultimately show ?thesis using assms by (simp add: evaluate_request_def Inl)
next
  case (Inr x)
  obtain r1 c approval where x: "x = (r1, c, approval)" by (rule prod_cases3)
  have ok: "boundaries_allow lib w q" "approval_resolved w q"
    using pure_gates_iff [of lib w q r] by (simp_all add: gate_def Inr)
  note answers = pure_gates_answer [OF Inr [unfolded x]]
  from ok(2) answers(2) have "framework_requires_approval q \<longrightarrow> approval \<noteq> None"
    by (auto simp: approval_resolved_def)
  moreover have "may_execute lib w ms q \<longleftrightarrow>
      (\<exists>standing. standing_answer lib w ms q approval = Inr standing \<and> approvals_suffice q c approval standing)"
    unfolding may_execute_def answers using ok(1) by simp
  moreover note mandate_gate_outcome [OF _ assms [unfolded evaluate_request_def Inr x sum.case prod.case]]
  ultimately show ?thesis by simp
qed

end
