(* ===== verification/AuthDemo.thy ===== *)
theory AuthDemo
  imports AuthFacts MandateTheorems
begin

text \<open>
  A concrete service of execution authorisation for the witnesses: the registered local worker and an agent
  task under an approval, with what the service decides on them.
\<close>

section \<open>Services and requests\<close>

definition demo_digest :: string where "demo_digest = replicate 64 (CHR ''a'')"

definition demo_uuid_text :: "uuid \<Rightarrow> string" where
  "demo_uuid_text k = (if k = 7 then ''seven'' else if k = 9 then ''nine'' else if k = 11 then ''eleven'' else ''other'')"

definition demo_parse_uuid :: "string \<Rightarrow> uuid option" where
  "demo_parse_uuid s = (if s = ''seven'' then Some 7 else if s = ''nine'' then Some 9
     else if s = ''eleven'' then Some 11 else None)"

definition demo_alib :: AuthLib where
  "demo_alib = \<lparr>al_redact = (\<lambda>s. s), al_redact_url = (\<lambda>s. s), al_parse_uuid = demo_parse_uuid,
     al_uuid_text = demo_uuid_text, al_hash_request = (\<lambda>q. Some demo_digest),
     al_hash_receipt = (\<lambda>r. Some demo_digest), al_hash_claims = (\<lambda>c. Some demo_digest),
     al_hash_snapshot = (\<lambda>s. demo_digest), al_sha256 = (\<lambda>s. demo_digest), al_hash_final = (\<lambda>q. demo_digest),
     al_assertions = (\<lambda>s. None), al_mandates = demo_mlib\<rparr>"

definition demo_approval :: ResolvedApproval where
  "demo_approval = \<lparr>ra_SourceID = ''review-1'', ra_DecisionID = ''decision-1'', ra_DecisionDigest = demo_digest,
     ra_BindingDigest = demo_digest, ra_ApprovedBy = ''owner'', ra_ApproverRoles = [], ra_ApprovedAt = 50,
     ra_ExpiresAt = 1000\<rparr>"

definition demo_world :: World where
  "demo_world = \<lparr>w_stop = \<lparr>es_Active = False, es_Source = ''none'', es_Reason = ''''\<rparr>,
     w_constitution = (\<lambda>owner capabilities authority. Some \<lparr>cd_ID = ''c'', cd_Version = 1, cd_Source = ''s'',
       cd_Digest = demo_digest, cd_AuthorityCeiling = 10, cd_DeniedCapabilities = [],
       cd_ApprovalRequiredCapabilities = []\<rparr>),
     w_mandates = True, w_agents = None, w_approvals = Some (\<lambda>owner source binding. Some demo_approval), w_frameworks = None, w_preflights = None,
     w_sources = None, w_now = 100, w_now_claims = 100, w_now_agent = 100, w_now_mandate = 100, w_now_approval = 100,
     w_now_consumed = 100, w_mandate_now1 = 40, w_mandate_now2 = 40, w_fresh_receipt = 11, w_fresh_decision1 = 9,
     w_fresh_decision2 = 9\<rparr>"

text \<open>The registered local worker, and a human under a mandate.\<close>

definition demo_worker :: "string \<Rightarrow> AuthRequest" where
  "demo_worker action = \<lparr>rq_OwnerIdentity = ''owner'', rq_IdempotencyKey = ''key-1'',
     rq_ActorIdentity = ''system:phase2-safe-worker'', rq_ActorKind = ActorSystem, rq_TaskID = ''task-1'',
     rq_Action = action, rq_Stage = StageExecution, rq_ResourceType = ''executionbroker.final-effect'',
     rq_ResourceID = '''', rq_ProjectKey = '''', rq_Domain = '''', rq_ToolID = ''phase2-local-safe-worker'',
     rq_RuntimeID = ''hai-local-safe-worker'', rq_DataScopes = [], rq_FolderPaths = [], rq_RequiredAuthority = 1,
     rq_RequestedAutonomy = 8, rq_Risk = ''low'', rq_Reversible = True, rq_EstimatedCostEUR = Fin 0,
     rq_MandateID = '''', rq_AgentID = '''', rq_AssignmentID = '''', rq_ApprovalSourceID = '''',
     rq_ApprovalBindingDigest = '''', rq_EffectDigest = demo_digest, rq_Facts = [], rq_SourceReferences = [],
     rq_Governance = None, rq_RequestedAt = 90\<rparr>"

definition demo_start :: AuthState where "demo_start = \<lparr>st_mandates = demo_active, st_auth = NewAuthStore\<rparr>"

definition demo_answer :: "(AuthError + Receipt) \<times> AuthState \<Rightarrow> string" where
  "demo_answer x = (case fst x of Inl e \<Rightarrow> ''error'' | Inr r \<Rightarrow> (case rc_Outcome r of OutcomeAuthorized \<Rightarrow> ''authorized''
     | OutcomeRequiresApproval \<Rightarrow> ''approval'' | OutcomeDenied \<Rightarrow> ''denied''))"

text \<open>The name of the registered operation.\<close>

definition demo_write :: string where "demo_write = ''executionbroker.local-safe-worker.write''"

text \<open>The receipt of the worker and the state it leaves.\<close>

definition authorized_reason :: string where
  "authorized_reason = ''execution is authorized within the evaluated policy boundaries''"

definition demo_evidence :: "AuthRequest \<Rightarrow> string \<Rightarrow> GrantEvidence \<Rightarrow> ReceiptEvidence" where
  "demo_evidence q policy approval = no_evidence
     \<lparr>ev_EmergencyStop := \<lparr>es_Active = False, es_Source = ''none'', es_Reason = ''''\<rparr>,
      ev_SystemWorkload := \<lparr>we_PolicyID = policy, we_ActorIdentity = rq_ActorIdentity q, we_Matched = True\<rparr>,
      ev_Constitution := \<lparr>ce_ID = ''c'', ce_Version = 1, ce_Source = ''s'', ce_Digest = demo_digest,
        ce_RequestedCapabilities = deriveCapabilities q, ce_DeniedCapabilities = [],
        ce_ApprovalRequiredCapabilities = [], ce_AuthorityCeiling = 10\<rparr>,
      ev_Approval := approval\<rparr>"

definition demo_begun :: "AuthRequest \<Rightarrow> string \<Rightarrow> GrantEvidence \<Rightarrow> Receipt" where
  "demo_begun q policy approval = (first_receipt demo_world q demo_digest)
     \<lparr>rc_ApprovalSourceID := ge_SourceID approval, rc_Evidence := demo_evidence q policy approval\<rparr>"

definition demo_decision :: "AuthRequest \<Rightarrow> string \<Rightarrow> GrantEvidence \<Rightarrow> Receipt" where
  "demo_decision q policy approval =
     finish_receipt demo_alib (demo_begun q policy approval, OutcomeAuthorized, authorized_reason, ''decision.authorized'')"

definition demo_finished :: "AuthRequest \<Rightarrow> string \<Rightarrow> GrantEvidence \<Rightarrow> Receipt" where
  "demo_finished q policy approval = (demo_decision q policy approval)\<lparr>rc_DecisionDigest := demo_digest\<rparr>"

definition demo_held :: "Receipt \<Rightarrow> AuthStore" where
  "demo_held r = NewAuthStore\<lparr>au_receipts := [(ownerKey ''owner'' ''key-1'', r)],
      au_byID := [(ownerKey ''owner'' ''eleven'', ownerKey ''owner'' ''key-1'')]\<rparr>"

text \<open>The steps of a decision that authorises, for a request whose evaluation was computed.\<close>

lemma demo_decides:
  assumes "prepare demo_alib demo_world q0 = Inr (q, demo_digest)"
    and "evaluate_request demo_alib demo_world ms q (first_receipt demo_world q demo_digest) =
      (ms, demo_begun q policy approval, OutcomeAuthorized, authorized_reason, ''decision.authorized'')"
    and "validateReceipt (demo_finished q policy approval) = None"
    and "rq_OwnerIdentity q = ''owner''" and "rq_IdempotencyKey q = ''key-1''"
  shows "Authorize_effect demo_alib demo_world \<lparr>st_mandates = ms, st_auth = NewAuthStore\<rparr> q0 =
    (Inr (demo_finished q policy approval), \<lparr>st_mandates = ms, st_auth = demo_held (demo_finished q policy approval)\<rparr>)"
proof -
  let ?f = "demo_finished q policy approval"
  have f: "rc_OwnerIdentity ?f = ''owner''" "rc_IdempotencyKey ?f = ''key-1''" "rc_ID ?f = 11"
    using assms(4,5) by (simp_all add: demo_finished_def demo_decision_def finish_receipt_def demo_begun_def first_receipt_def
        demo_world_def Let_def)
  have "al_hash_receipt demo_alib x = Some demo_digest" "al_uuid_text demo_alib 11 = ''eleven''" for x
    by (simp_all add: demo_uuid_text_def demo_alib_def)
  with assms(3) f have "persist demo_alib NewAuthStore (demo_decision q policy approval) = (Inr ?f, demo_held ?f)"
    unfolding persist_def CreateOrGet_def demo_finished_def [symmetric]
    by (simp add: demo_finished_def [symmetric] NewAuthStore_def demo_held_def Let_def)
  then show ?thesis by (simp add: Authorize_effect_def assms(1,2) demo_decision_def)
qed

section \<open>The worker\<close>

definition demo_receipt :: Receipt where
  "demo_receipt = demo_finished (demo_worker demo_write) ''phase2-local-safe-worker-v1'' (ev_Approval no_evidence)"

definition demo_decided :: AuthState where
  "demo_decided = \<lparr>st_mandates = demo_active, st_auth = demo_held demo_receipt\<rparr>"

lemma demo_prepared:
  "prepare demo_alib demo_world (demo_worker demo_write) = Inr (demo_worker demo_write, demo_digest)"
  "prepare demo_alib demo_world (demo_worker ('' '' @ demo_write)) = Inr (demo_worker demo_write, demo_digest)"
  by code_simp+

lemma demo_evaluated:
  "evaluate_request demo_alib demo_world demo_active (demo_worker demo_write)
     (first_receipt demo_world (demo_worker demo_write) demo_digest) =
   (demo_active, demo_begun (demo_worker demo_write) ''phase2-local-safe-worker-v1'' (ev_Approval no_evidence),
     OutcomeAuthorized, authorized_reason, ''decision.authorized'')"
  by code_simp

lemma demo_receipt_valid: "validateReceipt demo_receipt = None"
  by code_simp

lemma demo_outcome: "rc_Outcome demo_receipt = OutcomeAuthorized"
  by (simp add: demo_receipt_def demo_finished_def demo_decision_def finish_receipt_def Let_def)

lemma demo_authorized:
  assumes "prepare demo_alib demo_world q = Inr (demo_worker demo_write, demo_digest)"
  shows "Authorize_effect demo_alib demo_world demo_start q = (Inr demo_receipt, demo_decided)"
  unfolding demo_start_def demo_decided_def demo_receipt_def
  by (rule demo_decides [OF assms demo_evaluated demo_receipt_valid [unfolded demo_receipt_def]]) (simp_all add: demo_worker_def)

section \<open>The agent task\<close>

definition demo_task :: AuthRequest where
  "demo_task = (demo_worker AgentRuntimeExecuteAction)
     \<lparr>rq_ActorIdentity := ''hai-task-engine'', rq_ResourceType := AgentRuntimeResourceType,
      rq_ResourceID := ''task-1'', rq_ToolID := ''automation-agent-runtime'', rq_RuntimeID := ''shell'',
      rq_RequiredAuthority := 6, rq_RequestedAutonomy := 6, rq_Risk := ''high'', rq_Reversible := False,
      rq_ApprovalSourceID := ''review-1'', rq_ApprovalBindingDigest := demo_digest\<rparr>"

definition demo_grant :: GrantEvidence where
  "demo_grant = \<lparr>ge_SourceID = ''review-1'', ge_DecisionID = ''decision-1'', ge_DecisionDigest = demo_digest,
     ge_ApprovedBy = ''owner'', ge_ApprovedAt = 50, ge_ExpiresAt = 1000\<rparr>"

definition demo_task_receipt :: Receipt where
  "demo_task_receipt = demo_finished demo_task ''task-agent-runtime-v1'' demo_grant"

lemma demo_task_prepared: "prepare demo_alib demo_world demo_task = Inr (demo_task, demo_digest)"
  by code_simp

lemma demo_task_evaluated:
  "evaluate_request demo_alib demo_world NewMandateStore demo_task (first_receipt demo_world demo_task demo_digest) =
   (NewMandateStore, demo_begun demo_task ''task-agent-runtime-v1'' demo_grant,
     OutcomeAuthorized, authorized_reason, ''decision.authorized'')"
  by code_simp

lemma demo_task_valid: "validateReceipt demo_task_receipt = None"
  by code_simp

lemma demo_task_authorized:
  "Authorize_effect demo_alib demo_world NewAuthState demo_task =
     (Inr demo_task_receipt, \<lparr>st_mandates = NewMandateStore, st_auth = demo_held demo_task_receipt\<rparr>)"
  unfolding NewAuthState_def demo_task_receipt_def
  by (rule demo_decides [OF demo_task_prepared demo_task_evaluated demo_task_valid [unfolded demo_task_receipt_def]])
    (simp_all add: demo_task_def demo_worker_def)

text \<open>It is consumed for its effect, and the runtime presents the references.\<close>

definition demo_target :: string where "demo_target = ''agent-runtime:'' @ demo_digest"

definition demo_consumption :: Consumption where
  "demo_consumption = consumption_of demo_alib demo_world demo_task_receipt ''broker'' demo_target"

definition demo_consumed :: AuthStore where
  "demo_consumed = (demo_held demo_task_receipt)
     \<lparr>au_consumptions := [(ownerKey ''owner'' ''eleven'', demo_consumption)]\<rparr>"

definition demo_final :: FinalEffectAuthorizationRequest where
  "demo_final = \<lparr>fr_Operation = AgentRuntimeExecuteAction, fr_RuntimeID = ''shell'', fr_TaskID = ''task-1'',
     fr_OwnerIdentity = ''owner'', fr_ProjectKey = '''', fr_PromptDigest = demo_digest,
     fr_ApprovalSourceID = ''review-1'', fr_RequiresApproval = True\<rparr>"

definition demo_proof :: FinalEffectAuthorizationProof where
  "demo_proof = \<lparr>fp_ReceiptID = ''eleven'', fp_AuthorizationRequestDigest = demo_digest, fp_DecisionDigest = demo_digest,
     fp_RuntimeRequestDigest = demo_digest, fp_RuntimeProof = demo_digest\<rparr>"

lemma demo_rechecked: "recheck demo_alib demo_world NewMandateStore demo_task demo_task_receipt = None"
  by code_simp

lemma demo_consume: "Consume demo_alib (demo_held demo_task_receipt) demo_consumption = Inr demo_consumed"
  by code_simp

lemma demo_exercised: "\<not> isl (VerifyFinalEffectProof demo_alib 120 demo_consumed demo_final demo_proof)"
  by code_simp

end
