(* ===== verification/AuthTheorems.thy ===== *)
theory AuthTheorems
  imports AuthDemo
begin

text \<open>
  The properties of execution authorisation: what an authorised receipt means, that its effect is exercised at
  most once and not after the mandate was revoked, and where the service departs from its intent.
\<close>

section \<open>Properties\<close>

text \<open>
  C5. A fresh request is authorised if and only if it may execute: no emergency stop is active, a system
  actor runs an operation registered with exactly this classification, selected frameworks and their evidence
  were verified with their owners, the constitution denies no derived capability and its ceiling covers the
  authority, an agent's assignment and health cover the request, the autonomy is an executing one, and the
  approvals it needs (by the frameworks, its autonomy, its risk, its stage, the constitution) are held or
  come from the mandate it names. The receipt carries the request's owner, effect and digest.
\<close>

theorem authorized_exact:
  assumes "Authorize_effect lib w s input = (Inr r, s')" and "prepare lib w input = Inr (q, h)"
    and "map_of (au_receipts (st_auth s)) (ownerKey (rq_OwnerIdentity q) (rq_IdempotencyKey q)) = None"
  shows "(rc_Outcome r = OutcomeAuthorized \<longleftrightarrow> may_execute lib w (st_mandates s) q) \<and>
    rc_OwnerIdentity r = rq_OwnerIdentity q \<and> rc_EffectDigest r = rq_EffectDigest q \<and> rc_RequestDigest r = h"
  using assms(1)
proof (cases rule: Authorize_effect_cases)
  case (decided q1 h1 verdict)
  let ?r = "finish_receipt lib verdict"
  from decided(1) assms(2) have q: "q1 = q" "h1 = h" by simp_all
  have f: "rc_OwnerIdentity ?r = rq_OwnerIdentity q" "rc_IdempotencyKey ?r = rq_IdempotencyKey q"
    "rc_RequestDigest ?r = h" "rc_EffectDigest ?r = rq_EffectDigest q"
    using decided_receipt [OF decided(2)] by (simp_all add: same_subject_def first_receipt_def q)
  have out: "rc_Outcome ?r = fst (snd verdict)" by (simp add: finish_receipt_def Let_def split: prod.split)
  from decided(3) show ?thesis
  proof (cases rule: persist_CreateOrGet)
    case (stored d old created)
    have none: "map_of (au_receipts (st_auth s)) (receipt_key (?r\<lparr>rc_DecisionDigest := d\<rparr>)) = None"
      using assms(3) f by (simp add: receipt_key_def)
    from stored(3) none have "old = ?r\<lparr>rc_DecisionDigest := d\<rparr>" by (cases rule: CreateOrGet_cases) simp_all
    then show ?thesis
      using stored(2) f out evaluate_request_outcome [OF decided(2)] by (simp add: q)
  qed simp
qed simp

theorem authorized_exact_witness:
  "may_execute demo_alib demo_world demo_active (demo_worker demo_write)"
proof -
  have "map_of (au_receipts (st_auth demo_start)) k = None" for k by (simp add: demo_start_def NewAuthStore_def)
  from authorized_exact [OF demo_authorized [OF demo_prepared(1)] demo_prepared(1) this] demo_outcome show ?thesis by (simp add: demo_start_def)
qed

text \<open>
  C37. A decision is made once: whatever happens after a receipt was returned, and whatever the services
  answer later, a request of the same owner and idempotency key that is answered is answered with that very
  receipt, and it asked for the same (the digests are equal).
\<close>

theorem retry_keeps_decision:
  assumes "Authorize_effect lib w s input = (Inr r, s1)" and "prepare lib w input = Inr (q, h)"
    and "(auth_step lib)\<^sup>*\<^sup>* s1 s2"
    and "Authorize_effect lib w2 s2 input2 = (Inr r2, s3)" and "prepare lib w2 input2 = Inr (q2, h2)"
    and "rq_OwnerIdentity q2 = rq_OwnerIdentity q" and "rq_IdempotencyKey q2 = rq_IdempotencyKey q"
  shows "r2 = r \<and> h2 = h"
proof -
  let ?k = "ownerKey (rq_OwnerIdentity q) (rq_IdempotencyKey q)"
  from Authorize_effect_stored [OF assms(1)] assms(2)
  have r: "rc_RequestDigest r = h" "map_of (au_receipts (st_auth s1)) ?k = Some r" by auto
  from Authorize_effect_stored [OF assms(4)] assms(5-7)
  have r2: "rc_RequestDigest r2 = h2" "map_of (au_receipts (st_auth s3)) ?k = Some r2" by auto
  from receipts.steps_kept [OF assms(3) r(2)] have "map_of (au_receipts (st_auth s2)) ?k = Some r" .
  moreover from assms(4) have "map_of (au_receipts (st_auth s2)) \<subseteq>\<^sub>m map_of (au_receipts (st_auth s3))"
    by (cases rule: Authorize_effect_cases) (simp_all add: persist_kept)
  ultimately have "r2 = r" using r2(2) map_le_Some by fastforce
  with r r2 show ?thesis by simp
qed

text \<open>The stop is engaged after the decision.\<close>

definition demo_stopped :: World where
  "demo_stopped = demo_world\<lparr>w_stop := \<lparr>es_Active = True, es_Source = ''environment'', es_Reason = ''halt''\<rparr>\<rparr>"

theorem retry_keeps_decision_witness:
  "\<exists>s. Authorize_effect demo_alib demo_stopped demo_decided (demo_worker demo_write) = (Inr demo_receipt, s)"
proof -
  let ?a = "Authorize_effect demo_alib demo_stopped demo_decided (demo_worker demo_write)"
  have "w_now demo_stopped = w_now demo_world" by (simp add: demo_stopped_def)
  then have p: "prepare demo_alib demo_stopped q = prepare demo_alib demo_world q" for q by (simp only: prepare_def)
  have "\<not> isl (fst ?a)" by code_simp
  then have a: "?a = (Inr (projr (fst ?a)), snd ?a)" by (metis isl_def prod.collapse sum.collapse(2))
  have "prepare demo_alib demo_stopped (demo_worker demo_write) = Inr (demo_worker demo_write, demo_digest)"
    by (simp add: p demo_prepared)
  from retry_keeps_decision [OF demo_authorized [OF demo_prepared(1)] demo_prepared(1) rtranclp.rtrancl_refl a this] a
  show ?thesis by auto
qed

text \<open>
  C6. An effect is exercised at most once, and only with its authority: when the bridge accepts the
  references of a request, the store holds an authorised receipt of the request's owner, task, runtime and
  effect and its consumption for exactly this decision; and whatever happens afterwards, presenting
  references to the same receipt again is refused. In every reachable state each recorded exercise has such
  a receipt and consumption.
\<close>

theorem effect_at_most_once:
  assumes "(auth_step lib)\<^sup>*\<^sup>* NewAuthState s" and "VerifyFinalEffectProof lib now (st_auth s) q p = Inr a"
    and "al_parse_uuid lib (TrimSpace (fp_ReceiptID p)) = Some k"
    and "(auth_step lib)\<^sup>*\<^sup>* (s\<lparr>st_auth := a\<rparr>) s2"
    and "al_parse_uuid lib (TrimSpace (fp_ReceiptID p2)) = Some k" and "fr_OwnerIdentity q2 = fr_OwnerIdentity q"
  shows "(\<exists>r c. receipt_at lib (st_auth s) (fr_OwnerIdentity q) k = Some r \<and> rc_Outcome r = OutcomeAuthorized \<and>
        rc_TaskID r = fr_TaskID q \<and> rc_RuntimeID r = fr_RuntimeID q \<and> FinalEffectDigest lib q = Inr (rc_EffectDigest r) \<and>
        GetConsumption lib (st_auth s) (fr_OwnerIdentity q) k = Inr c \<and> cn_ReceiptDigest c = rc_DecisionDigest r) \<and>
    isl (VerifyFinalEffectProof lib now2 (st_auth s2) q2 p2) \<and>
    (\<forall>b x. map_of (au_exercises (st_auth s2)) b = Some x \<longrightarrow>
       (\<exists>r c. receipt_by (st_auth s2) b = Some r \<and> map_of (au_consumptions (st_auth s2)) b = Some c \<and>
          finalEffectMatches r c x))"
proof -
  let ?key = "ownerKey (fr_OwnerIdentity q) (al_uuid_text lib k)"
  obtain x where x: "ExerciseFinalEffect lib (st_auth s) x = Inr a" "FinalEffectDigest lib q = Inr (fx_EffectDigest x)"
    "fx_OwnerIdentity x = fr_OwnerIdentity q" "fx_TaskID x = fr_TaskID q" "fx_RuntimeID x = fr_RuntimeID q"
    "fx_ReceiptID x = k"
    using assms(2,3) by (auto elim!: VerifyFinalEffectProof_Inr)
  from x(1) obtain r c where rc: "receipt_at lib (st_auth s) (fr_OwnerIdentity q) k = Some r"
    "map_of (au_consumptions (st_auth s)) ?key = Some c" "finalEffectMatches r c x"
    and put: "map_of (au_exercises a) = (map_of (au_exercises (st_auth s)))(?key \<mapsto> x)"
    by (rule ExerciseFinalEffect_Inr) (auto simp: x)
  from put have "map_of (au_exercises (st_auth (s\<lparr>st_auth := a\<rparr>))) ?key = Some x" by simp
  from exercises.steps_kept [OF assms(4) this] have taken: "map_of (au_exercises (st_auth s2)) ?key = Some x" .
  have "isl (VerifyFinalEffectProof lib now2 (st_auth s2) q2 p2)"
  proof (rule ccontr)
    assume "\<not> isl (VerifyFinalEffectProof lib now2 (st_auth s2) q2 p2)"
    then obtain a2 where "VerifyFinalEffectProof lib now2 (st_auth s2) q2 p2 = Inr a2"
      by (cases "VerifyFinalEffectProof lib now2 (st_auth s2) q2 p2") simp_all
    then obtain y where y: "ExerciseFinalEffect lib (st_auth s2) y = Inr a2" "fx_OwnerIdentity y = fr_OwnerIdentity q"
      "fx_ReceiptID y = k" using assms(5,6) by (auto elim!: VerifyFinalEffectProof_Inr)
    from y(1) show False by (rule ExerciseFinalEffect_Inr) (use taken y(2,3) in simp)
  qed
  moreover have "auth_inv lib (st_auth s2)"
    using assms(1,2,4) reachable_auth_inv auth_step.exercise by (meson rtranclp.rtrancl_into_rtrancl rtranclp_trans)
  ultimately show ?thesis using rc x(2,4,5)
    unfolding auth_inv_def by (auto simp: finalEffectMatches_def GetConsumption_def)
qed

lemma demo_task_run:
  "(auth_step demo_alib)\<^sup>*\<^sup>* NewAuthState \<lparr>st_mandates = NewMandateStore, st_auth = demo_consumed\<rparr>"
proof -
  let ?s = "\<lparr>st_mandates = NewMandateStore, st_auth = demo_held demo_task_receipt\<rparr>"
  have "auth_step demo_alib NewAuthState ?s"
    by (rule auth_step.authorize [OF _ demo_task_authorized]) (simp add: fresh_receipt_def NewAuthState_def NewAuthStore_def)
  moreover have "rc_Outcome demo_task_receipt = OutcomeAuthorized"
    by (simp add: demo_task_receipt_def demo_finished_def demo_decision_def finish_receipt_def Let_def)
  moreover have "identifier_ok (compact demo_alib ''broker'') \<and> identifier_ok (compact demo_alib demo_target)" by code_simp
  ultimately have "consume_receipt demo_alib demo_world ?s demo_task demo_task_receipt ''broker'' demo_target =
      (None, \<lparr>st_mandates = NewMandateStore, st_auth = demo_consumed\<rparr>)"
    using demo_rechecked demo_consume by (simp add: consume_receipt_def demo_consumption_def)
  with \<open>auth_step demo_alib NewAuthState ?s\<close> show ?thesis
    by (meson auth_step.consume rtranclp.rtrancl_refl rtranclp.rtrancl_into_rtrancl)
qed

theorem effect_at_most_once_witness:
  "\<exists>a. VerifyFinalEffectProof demo_alib 120 demo_consumed demo_final demo_proof = Inr a \<and>
     isl (VerifyFinalEffectProof demo_alib 130 a demo_final demo_proof)"
proof -
  let ?s = "\<lparr>st_mandates = NewMandateStore, st_auth = demo_consumed\<rparr>"
  from demo_exercised obtain a where a: "VerifyFinalEffectProof demo_alib 120 demo_consumed demo_final demo_proof = Inr a"
    by (cases "VerifyFinalEffectProof demo_alib 120 demo_consumed demo_final demo_proof") simp_all
  have k: "al_parse_uuid demo_alib (TrimSpace (fp_ReceiptID demo_proof)) = Some 11" by code_simp
  have v: "VerifyFinalEffectProof demo_alib 120 (st_auth ?s) demo_final demo_proof = Inr a" using a by simp
  from effect_at_most_once [OF demo_task_run v k rtranclp.rtrancl_refl k refl, of 130] a show ?thesis by auto
qed

lemma recheck_None:
  assumes "recheck lib w ms q r = None"
  shows "me_ID (ev_Mandate (rc_Evidence r)) \<noteq> '''' \<Longrightarrow> mandate_unchanged lib w ms q (ev_Mandate (rc_Evidence r)) = None"
    and "rq_ActorKind q = ActorSystem \<Longrightarrow> workload_registered q"
proof -
  note all = assms [unfolded recheck_def Let_def first_problem_None_iff list.set ball_simps]
  from all show "mandate_unchanged lib w ms q (ev_Mandate (rc_Evidence r)) = None"
    if "me_ID (ev_Mandate (rc_Evidence r)) \<noteq> ''''" using that by presburger
  assume system: "rq_ActorKind q = ActorSystem"
  obtain we e where we: "evaluateSystemWorkload q = (we, e)" by fastforce
  from all system have "check (e \<noteq> None \<or> \<not> we_Matched we \<or> we_PolicyID we \<noteq> we_PolicyID (ev_SystemWorkload (rc_Evidence r)))
      (ErrAuthorizationChanged ''system workload policy changed'') = None"
    unfolding we prod.case by presburger
  then show "workload_registered q" using evaluateSystemWorkload_iff [of q] we by (simp add: check_def split: if_splits)
qed







lemma Authorize_standing:
  assumes "Authorize lib ms now fresh k request = Inr (d, ms')" and "ad_Outcome d = DecisionAuthorized"
  shows "\<exists>m dg. ms_lookup ms k = Some m \<and> sm_OwnerIdentity m = TrimSpace (aq_OwnerIdentity request) \<and>
    within_mandate lib m (timed_request request now) now \<and> approved lib m (timed_request request now) dg now \<and>
    ml_hash_request lib (normalizedActionRequest (timed_request request now)) = Some dg"
proof -
  from assms(1) obtain m where m: "Get_mandate ms (TrimSpace (aq_OwnerIdentity request)) k = Inr m"
    and e: "evaluate lib fresh m (timed_request request now) now = Inr d" by (rule Authorize_decides)
  from e obtain dg where dg: "ml_hash_request lib (normalizedActionRequest (timed_request request now)) = Some dg"
    and o: "ad_Outcome d = planned_outcome lib m (timed_request request now) dg now" by (rule evaluate_Inr)
  from o assms(2) have "within_mandate lib m (timed_request request now) now"
    "approved lib m (timed_request request now) dg now" by (simp_all add: planned_outcome_def split: if_splits)
  with m dg show ?thesis by (auto simp: Get_mandate_Inr)
qed

lemma evaluateMandate_cases:
  assumes "evaluateMandate lib w ms q approval r = (ms', r', Inr True)"
  obtains k d ms1 where "al_parse_uuid lib (rq_MandateID q) = Some k" "ad_Outcome d = DecisionAuthorized"
      "Authorize (al_mandates lib) ms (w_mandate_now1 w) (w_fresh_decision1 w) k (mandate_request q) = Inr (d, ms1)"
  | k d ms1 v d2 ms2 where "al_parse_uuid lib (rq_MandateID q) = Some k" "approval = Some v"
      "Authorize (al_mandates lib) ms (w_mandate_now1 w) (w_fresh_decision1 w) k (mandate_request q) = Inr (d, ms1)"
      "ad_Outcome d2 = DecisionAuthorized"
      "Authorize (al_mandates lib) ms1 (w_mandate_now2 w) (w_fresh_decision2 w) k
        ((mandate_request q)\<lparr>aq_Approval := Some (bound_approval v (dn_RequestDigest (ad_Evidence d)))\<rparr>) = Inr (d2, ms2)"
proof -
  have concluded: "ad_Outcome d = DecisionAuthorized" if "conclude_mandate lib d r0 = (r1, Inr True)" for d r0 r1
    using that by (auto simp: conclude_mandate_def split: DecisionOutcome.splits)
  have w: "w_mandates w" using assms by (cases "w_mandates w") (simp_all add: evaluateMandate_def)
  obtain k where k: "al_parse_uuid lib (rq_MandateID q) = Some k"
    using assms by (cases "al_parse_uuid lib (rq_MandateID q)") (simp_all add: evaluateMandate_def w)
  have nil: "k \<noteq> uuid_nil" using assms by (cases "k = uuid_nil") (simp_all add: evaluateMandate_def w k)
  let ?first = "Authorize (al_mandates lib) ms (w_mandate_now1 w) (w_fresh_decision1 w) k (mandate_request q)"
  obtain d ms1 where first: "?first = Inr (d, ms1)"
    using assms by (cases ?first) (auto simp: evaluateMandate_def w k nil)
  let ?next = "\<lambda>v. Authorize (al_mandates lib) ms1 (w_mandate_now2 w) (w_fresh_decision2 w) k
        ((mandate_request q)\<lparr>aq_Approval := Some (bound_approval v (dn_RequestDigest (ad_Evidence d)))\<rparr>)"
  show thesis
  proof (cases "ad_Outcome d = DecisionAuthorized")
    case True
    then show thesis using k first that(1) by blast
  next
    case False
    then have "snd (conclude_mandate lib d r) \<noteq> Inr True" using concluded [of d] by (metis prod.collapse)
    with assms obtain v where req: "ad_Outcome d = DecisionRequiresApproval" "approval = Some v"
      by (cases "ad_Outcome d"; cases approval) (auto simp: evaluateMandate_def w k nil first)
    obtain d2 ms2 where second: "?next v = Inr (d2, ms2)"
      using assms req by (cases "?next v") (auto simp: evaluateMandate_def w k nil first)
    with assms req have "conclude_mandate lib d2 r = (r', Inr True)"
      by (simp add: evaluateMandate_def w k nil first)
    with concluded have "ad_Outcome d2 = DecisionAuthorized" by blast
    with k req(2) first second that(2) show thesis by blast
  qed
qed

text \<open>
  C8. A mandate lends its authority only within its bounds: where it answers that a request is authorised,
  the request names a stored mandate of its owner, and at one of the readings of the clock the request
  (with the trusted facts) is within the mandate; where the mandate needs evidence of an approval, it is the
  resolved one, valid under the mandate's policy and bound to the digest of this very request.
\<close>

theorem standing_authority_bounded:
  assumes "standing_answer lib w ms q approval = Inr True"
  shows "\<exists>k m now ev dg request. al_parse_uuid lib (rq_MandateID q) = Some k \<and> ms_lookup ms k = Some m \<and>
    sm_OwnerIdentity m = TrimSpace (rq_OwnerIdentity q) \<and> now \<in> {w_mandate_now1 w, w_mandate_now2 w} \<and>
    request = timed_request ((mandate_request q)\<lparr>aq_Approval := ev\<rparr>) now \<and>
    (case ev of None \<Rightarrow> True | Some e \<Rightarrow> \<exists>v t. approval = Some v \<and> e = bound_approval v t) \<and>
    ml_hash_request (al_mandates lib) (normalizedActionRequest request) = Some dg \<and>
    within_mandate (al_mandates lib) m request now \<and> approved (al_mandates lib) m request dg now"
proof -
  let ?ml = "al_mandates lib"
  have owner: "aq_OwnerIdentity (mandate_request q) = rq_OwnerIdentity q" by (simp add: mandate_request_def)
  have "rq_MandateID q \<noteq> ''''" using assms by (auto simp: standing_answer_def claimed_mandate_def)
  then have "snd (snd (evaluateMandate lib w ms q approval (first_receipt w q ''''))) = Inr True"
    using assms by (simp add: standing_answer_def claimed_mandate_def)
  then obtain ms' r' where e: "evaluateMandate lib w ms q approval (first_receipt w q '''') = (ms', r', Inr True)"
    by (cases "evaluateMandate lib w ms q approval (first_receipt w q '''')") auto
  then show ?thesis
  proof (cases rule: evaluateMandate_cases)
    case (1 k d ms1)
    have same: "(mandate_request q)\<lparr>aq_Approval := None\<rparr> = mandate_request q" by (simp add: mandate_request_def)
    from Authorize_standing [OF 1(3,2)] obtain m dg where "ms_lookup ms k = Some m"
      "sm_OwnerIdentity m = TrimSpace (aq_OwnerIdentity (mandate_request q))"
      "within_mandate ?ml m (timed_request (mandate_request q) (w_mandate_now1 w)) (w_mandate_now1 w)"
      "approved ?ml m (timed_request (mandate_request q) (w_mandate_now1 w)) dg (w_mandate_now1 w)"
      "ml_hash_request ?ml (normalizedActionRequest (timed_request (mandate_request q) (w_mandate_now1 w))) = Some dg" by blast
    with 1(1) same owner show ?thesis
      by (intro exI [of _ k] exI [of _ m] exI [of _ "w_mandate_now1 w"] exI [of _ None] exI [of _ dg]
          exI [of _ "timed_request (mandate_request q) (w_mandate_now1 w)"]) simp
  next
    case (2 k d ms1 v d2 ms2)
    let ?ev = "bound_approval v (dn_RequestDigest (ad_Evidence d))"
    let ?q = "(mandate_request q)\<lparr>aq_Approval := Some ?ev\<rparr>"
    from 2(3) have look: "ms_lookup ms1 = ms_lookup ms" by (rule Authorize_decides) (rule CreateDecision_lookup)
    from Authorize_standing [OF 2(5,4)] obtain m dg where "ms_lookup ms k = Some m"
      "sm_OwnerIdentity m = TrimSpace (aq_OwnerIdentity ?q)"
      "within_mandate ?ml m (timed_request ?q (w_mandate_now2 w)) (w_mandate_now2 w)"
      "approved ?ml m (timed_request ?q (w_mandate_now2 w)) dg (w_mandate_now2 w)"
      "ml_hash_request ?ml (normalizedActionRequest (timed_request ?q (w_mandate_now2 w))) = Some dg"
      unfolding look by blast
    with 2(1,2) owner show ?thesis
      by (intro exI [of _ k] exI [of _ m] exI [of _ "w_mandate_now2 w"] exI [of _ "Some ?ev"] exI [of _ dg]
          exI [of _ "timed_request ?q (w_mandate_now2 w)"]) auto
  qed
qed

definition demo_bill :: AuthRequest where
  "demo_bill = (demo_worker ''Pay invoice'')\<lparr>rq_ActorIdentity := ''agent'', rq_ActorKind := ActorHuman,
     rq_ResourceType := ''invoice'', rq_ProjectKey := ''home'', rq_ToolID := '''', rq_RuntimeID := '''',
     rq_RequestedAutonomy := 2, rq_MandateID := ''seven'', rq_Facts := [(''amount'', ''5'')], rq_RequestedAt := 30\<rparr>"

theorem standing_authority_bounded_witness:
  "\<exists>m now request. ms_lookup demo_active 7 = Some m \<and> within_mandate demo_mlib m request now"
proof -
  have "standing_answer demo_alib demo_world demo_active demo_bill None = Inr True" by code_simp
  moreover have "al_parse_uuid demo_alib (rq_MandateID demo_bill) = Some 7" "al_mandates demo_alib = demo_mlib"
    by (simp_all add: demo_bill_def demo_alib_def demo_parse_uuid_def)
  ultimately show ?thesis using standing_authority_bounded [of demo_alib demo_world demo_active demo_bill None] by auto
qed

text \<open>
  C38. A trusted fact can be shadowed: the service adds the request's estimated cost to the facts of a mandate
  under \<open>estimated_cost_eur\<close>, but names of facts are compared up to case and blanks, so a caller's fact whose
  name differs only in case survives, and in some order of the map its value is the one the mandate's stop
  conditions read.
\<close>

theorem trusted_fact_shadowed:
  assumes "distinct (map fst (rq_Facts q))" and "(k, v) \<in> set (rq_Facts q)"
    and "normalize_text k = ''estimated_cost_eur''" and "k \<noteq> ''estimated_cost_eur''"
  shows "\<exists>facts. set facts = set (trustedMandateFacts q) \<and> distinct (map fst facts) \<and>
    factValue facts ''estimated_cost_eur'' = Some v"
proof -
  let ?f = "trustedMandateFacts q"
  have "k \<noteq> ''requested_at_utc_hour'' \<and> k \<noteq> ''requested_at_utc_weekday'' \<and> k \<noteq> ''requested_at_utc_date''"
  proof -
    have "normalize_text ''requested_at_utc_hour'' \<noteq> ''estimated_cost_eur''"
      "normalize_text ''requested_at_utc_weekday'' \<noteq> ''estimated_cost_eur''"
      "normalize_text ''requested_at_utc_date'' \<noteq> ''estimated_cost_eur''" by code_simp+
    with assms(3) show ?thesis by metis
  qed
  with assms(4) have "map_of ?f k = map_of (rq_Facts q) k"
    by (simp add: trustedMandateFacts_def update_conv' Let_def)
  with assms(1,2) have "map_of ?f k = Some v" by simp
  then have mem: "(k, v) \<in> set ?f" by (rule map_of_SomeD)
  have d: "distinct (map fst ?f)" using assms(1) by (simp add: trustedMandateFacts_def Let_def distinct_update)
  let ?facts = "(k, v) # removeAll (k, v) ?f"
  have "set ?facts = set ?f" using mem by auto
  moreover have "distinct (map fst ?facts)"
    using d \<open>map_of ?f k = Some v\<close> by (auto simp: distinct_map distinct_removeAll inj_on_def dest: map_of_is_SomeI [OF d])
  moreover have "normalize_text ''estimated_cost_eur'' = ''estimated_cost_eur''" by code_simp
  then have "factValue ?facts ''estimated_cost_eur'' = Some v" using assms(3) by (simp add: factValue_map_of)
  ultimately show ?thesis by blast
qed

theorem trusted_fact_shadowed_witness:
  "\<exists>facts. set facts = set (trustedMandateFacts (demo_bill\<lparr>rq_Facts := [(''Estimated_Cost_EUR'', ''0'')]\<rparr>)) \<and>
     factValue facts ''estimated_cost_eur'' = Some ''0''"
proof -
  let ?q = "demo_bill\<lparr>rq_Facts := [(''Estimated_Cost_EUR'', ''0'')]\<rparr>"
  have "normalize_text ''Estimated_Cost_EUR'' = ''estimated_cost_eur''" by code_simp
  with trusted_fact_shadowed [of ?q "''Estimated_Cost_EUR''" "''0''"] show ?thesis by auto
qed

lemma registered_actions_tidy: "p \<in> set builtInSystemWorkloadPolicies \<Longrightarrow> TrimSpace (wp_Action p) = wp_Action p"
proof -
  have "list_all (\<lambda>p. TrimSpace (wp_Action p) = wp_Action p) builtInSystemWorkloadPolicies" by code_simp
  then show "p \<in> set builtInSystemWorkloadPolicies \<Longrightarrow> TrimSpace (wp_Action p) = wp_Action p"
    by (simp add: list_all_iff)
qed

text \<open>
  A system request whose action carries a blank around it is never consumed, although it is
  authorised: the decision is made on the normalised request, but the second check before the consumption
  reads the request as the caller gave it and finds no registered operation of that name.
\<close>

theorem untidy_request_never_consumed:
  assumes "rq_ActorKind q = ActorSystem" and "TrimSpace (rq_Action q) \<noteq> rq_Action q"
  shows "\<exists>problem. fst (snd (AuthorizeAndConsume lib w between w' s q consumer target)) = Some problem"
proof -
  have "\<not> workload_registered q"
    using assms(2) registered_actions_tidy unfolding workload_registered_def effect_matches_def by metis
  then have no: "recheck lib w'' ms q r \<noteq> None" for w'' ms r using recheck_None(2) assms(1) by blast
  have consume: "\<exists>problem. fst (consume_receipt lib w' s' q r consumer target) = Some problem" for s' r
    using no [of w' "st_mandates s'" r] by (auto simp: consume_receipt_def)
  obtain answer s' where "Authorize_effect lib w s q = (answer, s')" by fastforce
  then show ?thesis using consume by (cases answer) (simp_all add: AuthorizeAndConsume_def)
qed

theorem untidy_request_never_consumed_witness:
  "fst (Authorize_effect demo_alib demo_world demo_start (demo_worker ('' '' @ demo_write))) = Inr demo_receipt \<and>
   rc_Outcome demo_receipt = OutcomeAuthorized \<and>
   (\<exists>problem. fst (snd (AuthorizeAndConsume demo_alib demo_world id demo_world demo_start
      (demo_worker ('' '' @ demo_write)) ''broker'' ''target'')) = Some problem)"
proof -
  have "rq_ActorKind (demo_worker ('' '' @ demo_write)) = ActorSystem"
    "TrimSpace (rq_Action (demo_worker ('' '' @ demo_write))) \<noteq> rq_Action (demo_worker ('' '' @ demo_write))"
    by code_simp+
  note never = untidy_request_never_consumed [OF this]
  show ?thesis unfolding demo_authorized [OF demo_prepared(2)] using never demo_outcome by simp
qed

text \<open>
  The folders an agent may use are those below its allowed ones: after cleaning, a requested folder is
  allowed exactly if its parts continue the parts of an allowed one without going up, both rooted or neither;
  in particular a folder whose name merely starts like an allowed one is not.
\<close>

theorem folders_allowed_exact:
  "foldersAllowed allowed requested \<longleftrightarrow> list_all (\<lambda>c. list_ex (\<lambda>d. below d c) allowed) requested"
  by (simp add: foldersAllowed_iff list_all_iff list_ex_iff)

end
