(* ===== verification/DurableJob.thy ===== *)
theory DurableJob
  imports Prelude
begin

text \<open>
  Durable background jobs: the job row (\<open>internal/models/durable_job.go\<close>), the retry delay
  (\<open>internal/backoff/backoff.go\<close>), the job table (\<open>internal/durablejob/repository.go\<close>) and the
  worker (\<open>internal/durablejob/runner.go\<close>). The table is the list of its rows; every repository
  method is one statement or one transaction, an atomic step on that list. Database
  failures abort a call without a write and are not modelled, except for the failed
  heartbeat, which the worker handles. Fresh row identifiers are drawn by the database
  and are arguments. The ORM's own timestamps (\<open>CreatedAt\<close>, \<open>UpdatedAt\<close>) play no role and are
  left out of the row.
\<close>

section \<open>Retry delays\<close>

text \<open>
  The delay is computed in \<open>float64\<close>; the model computes it exactly in the rationals. For
  the default policy (base one second, factor two) every intermediate value is a \<open>float64\<close>,
  so the two agree.
\<close>

record Policy =
  p_Base :: duration
  p_Factor :: rat
  p_Max :: duration

definition DefaultPolicy :: Policy where
  "DefaultPolicy = \<lparr>p_Base = nanos_per_second, p_Factor = 2, p_Max = 5 * 60 * nanos_per_second\<rparr>"

definition max_int64 :: int where
  "max_int64 = 2 ^ 63 - 1"

definition Delay :: "Policy \<Rightarrow> int \<Rightarrow> duration" where
  "Delay p attempt =
     (if attempt \<le> 0 then 0
      else
        let factor = (if p_Factor p < 1 then 1 else p_Factor p);
            delay = of_int (p_Base p) * factor ^ nat (attempt - 1)
        in if 0 < p_Max p \<and> of_int (p_Max p) < delay then p_Max p
           else if of_int max_int64 < delay then max_int64
           else if delay < 0 then \<lceil>delay\<rceil>
           else \<lfloor>delay\<rfloor>)"

section \<open>The table\<close>

datatype JobStatus = JobPending | JobRunning | JobSucceeded | JobDead

record DurableJob =
  j_ID :: uuid
  j_Queue :: string
  j_Kind :: string
  j_Payload :: string
  j_Status :: JobStatus
  j_Attempts :: int
  j_MaxAttempts :: int
  j_RunAt :: instant
  j_LockedBy :: string
  j_LockedAt :: "instant option"
  j_LeaseGeneration :: int
  j_LastError :: string
  j_CompletedAt :: "instant option"

type_synonym Table = "DurableJob list"

text \<open>\<open>UPDATE ... WHERE\<close>: the rows rewritten and how many were affected.\<close>

definition update_where :: "(DurableJob \<Rightarrow> bool) \<Rightarrow> (DurableJob \<Rightarrow> DurableJob) \<Rightarrow> Table \<Rightarrow> Table \<times> nat" where
  "update_where p f db = (map (\<lambda>j. if p j then f j else j) db, length (filter p db))"

text \<open>\<open>normalizeJob\<close>; an unset status is represented by \<open>None\<close>.\<close>

record NewJob =
  nj_Queue :: string
  nj_Kind :: string
  nj_Payload :: string
  nj_Status :: "JobStatus option"
  nj_MaxAttempts :: int
  nj_RunAt :: instant

definition normalizeJob :: "instant \<Rightarrow> NewJob \<Rightarrow> NewJob" where
  "normalizeJob now job =
     (let job = (if nj_Queue job = '''' then job\<lparr>nj_Queue := ''default''\<rparr> else job);
          job = (if nj_Status job = None then job\<lparr>nj_Status := Some JobPending\<rparr> else job);
          job = (if nj_MaxAttempts job \<le> 0 then job\<lparr>nj_MaxAttempts := 5\<rparr> else job);
          job = (if nj_RunAt job = 0 then job\<lparr>nj_RunAt := now\<rparr> else job);
          job = (if nj_Payload job = '''' then job\<lparr>nj_Payload := ''{}''\<rparr> else job)
      in job)"

definition row_of :: "uuid \<Rightarrow> NewJob \<Rightarrow> DurableJob" where
  "row_of fresh job =
     \<lparr>j_ID = fresh, j_Queue = nj_Queue job, j_Kind = nj_Kind job, j_Payload = nj_Payload job,
      j_Status = (case nj_Status job of Some s \<Rightarrow> s | None \<Rightarrow> JobPending),
      j_Attempts = 0, j_MaxAttempts = nj_MaxAttempts job, j_RunAt = nj_RunAt job,
      j_LockedBy = '''', j_LockedAt = None, j_LeaseGeneration = 0, j_LastError = '''',
      j_CompletedAt = None\<rparr>"

definition Enqueue :: "Table \<Rightarrow> instant \<Rightarrow> uuid \<Rightarrow> NewJob \<Rightarrow> DurableJob \<times> Table" where
  "Enqueue db now fresh job = (let row = row_of fresh (normalizeJob now job) in (row, db @ [row]))"

definition active_job :: "DurableJob \<Rightarrow> bool" where
  "active_job j \<longleftrightarrow> j_Status j \<in> {JobPending, JobRunning}"

definition EnqueueIfNoActive :: "Table \<Rightarrow> instant \<Rightarrow> uuid \<Rightarrow> NewJob \<Rightarrow> bool \<times> Table" where
  "EnqueueIfNoActive db now fresh job =
     (let job = normalizeJob now job;
          count = length (filter (\<lambda>j. j_Queue j = nj_Queue job \<and> j_Kind j = nj_Kind job \<and> active_job j) db)
      in if 0 < count then (False, db) else (True, db @ [row_of fresh job]))"

text \<open>
  \<open>ClaimDue\<close>: the due rows not locked by another transaction (\<open>FOR UPDATE SKIP LOCKED\<close>; the
  rows others hold are the argument \<open>skip\<close>), earliest first, are leased to the worker.
\<close>

definition claim_row :: "string \<Rightarrow> instant \<Rightarrow> DurableJob \<Rightarrow> DurableJob" where
  "claim_row workerID now j =
     j\<lparr>j_Status := JobRunning, j_LockedBy := workerID, j_LockedAt := Some now,
       j_LeaseGeneration := j_LeaseGeneration j + 1\<rparr>"

definition due_rows :: "(uuid \<Rightarrow> bool) \<Rightarrow> string \<Rightarrow> instant \<Rightarrow> nat \<Rightarrow> Table \<Rightarrow> DurableJob list" where
  "due_rows skip queue now limit db =
     take limit (sort_key j_RunAt
       (filter (\<lambda>j. j_Status j = JobPending \<and> j_Queue j = queue \<and> j_RunAt j \<le> now \<and> \<not> skip (j_ID j)) db))"

definition ClaimDue ::
  "Table \<Rightarrow> (uuid \<Rightarrow> bool) \<Rightarrow> string \<Rightarrow> string \<Rightarrow> instant \<Rightarrow> int \<Rightarrow> DurableJob list \<times> Table" where
  "ClaimDue db skip workerID queue now limit =
     (let limit = (if limit \<le> 0 then 10 else limit);
          queue = (if queue = '''' then ''default'' else queue);
          candidates = due_rows skip queue now (nat limit) db;
          db = fold (\<lambda>c db. fst (update_where (\<lambda>j. j_ID j = j_ID c) (claim_row workerID now) db))
                 candidates db
      in (map (claim_row workerID now) candidates, db))"

definition ownedLease :: "uuid \<Rightarrow> string \<Rightarrow> int \<Rightarrow> DurableJob \<Rightarrow> bool" where
  "ownedLease k workerID leaseGeneration j \<longleftrightarrow>
     j_ID j = k \<and> j_Status j = JobRunning \<and> j_LockedBy j = workerID \<and>
     j_LeaseGeneration j = leaseGeneration"

definition MarkSucceeded :: "Table \<Rightarrow> uuid \<Rightarrow> string \<Rightarrow> int \<Rightarrow> instant \<Rightarrow> bool \<times> Table" where
  "MarkSucceeded db k workerID leaseGeneration now =
     (let (db, n) = update_where (ownedLease k workerID leaseGeneration)
            (\<lambda>j. j\<lparr>j_Status := JobSucceeded, j_CompletedAt := Some now, j_LockedBy := '''',
                   j_LockedAt := None, j_LastError := ''''\<rparr>) db
      in (n = 1, db))"

definition MarkForRetry ::
  "Table \<Rightarrow> uuid \<Rightarrow> string \<Rightarrow> int \<Rightarrow> instant \<Rightarrow> int \<Rightarrow> string \<Rightarrow> bool \<times> Table" where
  "MarkForRetry db k workerID leaseGeneration runAt attempts lastErr =
     (let (db, n) = update_where (ownedLease k workerID leaseGeneration)
            (\<lambda>j. j\<lparr>j_Status := JobPending, j_RunAt := runAt, j_Attempts := attempts,
                   j_LastError := lastErr, j_LockedBy := '''', j_LockedAt := None\<rparr>) db
      in (n = 1, db))"

definition MarkDead ::
  "Table \<Rightarrow> uuid \<Rightarrow> string \<Rightarrow> int \<Rightarrow> instant \<Rightarrow> int \<Rightarrow> string \<Rightarrow> bool \<times> Table" where
  "MarkDead db k workerID leaseGeneration now attempts lastErr =
     (let (db, n) = update_where (ownedLease k workerID leaseGeneration)
            (\<lambda>j. j\<lparr>j_Status := JobDead, j_Attempts := attempts, j_LastError := lastErr,
                   j_CompletedAt := Some now, j_LockedBy := '''', j_LockedAt := None\<rparr>) db
      in (n = 1, db))"

definition ExtendLease :: "Table \<Rightarrow> uuid \<Rightarrow> string \<Rightarrow> int \<Rightarrow> instant \<Rightarrow> bool \<times> Table" where
  "ExtendLease db k workerID leaseGeneration now =
     (let (db, n) = update_where (ownedLease k workerID leaseGeneration)
            (\<lambda>j. j\<lparr>j_LockedAt := Some now\<rparr>) db
      in (n = 1, db))"

definition expired_lease :: "instant \<Rightarrow> DurableJob \<Rightarrow> bool" where
  "expired_lease cutoff j \<longleftrightarrow>
     j_Status j = JobRunning \<and> (case j_LockedAt j of None \<Rightarrow> False | Some t \<Rightarrow> t < cutoff)"

definition ReapExpiredLeases :: "Table \<Rightarrow> instant \<Rightarrow> duration \<Rightarrow> nat \<times> Table" where
  "ReapExpiredLeases db now lease =
     (let cutoff = now - lease;
          (db, n) = update_where (expired_lease cutoff)
            (\<lambda>j. j\<lparr>j_Status := JobPending, j_LockedBy := '''', j_LockedAt := None\<rparr>) db
      in (n, db))"

definition CountActiveByKind :: "Table \<Rightarrow> string \<Rightarrow> int" where
  "CountActiveByKind db kind = int (length (filter (\<lambda>j. j_Kind j = kind \<and> active_job j) db))"

definition Find_job :: "Table \<Rightarrow> uuid \<Rightarrow> DurableJob option" where
  "Find_job db k = find (\<lambda>j. j_ID j = k) db"

section \<open>The worker\<close>

record Runner =
  r_policy :: Policy
  r_workerID :: string
  r_queue :: string
  r_lease :: duration
  r_batch :: int
  r_handlers :: "string list"

record Options =
  o_WorkerID :: string
  o_Queue :: string
  o_Policy :: "Policy option"
  o_Lease :: duration
  o_Batch :: int

definition DefaultLease :: duration where
  "DefaultLease = 5 * 60 * nanos_per_second"

text \<open>
  \<open>NewRunner\<close>: zero options fall back to defaults. The generated worker name is the argument
  \<open>generated\<close>; the zero policy is \<open>None\<close>.
\<close>

definition NewRunner :: "string \<Rightarrow> Options \<Rightarrow> Runner" where
  "NewRunner generated opts =
     \<lparr>r_policy = (case o_Policy opts of None \<Rightarrow> DefaultPolicy | Some p \<Rightarrow> p),
      r_workerID = (if o_WorkerID opts = '''' then generated else o_WorkerID opts),
      r_queue = (if o_Queue opts = '''' then ''default'' else o_Queue opts),
      r_lease = (if o_Lease opts \<le> 0 then DefaultLease else o_Lease opts),
      r_batch = (if o_Batch opts \<le> 0 then 10 else o_Batch opts),
      r_handlers = []\<rparr>"

definition Register :: "Runner \<Rightarrow> string \<Rightarrow> Runner" where
  "Register r kind = r\<lparr>r_handlers := List.insert kind (r_handlers r)\<rparr>"

definition new_job :: "Runner \<Rightarrow> instant \<Rightarrow> string \<Rightarrow> string \<Rightarrow> instant \<Rightarrow> int \<Rightarrow> NewJob" where
  "new_job r now kind payload runAt maxAttempts =
     \<lparr>nj_Queue = r_queue r, nj_Kind = kind, nj_Payload = payload, nj_Status = Some JobPending,
      nj_MaxAttempts = maxAttempts, nj_RunAt = (if runAt = 0 then now else runAt)\<rparr>"

definition Enqueue_runner ::
  "Runner \<Rightarrow> Table \<Rightarrow> instant \<Rightarrow> uuid \<Rightarrow> string \<Rightarrow> string \<Rightarrow> instant \<Rightarrow> int \<Rightarrow> DurableJob \<times> Table" where
  "Enqueue_runner r db now fresh kind payload runAt maxAttempts =
     Enqueue db now fresh (new_job r now kind payload runAt maxAttempts)"

definition EnsureScheduled ::
  "Runner \<Rightarrow> Table \<Rightarrow> instant \<Rightarrow> uuid \<Rightarrow> string \<Rightarrow> string \<Rightarrow> instant \<Rightarrow> int \<Rightarrow> bool \<times> Table" where
  "EnsureScheduled r db now fresh kind payload runAt maxAttempts =
     EnqueueIfNoActive db now fresh (new_job r now kind payload runAt maxAttempts)"

text \<open>
  What a worker sees while a handler runs: other transactions change the table, the
  heartbeat ticks (and may fail), the context ends, or the handler returns (\<open>None\<close> is a nil
  error; \<open>safeInvoke\<close> has turned a panic into an error).
\<close>

datatype worker_event =
    OthersWrote Table
  | HeartbeatTick instant
  | HeartbeatFailed string
  | ContextDone string
  | HandlerReturned "string option"

datatype invocation =
    StillRunning
  | Returned "string option"
  | LeaseLost
  | HeartbeatError string

fun safeInvokeWithHeartbeat ::
  "Runner \<Rightarrow> DurableJob \<Rightarrow> Table \<Rightarrow> worker_event list \<Rightarrow> invocation \<times> Table" where
  "safeInvokeWithHeartbeat r job db [] = (StillRunning, db)"
| "safeInvokeWithHeartbeat r job db (OthersWrote db' # es) = safeInvokeWithHeartbeat r job db' es"
| "safeInvokeWithHeartbeat r job db (HandlerReturned err # es) = (Returned err, db)"
| "safeInvokeWithHeartbeat r job db (ContextDone e # es) =
     (if r_lease r div 3 \<le> 0 then safeInvokeWithHeartbeat r job db es else (Returned (Some e), db))"
| "safeInvokeWithHeartbeat r job db (HeartbeatTick now # es) =
     (if r_lease r div 3 \<le> 0 then safeInvokeWithHeartbeat r job db es
      else
        let (owned, db') = ExtendLease db (j_ID job) (r_workerID r) (j_LeaseGeneration job) now
        in if \<not> owned then (LeaseLost, db') else safeInvokeWithHeartbeat r job db' es)"
| "safeInvokeWithHeartbeat r job db (HeartbeatFailed e # es) =
     (if r_lease r div 3 \<le> 0 then safeInvokeWithHeartbeat r job db es else (HeartbeatError e, db))"

text \<open>
  \<open>execute\<close>: one claimed job to its recorded outcome at time \<open>now\<close>. The first component is the
  error it returns (of the heartbeat), if any. The error text of an unregistered kind is
  given for kinds that \<open>%q\<close> shows as they are.
\<close>

definition record_outcome ::
  "Runner \<Rightarrow> Table \<Rightarrow> DurableJob \<Rightarrow> instant \<Rightarrow> string option \<Rightarrow> Table" where
  "record_outcome r db job now err =
     (let attempt = j_Attempts job + 1 in
      case err of
        None \<Rightarrow> snd (MarkSucceeded db (j_ID job) (r_workerID r) (j_LeaseGeneration job) now)
      | Some e \<Rightarrow>
          if j_MaxAttempts job \<le> attempt
          then snd (MarkDead db (j_ID job) (r_workerID r) (j_LeaseGeneration job) now attempt e)
          else snd (MarkForRetry db (j_ID job) (r_workerID r) (j_LeaseGeneration job)
                      (now + Delay (r_policy r) attempt) attempt e))"

definition execute ::
  "Runner \<Rightarrow> Table \<Rightarrow> DurableJob \<Rightarrow> instant \<Rightarrow> worker_event list \<Rightarrow> string option \<times> Table" where
  "execute r db job now es =
     (if j_Kind job \<notin> set (r_handlers r)
      then (None, snd (MarkDead db (j_ID job) (r_workerID r) (j_LeaseGeneration job) now
                         (j_Attempts job + 1) (''no handler registered for kind '' @ [CHR 34] @ j_Kind job @ [CHR 34])))
      else
        case safeInvokeWithHeartbeat r job db es of
          (StillRunning, db) \<Rightarrow> (None, db)
        | (HeartbeatError e, db) \<Rightarrow> (Some e, db)
        | (LeaseLost, db) \<Rightarrow> (None, db)
        | (Returned err, db) \<Rightarrow> (None, record_outcome r db job now err))"

text \<open>
  \<open>RunOnce\<close>: recover abandoned leases, claim the due batch, execute it job by job. The run of
  the i-th job is given by the time its outcome is recorded and by what happened meanwhile.
\<close>

fun execute_all ::
  "Runner \<Rightarrow> Table \<Rightarrow> DurableJob list \<Rightarrow> (instant \<times> worker_event list) list \<Rightarrow> nat \<times> string option \<times> Table" where
  "execute_all r db [] runs = (0, None, db)"
| "execute_all r db (job # jobs) runs =
     (let (now, es) = (case runs of [] \<Rightarrow> (0, []) | run # _ \<Rightarrow> run);
          (err, db) = execute r db job now es;
          (processed, firstErr, db) = execute_all r db jobs (tl runs)
      in (processed + 1, (case err of None \<Rightarrow> firstErr | Some e \<Rightarrow> Some e), db))"

definition RunOnce ::
  "Runner \<Rightarrow> Table \<Rightarrow> instant \<Rightarrow> (uuid \<Rightarrow> bool) \<Rightarrow> (instant \<times> worker_event list) list \<Rightarrow>
     nat \<times> string option \<times> Table" where
  "RunOnce r db now skip runs =
     (let (_, db) = ReapExpiredLeases db now (r_lease r);
          (jobs, db) = ClaimDue db skip (r_workerID r) (r_queue r) now (r_batch r)
      in execute_all r db jobs runs)"

text \<open>
  \<open>RegisterRecurring\<close> wraps a periodic task: the handler runs it (\<open>err\<close> is its result) and, on
  success or on the final attempt, enqueues the next occurrence. It returns the handler's
  error and the table it leaves.
\<close>

definition recurring_interval :: "duration \<Rightarrow> duration" where
  "recurring_interval interval = (if interval \<le> 0 then 10 * 60 * nanos_per_second else interval)"

definition recurring_handler ::
  "Runner \<Rightarrow> Table \<Rightarrow> DurableJob \<Rightarrow> string option \<Rightarrow> instant \<Rightarrow> uuid \<Rightarrow> duration \<Rightarrow> int \<Rightarrow>
     string option \<times> Table" where
  "recurring_handler r db job err now fresh interval maxAttempts =
     (let interval = recurring_interval interval;
          maxAttempts = (if maxAttempts \<le> 0 then 3 else maxAttempts);
          finalAttempt = (j_MaxAttempts job \<le> j_Attempts job + 1)
      in if err = None \<or> finalAttempt
         then (err, snd (Enqueue_runner r db now fresh (j_Kind job) ''{}'' (now + interval) maxAttempts))
         else (err, db))"

definition RegisterRecurring ::
  "Runner \<Rightarrow> Table \<Rightarrow> instant \<Rightarrow> uuid \<Rightarrow> string \<Rightarrow> int \<Rightarrow> Runner \<times> Table" where
  "RegisterRecurring r db now fresh kind maxAttempts =
     (let maxAttempts = (if maxAttempts \<le> 0 then 3 else maxAttempts);
          r = Register r kind
      in (r, snd (EnsureScheduled r db now fresh kind ''{}'' now maxAttempts)))"

end
