(* ===== verification/DurableJobFacts.thy ===== *)
theory DurableJobFacts
  imports DurableJob
begin

text \<open>
  Every repository call changes the job table row by row: \<open>row_step\<close> says how one row may
  change, \<open>evolve\<close> lifts it to the table, and each call is shown to be an instance. The locale
  \<open>fenced_store\<close> is what a worker relies on when it writes an outcome under its lease token;
  the table interprets it. The relation \<open>job_step\<close> adds the workers: every copy ever handed
  out by a claim may be reported on at any later time, in any order and repeatedly.
\<close>

section \<open>How one row may change\<close>

inductive row_step :: "DurableJob \<Rightarrow> DurableJob \<Rightarrow> bool" where
  row_idle: "row_step j j"
| row_claim: "j_Status j = JobPending \<Longrightarrow> row_step j (claim_row w now j)"
| row_succeed: "j_Status j = JobRunning \<Longrightarrow> row_step j
     (j\<lparr>j_Status := JobSucceeded, j_CompletedAt := Some now, j_LockedBy := '''',
        j_LockedAt := None, j_LastError := ''''\<rparr>)"
| row_retry: "j_Status j = JobRunning \<Longrightarrow> row_step j
     (j\<lparr>j_Status := JobPending, j_RunAt := runAt, j_Attempts := attempts,
        j_LastError := e, j_LockedBy := '''', j_LockedAt := None\<rparr>)"
| row_dead: "j_Status j = JobRunning \<Longrightarrow> row_step j
     (j\<lparr>j_Status := JobDead, j_Attempts := attempts, j_LastError := e,
        j_CompletedAt := Some now, j_LockedBy := '''', j_LockedAt := None\<rparr>)"
| row_extend: "j_Status j = JobRunning \<Longrightarrow> row_step j (j\<lparr>j_LockedAt := Some now\<rparr>)"
| row_reap: "j_Status j = JobRunning \<Longrightarrow>
     row_step j (j\<lparr>j_Status := JobPending, j_LockedBy := '''', j_LockedAt := None\<rparr>)"

inductive_cases row_stepE: "row_step j j'"

definition terminal_job :: "DurableJob \<Rightarrow> bool" where
  "terminal_job j \<longleftrightarrow> j_Status j = JobSucceeded \<or> j_Status j = JobDead"

lemma row_step_frame:
  "row_step j j' \<Longrightarrow> j_ID j' = j_ID j \<and> j_Queue j' = j_Queue j \<and> j_Kind j' = j_Kind j \<and>
     j_Payload j' = j_Payload j \<and> j_MaxAttempts j' = j_MaxAttempts j \<and>
     j_LeaseGeneration j \<le> j_LeaseGeneration j'"
  by (elim row_stepE) (simp_all add: claim_row_def)

lemma row_step_terminal: "row_step j j' \<Longrightarrow> terminal_job j \<Longrightarrow> j' = j"
  by (elim row_stepE) (auto simp: terminal_job_def)

text \<open>Only a claim leads to \<open>running\<close>, and it opens a new lease generation.\<close>

lemma row_step_running:
  "row_step j j' \<Longrightarrow> j_Status j \<noteq> JobRunning \<Longrightarrow> j_Status j' = JobRunning \<Longrightarrow>
     j_LeaseGeneration j' = j_LeaseGeneration j + 1"
  by (elim row_stepE) (simp_all add: claim_row_def)

section \<open>How the table may change\<close>

definition ids :: "Table \<Rightarrow> uuid set" where
  "ids db = j_ID ` set db"

definition fresh_row :: "DurableJob \<Rightarrow> bool" where
  "fresh_row j \<longleftrightarrow> j_Status j = JobPending \<and> j_Attempts j = 0 \<and> 0 < j_MaxAttempts j \<and>
     j_LeaseGeneration j = 0"

definition evolve :: "Table \<Rightarrow> Table \<Rightarrow> bool" where
  "evolve db db' \<longleftrightarrow> (\<exists>f new. db' = map f db @ new \<and> (\<forall>j \<in> set db. row_step j (f j)) \<and>
     (\<forall>j \<in> set new. fresh_row j \<and> j_ID j \<notin> ids db) \<and> distinct (map j_ID new))"

lemma evolve_map: "(\<And>j. j \<in> set db \<Longrightarrow> row_step j (f j)) \<Longrightarrow> evolve db (map f db)"
  unfolding evolve_def by (intro exI [of _ f] exI [of _ "[]"]) simp

lemma evolve_new: "fresh_row j \<Longrightarrow> j_ID j \<notin> ids db \<Longrightarrow> evolve db (db @ [j])"
  unfolding evolve_def by (intro exI [of _ id] exI [of _ "[j]"]) (simp add: row_idle)

lemma evolve_refl [simp]: "evolve db db"
  using evolve_map [of db id] by (simp add: row_idle)

lemma evolve_update_where:
  "(\<And>j. p j \<Longrightarrow> row_step j (f j)) \<Longrightarrow> evolve db (fst (update_where p f db))"
  unfolding update_where_def fst_conv by (rule evolve_map) (simp add: row_idle)

lemma evolve_distinct: "evolve db db' \<Longrightarrow> distinct (map j_ID db) \<Longrightarrow> distinct (map j_ID db')"
proof -
  assume "evolve db db'" and d: "distinct (map j_ID db)"
  then obtain f new where e: "db' = map f db @ new" "\<forall>j \<in> set db. row_step j (f j)"
    "\<forall>j \<in> set new. fresh_row j \<and> j_ID j \<notin> ids db" "distinct (map j_ID new)"
    by (auto simp: evolve_def)
  from e(2) have m: "map j_ID (map f db) = map j_ID db" by (auto dest: row_step_frame)
  have "set (map j_ID db) \<inter> set (map j_ID new) = {}"
  proof (intro equals0I)
    fix k assume "k \<in> set (map j_ID db) \<inter> set (map j_ID new)"
    then have "k \<in> ids db" "k \<in> j_ID ` set new" by (simp_all add: ids_def)
    with e(3) show False by blast
  qed
  with d e(4) show ?thesis unfolding e(1) map_append m by simp
qed

text \<open>Where the rows after a change come from, and where the rows before it go.\<close>

lemma evolve_back:
  "evolve db db' \<Longrightarrow> j' \<in> set db' \<Longrightarrow>
     (\<exists>j \<in> set db. row_step j j') \<or> fresh_row j' \<and> j_ID j' \<notin> ids db"
  unfolding evolve_def by fastforce

lemma evolve_forth: "evolve db db' \<Longrightarrow> j \<in> set db \<Longrightarrow> \<exists>j' \<in> set db'. row_step j j'"
  unfolding evolve_def by fastforce

lemma same_row: "distinct (map j_ID db) \<Longrightarrow> j \<in> set db \<Longrightarrow> k \<in> set db \<Longrightarrow> j_ID j = j_ID k \<Longrightarrow> j = k"
  by (auto simp: distinct_map dest: inj_onD)

section \<open>The repository calls\<close>

lemma row_of_normalized:
  "nj_Status job \<in> {None, Some JobPending} \<Longrightarrow> fresh_row (row_of k (normalizeJob now job))"
  by (auto simp: fresh_row_def row_of_def normalizeJob_def Let_def)

lemma row_of_ID [simp]: "j_ID (row_of k job) = k"
  by (simp add: row_of_def)

lemma Enqueue_evolve:
  "nj_Status job \<in> {None, Some JobPending} \<Longrightarrow> k \<notin> ids db \<Longrightarrow> evolve db (snd (Enqueue db now k job))"
  by (simp add: Enqueue_def Let_def evolve_new row_of_normalized)

lemma EnqueueIfNoActive_evolve:
  "nj_Status job \<in> {None, Some JobPending} \<Longrightarrow> k \<notin> ids db \<Longrightarrow>
     evolve db (snd (EnqueueIfNoActive db now k job))"
  by (simp add: EnqueueIfNoActive_def Let_def evolve_new row_of_normalized)

lemma mark_evolve:
  "evolve db (snd (MarkSucceeded db k w g now))"
  "evolve db (snd (MarkForRetry db k w g runAt attempts e))"
  "evolve db (snd (MarkDead db k w g now attempts e))"
  "evolve db (snd (ExtendLease db k w g now))"
  unfolding MarkSucceeded_def MarkForRetry_def MarkDead_def ExtendLease_def Let_def
    case_prod_unfold snd_conv
  by (rule evolve_update_where, simp add: ownedLease_def row_step.intros)+

lemma Reap_evolve: "evolve db (snd (ReapExpiredLeases db now lease))"
  unfolding ReapExpiredLeases_def Let_def case_prod_unfold snd_conv
  by (rule evolve_update_where) (simp add: expired_lease_def row_step.intros)

text \<open>The loop of \<open>ClaimDue\<close> updates each candidate's row once.\<close>

lemma claim_fold:
  "distinct (map j_ID cs) \<Longrightarrow>
     fold (\<lambda>c db. fst (update_where (\<lambda>j. j_ID j = j_ID c) (claim_row w now) db)) cs db =
     map (\<lambda>j. if j_ID j \<in> j_ID ` set cs then claim_row w now j else j) db"
proof (induction cs arbitrary: db)
  case (Cons c cs)
  have "j_ID (claim_row w now j) = j_ID j" for j by (simp add: claim_row_def)
  with Cons show ?case by (auto simp: update_where_def)
qed simp

lemma due_rows_props:
  assumes "distinct (map j_ID db)"
  shows "distinct (map j_ID (due_rows skip queue now n db))"
    and "j \<in> set (due_rows skip queue now n db) \<Longrightarrow>
      j \<in> set db \<and> j_Status j = JobPending \<and> j_Queue j = queue \<and> j_RunAt j \<le> now \<and> \<not> skip (j_ID j)"
proof -
  let ?due = "filter (\<lambda>j. j_Status j = JobPending \<and> j_Queue j = queue \<and> j_RunAt j \<le> now \<and> \<not> skip (j_ID j)) db"
  from assms have "distinct ?due" "inj_on j_ID (set ?due)"
    by (auto simp: distinct_map intro: inj_on_subset)
  then have "distinct (sort_key j_RunAt ?due)" "inj_on j_ID (set (sort_key j_RunAt ?due))" by simp_all
  then show "distinct (map j_ID (due_rows skip queue now n db))"
    unfolding due_rows_def distinct_map by (meson distinct_take inj_on_subset set_take_subset)
  show "j \<in> set (due_rows skip queue now n db) \<Longrightarrow>
      j \<in> set db \<and> j_Status j = JobPending \<and> j_Queue j = queue \<and> j_RunAt j \<le> now \<and> \<not> skip (j_ID j)"
    unfolding due_rows_def by (auto dest: in_set_takeD)
qed

lemma ClaimDue_eq:
  assumes "distinct (map j_ID db)" and "ClaimDue db skip w queue now n = (jobs, db')"
  obtains cs where "jobs = map (claim_row w now) cs" "distinct (map j_ID cs)"
    "\<And>c. c \<in> set cs \<Longrightarrow> c \<in> set db \<and> j_Status c = JobPending \<and> j_RunAt c \<le> now \<and> \<not> skip (j_ID c)"
    "db' = map (\<lambda>j. if j \<in> set cs then claim_row w now j else j) db"
proof -
  let ?cs = "due_rows skip (if queue = '''' then ''default'' else queue) now
      (nat (if n \<le> 0 then 10 else n)) db"
  note p = due_rows_props [OF assms(1)]
  from assms(2) have "jobs = map (claim_row w now) ?cs"
    "db' = map (\<lambda>j. if j_ID j \<in> j_ID ` set ?cs then claim_row w now j else j) db"
    by (simp_all add: ClaimDue_def Let_def claim_fold [OF p(1)])
  moreover have "j_ID j \<in> j_ID ` set ?cs \<longleftrightarrow> j \<in> set ?cs" if "j \<in> set db" for j
  proof
    assume "j_ID j \<in> j_ID ` set ?cs"
    then obtain c where c: "c \<in> set ?cs" "j_ID j = j_ID c" by auto
    from p(2) [OF c(1)] same_row [OF assms(1) that _ c(2)] have "j = c" by blast
    with c show "j \<in> set ?cs" by simp
  qed simp
  then have "map (\<lambda>j. if j_ID j \<in> j_ID ` set ?cs then claim_row w now j else j) db =
      map (\<lambda>j. if j \<in> set ?cs then claim_row w now j else j) db" by simp
  ultimately show thesis using p(1) p(2) [where j = c for c] by (intro that [of ?cs]) (simp, simp, blast, simp)
qed

lemma ClaimDue_evolve:
  assumes "distinct (map j_ID db)" and "ClaimDue db skip w queue now n = (jobs, db')"
  shows "evolve db db'"
  using assms by (rule ClaimDue_eq) (auto intro!: evolve_map row_step.intros)

section \<open>What a lease token protects\<close>

text \<open>
  A store of leased rows: a token either owns its row or does not; a write under a token
  that does not own changes nothing and says so; a write under an owning token succeeds
  and spends it; and no change of the store by anyone revives a spent token.
\<close>

locale fenced_store =
  fixes wf :: "'s \<Rightarrow> bool"
    and owns :: "'tok \<Rightarrow> 's \<Rightarrow> bool"
    and put :: "'tok \<Rightarrow> 'o \<Rightarrow> 's \<Rightarrow> bool \<times> 's"
    and spent :: "'tok \<Rightarrow> 's \<Rightarrow> bool"
    and change :: "'s \<Rightarrow> 's \<Rightarrow> bool"
  assumes put_unowned: "wf s \<Longrightarrow> \<not> owns t s \<Longrightarrow> put t o1 s = (False, s)"
    and put_owned: "wf s \<Longrightarrow> owns t s \<Longrightarrow> fst (put t o1 s) \<and> spent t (snd (put t o1 s))"
    and put_change: "wf s \<Longrightarrow> change s (snd (put t o1 s))"
    and change_wf: "wf s \<Longrightarrow> change s s' \<Longrightarrow> wf s'"
    and spent_change: "wf s \<Longrightarrow> spent t s \<Longrightarrow> change s s' \<Longrightarrow> spent t s'"
    and spent_not_owned: "wf s \<Longrightarrow> spent t s \<Longrightarrow> \<not> owns t s"
begin

lemma changes_wf: "change\<^sup>*\<^sup>* s s' \<Longrightarrow> wf s \<Longrightarrow> wf s'"
  by (induction rule: rtranclp_induct) (auto intro: change_wf)

lemma changes_spent: "change\<^sup>*\<^sup>* s s' \<Longrightarrow> wf s \<Longrightarrow> spent t s \<Longrightarrow> spent t s'"
  by (induction rule: rtranclp_induct) (auto intro: spent_change changes_wf)

lemma put_accepted_iff: "wf s \<Longrightarrow> fst (put t o1 s) \<longleftrightarrow> owns t s"
  by (cases "owns t s") (simp_all add: put_unowned put_owned)

lemma at_most_one_put:
  assumes "wf s" "fst (put t o1 s)" "change\<^sup>*\<^sup>* (snd (put t o1 s)) s'"
  shows "put t o2 s' = (False, s')"
proof -
  from assms(1,2) have "owns t s" by (simp add: put_accepted_iff)
  with assms(1) have "spent t (snd (put t o1 s))" "wf (snd (put t o1 s))"
    by (auto simp: put_owned intro: change_wf put_change)
  with assms(3) have "wf s'" "spent t s'" by (auto intro: changes_wf changes_spent)
  then show ?thesis by (simp add: put_unowned spent_not_owned)
qed

end

text \<open>
  The job table is such a store: a token is a row, a worker's name and a lease generation;
  the writes are the three outcomes.
\<close>

type_synonym Token = "uuid \<times> string \<times> int"

datatype Outcome =
    Succeed instant
  | Retry instant int string
  | Die instant int string

definition distinct_ids :: "Table \<Rightarrow> bool" where
  "distinct_ids db \<longleftrightarrow> distinct (map j_ID db)"

fun write_outcome :: "Token \<Rightarrow> Outcome \<Rightarrow> Table \<Rightarrow> bool \<times> Table" where
  "write_outcome (k, w, g) (Succeed now) db = MarkSucceeded db k w g now"
| "write_outcome (k, w, g) (Retry runAt attempts e) db = MarkForRetry db k w g runAt attempts e"
| "write_outcome (k, w, g) (Die now attempts e) db = MarkDead db k w g now attempts e"

fun owns :: "Token \<Rightarrow> Table \<Rightarrow> bool" where
  "owns (k, w, g) db \<longleftrightarrow> (\<exists>j \<in> set db. ownedLease k w g j)"

fun spent :: "Token \<Rightarrow> Table \<Rightarrow> bool" where
  "spent (k, w, g) db \<longleftrightarrow> k \<in> ids db \<and>
     (\<forall>j \<in> set db. j_ID j = k \<longrightarrow> g < j_LeaseGeneration j \<or>
        g = j_LeaseGeneration j \<and> j_Status j \<noteq> JobRunning)"

lemma update_unowned:
  "\<not> owns (k, w, g) db \<Longrightarrow> update_where (ownedLease k w g) f db = (db, 0)"
  unfolding update_where_def by (auto simp: map_idI filter_empty_conv)

lemma owned_single:
  assumes "distinct_ids db" "j \<in> set db" "ownedLease k w g j"
  shows "filter (ownedLease k w g) db = [j]"
proof -
  have "distinct (filter (ownedLease k w g) db)"
    using assms(1) by (simp add: distinct_ids_def distinct_map)
  moreover have only: "set (filter (ownedLease k w g) db) = {j}"
  proof -
    have "i = j" if i: "i \<in> set db" "ownedLease k w g i" for i
    proof (rule same_row)
      show "distinct (map j_ID db)" using assms(1) by (simp add: distinct_ids_def)
      show "j_ID i = j_ID j" using i(2) assms(3) by (simp add: ownedLease_def)
    qed (rule i(1) assms(2))+
    with assms(2,3) show ?thesis unfolding set_filter by blast
  qed
  ultimately have "length (filter (ownedLease k w g) db) = card {j}"
    using distinct_card by metis
  then obtain i where "filter (ownedLease k w g) db = [i]" by (auto simp: length_Suc_conv)
  with only show ?thesis by simp
qed

fun outcome_row :: "Outcome \<Rightarrow> DurableJob \<Rightarrow> DurableJob" where
  "outcome_row (Succeed now) j =
     j\<lparr>j_Status := JobSucceeded, j_CompletedAt := Some now, j_LockedBy := '''',
       j_LockedAt := None, j_LastError := ''''\<rparr>"
| "outcome_row (Retry runAt attempts e) j =
     j\<lparr>j_Status := JobPending, j_RunAt := runAt, j_Attempts := attempts,
       j_LastError := e, j_LockedBy := '''', j_LockedAt := None\<rparr>"
| "outcome_row (Die now attempts e) j =
     j\<lparr>j_Status := JobDead, j_Attempts := attempts, j_LastError := e,
       j_CompletedAt := Some now, j_LockedBy := '''', j_LockedAt := None\<rparr>"

lemma write_outcome_eq:
  "write_outcome (k, w, g) oc db =
     (snd (update_where (ownedLease k w g) (outcome_row oc) db) = 1,
      fst (update_where (ownedLease k w g) (outcome_row oc) db))"
  by (cases oc)
    (simp_all add: MarkSucceeded_def MarkForRetry_def MarkDead_def update_where_def Let_def)

lemma outcome_row_step: "j_Status j = JobRunning \<Longrightarrow> row_step j (outcome_row oc j)"
  by (cases oc) (simp_all add: row_step.intros)

lemma outcome_row_keeps [simp]:
  "j_ID (outcome_row oc j) = j_ID j" "j_LeaseGeneration (outcome_row oc j) = j_LeaseGeneration j"
  "j_Status (outcome_row oc j) \<noteq> JobRunning"
  by (cases oc, simp_all)+

lemma write_outcome_evolve: "evolve db (snd (write_outcome t oc db))"
proof (cases t)
  case (fields k w g)
  show ?thesis unfolding fields write_outcome_eq snd_conv
    by (rule evolve_update_where) (simp add: ownedLease_def outcome_row_step)
qed

lemma row_step_spent:
  "row_step j j' \<Longrightarrow>
     g < j_LeaseGeneration j \<or> g = j_LeaseGeneration j \<and> j_Status j \<noteq> JobRunning \<Longrightarrow>
     g < j_LeaseGeneration j' \<or> g = j_LeaseGeneration j' \<and> j_Status j' \<noteq> JobRunning"
  using row_step_frame [of j j'] row_step_running [of j j'] by fastforce

lemma spent_evolve: "spent t db \<Longrightarrow> evolve db db' \<Longrightarrow> spent t db'"
proof (cases t)
  case (fields k w g)
  assume s: "spent t db" and e: "evolve db db'"
  from s have k: "k \<in> ids db"
    and p: "\<And>j. j \<in> set db \<Longrightarrow> j_ID j = k \<Longrightarrow> g < j_LeaseGeneration j \<or>
        g = j_LeaseGeneration j \<and> j_Status j \<noteq> JobRunning"
    by (auto simp: fields)
  have "k \<in> ids db'"
  proof -
    from k obtain j where j: "j \<in> set db" "k = j_ID j" by (auto simp: ids_def)
    from evolve_forth [OF e j(1)] obtain j' where "j' \<in> set db'" "row_step j j'" by blast
    with j(2) row_step_frame [of j j'] show ?thesis unfolding ids_def by (intro image_eqI [of _ _ j']) simp_all
  qed
  moreover have "g < j_LeaseGeneration j' \<or> g = j_LeaseGeneration j' \<and> j_Status j' \<noteq> JobRunning"
    if j': "j' \<in> set db'" "j_ID j' = k" for j'
    using evolve_back [OF e j'(1)]
  proof
    assume "\<exists>j \<in> set db. row_step j j'"
    then obtain j where j: "j \<in> set db" "row_step j j'" by blast
    with j'(2) row_step_frame [of j j'] have "j_ID j = k" by simp
    then show ?thesis using p j row_step_spent by blast
  next
    assume "fresh_row j' \<and> j_ID j' \<notin> ids db"
    with j'(2) k show ?thesis by simp
  qed
  ultimately show ?thesis by (simp add: fields)
qed

lemma write_outcome_owned:
  assumes "distinct_ids db" and "owns t db"
  shows "fst (write_outcome t oc db) \<and> spent t (snd (write_outcome t oc db))"
proof (cases t)
  case (fields k w g)
  with assms(2) obtain j where j: "j \<in> set db" "ownedLease k w g j" by auto
  note one = owned_single [OF assms(1) j]
  have only: "i = j" if "i \<in> set db" "j_ID i = k" for i
    using that j same_row [OF assms(1) [unfolded distinct_ids_def]] by (simp add: ownedLease_def)
  have "spent (k, w, g) (map (\<lambda>i. if ownedLease k w g i then outcome_row oc i else i) db)"
  proof -
    have "g < j_LeaseGeneration j' \<or> g = j_LeaseGeneration j' \<and> j_Status j' \<noteq> JobRunning"
      if j': "j' = (if ownedLease k w g i then outcome_row oc i else i)" "i \<in> set db" "j_ID j' = k" for i j'
    proof -
      from j' have "j_ID i = k" by (simp split: if_splits)
      with j'(2) have "i = j" by (rule only)
      with j j' show ?thesis by (simp add: ownedLease_def)
    qed
    moreover have "k \<in> ids (map (\<lambda>i. if ownedLease k w g i then outcome_row oc i else i) db)"
      unfolding ids_def set_map image_image
      by (rule image_eqI [OF _ j(1)]) (use j(2) in \<open>simp add: ownedLease_def\<close>)
    ultimately show ?thesis unfolding spent.simps set_map by blast
  qed
  then show ?thesis
    by (simp add: fields write_outcome_eq update_where_def one del: spent.simps)
qed

lemma spent_not_owned: "spent t db \<Longrightarrow> \<not> owns t db"
  by (cases t) (auto simp: ownedLease_def)

interpretation leases: fenced_store distinct_ids owns write_outcome spent evolve
proof
  show "write_outcome t oc db = (False, db)" if "\<not> owns t db" for t oc db
  proof (cases t)
    case (fields k w g)
    with that show ?thesis by (simp add: write_outcome_eq update_unowned del: owns.simps)
  qed
  show "distinct_ids db'" if "distinct_ids db" "evolve db db'" for db db'
    using that evolve_distinct by (simp add: distinct_ids_def)
qed (use write_outcome_owned write_outcome_evolve spent_evolve spent_not_owned in blast)+

end
