(* ===== verification/DurableJobProtocol.thy ===== *)
theory DurableJobProtocol
  imports DurableJobFacts
begin

text \<open>
  Any number of workers on one job table. A state is the table and the set of claimed copies
  ever handed out, each with the worker it went to. \<open>job_step\<close> lets any of these be reported
  on at any later time, repeatedly, which covers workers that stall, lose their lease, or come
  back after another worker took the job over. \<open>job_inv\<close> is the invariant of that relation,
  and \<open>RunOnce\<close> is shown to be a sequence of its steps.
\<close>

section \<open>Steps\<close>

type_synonym JobState = "Table \<times> (Runner \<times> DurableJob) set"

definition token :: "Runner \<Rightarrow> DurableJob \<Rightarrow> Token" where
  "token r job = (j_ID job, r_workerID r, j_LeaseGeneration job)"

definition unregistered :: "string \<Rightarrow> string" where
  "unregistered kind = ''no handler registered for kind '' @ [CHR 34] @ kind @ [CHR 34]"

inductive job_step :: "JobState \<Rightarrow> JobState \<Rightarrow> bool" where
  step_enqueue: "k \<notin> ids db \<Longrightarrow>
     job_step (db, H) (snd (Enqueue_runner (r :: Runner) db now k kind payload runAt maxAttempts), H)"
| step_ensure: "k \<notin> ids db \<Longrightarrow>
     job_step (db, H) (snd (EnsureScheduled (r :: Runner) db now k kind payload runAt maxAttempts), H)"
| step_reap: "job_step (db, H) (snd (ReapExpiredLeases db now lease), H)"
| step_claim: "ClaimDue db skip (r_workerID r) (r_queue r) now (r_batch r) = (jobs, db') \<Longrightarrow>
     job_step (db, H) (db', H \<union> Pair r ` set jobs)"
| step_extend: "(r, job) \<in> H \<Longrightarrow>
     job_step (db, H) (snd (ExtendLease db (j_ID job) (r_workerID r) (j_LeaseGeneration job) now), H)"
| step_outcome: "(r, job) \<in> H \<Longrightarrow> job_step (db, H) (record_outcome r db job now err, H)"
| step_unregistered: "(r, job) \<in> H \<Longrightarrow>
     job_step (db, H) (snd (MarkDead db (j_ID job) (r_workerID r) (j_LeaseGeneration job) now
       (j_Attempts job + 1) (unregistered (j_Kind job))), H)"

definition outcome_of :: "Runner \<Rightarrow> DurableJob \<Rightarrow> instant \<Rightarrow> string option \<Rightarrow> Outcome" where
  "outcome_of r job now err =
     (case err of
        None \<Rightarrow> Succeed now
      | Some e \<Rightarrow>
          if j_MaxAttempts job \<le> j_Attempts job + 1 then Die now (j_Attempts job + 1) e
          else Retry (now + Delay (r_policy r) (j_Attempts job + 1)) (j_Attempts job + 1) e)"

lemma record_outcome_eq:
  "record_outcome r db job now err = snd (write_outcome (token r job) (outcome_of r job now err) db)"
  by (auto simp: record_outcome_def outcome_of_def token_def Let_def split: option.splits)

lemma unregistered_eq:
  "snd (MarkDead db (j_ID job) (r_workerID r) (j_LeaseGeneration job) now n (unregistered kind)) =
   snd (write_outcome (token r job) (Die now n (unregistered kind)) db)"
  by (simp add: token_def)

section \<open>Every step evolves the table\<close>

lemma new_job_Status [simp]: "nj_Status (new_job r now kind payload runAt n) = Some JobPending"
  by (simp add: new_job_def)

definition table_of :: "JobState \<Rightarrow> Table" where
  "table_of s = fst s"

lemma job_step_evolve:
  assumes "job_step s s'" and "distinct_ids (table_of s)"
  shows "evolve (table_of s) (table_of s')"
  using assms
proof (cases rule: job_step.cases)
  case (step_claim db skip r now jobs db' H)
  then show ?thesis
    using assms(2) by (auto simp: distinct_ids_def table_of_def intro: ClaimDue_evolve)
qed (simp_all add: table_of_def Enqueue_runner_def EnsureScheduled_def Enqueue_evolve
    EnqueueIfNoActive_evolve Reap_evolve mark_evolve record_outcome_eq write_outcome_evolve)

section \<open>The invariant\<close>

definition row_ok :: "DurableJob \<Rightarrow> bool" where
  "row_ok j \<longleftrightarrow> 0 \<le> j_Attempts j \<and> 0 < j_MaxAttempts j \<and> j_Attempts j \<le> j_MaxAttempts j \<and>
     0 \<le> j_LeaseGeneration j \<and> (j_Status j \<noteq> JobDead \<longrightarrow> j_Attempts j < j_MaxAttempts j) \<and>
     (j_Status j = JobDead \<longrightarrow>
        j_Attempts j = j_MaxAttempts j \<or> j_LastError j = unregistered (j_Kind j))"

definition held_by :: "Runner \<Rightarrow> DurableJob \<Rightarrow> DurableJob \<Rightarrow> bool" where
  "held_by r c j \<longleftrightarrow> j_ID j = j_ID c \<and> j_Kind j = j_Kind c \<and> j_MaxAttempts j = j_MaxAttempts c \<and>
     j_LeaseGeneration c \<le> j_LeaseGeneration j \<and>
     (j_LeaseGeneration j = j_LeaseGeneration c \<and> j_Status j = JobRunning \<longrightarrow>
        j_Attempts j = j_Attempts c \<and> j_LockedBy j = r_workerID r)"

definition held_ok :: "Table \<Rightarrow> Runner \<times> DurableJob \<Rightarrow> bool" where
  "held_ok db = (\<lambda>(r, c). 0 \<le> j_Attempts c \<and> j_Attempts c < j_MaxAttempts c \<and>
     (\<exists>j \<in> set db. held_by r c j))"

definition one_holder :: "(Runner \<times> DurableJob) set \<Rightarrow> bool" where
  "one_holder H \<longleftrightarrow> (\<forall>(r, c) \<in> H. \<forall>(r', c') \<in> H.
     j_ID c = j_ID c' \<and> j_LeaseGeneration c = j_LeaseGeneration c' \<longrightarrow> r = r' \<and> c = c')"

definition job_inv :: "JobState \<Rightarrow> bool" where
  "job_inv s \<longleftrightarrow> distinct_ids (table_of s) \<and> (\<forall>j \<in> set (table_of s). row_ok j) \<and>
     (\<forall>h \<in> snd s. held_ok (table_of s) h) \<and> one_holder (snd s)"

lemma row_step_same_lease:
  "row_step j j' \<Longrightarrow> j_Status j' = JobRunning \<Longrightarrow> j_LeaseGeneration j' = j_LeaseGeneration j \<Longrightarrow>
     j_Status j = JobRunning \<and> j_Attempts j' = j_Attempts j \<and> j_LockedBy j' = j_LockedBy j"
  by (elim row_stepE) (simp_all add: claim_row_def)

lemma held_by_step:
  assumes "held_by r c j" "row_step j j'" shows "held_by r c j'"
  using assms row_step_frame [OF assms(2)] row_step_same_lease [OF assms(2)]
  unfolding held_by_def by auto

lemma held_ok_evolve: "held_ok db h \<Longrightarrow> evolve db db' \<Longrightarrow> held_ok db' h"
  unfolding held_ok_def using evolve_forth held_by_step by (fastforce split: prod.splits)

lemma fresh_row_ok: "fresh_row j \<Longrightarrow> row_ok j"
  by (simp add: fresh_row_def row_ok_def)

section \<open>Every step keeps it\<close>

lemma rows_evolve_new:
  assumes "\<forall>j \<in> set db. row_ok j" "fresh_row (row_of k job)"
  shows "\<forall>j \<in> set (db @ [row_of k job]). row_ok j"
  using assms fresh_row_ok by auto

lemma rows_Enqueue:
  "\<forall>j \<in> set db. row_ok j \<Longrightarrow> j' \<in> set (snd (Enqueue_runner r db now k kind payload runAt n)) \<Longrightarrow> row_ok j'"
  using row_of_normalized [of "new_job r now kind payload runAt n" k now]
  by (auto simp: Enqueue_runner_def Enqueue_def Let_def intro: fresh_row_ok)

lemma rows_EnsureScheduled:
  "\<forall>j \<in> set db. row_ok j \<Longrightarrow> j' \<in> set (snd (EnsureScheduled r db now k kind payload runAt n)) \<Longrightarrow> row_ok j'"
  using row_of_normalized [of "new_job r now kind payload runAt n" k now]
  by (auto simp: EnsureScheduled_def EnqueueIfNoActive_def Let_def intro: fresh_row_ok split: if_splits)

lemma rows_update_where:
  "\<forall>j \<in> set db. row_ok j \<Longrightarrow> (\<And>j. j \<in> set db \<Longrightarrow> p j \<Longrightarrow> row_ok j \<Longrightarrow> row_ok (f j)) \<Longrightarrow>
     j' \<in> set (fst (update_where p f db)) \<Longrightarrow> row_ok j'"
  unfolding update_where_def by auto

lemma rows_Reap:
  "\<forall>j \<in> set db. row_ok j \<Longrightarrow> j' \<in> set (snd (ReapExpiredLeases db now lease)) \<Longrightarrow> row_ok j'"
  unfolding ReapExpiredLeases_def Let_def case_prod_unfold snd_conv
  by (erule rows_update_where [rotated 2]) (simp_all add: row_ok_def expired_lease_def)

lemma rows_Extend:
  "\<forall>j \<in> set db. row_ok j \<Longrightarrow> j' \<in> set (snd (ExtendLease db k w g now)) \<Longrightarrow> row_ok j'"
  unfolding ExtendLease_def Let_def case_prod_unfold snd_conv
  by (erule rows_update_where [rotated 2]) (simp_all add: row_ok_def)

lemma rows_claim: "row_ok j \<Longrightarrow> j_Status j = JobPending \<Longrightarrow> row_ok (claim_row w now j)"
  by (simp add: row_ok_def claim_row_def)

text \<open>
  Reporting an outcome that counts one attempt and, if it gives up, does so on the last
  attempt or for want of a handler.
\<close>

definition fair_outcome :: "DurableJob \<Rightarrow> Outcome \<Rightarrow> bool" where
  "fair_outcome c oc \<longleftrightarrow>
     (case oc of
        Succeed now \<Rightarrow> True
      | Retry runAt n e \<Rightarrow> n = j_Attempts c + 1 \<and> n < j_MaxAttempts c
      | Die now n e \<Rightarrow> n = j_Attempts c + 1 \<and> (n = j_MaxAttempts c \<or> e = unregistered (j_Kind c)))"

lemma outcome_of_fair: "j_Attempts c < j_MaxAttempts c \<Longrightarrow> fair_outcome c (outcome_of r c now err)"
  by (auto simp: fair_outcome_def outcome_of_def split: option.splits)

lemma row_ok_outcome:
  "row_ok j \<Longrightarrow> j_Attempts j = j_Attempts c \<Longrightarrow> j_MaxAttempts j = j_MaxAttempts c \<Longrightarrow>
     j_Kind j = j_Kind c \<Longrightarrow> j_Status j = JobRunning \<Longrightarrow> fair_outcome c oc \<Longrightarrow>
     row_ok (outcome_row oc j)"
  by (cases oc) (auto simp: row_ok_def fair_outcome_def)

lemma rows_outcome:
  assumes "distinct_ids db" "\<forall>j \<in> set db. row_ok j" "held_ok db (r, c)" "fair_outcome c oc"
    and "j' \<in> set (snd (write_outcome (token r c) oc db))"
  shows "row_ok j'"
  using assms(5) unfolding token_def write_outcome_eq snd_conv
proof (rule rows_update_where [OF assms(2), rotated])
  fix j assume j: "j \<in> set db" "ownedLease (j_ID c) (r_workerID r) (j_LeaseGeneration c) j" "row_ok j"
  from assms(3) obtain i where i: "i \<in> set db" "held_by r c i" by (auto simp: held_ok_def)
  with j(2) have "j_ID j = j_ID i" by (simp add: ownedLease_def held_by_def)
  with same_row [OF assms(1) [unfolded distinct_ids_def] j(1) i(1)] have "j = i" by simp
  with i(2) j assms(4) show "row_ok (outcome_row oc j)"
    by (intro row_ok_outcome [where c = c]) (simp_all add: ownedLease_def held_by_def)
qed

lemma held_claimed:
  assumes "distinct_ids db" "\<forall>j \<in> set db. row_ok j" "ClaimDue db skip (r_workerID r) q now n = (jobs, db')"
    and "c \<in> set jobs"
  shows "held_ok db' (r, c)" and "\<exists>j \<in> set db. j_ID j = j_ID c \<and> j_LeaseGeneration c = j_LeaseGeneration j + 1"
    and "j_Status c = JobRunning \<and> j_LockedBy c = r_workerID r"
proof -
  from ClaimDue_eq [OF assms(1) [unfolded distinct_ids_def] assms(3)] obtain cs where cs:
    "jobs = map (claim_row (r_workerID r) now) cs" "distinct (map j_ID cs)"
    "\<And>c. c \<in> set cs \<Longrightarrow> c \<in> set db \<and> j_Status c = JobPending \<and> j_RunAt c \<le> now \<and> \<not> skip (j_ID c)"
    "db' = map (\<lambda>j. if j \<in> set cs then claim_row (r_workerID r) now j else j) db" by blast
  from assms(4) cs(1) obtain j where j: "j \<in> set cs" "c = claim_row (r_workerID r) now j" by auto
  from cs(3) [OF j(1)] have d: "j \<in> set db" "j_Status j = JobPending" by auto
  have "c \<in> set db'" unfolding cs(4) set_map using d(1) j by (intro image_eqI [of _ _ j]) simp_all
  moreover have "row_ok j" using assms(2) d(1) by blast
  ultimately show "held_ok db' (r, c)"
    unfolding held_ok_def case_prod_conv
    by (intro conjI bexI [of _ c]) (use d(2) j(2) in \<open>simp_all add: row_ok_def held_by_def claim_row_def\<close>)
  show "\<exists>j \<in> set db. j_ID j = j_ID c \<and> j_LeaseGeneration c = j_LeaseGeneration j + 1"
    by (rule bexI [OF _ d(1)]) (simp add: j(2) claim_row_def)
  show "j_Status c = JobRunning \<and> j_LockedBy c = r_workerID r" by (simp add: j(2) claim_row_def)
qed

lemma claimed_ids_distinct:
  assumes "distinct_ids db" "ClaimDue db skip w q now n = (jobs, db')"
  shows "distinct (map j_ID jobs)"
proof -
  from ClaimDue_eq [OF assms(1) [unfolded distinct_ids_def] assms(2)] obtain cs where
    "jobs = map (claim_row w now) cs" "distinct (map j_ID cs)" by blast
  moreover have "j_ID \<circ> claim_row w now = j_ID" by (auto simp: claim_row_def)
  ultimately show ?thesis by simp
qed

lemma one_holder_claim:
  assumes "distinct_ids db" "\<forall>h \<in> H. held_ok db h" "one_holder H"
    and claim: "ClaimDue db skip (r_workerID r) q now n = (jobs, db')" and rows: "\<forall>j \<in> set db. row_ok j"
  shows "one_holder (H \<union> Pair r ` set jobs)"
proof -
  have old: False if "(r', c') \<in> H" "c \<in> set jobs" "j_ID c = j_ID c'"
    "j_LeaseGeneration c = j_LeaseGeneration c'" for r' c' c
  proof -
    from assms(2) that(1) obtain j' where j': "j' \<in> set db" "held_by r' c' j'"
      by (auto simp: held_ok_def)
    from held_claimed(2) [OF assms(1) rows claim that(2)] obtain j where
      j: "j \<in> set db" "j_ID j = j_ID c" "j_LeaseGeneration c = j_LeaseGeneration j + 1" by blast
    have "j = j'"
      using same_row [OF assms(1) [unfolded distinct_ids_def] j(1) j'(1)] j(2) j'(2) that(3)
      by (simp add: held_by_def)
    with j(3) j'(2) that(4) show False by (simp add: held_by_def)
  qed
  have new: "c = c'" if "c \<in> set jobs" "c' \<in> set jobs" "j_ID c = j_ID c'" for c c'
    using same_row [OF claimed_ids_distinct [OF assms(1) claim]] that .
  show ?thesis unfolding one_holder_def
  proof (intro ballI, clarify)
    fix ra ca rb cb
    assume a: "(ra, ca) \<in> H \<union> Pair r ` set jobs" and b: "(rb, cb) \<in> H \<union> Pair r ` set jobs"
      and eq: "j_ID ca = j_ID cb" "j_LeaseGeneration ca = j_LeaseGeneration cb"
    consider "(ra, ca) \<in> H" "(rb, cb) \<in> H" | "(ra, ca) \<in> H" "cb \<in> set jobs"
      | "(rb, cb) \<in> H" "ca \<in> set jobs" | "ra = r" "rb = r" "ca \<in> set jobs" "cb \<in> set jobs"
      using a b by blast
    then show "ra = rb \<and> ca = cb"
    proof cases
      case 1 with assms(3) eq show ?thesis by (fastforce simp: one_holder_def)
    next
      case 2 with old [of ra ca cb] eq show ?thesis by simp
    next
      case 3 with old [of rb cb ca] eq show ?thesis by simp
    next
      case 4 with new [of ca cb] eq show ?thesis by simp
    qed
  qed
qed

lemma job_inv_same_held:
  assumes "job_inv (db, H)" "evolve db db'" "\<And>j. j \<in> set db' \<Longrightarrow> row_ok j"
  shows "job_inv (db', H)"
  using assms held_ok_evolve [OF _ assms(2)] evolve_distinct [OF assms(2)]
  by (simp add: job_inv_def table_of_def distinct_ids_def)

lemma job_inv_parts:
  assumes "job_inv (db, H)"
  shows "distinct_ids db" "\<forall>j \<in> set db. row_ok j" "\<forall>h \<in> H. held_ok db h" "one_holder H"
  using assms by (simp_all add: job_inv_def table_of_def)

lemma job_step_inv: "job_step s s' \<Longrightarrow> job_inv s \<Longrightarrow> job_inv s'"
proof (induction rule: job_step.induct)
  case (step_claim db skip r now jobs db' H)
  note p = job_inv_parts [OF step_claim(2)]
  have e: "evolve db db'"
    using ClaimDue_evolve [OF p(1) [unfolded distinct_ids_def] step_claim(1)] .
  have rows: "\<forall>j \<in> set db'. row_ok j"
  proof (rule ClaimDue_eq [OF p(1) [unfolded distinct_ids_def] step_claim(1)])
    fix cs
    assume "\<And>c. c \<in> set cs \<Longrightarrow> c \<in> set db \<and> j_Status c = JobPending \<and> j_RunAt c \<le> now \<and> \<not> skip (j_ID c)"
      and "db' = map (\<lambda>j. if j \<in> set cs then claim_row (r_workerID r) now j else j) db"
    with p(2) show ?thesis by (auto intro: rows_claim)
  qed
  have "held_ok db' h" if "h \<in> H \<union> Pair r ` set jobs" for h
    using that held_ok_evolve [OF _ e] p(3) held_claimed(1) [OF p(1,2) step_claim(1)] by blast
  moreover note one_holder_claim [OF p(1,3,4) step_claim(1) p(2)]
  moreover have "distinct_ids db'"
    using evolve_distinct [OF e] p(1) by (simp add: distinct_ids_def)
  ultimately show ?case using rows by (simp add: job_inv_def table_of_def)
next
  case (step_outcome r job H db now err)
  note p = job_inv_parts [OF step_outcome(2)]
  have h: "held_ok db (r, job)" using p(3) step_outcome(1) by blast
  then have "fair_outcome job (outcome_of r job now err)"
    by (intro outcome_of_fair) (simp add: held_ok_def)
  from rows_outcome [OF p(1,2) h this] show ?case
    by (intro job_inv_same_held [OF step_outcome(2)]) (simp_all add: record_outcome_eq write_outcome_evolve)
next
  case (step_unregistered r job H db now)
  note p = job_inv_parts [OF step_unregistered(2)]
  have h: "held_ok db (r, job)" using p(3) step_unregistered(1) by blast
  have "fair_outcome job (Die now (j_Attempts job + 1) (unregistered (j_Kind job)))"
    by (simp add: fair_outcome_def)
  from rows_outcome [OF p(1,2) h this] show ?case unfolding unregistered_eq
    by (intro job_inv_same_held [OF step_unregistered(2)]) (simp_all add: write_outcome_evolve)
next
  case (step_enqueue k db H r now kind payload runAt n)
  note p = job_inv_parts [OF step_enqueue(2)]
  show ?case
    using step_enqueue(2) by (rule job_inv_same_held)
      (use step_enqueue(1) rows_Enqueue [OF p(2)] in \<open>auto simp: Enqueue_runner_def Enqueue_evolve\<close>)
next
  case (step_ensure k db H r now kind payload runAt n)
  note p = job_inv_parts [OF step_ensure(2)]
  show ?case
    using step_ensure(2) by (rule job_inv_same_held)
      (use step_ensure(1) rows_EnsureScheduled [OF p(2)] in \<open>auto simp: EnsureScheduled_def EnqueueIfNoActive_evolve\<close>)
next
  case (step_reap db H now lease)
  note p = job_inv_parts [OF step_reap(1)]
  show ?case
    using step_reap(1) by (rule job_inv_same_held) (use rows_Reap [OF p(2)] in \<open>auto simp: Reap_evolve\<close>)
next
  case (step_extend r job H db now)
  note p = job_inv_parts [OF step_extend(2)]
  show ?case
    using step_extend(2) by (rule job_inv_same_held) (use rows_Extend [OF p(2)] in \<open>auto simp: mark_evolve\<close>)
qed

definition job_reachable :: "JobState \<Rightarrow> bool" where
  "job_reachable s \<longleftrightarrow> job_step\<^sup>*\<^sup>* ([], {}) s"

lemma job_steps_inv: "job_step\<^sup>*\<^sup>* s s' \<Longrightarrow> job_inv s \<Longrightarrow> job_inv s'"
  by (induction rule: rtranclp_induct) (auto intro: job_step_inv)

lemma job_reachable_inv: "job_reachable s \<Longrightarrow> job_inv s"
  unfolding job_reachable_def
  by (erule job_steps_inv) (simp add: job_inv_def table_of_def distinct_ids_def one_holder_def)

lemma job_steps_evolve:
  "job_step\<^sup>*\<^sup>* s s' \<Longrightarrow> distinct_ids (table_of s) \<Longrightarrow>
     distinct_ids (table_of s') \<and> evolve\<^sup>*\<^sup>* (table_of s) (table_of s')"
proof (induction rule: rtranclp_induct)
  case (step s' s'')
  then have d: "distinct_ids (table_of s')" and "evolve (table_of s') (table_of s'')"
    by (auto intro: job_step_evolve)
  with step evolve_distinct show ?case by (auto simp: distinct_ids_def)
qed simp

section \<open>A worker's cycle is a sequence of steps\<close>

text \<open>
  A run during which nobody else writes; what others write in between are steps of their own.
\<close>

definition alone :: "worker_event list \<Rightarrow> bool" where
  "alone es \<longleftrightarrow> (\<forall>e \<in> set es. case e of OthersWrote db \<Rightarrow> False | _ \<Rightarrow> True)"

lemma invoke_steps:
  "alone es \<Longrightarrow> (r, job) \<in> H \<Longrightarrow>
     job_step\<^sup>*\<^sup>* (db, H) (snd (safeInvokeWithHeartbeat r job db es), H)"
proof (induction r job db es rule: safeInvokeWithHeartbeat.induct)
  case (5 r job db now es)
  let ?x = "ExtendLease db (j_ID job) (r_workerID r) (j_LeaseGeneration job) now"
  from 5(3,4) have es: "alone es" and step: "job_step (db, H) (snd ?x, H)"
    by (auto simp: alone_def intro: step_extend)
  show ?case
  proof (cases "r_lease r div 3 \<le> 0")
    case True
    with 5(1,4) es show ?thesis by simp
  next
    case False
    with 5(2) [OF False refl prod.collapse] 5(4) es step show ?thesis
      by (auto simp: case_prod_unfold Let_def intro: converse_rtranclp_into_rtranclp)
  qed
qed (auto simp: alone_def)

lemma execute_steps:
  assumes "alone es" "(r, job) \<in> H"
  shows "job_step\<^sup>*\<^sup>* (db, H) (snd (execute r db job now es), H)"
proof (cases "j_Kind job \<in> set (r_handlers r)")
  case False
  then show ?thesis
    using step_unregistered [OF assms(2), of db now] by (auto simp: execute_def unregistered_def)
next
  case True
  from invoke_steps [OF assms] obtain i db' where i: "safeInvokeWithHeartbeat r job db es = (i, db')"
    and steps: "job_step\<^sup>*\<^sup>* (db, H) (db', H)" by (metis prod.collapse)
  have "job_step\<^sup>*\<^sup>* (db, H) (record_outcome r db' job now err, H)" for err
    using steps step_outcome [OF assms(2)] by (rule rtranclp.rtrancl_into_rtrancl)
  with True i steps show ?thesis by (cases i) (simp_all add: execute_def)
qed

lemma execute_all_steps:
  "\<forall>(now, es) \<in> set runs. alone es \<Longrightarrow> Pair r ` set jobs \<subseteq> H \<Longrightarrow>
     job_step\<^sup>*\<^sup>* (db, H) (snd (snd (execute_all r db jobs runs)), H)"
proof (induction r db jobs runs rule: execute_all.induct)
  case (2 r db job jobs runs)
  obtain now es where run: "(case runs of [] \<Rightarrow> (0, []) | run # _ \<Rightarrow> run) = (now, es)" by fastforce
  have a: "alone es" "\<forall>(now, es) \<in> set (tl runs). alone es"
    using 2(2) run by (cases runs; force simp: alone_def)+
  obtain err db' where x: "execute r db job now es = (err, db')" by fastforce
  from execute_steps [OF a(1), of r job H db now] 2(3) x
  have "job_step\<^sup>*\<^sup>* (db, H) (db', H)" by simp
  also have "job_step\<^sup>*\<^sup>* (db', H) (snd (snd (execute_all r db' jobs (tl runs))), H)"
    using 2(1) [OF run [symmetric] refl x [symmetric] refl] a(2) 2(3) by simp
  finally show ?case using run x by (simp add: case_prod_unfold Let_def)
qed simp

lemma RunOnce_steps:
  assumes "\<forall>(now, es) \<in> set runs. alone es"
  shows "\<exists>jobs. job_step\<^sup>*\<^sup>* (db, H) (snd (snd (RunOnce r db now skip runs)), H \<union> Pair r ` set jobs)"
proof -
  let ?db = "snd (ReapExpiredLeases db now (r_lease r))"
  obtain jobs db' where c: "ClaimDue ?db skip (r_workerID r) (r_queue r) now (r_batch r) = (jobs, db')"
    by fastforce
  have "job_step (db, H) (?db, H)" by (rule step_reap)
  also have "job_step\<^sup>*\<^sup>* (?db, H) (db', H \<union> Pair r ` set jobs)"
    using step_claim [OF c] by (rule r_into_rtranclp)
  also have "job_step\<^sup>*\<^sup>* (db', H \<union> Pair r ` set jobs)
      (snd (snd (execute_all r db' jobs runs)), H \<union> Pair r ` set jobs)"
    using execute_all_steps [OF assms] by simp
  finally show ?thesis using c by (auto simp: RunOnce_def case_prod_unfold Let_def)
qed

end
