(* ===== verification/DurableJobTheorems.thy ===== *)
theory DurableJobTheorems
  imports DurableJobProtocol
begin

text \<open>
  What the durable job queue guarantees to the workers and to the jobs, over every
  interleaving of \<open>job_step\<close>, with a witness for each theorem that has hypotheses.
\<close>

section \<open>A queue with one job, claimed\<close>

definition demo_runner :: Runner where
  "demo_runner = Register (NewRunner ''w1'' \<lparr>o_WorkerID = '''', o_Queue = '''', o_Policy = None,
     o_Lease = 0, o_Batch = 0\<rparr>) ''scan''"

definition demo_enqueued :: Table where
  "demo_enqueued = snd (Enqueue_runner demo_runner [] 1000 1 ''scan'' ''{}'' 0 3)"

definition demo_claim :: "DurableJob list \<times> Table" where
  "demo_claim = ClaimDue demo_enqueued (\<lambda>k. False) (r_workerID demo_runner) (r_queue demo_runner)
     2000 (r_batch demo_runner)"

definition demo_job :: DurableJob where
  "demo_job = \<lparr>j_ID = 1, j_Queue = ''default'', j_Kind = ''scan'', j_Payload = ''{}'',
     j_Status = JobRunning, j_Attempts = 0, j_MaxAttempts = 3, j_RunAt = 1000,
     j_LockedBy = ''w1'', j_LockedAt = Some 2000, j_LeaseGeneration = 1, j_LastError = '''',
     j_CompletedAt = None\<rparr>"

lemma demo_runner_eq:
  "demo_runner = \<lparr>r_policy = DefaultPolicy, r_workerID = ''w1'', r_queue = ''default'',
     r_lease = DefaultLease, r_batch = 10, r_handlers = [''scan'']\<rparr>"
  by (simp add: demo_runner_def NewRunner_def Register_def)

lemma demo_claim_eq: "demo_claim = ([demo_job], [demo_job])"
  by (simp add: demo_claim_def demo_enqueued_def demo_runner_eq demo_job_def Enqueue_runner_def
      Enqueue_def new_job_def normalizeJob_def row_of_def ClaimDue_def due_rows_def claim_row_def
      update_where_def Let_def)

lemma demo_reachable: "job_reachable ([demo_job], {(demo_runner, demo_job)})"
proof -
  have "job_step ([], {}) (demo_enqueued, {})"
    unfolding demo_enqueued_def by (rule step_enqueue) (simp add: ids_def)
  moreover have "job_step (demo_enqueued, {}) ([demo_job], {} \<union> Pair demo_runner ` set [demo_job])"
    by (rule step_claim) (rule demo_claim_eq [unfolded demo_claim_def])
  ultimately show ?thesis
    unfolding job_reachable_def by (simp add: converse_rtranclp_into_rtranclp)
qed

section \<open>Leases\<close>

text \<open>
  C22. Once an outcome was accepted under a lease token, no later outcome under the same token
  is: whatever the workers did in between (reaping, reclaiming, retrying), it returns False and
  leaves the table as it is.
\<close>

theorem one_outcome_per_lease:
  assumes "job_reachable (db, H)" and "fst (write_outcome t o1 db)"
    and "job_step\<^sup>*\<^sup>* (snd (write_outcome t o1 db), H) (db', H')"
  shows "write_outcome t o2 db' = (False, db')"
proof -
  have d: "distinct_ids db"
    using job_reachable_inv [OF assms(1)] by (rule job_inv_parts)
  with write_outcome_evolve [of db t o1] have "distinct_ids (snd (write_outcome t o1 db))"
    using evolve_distinct by (auto simp: distinct_ids_def)
  with job_steps_evolve [OF assms(3)] have "evolve\<^sup>*\<^sup>* (snd (write_outcome t o1 db)) db'"
    by (simp add: table_of_def)
  with d assms(2) show ?thesis by (rule leases.at_most_one_put)
qed

theorem one_outcome_per_lease_witness:
  "write_outcome (1, ''w1'', 1) (Die 5000 1 ''late'') (snd (write_outcome (1, ''w1'', 1) (Succeed 4000) [demo_job])) =
     (False, snd (write_outcome (1, ''w1'', 1) (Succeed 4000) [demo_job]))"
  by (rule one_outcome_per_lease [OF demo_reachable _ rtranclp.rtrancl_refl])
    (simp add: MarkSucceeded_def update_where_def demo_job_def ownedLease_def)

text \<open>
  Two workers never own a row at the same time: if the tokens of two claimed copies of a
  job are both good, they are the same copy at the same worker.
\<close>

theorem lease_exclusive:
  assumes "job_reachable (db, H)" and "(r, c) \<in> H" and "(r', c') \<in> H" and "j_ID c = j_ID c'"
    and "owns (token r c) db" and "owns (token r' c') db"
  shows "r = r' \<and> c = c'"
proof -
  note p = job_inv_parts [OF job_reachable_inv [OF assms(1)]]
  from assms(5,6) obtain j j' where j: "j \<in> set db" "j_ID j = j_ID c" "j_LeaseGeneration j = j_LeaseGeneration c"
    and j': "j' \<in> set db" "j_ID j' = j_ID c'" "j_LeaseGeneration j' = j_LeaseGeneration c'"
    by (auto simp: token_def ownedLease_def)
  with same_row [OF p(1) [unfolded distinct_ids_def] j(1) j'(1)] assms(4) have "j = j'" by simp
  with j j' p(4) assms(2-4) show ?thesis by (fastforce simp: one_holder_def)
qed

theorem lease_exclusive_witness:
  "(demo_runner, demo_job) = (demo_runner, demo_job) \<and> owns (token demo_runner demo_job) [demo_job]"
proof -
  have o: "owns (token demo_runner demo_job) [demo_job]"
    by (simp add: token_def demo_runner_eq demo_job_def ownedLease_def)
  from lease_exclusive [OF demo_reachable _ _ refl o o] o show ?thesis by simp
qed

text \<open>
  C23. The attempts of a job never exceed its limit; a job is active or succeeded only below
  the limit, and dead only at the limit or for want of a handler.
\<close>

theorem attempts_bounded:
  assumes "job_reachable (db, H)" and "j \<in> set db"
  shows "0 \<le> j_Attempts j \<and> j_Attempts j \<le> j_MaxAttempts j \<and>
    (j_Attempts j = j_MaxAttempts j \<or> j_LastError j = unregistered (j_Kind j) \<or> j_Status j \<noteq> JobDead) \<and>
    (j_Status j = JobDead \<or> j_Attempts j < j_MaxAttempts j)"
  using job_inv_parts(2) [OF job_reachable_inv [OF assms(1)]] assms(2) by (auto simp: row_ok_def)

theorem attempts_bounded_witness: "0 \<le> j_Attempts demo_job \<and> j_Attempts demo_job \<le> 3"
proof -
  have "demo_job \<in> set [demo_job]" by simp
  from attempts_bounded [OF demo_reachable this] show ?thesis by (simp add: demo_job_def)
qed

text \<open>
  C24. No job is lost or changed in kind: its row stays with its queue, kind, payload and limit,
  its lease generation never falls, and a succeeded or dead row never changes again.
\<close>

theorem jobs_not_lost:
  assumes "job_reachable s" and "job_step\<^sup>*\<^sup>* s s'" and "j \<in> set (table_of s)"
  shows "\<exists>j' \<in> set (table_of s'). j_ID j' = j_ID j \<and> j_Queue j' = j_Queue j \<and> j_Kind j' = j_Kind j \<and>
    j_Payload j' = j_Payload j \<and> j_MaxAttempts j' = j_MaxAttempts j \<and>
    j_LeaseGeneration j \<le> j_LeaseGeneration j' \<and> (j' = j \<or> \<not> terminal_job j)"
proof -
  have "distinct_ids (table_of s)"
    using job_reachable_inv [OF assms(1)] by (simp add: job_inv_def)
  from job_steps_evolve [OF assms(2) this] have "evolve\<^sup>*\<^sup>* (table_of s) (table_of s')" ..
  then show ?thesis
  proof (induction rule: rtranclp_induct)
    case base with assms(3) show ?case by blast
  next
    case (step db db')
    then obtain j1 where j1: "j1 \<in> set db" "j_ID j1 = j_ID j \<and> j_Queue j1 = j_Queue j \<and>
      j_Kind j1 = j_Kind j \<and> j_Payload j1 = j_Payload j \<and> j_MaxAttempts j1 = j_MaxAttempts j \<and>
      j_LeaseGeneration j \<le> j_LeaseGeneration j1 \<and> (j1 = j \<or> \<not> terminal_job j)" by blast
    from evolve_forth [OF step(2) j1(1)] obtain j2 where "j2 \<in> set db'" "row_step j1 j2" by blast
    with j1(2) row_step_frame [of j1 j2] row_step_terminal [of j1 j2] show ?case
      by (intro bexI [of _ j2]) auto
  qed
qed

theorem jobs_not_lost_witness:
  "\<exists>j' \<in> set (snd (ReapExpiredLeases [demo_job] 900000000000 DefaultLease)).
     j_ID j' = 1 \<and> j_Kind j' = ''scan''"
proof -
  let ?s = "([demo_job], {(demo_runner, demo_job)})"
  let ?s' = "(snd (ReapExpiredLeases [demo_job] 900000000000 DefaultLease), {(demo_runner, demo_job)})"
  have "job_step\<^sup>*\<^sup>* ?s ?s'" by (rule r_into_rtranclp) (rule step_reap)
  moreover have "demo_job \<in> set (table_of ?s)" by (simp add: table_of_def)
  ultimately show ?thesis
    using jobs_not_lost [OF demo_reachable, of ?s' demo_job] by (auto simp: table_of_def demo_job_def)
qed



section \<open>Recovery and scheduling\<close>




text \<open>
  Scheduling a singleton: it creates a row exactly when its queue holds no active job of
  the kind, otherwise it changes nothing; afterwards the queue holds an active job of the kind,
  and more than one only if it did before.
\<close>

definition active_count :: "Table \<Rightarrow> string \<Rightarrow> string \<Rightarrow> nat" where
  "active_count db queue kind =
     length (filter (\<lambda>j. j_Queue j = queue \<and> j_Kind j = kind \<and> active_job j) db)"

theorem EnsureScheduled_singleton:
  assumes "r_queue r \<noteq> ''''"
  shows "fst (EnsureScheduled r db now k kind payload runAt n) = (active_count db (r_queue r) kind = 0) \<and>
    (fst (EnsureScheduled r db now k kind payload runAt n) \<or>
       snd (EnsureScheduled r db now k kind payload runAt n) = db) \<and>
    active_count (snd (EnsureScheduled r db now k kind payload runAt n)) (r_queue r) kind =
      max 1 (active_count db (r_queue r) kind)"
proof -
  let ?job = "normalizeJob now (new_job r now kind payload runAt n)"
  have "nj_Queue ?job = r_queue r" "nj_Kind ?job = kind" "nj_Status ?job = Some JobPending"
    using assms by (simp_all add: normalizeJob_def new_job_def Let_def)
  moreover have "max (Suc 0) (length xs) = length xs" if "xs \<noteq> []" for xs :: "DurableJob list"
    using that by (cases xs) simp_all
  ultimately show ?thesis
    by (simp add: EnsureScheduled_def EnqueueIfNoActive_def Let_def active_count_def row_of_def active_job_def)
qed

theorem EnsureScheduled_singleton_witness:
  "\<not> fst (EnsureScheduled demo_runner [demo_job] 5000 2 ''scan'' ''{}'' 0 3)"
proof -
  have "r_queue demo_runner \<noteq> ''''" by (simp add: demo_runner_eq)
  from EnsureScheduled_singleton [OF this, of "[demo_job]" 5000 2 "''scan''" "''{}''" 0 3]
  show ?thesis by (simp add: active_count_def demo_runner_eq demo_job_def active_job_def)
qed

definition crash_row :: "uuid \<Rightarrow> instant \<Rightarrow> DurableJob" where
  "crash_row k runAt = \<lparr>j_ID = k, j_Queue = ''default'', j_Kind = ''scan'', j_Payload = ''{}'',
     j_Status = JobPending, j_Attempts = 0, j_MaxAttempts = 3, j_RunAt = runAt, j_LockedBy = '''',
     j_LockedAt = None, j_LeaseGeneration = 0, j_LastError = '''', j_CompletedAt = None\<rparr>"

definition hour :: duration where
  "hour = 3600 * nanos_per_second"

text \<open>The run up to the crash, and the run of the worker that takes over.\<close>

definition before_crash :: Table where
  "before_crash =
     (let (r, db) = RegisterRecurring demo_runner [] 1000 1 ''scan'' 3;
          (jobs, db) = ClaimDue db (\<lambda>k. False) (r_workerID r) (r_queue r) 2000 (r_batch r)
      in snd (recurring_handler r db (hd jobs) None 3000 2 hour 3))"

definition after_crash :: "Table \<Rightarrow> instant \<Rightarrow> Table" where
  "after_crash db later =
     (let r = demo_runner;
          (n, db) = ReapExpiredLeases db later (r_lease r);
          (jobs, db) = ClaimDue db (\<lambda>k. False) (r_workerID r) (r_queue r) later (r_batch r);
          (err, db) = recurring_handler r db (hd jobs) None (later + 1) 3 hour 3
      in record_outcome r db (hd jobs) (later + 2) err)"

lemma crash_scheduled:
  "RegisterRecurring demo_runner [] 1000 1 ''scan'' 3 = (demo_runner, [crash_row 1 1000])"
  by (simp add: crash_row_def RegisterRecurring_def demo_runner_eq EnsureScheduled_def
      EnqueueIfNoActive_def new_job_def normalizeJob_def row_of_def Register_def Let_def)

lemma crash_claimed:
  "ClaimDue [crash_row 1 1000] (\<lambda>k. False) ''w1'' ''default'' 2000 10 =
     ([claim_row ''w1'' 2000 (crash_row 1 1000)], [claim_row ''w1'' 2000 (crash_row 1 1000)])"
  by (simp add: ClaimDue_def due_rows_def update_where_def crash_row_def claim_row_def Let_def)

lemma demo_runner_fields:
  "r_workerID demo_runner = ''w1''" "r_queue demo_runner = ''default''"
  "r_batch demo_runner = 10" "r_lease demo_runner = DefaultLease" "r_policy demo_runner = DefaultPolicy"
  by (simp_all add: demo_runner_eq)

lemma before_crash_eq:
  "before_crash = [claim_row ''w1'' 2000 (crash_row 1 1000), crash_row 2 (3000 + hour)]"
  unfolding before_crash_def crash_scheduled Let_def case_prod_conv demo_runner_fields crash_claimed
  by (simp add: crash_row_def demo_runner_fields Enqueue_runner_def Enqueue_def new_job_def
      normalizeJob_def row_of_def claim_row_def recurring_handler_def recurring_interval_def
      hour_def nanos_per_second_def Let_def)

lemma crash_reaped:
  "snd (ReapExpiredLeases before_crash 400000000000 DefaultLease) =
     [(crash_row 1 1000)\<lparr>j_LeaseGeneration := 1\<rparr>, crash_row 2 (3000 + hour)]"
  by (simp add: before_crash_eq ReapExpiredLeases_def update_where_def expired_lease_def claim_row_def
      crash_row_def DefaultLease_def nanos_per_second_def Let_def)

lemma crash_reclaimed:
  "ClaimDue [(crash_row 1 1000)\<lparr>j_LeaseGeneration := 1\<rparr>, crash_row 2 (3000 + hour)] (\<lambda>k. False)
     ''w1'' ''default'' 400000000000 10 =
   ([claim_row ''w1'' 400000000000 ((crash_row 1 1000)\<lparr>j_LeaseGeneration := 1\<rparr>)],
    [claim_row ''w1'' 400000000000 ((crash_row 1 1000)\<lparr>j_LeaseGeneration := 1\<rparr>), crash_row 2 (3000 + hour)])"
  by (simp add: ClaimDue_def due_rows_def update_where_def claim_row_def
      crash_row_def hour_def nanos_per_second_def Let_def)

text \<open>
  A recurring task is not kept singleton: when its worker dies between enqueueing the next
  occurrence and recording success, the job is reaped and run again and enqueues a second
  occurrence, after which two jobs of the kind are active, each of which reschedules itself.
\<close>

theorem recurring_not_singleton:
  "CountActiveByKind (after_crash before_crash 400000000000) ''scan'' = 2"
  unfolding after_crash_def Let_def case_prod_unfold demo_runner_fields crash_reaped crash_reclaimed
  by (simp add: recurring_handler_def Enqueue_runner_def Enqueue_def new_job_def
      normalizeJob_def row_of_def record_outcome_def MarkSucceeded_def update_where_def
      ownedLease_def claim_row_def crash_row_def CountActiveByKind_def active_job_def
      demo_runner_fields Let_def)

section \<open>Retry delays\<close>

lemma capped_int:
  "0 \<le> d \<Longrightarrow> 0 < m \<Longrightarrow> m \<le> max_int64 \<Longrightarrow>
     (if 0 < m \<and> of_int m < (of_int d :: rat) then m
      else if of_int max_int64 < (of_int d :: rat) then max_int64
      else if (of_int d :: rat) < 0 then \<lceil>of_int d :: rat\<rceil> else \<lfloor>of_int d :: rat\<rfloor>) = min d m"
  by (simp add: min_def)

lemma Delay_default_eq:
  assumes "1 \<le> n"
  shows "Delay DefaultPolicy n = min (nanos_per_second * 2 ^ nat (n - 1)) (300 * nanos_per_second)"
proof -
  have c: "of_int nanos_per_second * 2 ^ nat (n - 1) = (of_int (nanos_per_second * 2 ^ nat (n - 1)) :: rat)"
    by simp
  have f: "\<not> (2 :: rat) < 1" "\<not> n \<le> 0" using assms by simp_all
  have p: "p_Base DefaultPolicy = nanos_per_second" "p_Factor DefaultPolicy = 2"
    "p_Max DefaultPolicy = 300 * nanos_per_second" by (simp_all add: DefaultPolicy_def)
  show ?thesis
    unfolding Delay_def Let_def p if_not_P [OF f(1)] if_not_P [OF f(2)] c
    by (rule capped_int) (simp_all add: nanos_per_second_def max_int64_def)
qed

text \<open>
  The default retry delay of the n-th attempt is one second doubled n - 1 times, capped at
  five minutes: at least a second, at most five minutes, and never shorter for a later attempt.
\<close>

theorem Delay_default:
  assumes "1 \<le> n" and "n \<le> m"
  shows "Delay DefaultPolicy n = min (nanos_per_second * 2 ^ nat (n - 1)) (300 * nanos_per_second) \<and>
    nanos_per_second \<le> Delay DefaultPolicy n \<and> Delay DefaultPolicy n \<le> Delay DefaultPolicy m \<and>
    Delay DefaultPolicy m \<le> 300 * nanos_per_second"
proof -
  have p: "(2::int) ^ nat (n - 1) \<le> 2 ^ nat (m - 1)" "(1::int) \<le> 2 ^ nat (n - 1)"
    using assms by simp_all
  from assms have n: "1 \<le> n" "1 \<le> m" by simp_all
  show ?thesis unfolding Delay_default_eq [OF n(1)] Delay_default_eq [OF n(2)] nanos_per_second_def
    using p by linarith
qed

theorem Delay_default_witness:
  "Delay DefaultPolicy 3 = 4 * nanos_per_second \<and> Delay DefaultPolicy 3 \<le> Delay DefaultPolicy 40"
  using Delay_default [of 3 40] by (simp add: nanos_per_second_def)

end
