(* ===== verification/GraphSearch.thy ===== *)
theory GraphSearch
  imports Prelude
begin

text \<open>
  The graph searches the graph packages share, over a graph given as the list of its arcs:
  a depth-first traversal with its pending calls as a list, two breadth-first
  searches, and the depth-first search for a cycle with its call stack made explicit. Each is proved to
  compute the relation it stands for. The locale \<open>bounded_cycles\<close> is the contract of a
  validator that admits only graphs whose unbounded edges form no cycle; inside it every
  walk that respects the bounds is shown to be short.
\<close>

section \<open>Reachability\<close>

definition succs :: "('a \<times> 'a) list \<Rightarrow> 'a \<Rightarrow> 'a list" where
  "succs g x = map snd (filter (\<lambda>e. fst e = x) g)"

lemma succs_iff [simp]: "y \<in> set (succs g x) \<longleftrightarrow> (x, y) \<in> set g"
  by (force simp: succs_def)

text \<open>Arcs whose source has not been expanded: what a search can still push.\<close>

definition pending_arcs :: "('a \<times> 'a) list \<Rightarrow> 'a list \<Rightarrow> nat" where
  "pending_arcs g seen = length (filter (\<lambda>e. fst e \<notin> set seen) g)"

lemma pending_arcs_step:
  "x \<notin> set seen \<Longrightarrow> pending_arcs g (x # seen) + length (succs g x) = pending_arcs g seen"
  unfolding pending_arcs_def succs_def by (induction g) auto

function dfs :: "('a \<times> 'a) list \<Rightarrow> 'a list \<Rightarrow> 'a list \<Rightarrow> 'a list" where
  "dfs g [] seen = seen"
| "dfs g (x # stack) seen =
     (if x \<in> set seen then dfs g stack seen else dfs g (succs g x @ stack) (x # seen))"
  by pat_completeness auto
termination
  by (relation "measure (\<lambda>(g, stack, seen). pending_arcs g seen + length stack)")
    (use pending_arcs_step in fastforce)+

text \<open>
  It expands every node once: the seen nodes stay closed up to the pending ones, and
  everything seen is reachable.
\<close>

definition closed_upto :: "('a \<times> 'a) list \<Rightarrow> 'a set \<Rightarrow> 'a set \<Rightarrow> bool" where
  "closed_upto g todo seen \<longleftrightarrow> (\<forall>x \<in> seen. \<forall>y. (x, y) \<in> set g \<longrightarrow> y \<in> seen \<union> todo)"

lemma closed_upto_reach:
  "closed_upto g {} S \<Longrightarrow> x \<in> S \<Longrightarrow> (x, y) \<in> (set g)\<^sup>* \<Longrightarrow> y \<in> S"
  by (erule rtrancl_induct [where P = "\<lambda>y. y \<in> S"]) (auto simp: closed_upto_def)

lemma dfs_closed:
  "closed_upto g (set stack) (set seen) \<Longrightarrow>
     closed_upto g {} (set (dfs g stack seen)) \<and> set stack \<union> set seen \<subseteq> set (dfs g stack seen)"
proof (induction g stack seen rule: dfs.induct)
  case (2 g x stack seen)
  show ?case
  proof (cases "x \<in> set seen")
    case True
    with 2(3) have "closed_upto g (set stack) (set seen)" by (auto simp: closed_upto_def)
    with 2(1) [OF True] True show ?thesis by auto
  next
    case False
    from 2(3) have "closed_upto g (set (succs g x @ stack)) (set (x # seen))"
      by (auto simp: closed_upto_def)
    with 2(2) [OF False] False show ?thesis by auto
  qed
qed (simp add: closed_upto_def)

lemma dfs_sound:
  "y \<in> set (dfs g stack seen) \<Longrightarrow> y \<in> set seen \<or> (\<exists>x \<in> set stack. (x, y) \<in> (set g)\<^sup>*)"
proof (induction g stack seen rule: dfs.induct)
  case (2 g x stack seen)
  then show ?case
    by (cases "x \<in> set seen") (auto intro: converse_rtrancl_into_rtrancl)
qed simp

lemma dfs_reach: "set (dfs g [x] []) = {y. (x, y) \<in> (set g)\<^sup>*}"
proof -
  have "closed_upto g (set [x]) (set [])" by (simp add: closed_upto_def)
  from dfs_closed [OF this] closed_upto_reach dfs_sound [of _ g "[x]" "[]"] show ?thesis by fastforce
qed

section \<open>A search that marks nodes as it enqueues them\<close>

fun enqueue_new :: "'a list \<Rightarrow> 'a list \<Rightarrow> 'a list \<Rightarrow> 'a list \<times> 'a list" where
  "enqueue_new [] queue marked = (queue, marked)"
| "enqueue_new (p # ps) queue marked =
     (if p \<in> set marked then enqueue_new ps queue marked
      else enqueue_new ps (queue @ [p]) (p # marked))"

definition unmarked :: "('a \<times> 'a) list \<Rightarrow> 'a list \<Rightarrow> nat" where
  "unmarked g marked = card (snd ` set g - set marked)"

lemma unmarked_step:
  "p \<in> snd ` set g \<Longrightarrow> p \<notin> set marked \<Longrightarrow> Suc (unmarked g (p # marked)) = unmarked g marked"
proof -
  assume p: "p \<in> snd ` set g" "p \<notin> set marked"
  then have "p \<in> snd ` set g - set marked" by simp
  then have "card (snd ` set g - set marked) = Suc (card (snd ` set g - set marked - {p}))"
    by (intro card.remove) simp_all
  moreover have "snd ` set g - set (p # marked) = snd ` set g - set marked - {p}"
    unfolding list.set(2) by blast
  ultimately show ?thesis unfolding unmarked_def by simp
qed

lemma enqueue_new_size:
  "set ps \<subseteq> snd ` set g \<Longrightarrow> enqueue_new ps queue marked = (queue', marked') \<Longrightarrow>
     length queue' + unmarked g marked' = length queue + unmarked g marked"
proof (induction ps arbitrary: queue marked)
  case (Cons p ps)
  then have p: "p \<in> snd ` set g" "set ps \<subseteq> snd ` set g" by simp_all
  show ?case
  proof (cases "p \<in> set marked")
    case True
    with Cons(3) show ?thesis by (intro Cons(1) [OF p(2)]) simp
  next
    case False
    with Cons(3) have "enqueue_new ps (queue @ [p]) (p # marked) = (queue', marked')" by simp
    from Cons(1) [OF p(2) this] unmarked_step [OF p(1) False] show ?thesis by simp
  qed
qed simp

lemma enqueue_new_sets:
  "enqueue_new ps queue marked = (queue', marked') \<Longrightarrow>
     set marked' = set marked \<union> set ps \<and> set queue' = set queue \<union> (set ps - set marked)"
  by (induction ps arbitrary: queue marked) (auto split: if_splits)

lemma succs_targets: "set (succs g x) \<subseteq> snd ` set g"
  by (force simp: succs_def)

function mark_bfs :: "('a \<times> 'a) list \<Rightarrow> 'a list \<Rightarrow> 'a list \<Rightarrow> 'a list" where
  "mark_bfs g [] marked = marked"
| "mark_bfs g (x # queue) marked =
     (let (queue, marked) = enqueue_new (succs g x) queue marked in mark_bfs g queue marked)"
  by pat_completeness auto
termination
proof (relation "measure (\<lambda>(g, queue, marked). length queue + unmarked g marked)")
  fix g x queue marked p q m
  assume "p = enqueue_new (succs g x) queue marked" "(q, m) = p"
  then have "enqueue_new (succs g x) queue marked = (q, m)" by simp
  from enqueue_new_size [OF succs_targets this]
  have "length q + unmarked g m = length queue + unmarked g marked" .
  then show "((g, q, m), g, x # queue, marked) \<in> measure (\<lambda>(g, queue, marked). length queue + unmarked g marked)"
    by simp
qed simp

definition marks_ok :: "('a \<times> 'a) list \<Rightarrow> 'a list \<Rightarrow> 'a list \<Rightarrow> bool" where
  "marks_ok g queue marked \<longleftrightarrow> set queue \<subseteq> set marked \<and>
     (\<forall>x \<in> set marked - set queue. set (succs g x) \<subseteq> set marked)"

lemma mark_bfs_closed:
  "marks_ok g queue marked \<Longrightarrow>
     set marked \<subseteq> set (mark_bfs g queue marked) \<and> closed_upto g {} (set (mark_bfs g queue marked))"
proof (induction g queue marked rule: mark_bfs.induct)
  case (1 g marked)
  then have "y \<in> set marked" if "x \<in> set marked" "(x, y) \<in> set g" for x y
    using that unfolding marks_ok_def by (metis Diff_empty empty_set subsetD succs_iff)
  then show ?case by (simp add: closed_upto_def)
next
  case (2 g x queue marked)
  obtain q m where e: "enqueue_new (succs g x) queue marked = (q, m)" by fastforce
  note sets = enqueue_new_sets [OF e]
  have "marks_ok g q m"
    using 2(2) unfolding marks_ok_def by (auto simp: sets)
  from 2(1) [OF e [symmetric] refl this] sets show ?case by (simp add: e)
qed

lemma mark_bfs_sound:
  "y \<in> set (mark_bfs g queue marked) \<Longrightarrow> set queue \<subseteq> set marked \<Longrightarrow>
     \<exists>x \<in> set marked. (x, y) \<in> (set g)\<^sup>*"
proof (induction g queue marked rule: mark_bfs.induct)
  case (2 g x queue marked)
  obtain q m where e: "enqueue_new (succs g x) queue marked = (q, m)" by fastforce
  note sets = enqueue_new_sets [OF e]
  from 2(2) have "y \<in> set (mark_bfs g q m)" by (simp add: e)
  moreover have "set q \<subseteq> set m" using 2(3) sets by auto
  ultimately obtain z where "z \<in> set m" "(z, y) \<in> (set g)\<^sup>*"
    using 2(1) [OF e [symmetric] refl] by blast
  with sets 2(3) show ?case by (auto intro: converse_rtrancl_into_rtrancl)
qed auto

lemma mark_bfs_reach: "set (mark_bfs g xs xs) = {y. \<exists>x \<in> set xs. (x, y) \<in> (set g)\<^sup>*}"
proof -
  have "marks_ok g xs xs" by (simp add: marks_ok_def)
  from mark_bfs_closed [OF this]
  have c: "set xs \<subseteq> set (mark_bfs g xs xs)" "closed_upto g {} (set (mark_bfs g xs xs))" by auto
  have "y \<in> set (mark_bfs g xs xs)" if "x \<in> set xs" "(x, y) \<in> (set g)\<^sup>*" for x y
    using closed_upto_reach [OF c(2) _ that(2)] c(1) that(1) by blast
  moreover have "\<exists>x \<in> set xs. (x, y) \<in> (set g)\<^sup>*" if "y \<in> set (mark_bfs g xs xs)" for y
    using mark_bfs_sound [OF that] by simp
  ultimately show ?thesis by (intro set_eqI) (auto intro: iffI)
qed

section \<open>A search for a target that stops at blocked nodes\<close>

function find_target :: "('a \<times> 'a) list \<Rightarrow> ('a \<Rightarrow> bool) \<Rightarrow> 'a \<Rightarrow> 'a list \<Rightarrow> 'a list \<Rightarrow> bool" where
  "find_target g blocked target [] seen = False"
| "find_target g blocked target (x # queue) seen =
     (if x \<in> set seen \<or> blocked x then find_target g blocked target queue seen
      else if target \<in> set (succs g x) then True
      else find_target g blocked target (queue @ succs g x) (x # seen))"
  by pat_completeness auto
termination
  by (relation "measure (\<lambda>(g, blocked, target, queue, seen). pending_arcs g seen + length queue)")
    (use pending_arcs_step in fastforce)+

definition open_arcs :: "('a \<times> 'a) list \<Rightarrow> ('a \<Rightarrow> bool) \<Rightarrow> ('a \<times> 'a) list" where
  "open_arcs g blocked = filter (\<lambda>e. \<not> blocked (fst e)) g"

lemma find_target_sound:
  "find_target g blocked target queue seen \<Longrightarrow>
     \<exists>x \<in> set queue. (x, target) \<in> (set (open_arcs g blocked))\<^sup>+"
proof (induction g blocked target queue seen rule: find_target.induct)
  case (2 g blocked target x queue seen)
  show ?case
  proof (cases "x \<in> set seen \<or> blocked x")
    case True
    with 2 show ?thesis by auto
  next
    case x: False
    then have arc: "(x, y) \<in> set (open_arcs g blocked)" if "y \<in> set (succs g x)" for y
      using that by (simp add: open_arcs_def)
    show ?thesis
    proof (cases "target \<in> set (succs g x)")
      case True
      then show ?thesis using arc by auto
    next
      case False
      from 2(3) x False have "find_target g blocked target (queue @ succs g x) (x # seen)" by simp
      from 2(2) [OF x False this] obtain y where
        y: "y \<in> set queue \<or> y \<in> set (succs g x)" "(y, target) \<in> (set (open_arcs g blocked))\<^sup>+"
        unfolding set_append by blast
      from y(1) show ?thesis
      proof
        assume "y \<in> set (succs g x)"
        from trancl_into_trancl2 [OF arc [OF this] y(2)] show ?thesis by auto
      qed (use y(2) in auto)
    qed
  qed
qed simp

definition no_hit :: "('a \<times> 'a) list \<Rightarrow> ('a \<Rightarrow> bool) \<Rightarrow> 'a \<Rightarrow> 'a set \<Rightarrow> bool" where
  "no_hit g blocked target S \<longleftrightarrow> (\<forall>x \<in> S. (x, target) \<notin> set (open_arcs g blocked))"

lemma find_target_complete:
  "\<not> find_target g blocked target queue seen \<Longrightarrow>
     closed_upto (open_arcs g blocked) (set queue \<union> {x. blocked x}) (set seen) \<Longrightarrow>
     no_hit g blocked target (set seen) \<Longrightarrow>
     \<exists>S. set queue \<subseteq> S \<union> {x. blocked x} \<and> set seen \<subseteq> S \<and>
       closed_upto (open_arcs g blocked) {x. blocked x} S \<and> no_hit g blocked target S"
proof (induction g blocked target queue seen rule: find_target.induct)
  case (1 g blocked target seen)
  then show ?case by auto
next
  case (2 g blocked target x queue seen)
  show ?case
  proof (cases "x \<in> set seen \<or> blocked x")
    case True
    with 2(4) have c: "closed_upto (open_arcs g blocked) (set queue \<union> {x. blocked x}) (set seen)"
      by (auto simp: closed_upto_def)
    from 2(3) True have "\<not> find_target g blocked target queue seen" by simp
    from 2(1) [OF True this c 2(5)] True show ?thesis by (auto 4 3)
  next
    case x: False
    with 2(3) have t: "target \<notin> set (succs g x)" by auto
    with 2(3) x have nf: "\<not> find_target g blocked target (queue @ succs g x) (x # seen)" by simp
    have "closed_upto (open_arcs g blocked) (set (queue @ succs g x) \<union> {x. blocked x}) (set (x # seen))"
      using 2(4) by (auto simp: closed_upto_def open_arcs_def)
    moreover have "no_hit g blocked target (set (x # seen))"
      using 2(5) t by (auto simp: no_hit_def open_arcs_def)
    ultimately show ?thesis using 2(2) [OF x t nf] by auto
  qed
qed

lemma find_target_iff:
  "find_target g blocked target [x] [] \<longleftrightarrow> (x, target) \<in> (set (open_arcs g blocked))\<^sup>+"
proof
  assume "find_target g blocked target [x] []"
  from find_target_sound [OF this] show "(x, target) \<in> (set (open_arcs g blocked))\<^sup>+" by simp
next
  assume t: "(x, target) \<in> (set (open_arcs g blocked))\<^sup>+"
  show "find_target g blocked target [x] []"
  proof (rule ccontr)
    assume "\<not> find_target g blocked target [x] []"
    from find_target_complete [OF this] obtain S where S: "x \<in> S \<or> blocked x"
      "closed_upto (open_arcs g blocked) {x. blocked x} S" "no_hit g blocked target S"
      by (auto simp: closed_upto_def no_hit_def)
    have "y \<in> S \<or> blocked y" if "(x, y) \<in> (set (open_arcs g blocked))\<^sup>*" for y
      using that
    proof (induction rule: rtrancl_induct)
      case (step y z)
      from step(2) have "\<not> blocked y" by (simp add: open_arcs_def)
      with step S(2) show ?case by (auto simp: closed_upto_def)
    qed (rule S(1))
    moreover from t obtain y where y: "(x, y) \<in> (set (open_arcs g blocked))\<^sup>*"
      "(y, target) \<in> set (open_arcs g blocked)" by (metis tranclD2)
    moreover from y(2) have "\<not> blocked y" by (simp add: open_arcs_def)
    ultimately show False using S(3) by (auto simp: no_hit_def)
  qed
qed

section \<open>Looking for a cycle\<close>

text \<open>
  Depth-first search with three colours, over edges \<open>es\<close> with source \<open>src\<close> and target \<open>tgt\<close>,
  not following the edges that \<open>bounded\<close> exempts. The recursion's call stack is explicit:
  each frame is a node being visited and the outgoing edges it has still to look at.
\<close>

definition out_edges :: "('e \<Rightarrow> 'n) \<Rightarrow> 'e list \<Rightarrow> 'n \<Rightarrow> 'e list" where
  "out_edges src es x = filter (\<lambda>e. src e = x) es"

definition fresh_edges :: "('e \<Rightarrow> 'n) \<Rightarrow> 'e list \<Rightarrow> 'n set \<Rightarrow> nat" where
  "fresh_edges src es S = length (filter (\<lambda>e. src e \<notin> S) es)"

lemma fresh_edges_step:
  "x \<notin> S \<Longrightarrow> fresh_edges src es (insert x S) + length (out_edges src es x) = fresh_edges src es S"
  unfolding fresh_edges_def out_edges_def by (induction es) auto

function cycle_walk ::
  "('e \<Rightarrow> 'n) \<Rightarrow> ('e \<Rightarrow> 'n) \<Rightarrow> ('e \<Rightarrow> bool) \<Rightarrow> 'e list \<Rightarrow> ('n \<times> 'e list) list \<Rightarrow> 'n list \<Rightarrow>
     'e option \<times> 'n list" where
  "cycle_walk src tgt bounded es [] visited = (None, visited)"
| "cycle_walk src tgt bounded es ((x, []) # stack) visited =
     cycle_walk src tgt bounded es stack (x # visited)"
| "cycle_walk src tgt bounded es ((x, e # rest) # stack) visited =
     (if bounded e then cycle_walk src tgt bounded es ((x, rest) # stack) visited
      else if tgt e \<in> set (x # map fst stack) then (Some e, visited)
      else if tgt e \<in> set visited then cycle_walk src tgt bounded es ((x, rest) # stack) visited
      else cycle_walk src tgt bounded es
             ((tgt e, out_edges src es (tgt e)) # (x, rest) # stack) visited)"
  by pat_completeness auto

definition walk_size :: "('e \<Rightarrow> 'n) \<Rightarrow> 'e list \<Rightarrow> ('n \<times> 'e list) list \<Rightarrow> 'n list \<Rightarrow> nat" where
  "walk_size src es stack visited =
     2 * (fresh_edges src es (set (map fst stack) \<union> set visited) + sum_list (map (length \<circ> snd) stack)) +
     length stack"

termination cycle_walk
proof (relation "measure (\<lambda>(src, tgt, bounded, es, stack, visited). walk_size src es stack visited)", goal_cases)
  case (5 src tgt bounded es x e rest stack visited)
  let ?S = "insert x (fst ` set stack) \<union> set visited"
  from 5 have "tgt e \<notin> ?S" by auto
  from fresh_edges_step [OF this, of src es] show ?case by (simp add: walk_size_def insert_commute)
qed (simp_all add: walk_size_def insert_commute)

fun find_cycle ::
  "('e \<Rightarrow> 'n) \<Rightarrow> ('e \<Rightarrow> 'n) \<Rightarrow> ('e \<Rightarrow> bool) \<Rightarrow> 'e list \<Rightarrow> 'n list \<Rightarrow> 'n list \<Rightarrow> 'e option" where
  "find_cycle src tgt bounded es [] visited = None"
| "find_cycle src tgt bounded es (x # xs) visited =
     (if x \<in> set visited then find_cycle src tgt bounded es xs visited
      else case cycle_walk src tgt bounded es [(x, out_edges src es x)] visited of
             (Some e, _) \<Rightarrow> Some e
           | (None, visited) \<Rightarrow> find_cycle src tgt bounded es xs visited)"

definition free_arcs :: "('e \<Rightarrow> 'n) \<Rightarrow> ('e \<Rightarrow> 'n) \<Rightarrow> ('e \<Rightarrow> bool) \<Rightarrow> 'e list \<Rightarrow> ('n \<times> 'n) set" where
  "free_arcs src tgt bounded es = (\<lambda>e. (src e, tgt e)) ` {e \<in> set es. \<not> bounded e}"

fun frames_ok ::
  "('n \<times> 'n) set \<Rightarrow> ('e \<Rightarrow> 'n) \<Rightarrow> ('e \<Rightarrow> 'n) \<Rightarrow> ('e \<Rightarrow> bool) \<Rightarrow> 'e list \<Rightarrow> 'n list \<Rightarrow> 'n option \<Rightarrow>
     ('n \<times> 'e list) list \<Rightarrow> bool" where
  "frames_ok R src tgt bounded es visited child [] = True"
| "frames_ok R src tgt bounded es visited child ((x, rest) # stack) =
     ((\<forall>y. (x, y) \<in> R \<longrightarrow> y \<in> set visited \<or> child = Some y \<or> (\<exists>e \<in> set rest. \<not> bounded e \<and> tgt e = y)) \<and>
      set rest \<subseteq> set (out_edges src es x) \<and>
      (\<forall>a. child = Some a \<longrightarrow> (x, a) \<in> R) \<and>
      frames_ok R src tgt bounded es visited (Some x) stack)"

definition settled :: "('n \<times> 'n) set \<Rightarrow> 'n set \<Rightarrow> bool" where
  "settled R V \<longleftrightarrow> (\<forall>x \<in> V. (x, x) \<notin> R\<^sup>+ \<and> (\<forall>y. (x, y) \<in> R \<longrightarrow> y \<in> V))"

lemma settled_reach: "settled R V \<Longrightarrow> x \<in> V \<Longrightarrow> (x, y) \<in> R\<^sup>* \<Longrightarrow> y \<in> V"
  by (erule rtrancl_induct [where P = "\<lambda>y. y \<in> V"]) (auto simp: settled_def)

lemma settled_insert:
  assumes "settled R V" "x \<notin> V" "\<And>y. (x, y) \<in> R \<Longrightarrow> y \<in> V"
  shows "settled R (insert x V)"
proof -
  have "(x, x) \<notin> R\<^sup>+"
  proof
    assume "(x, x) \<in> R\<^sup>+"
    then obtain y where "(x, y) \<in> R" "(y, x) \<in> R\<^sup>*" by (meson tranclD)
    with assms settled_reach show False by metis
  qed
  with assms(1,3) show ?thesis by (auto simp: settled_def)
qed

lemma frames_reach:
  "frames_ok R src tgt bounded es visited (Some a) stack \<Longrightarrow> y \<in> fst ` set stack \<Longrightarrow> (y, a) \<in> R\<^sup>+"
proof (induction stack arbitrary: a)
  case (Cons f stack)
  obtain x rest where f: "f = (x, rest)" by fastforce
  from Cons(2) f have a: "(x, a) \<in> R" "frames_ok R src tgt bounded es visited (Some x) stack" by auto
  show ?case
  proof (cases "y = x")
    case True with a(1) show ?thesis by auto
  next
    case False
    with Cons(3) f have "y \<in> fst ` set stack" by auto
    from Cons(1) [OF a(2) this] a(1) show ?thesis by (rule trancl_into_trancl)
  qed
qed simp

lemma frames_mono:
  "frames_ok R src tgt bounded es visited child stack \<Longrightarrow> set visited \<subseteq> set visited' \<Longrightarrow>
     frames_ok R src tgt bounded es visited' child stack"
  by (induction stack arbitrary: child) (auto, blast)

definition walk_inv ::
  "('e \<Rightarrow> 'n) \<Rightarrow> ('e \<Rightarrow> 'n) \<Rightarrow> ('e \<Rightarrow> bool) \<Rightarrow> 'e list \<Rightarrow> ('n \<times> 'e list) list \<Rightarrow> 'n list \<Rightarrow> bool" where
  "walk_inv src tgt bounded es stack visited \<longleftrightarrow>
     frames_ok (free_arcs src tgt bounded es) src tgt bounded es visited None stack \<and>
     settled (free_arcs src tgt bounded es) (set visited) \<and>
     distinct (map fst stack) \<and> set (map fst stack) \<inter> set visited = {}"

lemma out_edges_iff [simp]: "e \<in> set (out_edges src es x) \<longleftrightarrow> e \<in> set es \<and> src e = x"
  by (simp add: out_edges_def)

lemma out_arcs:
  "(x, y) \<in> free_arcs src tgt bounded es \<longleftrightarrow> (\<exists>e \<in> set (out_edges src es x). \<not> bounded e \<and> tgt e = y)"
  by (force simp: free_arcs_def)

lemma walk_inv_pop:
  "walk_inv src tgt bounded es ((x, []) # stack) visited \<Longrightarrow>
     walk_inv src tgt bounded es stack (x # visited)"
proof -
  assume i: "walk_inv src tgt bounded es ((x, []) # stack) visited"
  let ?R = "free_arcs src tgt bounded es"
  from i have s: "settled ?R (insert x (set visited))"
    by (intro settled_insert) (auto simp: walk_inv_def)
  have "frames_ok ?R src tgt bounded es (x # visited) None stack"
  proof (cases stack)
    case (Cons f st)
    obtain y rest where f: "f = (y, rest)" by fastforce
    from i have "frames_ok ?R src tgt bounded es visited (Some x) stack" by (simp add: walk_inv_def)
    then show ?thesis unfolding Cons f by (auto intro: frames_mono)
  qed simp
  with s i show ?thesis by (auto simp: walk_inv_def)
qed

lemma walk_inv_skip:
  "walk_inv src tgt bounded es ((x, e # rest) # stack) visited \<Longrightarrow> bounded e \<or> tgt e \<in> set visited \<Longrightarrow>
     walk_inv src tgt bounded es ((x, rest) # stack) visited"
  unfolding walk_inv_def by (simp, blast)

lemma walk_inv_push:
  assumes i: "walk_inv src tgt bounded es ((x, e # rest) # stack) visited" and "\<not> bounded e"
    and "tgt e \<notin> set (x # map fst stack)" and "tgt e \<notin> set visited"
  shows "walk_inv src tgt bounded es
    ((tgt e, out_edges src es (tgt e)) # (x, rest) # stack) visited"
proof -
  let ?R = "free_arcs src tgt bounded es"
  from i have e: "e \<in> set (out_edges src es x)" by (simp add: walk_inv_def)
  then have "(x, tgt e) \<in> ?R" using assms(2) by (auto simp: out_arcs)
  moreover have "\<forall>y. (tgt e, y) \<in> ?R \<longrightarrow>
      (\<exists>e' \<in> set (out_edges src es (tgt e)). \<not> bounded e' \<and> tgt e' = y)" by (simp add: out_arcs)
  ultimately show ?thesis using i assms(2-4) by (auto simp: walk_inv_def)
qed

lemma cycle_walk_props:
  "walk_inv src tgt bounded es stack visited \<Longrightarrow>
     cycle_walk src tgt bounded es stack visited = (r, visited') \<Longrightarrow>
     (case r of
        None \<Rightarrow> set (map fst stack) \<union> set visited \<subseteq> set visited' \<and>
                settled (free_arcs src tgt bounded es) (set visited')
      | Some e \<Rightarrow> e \<in> set es \<and> \<not> bounded e \<and> (src e, src e) \<in> (free_arcs src tgt bounded es)\<^sup>+)"
proof (induction src tgt bounded es stack visited rule: cycle_walk.induct)
  case (1 src tgt bounded es visited)
  then show ?case by (auto simp: walk_inv_def)
next
  case (2 src tgt bounded es x stack visited)
  from 2(1) [OF walk_inv_pop [OF 2(2)]] 2(3) show ?case by (auto split: option.splits)
next
  case (3 src tgt bounded es x e rest stack visited)
  let ?R = "free_arcs src tgt bounded es"
  show ?case
  proof (cases "bounded e")
    case b: True
    from 3(1) [OF b walk_inv_skip [OF 3(4)]] b 3(5) show ?thesis by (auto split: option.splits)
  next
    case b: False
    from 3(4) have e: "e \<in> set es" "src e = x" by (simp_all add: walk_inv_def)
    with b have arc: "(x, tgt e) \<in> ?R" by (auto simp: free_arcs_def)
    show ?thesis
    proof (cases "tgt e \<in> set (x # map fst stack)")
      case c: True
      have "(tgt e, x) \<in> ?R\<^sup>*"
      proof (cases "tgt e = x")
        case False
        with c have "tgt e \<in> fst ` set stack" by simp
        moreover have "frames_ok ?R src tgt bounded es visited (Some x) stack"
          using 3(4) by (simp add: walk_inv_def)
        ultimately show ?thesis by (intro trancl_into_rtrancl frames_reach)
      qed simp
      with arc have "(x, x) \<in> ?R\<^sup>+" by (rule rtrancl_into_trancl2)
      with c b e 3(5) show ?thesis by auto
    next
      case c: False
      show ?thesis
      proof (cases "tgt e \<in> set visited")
        case v: True
        from 3(2) [OF b c v walk_inv_skip [OF 3(4)]] b c v 3(5) show ?thesis
          by (auto split: option.splits)
      next
        case v: False
        from 3(3) [OF b c v walk_inv_push [OF 3(4) b c v]] b c v 3(5) show ?thesis
          by (auto split: option.splits)
      qed
    qed
  qed
qed

lemma walk_inv_start:
  "settled (free_arcs src tgt bounded es) (set visited) \<Longrightarrow> x \<notin> set visited \<Longrightarrow>
     walk_inv src tgt bounded es [(x, out_edges src es x)] visited"
  by (auto simp: walk_inv_def out_arcs simp del: out_edges_iff)

lemma find_cycle_props:
  "settled (free_arcs src tgt bounded es) (set visited) \<Longrightarrow>
     (case find_cycle src tgt bounded es xs visited of
        None \<Rightarrow> \<exists>V. set xs \<subseteq> V \<and> set visited \<subseteq> V \<and> settled (free_arcs src tgt bounded es) V
      | Some e \<Rightarrow> e \<in> set es \<and> \<not> bounded e \<and> (src e, src e) \<in> (free_arcs src tgt bounded es)\<^sup>+)"
proof (induction src tgt bounded es xs visited rule: find_cycle.induct)
  case (1 src tgt bounded es visited)
  then show ?case by auto
next
  case (2 src tgt bounded es x xs visited)
  show ?case
  proof (cases "x \<in> set visited")
    case True
    with 2(1) [OF True 2(3)] show ?thesis by (auto split: option.splits)
  next
    case False
    obtain r v where w: "cycle_walk src tgt bounded es [(x, out_edges src es x)] visited = (r, v)"
      by fastforce
    note p = cycle_walk_props [OF walk_inv_start [OF 2(3) False] w]
    show ?thesis
    proof (cases r)
      case None
      with p have v: "x \<in> set v" "set visited \<subseteq> set v" "settled (free_arcs src tgt bounded es) (set v)"
        by auto
      from 2(2) [OF False w [unfolded None, symmetric] None [symmetric, unfolded None] v(3)] v(1,2)
      show ?thesis using w None False by (auto split: option.splits)
    next
      case (Some e)
      with p w False show ?thesis by simp
    qed
  qed
qed

lemma find_cycle_None_iff:
  assumes "src ` set es \<subseteq> set xs"
  shows "find_cycle src tgt bounded es xs [] = None \<longleftrightarrow> acyclic (free_arcs src tgt bounded es)"
proof -
  let ?R = "free_arcs src tgt bounded es"
  have s: "settled ?R (set [])" by (simp add: settled_def)
  note p = find_cycle_props [OF s, of xs]
  show ?thesis
  proof
    assume "find_cycle src tgt bounded es xs [] = None"
    with p obtain V where V: "set xs \<subseteq> V" "settled ?R V" by auto
    show "acyclic ?R" unfolding acyclic_def
    proof (intro allI notI)
      fix x assume c: "(x, x) \<in> ?R\<^sup>+"
      then obtain y where "(x, y) \<in> ?R" by (meson tranclD)
      then have "x \<in> src ` set es" by (auto simp: free_arcs_def)
      with assms V c show False by (auto simp: settled_def)
    qed
  next
    assume "acyclic ?R"
    with p show "find_cycle src tgt bounded es xs [] = None"
      by (cases "find_cycle src tgt bounded es xs []") (auto simp: acyclic_def)
  qed
qed

section \<open>Walks in a graph whose unbounded edges form no cycle\<close>

text \<open>
  A walk is the list of the edges it takes. It respects the bounds when no bounded edge is
  taken more often than its bound.
\<close>

fun is_walk :: "('e \<Rightarrow> 'n) \<Rightarrow> ('e \<Rightarrow> 'n) \<Rightarrow> 'e list \<Rightarrow> bool" where
  "is_walk src tgt [] = True"
| "is_walk src tgt [e] = True"
| "is_walk src tgt (e # f # es) = (tgt e = src f \<and> is_walk src tgt (f # es))"

lemma is_walk_tl: "is_walk src tgt (e # es) \<Longrightarrow> is_walk src tgt es"
  by (cases es) auto

lemma walk_reaches:
  "is_walk src tgt (e # es) \<Longrightarrow> \<forall>f \<in> set (butlast (e # es)). (src f, tgt f) \<in> R \<Longrightarrow> f \<in> set es \<Longrightarrow>
     (src e, src f) \<in> R\<^sup>+"
proof (induction es arbitrary: e)
  case (Cons g es)
  then have g: "tgt e = src g" "(src e, src g) \<in> R" by auto
  show ?case
  proof (cases "f = g")
    case True with g show ?thesis by auto
  next
    case False
    with Cons(2-4) have "(src g, src f) \<in> R\<^sup>+" by (intro Cons(1)) auto
    with g(2) show ?thesis by (rule trancl_into_trancl2)
  qed
qed simp

lemma free_walk_distinct:
  "is_walk src tgt es \<Longrightarrow> \<forall>e \<in> set (butlast es). (src e, tgt e) \<in> R \<Longrightarrow> acyclic R \<Longrightarrow>
     distinct (map src es)"
proof (induction es)
  case (Cons e es)
  have "src e \<noteq> src f" if "f \<in> set es" for f
    using walk_reaches [OF Cons(2,3) that] Cons(4) by (auto simp: acyclic_def)
  with Cons is_walk_tl [OF Cons(2)] show ?case by (cases es) auto
qed simp

lemma free_walk_length:
  assumes "is_walk src tgt es" "\<forall>e \<in> set (butlast es). (src e, tgt e) \<in> R" "acyclic R"
    and "src ` set es \<subseteq> N" "finite N"
  shows "length es \<le> card N"
proof -
  have "length es = card (src ` set es)"
    using distinct_card [OF free_walk_distinct [OF assms(1-3)]] by simp
  with assms(4,5) show ?thesis by (simp add: card_mono)
qed

lemma is_walk_append: "is_walk src tgt (es @ fs) \<Longrightarrow> is_walk src tgt es \<and> is_walk src tgt fs"
proof (induction es rule: induct_list012)
  case (2 x)
  then show ?case by (auto dest: is_walk_tl)
qed simp_all

lemma walk_length:
  assumes "acyclic R" "finite N"
  shows "is_walk src tgt es \<Longrightarrow> \<forall>e \<in> set es. src e \<in> N \<and> (B e \<or> (src e, tgt e) \<in> R) \<Longrightarrow>
    length es \<le> (length (filter B es) + 1) * card N"
proof (induction "length (filter B es)" arbitrary: es)
  case 0
  then have free: "\<forall>e \<in> set (butlast es). (src e, tgt e) \<in> R"
    by (metis filter_empty_conv in_set_butlastD length_0_conv)
  have "length es \<le> card N"
    using free_walk_length [OF 0(2) free assms(1) _ assms(2)] 0(3) by blast
  then show ?case by (simp add: 0(1) [symmetric])
next
  case (Suc n)
  then have "\<exists>e \<in> set es. B e" by (metis filter_False length_0_conv nat.distinct(1))
  then obtain as b bs where es: "es = as @ b # bs" "B b" "\<forall>e \<in> set as. \<not> B e"
    by (metis split_list_first_prop)
  then have es': "es = (as @ [b]) @ bs" by simp
  note w = is_walk_append [OF Suc(3) [unfolded es']]
  from es(1,3) Suc(4) have free: "\<forall>e \<in> set (butlast (as @ [b])). (src e, tgt e) \<in> R" by auto
  have src: "src ` set (as @ [b]) \<subseteq> N" using Suc(4) es(1) by auto
  have "length (as @ [b]) \<le> card N"
    using free_walk_length [OF conjunct1 [OF w] free assms(1) src assms(2)] .
  moreover have k: "length (filter B es) = Suc (length (filter B bs))" using es by simp
  moreover have "length bs \<le> (length (filter B bs) + 1) * card N"
    using Suc(1) [OF _ conjunct2 [OF w]] Suc(2,4) k es(1) by simp
  ultimately show ?case unfolding k by (simp add: es(1))
qed

definition respects_bounds :: "('e \<Rightarrow> nat) \<Rightarrow> 'e list \<Rightarrow> bool" where
  "respects_bounds bound es \<longleftrightarrow> (\<forall>e \<in> set es. bound e = 0 \<or> count_list es e \<le> bound e)"

lemma bounded_steps:
  assumes "respects_bounds bound es" and "set es \<subseteq> set all"
  shows "length (filter (\<lambda>e. 0 < bound e) es) \<le> sum_list (map bound all)"
proof -
  let ?S = "{e \<in> set es. 0 < bound e}"
  have "length (filter (\<lambda>e. 0 < bound e) es) = (\<Sum>e \<in> ?S. count_list (filter (\<lambda>e. 0 < bound e) es) e)"
    using sum_count_set [of "filter (\<lambda>e. 0 < bound e) es" ?S] by simp
  also have "\<dots> \<le> (\<Sum>e \<in> ?S. bound e)"
  proof (rule sum_mono)
    fix e assume e: "e \<in> ?S"
    have "count_list (filter (\<lambda>e. 0 < bound e) es) e \<le> count_list es e"
      by (induction es) auto
    with e assms(1) show "count_list (filter (\<lambda>e. 0 < bound e) es) e \<le> bound e"
      by (fastforce simp: respects_bounds_def)
  qed
  also have "\<dots> \<le> (\<Sum>e \<in> set all. bound e)" using assms(2) by (intro sum_mono2) auto
  also have "\<dots> \<le> sum_list (map bound all)"
    by (induction all) (auto simp: sum.insert_if)
  finally show ?thesis .
qed

locale bounded_cycles =
  fixes valid :: "'d \<Rightarrow> bool"
    and node_ids :: "'d \<Rightarrow> 'n list"
    and edges_of :: "'d \<Rightarrow> 'e list"
    and src tgt :: "'e \<Rightarrow> 'n"
    and bound :: "'e \<Rightarrow> nat"
  assumes edge_nodes: "valid d \<Longrightarrow> src ` set (edges_of d) \<subseteq> set (node_ids d)"
    and free_acyclic: "valid d \<Longrightarrow> acyclic (free_arcs src tgt (\<lambda>e. 0 < bound e) (edges_of d))"
begin

lemma walk_bound:
  assumes "valid d" "is_walk src tgt es" "set es \<subseteq> set (edges_of d)" "respects_bounds bound es"
  shows "length es \<le> (sum_list (map bound (edges_of d)) + 1) * length (node_ids d)"
proof -
  let ?R = "free_arcs src tgt (\<lambda>e. 0 < bound e) (edges_of d)"
  have "\<forall>e \<in> set es. src e \<in> set (node_ids d) \<and> (0 < bound e \<or> (src e, tgt e) \<in> ?R)"
    using assms(3) edge_nodes [OF assms(1)] by (auto simp: free_arcs_def)
  from walk_length [OF free_acyclic [OF assms(1)] finite_set assms(2) this]
  have "length es \<le> (length (filter (\<lambda>e. 0 < bound e) es) + 1) * card (set (node_ids d))" .
  also have "\<dots> \<le> (sum_list (map bound (edges_of d)) + 1) * length (node_ids d)"
    using bounded_steps [OF assms(4,3)] by (intro mult_mono card_length) simp_all
  finally show ?thesis .
qed

end

end
