(* ===== verification/WorkflowGraph.thy ===== *)
theory WorkflowGraph
  imports GraphSearch
begin

text \<open>
  Workflow graphs (\<open>internal/workflowgraph\<close>): the definition and run types (\<open>types.go\<close>) and
  the static validation (\<open>validation.go\<close>). String enums are datatypes with a constructor for
  the texts outside the enum; unsigned integers are words. A validation problem is a value of
  \<open>Problem\<close> instead of its rendered English text, and the list of problems is in the order the
  code finds them: the final \<open>sort.Strings\<close> on the texts is left out. Where the code ranges
  over a Go map, in random order, the model goes through the nodes in the order of the
  definition.
\<close>

section \<open>Types\<close>

datatype NodeType =
    NodeAction | NodeCondition | NodeHumanApproval | NodeWait | NodeTimer
  | NodeParallelSplit | NodeParallelJoin | NodeVerification | NodeCompensation | NodeTerminal
  | NodeTypeOther string

datatype ConditionOperator =
    ConditionEqual | ConditionNotEqual | ConditionExists | ConditionNotExists
  | ConditionOperatorOther string

datatype JoinMode = JoinAll | JoinAny | JoinModeOther string

datatype TerminalResult =
    TerminalCompleted | TerminalFailed | TerminalCancelled | TerminalResultOther string

definition OutcomeDefault :: string where "OutcomeDefault = ''default''"
definition OutcomeTrue :: string where "OutcomeTrue = ''true''"
definition OutcomeFalse :: string where "OutcomeFalse = ''false''"
definition OutcomeApproved :: string where "OutcomeApproved = ''approved''"
definition OutcomeRejected :: string where "OutcomeRejected = ''rejected''"
definition OutcomeElapsed :: string where "OutcomeElapsed = ''elapsed''"

record ConditionConfig =
  cc_Field :: string
  cc_Operator :: ConditionOperator
  cc_Value :: string

record JoinConfig =
  jc_SplitNodeID :: string
  jc_Mode :: JoinMode

text \<open>A timer's and a terminal's configuration have one field each.\<close>

type_synonym TimerConfig = duration
type_synonym TerminalConfig = TerminalResult

record Node =
  n_ID :: string
  n_Type :: NodeType
  n_Name :: string
  n_Condition :: "ConditionConfig option"
  n_Timer :: "TimerConfig option"
  n_Join :: "JoinConfig option"
  n_Terminal :: "TerminalConfig option"
  n_CompensationNodeID :: string

record Edge =
  e_ID :: string
  e_From :: string
  e_To :: string
  e_Outcome :: string
  e_Order :: "16 word"
  e_MaxTraversals :: "32 word"

record Definition =
  d_SchemaVersion :: "16 word"
  d_ID :: string
  d_Version :: "64 word"
  d_Name :: string
  d_EntryNodeID :: string
  d_MaxRunSteps :: "32 word"
  d_Nodes :: "Node list"
  d_Edges :: "Edge list"
  d_CreatedAt :: instant

definition CurrentDefinitionSchemaVersion :: "16 word" where
  "CurrentDefinitionSchemaVersion = 1"

definition CurrentRunSchemaVersion :: "16 word" where
  "CurrentRunSchemaVersion = 1"

section \<open>Validation of nodes\<close>

datatype Problem =
    UnsupportedSchema "16 word"
  | DefinitionIDRequired
  | VersionZero
  | EntryRequired
  | MaxRunStepsZero
  | NoNodes
  | NodeIDRequired
  | NodeDuplicated string
  | NodeTypeUnsupported string NodeType
  | EntryMissing string
  | EdgeIDRequired
  | EdgeDuplicated string
  | EdgeSourceMissing string string
  | EdgeTargetMissing string string
  | CompensationOnNonAction string
  | CompensationMissing string string
  | CompensationTargetType string string
  | OutgoingEdgeRequired NodeType string
  | ForeignConfig NodeType string
  | ConditionConfigRequired string
  | ConditionFieldRequired string
  | ConditionValueForbidden string ConditionOperator
  | ConditionOperatorUnsupported string ConditionOperator
  | SignalEdgeRequired string
  | TimerDurationRequired string
  | SplitBranchesRequired string
  | SplitDuplicateTarget string string
  | JoinConfigRequired string
  | JoinSplitIDRequired string
  | JoinModeUnsupported string JoinMode
  | JoinOneOutgoing string
  | CompensationOneOutgoing string
  | TerminalConfigRequired string
  | TerminalResultUnsupported string TerminalResult
  | TerminalOutgoing string
  | EdgeOutcomeRequired string string
  | DuplicateOutcome string string
  | ExactOutcomeRequired string string
  | UnexpectedOutcome string string
  | Unreachable string
  | TerminalRequired
  | NoPathToTerminal string
  | UnboundedCycle string
  | SplitNotPaired string
  | JoinIncomingRequired string
  | BranchMissesJoin string string string
  | JoinEdgeOutside string string string
  | JoinSplitMissing string string
  | JoinSplitWrongType string string

definition problem_if :: "bool \<Rightarrow> Problem \<Rightarrow> Problem list" where
  "problem_if b p = (if b then [p] else [])"

fun validNodeType :: "NodeType \<Rightarrow> bool" where
  "validNodeType (NodeTypeOther t) = False"
| "validNodeType _ = True"

definition node_at :: "Node list \<Rightarrow> string \<Rightarrow> Node option" where
  "node_at ns k = find (\<lambda>n. n_ID n = k) ns"

definition validateNoConfigs :: "Node \<Rightarrow> NodeType \<Rightarrow> Problem list" where
  "validateNoConfigs node expected =
     problem_if (n_Condition node \<noteq> None \<or> n_Timer node \<noteq> None \<or> n_Join node \<noteq> None \<or> n_Terminal node \<noteq> None)
       (ForeignConfig expected (n_ID node))"

fun unique_outcomes :: "string \<Rightarrow> bool \<Rightarrow> string list \<Rightarrow> Edge list \<Rightarrow> Problem list" where
  "unique_outcomes nodeID requireNonEmpty outcomes [] = []"
| "unique_outcomes nodeID requireNonEmpty outcomes (edge # edges) =
     (let outcome = TrimSpace (e_Outcome edge)
      in problem_if (requireNonEmpty \<and> outcome = '''') (EdgeOutcomeRequired nodeID (e_ID edge)) @
         problem_if (outcome \<in> set outcomes) (DuplicateOutcome nodeID outcome) @
         unique_outcomes nodeID requireNonEmpty (outcome # outcomes) edges)"

definition validateUniqueOutcomes :: "string \<Rightarrow> Edge list \<Rightarrow> bool \<Rightarrow> Problem list" where
  "validateUniqueOutcomes nodeID edges requireNonEmpty = unique_outcomes nodeID requireNonEmpty [] edges"

definition validateExactOutcomes :: "string \<Rightarrow> Edge list \<Rightarrow> string list \<Rightarrow> Problem list" where
  "validateExactOutcomes nodeID edges expected =
     (let actual = map e_Outcome edges
      in concat (map (\<lambda>outcome. problem_if (count_list actual outcome \<noteq> 1) (ExactOutcomeRequired nodeID outcome)) expected) @
         map (UnexpectedOutcome nodeID) (filter (\<lambda>outcome. outcome \<notin> set expected) (remdups actual)))"

fun duplicate_targets :: "string \<Rightarrow> string list \<Rightarrow> Edge list \<Rightarrow> Problem list" where
  "duplicate_targets nodeID targets [] = []"
| "duplicate_targets nodeID targets (edge # edges) =
     problem_if (e_To edge \<in> set targets) (SplitDuplicateTarget nodeID (e_To edge)) @
     duplicate_targets nodeID (e_To edge # targets) edges"

definition validateCompensationRef :: "Node \<Rightarrow> Node list \<Rightarrow> Problem list" where
  "validateCompensationRef node nodes =
     (if n_CompensationNodeID node = '''' then []
      else if n_Type node \<noteq> NodeAction then [CompensationOnNonAction (n_ID node)]
      else case node_at nodes (n_CompensationNodeID node) of
             None \<Rightarrow> [CompensationMissing (n_ID node) (n_CompensationNodeID node)]
           | Some c \<Rightarrow> problem_if (n_Type c \<noteq> NodeCompensation)
                         (CompensationTargetType (n_ID node) (n_CompensationNodeID node)))"

definition validateCondition :: "Node \<Rightarrow> Problem list" where
  "validateCondition node =
     (case n_Condition node of
        None \<Rightarrow> [ConditionConfigRequired (n_ID node)]
      | Some c \<Rightarrow>
          problem_if (TrimSpace (cc_Field c) = '''') (ConditionFieldRequired (n_ID node)) @
          (case cc_Operator c of
             ConditionEqual \<Rightarrow> []
           | ConditionNotEqual \<Rightarrow> []
           | ConditionOperatorOther t \<Rightarrow> [ConditionOperatorUnsupported (n_ID node) (cc_Operator c)]
           | _ \<Rightarrow> problem_if (cc_Value c \<noteq> '''') (ConditionValueForbidden (n_ID node) (cc_Operator c))))"

definition validateJoinConfig :: "Node \<Rightarrow> Problem list" where
  "validateJoinConfig node =
     (case n_Join node of
        None \<Rightarrow> [JoinConfigRequired (n_ID node)]
      | Some j \<Rightarrow>
          problem_if (TrimSpace (jc_SplitNodeID j) = '''') (JoinSplitIDRequired (n_ID node)) @
          problem_if (jc_Mode j \<noteq> JoinAll \<and> jc_Mode j \<noteq> JoinAny) (JoinModeUnsupported (n_ID node) (jc_Mode j)))"

definition validateTerminalConfig :: "Node \<Rightarrow> Problem list" where
  "validateTerminalConfig node =
     (case n_Terminal node of
        None \<Rightarrow> [TerminalConfigRequired (n_ID node)]
      | Some r \<Rightarrow> problem_if (r \<noteq> TerminalCompleted \<and> r \<noteq> TerminalFailed \<and> r \<noteq> TerminalCancelled)
                    (TerminalResultUnsupported (n_ID node) r))"

text \<open>The type switch of \<open>validateNode\<close>, on the edges that leave the node.\<close>

definition validateByType :: "Node \<Rightarrow> Edge list \<Rightarrow> Problem list" where
  "validateByType node out =
     (let k = n_ID node; plain = validateNoConfigs node (n_Type node)
      in case n_Type node of
        NodeAction \<Rightarrow>
          problem_if (out = []) (OutgoingEdgeRequired (n_Type node) k) @ validateUniqueOutcomes k out False @ plain
      | NodeVerification \<Rightarrow>
          problem_if (out = []) (OutgoingEdgeRequired (n_Type node) k) @ validateUniqueOutcomes k out False @ plain
      | NodeCondition \<Rightarrow>
          validateCondition node @ validateExactOutcomes k out [OutcomeTrue, OutcomeFalse] @
          problem_if (n_Timer node \<noteq> None \<or> n_Join node \<noteq> None \<or> n_Terminal node \<noteq> None)
            (ForeignConfig (n_Type node) k)
      | NodeHumanApproval \<Rightarrow>
          validateExactOutcomes k out [OutcomeApproved, OutcomeRejected] @ plain
      | NodeWait \<Rightarrow>
          problem_if (out = []) (SignalEdgeRequired k) @ validateUniqueOutcomes k out True @ plain
      | NodeTimer \<Rightarrow>
          problem_if (case n_Timer node of None \<Rightarrow> True | Some after \<Rightarrow> after \<le> 0) (TimerDurationRequired k) @
          validateExactOutcomes k out [OutcomeElapsed] @
          problem_if (n_Condition node \<noteq> None \<or> n_Join node \<noteq> None \<or> n_Terminal node \<noteq> None)
            (ForeignConfig (n_Type node) k)
      | NodeParallelSplit \<Rightarrow>
          problem_if (length out < 2) (SplitBranchesRequired k) @ duplicate_targets k [] out @ plain
      | NodeParallelJoin \<Rightarrow>
          validateJoinConfig node @ problem_if (length out \<noteq> 1) (JoinOneOutgoing k) @
          problem_if (n_Condition node \<noteq> None \<or> n_Timer node \<noteq> None \<or> n_Terminal node \<noteq> None)
            (ForeignConfig (n_Type node) k)
      | NodeCompensation \<Rightarrow>
          problem_if (1 < length out) (CompensationOneOutgoing k) @ validateUniqueOutcomes k out False @ plain
      | NodeTerminal \<Rightarrow>
          validateTerminalConfig node @ problem_if (out \<noteq> []) (TerminalOutgoing k) @
          problem_if (n_Condition node \<noteq> None \<or> n_Timer node \<noteq> None \<or> n_Join node \<noteq> None)
            (ForeignConfig (n_Type node) k)
      | NodeTypeOther t \<Rightarrow> [])"

definition validateNode :: "Node \<Rightarrow> Node list \<Rightarrow> Edge list \<Rightarrow> Problem list" where
  "validateNode node nodes out = validateCompensationRef node nodes @ validateByType node out"

section \<open>Validation of the graph\<close>

definition outgoing :: "Edge list \<Rightarrow> string \<Rightarrow> Edge list" where
  "outgoing edges k = filter (\<lambda>e. e_From e = k) edges"

definition incoming :: "Edge list \<Rightarrow> string \<Rightarrow> Edge list" where
  "incoming edges k = filter (\<lambda>e. e_To e = k) edges"

definition arcs :: "Edge list \<Rightarrow> (string \<times> string) list" where
  "arcs edges = map (\<lambda>e. (e_From e, e_To e)) edges"

text \<open>A node leads to its compensator and along its edges.\<close>

definition reach_arcs :: "Node list \<Rightarrow> Edge list \<Rightarrow> (string \<times> string) list" where
  "reach_arcs nodes edges =
     map (\<lambda>n. (n_ID n, n_CompensationNodeID n)) (filter (\<lambda>n. n_CompensationNodeID n \<noteq> '''') nodes) @
     arcs edges"

definition terminal_ids :: "Node list \<Rightarrow> string list" where
  "terminal_ids nodes = map n_ID (filter (\<lambda>n. n_Type n = NodeTerminal) nodes)"

definition canTerminate :: "Node list \<Rightarrow> Edge list \<Rightarrow> string list" where
  "canTerminate nodes edges =
     mark_bfs (map (\<lambda>(x, y). (y, x)) (arcs edges)) (terminal_ids nodes) (terminal_ids nodes)"

definition validateReachability :: "string \<Rightarrow> Node list \<Rightarrow> Edge list \<Rightarrow> Problem list" where
  "validateReachability entry nodes edges =
     (let reachable = dfs (reach_arcs nodes edges) [entry] [];
          ends = canTerminate nodes edges
      in map (Unreachable \<circ> n_ID) (filter (\<lambda>n. n_ID n \<notin> set reachable) nodes) @
         (if terminal_ids nodes = [] then [TerminalRequired]
          else map (NoPathToTerminal \<circ> n_ID)
                 (filter (\<lambda>n. n_Type n \<noteq> NodeCompensation \<and> n_ID n \<notin> set ends) nodes)))"

definition bounded_edge :: "Edge \<Rightarrow> bool" where
  "bounded_edge e \<longleftrightarrow> 0 < e_MaxTraversals e"

definition validateCycleBounds :: "Node list \<Rightarrow> Edge list \<Rightarrow> Problem list" where
  "validateCycleBounds nodes edges =
     (case find_cycle e_From e_To bounded_edge edges (map n_ID nodes) [] of
        None \<Rightarrow> []
      | Some e \<Rightarrow> [UnboundedCycle (e_ID e)])"

text \<open>\<open>canReachBefore\<close>: \<open>target\<close> is found from \<open>start\<close> without passing \<open>stop\<close> (if any).\<close>

definition canReachBefore :: "string \<Rightarrow> string \<Rightarrow> string \<Rightarrow> Edge list \<Rightarrow> bool" where
  "canReachBefore start target stop edges \<longleftrightarrow>
     start = target \<or> find_target (arcs edges) (\<lambda>k. stop \<noteq> '''' \<and> k = stop) target [start] []"

definition joins_of :: "Node list \<Rightarrow> string \<Rightarrow> Node list" where
  "joins_of nodes split =
     filter (\<lambda>n. n_Type n = NodeParallelJoin \<and>
               (case n_Join n of None \<Rightarrow> False | Some j \<Rightarrow> jc_SplitNodeID j = split)) nodes"

definition validateSplit :: "Node list \<Rightarrow> Edge list \<Rightarrow> Node \<Rightarrow> Problem list" where
  "validateSplit nodes edges node =
     (if n_Type node \<noteq> NodeParallelSplit then []
      else case joins_of nodes (n_ID node) of
        [join] \<Rightarrow>
          (let branches = outgoing edges (n_ID node); ins = incoming edges (n_ID join)
           in problem_if (length ins < 2) (JoinIncomingRequired (n_ID join)) @
              map (\<lambda>b. BranchMissesJoin (n_ID node) (e_ID b) (n_ID join))
                (filter (\<lambda>b. \<not> canReachBefore (e_To b) (n_ID join) '''' edges) branches) @
              map (\<lambda>e. JoinEdgeOutside (n_ID join) (e_ID e) (n_ID node))
                (filter (\<lambda>e. \<not> list_ex (\<lambda>b. canReachBefore (e_To b) (e_From e) (n_ID join) edges) branches) ins))
      | _ \<Rightarrow> [SplitNotPaired (n_ID node)])"

definition validateJoinRef :: "Node list \<Rightarrow> Node \<Rightarrow> Problem list" where
  "validateJoinRef nodes node =
     (if n_Type node \<noteq> NodeParallelJoin then []
      else case n_Join node of
        None \<Rightarrow> []
      | Some j \<Rightarrow>
          (case node_at nodes (jc_SplitNodeID j) of
             None \<Rightarrow> [JoinSplitMissing (n_ID node) (jc_SplitNodeID j)]
           | Some split \<Rightarrow> problem_if (n_Type split \<noteq> NodeParallelSplit)
                             (JoinSplitWrongType (n_ID node) (jc_SplitNodeID j))))"

definition validateJoins :: "Node list \<Rightarrow> Edge list \<Rightarrow> Problem list" where
  "validateJoins nodes edges =
     concat (map (validateSplit nodes edges) nodes) @ concat (map (validateJoinRef nodes) nodes)"

section \<open>The definition\<close>

text \<open>The maps of nodes and edges that \<open>ValidateDefinition\<close> builds, with the problems on the way.\<close>

fun collect_nodes :: "Node list \<Rightarrow> Node list \<Rightarrow> Problem list \<times> Node list" where
  "collect_nodes nodes [] = ([], nodes)"
| "collect_nodes nodes (node # rest) =
     (if TrimSpace (n_ID node) = ''''
      then let (ps, nodes) = collect_nodes nodes rest in (NodeIDRequired # ps, nodes)
      else if node_at nodes (n_ID node) \<noteq> None
      then let (ps, nodes) = collect_nodes nodes rest in (NodeDuplicated (n_ID node) # ps, nodes)
      else let (ps, nodes) = collect_nodes (nodes @ [node]) rest
           in (problem_if (\<not> validNodeType (n_Type node)) (NodeTypeUnsupported (n_ID node) (n_Type node)) @ ps, nodes))"

definition edge_problems :: "Node list \<Rightarrow> Edge \<Rightarrow> Problem list" where
  "edge_problems nodes edge =
     problem_if (node_at nodes (e_From edge) = None) (EdgeSourceMissing (e_ID edge) (e_From edge)) @
     problem_if (node_at nodes (e_To edge) = None) (EdgeTargetMissing (e_ID edge) (e_To edge))"

text \<open>\<open>seen\<close> holds the identifiers in the map \<open>edges\<close>; the result holds the edges entered in
  \<open>outgoing\<close> and \<open>incoming\<close>.\<close>

fun collect_edges :: "Node list \<Rightarrow> string list \<Rightarrow> Edge list \<Rightarrow> Problem list \<times> Edge list" where
  "collect_edges nodes seen [] = ([], [])"
| "collect_edges nodes seen (edge # rest) =
     (if TrimSpace (e_ID edge) = ''''
      then let (ps, edges) = collect_edges nodes seen rest in (EdgeIDRequired # ps, edges)
      else if e_ID edge \<in> set seen
      then let (ps, edges) = collect_edges nodes seen rest in (EdgeDuplicated (e_ID edge) # ps, edges)
      else let (ps, edges) = collect_edges nodes (e_ID edge # seen) rest
           in (edge_problems nodes edge @ ps,
               if e_From edge = '''' \<or> e_To edge = '''' then edges else edge # edges))"

definition header_problems :: "Definition \<Rightarrow> Problem list" where
  "header_problems d =
     problem_if (d_SchemaVersion d \<noteq> CurrentDefinitionSchemaVersion) (UnsupportedSchema (d_SchemaVersion d)) @
     problem_if (TrimSpace (d_ID d) = '''') DefinitionIDRequired @
     problem_if (d_Version d = 0) VersionZero @
     problem_if (TrimSpace (d_EntryNodeID d) = '''') EntryRequired @
     problem_if (d_MaxRunSteps d = 0) MaxRunStepsZero @
     problem_if (d_Nodes d = []) NoNodes"

definition shape_problems :: "Definition \<Rightarrow> Problem list" where
  "shape_problems d =
     (let (node_ps, nodes) = collect_nodes [] (d_Nodes d);
          (edge_ps, edges) = collect_edges nodes [] (d_Edges d)
      in header_problems d @ node_ps @
         problem_if (node_at nodes (d_EntryNodeID d) = None \<and> d_EntryNodeID d \<noteq> '''') (EntryMissing (d_EntryNodeID d)) @
         edge_ps)"

definition graph_problems :: "Definition \<Rightarrow> Problem list" where
  "graph_problems d =
     (let nodes = snd (collect_nodes [] (d_Nodes d));
          edges = snd (collect_edges nodes [] (d_Edges d))
      in concat (map (\<lambda>n. validateNode n nodes (outgoing edges (n_ID n))) (d_Nodes d)) @
         validateReachability (d_EntryNodeID d) nodes edges @
         validateCycleBounds nodes edges @
         validateJoins nodes edges)"

text \<open>The problems of the \<open>ValidationError\<close>; the empty list is the nil error.\<close>

definition ValidateDefinition :: "Definition \<Rightarrow> Problem list" where
  "ValidateDefinition d = (if shape_problems d = [] then graph_problems d else shape_problems d)"

end
