(* ===== verification/WorkflowRun.thy ===== *)
theory WorkflowRun
  imports WorkflowGraph
begin

text \<open>
  Running a workflow graph: the run types (\<open>types.go\<close>), the next-step decision
  (\<open>evaluator.go\<close>) and the compensation plan (\<open>compensation.go\<close>). Both are pure functions of
  the definition, the run and the facts the caller supplies. A nil dereference of the Go code
  is the error \<open>NilDereference\<close>.
\<close>

section \<open>Types\<close>

datatype RunStatus =
    RunPending | RunRunning | RunWaiting | RunCancelling | RunCompensating
  | RunCompleted | RunFailed | RunCancelled | RunStatusOther string

fun RunStatus_Terminal :: "RunStatus \<Rightarrow> bool" where
  "RunStatus_Terminal s = (s = RunCompleted \<or> s = RunFailed \<or> s = RunCancelled)"

fun RunStatus_text :: "RunStatus \<Rightarrow> string" where
  "RunStatus_text RunPending = ''pending''"
| "RunStatus_text RunRunning = ''running''"
| "RunStatus_text RunWaiting = ''waiting''"
| "RunStatus_text RunCancelling = ''cancelling''"
| "RunStatus_text RunCompensating = ''compensating''"
| "RunStatus_text RunCompleted = ''completed''"
| "RunStatus_text RunFailed = ''failed''"
| "RunStatus_text RunCancelled = ''cancelled''"
| "RunStatus_text (RunStatusOther t) = t"

datatype NodeStatus =
    NodePending | NodeActive | NodeWaiting | NodeSucceeded | NodeFailed | NodeCancelled
  | NodeSkipped | NodeCompensated | NodeStatusOther string

record NodeRunState =
  ns_Status :: NodeStatus
  ns_Attempts :: "32 word"
  ns_EnteredAt :: instant
  ns_CompletedAt :: "instant option"
  ns_Outcome :: string

text \<open>\<open>NodeStates\<close> is ranged over, so it is an association list with distinct keys.\<close>

record Run =
  run_SchemaVersion :: "16 word"
  run_ID :: string
  run_DefinitionID :: string
  run_DefinitionVersion :: "64 word"
  run_Revision :: "64 word"
  run_Status :: RunStatus
  run_ActiveNodeIDs :: "string list"
  run_NodeStates :: "(string \<times> NodeRunState) list"
  run_EdgeTraversals :: "string \<rightharpoonup> 32 word"
  run_Steps :: "32 word"
  run_StartedAt :: instant
  run_UpdatedAt :: instant
  run_EndedAt :: "instant option"

datatype ApprovalDecision = ApprovalPending | ApprovalApproved | ApprovalRejected | ApprovalOther string

record Evaluation =
  ev_NodeID :: string
  ev_Outcome :: string
  ev_Approval :: ApprovalDecision
  ev_Signal :: string
  ev_Variables :: "string \<rightharpoonup> string"
  ev_Now :: instant

datatype Disposition =
    DispositionAdvance | DispositionWait | DispositionComplete | DispositionFail | DispositionCancel
  | DispositionOther string

record NextNode =
  nn_NodeID :: string
  nn_EdgeID :: string

record Decision =
  dec_Disposition :: Disposition
  dec_FromNodeID :: string
  dec_Next :: "NextNode list"
  dec_ResultingRun :: RunStatus
  dec_TerminalState :: "TerminalResult option"
  dec_Reason :: string

datatype GraphError =
    InvalidDefinition "Problem list"
  | RunSchemaUnsupported "16 word"
  | RunDefinitionMismatch
  | RunAlreadyTerminal RunStatus
  | RunStepLimit "32 word" "32 word"
  | NodeNotActive string
  | EvaluationNodeMissing string
  | ApprovalUnsupported ApprovalDecision
  | TimerNeedsTime string
  | TimerNeedsEntry string
  | EvaluationTypeUnsupported NodeType
  | NoMatchingEdge
  | TraversalLimit string "32 word" "32 word"
  | TargetStatusUnsupported RunStatus
  | NilDereference

section \<open>Selecting edges\<close>

definition sortEdges :: "Edge list \<Rightarrow> Edge list" where
  "sortEdges edges = sort_key (\<lambda>e. (e_Order e, e_ID e)) edges"

definition select_default :: "Edge list \<Rightarrow> Edge list" where
  "select_default edges =
     (case find (\<lambda>e. e_Outcome e = OutcomeDefault) edges of None \<Rightarrow> [] | Some e \<Rightarrow> [e])"

definition selectOutcome :: "Edge list \<Rightarrow> string \<Rightarrow> Edge list" where
  "selectOutcome edges requested =
     (let requested = TrimSpace requested in
      if requested \<noteq> '''' then
        (case find (\<lambda>e. e_Outcome e = requested) edges of
           Some e \<Rightarrow> [e]
         | None \<Rightarrow> select_default edges)
      else if length edges = 1 then [edges ! 0]
      else select_default edges)"

definition traversals :: "Run \<Rightarrow> string \<Rightarrow> 32 word" where
  "traversals run k = (case run_EdgeTraversals run k of None \<Rightarrow> 0 | Some n \<Rightarrow> n)"

fun next_nodes :: "Run \<Rightarrow> Edge list \<Rightarrow> GraphError + NextNode list" where
  "next_nodes run [] = Inr []"
| "next_nodes run (edge # edges) =
     (if 0 < e_MaxTraversals edge \<and> e_MaxTraversals edge \<le> traversals run (e_ID edge)
      then Inl (TraversalLimit (e_ID edge) (traversals run (e_ID edge)) (e_MaxTraversals edge))
      else and_then (next_nodes run edges)
             (\<lambda>rest. Inr (\<lparr>nn_NodeID = e_To edge, nn_EdgeID = e_ID edge\<rparr> # rest)))"

definition advanceAlong :: "Run \<Rightarrow> string \<Rightarrow> Edge list \<Rightarrow> GraphError + Decision" where
  "advanceAlong run fromNodeID edges =
     (if edges = [] then Inl NoMatchingEdge
      else and_then (next_nodes run (sortEdges edges)) (\<lambda>next.
        Inr \<lparr>dec_Disposition = DispositionAdvance, dec_FromNodeID = fromNodeID, dec_Next = next,
             dec_ResultingRun = RunRunning, dec_TerminalState = None,
             dec_Reason = ''eligible transition selected''\<rparr>))"

definition waiting :: "string \<Rightarrow> string \<Rightarrow> Decision" where
  "waiting nodeID reason =
     \<lparr>dec_Disposition = DispositionWait, dec_FromNodeID = nodeID, dec_Next = [],
      dec_ResultingRun = RunWaiting, dec_TerminalState = None, dec_Reason = reason\<rparr>"

section \<open>Evaluating a node\<close>

definition evaluateCondition :: "ConditionConfig \<Rightarrow> (string \<rightharpoonup> string) \<Rightarrow> bool" where
  "evaluateCondition config variables =
     (let value = variables (cc_Field config) in
      case cc_Operator config of
        ConditionEqual \<Rightarrow> value = Some (cc_Value config)
      | ConditionNotEqual \<Rightarrow> value \<noteq> Some (cc_Value config)
      | ConditionExists \<Rightarrow> value \<noteq> None
      | ConditionNotExists \<Rightarrow> value = None
      | ConditionOperatorOther t \<Rightarrow> False)"

definition node_status :: "Run \<Rightarrow> string \<Rightarrow> NodeStatus" where
  "node_status run k =
     (case map_of (run_NodeStates run) k of None \<Rightarrow> NodeStatusOther '''' | Some s \<Rightarrow> ns_Status s)"

definition branch_done :: "NodeStatus \<Rightarrow> bool" where
  "branch_done s \<longleftrightarrow> s \<in> {NodeSucceeded, NodeSkipped, NodeCompensated}"

definition branch_failed :: "NodeStatus \<Rightarrow> bool" where
  "branch_failed s \<longleftrightarrow> s \<in> {NodeFailed, NodeCancelled}"

definition join_failed :: "string \<Rightarrow> string \<Rightarrow> Decision" where
  "join_failed nodeID reason =
     \<lparr>dec_Disposition = DispositionFail, dec_FromNodeID = nodeID, dec_Next = [],
      dec_ResultingRun = RunFailed, dec_TerminalState = None, dec_Reason = reason\<rparr>"

definition evaluateJoin :: "Run \<Rightarrow> Node \<Rightarrow> Edge list \<Rightarrow> Edge list \<Rightarrow> GraphError + Decision" where
  "evaluateJoin run node out ins =
     (let succeeded = length (filter (\<lambda>e. branch_done (node_status run (e_From e))) ins);
          failed = length (filter (\<lambda>e. branch_failed (node_status run (e_From e))) ins)
      in case n_Join node of
        None \<Rightarrow> Inl NilDereference
      | Some j \<Rightarrow>
          (case jc_Mode j of
             JoinAll \<Rightarrow>
               if 0 < failed then Inr (join_failed (n_ID node) ''parallel join has a failed or cancelled branch'')
               else if succeeded \<noteq> length ins
               then Inr (waiting (n_ID node) ''parallel join is waiting for all branches'')
               else advanceAlong run (n_ID node) out
           | JoinAny \<Rightarrow>
               if succeeded = 0 then
                 (if failed = length ins
                  then Inr (join_failed (n_ID node) ''all parallel join branches failed or were cancelled'')
                  else Inr (waiting (n_ID node) ''parallel join is waiting for a successful branch''))
               else advanceAlong run (n_ID node) out
           | JoinModeOther t \<Rightarrow> advanceAlong run (n_ID node) out))"

definition terminal_decision :: "string \<Rightarrow> TerminalResult \<Rightarrow> Decision" where
  "terminal_decision nodeID result =
     (let (disposition, status) =
        (case result of
           TerminalCompleted \<Rightarrow> (DispositionComplete, RunCompleted)
         | TerminalFailed \<Rightarrow> (DispositionFail, RunFailed)
         | TerminalCancelled \<Rightarrow> (DispositionCancel, RunCancelled)
         | TerminalResultOther t \<Rightarrow> (DispositionOther '''', RunStatusOther ''''))
      in \<lparr>dec_Disposition = disposition, dec_FromNodeID = nodeID, dec_Next = [],
          dec_ResultingRun = status, dec_TerminalState = Some result,
          dec_Reason = ''terminal state reached''\<rparr>)"

definition evaluateTimer :: "Run \<Rightarrow> Node \<Rightarrow> Edge list \<Rightarrow> instant \<Rightarrow> GraphError + Decision" where
  "evaluateTimer run node out now =
     (if now = 0 then Inl (TimerNeedsTime (n_ID node))
      else case map_of (run_NodeStates run) (n_ID node) of
        None \<Rightarrow> Inl (TimerNeedsEntry (n_ID node))
      | Some state \<Rightarrow>
          if ns_EnteredAt state = 0 then Inl (TimerNeedsEntry (n_ID node))
          else (case n_Timer node of
             None \<Rightarrow> Inl NilDereference
           | Some after \<Rightarrow>
               if now < ns_EnteredAt state + after then Inr (waiting (n_ID node) ''timer has not elapsed'')
               else advanceAlong run (n_ID node) (selectOutcome out OutcomeElapsed)))"

text \<open>The type switch of \<open>EvaluateNext\<close>.\<close>

definition evaluateNode :: "Run \<Rightarrow> Evaluation \<Rightarrow> Node \<Rightarrow> Edge list \<Rightarrow> Edge list \<Rightarrow> GraphError + Decision" where
  "evaluateNode run evaluation node out ins =
     (let k = n_ID node in
      case n_Type node of
        NodeCondition \<Rightarrow>
          (case n_Condition node of
             None \<Rightarrow> Inl NilDereference
           | Some config \<Rightarrow>
               advanceAlong run k (selectOutcome out
                 (if evaluateCondition config (ev_Variables evaluation) then OutcomeTrue else OutcomeFalse)))
      | NodeHumanApproval \<Rightarrow>
          (case ev_Approval evaluation of
             ApprovalPending \<Rightarrow> Inr (waiting k ''human approval is still pending'')
           | ApprovalApproved \<Rightarrow> advanceAlong run k (selectOutcome out OutcomeApproved)
           | ApprovalRejected \<Rightarrow> advanceAlong run k (selectOutcome out OutcomeRejected)
           | ApprovalOther t \<Rightarrow> Inl (ApprovalUnsupported (ev_Approval evaluation)))
      | NodeWait \<Rightarrow>
          (let signal = TrimSpace (ev_Signal evaluation) in
           if signal = '''' then Inr (waiting k ''wait signal has not arrived'')
           else advanceAlong run k (selectOutcome out signal))
      | NodeTimer \<Rightarrow> evaluateTimer run node out (ev_Now evaluation)
      | NodeParallelSplit \<Rightarrow> advanceAlong run k (sortEdges out)
      | NodeParallelJoin \<Rightarrow> evaluateJoin run node out ins
      | NodeTerminal \<Rightarrow>
          (case n_Terminal node of
             None \<Rightarrow> Inl NilDereference
           | Some result \<Rightarrow> Inr (terminal_decision k result))
      | NodeCompensation \<Rightarrow>
          (if out = [] then
             Inr \<lparr>dec_Disposition = DispositionAdvance, dec_FromNodeID = k, dec_Next = [],
                  dec_ResultingRun = RunCompensating, dec_TerminalState = None,
                  dec_Reason = ''compensation step completed''\<rparr>
           else advanceAlong run k (selectOutcome out (ev_Outcome evaluation)))
      | NodeAction \<Rightarrow> advanceAlong run k (selectOutcome out (ev_Outcome evaluation))
      | NodeVerification \<Rightarrow> advanceAlong run k (selectOutcome out (ev_Outcome evaluation))
      | NodeTypeOther t \<Rightarrow> Inl (EvaluationTypeUnsupported (n_Type node)))"

text \<open>\<open>indexDefinition\<close>: the map holds the last node of an identifier.\<close>

definition index_node :: "Definition \<Rightarrow> string \<Rightarrow> Node option" where
  "index_node d k = find (\<lambda>n. n_ID n = k) (rev (d_Nodes d))"

definition EvaluateNext :: "Definition \<Rightarrow> Run \<Rightarrow> Evaluation \<Rightarrow> GraphError + Decision" where
  "EvaluateNext d run evaluation =
     (if ValidateDefinition d \<noteq> [] then Inl (InvalidDefinition (ValidateDefinition d))
      else if run_SchemaVersion run \<noteq> CurrentRunSchemaVersion then Inl (RunSchemaUnsupported (run_SchemaVersion run))
      else if run_DefinitionID run \<noteq> d_ID d \<or> run_DefinitionVersion run \<noteq> d_Version d then Inl RunDefinitionMismatch
      else if RunStatus_Terminal (run_Status run) then Inl (RunAlreadyTerminal (run_Status run))
      else if d_MaxRunSteps d \<le> run_Steps run then Inl (RunStepLimit (run_Steps run) (d_MaxRunSteps d))
      else if ev_NodeID evaluation \<notin> set (run_ActiveNodeIDs run) then Inl (NodeNotActive (ev_NodeID evaluation))
      else case index_node d (ev_NodeID evaluation) of
        None \<Rightarrow> Inl (EvaluationNodeMissing (ev_NodeID evaluation))
      | Some node \<Rightarrow>
          evaluateNode run evaluation node (outgoing (d_Edges d) (n_ID node)) (incoming (d_Edges d) (n_ID node)))"

section \<open>Planning compensation\<close>

record CompensationStep =
  cs_Order :: nat
  cs_CompletedNodeID :: string
  cs_CompensationNodeID :: string

record CancellationPlan =
  cp_RunID :: string
  cp_CancelActiveNodeIDs :: "string list"
  cp_CompensationSteps :: "CompensationStep list"
  cp_RequiresCompensation :: bool
  cp_TargetStatus :: RunStatus
  cp_Reason :: string

fun compensation_candidates :: "Definition \<Rightarrow> Run \<Rightarrow> (string \<times> NodeRunState) list \<Rightarrow> (Node \<times> instant) list" where
  "compensation_candidates d run [] = []"
| "compensation_candidates d run ((nodeID, state) # states) =
     (case (index_node d nodeID, ns_CompletedAt state) of
        (Some node, Some completedAt) \<Rightarrow>
          if n_Type node = NodeAction \<and> n_CompensationNodeID node \<noteq> '''' \<and> ns_Status state = NodeSucceeded \<and>
             node_status run (n_CompensationNodeID node) \<noteq> NodeSucceeded \<and>
             node_status run (n_CompensationNodeID node) \<noteq> NodeCompensated
          then (node, completedAt) # compensation_candidates d run states
          else compensation_candidates d run states
      | _ \<Rightarrow> compensation_candidates d run states)"

definition compensation_steps :: "(Node \<times> instant) list \<Rightarrow> CompensationStep list" where
  "compensation_steps candidates =
     map (\<lambda>(i, c). \<lparr>cs_Order = i + 1, cs_CompletedNodeID = n_ID (fst c),
                    cs_CompensationNodeID = n_CompensationNodeID (fst c)\<rparr>)
       (List.enumerate 0 (sort_key (\<lambda>(node, completedAt). (- completedAt, n_ID node)) candidates))"

definition PlanCompensation ::
  "Definition \<Rightarrow> Run \<Rightarrow> RunStatus \<Rightarrow> string \<Rightarrow> GraphError + CancellationPlan" where
  "PlanCompensation d run targetStatus reason =
     (if ValidateDefinition d \<noteq> [] then Inl (InvalidDefinition (ValidateDefinition d))
      else if run_SchemaVersion run \<noteq> CurrentRunSchemaVersion then Inl (RunSchemaUnsupported (run_SchemaVersion run))
      else if run_DefinitionID run \<noteq> d_ID d \<or> run_DefinitionVersion run \<noteq> d_Version d then Inl RunDefinitionMismatch
      else if targetStatus \<noteq> RunCancelled \<and> targetStatus \<noteq> RunFailed then Inl (TargetStatusUnsupported targetStatus)
      else let steps = compensation_steps (compensation_candidates d run (run_NodeStates run)) in
        Inr \<lparr>cp_RunID = run_ID run, cp_CancelActiveNodeIDs = sort (run_ActiveNodeIDs run),
             cp_CompensationSteps = steps, cp_RequiresCompensation = (steps \<noteq> []),
             cp_TargetStatus = targetStatus,
             cp_Reason = (if reason = '''' then ''run requested transition to '' @ RunStatus_text targetStatus
                          else reason)\<rparr>)"

definition PlanCancellation :: "Definition \<Rightarrow> Run \<Rightarrow> string \<Rightarrow> GraphError + CancellationPlan" where
  "PlanCancellation d run reason = PlanCompensation d run RunCancelled reason"

end
