(* ===== verification/WorkflowFacts.thy ===== *)
theory WorkflowFacts
  imports WorkflowRun "HOL-Library.Multiset"
begin

text \<open>
  What a definition that passes validation looks like, and what the evaluator and the planner
  can then rely on. The interpretation \<open>workflow\<close> discharges the contract of \<open>bounded_cycles\<close>
  for validated definitions.
\<close>

section \<open>The maps of a validated definition\<close>

lemma problem_if_Nil [simp]: "problem_if b p = [] \<longleftrightarrow> \<not> b"
  by (simp add: problem_if_def)

lemma node_at_None_iff: "node_at ns k = None \<longleftrightarrow> k \<notin> n_ID ` set ns"
  by (auto simp: node_at_def find_None_iff)

lemma find_SomeD: "find P xs = Some x \<Longrightarrow> x \<in> set xs \<and> P x"
  by (auto simp: find_Some_iff)

lemma node_at_SomeD: "node_at ns k = Some n \<Longrightarrow> n \<in> set ns \<and> n_ID n = k"
  by (auto simp: node_at_def dest: find_SomeD)

lemma collect_nodes_ok:
  "fst (collect_nodes ns rest) = [] \<Longrightarrow> distinct (map n_ID ns) \<Longrightarrow>
     snd (collect_nodes ns rest) = ns @ rest \<and> distinct (map n_ID (ns @ rest)) \<and>
     (\<forall>n \<in> set rest. TrimSpace (n_ID n) \<noteq> '''' \<and> validNodeType (n_Type n))"
proof (induction ns rest rule: collect_nodes.induct)
  case (2 ns n rest)
  from 2(4) have n: "TrimSpace (n_ID n) \<noteq> ''''" "node_at ns (n_ID n) = None" "validNodeType (n_Type n)"
    and f: "fst (collect_nodes (ns @ [n]) rest) = []"
    by (auto simp: case_prod_unfold Let_def split: if_splits)
  from n(2) 2(5) have d: "distinct (map n_ID (ns @ [n]))" by (auto simp: node_at_None_iff)
  have "\<not> node_at ns (n_ID n) \<noteq> None" using n(2) by simp
  from 2(3) [OF n(1) this f d] n f show ?case by (simp add: case_prod_unfold Let_def)
qed simp

lemma collect_edges_ok:
  "fst (collect_edges nodes seen rest) = [] \<Longrightarrow> '''' \<notin> n_ID ` set nodes \<Longrightarrow>
     snd (collect_edges nodes seen rest) = rest \<and> distinct (map e_ID rest) \<and>
     e_ID ` set rest \<inter> set seen = {} \<and> (\<forall>e \<in> set rest. e_From e \<in> n_ID ` set nodes \<and> e_To e \<in> n_ID ` set nodes)"
proof (induction nodes seen rest rule: collect_edges.induct)
  case (2 nodes seen e rest)
  from 2(4) have e: "TrimSpace (e_ID e) \<noteq> ''''" "e_ID e \<notin> set seen" "edge_problems nodes e = []"
    and f: "fst (collect_edges nodes (e_ID e # seen) rest) = []"
    by (auto simp: case_prod_unfold Let_def split: if_splits)
  from e(3) have ends: "e_From e \<in> n_ID ` set nodes" "e_To e \<in> n_ID ` set nodes"
    by (simp_all add: edge_problems_def node_at_None_iff)
  with 2(5) have "e_From e \<noteq> ''''" "e_To e \<noteq> ''''" by metis+
  with 2(3) [OF e(1,2) f 2(5)] e f ends show ?case by (auto simp: case_prod_unfold Let_def)
qed simp

lemma valid_shape:
  assumes "ValidateDefinition d = []"
  shows "distinct (map n_ID (d_Nodes d))" "d_EntryNodeID d \<in> n_ID ` set (d_Nodes d)"
    "\<forall>n \<in> set (d_Nodes d). n_ID n \<noteq> '''' \<and> validNodeType (n_Type n)"
    "distinct (map e_ID (d_Edges d))"
    "\<forall>e \<in> set (d_Edges d). e_From e \<in> n_ID ` set (d_Nodes d) \<and> e_To e \<in> n_ID ` set (d_Nodes d)"
    "snd (collect_nodes [] (d_Nodes d)) = d_Nodes d"
    "snd (collect_edges (d_Nodes d) [] (d_Edges d)) = d_Edges d"
    "header_problems d = []"
proof -
  have s: "shape_problems d = []" using assms by (simp add: ValidateDefinition_def split: if_splits)
  then have n: "fst (collect_nodes [] (d_Nodes d)) = []"
    by (auto simp: shape_problems_def case_prod_unfold Let_def)
  note nodes = collect_nodes_ok [OF n]
  from s nodes have e: "fst (collect_edges (d_Nodes d) [] (d_Edges d)) = []"
    by (auto simp: shape_problems_def case_prod_unfold Let_def)
  from nodes have blank: "\<forall>n \<in> set (d_Nodes d). n_ID n \<noteq> '''' \<and> validNodeType (n_Type n)" by auto
  then have "'''' \<notin> n_ID ` set (d_Nodes d)" by auto
  note edges = collect_edges_ok [OF e this]
  show "header_problems d = []" using s by (auto simp: shape_problems_def case_prod_unfold Let_def)
  then have "d_EntryNodeID d \<noteq> ''''" by (auto simp: header_problems_def)
  with s nodes show "d_EntryNodeID d \<in> n_ID ` set (d_Nodes d)"
    by (auto simp: shape_problems_def case_prod_unfold Let_def node_at_None_iff)
  show "distinct (map n_ID (d_Nodes d))" "snd (collect_nodes [] (d_Nodes d)) = d_Nodes d"
    using nodes by simp_all
  show "distinct (map e_ID (d_Edges d))" "snd (collect_edges (d_Nodes d) [] (d_Edges d)) = d_Edges d"
    "\<forall>e \<in> set (d_Edges d). e_From e \<in> n_ID ` set (d_Nodes d) \<and> e_To e \<in> n_ID ` set (d_Nodes d)"
    using edges by simp_all
  show "\<forall>n \<in> set (d_Nodes d). n_ID n \<noteq> '''' \<and> validNodeType (n_Type n)" by (rule blank)
qed

lemma valid_graph:
  assumes "ValidateDefinition d = []"
  shows "\<And>n. n \<in> set (d_Nodes d) \<Longrightarrow> validateNode n (d_Nodes d) (outgoing (d_Edges d) (n_ID n)) = []"
    "validateReachability (d_EntryNodeID d) (d_Nodes d) (d_Edges d) = []"
    "validateCycleBounds (d_Nodes d) (d_Edges d) = []"
    "validateJoins (d_Nodes d) (d_Edges d) = []"
proof -
  have "graph_problems d = []" using assms by (simp add: ValidateDefinition_def split: if_splits)
  note g = this [unfolded graph_problems_def Let_def valid_shape(6,7) [OF assms]]
  from g show "\<And>n. n \<in> set (d_Nodes d) \<Longrightarrow> validateNode n (d_Nodes d) (outgoing (d_Edges d) (n_ID n)) = []"
    by simp
  from g show "validateReachability (d_EntryNodeID d) (d_Nodes d) (d_Edges d) = []"
    "validateCycleBounds (d_Nodes d) (d_Edges d) = []" "validateJoins (d_Nodes d) (d_Edges d) = []"
    by simp_all
qed

section \<open>Reachability, cycles and walks\<close>

lemma canTerminate_iff:
  "k \<in> set (canTerminate nodes edges) \<longleftrightarrow>
     (\<exists>t \<in> set (terminal_ids nodes). (k, t) \<in> (set (arcs edges))\<^sup>*)"
proof -
  have "set (map (\<lambda>(x, y). (y, x)) (arcs edges)) = (set (arcs edges))\<inverse>" by (auto simp: image_iff)
  then show ?thesis by (auto simp: canTerminate_def mark_bfs_reach rtrancl_converse)
qed

lemma free_arcs_cong:
  "free_arcs e_From e_To bounded_edge es = free_arcs e_From e_To (\<lambda>e. 0 < unat (e_MaxTraversals e)) es"
  by (simp add: free_arcs_def bounded_edge_def word_less_nat_alt)

lemma cycle_bounds_iff:
  assumes "e_From ` set edges \<subseteq> n_ID ` set nodes"
  shows "validateCycleBounds nodes edges = [] \<longleftrightarrow> acyclic (free_arcs e_From e_To bounded_edge edges)"
proof -
  have "e_From ` set edges \<subseteq> set (map n_ID nodes)" using assms by simp
  from find_cycle_None_iff [OF this, of e_To bounded_edge] show ?thesis
    by (cases "find_cycle e_From e_To bounded_edge edges (map n_ID nodes) []")
      (simp_all add: validateCycleBounds_def)
qed

definition node_names :: "Definition \<Rightarrow> string list" where
  "node_names d = map n_ID (d_Nodes d)"

definition edge_bound :: "Edge \<Rightarrow> nat" where
  "edge_bound e = unat (e_MaxTraversals e)"

interpretation workflow: bounded_cycles "\<lambda>d. ValidateDefinition d = []" node_names d_Edges e_From e_To edge_bound
proof
  fix d assume v: "ValidateDefinition d = []"
  from valid_shape(5) [OF v] show n: "e_From ` set (d_Edges d) \<subseteq> set (node_names d)"
    by (auto simp: node_names_def)
  then have "e_From ` set (d_Edges d) \<subseteq> n_ID ` set (d_Nodes d)" by (simp add: node_names_def)
  from cycle_bounds_iff [OF this] valid_graph(3) [OF v]
  show "acyclic (free_arcs e_From e_To (\<lambda>e. 0 < edge_bound e) (d_Edges d))"
    by (simp add: free_arcs_cong edge_bound_def)
qed

section \<open>Selecting and advancing\<close>

lemma set_sortEdges [simp]: "set (sortEdges es) = set es"
  by (simp add: sortEdges_def)

lemma select_default_subset: "set (select_default es) \<subseteq> set es"
  by (cases "find (\<lambda>e. e_Outcome e = OutcomeDefault) es") (auto simp: select_default_def dest: find_SomeD)

lemma selectOutcome_subset: "set (selectOutcome es r) \<subseteq> set es"
  using select_default_subset [of es]
  by (auto simp: selectOutcome_def Let_def dest: find_SomeD split: option.splits)

definition under_limit :: "Run \<Rightarrow> Edge \<Rightarrow> bool" where
  "under_limit run e \<longleftrightarrow> e_MaxTraversals e = 0 \<or> traversals run (e_ID e) < e_MaxTraversals e"

definition next_of :: "Edge \<Rightarrow> NextNode" where
  "next_of e = \<lparr>nn_NodeID = e_To e, nn_EdgeID = e_ID e\<rparr>"

lemma next_nodes_Inr_iff:
  "next_nodes run es = Inr ns \<longleftrightarrow> (\<forall>e \<in> set es. under_limit run e) \<and> ns = map next_of es"
  by (induction es arbitrary: ns)
    (auto simp: and_then_Inr_iff under_limit_def next_of_def not_le word_gt_0)

lemma next_nodes_InlD: "next_nodes run es = Inl x \<Longrightarrow> \<exists>k u m. x = TraversalLimit k u m"
  by (induction es) (auto simp: and_then_def split: sum.splits if_splits)

lemma advanceAlong_InrD:
  "advanceAlong run k es = Inr dec \<Longrightarrow>
     es \<noteq> [] \<and> dec_Disposition dec = DispositionAdvance \<and> dec_FromNodeID dec = k \<and>
     dec_ResultingRun dec = RunRunning \<and> dec_Next dec = map next_of (sortEdges es) \<and>
     (\<forall>e \<in> set es. under_limit run e)"
  by (auto simp: advanceAlong_def and_then_Inr_iff next_nodes_Inr_iff split: if_splits)

lemma advanceAlong_InlD:
  "advanceAlong run k es = Inl x \<Longrightarrow> es = [] \<and> x = NoMatchingEdge \<or> (\<exists>k u m. x = TraversalLimit k u m)"
  using next_nodes_InlD by (fastforce simp: advanceAlong_def and_then_def split: if_splits sum.splits)

lemma exact_outcome_edge:
  assumes "validateExactOutcomes k es expected = []" "r \<in> set expected"
  shows "\<exists>e. find (\<lambda>e. e_Outcome e = r) es = Some e"
proof -
  from assms have "count_list (map e_Outcome es) r = 1"
    by (auto simp: validateExactOutcomes_def Let_def)
  then have "r \<in> set (map e_Outcome es)" by (metis count_list_0_iff zero_neq_one)
  then show ?thesis by (cases "find (\<lambda>e. e_Outcome e = r) es") (auto simp: find_None_iff)
qed

lemma outcome_texts:
  "TrimSpace OutcomeTrue = OutcomeTrue" "TrimSpace OutcomeFalse = OutcomeFalse"
  "TrimSpace OutcomeApproved = OutcomeApproved" "TrimSpace OutcomeRejected = OutcomeRejected"
  "TrimSpace OutcomeElapsed = OutcomeElapsed"
  "OutcomeTrue \<noteq> ''''" "OutcomeFalse \<noteq> ''''" "OutcomeApproved \<noteq> ''''" "OutcomeRejected \<noteq> ''''"
  "OutcomeElapsed \<noteq> ''''"
  by (simp_all add: OutcomeTrue_def OutcomeFalse_def OutcomeApproved_def OutcomeRejected_def
      OutcomeElapsed_def TrimSpace_def trim_with.simps ascii_space_def unicode_space2_def unicode_space3_def)

lemma exact_outcome_selected:
  "validateExactOutcomes k es expected = [] \<Longrightarrow> r \<in> set expected \<Longrightarrow> TrimSpace r = r \<Longrightarrow> r \<noteq> '''' \<Longrightarrow>
     selectOutcome es r \<noteq> []"
  using exact_outcome_edge [of k es expected r] by (auto simp: selectOutcome_def)

section \<open>Evaluating one node\<close>

lemma evaluateJoin_cases:
  "evaluateJoin run node out ins = Inr dec \<Longrightarrow>
     dec_Next dec = [] \<or> advanceAlong run (n_ID node) out = Inr dec"
  by (auto simp: evaluateJoin_def Let_def waiting_def join_failed_def split: option.splits JoinMode.splits if_splits)

lemma evaluateTimer_cases:
  "evaluateTimer run node out now = Inr dec \<Longrightarrow>
     dec_Next dec = [] \<or> advanceAlong run (n_ID node) (selectOutcome out OutcomeElapsed) = Inr dec"
  by (auto simp: evaluateTimer_def waiting_def split: option.splits if_splits)

lemma evaluateNode_cases:
  assumes "evaluateNode run ev node out ins = Inr dec"
  shows "dec_Next dec = [] \<or> (\<exists>es. set es \<subseteq> set out \<and> advanceAlong run (n_ID node) es = Inr dec)"
  using assms selectOutcome_subset [of out] evaluateJoin_cases [of run node out ins dec]
    evaluateTimer_cases [of run node out "ev_Now ev" dec]
  unfolding evaluateNode_def Let_def
  by (cases "n_Type node")
    (auto simp: waiting_def terminal_decision_def Let_def
      split: option.splits ApprovalDecision.splits TerminalResult.splits if_splits)

lemma index_node_SomeD: "index_node d k = Some n \<Longrightarrow> n \<in> set (d_Nodes d) \<and> n_ID n = k"
  by (auto simp: index_node_def dest: find_SomeD)

lemma EvaluateNext_InrD:
  assumes "EvaluateNext d run ev = Inr dec"
  shows "ValidateDefinition d = []" "\<not> RunStatus_Terminal (run_Status run)" "run_Steps run < d_MaxRunSteps d"
    "ev_NodeID ev \<in> set (run_ActiveNodeIDs run)"
    "\<exists>n. index_node d (ev_NodeID ev) = Some n \<and>
       evaluateNode run ev n (outgoing (d_Edges d) (n_ID n)) (incoming (d_Edges d) (n_ID n)) = Inr dec"
  using assms unfolding EvaluateNext_def by (simp_all split: if_splits option.splits)

section \<open>Errors\<close>

text \<open>The errors of the type switch that only a malformed node or a missing edge can cause.\<close>

definition branch_error :: "GraphError \<Rightarrow> bool" where
  "branch_error x \<longleftrightarrow> x \<noteq> NilDereference \<and> x \<noteq> NoMatchingEdge \<and> (\<forall>t. x \<noteq> EvaluationTypeUnsupported t)"

lemma advance_error:
  "advanceAlong run k es = Inl x \<Longrightarrow> es \<noteq> [] \<Longrightarrow> branch_error x"
  using advanceAlong_InlD [of run k es x] by (auto simp: branch_error_def)

lemma sortEdges_Nil [simp]: "sortEdges es = [] \<longleftrightarrow> es = []"
  by (metis set_empty set_sortEdges)

lemma join_error:
  assumes "validateNode n ns out = []" "n_Type n = NodeParallelJoin" "evaluateJoin run n out ins = Inl x"
  shows "branch_error x"
proof -
  from assms(1,2) obtain j where j: "n_Join n = Some j" "out \<noteq> []"
    by (cases out) (auto simp: validateNode_def validateByType_def validateJoinConfig_def Let_def split: option.splits)
  with assms(3) have "advanceAlong run (n_ID n) out = Inl x"
    by (auto simp: evaluateJoin_def Let_def split: JoinMode.splits if_splits)
  with j(2) show ?thesis by (intro advance_error)
qed

lemma timer_error:
  assumes "validateNode n ns out = []" "n_Type n = NodeTimer" "evaluateTimer run n out now = Inl x"
  shows "branch_error x"
proof -
  from assms(1,2) obtain after where t: "n_Timer n = Some after"
    and "validateExactOutcomes (n_ID n) out [OutcomeElapsed] = []"
    by (auto simp: validateNode_def validateByType_def Let_def split: option.splits)
  from exact_outcome_selected [OF this(2)] have s: "selectOutcome out OutcomeElapsed \<noteq> []"
    by (simp add: outcome_texts)
  from assms(3) t have "advanceAlong run (n_ID n) (selectOutcome out OutcomeElapsed) = Inl x \<or>
      x = TimerNeedsTime (n_ID n) \<or> x = TimerNeedsEntry (n_ID n)"
    by (auto simp: evaluateTimer_def split: option.splits if_splits)
  with s show ?thesis by (auto simp: branch_error_def dest: advance_error)
qed

lemma condition_error:
  assumes "validateNode n ns out = []" "n_Type n = NodeCondition"
    and "evaluateNode run ev n out ins = Inl x"
  shows "branch_error x"
proof -
  from assms(1,2) obtain c where c: "n_Condition n = Some c"
    and "validateExactOutcomes (n_ID n) out [OutcomeTrue, OutcomeFalse] = []"
    by (auto simp: validateNode_def validateByType_def validateCondition_def Let_def split: option.splits)
  from exact_outcome_selected [OF this(2)]
  have "selectOutcome out OutcomeTrue \<noteq> []" "selectOutcome out OutcomeFalse \<noteq> []"
    by (simp_all add: outcome_texts)
  with c assms(2,3) show ?thesis by (auto simp: evaluateNode_def Let_def split: if_splits dest: advance_error)
qed

lemma approval_error:
  assumes "validateNode n ns out = []" "n_Type n = NodeHumanApproval"
    and "evaluateNode run ev n out ins = Inl x"
  shows "branch_error x"
proof -
  from assms(1,2) have "validateExactOutcomes (n_ID n) out [OutcomeApproved, OutcomeRejected] = []"
    by (auto simp: validateNode_def validateByType_def Let_def)
  from exact_outcome_selected [OF this]
  have "selectOutcome out OutcomeApproved \<noteq> []" "selectOutcome out OutcomeRejected \<noteq> []"
    by (simp_all add: outcome_texts)
  with assms(2,3) show ?thesis
    by (auto simp: evaluateNode_def Let_def branch_error_def split: ApprovalDecision.splits dest: advance_error)
qed

lemma evaluateNode_errors:
  assumes v: "validateNode n ns out = []" and t: "validNodeType (n_Type n)"
    and x: "evaluateNode run ev n out ins = Inl x"
  shows "branch_error x \<or> x = NoMatchingEdge \<and> n_Type n \<in> {NodeAction, NodeVerification, NodeWait, NodeCompensation}"
proof (cases "n_Type n")
  case NodeCondition with condition_error [OF v _ x] show ?thesis by blast
next
  case NodeHumanApproval with approval_error [OF v _ x] show ?thesis by blast
next
  case NodeTimer
  with x have "evaluateTimer run n out (ev_Now ev) = Inl x" by (simp add: evaluateNode_def)
  from timer_error [OF v NodeTimer this] show ?thesis ..
next
  case NodeParallelJoin
  with x have "evaluateJoin run n out ins = Inl x" by (simp add: evaluateNode_def)
  from join_error [OF v NodeParallelJoin this] show ?thesis ..
next
  case NodeParallelSplit
  with v have "out \<noteq> []" by (auto simp: validateNode_def validateByType_def Let_def)
  with x NodeParallelSplit show ?thesis
    using advance_error [of run "n_ID n" "sortEdges out" x] by (simp add: evaluateNode_def)
next
  case NodeTerminal
  with v x show ?thesis
    by (auto simp: validateNode_def validateByType_def validateTerminalConfig_def evaluateNode_def Let_def
        split: option.splits)
next
  case (NodeTypeOther u) with t show ?thesis by simp
qed (use x advance_error [of run "n_ID n" _ x] in
    \<open>auto simp: evaluateNode_def Let_def branch_error_def split: if_splits dest: advanceAlong_InlD\<close>)

section \<open>Compensation\<close>

definition compensable :: "Definition \<Rightarrow> Run \<Rightarrow> NodeRunState \<Rightarrow> Node \<Rightarrow> instant \<Rightarrow> bool" where
  "compensable d run state node t \<longleftrightarrow>
     n_Type node = NodeAction \<and> n_CompensationNodeID node \<noteq> '''' \<and> ns_Status state = NodeSucceeded \<and>
     ns_CompletedAt state = Some t \<and>
     node_status run (n_CompensationNodeID node) \<notin> {NodeSucceeded, NodeCompensated}"

lemma candidates_iff:
  "(node, t) \<in> set (compensation_candidates d run states) \<longleftrightarrow>
     (\<exists>k state. (k, state) \<in> set states \<and> index_node d k = Some node \<and> compensable d run state node t)"
  by (induction d run states rule: compensation_candidates.induct)
    (auto simp: compensable_def split: option.splits)

lemma candidates_cong:
  "node_status run = node_status run' \<Longrightarrow>
     compensation_candidates d run states = compensation_candidates d run' states"
  by (induction d run states rule: compensation_candidates.induct) (auto split: option.splits)

lemma candidates_mset:
  "mset (compensation_candidates d run states) =
     (\<Sum>s \<in># mset states. mset (compensation_candidates d run [s]))"
proof (induction states)
  case (Cons s states)
  obtain k st where s: "s = (k, st)" by fastforce
  have "compensation_candidates d run (s # states) =
      compensation_candidates d run [s] @ compensation_candidates d run states"
    unfolding s by (cases "index_node d k"; cases "ns_CompletedAt st") simp_all
  with Cons show ?case by simp
qed simp

lemma candidates_inj:
  "inj_on (\<lambda>(node, t). (- t, n_ID node)) (set (compensation_candidates d run states))"
proof (rule inj_onI, clarify)
  fix n t m u
  assume "(n, t) \<in> set (compensation_candidates d run states)"
    and "(m, u) \<in> set (compensation_candidates d run states)"
    and eq: "- t = - u" "n_ID n = n_ID m"
  then obtain k l where "index_node d k = Some n" "index_node d l = Some m"
    by (auto simp: candidates_iff)
  with eq index_node_SomeD [of d k n] index_node_SomeD [of d l m] show "n = m \<and> t = u" by simp
qed

lemma set_open_arcs:
  "set (open_arcs (arcs es) P) = {(e_From e, e_To e) | e. e \<in> set es \<and> \<not> P (e_From e)}"
  by (auto simp: open_arcs_def arcs_def)

lemma reach_or_eq: "(x, y) \<in> R\<^sup>* \<longleftrightarrow> x = y \<or> (x, y) \<in> R\<^sup>+"
  by (auto simp: rtrancl_eq_or_trancl)

section \<open>Plans\<close>

lemma index_node_iff:
  assumes "distinct (map n_ID (d_Nodes d))"
  shows "index_node d k = Some n \<longleftrightarrow> n \<in> set (d_Nodes d) \<and> n_ID n = k"
proof
  assume n: "n \<in> set (d_Nodes d) \<and> n_ID n = k"
  then obtain m where m: "index_node d k = Some m"
    by (cases "index_node d k") (auto simp: index_node_def find_None_iff)
  from index_node_SomeD [OF this] n assms have "m = n" by (auto simp: distinct_map dest: inj_onD)
  with m show "index_node d k = Some n" by simp
qed (rule index_node_SomeD)

lemma compensation_steps_eq:
  "compensation_steps candidates =
     (let cs = sort_key (\<lambda>(node, t). (- t, n_ID node)) candidates
      in map (\<lambda>i. \<lparr>cs_Order = i + 1, cs_CompletedNodeID = n_ID (fst (cs ! i)),
                    cs_CompensationNodeID = n_CompensationNodeID (fst (cs ! i))\<rparr>) [0..<length cs])"
  unfolding compensation_steps_def Let_def
  by (rule nth_equalityI) (simp_all add: nth_enumerate_eq)

lemma valid_compensator:
  assumes "ValidateDefinition d = []" "n \<in> set (d_Nodes d)" "n_CompensationNodeID n \<noteq> ''''"
  shows "\<exists>c \<in> set (d_Nodes d). n_ID c = n_CompensationNodeID n \<and> n_Type c = NodeCompensation"
proof -
  from valid_graph(1) [OF assms(1,2)] have r: "validateCompensationRef n (d_Nodes d) = []"
    by (simp add: validateNode_def)
  with assms(3) obtain c where "node_at (d_Nodes d) (n_CompensationNodeID n) = Some c" "n_Type c = NodeCompensation"
    by (auto simp: validateCompensationRef_def split: if_splits option.splits)
  with node_at_SomeD [of "d_Nodes d" "n_CompensationNodeID n" c] show ?thesis by blast
qed

lemma compensation_steps_perm:
  assumes "mset states = mset states'" "distinct (map fst states)"
  shows "compensation_steps (compensation_candidates d run states) =
    compensation_steps (compensation_candidates d run states')"
proof -
  let ?k = "\<lambda>(node, t). (- t, n_ID node)"
  let ?xs = "compensation_candidates d run states" and ?ys = "compensation_candidates d run states'"
  have "mset ?xs = mset (sort_key ?k ?ys)"
    unfolding mset_sort candidates_mset [of d run states] candidates_mset [of d run states'] assms(1) ..
  then have "sort_key ?k ?xs = sort_key ?k ?ys"
    by (rule sort_key_inj_key_eq) (simp_all add: candidates_inj)
  then show ?thesis unfolding compensation_steps_def by simp
qed

lemma node_status_perm:
  assumes "mset (run_NodeStates run) = mset states" "distinct (map fst (run_NodeStates run))"
  shows "node_status (run\<lparr>run_NodeStates := states\<rparr>) = node_status run"
proof -
  have "mset (map fst states) = mset (map fst (run_NodeStates run))" using assms(1) by simp
  then have "distinct (map fst states)" using assms(2) mset_eq_imp_distinct_iff by blast
  from map_of_inject_set [OF assms(2) this] mset_eq_setD [OF assms(1)]
  have "map_of (run_NodeStates run) = map_of states" by blast
  then show ?thesis by (simp add: node_status_def fun_eq_iff)
qed

end
