(* ===== verification/WorkflowTheorems.thy ===== *)
theory WorkflowTheorems
  imports WorkflowFacts
begin

text \<open>
  What validation guarantees about a workflow graph, what the evaluator and the compensation
  planner then do, and a witness for each theorem that has hypotheses.
\<close>

section \<open>A valid definition and a run of it\<close>

definition demo_node :: "string \<Rightarrow> NodeType \<Rightarrow> Node" where
  "demo_node k t = \<lparr>n_ID = k, n_Type = t, n_Name = '''', n_Condition = None, n_Timer = None,
     n_Join = None, n_Terminal = None, n_CompensationNodeID = ''''\<rparr>"

definition demo_edge :: "string \<Rightarrow> string \<Rightarrow> string \<Rightarrow> string \<Rightarrow> 32 word \<Rightarrow> Edge" where
  "demo_edge k a b outcome m = \<lparr>e_ID = k, e_From = a, e_To = b, e_Outcome = outcome, e_Order = 0,
     e_MaxTraversals = m\<rparr>"

text \<open>An action with a compensator, and a condition that ends the run or repeats at most twice.\<close>

definition demo_def :: Definition where
  "demo_def = \<lparr>d_SchemaVersion = 1, d_ID = ''wf'', d_Version = 1, d_Name = ''demo'',
     d_EntryNodeID = ''a'', d_MaxRunSteps = 9,
     d_Nodes = [(demo_node ''a'' NodeAction)\<lparr>n_CompensationNodeID := ''u''\<rparr>,
                (demo_node ''c'' NodeCondition)\<lparr>n_Condition :=
                   Some \<lparr>cc_Field = ''ok'', cc_Operator = ConditionExists, cc_Value = ''''\<rparr>\<rparr>,
                (demo_node ''t'' NodeTerminal)\<lparr>n_Terminal := Some TerminalCompleted\<rparr>,
                demo_node ''u'' NodeCompensation],
     d_Edges = [demo_edge ''e1'' ''a'' ''c'' '''' 0, demo_edge ''e2'' ''c'' ''t'' ''true'' 0,
                demo_edge ''e3'' ''c'' ''a'' ''false'' 2],
     d_CreatedAt = 1\<rparr>"

definition demo_run :: Run where
  "demo_run = \<lparr>run_SchemaVersion = 1, run_ID = ''r'', run_DefinitionID = ''wf'',
     run_DefinitionVersion = 1, run_Revision = 1, run_Status = RunRunning,
     run_ActiveNodeIDs = [''c''],
     run_NodeStates = [(''a'', \<lparr>ns_Status = NodeSucceeded, ns_Attempts = 1, ns_EnteredAt = 5,
        ns_CompletedAt = Some 7, ns_Outcome = ''''\<rparr>)],
     run_EdgeTraversals = Map.empty, run_Steps = 1, run_StartedAt = 1, run_UpdatedAt = 7,
     run_EndedAt = None\<rparr>"

definition demo_eval :: Evaluation where
  "demo_eval = \<lparr>ev_NodeID = ''c'', ev_Outcome = '''', ev_Approval = ApprovalPending, ev_Signal = '''',
     ev_Variables = Map.empty, ev_Now = 9\<rparr>"

lemma demo_valid: "ValidateDefinition demo_def = []"
  by code_simp

lemma demo_next:
  "EvaluateNext demo_def demo_run demo_eval =
     Inr \<lparr>dec_Disposition = DispositionAdvance, dec_FromNodeID = ''c'',
          dec_Next = [\<lparr>nn_NodeID = ''a'', nn_EdgeID = ''e3''\<rparr>], dec_ResultingRun = RunRunning,
          dec_TerminalState = None, dec_Reason = ''eligible transition selected''\<rparr>"
  by code_simp

section \<open>Validation\<close>

text \<open>
  C27. Reachability is decided exactly: no problem is reported if and only if every node is
  reached from the entry along edges and compensation references, some node is terminal, and
  every node but the compensators reaches a terminal one along the edges.
\<close>

theorem validateReachability_exact:
  "validateReachability entry nodes edges = [] \<longleftrightarrow>
     n_ID ` set nodes \<subseteq> {k. (entry, k) \<in> (set (reach_arcs nodes edges))\<^sup>*} \<and>
     terminal_ids nodes \<noteq> [] \<and>
     n_ID ` {n \<in> set nodes. n_Type n \<noteq> NodeCompensation} \<subseteq>
       {k. (\<exists>t \<in> set (terminal_ids nodes). (k, t) \<in> (set (arcs edges))\<^sup>*)}"
  unfolding validateReachability_def Let_def dfs_reach
  by (auto simp: canTerminate_iff filter_empty_conv)

text \<open>
  Cycles are decided exactly: when every edge leaves a node of the definition, no problem is
  reported if and only if the edges without a traversal bound form no cycle.
\<close>

theorem validateCycleBounds_exact:
  assumes "e_From ` set edges \<subseteq> n_ID ` set nodes"
  shows "validateCycleBounds nodes edges = [] \<longleftrightarrow>
    acyclic {(e_From e, e_To e) | e. e \<in> set edges \<and> e_MaxTraversals e = 0}"
proof -
  have "free_arcs e_From e_To bounded_edge edges = {(e_From e, e_To e) | e. e \<in> set edges \<and> e_MaxTraversals e = 0}"
    by (auto simp: free_arcs_def bounded_edge_def word_gt_0)
  with cycle_bounds_iff [OF assms] show ?thesis by simp
qed

theorem validateCycleBounds_exact_witness:
  "acyclic {(e_From e, e_To e) | e. e \<in> set (d_Edges demo_def) \<and> e_MaxTraversals e = 0}"
proof -
  have "e_From ` set (d_Edges demo_def) \<subseteq> n_ID ` set (d_Nodes demo_def)"
    by (simp add: demo_def_def demo_node_def demo_edge_def)
  from validateCycleBounds_exact [OF this] valid_graph(3) [OF demo_valid] show ?thesis by simp
qed

text \<open>
  The branch search of the join validation is exact: it finds the target if and only if a
  path leads there on which no edge leaves the stop node.
\<close>

theorem canReachBefore_exact:
  "canReachBefore start target stop edges \<longleftrightarrow>
     (start, target) \<in> {(e_From e, e_To e) | e. e \<in> set edges \<and> (stop = '''' \<or> e_From e \<noteq> stop)}\<^sup>*"
proof -
  have p: "\<not> (stop \<noteq> '''' \<and> k = stop) \<longleftrightarrow> stop = '''' \<or> k \<noteq> stop" for k by blast
  let ?R = "{(e_From e, e_To e) | e. e \<in> set edges \<and> (stop = '''' \<or> e_From e \<noteq> stop)}"
  have "canReachBefore start target stop edges \<longleftrightarrow> start = target \<or> (start, target) \<in> ?R\<^sup>+"
    unfolding canReachBefore_def find_target_iff set_open_arcs p ..
  also have "\<dots> \<longleftrightarrow> (start, target) \<in> ?R\<^sup>*" by (simp only: reach_or_eq)
  finally show ?thesis .
qed

theorem canReachBefore_exact_witness:
  "(''a'', ''t'') \<in> {(e_From e, e_To e) | e. e \<in> set (d_Edges demo_def) \<and> (''u'' = '''' \<or> e_From e \<noteq> ''u'')}\<^sup>*"
proof -
  have "canReachBefore ''a'' ''t'' ''u'' (d_Edges demo_def)" by code_simp
  then show ?thesis unfolding canReachBefore_exact .
qed

text \<open>
  C28. In a valid definition every walk that takes no bounded edge more often than its bound is
  finite: it takes at most one more than the sum of the bounds, times the number of nodes, steps.
\<close>

theorem valid_walks_bounded:
  assumes "ValidateDefinition d = []" and "is_walk e_From e_To path" and "set path \<subseteq> set (d_Edges d)"
    and "respects_bounds (unat \<circ> e_MaxTraversals) path"
  shows "length path \<le> (sum_list (map (unat \<circ> e_MaxTraversals) (d_Edges d)) + 1) * length (d_Nodes d)"
proof -
  have b: "unat \<circ> e_MaxTraversals = edge_bound" by (auto simp: edge_bound_def)
  from workflow.walk_bound [OF assms(1-3)] assms(4) show ?thesis unfolding b by (simp add: node_names_def)
qed

theorem valid_walks_bounded_witness:
  "length [demo_edge ''e1'' ''a'' ''c'' '''' 0, demo_edge ''e3'' ''c'' ''a'' ''false'' 2] \<le>
     (sum_list (map (unat \<circ> e_MaxTraversals) (d_Edges demo_def)) + 1) * length (d_Nodes demo_def)"
  by (rule valid_walks_bounded [OF demo_valid])
    (simp_all add: demo_edge_def demo_def_def respects_bounds_def)

section \<open>Evaluation\<close>

text \<open>
  C29. A decision is made only for a node that is active, in a run that has not ended and has
  steps left, of a valid definition; every next node it names is the existing target of an edge
  that leaves the evaluated node and has traversals left.
\<close>

theorem EvaluateNext_safe:
  assumes "EvaluateNext d run ev = Inr dec"
  shows "ValidateDefinition d = [] \<and> \<not> RunStatus_Terminal (run_Status run) \<and> run_Steps run < d_MaxRunSteps d \<and>
    ev_NodeID ev \<in> set (run_ActiveNodeIDs run) \<and>
    (\<forall>nn \<in> set (dec_Next dec). \<exists>e \<in> set (d_Edges d). e_From e = ev_NodeID ev \<and>
       nn = \<lparr>nn_NodeID = e_To e, nn_EdgeID = e_ID e\<rparr> \<and> e_To e \<in> n_ID ` set (d_Nodes d) \<and>
       (e_MaxTraversals e = 0 \<or> traversals run (e_ID e) < e_MaxTraversals e))"
proof -
  note p = EvaluateNext_InrD [OF assms]
  from p(5) obtain n where n: "n_ID n = ev_NodeID ev"
    "evaluateNode run ev n (outgoing (d_Edges d) (n_ID n)) (incoming (d_Edges d) (n_ID n)) = Inr dec"
    using index_node_SomeD by metis
  have "\<exists>e \<in> set (d_Edges d). e_From e = ev_NodeID ev \<and> nn = next_of e \<and>
      e_To e \<in> n_ID ` set (d_Nodes d) \<and> under_limit run e" if nn: "nn \<in> set (dec_Next dec)" for nn
    using evaluateNode_cases [OF n(2)]
  proof
    assume "\<exists>es. set es \<subseteq> set (outgoing (d_Edges d) (n_ID n)) \<and> advanceAlong run (n_ID n) es = Inr dec"
    then obtain es where es: "set es \<subseteq> set (outgoing (d_Edges d) (n_ID n))"
      "dec_Next dec = map next_of (sortEdges es)" "\<forall>e \<in> set es. under_limit run e"
      using advanceAlong_InrD by metis
    with nn obtain e where e: "e \<in> set es" "nn = next_of e" by auto
    with es n(1) valid_shape(5) [OF p(1)] show ?thesis
      by (intro bexI [of _ e]) (auto simp: outgoing_def)
  qed (use nn in simp)
  with p(1-4) show ?thesis by (simp add: next_of_def under_limit_def)
qed

theorem EvaluateNext_safe_witness:
  "\<exists>e \<in> set (d_Edges demo_def). e_From e = ''c'' \<and> e_To e = ''a'' \<and> traversals demo_run (e_ID e) < 2"
  using EvaluateNext_safe [OF demo_next] by (auto simp: demo_eval_def demo_def_def demo_edge_def)

text \<open>
  Evaluating an active node of a valid definition never dereferences a missing
  configuration nor meets an unknown node type, and fails for want of a matching edge only at
  actions, verifications, waits and compensators: conditions, approvals, timers, splits, joins
  and terminals always have their edge.
\<close>

theorem EvaluateNext_errors:
  assumes "ValidateDefinition d = []" and "index_node d (ev_NodeID ev) = Some n"
    and "EvaluateNext d run ev = Inl x"
  shows "x \<noteq> NilDereference \<and> x \<noteq> EvaluationTypeUnsupported (n_Type n) \<and>
    (x \<noteq> NoMatchingEdge \<or> n_Type n \<in> {NodeAction, NodeVerification, NodeWait, NodeCompensation})"
proof -
  from index_node_SomeD [OF assms(2)] have n: "n \<in> set (d_Nodes d)" "n_ID n = ev_NodeID ev" by auto
  have t: "validNodeType (n_Type n)" using valid_shape(3) [OF assms(1)] n(1) by blast
  show ?thesis
  proof (cases "evaluateNode run ev n (outgoing (d_Edges d) (n_ID n)) (incoming (d_Edges d) (n_ID n)) = Inl x")
    case True
    from evaluateNode_errors [OF valid_graph(1) [OF assms(1) n(1)] t True] show ?thesis
      by (auto simp: branch_error_def)
  next
    case False
    with assms show ?thesis unfolding EvaluateNext_def by (auto split: if_splits)
  qed
qed

theorem EvaluateNext_errors_witness:
  "EvaluateNext demo_def demo_run (demo_eval\<lparr>ev_NodeID := ''a''\<rparr>) = Inl (NodeNotActive ''a'') \<and>
     NodeNotActive ''a'' \<noteq> NilDereference"
proof -
  let ?n = "(demo_node ''a'' NodeAction)\<lparr>n_CompensationNodeID := ''u''\<rparr>"
  have i: "index_node demo_def (ev_NodeID (demo_eval\<lparr>ev_NodeID := ''a''\<rparr>)) = Some ?n" by code_simp
  have e: "EvaluateNext demo_def demo_run (demo_eval\<lparr>ev_NodeID := ''a''\<rparr>) = Inl (NodeNotActive ''a'')"
    by code_simp
  from EvaluateNext_errors [OF demo_valid i e] e show ?thesis by simp
qed

text \<open>
  Outcomes are trimmed when validation looks for duplicates and when a signal is matched,
  but not when an edge's outcome is: a wait node whose only edge has the outcome
  \<open>"go "\<close> passes validation, and no signal ever takes that edge.
\<close>

definition padded_def :: Definition where
  "padded_def = demo_def\<lparr>d_EntryNodeID := ''w'',
     d_Nodes := [demo_node ''w'' NodeWait,
                 (demo_node ''t'' NodeTerminal)\<lparr>n_Terminal := Some TerminalCompleted\<rparr>],
     d_Edges := [demo_edge ''e1'' ''w'' ''t'' ''go '' 0]\<rparr>"

definition padded_run :: Run where
  "padded_run = demo_run\<lparr>run_ActiveNodeIDs := [''w'']\<rparr>"

lemma padded_checks:
  "ValidateDefinition padded_def = []" "index_node padded_def ''w'' = Some (demo_node ''w'' NodeWait)"
  "d_ID padded_def = ''wf''" "d_Version padded_def = 1" "d_MaxRunSteps padded_def = 9"
  "outgoing (d_Edges padded_def) ''w'' = [demo_edge ''e1'' ''w'' ''t'' ''go '' 0]"
  by code_simp+

lemma padded_selects_nothing: "TrimSpace signal \<noteq> '''' \<Longrightarrow>
    selectOutcome [demo_edge ''e1'' ''w'' ''t'' ''go '' 0] (TrimSpace signal) = []"
proof -
  have "TrimSpace ''go '' \<noteq> ''go ''" by code_simp
  then have "TrimSpace signal \<noteq> ''go ''" by (metis TrimSpace_idem)
  moreover assume "TrimSpace signal \<noteq> ''''"
  ultimately show ?thesis
    by (auto simp: selectOutcome_def select_default_def demo_edge_def OutcomeDefault_def Let_def)
qed

theorem padded_outcome_stuck:
  "ValidateDefinition padded_def = [] \<and>
   EvaluateNext padded_def padded_run (demo_eval\<lparr>ev_NodeID := ''w'', ev_Signal := signal\<rparr>) \<in>
     {Inr (waiting ''w'' ''wait signal has not arrived''), Inl NoMatchingEdge}"
proof -
  let ?ev = "demo_eval\<lparr>ev_NodeID := ''w'', ev_Signal := signal\<rparr>"
  let ?n = "demo_node ''w'' NodeWait"
  have n: "n_ID ?n = ''w''" "n_Type ?n = NodeWait" by (simp_all add: demo_node_def)
  have "EvaluateNext padded_def padded_run ?ev =
      evaluateNode padded_run ?ev ?n (outgoing (d_Edges padded_def) ''w'') (incoming (d_Edges padded_def) ''w'')"
    using padded_checks(2-5)
    by (simp add: EvaluateNext_def padded_checks(1) n padded_run_def demo_run_def
        CurrentRunSchemaVersion_def word_le_nat_alt)
  also have "\<dots> \<in> {Inr (waiting ''w'' ''wait signal has not arrived''), Inl NoMatchingEdge}"
    unfolding padded_checks(6)
    by (auto simp: evaluateNode_def n Let_def padded_selects_nothing advanceAlong_def)
  finally show ?thesis using padded_checks(1) by simp
qed

section \<open>Compensation\<close>

text \<open>
  C30. The compensation plan of a valid definition lists, numbered from one and newest
  completion first (ties by identifier), exactly the succeeded, completed actions with a
  compensator that has not run; every compensator is a compensation node of the definition.
\<close>

theorem PlanCompensation_exact:
  assumes "PlanCompensation d run target reason = Inr plan"
  shows "\<exists>cs. cp_CompensationSteps plan =
      map (\<lambda>i. \<lparr>cs_Order = i + 1, cs_CompletedNodeID = n_ID (fst (cs ! i)),
                cs_CompensationNodeID = n_CompensationNodeID (fst (cs ! i))\<rparr>) [0..<length cs] \<and>
    sorted (map (\<lambda>(n, t). (- t, n_ID n)) cs) \<and>
    set cs = {(n, t). n \<in> set (d_Nodes d) \<and>
                (\<exists>state. (n_ID n, state) \<in> set (run_NodeStates run) \<and> compensable d run state n t)} \<and>
    (\<lambda>(n, t). n_CompensationNodeID n) ` set cs \<subseteq> n_ID ` {c \<in> set (d_Nodes d). n_Type c = NodeCompensation}"
proof -
  let ?cands = "compensation_candidates d run (run_NodeStates run)"
  let ?cs = "sort_key (\<lambda>(n, t). (- t, n_ID n)) ?cands"
  from assms have v: "ValidateDefinition d = []" and steps: "cp_CompensationSteps plan = compensation_steps ?cands"
    by (auto simp: PlanCompensation_def Let_def split: if_splits)
  have set: "set ?cs = {(n, t). n \<in> set (d_Nodes d) \<and>
      (\<exists>state. (n_ID n, state) \<in> set (run_NodeStates run) \<and> compensable d run state n t)}"
    unfolding set_sort by (auto simp: candidates_iff index_node_iff [OF valid_shape(1) [OF v]])
  moreover have "(\<lambda>(n, t). n_CompensationNodeID n) ` set ?cs \<subseteq> n_ID ` {c \<in> set (d_Nodes d). n_Type c = NodeCompensation}"
    unfolding set
  proof clarify
    fix n t state assume "n \<in> set (d_Nodes d)" "compensable d run state n t"
    with valid_compensator [OF v, of n]
    show "n_CompensationNodeID n \<in> n_ID ` {c \<in> set (d_Nodes d). n_Type c = NodeCompensation}"
      by (auto simp: compensable_def image_iff intro: sym)
  qed
  ultimately show ?thesis
    unfolding steps compensation_steps_eq Let_def by (intro exI [of _ ?cs]) simp
qed

lemma demo_plan:
  "PlanCompensation demo_def demo_run RunFailed ''x'' =
     Inr \<lparr>cp_RunID = ''r'', cp_CancelActiveNodeIDs = [''c''],
          cp_CompensationSteps = [\<lparr>cs_Order = 1, cs_CompletedNodeID = ''a'', cs_CompensationNodeID = ''u''\<rparr>],
          cp_RequiresCompensation = True, cp_TargetStatus = RunFailed, cp_Reason = ''x''\<rparr>"
  by code_simp

theorem PlanCompensation_exact_witness:
  "\<exists>cs :: (Node \<times> instant) list. length cs = 1 \<and> sorted (map (\<lambda>(n, t). (- t, n_ID n)) cs)"
proof -
  from PlanCompensation_exact [OF demo_plan] obtain cs :: "(Node \<times> instant) list" where
    "[\<lparr>cs_Order = 1, cs_CompletedNodeID = ''a'', cs_CompensationNodeID = ''u''\<rparr>] =
      map (\<lambda>i. \<lparr>cs_Order = i + 1, cs_CompletedNodeID = n_ID (fst (cs ! i)),
                cs_CompensationNodeID = n_CompensationNodeID (fst (cs ! i))\<rparr>) [0..<length cs]"
    and sorted: "sorted (map (\<lambda>(n, t). (- t, n_ID n)) cs)"
    unfolding CancellationPlan.simps by (elim exE conjE) (rule that; assumption)
  from arg_cong [OF this(1), of length] have "length cs = 1" by simp
  with sorted show ?thesis by blast
qed

text \<open>
  The plan does not depend on the order in which the run's map of node states is ranged
  over.
\<close>

theorem PlanCompensation_deterministic:
  assumes "mset (run_NodeStates run) = mset states" and "distinct (map fst (run_NodeStates run))"
  shows "PlanCompensation d (run\<lparr>run_NodeStates := states\<rparr>) target reason = PlanCompensation d run target reason"
proof -
  let ?run = "run\<lparr>run_NodeStates := states\<rparr>"
  have "compensation_candidates d ?run states = compensation_candidates d run states"
    by (rule candidates_cong) (rule node_status_perm [OF assms])
  with compensation_steps_perm [OF assms, of d run]
  have "compensation_steps (compensation_candidates d ?run states) =
      compensation_steps (compensation_candidates d run (run_NodeStates run))" by simp
  then show ?thesis by (simp add: PlanCompensation_def Let_def)
qed

theorem PlanCompensation_deterministic_witness:
  "PlanCompensation demo_def (demo_run\<lparr>run_NodeStates := run_NodeStates demo_run\<rparr>) RunFailed ''x'' =
     PlanCompensation demo_def demo_run RunFailed ''x''"
  by (rule PlanCompensation_deterministic) (simp_all add: demo_run_def)

end
