(* ===== verification/PlanGraph.thy ===== *)
theory PlanGraph
  imports GraphSearch
begin

text \<open>
  Plan graphs (\<open>internal/plangraph\<close>): the types (\<open>types.go\<close>), normalisation and validation
  (\<open>validation.go\<close>) and the envelopes a revision's digests are computed from (\<open>digest.go\<close>).
  Rejections are values
  of \<open>PlanProblem\<close>. JSON and SHA-256 are the parameter of the definitions that use them: a
  function from the envelope to its hex digest, or to \<open>None\<close> where it cannot be encoded. JSON
  tells a nil slice (\<open>null\<close>) from an empty one (\<open>[]\<close>), and \<open>cloneEdges\<close> turns the second into the
  first, so a slice of edges is an optional list; a plan without nodes is never stored, so the
  nodes are a list.
\<close>

section \<open>Types\<close>

datatype PlanStatus = StatusDraft | StatusAccepted | StatusOther string

datatype PlanNodeStatus =
    NodePlanned | NodeReady | NodeBlocked | NodeWaiting | NodeNeedsApproval | NodeCompleted
  | NodeFailed | NodeStatusOther string

datatype Risk = RiskLow | RiskMedium | RiskHigh | RiskOther string

datatype ApprovalState =
    ApprovalNotRequired | ApprovalRequired | ApprovalGranted | ApprovalRejected
  | ApprovalStateOther string

record Bindings =
  b_PursuitID :: string
  b_WorkflowID :: string
  b_TaskID :: string
  b_AgentID :: string

record PlanNode =
  pn_ID :: string
  pn_Type :: string
  pn_Title :: string
  pn_Owner :: string
  pn_Status :: PlanNodeStatus
  pn_EstimatedMinutes :: int
  pn_EstimatedCostEUR :: float64
  pn_EarliestStart :: "instant option"
  pn_Deadline :: "instant option"
  pn_Risk :: Risk
  pn_ApprovalState :: ApprovalState
  pn_FrameworkDigest :: string
  pn_EvidenceDigest :: string
  pn_Bindings :: Bindings

record PlanEdge =
  pe_ID :: string
  pe_From :: string
  pe_To :: string
  pe_Type :: string
  pe_LagMinutes :: int

record RepairProvenance =
  rp_Reason :: string
  rp_Trigger :: string
  rp_PreviousRevision :: "64 word"
  rp_PreviousDigest :: string
  rp_CreatedBy :: string
  rp_CreatedAt :: instant

record Plan =
  p_ID :: uuid
  p_OwnerIdentity :: string
  p_Title :: string
  p_Status :: PlanStatus
  p_Revision :: "64 word"
  p_Digest :: string
  p_ParentRevision :: "64 word"
  p_ParentDigest :: string
  p_IdempotencyKey :: string
  p_RequestDigest :: string
  p_Nodes :: "PlanNode list"
  p_Edges :: "PlanEdge list option"
  p_Repair :: "RepairProvenance option"
  p_CreatedBy :: string
  p_CreatedAt :: instant
  p_AcceptedAt :: "instant option"
  p_CanExecute :: bool

text \<open>The elements of a slice, and the copies of \<open>cloneEdges\<close> and \<open>clonePlan\<close>.\<close>

definition slice :: "'a list option \<Rightarrow> 'a list" where
  "slice s = (case s of None \<Rightarrow> [] | Some xs \<Rightarrow> xs)"

definition cloneEdges :: "PlanEdge list option \<Rightarrow> PlanEdge list option" where
  "cloneEdges edges = (if slice edges = [] then None else edges)"

definition clonePlan :: "Plan \<Rightarrow> Plan" where
  "clonePlan plan = plan\<lparr>p_Edges := cloneEdges (p_Edges plan)\<rparr>"

text \<open>The fields a composite literal \<open>Plan{...}\<close> leaves out have their zero values.\<close>

definition zero_plan :: Plan where
  "zero_plan = \<lparr>p_ID = 0, p_OwnerIdentity = '''', p_Title = '''', p_Status = StatusOther '''',
     p_Revision = 0, p_Digest = '''', p_ParentRevision = 0, p_ParentDigest = '''',
     p_IdempotencyKey = '''', p_RequestDigest = '''', p_Nodes = [], p_Edges = None, p_Repair = None,
     p_CreatedBy = '''', p_CreatedAt = 0, p_AcceptedAt = None, p_CanExecute = False\<rparr>"

section \<open>Normalisation\<close>

definition canonicalTime :: "instant \<Rightarrow> instant" where
  "canonicalTime value = truncate_micro value"

definition normalize_node :: "PlanNode \<Rightarrow> PlanNode" where
  "normalize_node node =
     node\<lparr>pn_ID := TrimSpace (pn_ID node),
          pn_Type := TrimSpace (pn_Type node),
          pn_Title := TrimSpace (pn_Title node),
          pn_Owner := TrimSpace (pn_Owner node),
          pn_FrameworkDigest := ToLower (TrimSpace (pn_FrameworkDigest node)),
          pn_EvidenceDigest := ToLower (TrimSpace (pn_EvidenceDigest node)),
          pn_Bindings := \<lparr>b_PursuitID = TrimSpace (b_PursuitID (pn_Bindings node)),
                          b_WorkflowID = TrimSpace (b_WorkflowID (pn_Bindings node)),
                          b_TaskID = TrimSpace (b_TaskID (pn_Bindings node)),
                          b_AgentID = TrimSpace (b_AgentID (pn_Bindings node))\<rparr>,
          pn_EarliestStart := map_option canonicalTime (pn_EarliestStart node),
          pn_Deadline := map_option canonicalTime (pn_Deadline node)\<rparr>"

definition normalize_edge :: "PlanEdge \<Rightarrow> PlanEdge" where
  "normalize_edge edge =
     (let t = TrimSpace (pe_Type edge) in
      edge\<lparr>pe_ID := TrimSpace (pe_ID edge),
           pe_From := TrimSpace (pe_From edge),
           pe_To := TrimSpace (pe_To edge),
           pe_Type := (if t = '''' then ''finish_to_start'' else t)\<rparr>)"

definition normalize_repair :: "RepairProvenance \<Rightarrow> RepairProvenance" where
  "normalize_repair repair =
     repair\<lparr>rp_Reason := TrimSpace (rp_Reason repair),
            rp_Trigger := TrimSpace (rp_Trigger repair),
            rp_CreatedBy := TrimSpace (rp_CreatedBy repair),
            rp_PreviousDigest := ToLower (TrimSpace (rp_PreviousDigest repair)),
            rp_CreatedAt := canonicalTime (rp_CreatedAt repair)\<rparr>"

definition normalizePlan :: "Plan \<Rightarrow> Plan" where
  "normalizePlan plan =
     plan\<lparr>p_OwnerIdentity := TrimSpace (p_OwnerIdentity plan),
          p_Title := TrimSpace (p_Title plan),
          p_CreatedBy := TrimSpace (p_CreatedBy plan),
          p_IdempotencyKey := TrimSpace (p_IdempotencyKey plan),
          p_RequestDigest := ToLower (TrimSpace (p_RequestDigest plan)),
          p_CreatedAt := canonicalTime (p_CreatedAt plan),
          p_AcceptedAt := map_option canonicalTime (p_AcceptedAt plan),
          p_Repair := map_option normalize_repair (p_Repair plan),
          p_Nodes := sort_key pn_ID (map normalize_node (p_Nodes plan)),
          p_Edges := map_option (\<lambda>edges. sort_key pe_ID (map normalize_edge edges)) (p_Edges plan),
          p_CanExecute := False\<rparr>"

section \<open>Validation\<close>

datatype PlanProblem =
    PlanIDRequired | OwnerRequired | TitleInvalid | StatusInvalid | RevisionZero
  | FirstRevisionHasParent | ParentNotBound | CreatorRequired | AcceptedAtRequired
  | DraftHasAcceptedAt | GrantsExecution | RequestDigestRequired | NodeCount | EdgeCount
  | NodeInvalid nat PlanProblem | DuplicateNode string | EdgeFieldsRequired nat
  | EdgeFieldsTooLong nat | EdgeSelf string | EdgeUnknownFrom string | EdgeUnknownTo string
  | EdgeLagRange string | DuplicateEdge string | DependencyCycle | RepairIncomplete
  | RepairNotBound | NodeFieldsRequired | NodeFieldsTooLong | NodeStatusInvalid
  | NodeRiskInvalid | NodeApprovalInvalid | NodeMinutesRange | NodeCostRange
  | NodeDeadlineOrder | NodeDigestInvalid | DigestInvalid | DigestMismatch | KeyInvalid
  | AcceptedByRequired | ListOwnerRequired | BindingExecutes

definition maxNodes :: nat where "maxNodes = 500"
definition maxEdges :: nat where "maxEdges = 2000"

definition hex_digit :: "char \<Rightarrow> bool" where
  "hex_digit c \<longleftrightarrow> (let n = of_char c :: nat in
     48 \<le> n \<and> n \<le> 57 \<or> 97 \<le> n \<and> n \<le> 102 \<or> 65 \<le> n \<and> n \<le> 70)"

text \<open>\<open>hex.DecodeString\<close> accepts an even number of hex digits of either case.\<close>

definition validDigest :: "string \<Rightarrow> bool" where
  "validDigest value \<longleftrightarrow>
     \<not> (length value \<noteq> 64 \<or> ToLower value \<noteq> value) \<and> list_all hex_digit value \<and> even (length value)"

definition ten_years :: int where
  "ten_years = 10 * 365 * 24 * 60"

definition cost_out_of_range :: "float64 \<Rightarrow> bool" where
  "cost_out_of_range c \<longleftrightarrow>
     (case c of NaN \<Rightarrow> True | Inf positive \<Rightarrow> True | Fin q \<Rightarrow> q < 0 \<or> 1000000000 < q)"

definition validatePlanNode :: "PlanNode \<Rightarrow> PlanProblem option" where
  "validatePlanNode node = first_error [
     (pn_ID node = '''' \<or> pn_Type node = '''' \<or> pn_Title node = '''' \<or> pn_Owner node = '''', NodeFieldsRequired),
     (160 < length (pn_ID node) \<or> 80 < length (pn_Type node) \<or> 300 < length (pn_Title node) \<or>
        255 < length (pn_Owner node), NodeFieldsTooLong),
     (case pn_Status node of NodeStatusOther t \<Rightarrow> True | _ \<Rightarrow> False, NodeStatusInvalid),
     (case pn_Risk node of RiskOther t \<Rightarrow> True | _ \<Rightarrow> False, NodeRiskInvalid),
     (case pn_ApprovalState node of ApprovalStateOther t \<Rightarrow> True | _ \<Rightarrow> False, NodeApprovalInvalid),
     (pn_EstimatedMinutes node < 0 \<or> ten_years < pn_EstimatedMinutes node, NodeMinutesRange),
     (cost_out_of_range (pn_EstimatedCostEUR node), NodeCostRange),
     (case (pn_EarliestStart node, pn_Deadline node) of
        (Some s, Some d) \<Rightarrow> d < s | _ \<Rightarrow> False, NodeDeadlineOrder),
     (pn_FrameworkDigest node \<noteq> '''' \<and> \<not> validDigest (pn_FrameworkDigest node), NodeDigestInvalid),
     (pn_EvidenceDigest node \<noteq> '''' \<and> \<not> validDigest (pn_EvidenceDigest node), NodeDigestInvalid)]"

fun validate_nodes :: "nat \<Rightarrow> string list \<Rightarrow> PlanNode list \<Rightarrow> PlanProblem option" where
  "validate_nodes index ids [] = None"
| "validate_nodes index ids (node # nodes) =
     (case validatePlanNode node of
        Some problem \<Rightarrow> Some (NodeInvalid index problem)
      | None \<Rightarrow>
          if pn_ID node \<in> set ids then Some (DuplicateNode (pn_ID node))
          else validate_nodes (index + 1) (pn_ID node # ids) nodes)"

definition edge_guards :: "string list \<Rightarrow> nat \<Rightarrow> string list \<Rightarrow> PlanEdge \<Rightarrow> (bool \<times> PlanProblem) list" where
  "edge_guards ids index seen edge = [
     (pe_ID edge = '''' \<or> pe_From edge = '''' \<or> pe_To edge = '''', EdgeFieldsRequired index),
     (160 < length (pe_ID edge) \<or> 80 < length (pe_Type edge), EdgeFieldsTooLong index),
     (pe_From edge = pe_To edge, EdgeSelf (pe_ID edge)),
     (pe_From edge \<notin> set ids, EdgeUnknownFrom (pe_ID edge)),
     (pe_To edge \<notin> set ids, EdgeUnknownTo (pe_ID edge)),
     (pe_LagMinutes edge < 0 \<or> ten_years < pe_LagMinutes edge, EdgeLagRange (pe_ID edge)),
     (pe_ID edge \<in> set seen, DuplicateEdge (pe_ID edge))]"

fun validate_edges :: "string list \<Rightarrow> nat \<Rightarrow> string list \<Rightarrow> PlanEdge list \<Rightarrow> PlanProblem option" where
  "validate_edges ids index seen [] = None"
| "validate_edges ids index seen (edge # edges) =
     (case first_error (edge_guards ids index seen edge) of
        Some problem \<Rightarrow> Some problem
      | None \<Rightarrow> validate_edges ids (index + 1) (pe_ID edge # seen) edges)"

text \<open>
  \<open>validateDAG\<close>: the stack (top first; the initial order, that of a Go map, is the nodes') holds
  the nodes whose remaining in-degree is 0. \<open>release\<close> is the inner loop over the successors.
\<close>

fun release :: "'n list \<Rightarrow> 'n list \<Rightarrow> ('n \<Rightarrow> int) \<Rightarrow> 'n list \<times> ('n \<Rightarrow> int)" where
  "release [] queue indegree = (queue, indegree)"
| "release (next # targets) queue indegree =
     (let indegree = indegree(next := indegree next - 1)
      in release targets (if indegree next = 0 then next # queue else queue) indegree)"

definition positive :: "('n \<times> 'n) list \<Rightarrow> ('n \<Rightarrow> int) \<Rightarrow> nat" where
  "positive g indegree = card {y \<in> snd ` set g. 0 < indegree y}"

lemma release_size:
  "set targets \<subseteq> snd ` set g \<Longrightarrow> release targets queue indegree = (queue', indegree') \<Longrightarrow>
     length queue' + positive g indegree' = length queue + positive g indegree"
proof (induction targets arbitrary: queue indegree)
  case (Cons y ys)
  let ?ind = "indegree(y := indegree y - 1)"
  from Cons(2) have y: "y \<in> snd ` set g" and ys: "set ys \<subseteq> snd ` set g" by simp_all
  have "positive g indegree = (if indegree y = 1 then Suc (positive g ?ind) else positive g ?ind)"
  proof (cases "indegree y = 1")
    case True
    then have "{z \<in> snd ` set g. 0 < ?ind z} = {z \<in> snd ` set g. 0 < indegree z} - {y}" by auto
    moreover have "card {z \<in> snd ` set g. 0 < indegree z} =
        Suc (card ({z \<in> snd ` set g. 0 < indegree z} - {y}))"
      using y True by (intro card.remove) simp_all
    ultimately show ?thesis using True unfolding positive_def by simp
  next
    case False
    then have "{z \<in> snd ` set g. 0 < ?ind z} = {z \<in> snd ` set g. 0 < indegree z}" by auto
    with False show ?thesis by (simp add: positive_def)
  qed
  moreover from Cons(3) have "release ys (if ?ind y = 0 then y # queue else queue) ?ind = (queue', indegree')"
    by (simp add: Let_def)
  from Cons(1) [OF ys this]
  have "length queue' + positive g indegree' = length (if ?ind y = 0 then y # queue else queue) + positive g ?ind" .
  ultimately show ?case by (simp split: if_splits)
qed simp

function kahn :: "('n \<times> 'n) list \<Rightarrow> 'n list \<Rightarrow> ('n \<Rightarrow> int) \<Rightarrow> 'n list \<Rightarrow> 'n list" where
  "kahn g [] indegree visited = visited"
| "kahn g (x # queue) indegree visited =
     (let (queue, indegree) = release (succs g x) queue indegree
      in kahn g queue indegree (x # visited))"
  by pat_completeness auto
termination
proof (relation "measure (\<lambda>(g, queue, indegree, visited). length queue + positive g indegree)")
  fix g :: "('n \<times> 'n) list" and x queue indegree visited p q ind
  assume "p = release (succs g x) queue indegree" "(q, ind) = p"
  then have "release (succs g x) queue indegree = (q, ind)" by simp
  from release_size [OF succs_targets this]
  have "length q + positive g ind = length queue + positive g indegree" .
  then show "((g, q, ind, x # visited), g, x # queue, indegree, visited) \<in>
      measure (\<lambda>(g, queue, indegree, visited). length queue + positive g indegree)" by simp
qed simp

definition indegrees :: "('n \<times> 'n) list \<Rightarrow> 'n \<Rightarrow> int" where
  "indegrees g x = int (length (filter (\<lambda>e. snd e = x) g))"

definition plan_arcs :: "PlanEdge list \<Rightarrow> (string \<times> string) list" where
  "plan_arcs edges = map (\<lambda>e. (pe_From e, pe_To e)) edges"

definition validateDAG :: "PlanNode list \<Rightarrow> PlanEdge list \<Rightarrow> PlanProblem option" where
  "validateDAG nodes edges =
     (let g = plan_arcs edges;
          queue = filter (\<lambda>k. indegrees g k = 0) (map pn_ID nodes);
          visited = length (kahn g queue (indegrees g) [])
      in if visited \<noteq> length nodes then Some DependencyCycle else None)"

text \<open>The guards before the loops over nodes and edges, and those on the repair provenance.\<close>

definition plan_guards :: "Plan \<Rightarrow> (bool \<times> PlanProblem) list" where
  "plan_guards plan = [
     (p_ID plan = uuid_nil, PlanIDRequired),
     (p_OwnerIdentity plan = '''', OwnerRequired),
     (p_Title plan = '''' \<or> 300 < length (p_Title plan), TitleInvalid),
     (p_Status plan \<noteq> StatusDraft \<and> p_Status plan \<noteq> StatusAccepted, StatusInvalid),
     (p_Revision plan = 0, RevisionZero),
     (p_Revision plan = 1 \<and> (p_ParentRevision plan \<noteq> 0 \<or> p_ParentDigest plan \<noteq> ''''), FirstRevisionHasParent),
     (1 < p_Revision plan \<and> (p_ParentRevision plan + 1 \<noteq> p_Revision plan \<or>
           \<not> validDigest (p_ParentDigest plan)), ParentNotBound),
     (p_CreatedBy plan = '''' \<or> p_CreatedAt plan = 0, CreatorRequired),
     (p_Status plan = StatusAccepted \<and> p_AcceptedAt plan = None, AcceptedAtRequired),
     (p_Status plan = StatusDraft \<and> p_AcceptedAt plan \<noteq> None, DraftHasAcceptedAt),
     (p_CanExecute plan, GrantsExecution),
     (p_IdempotencyKey plan \<noteq> '''' \<and> \<not> validDigest (p_RequestDigest plan), RequestDigestRequired),
     (p_Nodes plan = [] \<or> maxNodes < length (p_Nodes plan), NodeCount),
     (maxEdges < length (slice (p_Edges plan)), EdgeCount)]"

definition repair_guards :: "Plan \<Rightarrow> RepairProvenance \<Rightarrow> (bool \<times> PlanProblem) list" where
  "repair_guards plan repair = [
     (rp_Reason repair = '''' \<or> rp_Trigger repair = '''' \<or> rp_CreatedBy repair = '''' \<or>
           rp_CreatedAt repair = 0, RepairIncomplete),
     (rp_PreviousRevision repair \<noteq> p_ParentRevision plan \<or>
           rp_PreviousDigest repair \<noteq> p_ParentDigest plan, RepairNotBound)]"

definition validatePlan :: "Plan \<Rightarrow> PlanProblem option" where
  "validatePlan plan =
     (case first_error (plan_guards plan) of
       Some problem \<Rightarrow> Some problem
     | None \<Rightarrow>
     case validate_nodes 0 [] (p_Nodes plan) of
       Some problem \<Rightarrow> Some problem
     | None \<Rightarrow>
     case validate_edges (map pn_ID (p_Nodes plan)) 0 [] (slice (p_Edges plan)) of
       Some problem \<Rightarrow> Some problem
     | None \<Rightarrow>
     case validateDAG (p_Nodes plan) (slice (p_Edges plan)) of
       Some problem \<Rightarrow> Some problem
     | None \<Rightarrow>
     case p_Repair plan of
       None \<Rightarrow> None
     | Some repair \<Rightarrow> first_error (repair_guards plan repair))"

section \<open>Digests\<close>

definition digestContractVersion :: string where
  "digestContractVersion = ''hai-plan-graph-v1''"

text \<open>The envelope that is encoded and hashed; its instants are formatted by the encoding.\<close>

record DigestEnvelope =
  de_ContractVersion :: string
  de_PlanID :: uuid
  de_OwnerIdentity :: string
  de_Title :: string
  de_Status :: PlanStatus
  de_Revision :: "64 word"
  de_ParentRevision :: "64 word"
  de_ParentDigest :: string
  de_RequestDigest :: string
  de_Nodes :: "PlanNode list"
  de_Edges :: "PlanEdge list option"
  de_Repair :: "RepairProvenance option"
  de_CreatedBy :: string
  de_CreatedAt :: instant
  de_AcceptedAt :: "instant option"

record RequestEnvelope =
  re_ContractVersion :: string
  re_Title :: string
  re_Nodes :: "PlanNode list"
  re_Edges :: "PlanEdge list option"
  re_Reason :: string
  re_Trigger :: string

definition plan_envelope :: "Plan \<Rightarrow> DigestEnvelope" where
  "plan_envelope plan =
     \<lparr>de_ContractVersion = digestContractVersion, de_PlanID = p_ID plan,
      de_OwnerIdentity = p_OwnerIdentity plan, de_Title = p_Title plan, de_Status = p_Status plan,
      de_Revision = p_Revision plan, de_ParentRevision = p_ParentRevision plan,
      de_ParentDigest = p_ParentDigest plan, de_RequestDigest = p_RequestDigest plan,
      de_Nodes = p_Nodes plan, de_Edges = p_Edges plan, de_Repair = p_Repair plan,
      de_CreatedBy = p_CreatedBy plan, de_CreatedAt = p_CreatedAt plan,
      de_AcceptedAt = p_AcceptedAt plan\<rparr>"

text \<open>What JSON and SHA-256 compute of the two envelopes.\<close>

record Hashing =
  hash_plan :: "DigestEnvelope \<Rightarrow> string option"
  hash_request :: "RequestEnvelope \<Rightarrow> string option"

definition computeDigest :: "Hashing \<Rightarrow> Plan \<Rightarrow> string option" where
  "computeDigest h plan = hash_plan h (plan_envelope (normalizePlan plan))"

definition computeRequestDigest ::
  "Hashing \<Rightarrow> string \<Rightarrow> PlanNode list \<Rightarrow> PlanEdge list option \<Rightarrow> string \<Rightarrow> string \<Rightarrow> string option" where
  "computeRequestDigest h title nodes edges reason trigger =
     (let canonical = normalizePlan (zero_plan\<lparr>p_Title := title, p_Nodes := nodes, p_Edges := edges,
            p_Repair := Some \<lparr>rp_Reason = reason, rp_Trigger = trigger, rp_PreviousRevision = 0,
              rp_PreviousDigest = '''', rp_CreatedBy = '''', rp_CreatedAt = 0\<rparr>\<rparr>)
      in hash_request h
           \<lparr>re_ContractVersion = digestContractVersion, re_Title = p_Title canonical,
            re_Nodes = p_Nodes canonical, re_Edges = p_Edges canonical,
            re_Reason = (case p_Repair canonical of None \<Rightarrow> '''' | Some r \<Rightarrow> rp_Reason r),
            re_Trigger = (case p_Repair canonical of None \<Rightarrow> '''' | Some r \<Rightarrow> rp_Trigger r)\<rparr>)"

end
