(* ===== verification/PlanService.thy ===== *)
theory PlanService
  imports PlanGraph
begin

text \<open>
  The plan graph repository held in memory (\<open>repository.go\<close>) and the service over it
  (\<open>service.go\<close>). The mutex makes every repository call atomic, so a call is a function of the
  store. The two nested maps are association lists over pairs of keys; an index out of range
  of a stored slice is the error \<open>PlanPanic\<close>. \<open>Hashing\<close> is the hash parameter of
  \<open>computeDigest\<close>; the clock and the identifier generator are arguments.
\<close>

section \<open>The store of revisions\<close>

datatype PlanError =
    PlanInvalid PlanProblem | EncodeFailed | ErrNotFound | ErrRevisionConflict
  | ErrIdempotencyConflict | ErrReferenceInvalid | ErrReferenceStale | ErrPlanNotAccepted
  | PlanPanic

record PlanStore =
  ps_records :: "((string \<times> uuid) \<times> Plan list) list"
  ps_keys :: "((string \<times> string) \<times> (uuid \<times> 64 word)) list"

definition NewPlanStore :: PlanStore where
  "NewPlanStore = \<lparr>ps_records = [], ps_keys = []\<rparr>"

definition revisions_of :: "PlanStore \<Rightarrow> string \<Rightarrow> uuid \<Rightarrow> Plan list" where
  "revisions_of s owner k = (case map_of (ps_records s) (owner, k) of None \<Rightarrow> [] | Some ps \<Rightarrow> ps)"

text \<open>\<open>revisions[revision-1]\<close> on unsigned integers.\<close>

definition revision_at :: "Plan list \<Rightarrow> 64 word \<Rightarrow> PlanError + Plan" where
  "revision_at ps revision =
     (let i = unat (revision - 1) in if i < length ps then Inr (ps ! i) else Inl PlanPanic)"

definition cloned :: "PlanError + Plan \<Rightarrow> PlanError + Plan" where
  "cloned result = map_sum id clonePlan result"

definition invalid_if :: "PlanProblem option \<Rightarrow> PlanError + unit" where
  "invalid_if problem = (case problem of None \<Rightarrow> Inr () | Some p \<Rightarrow> Inl (PlanInvalid p))"

definition digest_of :: "Hashing \<Rightarrow> Plan \<Rightarrow> PlanError + string" where
  "digest_of h plan = (case computeDigest h plan of None \<Rightarrow> Inl EncodeFailed | Some d \<Rightarrow> Inr d)"

definition validateStoredPlan :: "Hashing \<Rightarrow> Plan \<Rightarrow> PlanError + unit" where
  "validateStoredPlan h plan =
     and_then (invalid_if (validatePlan (normalizePlan plan))) (\<lambda>_.
       if \<not> validDigest (p_Digest plan) then Inl (PlanInvalid DigestInvalid)
       else and_then (digest_of h plan) (\<lambda>digest.
         if digest \<noteq> p_Digest plan then Inl (PlanInvalid DigestMismatch) else Inr ()))"

text \<open>The revision under an idempotency key, if the key is taken.\<close>

definition keyed_revision :: "PlanStore \<Rightarrow> string \<Rightarrow> string \<Rightarrow> (PlanError + Plan) option" where
  "keyed_revision s owner key =
     map_option (\<lambda>(k, revision). revision_at (revisions_of s owner k) revision)
       (map_of (ps_keys s) (owner, key))"

definition append_revision :: "PlanStore \<Rightarrow> Plan \<Rightarrow> PlanStore" where
  "append_revision s plan =
     (let owner = p_OwnerIdentity plan; revisions = revisions_of s owner (p_ID plan) in
      s\<lparr>ps_records := AList.update (owner, p_ID plan) (revisions @ [clonePlan plan]) (ps_records s),
        ps_keys := (if p_IdempotencyKey plan = '''' then ps_keys s
                    else AList.update (owner, p_IdempotencyKey plan) (p_ID plan, p_Revision plan) (ps_keys s))\<rparr>)"

definition CreateRevision ::
  "Hashing \<Rightarrow> PlanStore \<Rightarrow> Plan \<Rightarrow> 64 word \<Rightarrow> (PlanError + unit) \<times> PlanStore" where
  "CreateRevision h s plan expectedPreviousRevision =
     (let plan = normalizePlan plan in
      case validateStoredPlan h plan of
        Inl e \<Rightarrow> (Inl e, s)
      | Inr _ \<Rightarrow>
          (case (if p_IdempotencyKey plan = '''' then None
                 else keyed_revision s (p_OwnerIdentity plan) (p_IdempotencyKey plan)) of
             Some (Inl e) \<Rightarrow> (Inl e, s)
           | Some (Inr existing) \<Rightarrow>
               ((if p_Digest existing = p_Digest plan then Inr () else Inl ErrIdempotencyConflict), s)
           | None \<Rightarrow>
               (let current = word_of_nat (length (revisions_of s (p_OwnerIdentity plan) (p_ID plan))) :: 64 word in
                if current \<noteq> expectedPreviousRevision \<or> p_Revision plan \<noteq> current + 1
                then (Inl ErrRevisionConflict, s)
                else (Inr (), append_revision s plan))))"

definition GetLatest :: "PlanStore \<Rightarrow> string \<Rightarrow> uuid \<Rightarrow> PlanError + Plan" where
  "GetLatest s owner k =
     (let revisions = revisions_of s (TrimSpace owner) k in
      if revisions = [] then Inl ErrNotFound else Inr (clonePlan (last revisions)))"

definition GetRevision :: "PlanStore \<Rightarrow> string \<Rightarrow> uuid \<Rightarrow> 64 word \<Rightarrow> PlanError + Plan" where
  "GetRevision s owner k revision =
     (let revisions = revisions_of s (TrimSpace owner) k in
      if revision = 0 \<or> word_of_nat (length revisions) < revision then Inl ErrNotFound
      else cloned (revision_at revisions revision))"

definition FindByIdempotencyKey :: "PlanStore \<Rightarrow> string \<Rightarrow> string \<Rightarrow> PlanError + Plan" where
  "FindByIdempotencyKey s owner key =
     (case keyed_revision s (TrimSpace owner) (TrimSpace key) of
        None \<Rightarrow> Inl ErrNotFound
      | Some r \<Rightarrow> cloned r)"

text \<open>A UUID's text, in lower-case hexadecimal, is ordered as its value.\<close>

definition ListLatest :: "PlanStore \<Rightarrow> string \<Rightarrow> Plan list" where
  "ListLatest s owner =
     sort_key (\<lambda>p. (- p_CreatedAt p, unat (p_ID p)))
       (map (\<lambda>(_, revisions). clonePlan (last revisions))
         (filter (\<lambda>((o1, _), revisions). o1 = TrimSpace owner \<and> revisions \<noteq> []) (ps_records s)))"

section \<open>The service\<close>

record PreviewRequest =
  pr_PlanID :: uuid
  pr_IdempotencyKey :: string
  pr_Title :: string
  pr_Nodes :: "PlanNode list"
  pr_Edges :: "PlanEdge list option"
  pr_CreatedBy :: string

record AcceptRequest =
  ar_ExpectedRevision :: "64 word"
  ar_ExpectedDigest :: string
  ar_AcceptedBy :: string

record ReplanRequest =
  rr_ExpectedRevision :: "64 word"
  rr_ExpectedDigest :: string
  rr_IdempotencyKey :: string
  rr_Title :: string
  rr_Nodes :: "PlanNode list"
  rr_Edges :: "PlanEdge list option"
  rr_Reason :: string
  rr_Trigger :: string
  rr_CreatedBy :: string

type_synonym PlanResult = "(PlanError + Plan) \<times> PlanStore"

text \<open>Validate the new revision, compute its digest and store it; \<open>recover\<close> handles the store's error.\<close>

definition store_revision ::
  "Hashing \<Rightarrow> PlanStore \<Rightarrow> Plan \<Rightarrow> 64 word \<Rightarrow> (PlanStore \<Rightarrow> Plan \<Rightarrow> PlanError \<Rightarrow> PlanError + Plan) \<Rightarrow> PlanResult" where
  "store_revision h s plan previous recover =
     (case invalid_if (validatePlan plan) of
        Inl e \<Rightarrow> (Inl e, s)
      | Inr _ \<Rightarrow>
          (case digest_of h plan of
             Inl e \<Rightarrow> (Inl e, s)
           | Inr digest \<Rightarrow>
               (let plan = plan\<lparr>p_Digest := digest\<rparr>;
                    (result, s) = CreateRevision h s plan previous
                in case result of
                     Inl e \<Rightarrow> (recover s plan e, s)
                   | Inr _ \<Rightarrow> (Inr (clonePlan plan), s))))"

definition fail_with :: "PlanStore \<Rightarrow> Plan \<Rightarrow> PlanError \<Rightarrow> PlanError + Plan" where
  "fail_with s plan e = Inl e"

definition recover_preview :: "string \<Rightarrow> string \<Rightarrow> PlanStore \<Rightarrow> Plan \<Rightarrow> PlanError \<Rightarrow> PlanError + Plan" where
  "recover_preview owner key s plan e =
     (if e = ErrIdempotencyConflict \<or> e = ErrRevisionConflict then
        (case FindByIdempotencyKey s owner key of
           Inr existing \<Rightarrow> if p_Digest existing = p_Digest plan then Inr existing else Inl e
         | Inl _ \<Rightarrow> Inl e)
      else Inl e)"

definition Preview ::
  "Hashing \<Rightarrow> PlanStore \<Rightarrow> instant \<Rightarrow> uuid \<Rightarrow> string \<Rightarrow> PreviewRequest \<Rightarrow> PlanResult" where
  "Preview h s now fresh ownerIdentity request =
     (let owner = TrimSpace ownerIdentity; key = TrimSpace (pr_IdempotencyKey request) in
      if key = '''' \<or> 255 < length key then (Inl (PlanInvalid KeyInvalid), s)
      else case computeRequestDigest h (pr_Title request) (pr_Nodes request) (pr_Edges request) '''' '''' of
        None \<Rightarrow> (Inl EncodeFailed, s)
      | Some requestDigest \<Rightarrow>
          (case FindByIdempotencyKey s owner key of
             Inr existing \<Rightarrow>
               ((if requestDigest \<noteq> p_RequestDigest existing then Inl ErrIdempotencyConflict else Inr existing), s)
           | Inl e \<Rightarrow>
               if e \<noteq> ErrNotFound then (Inl e, s)
               else
                 store_revision h s
                   (normalizePlan (zero_plan\<lparr>
                      p_ID := (if pr_PlanID request = uuid_nil then fresh else pr_PlanID request),
                      p_OwnerIdentity := owner, p_Title := pr_Title request, p_Status := StatusDraft,
                      p_Revision := 1, p_IdempotencyKey := key, p_RequestDigest := requestDigest,
                      p_Nodes := pr_Nodes request, p_Edges := pr_Edges request,
                      p_CreatedBy := pr_CreatedBy request, p_CreatedAt := now\<rparr>))
                   0 (recover_preview owner key)))"

definition accepted_revision :: "Plan \<Rightarrow> string \<Rightarrow> instant \<Rightarrow> Plan" where
  "accepted_revision current acceptedBy now =
     normalizePlan (zero_plan\<lparr>
       p_ID := p_ID current, p_OwnerIdentity := p_OwnerIdentity current, p_Title := p_Title current,
       p_Status := StatusAccepted, p_Revision := p_Revision current + 1,
       p_ParentRevision := p_Revision current, p_ParentDigest := p_Digest current,
       p_Nodes := p_Nodes current, p_Edges := p_Edges current,
       p_CreatedBy := acceptedBy, p_CreatedAt := now, p_AcceptedAt := Some now\<rparr>)"

definition Accept ::
  "Hashing \<Rightarrow> PlanStore \<Rightarrow> instant \<Rightarrow> string \<Rightarrow> uuid \<Rightarrow> AcceptRequest \<Rightarrow> PlanResult" where
  "Accept h s now ownerIdentity k request =
     (case GetLatest s (TrimSpace ownerIdentity) k of
        Inl e \<Rightarrow> (Inl e, s)
      | Inr current \<Rightarrow>
          (let expectedDigest = TrimSpace (ar_ExpectedDigest request) in
           if p_Revision current \<noteq> ar_ExpectedRevision request \<or> p_Digest current \<noteq> expectedDigest then
             (if p_Status current = StatusAccepted \<and> p_ParentRevision current = ar_ExpectedRevision request \<and>
                 p_ParentDigest current = expectedDigest
              then (Inr current, s) else (Inl ErrRevisionConflict, s))
           else if p_Status current = StatusAccepted then (Inr current, s)
           else
             (let acceptedBy = TrimSpace (ar_AcceptedBy request) in
              if acceptedBy = '''' then (Inl (PlanInvalid AcceptedByRequired), s)
              else store_revision h s (accepted_revision current acceptedBy now) (p_Revision current) fail_with)))"

definition repaired_revision ::
  "uuid \<Rightarrow> string \<Rightarrow> string \<Rightarrow> string \<Rightarrow> ReplanRequest \<Rightarrow> Plan \<Rightarrow> instant \<Rightarrow> Plan" where
  "repaired_revision k owner key requestDigest request current now =
     (let createdBy = TrimSpace (rr_CreatedBy request) in
      normalizePlan (zero_plan\<lparr>
        p_ID := k, p_OwnerIdentity := owner, p_Title := rr_Title request, p_Status := StatusDraft,
        p_Revision := p_Revision current + 1, p_ParentRevision := p_Revision current,
        p_ParentDigest := p_Digest current, p_IdempotencyKey := key, p_RequestDigest := requestDigest,
        p_Nodes := rr_Nodes request, p_Edges := rr_Edges request,
        p_Repair := Some \<lparr>rp_Reason = rr_Reason request, rp_Trigger = rr_Trigger request,
          rp_PreviousRevision = p_Revision current, rp_PreviousDigest = p_Digest current,
          rp_CreatedBy = createdBy, rp_CreatedAt = now\<rparr>,
        p_CreatedBy := createdBy, p_CreatedAt := now\<rparr>))"

definition Replan ::
  "Hashing \<Rightarrow> PlanStore \<Rightarrow> instant \<Rightarrow> string \<Rightarrow> uuid \<Rightarrow> ReplanRequest \<Rightarrow> PlanResult" where
  "Replan h s now ownerIdentity k request =
     (let owner = TrimSpace ownerIdentity; key = TrimSpace (rr_IdempotencyKey request) in
      if key = '''' \<or> 255 < length key then (Inl (PlanInvalid KeyInvalid), s)
      else case computeRequestDigest h (rr_Title request) (rr_Nodes request) (rr_Edges request)
                  (rr_Reason request) (rr_Trigger request) of
        None \<Rightarrow> (Inl EncodeFailed, s)
      | Some requestDigest \<Rightarrow>
          (case FindByIdempotencyKey s owner key of
             Inr existing \<Rightarrow>
               ((if p_ID existing \<noteq> k \<or> p_RequestDigest existing \<noteq> requestDigest
                 then Inl ErrIdempotencyConflict else Inr existing), s)
           | Inl e \<Rightarrow>
               if e \<noteq> ErrNotFound then (Inl e, s)
               else (case GetLatest s owner k of
                  Inl e \<Rightarrow> (Inl e, s)
                | Inr current \<Rightarrow>
                    if p_Revision current \<noteq> rr_ExpectedRevision request \<or>
                       p_Digest current \<noteq> TrimSpace (rr_ExpectedDigest request)
                    then (Inl ErrRevisionConflict, s)
                    else store_revision h s (repaired_revision k owner key requestDigest request current now)
                           (p_Revision current) fail_with)))"

definition List_plans :: "PlanStore \<Rightarrow> string \<Rightarrow> PlanError + Plan list" where
  "List_plans s ownerIdentity =
     (if TrimSpace ownerIdentity = '''' then Inl (PlanInvalid ListOwnerRequired)
      else Inr (ListLatest s (TrimSpace ownerIdentity)))"

definition Get_plan :: "PlanStore \<Rightarrow> string \<Rightarrow> uuid \<Rightarrow> 64 word \<Rightarrow> PlanError + Plan" where
  "Get_plan s ownerIdentity k revision =
     (if TrimSpace ownerIdentity = '''' \<or> k = uuid_nil then Inl ErrNotFound
      else if revision = 0 then GetLatest s (TrimSpace ownerIdentity) k
      else GetRevision s (TrimSpace ownerIdentity) k revision)"

section \<open>References to accepted revisions\<close>

record AcceptedRevisionReference =
  rf_PlanID :: uuid
  rf_Revision :: "64 word"
  rf_Digest :: string
  rf_NodeID :: string

definition reference_IsZero :: "AcceptedRevisionReference \<Rightarrow> bool" where
  "reference_IsZero reference \<longleftrightarrow> rf_PlanID reference = uuid_nil \<and> rf_Revision reference = 0 \<and>
     TrimSpace (rf_Digest reference) = '''' \<and> TrimSpace (rf_NodeID reference) = ''''"

record AcceptedRevisionBinding =
  bd_PlanID :: uuid
  bd_Revision :: "64 word"
  bd_Digest :: string
  bd_NodeID :: string
  bd_PlanTitle :: string
  bd_Node :: PlanNode
  bd_Nodes :: "PlanNode list"
  bd_Edges :: "PlanEdge list option"
  bd_AcceptedAt :: instant
  bd_CanExecute :: bool

definition acceptedRevisionBinding ::
  "Plan \<Rightarrow> AcceptedRevisionReference \<Rightarrow> PlanError + AcceptedRevisionBinding" where
  "acceptedRevisionBinding plan reference =
     (if p_ID plan \<noteq> rf_PlanID reference \<or> p_Revision plan \<noteq> rf_Revision reference \<or>
         p_Digest plan \<noteq> rf_Digest reference then Inl ErrReferenceStale
      else case (p_Status plan, p_AcceptedAt plan) of
        (StatusAccepted, Some acceptedAt) \<Rightarrow>
          if p_CanExecute plan then Inl (PlanInvalid BindingExecutes)
          else (case find (\<lambda>n. pn_ID n = rf_NodeID reference) (p_Nodes plan) of
            None \<Rightarrow> Inl ErrReferenceInvalid
          | Some selected \<Rightarrow>
              Inr \<lparr>bd_PlanID = p_ID plan, bd_Revision = p_Revision plan, bd_Digest = p_Digest plan,
                   bd_NodeID = pn_ID selected, bd_PlanTitle = p_Title plan, bd_Node = selected,
                   bd_Nodes = p_Nodes plan, bd_Edges = cloneEdges (p_Edges plan), bd_AcceptedAt = acceptedAt,
                   bd_CanExecute = False\<rparr>)
      | _ \<Rightarrow> Inl ErrPlanNotAccepted)"

definition normalize_reference :: "AcceptedRevisionReference \<Rightarrow> AcceptedRevisionReference" where
  "normalize_reference reference =
     reference\<lparr>rf_Digest := ToLower (TrimSpace (rf_Digest reference)),
               rf_NodeID := TrimSpace (rf_NodeID reference)\<rparr>"

definition reference_malformed :: "string \<Rightarrow> AcceptedRevisionReference \<Rightarrow> bool" where
  "reference_malformed owner reference \<longleftrightarrow>
     owner = '''' \<or> rf_PlanID reference = uuid_nil \<or> rf_Revision reference = 0 \<or>
     length (rf_Digest reference) \<noteq> 64 \<or> rf_NodeID reference = ''''"

definition ResolveAccepted ::
  "PlanStore \<Rightarrow> string \<Rightarrow> AcceptedRevisionReference \<Rightarrow> PlanError + AcceptedRevisionBinding" where
  "ResolveAccepted s ownerIdentity reference =
     (let owner = TrimSpace ownerIdentity; reference = normalize_reference reference in
      if reference_malformed owner reference then Inl ErrReferenceInvalid
      else and_then (GetLatest s owner (rf_PlanID reference)) (\<lambda>latest.
        if p_Revision latest \<noteq> rf_Revision reference \<or> p_Digest latest \<noteq> rf_Digest reference
        then Inl ErrReferenceStale
        else acceptedRevisionBinding latest reference))"

definition ResolveAcceptedRevision ::
  "PlanStore \<Rightarrow> string \<Rightarrow> AcceptedRevisionReference \<Rightarrow> PlanError + AcceptedRevisionBinding" where
  "ResolveAcceptedRevision s ownerIdentity reference =
     (let owner = TrimSpace ownerIdentity; reference = normalize_reference reference in
      if reference_malformed owner reference then Inl ErrReferenceInvalid
      else and_then (GetRevision s owner (rf_PlanID reference) (rf_Revision reference)) (\<lambda>revision.
        if p_Digest revision \<noteq> rf_Digest reference then Inl ErrReferenceStale
        else acceptedRevisionBinding revision reference))"

end
