(* ===== verification/PlanFacts.thy ===== *)
theory PlanFacts
  imports PlanService "HOL-Library.Sublist"
begin

text \<open>
  Facts about plan graphs: Kahn's algorithm decides acyclicity, normalisation is idempotent,
  and the store is an append-only log of revisions. The locale \<open>revision_log\<close> is the contract
  of such a log; the interpretation \<open>plans\<close> discharges it for the steps of the service.
\<close>

section \<open>Kahn's algorithm\<close>

lemma release_spec:
  "release targets queue ind = (queue', ind') \<Longrightarrow> distinct queue \<Longrightarrow> \<forall>y \<in> set queue. ind y \<le> 0 \<Longrightarrow>
     ind' = (\<lambda>y. ind y - int (count_list targets y)) \<and>
     set queue' = set queue \<union> {y. 0 < ind y \<and> ind' y \<le> 0} \<and> distinct queue'"
proof (induction targets arbitrary: queue ind)
  case (Cons y ys)
  let ?ind = "ind(y := ind y - 1)"
  let ?queue = "if ?ind y = 0 then y # queue else queue"
  have r: "release ys ?queue ?ind = (queue', ind')" using Cons(2) by (simp add: Let_def)
  have y: "y \<notin> set queue" if "?ind y = 0" using Cons(4) that by auto
  have d: "distinct ?queue" using Cons(3) y by auto
  have le: "\<forall>z \<in> set ?queue. ?ind z \<le> 0" using Cons(4) by auto
  note ih = Cons(1) [OF r d le]
  then have ind': "ind' = (\<lambda>z. ind z - int (count_list (y # ys) z))" by auto
  have q: "set queue' = set queue \<union> {z. 0 < ind z \<and> ind' z \<le> 0}"
  proof (rule set_eqI)
    fix z
    have le': "ind' y \<le> ind y - 1" unfolding ind' by simp
    have "z \<in> set queue' \<longleftrightarrow> z \<in> set ?queue \<or> 0 < ?ind z \<and> ind' z \<le> 0"
      using conjunct1 [OF conjunct2 [OF ih]] by blast
    also have "\<dots> \<longleftrightarrow> z \<in> set queue \<or> 0 < ind z \<and> ind' z \<le> 0"
    proof (cases "z = y")
      case True
      then show ?thesis using le' by (cases "ind y = 1") auto
    qed simp
    finally show "z \<in> set queue' \<longleftrightarrow> z \<in> set queue \<union> {z. 0 < ind z \<and> ind' z \<le> 0}" by blast
  qed
  show ?case by (intro conjI) (rule ind', rule q, rule conjunct2 [OF conjunct2 [OF ih]])
qed auto

definition in_count :: "('n \<times> 'n) list \<Rightarrow> 'n set \<Rightarrow> 'n \<Rightarrow> int" where
  "in_count g V y = int (length (filter (\<lambda>e. snd e = y \<and> fst e \<notin> V) g))"

lemma in_count_insert:
  "x \<notin> V \<Longrightarrow> in_count g (insert x V) y = in_count g V y - int (count_list (succs g x) y)"
  unfolding in_count_def succs_def by (induction g) auto

lemma in_count_zero_iff: "in_count g V y = 0 \<longleftrightarrow> (\<forall>x. (x, y) \<in> set g \<longrightarrow> x \<in> V)"
  by (auto simp: in_count_def filter_empty_conv)

definition kahn_inv :: "('n \<times> 'n) list \<Rightarrow> 'n set \<Rightarrow> 'n list \<Rightarrow> ('n \<Rightarrow> int) \<Rightarrow> 'n list \<Rightarrow> bool" where
  "kahn_inv g N queue ind visited \<longleftrightarrow>
     ind = in_count g (set visited) \<and> distinct queue \<and> distinct visited \<and>
     set queue \<inter> set visited = {} \<and>
     set queue \<union> set visited = {y \<in> N. in_count g (set visited) y = 0} \<and>
     settled ((set g)\<inverse>) (set visited)"

lemma kahn_inv_step:
  assumes i: "kahn_inv g N (x # queue) ind visited" and g: "set g \<subseteq> N \<times> N"
    and r: "release (succs g x) queue ind = (queue', ind')"
  shows "kahn_inv g N queue' ind' (x # visited)"
proof -
  let ?V = "set visited"
  from i have x: "x \<notin> ?V" "x \<notin> set queue" "x \<in> N" "in_count g ?V x = 0" and ind: "ind = in_count g ?V"
    by (auto simp: kahn_inv_def)
  have "\<forall>y \<in> set queue. ind y \<le> 0" using i by (auto simp: kahn_inv_def)
  moreover have "distinct queue" using i by (simp add: kahn_inv_def)
  ultimately have r': "ind' = in_count g (insert x ?V)"
    "set queue' = set queue \<union> {y. 0 < ind y \<and> ind' y \<le> 0}" "distinct queue'"
    using release_spec [OF r] in_count_insert [OF x(1), of g] ind by auto
  have nonneg: "0 \<le> in_count g W y" for W y by (simp add: in_count_def)
  have anti: "in_count g (insert x ?V) y \<le> in_count g ?V y" for y
    using in_count_insert [OF x(1), of g y] by simp
  have grown: "{y. 0 < ind y \<and> ind' y \<le> 0} = {y \<in> N. in_count g ?V y \<noteq> 0 \<and> in_count g (insert x ?V) y = 0}"
  proof (rule set_eqI)
    fix y
    have "y \<in> N" if "in_count g ?V y \<noteq> 0"
      using that g by (auto simp: in_count_zero_iff)
    then show "y \<in> {y. 0 < ind y \<and> ind' y \<le> 0} \<longleftrightarrow>
        y \<in> {y \<in> N. in_count g ?V y \<noteq> 0 \<and> in_count g (insert x ?V) y = 0}"
      using nonneg [of ?V y] nonneg [of "insert x ?V" y] by (auto simp: ind r'(1) order_less_le)
  qed
  have "set queue' \<union> insert x ?V = {y \<in> N. in_count g (insert x ?V) y = 0}"
  proof -
    have "set queue \<union> insert x ?V = {y \<in> N. in_count g ?V y = 0}" using i by (auto simp: kahn_inv_def)
    moreover have "in_count g (insert x ?V) y = 0" if "in_count g ?V y = 0" for y
      using that anti [of y] nonneg [of "insert x ?V" y] by simp
    ultimately show ?thesis unfolding r'(2) grown by blast
  qed
  moreover have "set queue' \<inter> insert x ?V = {}"
  proof -
    have "in_count g ?V x = 0" by (rule x(4))
    moreover have "\<forall>y \<in> ?V. in_count g ?V y = 0" "set queue \<inter> ?V = {}" using i by (auto simp: kahn_inv_def)
    ultimately show ?thesis unfolding r'(2) grown using x(2) by auto
  qed
  moreover have "settled ((set g)\<inverse>) (insert x ?V)"
    using i x(1,4) by (intro settled_insert) (auto simp: kahn_inv_def in_count_zero_iff)
  moreover have "distinct (x # visited)" using i x(1) by (simp add: kahn_inv_def)
  ultimately show ?thesis using r'(1,3) by (simp add: kahn_inv_def)
qed

lemma kahn_end:
  "kahn_inv g N queue ind visited \<Longrightarrow> set g \<subseteq> N \<times> N \<Longrightarrow>
     \<exists>ind'. kahn_inv g N [] ind' (kahn g queue ind visited)"
proof (induction g queue ind visited rule: kahn.induct)
  case (2 g x queue ind visited)
  obtain q i where r: "release (succs g x) queue ind = (q, i)" by fastforce
  from 2(1) [OF r [symmetric] refl kahn_inv_step [OF 2(2,3) r] 2(3)] r show ?case by simp
qed auto

lemma kahn_inv_start:
  "distinct ks \<Longrightarrow> set ks = N \<Longrightarrow> kahn_inv g N (filter (\<lambda>k. indegrees g k = 0) ks) (indegrees g) []"
  by (auto simp: kahn_inv_def settled_def in_count_def indegrees_def fun_eq_iff)

lemma stuck_cycle:
  assumes "finite U" "U \<noteq> {}" "\<And>y. y \<in> U \<Longrightarrow> \<exists>x \<in> U. (x, y) \<in> R" "finite R"
  shows "\<not> acyclic R"
proof
  assume "acyclic R"
  with assms(4) have "wf R" by (rule finite_acyclic_wf)
  with assms(2) obtain y where "y \<in> U" "\<And>x. (x, y) \<in> R \<Longrightarrow> x \<notin> U" by (metis wfE_min ex_in_conv)
  with assms(3) show False by blast
qed

lemma kahn_exact:
  assumes "distinct ks" and "set g \<subseteq> set ks \<times> set ks"
  shows "length (kahn g (filter (\<lambda>k. indegrees g k = 0) ks) (indegrees g) []) = length ks \<longleftrightarrow> acyclic (set g)"
proof -
  let ?v = "kahn g (filter (\<lambda>k. indegrees g k = 0) ks) (indegrees g) []"
  from kahn_end [OF kahn_inv_start [OF assms(1) refl, of g] assms(2)]
  have v: "distinct ?v" "set ?v = {y \<in> set ks. in_count g (set ?v) y = 0}" "settled ((set g)\<inverse>) (set ?v)"
    by (auto simp: kahn_inv_def)
  have "length ?v = length ks \<longleftrightarrow> set ?v = set ks"
    using v(1,2) assms(1) by (metis (no_types, lifting) card_subset_eq distinct_card finite_set mem_Collect_eq subsetI)
  also have "\<dots> \<longleftrightarrow> acyclic (set g)"
  proof
    assume all: "set ?v = set ks"
    have "(y, y) \<notin> ((set g)\<inverse>)\<^sup>+" for y
    proof
      assume c: "(y, y) \<in> ((set g)\<inverse>)\<^sup>+"
      then obtain z where "(y, z) \<in> (set g)\<inverse>" by (meson tranclD)
      with assms(2) all have "y \<in> set ?v" by auto
      with v(3) c show False by (simp add: settled_def)
    qed
    then show "acyclic (set g)" by (simp add: acyclic_def trancl_converse)
  next
    assume a: "acyclic (set g)"
    show "set ?v = set ks"
    proof (rule ccontr)
      assume "set ?v \<noteq> set ks"
      with v(2) have ne: "set ks - set ?v \<noteq> {}" by auto
      have "\<exists>x \<in> set ks - set ?v. (x, y) \<in> set g" if "y \<in> set ks - set ?v" for y
      proof -
        have "in_count g (set ?v) y \<noteq> 0" using that v(2) by auto
        with assms(2) show ?thesis by (auto simp: in_count_zero_iff)
      qed
      from stuck_cycle [OF _ ne this] a show False by simp
    qed
  qed
  finally show ?thesis .
qed

section \<open>Validated plans\<close>

lemma validate_nodes_None:
  "validate_nodes i ids ns = None \<Longrightarrow> distinct (map pn_ID ns) \<and> pn_ID ` set ns \<inter> set ids = {}"
  by (induction i ids ns rule: validate_nodes.induct) (auto split: option.splits if_splits)

lemma edge_guards_passed:
  assumes "first_error (edge_guards ids i seen e) = None"
  shows "pe_From e \<in> set ids \<and> pe_To e \<in> set ids \<and> pe_From e \<noteq> pe_To e \<and> pe_ID e \<notin> set seen"
proof -
  have g: "\<forall>g \<in> set (edge_guards ids i seen e). \<not> fst g"
    using assms by (simp add: first_error_None_iff)
  note g = g [unfolded edge_guards_def list.set ball_simps fst_conv]
  from g show ?thesis by blast
qed

lemma validate_edges_None:
  "validate_edges ids i seen es = None \<Longrightarrow>
     distinct (map pe_ID es) \<and> pe_ID ` set es \<inter> set seen = {} \<and>
     (\<forall>e \<in> set es. pe_From e \<in> set ids \<and> pe_To e \<in> set ids \<and> pe_From e \<noteq> pe_To e)"
proof (induction ids i seen es rule: validate_edges.induct)
  case (2 ids i seen e es)
  from 2(2) have g: "first_error (edge_guards ids i seen e) = None"
    and r: "validate_edges ids (i + 1) (pe_ID e # seen) es = None" by (simp_all split: option.splits)
  from 2(1) [OF g r] edge_guards_passed [OF g] show ?case by auto
qed simp

lemma set_plan_arcs: "set (plan_arcs es) = (\<lambda>e. (pe_From e, pe_To e)) ` set es"
  by (simp add: plan_arcs_def)

lemma validateDAG_iff:
  assumes "distinct (map pn_ID ns)" "\<forall>e \<in> set es. pe_From e \<in> pn_ID ` set ns \<and> pe_To e \<in> pn_ID ` set ns"
  shows "validateDAG ns es = None \<longleftrightarrow> acyclic (set (plan_arcs es))"
proof -
  have "set (plan_arcs es) \<subseteq> set (map pn_ID ns) \<times> set (map pn_ID ns)"
    using assms(2) by (auto simp: set_plan_arcs)
  from kahn_exact [OF assms(1) this] show ?thesis by (simp add: validateDAG_def Let_def)
qed

definition plan_node_ids :: "Plan \<Rightarrow> string list" where
  "plan_node_ids p = map pn_ID (p_Nodes p)"

lemma validatePlan_passed:
  assumes "validatePlan p = None"
  shows "first_error (plan_guards p) = None" "validate_nodes 0 [] (p_Nodes p) = None"
    "validate_edges (plan_node_ids p) 0 [] (slice (p_Edges p)) = None"
    "validateDAG (p_Nodes p) (slice (p_Edges p)) = None"
  using assms unfolding validatePlan_def plan_node_ids_def by (simp_all split: option.splits)

lemma plan_guards_passed:
  assumes "validatePlan p = None"
  shows "\<not> p_CanExecute p" "p_Revision p \<noteq> 0" "p_Status p \<in> {StatusDraft, StatusAccepted}"
    "1 < p_Revision p \<Longrightarrow> p_ParentRevision p + 1 = p_Revision p"
    "p_IdempotencyKey p \<noteq> '''' \<Longrightarrow> validDigest (p_RequestDigest p)"
    "p_Status p = StatusAccepted \<Longrightarrow> p_AcceptedAt p \<noteq> None"
proof -
  have g: "\<forall>g \<in> set (plan_guards p). \<not> fst g"
    using validatePlan_passed(1) [OF assms] by (simp add: first_error_None_iff)
  note g = g [unfolded plan_guards_def list.set ball_simps fst_conv]
  from g show "\<not> p_CanExecute p" "p_Revision p \<noteq> 0" "p_Status p \<in> {StatusDraft, StatusAccepted}"
    "1 < p_Revision p \<Longrightarrow> p_ParentRevision p + 1 = p_Revision p"
    "p_IdempotencyKey p \<noteq> '''' \<Longrightarrow> validDigest (p_RequestDigest p)" by blast+
  from g show "p_Status p = StatusAccepted \<Longrightarrow> p_AcceptedAt p \<noteq> None" by (elim conjE) simp
qed

interpretation plan_dag: bounded_cycles "\<lambda>p. validatePlan p = None" plan_node_ids "\<lambda>p. slice (p_Edges p)"
    pe_From pe_To "\<lambda>e. 0"
proof
  fix p assume v: "validatePlan p = None"
  note e = validate_edges_None [OF validatePlan_passed(3) [OF v]]
  then show "pe_From ` set (slice (p_Edges p)) \<subseteq> set (plan_node_ids p)" by auto
  have "distinct (map pn_ID (p_Nodes p))"
    using validate_nodes_None [OF validatePlan_passed(2) [OF v]] by simp
  moreover have "\<forall>e \<in> set (slice (p_Edges p)). pe_From e \<in> pn_ID ` set (p_Nodes p) \<and> pe_To e \<in> pn_ID ` set (p_Nodes p)"
    using e by (simp add: plan_node_ids_def)
  ultimately have "acyclic (set (plan_arcs (slice (p_Edges p))))"
    using validatePlan_passed(4) [OF v] by (simp add: validateDAG_iff)
  then show "acyclic (free_arcs pe_From pe_To (\<lambda>e. 0 < (0::nat)) (slice (p_Edges p)))"
    by (simp add: free_arcs_def set_plan_arcs)
qed

section \<open>Normalisation\<close>

lemma canonicalTime_idem [simp]: "canonicalTime (canonicalTime t) = canonicalTime t"
  by (simp add: canonicalTime_def)

lemma normalize_opt_time [simp]: "map_option canonicalTime (map_option canonicalTime t) = map_option canonicalTime t"
  by (cases t) simp_all

lemma normalize_node_idem [simp]: "normalize_node (normalize_node n) = normalize_node n"
  by (simp add: normalize_node_def)

lemma finish_to_start_trimmed: "TrimSpace ''finish_to_start'' = ''finish_to_start''"
  by (rule TrimSpace_plain) (simp_all add: plain_head_def plain_last_def ascii_space_def)

lemma normalize_edge_idem [simp]: "normalize_edge (normalize_edge e) = normalize_edge e"
  by (simp add: normalize_edge_def Let_def finish_to_start_trimmed)

lemma normalize_repair_idem [simp]: "normalize_repair (normalize_repair r) = normalize_repair r"
  by (simp add: normalize_repair_def)

lemma sort_normalized:
  assumes "\<And>x. f (f x) = f x"
  shows "sort_key k (map f (sort_key k (map f xs))) = sort_key k (map f xs)"
proof -
  have "map f (sort_key k (map f xs)) = sort_key k (map f xs)"
    by (rule map_idI) (auto simp: assms)
  then show ?thesis by (simp add: sort_key_id_if_sorted)
qed

lemma normalizePlan_again: "normalizePlan (normalizePlan p) = normalizePlan p"
proof -
  have "map_option normalize_repair (map_option normalize_repair r) = map_option normalize_repair r" for r
    by (cases r) simp_all
  moreover have "map_option (\<lambda>es. sort_key pe_ID (map normalize_edge es))
      (map_option (\<lambda>es. sort_key pe_ID (map normalize_edge es)) e) =
    map_option (\<lambda>es. sort_key pe_ID (map normalize_edge es)) e" for e
    by (cases e) (simp_all add: sort_normalized)
  ultimately show ?thesis
    by (simp add: normalizePlan_def sort_normalized del: option.map_comp)
qed

lemma normalizePlan_Digest: "normalizePlan (p\<lparr>p_Digest := d\<rparr>) = (normalizePlan p)\<lparr>p_Digest := d\<rparr>"
  by (simp add: normalizePlan_def)

section \<open>Copies\<close>

lemma slice_cloneEdges [simp]: "slice (cloneEdges es) = slice es"
  by (simp add: cloneEdges_def slice_def)

lemma cloneEdges_idem [simp]: "cloneEdges (cloneEdges es) = cloneEdges es"
  by (simp add: cloneEdges_def)

lemma clonePlan_idem [simp]: "clonePlan (clonePlan p) = clonePlan p"
  by (simp add: clonePlan_def)

lemma clonePlan_fields [simp]:
  "p_ID (clonePlan p) = p_ID p" "p_OwnerIdentity (clonePlan p) = p_OwnerIdentity p"
  "p_Revision (clonePlan p) = p_Revision p" "p_ParentRevision (clonePlan p) = p_ParentRevision p"
  "p_ParentDigest (clonePlan p) = p_ParentDigest p" "p_Digest (clonePlan p) = p_Digest p"
  "p_IdempotencyKey (clonePlan p) = p_IdempotencyKey p" "p_RequestDigest (clonePlan p) = p_RequestDigest p"
  "p_Status (clonePlan p) = p_Status p" "p_Nodes (clonePlan p) = p_Nodes p"
  "slice (p_Edges (clonePlan p)) = slice (p_Edges p)"
  by (simp_all add: clonePlan_def)

lemma normalizePlan_clonePlan: "normalizePlan (clonePlan p) = clonePlan (normalizePlan p)"
proof -
  have "sort_key pe_ID (map normalize_edge es) = [] \<longleftrightarrow> es = []" for es
    by (metis length_0_conv length_map length_sort)
  then show ?thesis
    by (cases "p_Edges p") (simp_all add: normalizePlan_def clonePlan_def cloneEdges_def slice_def)
qed

lemma validatePlan_clonePlan: "validatePlan (clonePlan p) = validatePlan p"
proof -
  have r: "p_Repair (clonePlan p) = p_Repair p" by (simp add: clonePlan_def)
  have g: "plan_guards (clonePlan p) = plan_guards p"
    unfolding plan_guards_def clonePlan_fields by (simp add: clonePlan_def)
  have rg: "repair_guards (clonePlan p) q = repair_guards p q" for q
    by (simp add: repair_guards_def)
  show ?thesis unfolding validatePlan_def clonePlan_fields r g rg ..
qed

section \<open>Append-only logs\<close>

text \<open>
  The contract of a store whose histories only grow: every step keeps the invariant and extends
  each history at its end.
\<close>

locale revision_log =
  fixes inv :: "'s \<Rightarrow> bool"
    and step :: "'s \<Rightarrow> 's \<Rightarrow> bool"
    and history :: "'s \<Rightarrow> 'k \<Rightarrow> 'p list"
  assumes step_inv: "inv s \<Longrightarrow> step s s' \<Longrightarrow> inv s'"
    and step_extends: "inv s \<Longrightarrow> step s s' \<Longrightarrow> prefix (history s k) (history s' k)"
begin

lemma reachable_inv: "step\<^sup>*\<^sup>* s s' \<Longrightarrow> inv s \<Longrightarrow> inv s'"
  by (induction rule: rtranclp_induct) (auto intro: step_inv)

lemma reachable_extends: "step\<^sup>*\<^sup>* s s' \<Longrightarrow> inv s \<Longrightarrow> prefix (history s k) (history s' k)"
proof (induction rule: rtranclp_induct)
  case (step t u)
  with reachable_inv [OF step(1)] have "prefix (history t k) (history u k)" by (intro step_extends)
  with step show ?case by (meson prefix_order.trans)
qed simp

lemma entry_stable:
  assumes "step\<^sup>*\<^sup>* s s'" "inv s" "i < length (history s k)"
  shows "i < length (history s' k) \<and> history s' k ! i = history s k ! i"
  using reachable_extends [OF assms(1,2), of k] assms(3) by (auto simp: prefix_def nth_append)

end

section \<open>The invariant of the store\<close>

text \<open>
  A revision as it is submitted: canonical, valid and with the digest of its own content; and as
  it is stored, the clone of one.
\<close>

definition checked :: "Hashing \<Rightarrow> Plan \<Rightarrow> bool" where
  "checked h p \<longleftrightarrow> normalizePlan p = p \<and> validatePlan p = None \<and> validDigest (p_Digest p) \<and>
     computeDigest h p = Some (p_Digest p)"

definition verified :: "Hashing \<Rightarrow> Plan \<Rightarrow> bool" where
  "verified h p \<longleftrightarrow> (\<exists>q. checked h q \<and> p = clonePlan q)"

lemma verifiedD:
  assumes "verified h p"
  shows "normalizePlan p = p" "validatePlan p = None" "clonePlan p = p" "validDigest (p_Digest p)"
    "\<exists>edges. slice edges = slice (p_Edges p) \<and> computeDigest h (p\<lparr>p_Edges := edges\<rparr>) = Some (p_Digest p)"
proof -
  obtain q where q: "checked h q" "p = clonePlan q" using assms by (auto simp: verified_def)
  then have "normalizePlan q = q" "validatePlan q = None" by (simp_all add: checked_def)
  with q show "normalizePlan p = p" "validatePlan p = None" "clonePlan p = p" "validDigest (p_Digest p)"
    by (simp_all add: normalizePlan_clonePlan validatePlan_clonePlan checked_def)
  have "p\<lparr>p_Edges := p_Edges q\<rparr> = q" using q(2) by (simp add: clonePlan_def)
  with q show "\<exists>edges. slice edges = slice (p_Edges p) \<and> computeDigest h (p\<lparr>p_Edges := edges\<rparr>) = Some (p_Digest p)"
    by (intro exI [of _ "p_Edges q"]) (simp add: checked_def)
qed

definition chained :: "Plan list \<Rightarrow> nat \<Rightarrow> bool" where
  "chained ps i \<longleftrightarrow> p_Revision (ps ! i) = word_of_nat (Suc i) \<and>
     (0 < i \<longrightarrow> p_ParentRevision (ps ! i) = p_Revision (ps ! (i - 1)) \<and>
        p_ParentDigest (ps ! i) = p_Digest (ps ! (i - 1)))"

definition history_ok :: "Hashing \<Rightarrow> string \<Rightarrow> uuid \<Rightarrow> Plan list \<Rightarrow> bool" where
  "history_ok h owner k ps \<longleftrightarrow> length ps < 2 ^ 64 \<and>
     (\<forall>p \<in> set ps. verified h p \<and> p_OwnerIdentity p = owner \<and> p_ID p = k) \<and>
     (\<forall>i < length ps. chained ps i)"

definition keys_ok :: "PlanStore \<Rightarrow> bool" where
  "keys_ok s \<longleftrightarrow> (\<forall>owner key k r. map_of (ps_keys s) (owner, key) = Some (k, r) \<longrightarrow> key \<noteq> '''' \<and>
     (\<exists>i < length (revisions_of s owner k). r = word_of_nat (Suc i) \<and>
        p_IdempotencyKey (revisions_of s owner k ! i) = key))"

definition plan_inv :: "Hashing \<Rightarrow> PlanStore \<Rightarrow> bool" where
  "plan_inv h s \<longleftrightarrow> (\<forall>owner k. history_ok h owner k (revisions_of s owner k)) \<and> keys_ok s"

lemma plan_inv_history: "plan_inv h s \<Longrightarrow> history_ok h owner k (revisions_of s owner k)"
  by (simp add: plan_inv_def)

lemma plan_inv_new: "plan_inv h NewPlanStore"
  by (simp add: plan_inv_def history_ok_def keys_ok_def NewPlanStore_def revisions_of_def)

lemma history_last:
  assumes "history_ok h owner k ps" "ps \<noteq> []"
  shows "verified h (last ps)" "p_OwnerIdentity (last ps) = owner" "p_ID (last ps) = k"
    "p_Revision (last ps) = word_of_nat (length ps)"
proof -
  have "last ps \<in> set ps" using assms(2) by simp
  with assms(1) show "verified h (last ps)" "p_OwnerIdentity (last ps) = owner" "p_ID (last ps) = k"
    by (auto simp: history_ok_def)
  have "chained ps (length ps - 1)" using assms by (simp add: history_ok_def)
  then show "p_Revision (last ps) = word_of_nat (length ps)"
    using assms(2) by (simp add: chained_def last_conv_nth)
qed

lemma revisions_append:
  "revisions_of (append_revision s q) owner k =
     (if owner = p_OwnerIdentity q \<and> k = p_ID q then revisions_of s owner k @ [clonePlan q]
      else revisions_of s owner k)"
  by (simp add: append_revision_def Let_def revisions_of_def update_conv')

lemma keys_append:
  "map_of (ps_keys (append_revision s q)) =
     (if p_IdempotencyKey q = '''' then map_of (ps_keys s)
      else (map_of (ps_keys s))((p_OwnerIdentity q, p_IdempotencyKey q) \<mapsto> (p_ID q, p_Revision q)))"
  by (simp add: append_revision_def Let_def update_conv')

text \<open>What the two checks of \<open>CreateRevision\<close> and the caller establish about a new revision.\<close>

definition next_revision :: "PlanStore \<Rightarrow> Plan \<Rightarrow> bool" where
  "next_revision s q \<longleftrightarrow>
     (let ps = revisions_of s (p_OwnerIdentity q) (p_ID q) in
      p_Revision q = word_of_nat (length ps) + 1 \<and>
      (ps \<noteq> [] \<longrightarrow> p_ParentRevision q = p_Revision (last ps) \<and> p_ParentDigest q = p_Digest (last ps)))"

lemma history_append:
  assumes h: "history_ok h owner k ps" and v: "verified h q" and o: "p_OwnerIdentity q = owner" "p_ID q = k"
    and r: "p_Revision q = word_of_nat (length ps) + 1"
    and p: "ps \<noteq> [] \<Longrightarrow> p_ParentRevision q = p_Revision (last ps) \<and> p_ParentDigest q = p_Digest (last ps)"
  shows "history_ok h owner k (ps @ [q])"
proof -
  have r': "p_Revision q = word_of_nat (Suc (length ps))" using r by simp
  have "p_Revision q \<noteq> 0" using plan_guards_passed(2) [OF verifiedD(2) [OF v]] .
  then have "Suc (length ps) mod 2 ^ 64 \<noteq> 0" unfolding r' by (auto simp: word_of_nat_eq_0_iff dvd_eq_mod_eq_0 simp del: of_nat_Suc)
  moreover have "length ps < 2 ^ 64" using h by (simp add: history_ok_def)
  ultimately have l: "Suc (length ps) < 2 ^ 64" by (cases "Suc (length ps) = 2 ^ 64") simp_all
  have "chained (ps @ [q]) i" if "i < Suc (length ps)" for i
  proof (cases "i = length ps")
    case True
    then show ?thesis using r' p by (cases ps rule: rev_cases) (auto simp: chained_def nth_append)
  next
    case False
    with that h have "chained ps i" "i < length ps" by (simp_all add: history_ok_def)
    then show ?thesis by (auto simp: chained_def nth_append)
  qed
  with l h v o show ?thesis by (auto simp: history_ok_def)
qed

lemma keys_ok_append:
  assumes k: "keys_ok s" and r: "p_Revision q = word_of_nat (length (revisions_of s (p_OwnerIdentity q) (p_ID q))) + 1"
  shows "keys_ok (append_revision s q)"
  unfolding keys_ok_def
proof (intro allI impI)
  fix owner key k' r'
  assume m: "map_of (ps_keys (append_revision s q)) (owner, key) = Some (k', r')"
  let ?ps = "revisions_of s (p_OwnerIdentity q) (p_ID q)"
  show "key \<noteq> '''' \<and> (\<exists>i < length (revisions_of (append_revision s q) owner k'). r' = word_of_nat (Suc i) \<and>
        p_IdempotencyKey (revisions_of (append_revision s q) owner k' ! i) = key)"
  proof (cases "p_IdempotencyKey q \<noteq> '''' \<and> owner = p_OwnerIdentity q \<and> key = p_IdempotencyKey q")
    case True
    with m have "k' = p_ID q" "r' = p_Revision q" by (auto simp: keys_append)
    with True r show ?thesis
      by (auto simp: revisions_append intro!: exI [of _ "length ?ps"])
  next
    case False
    with m have "map_of (ps_keys s) (owner, key) = Some (k', r')" by (auto simp: keys_append split: if_splits)
    with k obtain i where "key \<noteq> ''''" "i < length (revisions_of s owner k')" "r' = word_of_nat (Suc i)"
      "p_IdempotencyKey (revisions_of s owner k' ! i) = key" unfolding keys_ok_def by blast
    then show ?thesis by (auto simp: revisions_append nth_append intro!: exI [of _ i])
  qed
qed

lemma append_inv:
  assumes "plan_inv h s" "checked h q" "next_revision s q"
  shows "plan_inv h (append_revision s q)"
proof -
  note n = assms(3) [unfolded next_revision_def Let_def]
  have "verified h (clonePlan q)" using assms(2) by (auto simp: verified_def)
  from history_append [OF plan_inv_history [OF assms(1)] this refl refl] n plan_inv_history [OF assms(1)]
  have "history_ok h owner k (revisions_of (append_revision s q) owner k)" for owner k
    by (simp add: revisions_append)
  with keys_ok_append n assms(1) show ?thesis by (simp add: plan_inv_def)
qed

section \<open>Every step appends at most one verified revision\<close>


lemma invalid_if_Inr [simp]: "invalid_if p = Inr u \<longleftrightarrow> p = None"
  by (cases p) (simp_all add: invalid_if_def)

lemma digest_of_Inr [simp]: "digest_of h p = Inr d \<longleftrightarrow> computeDigest h p = Some d"
  by (cases "computeDigest h p") (simp_all add: digest_of_def)

lemma validateStoredPlan_iff:
  "validateStoredPlan h p = Inr u \<longleftrightarrow> validatePlan (normalizePlan p) = None \<and> validDigest (p_Digest p) \<and>
     computeDigest h p = Some (p_Digest p)"
  by (auto simp: validateStoredPlan_def and_then_Inr_iff)

lemma validateStoredPlan_checked:
  "validateStoredPlan h (normalizePlan p) = Inr u \<longleftrightarrow> checked h (normalizePlan p)"
  by (simp add: validateStoredPlan_iff checked_def normalizePlan_again)

lemma keyed_revision_None: "keyed_revision s owner key = None \<longleftrightarrow> map_of (ps_keys s) (owner, key) = None"
  by (simp add: keyed_revision_def)

lemma CreateRevision_cases [consumes 1, case_names same stored]:
  assumes "CreateRevision h s p expected = (r, s')"
  obtains "s' = s"
  | "r = Inr ()" "s' = append_revision s (normalizePlan p)" "checked h (normalizePlan p)"
    "expected = word_of_nat (length (revisions_of s (p_OwnerIdentity (normalizePlan p)) (p_ID p)))"
    "p_Revision p = expected + 1"
    "p_IdempotencyKey (normalizePlan p) \<noteq> '''' \<Longrightarrow>
       map_of (ps_keys s) (p_OwnerIdentity (normalizePlan p), p_IdempotencyKey (normalizePlan p)) = None"
proof (cases "s' = s")
  case False
  let ?q = "normalizePlan p"
  have f: "p_ID ?q = p_ID p" "p_Revision ?q = p_Revision p" by (simp_all add: normalizePlan_def)
  let ?old = "if p_IdempotencyKey ?q = '''' then None
      else keyed_revision s (p_OwnerIdentity ?q) (p_IdempotencyKey ?q)"
  let ?n = "word_of_nat (length (revisions_of s (p_OwnerIdentity ?q) (p_ID p))) :: 64 word"
  note a = assms [unfolded CreateRevision_def Let_def f]
  from a False obtain u where v: "validateStoredPlan h ?q = Inr u"
    by (cases "validateStoredPlan h ?q") simp_all
  from a [unfolded v sum.case] False have o: "?old = None"
    by (cases ?old) (simp_all split: sum.splits)
  from a [unfolded v o sum.case option.case] False
  have n: "expected = ?n" "p_Revision p = ?n + 1" "r = Inr ()" "s' = append_revision s ?q"
    by (simp_all split: if_splits)
  show thesis
  proof (rule that(2))
    show "checked h ?q" using v by (simp add: validateStoredPlan_checked)
    show "map_of (ps_keys s) (p_OwnerIdentity ?q, p_IdempotencyKey ?q) = None" if "p_IdempotencyKey ?q \<noteq> ''''"
      using o that by (simp add: keyed_revision_None)
  qed (use n in simp_all)
qed (rule that(1))

lemma store_revision_cases [consumes 1, case_names same stored]:
  assumes "store_revision h s p previous recover = (r, s')"
  obtains "s' = s"
  | d where "r = Inr (clonePlan (p\<lparr>p_Digest := d\<rparr>))"
    "s' = append_revision s (normalizePlan (p\<lparr>p_Digest := d\<rparr>))" "checked h (normalizePlan (p\<lparr>p_Digest := d\<rparr>))"
    "previous = word_of_nat (length (revisions_of s (p_OwnerIdentity (normalizePlan p)) (p_ID p)))"
    "p_Revision p = previous + 1"
proof (cases "s' = s")
  case False
  with assms obtain d where d: "digest_of h p = Inr d"
    unfolding store_revision_def by (auto split: sum.splits)
  obtain r1 s1 where c: "CreateRevision h s (p\<lparr>p_Digest := d\<rparr>) previous = (r1, s1)" by fastforce
  with assms False d have s1: "s1 = s'" "r = (case r1 of Inl e \<Rightarrow> recover s1 (p\<lparr>p_Digest := d\<rparr>) e | Inr u \<Rightarrow> Inr (clonePlan (p\<lparr>p_Digest := d\<rparr>)))"
    unfolding store_revision_def by (auto simp: Let_def split: sum.splits)
  from c show thesis
  proof (cases rule: CreateRevision_cases)
    case stored
    with s1 show thesis by (intro that(2) [of d]) (simp_all add: normalizePlan_Digest)
  qed (use False s1 in simp)
qed (rule that(1))

text \<open>The revision a step may append.\<close>

definition may_append :: "Hashing \<Rightarrow> PlanStore \<Rightarrow> PlanStore \<Rightarrow> bool" where
  "may_append h s s' \<longleftrightarrow> s' = s \<or> (\<exists>q. checked h q \<and> next_revision s q \<and> s' = append_revision s q)"

lemma may_append_same [simp]: "may_append h s s"
  by (simp add: may_append_def)

lemma may_append_store:
  assumes "store_revision h s p previous recover = (r, s')" and p: "normalizePlan p = p"
    and parent: "previous = word_of_nat (length (revisions_of s (p_OwnerIdentity p) (p_ID p))) \<Longrightarrow>
      revisions_of s (p_OwnerIdentity p) (p_ID p) \<noteq> [] \<Longrightarrow>
      p_ParentRevision p = p_Revision (last (revisions_of s (p_OwnerIdentity p) (p_ID p))) \<and>
      p_ParentDigest p = p_Digest (last (revisions_of s (p_OwnerIdentity p) (p_ID p)))"
  shows "may_append h s s'"
  using assms(1)
proof (cases rule: store_revision_cases)
  case (stored d)
  let ?q = "p\<lparr>p_Digest := d\<rparr>"
  have q: "normalizePlan ?q = ?q" using p by (simp add: normalizePlan_Digest)
  have "next_revision s ?q" using stored(4,5) parent p by (simp add: next_revision_def Let_def)
  with stored q show ?thesis unfolding may_append_def by metis
qed simp

lemma stored_clone:
  assumes "plan_inv h s" "p \<in> set (revisions_of s owner k)"
  shows "clonePlan p = p"
  using plan_inv_history [OF assms(1), of owner k] assms(2) verifiedD(3) by (auto simp: history_ok_def)

lemma GetLatest_Inr:
  assumes "plan_inv h s"
  shows "GetLatest s owner k = Inr p \<longleftrightarrow>
     revisions_of s (TrimSpace owner) k \<noteq> [] \<and> p = last (revisions_of s (TrimSpace owner) k)"
  using stored_clone [OF assms last_in_set] by (auto simp: GetLatest_def Let_def)

lemma next_after_last:
  assumes "plan_inv h s" "GetLatest s owner k = Inr current" "p_OwnerIdentity q = TrimSpace owner" "p_ID q = k"
    "p_ParentRevision q = p_Revision current" "p_ParentDigest q = p_Digest current"
    "revisions_of s (p_OwnerIdentity q) (p_ID q) \<noteq> []"
  shows "p_ParentRevision q = p_Revision (last (revisions_of s (p_OwnerIdentity q) (p_ID q))) \<and>
      p_ParentDigest q = p_Digest (last (revisions_of s (p_OwnerIdentity q) (p_ID q)))"
  using assms by (simp add: GetLatest_Inr [OF assms(1)])

lemma empty_history:
  assumes "plan_inv h s" "word_of_nat (length (revisions_of s owner k)) = (0 :: 64 word)"
  shows "revisions_of s owner k = []"
proof -
  have "length (revisions_of s owner k) < 2 ^ 64"
    using plan_inv_history [OF assms(1), of owner k] by (simp add: history_ok_def)
  with assms(2) show ?thesis by (auto simp: word_of_nat_eq_0_iff dest: nat_dvd_not_less)
qed

lemma current_fields:
  assumes "plan_inv h s" "GetLatest s owner k = Inr current"
  shows "p_OwnerIdentity current = TrimSpace owner" "p_ID current = k" "verified h current"
  using history_last [OF plan_inv_history [OF assms(1)]] assms(2) by (auto simp: GetLatest_Inr [OF assms(1)])

lemma normalized_fields [simp]:
  "p_ID (normalizePlan p) = p_ID p" "p_Revision (normalizePlan p) = p_Revision p"
  "p_ParentRevision (normalizePlan p) = p_ParentRevision p" "p_ParentDigest (normalizePlan p) = p_ParentDigest p"
  "p_OwnerIdentity (normalizePlan p) = TrimSpace (p_OwnerIdentity p)" "p_Status (normalizePlan p) = p_Status p"
  by (simp_all add: normalizePlan_def)

lemma Accept_appends:
  assumes "plan_inv h s" "Accept h s now owner k request = (r, s')"
  shows "may_append h s s'"
proof (cases "s' = s")
  case False
  from assms(2) False obtain current where c: "GetLatest s (TrimSpace owner) k = Inr current"
    by (auto simp: Accept_def split: sum.splits)
  let ?p = "accepted_revision current (TrimSpace (ar_AcceptedBy request)) now"
  from assms(2) False c have "store_revision h s ?p (p_Revision current) fail_with = (r, s')"
    unfolding Accept_def by (simp add: Let_def split: if_splits)
  note cf = current_fields [OF assms(1) c]
  have "p_OwnerIdentity ?p = TrimSpace (TrimSpace owner)" "p_ID ?p = k"
    "p_ParentRevision ?p = p_Revision current" "p_ParentDigest ?p = p_Digest current"
    using cf by (simp_all add: accepted_revision_def)
  note n = next_after_last [OF assms(1) c this]
  show ?thesis
    by (rule may_append_store) (fact, simp add: accepted_revision_def normalizePlan_again, rule n)
qed simp

lemma Replan_appends:
  assumes "plan_inv h s" "Replan h s now owner k request = (r, s')"
  shows "may_append h s s'"
proof (cases "s' = s")
  case False
  let ?key = "TrimSpace (rr_IdempotencyKey request)"
  note a = assms(2) [unfolded Replan_def Let_def]
  from a False obtain d where d: "computeRequestDigest h (rr_Title request) (rr_Nodes request)
      (rr_Edges request) (rr_Reason request) (rr_Trigger request) = Some d"
    by (simp split: if_splits option.splits)
  from a [unfolded d option.case] False obtain current where c: "GetLatest s (TrimSpace owner) k = Inr current"
    by (cases "GetLatest s (TrimSpace owner) k") (simp_all split: if_splits sum.splits)
  let ?p = "repaired_revision k (TrimSpace owner) ?key d request current now"
  from a [unfolded d c option.case sum.case] False
  have "store_revision h s ?p (p_Revision current) fail_with = (r, s')"
    by (simp split: if_splits sum.splits)
  have "p_OwnerIdentity ?p = TrimSpace (TrimSpace owner)" "p_ID ?p = k"
    "p_ParentRevision ?p = p_Revision current" "p_ParentDigest ?p = p_Digest current"
    by (simp_all add: repaired_revision_def Let_def)
  note n = next_after_last [OF assms(1) c this]
  show ?thesis
    by (rule may_append_store) (fact, simp add: repaired_revision_def Let_def normalizePlan_again, rule n)
qed simp

lemma Preview_appends:
  assumes "plan_inv h s" "Preview h s now fresh owner request = (r, s')"
  shows "may_append h s s'"
proof (cases "s' = s")
  case False
  note a = assms(2) [unfolded Preview_def Let_def]
  from a False obtain d where d: "computeRequestDigest h (pr_Title request) (pr_Nodes request)
      (pr_Edges request) '''' '''' = Some d"
    by (simp split: if_splits option.splits)
  from a [unfolded d option.case] False obtain p rec where p: "store_revision h s (normalizePlan p) 0 rec = (r, s')"
    by (simp split: if_splits sum.splits)
  show ?thesis
    by (rule may_append_store [OF p normalizePlan_again]) (use empty_history [OF assms(1)] in metis)
qed simp

text \<open>One call of the service, with any arguments.\<close>

inductive plan_step :: "Hashing \<Rightarrow> PlanStore \<Rightarrow> PlanStore \<Rightarrow> bool" for h where
  previewed: "Preview h s now fresh owner request = (r, s') \<Longrightarrow> plan_step h s s'"
| accepted: "Accept h s now owner k request' = (r, s') \<Longrightarrow> plan_step h s s'"
| replanned: "Replan h s now owner k request'' = (r, s') \<Longrightarrow> plan_step h s s'"

lemma plan_step_appends: "plan_step h s s' \<Longrightarrow> plan_inv h s \<Longrightarrow> may_append h s s'"
  by (induction rule: plan_step.induct) (auto intro: Preview_appends Accept_appends Replan_appends)

interpretation plans: revision_log "plan_inv h" "plan_step h" "\<lambda>s (owner, k). revisions_of s owner k" for h
proof
  fix s s' and ok :: "string \<times> uuid"
  assume i: "plan_inv h s" and "plan_step h s s'"
  with plan_step_appends have m: "may_append h s s'" by blast
  show "plan_inv h s'" using m i append_inv by (auto simp: may_append_def)
  show "prefix (case ok of (owner, k) \<Rightarrow> revisions_of s owner k) (case ok of (owner, k) \<Rightarrow> revisions_of s' owner k)"
    using m by (auto simp: may_append_def revisions_append split: prod.splits)
qed

section \<open>Successful calls\<close>

lemma CreateRevision_ok:
  assumes "CreateRevision h s p expected = (Inr u, s')" "normalizePlan p = p"
    and "p_IdempotencyKey p = '''' \<or> keyed_revision s (p_OwnerIdentity p) (p_IdempotencyKey p) = None"
  shows "s' = append_revision s p \<and> checked h p \<and> p_Revision p = expected + 1 \<and>
    expected = word_of_nat (length (revisions_of s (p_OwnerIdentity p) (p_ID p)))"
proof -
  note a = assms(1) [unfolded CreateRevision_def Let_def assms(2)]
  from a obtain u where v: "validateStoredPlan h p = Inr u"
    by (cases "validateStoredPlan h p") simp_all
  have o: "(if p_IdempotencyKey p = '''' then None
      else keyed_revision s (p_OwnerIdentity p) (p_IdempotencyKey p)) = None"
    using assms(3) by auto
  have "checked h p" using v validateStoredPlan_checked [of h p] assms(2) by simp
  with a [unfolded v o sum.case option.case] show ?thesis by (simp split: if_splits)
qed

lemma store_revision_ok:
  assumes "store_revision h s p previous recover = (Inr x, s')" "normalizePlan p = p"
    and "p_IdempotencyKey p = '''' \<or> keyed_revision s (p_OwnerIdentity p) (p_IdempotencyKey p) = None"
    and "\<And>q e y. recover s q e \<noteq> Inr y"
  shows "\<exists>d q. q = p\<lparr>p_Digest := d\<rparr> \<and> x = clonePlan q \<and> s' = append_revision s q \<and> checked h q \<and>
    p_Revision q = previous + 1 \<and> previous = word_of_nat (length (revisions_of s (p_OwnerIdentity q) (p_ID q)))"
proof -
  from assms(1) obtain d where d: "digest_of h p = Inr d"
    unfolding store_revision_def by (auto split: sum.splits)
  let ?p = "p\<lparr>p_Digest := d\<rparr>"
  have n: "normalizePlan ?p = ?p" using assms(2) by (simp add: normalizePlan_Digest)
  obtain r1 s1 where c: "CreateRevision h s ?p previous = (r1, s1)" by fastforce
  from assms(1) [unfolded store_revision_def d sum.case Let_def c prod.case]
  have r: "(case r1 of Inl e \<Rightarrow> (recover s1 ?p e, s1) | Inr _ \<Rightarrow> (Inr (clonePlan ?p), s1)) = (Inr x, s')"
    by (auto split: sum.splits)
  show ?thesis
  proof (cases r1)
    case (Inl e)
    from c Inl have "s1 = s" by (cases rule: CreateRevision_cases) simp_all
    with r Inl assms(4) show ?thesis by simp
  next
    case (Inr u)
    with r have "x = clonePlan ?p" "s1 = s'" by simp_all
    with CreateRevision_ok [OF c [unfolded Inr] n] assms(3) show ?thesis by auto
  qed
qed

lemma GetLatest_append:
  "TrimSpace owner = p_OwnerIdentity q \<Longrightarrow> k = p_ID q \<Longrightarrow>
     GetLatest (append_revision s q) owner k = Inr (clonePlan q)"
  by (simp add: GetLatest_def revisions_append)

lemma Find_append:
  assumes "length (revisions_of s (p_OwnerIdentity q) (p_ID q)) < 2 ^ 64" "p_IdempotencyKey q \<noteq> ''''"
    and "p_Revision q = word_of_nat (length (revisions_of s (p_OwnerIdentity q) (p_ID q))) + 1"
  shows "keyed_revision (append_revision s q) (p_OwnerIdentity q) (p_IdempotencyKey q) = Some (Inr (clonePlan q))"
  using assms
  by (simp add: keyed_revision_def keys_append revision_at_def revisions_append Let_def
      unsigned_of_nat take_bit_nat_eq_self nth_append)

lemma keyed_revision_not_found: "FindByIdempotencyKey s owner key = Inl ErrNotFound \<Longrightarrow>
     keyed_revision s (TrimSpace owner) (TrimSpace key) = None"
  by (auto simp: FindByIdempotencyKey_def keyed_revision_def revision_at_def cloned_def Let_def
      split: option.splits if_splits)

lemma plain_hex_digit: "hex_digit c \<Longrightarrow> plain_head c \<and> plain_last c"
  by (auto simp: hex_digit_def plain_head_def plain_last_def ascii_space_def Let_def)

lemma validDigest_fixed:
  assumes "validDigest d"
  shows "ToLower d = d" "TrimSpace d = d"
proof -
  show "ToLower d = d" using assms by (simp add: validDigest_def)
  have "d \<noteq> []" "\<forall>c \<in> set d. hex_digit c" using assms by (auto simp: validDigest_def list_all_iff)
  then show "TrimSpace d = d" using plain_hex_digit by (intro TrimSpace_plain) simp_all
qed

text \<open>A preview that answers with a plan leaves that plan under the key of the request.\<close>

lemma Preview_found:
  assumes "plan_inv h s" and "Preview h s now fresh owner request = (Inr p, s')"
  obtains d where
    "computeRequestDigest h (pr_Title request) (pr_Nodes request) (pr_Edges request) '''' '''' = Some d"
    "TrimSpace (pr_IdempotencyKey request) \<noteq> ''''" "\<not> 255 < length (TrimSpace (pr_IdempotencyKey request))"
    "FindByIdempotencyKey s' (TrimSpace owner) (TrimSpace (pr_IdempotencyKey request)) = Inr p"
    "p_RequestDigest p = d \<or> p_RequestDigest p = ToLower (TrimSpace d)"
proof -
  let ?key = "TrimSpace (pr_IdempotencyKey request)" and ?owner = "TrimSpace owner"
  note a = assms(2) [unfolded Preview_def Let_def]
  from a obtain d where d: "computeRequestDigest h (pr_Title request) (pr_Nodes request)
      (pr_Edges request) '''' '''' = Some d" and key: "?key \<noteq> ''''" "\<not> 255 < length ?key"
    by (simp split: if_splits option.splits)
  note a = a [unfolded d option.case if_not_P [OF key(2)]]
  show thesis
  proof (cases "FindByIdempotencyKey s ?owner ?key")
    case (Inr existing)
    with a key have "existing = p" "s' = s" "p_RequestDigest existing = d" by (simp_all split: if_splits)
    with Inr that d key show ?thesis by simp
  next
    case (Inl e)
    define q where "q = normalizePlan (zero_plan\<lparr>
        p_ID := (if pr_PlanID request = uuid_nil then fresh else pr_PlanID request),
        p_OwnerIdentity := ?owner, p_Title := pr_Title request, p_Status := StatusDraft,
        p_Revision := 1, p_IdempotencyKey := ?key, p_RequestDigest := d,
        p_Nodes := pr_Nodes request, p_Edges := pr_Edges request,
        p_CreatedBy := pr_CreatedBy request, p_CreatedAt := now\<rparr>)"
    from a key Inl have e: "e = ErrNotFound" and st: "store_revision h s q 0 (recover_preview ?owner ?key) = (Inr p, s')"
      by (simp_all add: q_def split: if_splits)
    have f: "p_OwnerIdentity q = ?owner" "p_IdempotencyKey q = ?key" "normalizePlan q = q"
      "p_RequestDigest q = ToLower (TrimSpace d)"
      by (simp_all add: q_def normalizePlan_again) (simp_all add: normalizePlan_def)
    have n: "p_IdempotencyKey q = '''' \<or> keyed_revision s (p_OwnerIdentity q) (p_IdempotencyKey q) = None"
      using Inl e f keyed_revision_not_found [of s ?owner ?key] by simp
    have rc: "recover_preview ?owner ?key s q' e' \<noteq> Inr y" for q' e' y
      using Inl by (simp add: recover_preview_def)
    obtain d' q' where q': "q' = q\<lparr>p_Digest := d'\<rparr>" "p = clonePlan q'" "s' = append_revision s q'"
      "p_Revision q' = 0 + 1" "0 = (word_of_nat (length (revisions_of s (p_OwnerIdentity q') (p_ID q'))) :: 64 word)"
      using store_revision_ok [OF st f(3) n rc] by (elim exE conjE) (rule that; assumption)
    have "length (revisions_of s (p_OwnerIdentity q') (p_ID q')) < 2 ^ 64"
      using plan_inv_history [OF assms(1)] by (simp add: history_ok_def)
    from Find_append [OF this] q' f key have "keyed_revision s' ?owner ?key = Some (Inr p)" by simp
    then show ?thesis by (intro that [OF d key]) (simp_all add: FindByIdempotencyKey_def cloned_def q'(1,2) f)
  qed
qed

lemma last_revision_eq:
  assumes "plan_inv h s" "GetLatest s owner k = Inr p"
  shows "unat (p_Revision p) = length (revisions_of s (TrimSpace owner) k)"
proof -
  let ?ps = "revisions_of s (TrimSpace owner) k"
  from assms(2) have ps: "?ps \<noteq> []" "p = last ?ps" by (simp_all add: GetLatest_Inr [OF assms(1)])
  note h = plan_inv_history [OF assms(1), of "TrimSpace owner" k]
  have "length ?ps < 2 ^ 64" using h by (simp add: history_ok_def)
  with history_last(4) [OF h ps(1)] ps(2) show ?thesis by (simp add: unsigned_of_nat take_bit_nat_eq_self)
qed

lemma GetRevision_iff:
  assumes "plan_inv h s"
  shows "GetRevision s owner k r = Inr p \<longleftrightarrow> r \<noteq> 0 \<and>
    unat (r - 1) < length (revisions_of s (TrimSpace owner) k) \<and> p = revisions_of s (TrimSpace owner) k ! unat (r - 1)"
proof (cases "r = 0")
  case False
  let ?ps = "revisions_of s (TrimSpace owner) k"
  have l: "length ?ps < 2 ^ 64"
    using plan_inv_history [OF assms(1), of "TrimSpace owner" k] by (simp add: history_ok_def)
  have "unat r = Suc (unat (r - 1))" using False by (simp add: unat_minus_one unat_gt_0)
  then have "word_of_nat (length ?ps) < r \<longleftrightarrow> \<not> unat (r - 1) < length ?ps"
    using l by (auto simp: word_less_nat_alt unsigned_of_nat take_bit_nat_eq_self)
  with False show ?thesis
    using stored_clone [OF assms nth_mem, of "unat (r - 1)" "TrimSpace owner" k]
    by (auto simp: GetRevision_def revision_at_def cloned_def Let_def)
qed (simp add: GetRevision_def Let_def)

lemma revision_kept:
  assumes i: "plan_inv h s" and "(plan_step h)\<^sup>*\<^sup>* s s'" and "GetRevision s owner k r = Inr p"
  shows "GetRevision s' owner k r = Inr p"
  using assms(3) plans.entry_stable [OF assms(2) i, of "unat (r - 1)" "(TrimSpace owner, k)"]
    GetRevision_iff [OF i] GetRevision_iff [OF plans.reachable_inv [OF assms(2) i]] by auto

section \<open>References to accepted revisions\<close>

lemma GetRevision_last:
  assumes "plan_inv h s" "GetLatest s owner k = Inr p"
  shows "GetRevision s owner k (p_Revision p) = Inr p"
proof -
  let ?ps = "revisions_of s (TrimSpace owner) k"
  have ps: "?ps \<noteq> []" "p = last ?ps" using assms(2) by (simp_all add: GetLatest_Inr [OF assms(1)])
  note l = last_revision_eq [OF assms]
  with ps(1) have "p_Revision p \<noteq> 0" by (auto simp: unat_eq_0)
  with ps l show ?thesis by (simp add: GetRevision_iff [OF assms(1)] unat_minus_one last_conv_nth)
qed

lemma acceptedRevisionBinding_Inr:
  assumes "acceptedRevisionBinding p ref = Inr b"
  shows "p_Status p = StatusAccepted \<and> p_AcceptedAt p = Some (bd_AcceptedAt b) \<and>
    bd_PlanID b = rf_PlanID ref \<and> p_ID p = rf_PlanID ref \<and>
    bd_Revision b = rf_Revision ref \<and> p_Revision p = rf_Revision ref \<and>
    bd_Digest b = rf_Digest ref \<and> p_Digest p = rf_Digest ref \<and>
    bd_Node b \<in> set (p_Nodes p) \<and> pn_ID (bd_Node b) = rf_NodeID ref \<and>
    bd_Nodes b = p_Nodes p \<and> bd_Edges b = cloneEdges (p_Edges p) \<and> \<not> bd_CanExecute b"
proof -
  note a = assms [unfolded acceptedRevisionBinding_def]
  from a obtain t where t: "p_Status p = StatusAccepted" "p_AcceptedAt p = Some t"
    by (auto split: if_splits PlanStatus.splits option.splits)
  from a obtain n where n: "find (\<lambda>n. pn_ID n = rf_NodeID ref) (p_Nodes p) = Some n"
    by (auto simp: t split: if_splits option.splits)
  from a [unfolded t n prod.case PlanStatus.case option.case]
  have e: "p_ID p = rf_PlanID ref" "p_Revision p = rf_Revision ref" "p_Digest p = rf_Digest ref"
    and b: "b = \<lparr>bd_PlanID = p_ID p, bd_Revision = p_Revision p, bd_Digest = p_Digest p,
       bd_NodeID = pn_ID n, bd_PlanTitle = p_Title p, bd_Node = n, bd_Nodes = p_Nodes p,
       bd_Edges = cloneEdges (p_Edges p), bd_AcceptedAt = t, bd_CanExecute = False\<rparr>"
    by (simp_all split: if_splits)
  from n have "n \<in> set (p_Nodes p)" "pn_ID n = rf_NodeID ref" by (auto simp: find_Some_iff)
  with t e b show ?thesis by simp
qed

lemma ResolveAccepted_Inr:
  assumes "ResolveAccepted s owner ref = Inr b"
  obtains p where "GetLatest s (TrimSpace owner) (rf_PlanID ref) = Inr p"
    "acceptedRevisionBinding p (normalize_reference ref) = Inr b"
    "\<not> reference_malformed (TrimSpace owner) (normalize_reference ref)"
  using assms by (auto simp: ResolveAccepted_def Let_def and_then_Inr_iff normalize_reference_def split: if_splits)

end
