(* ===== verification/PlanTheorems.thy ===== *)
theory PlanTheorems
  imports PlanFacts
begin

text \<open>
  What the plan graph service guarantees: the dependency check decides acyclicity, every stored
  revision is valid and carries the digest of its content, history is immutable, retries return
  what the first call returned, and a resolved reference names an accepted latest revision.
\<close>

section \<open>A concrete store\<close>

definition demo_digest :: string where
  "demo_digest = replicate 64 (CHR ''0'')"

definition demo_hash :: Hashing where
  "demo_hash = \<lparr>hash_plan = (\<lambda>e. Some demo_digest), hash_request = (\<lambda>e. Some demo_digest)\<rparr>"

definition demo_plan_node :: "string \<Rightarrow> PlanNode" where
  "demo_plan_node k = \<lparr>pn_ID = k, pn_Type = ''task'', pn_Title = k, pn_Owner = ''o'', pn_Status = NodePlanned,
     pn_EstimatedMinutes = 30, pn_EstimatedCostEUR = Fin 0, pn_EarliestStart = None, pn_Deadline = None,
     pn_Risk = RiskLow, pn_ApprovalState = ApprovalNotRequired, pn_FrameworkDigest = '''',
     pn_EvidenceDigest = '''', pn_Bindings = \<lparr>b_PursuitID = '''', b_WorkflowID = '''', b_TaskID = '''', b_AgentID = ''''\<rparr>\<rparr>"

definition demo_plan_edges :: "PlanEdge list" where
  "demo_plan_edges = [\<lparr>pe_ID = ''e'', pe_From = ''a'', pe_To = ''b'', pe_Type = '''', pe_LagMinutes = 0\<rparr>]"

definition demo_preview :: PreviewRequest where
  "demo_preview = \<lparr>pr_PlanID = 5, pr_IdempotencyKey = ''k'', pr_Title = ''t'',
     pr_Nodes = [demo_plan_node ''b'', demo_plan_node ''a''], pr_Edges = Some demo_plan_edges, pr_CreatedBy = ''o''\<rparr>"

definition demo_accept :: AcceptRequest where
  "demo_accept = \<lparr>ar_ExpectedRevision = 1, ar_ExpectedDigest = demo_digest, ar_AcceptedBy = ''o''\<rparr>"

definition demo_draft :: PlanStore where
  "demo_draft = snd (Preview demo_hash NewPlanStore 7000 9 ''o'' demo_preview)"

definition demo_accepted :: PlanStore where
  "demo_accepted = snd (Accept demo_hash demo_draft 8000 ''o'' 5 demo_accept)"


lemma draft_reachable: "(plan_step demo_hash)\<^sup>*\<^sup>* NewPlanStore demo_draft"
  by (rule r_into_rtranclp, rule plan_step.previewed, unfold demo_draft_def, rule prod.collapse [symmetric])

lemma accepted_step: "(plan_step demo_hash)\<^sup>*\<^sup>* demo_draft demo_accepted"
  by (rule r_into_rtranclp, rule plan_step.accepted, unfold demo_accepted_def, rule prod.collapse [symmetric])

section \<open>Validation\<close>

text \<open>
  C31. The dependency check is exact: for nodes with distinct identifiers and edges between them,
  the topological count accepts the plan if and only if the edges form no cycle.
\<close>

theorem validateDAG_exact:
  assumes "distinct (map pn_ID nodes)"
    and "pe_From ` set edges \<subseteq> pn_ID ` set nodes" and "pe_To ` set edges \<subseteq> pn_ID ` set nodes"
  shows "validateDAG nodes edges = None \<longleftrightarrow> acyclic {(pe_From e, pe_To e) | e. e \<in> set edges}"
proof -
  have "\<forall>e \<in> set edges. pe_From e \<in> pn_ID ` set nodes \<and> pe_To e \<in> pn_ID ` set nodes"
    using assms(2,3) by auto
  moreover have "{(pe_From e, pe_To e) | e. e \<in> set edges} = set (plan_arcs edges)"
    by (auto simp: set_plan_arcs)
  ultimately show ?thesis by (simp only: validateDAG_iff [OF assms(1)])
qed

theorem validateDAG_exact_witness:
  "acyclic {(pe_From e, pe_To e) | e. e \<in> set demo_plan_edges}"
proof -
  let ?ns = "[demo_plan_node ''a'', demo_plan_node ''b'']"
  have "validateDAG ?ns demo_plan_edges = None" by code_simp
  moreover have "distinct (map pn_ID ?ns)" "pe_From ` set demo_plan_edges \<subseteq> pn_ID ` set ?ns"
    "pe_To ` set demo_plan_edges \<subseteq> pn_ID ` set ?ns"
    by (simp_all add: demo_plan_node_def demo_plan_edges_def)
  ultimately show ?thesis using validateDAG_exact by blast
qed

section \<open>The store\<close>



text \<open>
  History is immutable: a revision that can be read can be read unchanged after any further
  calls of the service.
\<close>

theorem revisions_immutable:
  assumes "(plan_step h)\<^sup>*\<^sup>* NewPlanStore s" and "(plan_step h)\<^sup>*\<^sup>* s s'"
    and "GetRevision s owner k revision = Inr p"
  shows "GetRevision s' owner k revision = Inr p"
  by (rule revision_kept [OF plans.reachable_inv [OF assms(1) plan_inv_new] assms(2,3)])

theorem revisions_immutable_witness:
  "\<exists>p. GetRevision demo_draft ''o'' 5 1 = Inr p \<and> GetRevision demo_accepted ''o'' 5 1 = Inr p"
proof -
  have "isl (GetRevision demo_draft ''o'' 5 1) = False" by code_simp
  then obtain p where "GetRevision demo_draft ''o'' 5 1 = Inr p" by (cases "GetRevision demo_draft ''o'' 5 1") simp_all
  with revisions_immutable [OF draft_reachable accepted_step] show ?thesis by blast
qed

section \<open>Retries\<close>

text \<open>
  Accepting is idempotent: the request that was accepted, sent again at any later time, returns
  the same revision and leaves the store as it is.
\<close>

theorem Accept_retry:
  assumes "(plan_step h)\<^sup>*\<^sup>* NewPlanStore s" and "Accept h s now owner k request = (Inr p, s')"
  shows "Accept h s' later owner k request = (Inr p, s')"
proof -
  from assms(2) obtain c where c: "GetLatest s (TrimSpace owner) k = Inr c"
    by (auto simp: Accept_def split: sum.splits)
  note cf = current_fields [OF plans.reachable_inv [OF assms(1) plan_inv_new] c]
  let ?p = "accepted_revision c (TrimSpace (ar_AcceptedBy request)) now"
  let ?digest = "TrimSpace (ar_ExpectedDigest request)"
  note a = assms(2) [unfolded Accept_def c sum.case Let_def]
  show ?thesis
  proof (cases "p_Status c \<noteq> StatusAccepted \<and> p_Revision c = ar_ExpectedRevision request \<and> p_Digest c = ?digest")
    case False
    with a have "s' = s" "p = c" by (auto split: if_splits)
    moreover have "Accept h s later owner k request = Accept h s now owner k request"
      using False by (auto simp: Accept_def c Let_def)
    ultimately show ?thesis using assms(2) by simp
  next
    case True
    with a have "store_revision h s ?p (p_Revision c) fail_with = (Inr p, s')" by (simp split: if_splits)
    moreover have "normalizePlan ?p = ?p" by (simp add: accepted_revision_def normalizePlan_again)
    moreover have "p_IdempotencyKey ?p = ''''" by (simp add: accepted_revision_def normalizePlan_def zero_plan_def)
    ultimately obtain d q where q: "q = ?p\<lparr>p_Digest := d\<rparr>" "p = clonePlan q" "s' = append_revision s q"
      by (auto simp: fail_with_def dest: store_revision_ok)
    have f: "p_OwnerIdentity q = TrimSpace (TrimSpace owner)" "p_ID q = k" "p_Status q = StatusAccepted"
      "p_Revision q = p_Revision c + 1" "p_ParentRevision q = p_Revision c" "p_ParentDigest q = p_Digest c"
      using cf by (simp_all add: q(1) accepted_revision_def)
    then have "GetLatest s' (TrimSpace owner) k = Inr p" unfolding q(2,3) by (intro GetLatest_append) simp_all
    with f q(2) True show ?thesis by (simp add: Accept_def)
  qed
qed

theorem Accept_retry_witness:
  "snd (Accept demo_hash demo_accepted 9000 ''o'' 5 demo_accept) = demo_accepted"
proof -
  have "isl (fst (Accept demo_hash demo_draft 8000 ''o'' 5 demo_accept)) = False" by code_simp
  then obtain p where "fst (Accept demo_hash demo_draft 8000 ''o'' 5 demo_accept) = Inr p"
    by (cases "fst (Accept demo_hash demo_draft 8000 ''o'' 5 demo_accept)") simp_all
  then have "Accept demo_hash demo_draft 8000 ''o'' 5 demo_accept = (Inr p, demo_accepted)"
    by (simp add: demo_accepted_def prod_eq_iff)
  from Accept_retry [OF draft_reachable this, of 9000] show ?thesis by simp
qed

text \<open>
  Previewing is idempotent: when request digests are the hex digests of SHA-256, the request that
  was answered with a plan, sent again at any later time, returns the same plan and stores nothing.
\<close>

theorem Preview_retry:
  assumes "(plan_step h)\<^sup>*\<^sup>* NewPlanStore s" and "\<And>e d. hash_request h e = Some d \<Longrightarrow> validDigest d"
    and "Preview h s now fresh owner request = (Inr p, s')"
  shows "Preview h s' later fresh' owner request = (Inr p, s')"
proof -
  obtain d where d: "computeRequestDigest h (pr_Title request) (pr_Nodes request) (pr_Edges request) '''' '''' = Some d"
    and key: "TrimSpace (pr_IdempotencyKey request) \<noteq> ''''" "\<not> 255 < length (TrimSpace (pr_IdempotencyKey request))"
    and p: "FindByIdempotencyKey s' (TrimSpace owner) (TrimSpace (pr_IdempotencyKey request)) = Inr p"
      "p_RequestDigest p = d \<or> p_RequestDigest p = ToLower (TrimSpace d)"
    using Preview_found [OF plans.reachable_inv [OF assms(1) plan_inv_new] assms(3)] .
  have "validDigest d" using d assms(2) by (auto simp: computeRequestDigest_def Let_def)
  then have "p_RequestDigest p = d" using p(2) by (auto simp: validDigest_fixed)
  with d key p(1) show ?thesis by (simp add: Preview_def)
qed

theorem Preview_retry_witness:
  "snd (Preview demo_hash demo_draft 9000 1 ''o'' demo_preview) = demo_draft"
proof -
  have "isl (fst (Preview demo_hash NewPlanStore 7000 9 ''o'' demo_preview)) = False" by code_simp
  then obtain p where "fst (Preview demo_hash NewPlanStore 7000 9 ''o'' demo_preview) = Inr p"
    by (cases "fst (Preview demo_hash NewPlanStore 7000 9 ''o'' demo_preview)") simp_all
  then have p: "Preview demo_hash NewPlanStore 7000 9 ''o'' demo_preview = (Inr p, demo_draft)"
    by (simp add: demo_draft_def prod_eq_iff)
  have "validDigest demo_digest" by code_simp
  then have "Preview demo_hash demo_draft 9000 1 ''o'' demo_preview = (Inr p, demo_draft)"
    by (intro Preview_retry [OF rtranclp.rtrancl_refl _ p]) (simp add: demo_hash_def)
  then show ?thesis by simp
qed

section \<open>Bindings to accepted revisions\<close>

text \<open>
  C33. A reference only resolves to an accepted latest revision that is valid: the binding names its
  number and its digest, a node of it, the time it was accepted, and grants no execution.
\<close>

theorem ResolveAccepted_safe:
  assumes "(plan_step h)\<^sup>*\<^sup>* NewPlanStore s" and "ResolveAccepted s owner reference = Inr b"
  shows "\<exists>p. GetLatest s owner (rf_PlanID reference) = Inr p \<and> p_Status p = StatusAccepted \<and>
    p_AcceptedAt p = Some (bd_AcceptedAt b) \<and> bd_Revision b = p_Revision p \<and>
    p_Revision p = rf_Revision reference \<and> validatePlan p = None \<and> bd_Digest b = p_Digest p \<and>
    bd_Digest b = ToLower (TrimSpace (rf_Digest reference)) \<and> bd_Node b \<in> set (p_Nodes p) \<and>
    pn_ID (bd_Node b) = TrimSpace (rf_NodeID reference) \<and> \<not> bd_CanExecute b"
proof -
  obtain p where p: "GetLatest s (TrimSpace owner) (rf_PlanID reference) = Inr p"
    and b: "acceptedRevisionBinding p (normalize_reference reference) = Inr b"
    using ResolveAccepted_Inr [OF assms(2)] .
  have "validatePlan p = None"
    using current_fields(3) [OF plans.reachable_inv [OF assms(1) plan_inv_new] p] by (rule verifiedD)
  with p acceptedRevisionBinding_Inr [OF b] show ?thesis
    by (intro exI [of _ p]) (simp add: normalize_reference_def GetLatest_def)
qed

definition demo_reference :: AcceptedRevisionReference where
  "demo_reference = \<lparr>rf_PlanID = 5, rf_Revision = 2, rf_Digest = demo_digest, rf_NodeID = '' a ''\<rparr>"

theorem ResolveAccepted_safe_witness:
  "\<exists>b p. ResolveAccepted demo_accepted ''o'' demo_reference = Inr b \<and> GetLatest demo_accepted ''o'' 5 = Inr p \<and>
     p_Status p = StatusAccepted \<and> pn_ID (bd_Node b) = ''a''"
proof -
  have "isl (ResolveAccepted demo_accepted ''o'' demo_reference) = False" by code_simp
  then obtain b where b: "ResolveAccepted demo_accepted ''o'' demo_reference = Inr b"
    by (cases "ResolveAccepted demo_accepted ''o'' demo_reference") simp_all
  have "TrimSpace '' a '' = ''a''" by code_simp
  with b ResolveAccepted_safe [OF rtranclp_trans [OF draft_reachable accepted_step] b] show ?thesis
    by (auto simp: demo_reference_def)
qed

text \<open>
  A binding outlives later calls: by its number the reference resolves to the same binding for
  ever, and as the latest revision it does so until a newer revision exists, from when on it is
  refused as stale.
\<close>

theorem binding_stable:
  assumes "(plan_step h)\<^sup>*\<^sup>* NewPlanStore s" and "ResolveAccepted s owner reference = Inr b"
    and "(plan_step h)\<^sup>*\<^sup>* s s'"
  shows "ResolveAcceptedRevision s' owner reference = Inr b \<and>
    ResolveAccepted s' owner reference =
      (if length (revisions_of s' (TrimSpace owner) (rf_PlanID reference)) =
          length (revisions_of s (TrimSpace owner) (rf_PlanID reference))
       then Inr b else Inl ErrReferenceStale)"
proof -
  let ?k = "rf_PlanID reference"
  let ?ps = "revisions_of s (TrimSpace owner) ?k" and ?ps' = "revisions_of s' (TrimSpace owner) ?k"
  note i = plans.reachable_inv [OF assms(1) plan_inv_new] and i' = plans.reachable_inv [OF assms(3)]
  obtain p where p: "GetLatest s (TrimSpace owner) ?k = Inr p"
    and b: "acceptedRevisionBinding p (normalize_reference reference) = Inr b"
    and m: "\<not> reference_malformed (TrimSpace owner) (normalize_reference reference)"
    using ResolveAccepted_Inr [OF assms(2)] .
  note f = acceptedRevisionBinding_Inr [OF b]
  have k: "rf_PlanID (normalize_reference reference) = ?k" by (simp add: normalize_reference_def)
  have "GetRevision s' (TrimSpace owner) ?k (p_Revision p) = Inr p"
    using GetRevision_last [OF i p] by (rule revision_kept [OF i assms(3)])
  then have revision: "ResolveAcceptedRevision s' owner reference = Inr b"
    using m f b k by (simp add: ResolveAcceptedRevision_def Let_def)
  have "prefix ?ps ?ps'" using plans.reachable_extends [OF assms(3) i, of "(TrimSpace owner, ?k)"] by simp
  moreover have ps: "?ps \<noteq> []" "p = last ?ps" using p by (simp_all add: GetLatest_Inr [OF i])
  ultimately obtain q where q: "GetLatest s' (TrimSpace owner) ?k = Inr q"
    and same: "length ?ps' = length ?ps \<Longrightarrow> q = p"
    by (auto simp: GetLatest_Inr [OF i' [OF i]] prefix_def)
  have "p_Revision q = p_Revision p \<longleftrightarrow> length ?ps' = length ?ps"
    using last_revision_eq [OF i p] last_revision_eq [OF i' [OF i] q] by (simp add: word_unat_eq_iff)
  with same revision m f b k q show ?thesis by (auto simp: ResolveAccepted_def Let_def)
qed

theorem binding_stable_witness:
  "\<exists>b. ResolveAcceptedRevision demo_accepted ''o'' demo_reference = Inr b"
proof -
  have "isl (ResolveAccepted demo_accepted ''o'' demo_reference) = False" by code_simp
  then obtain b where b: "ResolveAccepted demo_accepted ''o'' demo_reference = Inr b"
    by (cases "ResolveAccepted demo_accepted ''o'' demo_reference") simp_all
  from binding_stable [OF rtranclp_trans [OF draft_reachable accepted_step] b rtranclp.rtrancl_refl]
  show ?thesis by blast
qed

section \<open>The digest of a plan without edges\<close>

text \<open>
  \<open>cloneEdges\<close> turns an empty slice into nil, and JSON encodes the two differently, so the digest of
  a plan and the digest of its clone can differ.
\<close>

lemma digest_differs:
  assumes "computeDigest h q = Some (p_Digest q)" "p_Edges q = Some []"
    and "\<And>e. hash_plan h (e\<lparr>de_Edges := None\<rparr>) \<noteq> hash_plan h (e\<lparr>de_Edges := Some []\<rparr>)"
  shows "computeDigest h (clonePlan q) \<noteq> Some (p_Digest (clonePlan q))"
proof -
  let ?e = "plan_envelope (normalizePlan q)"
  have "plan_envelope (normalizePlan (clonePlan q)) = ?e\<lparr>de_Edges := None\<rparr>"
    using assms(2) by (simp add: plan_envelope_def normalizePlan_def clonePlan_def cloneEdges_def slice_def)
  moreover have "?e = ?e\<lparr>de_Edges := Some []\<rparr>"
    using assms(2) by (simp add: plan_envelope_def normalizePlan_def)
  ultimately show ?thesis using assms(1,3) unfolding computeDigest_def by (metis clonePlan_fields(6))
qed

text \<open>
  As soon as the hash tells null from an empty list, a plan previewed with an empty list of
  edges is answered with a digest that its own content does not have.
\<close>

theorem empty_edges_digest_broken:
  assumes "Preview h NewPlanStore now fresh owner request = (Inr p, s')" "pr_Edges request = Some []"
    and "\<And>e. hash_plan h (e\<lparr>de_Edges := None\<rparr>) \<noteq> hash_plan h (e\<lparr>de_Edges := Some []\<rparr>)"
  shows "computeDigest h p \<noteq> Some (p_Digest p)"
proof -
  have f: "FindByIdempotencyKey NewPlanStore o1 key = Inl ErrNotFound" for o1 key
    by (simp add: FindByIdempotencyKey_def keyed_revision_def NewPlanStore_def)
  note a = assms(1) [unfolded Preview_def Let_def f sum.case]
  from a obtain d where d: "computeRequestDigest h (pr_Title request) (pr_Nodes request)
      (pr_Edges request) '''' '''' = Some d"
    by (simp split: if_splits option.splits)
  define q where "q = zero_plan\<lparr>
      p_ID := (if pr_PlanID request = uuid_nil then fresh else pr_PlanID request),
      p_OwnerIdentity := TrimSpace owner, p_Title := pr_Title request, p_Status := StatusDraft,
      p_Revision := 1, p_IdempotencyKey := TrimSpace (pr_IdempotencyKey request), p_RequestDigest := d,
      p_Nodes := pr_Nodes request, p_Edges := pr_Edges request,
      p_CreatedBy := pr_CreatedBy request, p_CreatedAt := now\<rparr>"
  define rec where "rec = recover_preview (TrimSpace owner) (TrimSpace (pr_IdempotencyKey request))"
  from a [unfolded d option.case] have st: "store_revision h NewPlanStore (normalizePlan q) 0 rec = (Inr p, s')"
    by (simp add: q_def rec_def split: if_splits)
  have e: "p_Edges q = Some []" by (simp add: q_def assms(2))
  have r: "rec NewPlanStore q' e' \<noteq> Inr y" for q' e' y
    by (simp add: rec_def recover_preview_def f)
  have "keyed_revision NewPlanStore o1 key = None" for o1 key
    by (simp add: keyed_revision_def NewPlanStore_def)
  then obtain d' q' where q': "q' = (normalizePlan q)\<lparr>p_Digest := d'\<rparr>" "p = clonePlan q'" "checked h q'"
    using store_revision_ok [OF st normalizePlan_again disjI2 r] by auto
  have "computeDigest h q' = Some (p_Digest q')" using q'(3) by (simp add: checked_def)
  moreover have "p_Edges q' = Some []" using e by (simp add: q'(1) normalizePlan_def)
  ultimately show ?thesis unfolding q'(2) using assms(3) by (rule digest_differs)
qed

definition edge_hash :: Hashing where
  "edge_hash = \<lparr>hash_plan = (\<lambda>e. Some (if de_Edges e = None then demo_digest else replicate 64 (CHR ''1''))),
     hash_request = (\<lambda>e. Some demo_digest)\<rparr>"

definition empty_preview :: PreviewRequest where
  "empty_preview = demo_preview\<lparr>pr_Edges := Some []\<rparr>"

theorem empty_edges_digest_broken_witness:
  "\<exists>p s'. Preview edge_hash NewPlanStore 7000 9 ''o'' empty_preview = (Inr p, s') \<and>
     computeDigest edge_hash p \<noteq> Some (p_Digest p)"
proof -
  have "isl (fst (Preview edge_hash NewPlanStore 7000 9 ''o'' empty_preview)) = False" by code_simp
  then obtain p where "fst (Preview edge_hash NewPlanStore 7000 9 ''o'' empty_preview) = Inr p"
    by (cases "fst (Preview edge_hash NewPlanStore 7000 9 ''o'' empty_preview)") simp_all
  then obtain s' where p: "Preview edge_hash NewPlanStore 7000 9 ''o'' empty_preview = (Inr p, s')"
    by (metis prod.collapse)
  have "computeDigest edge_hash p \<noteq> Some (p_Digest p)"
    by (rule empty_edges_digest_broken [OF p])
      (simp_all add: empty_preview_def edge_hash_def demo_digest_def numeral_eq_Suc)
  with p show ?thesis by blast
qed

end
