(* ===== verification/AgentMessages.thy ===== *)
theory AgentMessages
  imports Prelude
begin

text \<open>
  Coordination messages between agents (\<open>internal/agentcoordination\<close>): the types (\<open>types.go\<close>) and
  the validation of messages, delegations and acknowledgments (\<open>validation.go\<close>). What the code
  takes from other packages is the record \<open>AgentLib\<close>: the UUID parser, the JSON decoder, the
  digests of JSON envelopes, the name-based UUID and \<open>safety.RedactSecrets\<close>. Go's \<open>int\<close> and
  \<open>time.Duration\<close> are integers; a difference of instants saturates and a product wraps at 64 bits.
\<close>

section \<open>Types\<close>

datatype MessageType =
    MessageTypeRequest | MessageTypeProposal | MessageTypeEvidence | MessageTypeStatus
  | MessageTypeDecision | MessageTypeAcknowledgment | MessageTypeEscalation | MessageTypeConflict
  | MessageTypeOther string

datatype Confidentiality =
    ConfidentialityInternal | ConfidentialityRestricted | ConfidentialityOther string

record AgentRef =
  a_ID :: string
  a_Role :: string
  a_AuthorityCeiling :: int

record MessagePayload =
  mp_Schema :: string
  mp_Subject :: string
  mp_Data :: string

record Message =
  m_ID :: string
  m_IdempotencyKey :: string
  m_CorrelationID :: string
  m_CausationID :: string
  m_SchemaVersion :: string
  m_Type :: MessageType
  m_Sender :: AgentRef
  m_Recipient :: AgentRef
  m_Confidentiality :: Confidentiality
  m_AuthorityLevel :: int
  m_Payload :: MessagePayload
  m_PayloadDigest :: string
  m_EvidenceRefs :: "string list"
  m_RequiresAck :: bool
  m_CreatedAt :: instant
  m_ExpiresAt :: instant
  m_HumanApprovalRef :: string
  m_ProvenanceSummary :: string

datatype ExecutionMode =
    ExecutionModePlanOnly | ExecutionModeRecommend | ExecutionModeDraft
  | ExecutionModeExecuteLowRisk | ExecutionModeOther string

datatype ApprovalMode =
    ApprovalModeNotRequired | ApprovalBeforeExecution | ApprovalModeOther string

datatype ResourceAccess = ResourceRead | ResourceWrite | ResourceAccessOther string

record ResourceClaim =
  rc_Resource :: string
  rc_Access :: ResourceAccess
  rc_Exclusive :: bool

datatype DelegationStatus =
    DelegationProposed | DelegationAccepted | DelegationRejected | DelegationInProgress
  | DelegationBlocked | DelegationCompleted | DelegationCancelled | DelegationExpired
  | DelegationEscalated | DelegationStatusOther string

record DelegationEvent =
  dv_From :: DelegationStatus
  dv_To :: DelegationStatus
  dv_ActorID :: string
  dv_Reason :: string
  dv_CreatedAt :: instant

record DelegationEnvelope =
  dl_ID :: string
  dl_TaskID :: string
  dl_IdempotencyKey :: string
  dl_CorrelationID :: string
  dl_Principal :: AgentRef
  dl_Delegate :: AgentRef
  dl_Objective :: string
  dl_SuccessCriteria :: "string list"
  dl_StopConditions :: "string list"
  dl_AllowedTools :: "string list"
  dl_ProhibitedActions :: "string list"
  dl_ResourceClaims :: "ResourceClaim list"
  dl_ExecutionMode :: ExecutionMode
  dl_ApprovalMode :: ApprovalMode
  dl_RequiredAuthority :: int
  dl_HumanApprovalRef :: string
  dl_EvidenceRefs :: "string list"
  dl_Status :: DelegationStatus
  dl_CreatedAt :: instant
  dl_DueAt :: instant
  dl_UpdatedAt :: instant
  dl_StatusReason :: string
  dl_CompletionEvidence :: "string list"
  dl_Transitions :: "DelegationEvent list"

datatype AcknowledgmentStatus =
    AcknowledgmentAccepted | AcknowledgmentRejected | AcknowledgmentDeferred
  | AcknowledgmentStatusOther string

record Acknowledgment =
  ak_ID :: string
  ak_MessageID :: string
  ak_CorrelationID :: string
  ak_RecipientID :: string
  ak_Status :: AcknowledgmentStatus
  ak_Reason :: string
  ak_CreatedAt :: instant
  ak_RetryAfter :: "instant option"
  ak_IdempotencyKey :: string

record ValidationPolicy =
  vp_SchemaVersion :: string
  vp_MaximumAuthority :: int
  vp_MaximumMessageTTL :: int
  vp_MaximumPayloadBytes :: int
  vp_AllowedMessageTypes :: "MessageType list"
  vp_AllowedConfidentiality :: "Confidentiality list"
  vp_AllowedExecutionModes :: "ExecutionMode list"
  vp_RequireProvenance :: bool
  vp_RequireDecisionEvidence :: bool
  vp_RequireRedaction :: bool

section \<open>Text\<close>

definition normalizeID :: "string \<Rightarrow> string" where
  "normalizeID value = ToLower (Join (Fields (TrimSpace value)) ''-'')"

definition normalizeText :: "string \<Rightarrow> string" where
  "normalizeText value = Join (Fields (TrimSpace value)) '' ''"

fun distinct_texts :: "string list \<Rightarrow> string list \<Rightarrow> string list" where
  "distinct_texts seen [] = []"
| "distinct_texts seen (value # values) =
     (let value = normalizeText value in
      if value = '''' then distinct_texts seen values
      else if value \<in> set seen then distinct_texts seen values
      else value # distinct_texts (value # seen) values)"

definition normalizeStrings :: "string list \<Rightarrow> string list" where
  "normalizeStrings values = sort (distinct_texts [] values)"

text \<open>\<open>strings.NewReplacer("-", "", "_", "", " ", "").Replace\<close>\<close>

definition strip_separators :: "string \<Rightarrow> string" where
  "strip_separators s = filter (\<lambda>c. c \<notin> set ''-_ '') s"

section \<open>The library the code calls\<close>

record MessageEnvelope =
  me_SchemaVersion :: string
  me_CorrelationID :: string
  me_CausationID :: string
  me_Type :: MessageType
  me_SenderID :: string
  me_RecipientID :: string
  me_Confidentiality :: Confidentiality
  me_AuthorityLevel :: int
  me_PayloadSchema :: string
  me_PayloadSubject :: string
  me_PayloadData :: string
  me_EvidenceRefs :: "string list"
  me_RequiresAck :: bool
  me_HumanApprovalRef :: string
  me_ProvenanceSummary :: string

record AcknowledgmentEnvelope =
  ae_MessageID :: string
  ae_CorrelationID :: string
  ae_RecipientID :: string
  ae_Status :: AcknowledgmentStatus
  ae_Reason :: string
  ae_CreatedAt :: instant
  ae_RetryAfter :: "instant option"
  ae_IdempotencyKey :: string

text \<open>
  \<open>uuid.Parse\<close> succeeds; \<open>json.Valid\<close>; the first value \<open>Decode\<close> reads; \<open>safety.RedactSecrets\<close>; the
  hex digests of the JSON of an envelope (\<open>None\<close> where it cannot be encoded); the hex digest of
  bytes; \<open>uuid.NewSHA1\<close> of a name.
\<close>

record AgentLib =
  lib_uuid :: "string \<Rightarrow> bool"
  lib_json_valid :: "string \<Rightarrow> bool"
  lib_json :: "string \<Rightarrow> JSON option"
  lib_redact :: "string \<Rightarrow> string"
  lib_message_digest :: "MessageEnvelope \<Rightarrow> string option"
  lib_acknowledgment_digest :: "AcknowledgmentEnvelope \<Rightarrow> string option"
  lib_decision_digest :: "string \<Rightarrow> string \<Rightarrow> JSON \<Rightarrow> string option"
  lib_sha256 :: "string \<Rightarrow> string"
  lib_name_uuid :: "string \<Rightarrow> string"

section \<open>Digests\<close>

definition message_envelope :: "Message \<Rightarrow> MessageEnvelope" where
  "message_envelope message =
     \<lparr>me_SchemaVersion = TrimSpace (m_SchemaVersion message),
      me_CorrelationID = TrimSpace (m_CorrelationID message),
      me_CausationID = TrimSpace (m_CausationID message),
      me_Type = m_Type message,
      me_SenderID = normalizeID (a_ID (m_Sender message)),
      me_RecipientID = normalizeID (a_ID (m_Recipient message)),
      me_Confidentiality = m_Confidentiality message,
      me_AuthorityLevel = m_AuthorityLevel message,
      me_PayloadSchema = TrimSpace (mp_Schema (m_Payload message)),
      me_PayloadSubject = normalizeText (mp_Subject (m_Payload message)),
      me_PayloadData = TrimSpace (mp_Data (m_Payload message)),
      me_EvidenceRefs = normalizeStrings (m_EvidenceRefs message),
      me_RequiresAck = m_RequiresAck message,
      me_HumanApprovalRef = TrimSpace (m_HumanApprovalRef message),
      me_ProvenanceSummary = normalizeText (m_ProvenanceSummary message)\<rparr>"

definition ComputeMessageDigest :: "AgentLib \<Rightarrow> Message \<Rightarrow> string option" where
  "ComputeMessageDigest lib message = lib_message_digest lib (message_envelope message)"

definition ComputeAcknowledgmentDigest :: "AgentLib \<Rightarrow> Acknowledgment \<Rightarrow> string option" where
  "ComputeAcknowledgmentDigest lib acknowledgment = lib_acknowledgment_digest lib
     \<lparr>ae_MessageID = TrimSpace (ak_MessageID acknowledgment),
      ae_CorrelationID = TrimSpace (ak_CorrelationID acknowledgment),
      ae_RecipientID = normalizeID (ak_RecipientID acknowledgment),
      ae_Status = ak_Status acknowledgment,
      ae_Reason = normalizeText (ak_Reason acknowledgment),
      ae_CreatedAt = ak_CreatedAt acknowledgment,
      ae_RetryAfter = ak_RetryAfter acknowledgment,
      ae_IdempotencyKey = TrimSpace (ak_IdempotencyKey acknowledgment)\<rparr>"

section \<open>Secrets\<close>

definition secret_keys :: "string list" where
  "secret_keys = [''password'', ''passwd'', ''pwd'', ''secret'', ''token'', ''apikey'', ''accesstoken'',
     ''refreshtoken'', ''clientsecret'', ''authorization'', ''privatekey'']"

definition normalizedKey :: "string \<Rightarrow> string" where
  "normalizedKey key = ToLower (strip_separators (TrimSpace key))"

definition leaks :: "AgentLib \<Rightarrow> string \<Rightarrow> bool" where
  "leaks lib value \<longleftrightarrow> lib_redact lib value \<noteq> value"

fun inspect :: "AgentLib \<Rightarrow> JSON \<Rightarrow> bool"
  and inspect_fields :: "AgentLib \<Rightarrow> (string \<times> JSON) list \<Rightarrow> bool"
  and inspect_items :: "AgentLib \<Rightarrow> JSON list \<Rightarrow> bool" where
  "inspect lib (JObject members) = inspect_fields lib members"
| "inspect lib (JArray items) = inspect_items lib items"
| "inspect lib (JString s) = leaks lib s"
| "inspect lib _ = False"
| "inspect_fields lib [] = False"
| "inspect_fields lib ((key, child) # members) =
     (if normalizedKey key \<in> set secret_keys then True
      else if inspect lib child then True
      else inspect_fields lib members)"
| "inspect_items lib [] = False"
| "inspect_items lib (child # items) = (if inspect lib child then True else inspect_items lib items)"

definition jsonContainsSecret :: "AgentLib \<Rightarrow> string \<Rightarrow> bool" where
  "jsonContainsSecret lib raw =
     (case lib_json lib raw of None \<Rightarrow> False | Some value \<Rightarrow> inspect lib value)"

definition containsSecret :: "AgentLib \<Rightarrow> Message \<Rightarrow> bool" where
  "containsSecret lib message =
     (if jsonContainsSecret lib (mp_Data (m_Payload message)) then True
      else list_ex (leaks lib)
        ([a_ID (m_Sender message), a_Role (m_Sender message), a_ID (m_Recipient message),
          a_Role (m_Recipient message), mp_Subject (m_Payload message), mp_Data (m_Payload message),
          m_HumanApprovalRef message, m_ProvenanceSummary message] @ m_EvidenceRefs message))"

definition delegationContainsSecret :: "AgentLib \<Rightarrow> DelegationEnvelope \<Rightarrow> bool" where
  "delegationContainsSecret lib delegation = list_ex (leaks lib)
     ([dl_Objective delegation, dl_StatusReason delegation, dl_HumanApprovalRef delegation] @
      dl_SuccessCriteria delegation @ dl_StopConditions delegation @ dl_AllowedTools delegation @
      dl_ProhibitedActions delegation @ dl_EvidenceRefs delegation @ dl_CompletionEvidence delegation)"

section \<open>Validation\<close>

datatype AgentProblem =
    PolicyIncomplete | NotAUUID | CausationIsMessage | SchemaNotAccepted | TypeNotAccepted
  | ConfidentialityNotAccepted | AgentIncomplete string | CeilingInvalid string
  | PartiesMustDiffer | AuthorityExceedsCeiling | PayloadIncomplete | PayloadTooLarge
  | TimesRequired | CreatedInFuture | ExpiryInvalid | TTLExceeded | ProvenanceRequired
  | EvidenceRequired | ContainsSecret | DigestNotComputed | PayloadDigestMismatch
  | ObjectiveRequired | SuccessCriteriaRequired | StopConditionsRequired
  | ProhibitedActionsRequired | ModeNotAccepted | ApprovalModeInvalid | HumanApprovalRequired
  | ApprovalRefRequired | DelegationStatusInvalid | DueTimeInvalid | UpdateBeforeCreation
  | ClaimWithoutResource | ClaimAccessInvalid | DuplicateClaim | EnvelopeMismatch
  | RetryNotAllowed | ReasonRequired | RetryTimeRequired | AcknowledgmentStatusInvalid
  | CreationTimeInvalid

definition minute :: int where "minute = 60 * 10 ^ 9"
definition hour :: int where "hour = 60 * minute"

definition DefaultValidationPolicy :: ValidationPolicy where
  "DefaultValidationPolicy =
     \<lparr>vp_SchemaVersion = ''hai-agent-coordination-v1'', vp_MaximumAuthority = 4,
      vp_MaximumMessageTTL = 24 * hour, vp_MaximumPayloadBytes = 64 * 1024,
      vp_AllowedMessageTypes = [MessageTypeRequest, MessageTypeProposal, MessageTypeEvidence,
        MessageTypeStatus, MessageTypeDecision, MessageTypeAcknowledgment, MessageTypeEscalation,
        MessageTypeConflict],
      vp_AllowedConfidentiality = [ConfidentialityInternal, ConfidentialityRestricted],
      vp_AllowedExecutionModes = [ExecutionModePlanOnly, ExecutionModeRecommend, ExecutionModeDraft,
        ExecutionModeExecuteLowRisk],
      vp_RequireProvenance = True, vp_RequireDecisionEvidence = True, vp_RequireRedaction = True\<rparr>"

definition policy_incomplete :: "ValidationPolicy \<Rightarrow> bool" where
  "policy_incomplete policy \<longleftrightarrow>
     TrimSpace (vp_SchemaVersion policy) = '''' \<or> vp_MaximumAuthority policy < 0 \<or>
     10 < vp_MaximumAuthority policy \<or> vp_MaximumMessageTTL policy \<le> 0 \<or>
     vp_MaximumPayloadBytes policy \<le> 0 \<or> vp_AllowedMessageTypes policy = [] \<or>
     vp_AllowedConfidentiality policy = [] \<or> vp_AllowedExecutionModes policy = []"

definition requireUUID :: "AgentLib \<Rightarrow> string \<Rightarrow> bool" where
  "requireUUID lib value \<longleftrightarrow> lib_uuid lib (TrimSpace value)"

definition agent_guards :: "string \<Rightarrow> AgentRef \<Rightarrow> int \<Rightarrow> (bool \<times> AgentProblem) list" where
  "agent_guards name agent maximumAuthority = [
     (normalizeID (a_ID agent) = '''' \<or> normalizeText (a_Role agent) = '''', AgentIncomplete name),
     (a_AuthorityCeiling agent < 0 \<or> maximumAuthority < a_AuthorityCeiling agent, CeilingInvalid name)]"

definition identity_guards :: "AgentLib \<Rightarrow> ValidationPolicy \<Rightarrow> Message \<Rightarrow> (bool \<times> AgentProblem) list" where
  "identity_guards lib policy message = [
     (policy_incomplete policy, PolicyIncomplete),
     (\<not> requireUUID lib (m_ID message), NotAUUID),
     (\<not> requireUUID lib (m_IdempotencyKey message), NotAUUID),
     (\<not> requireUUID lib (m_CorrelationID message), NotAUUID),
     (m_CausationID message \<noteq> '''' \<and> \<not> requireUUID lib (m_CausationID message), NotAUUID),
     (m_CausationID message \<noteq> '''' \<and> m_CausationID message = m_ID message, CausationIsMessage),
     (TrimSpace (m_SchemaVersion message) \<noteq> TrimSpace (vp_SchemaVersion policy), SchemaNotAccepted),
     (m_Type message \<notin> set (vp_AllowedMessageTypes policy), TypeNotAccepted),
     (m_Confidentiality message \<notin> set (vp_AllowedConfidentiality policy), ConfidentialityNotAccepted)]"

definition authority_guards :: "ValidationPolicy \<Rightarrow> Message \<Rightarrow> (bool \<times> AgentProblem) list" where
  "authority_guards policy message = [
     (a_ID (m_Sender message) = a_ID (m_Recipient message), PartiesMustDiffer),
     (m_AuthorityLevel message < 0 \<or> vp_MaximumAuthority policy < m_AuthorityLevel message \<or>
      a_AuthorityCeiling (m_Sender message) < m_AuthorityLevel message \<or>
      a_AuthorityCeiling (m_Recipient message) < m_AuthorityLevel message, AuthorityExceedsCeiling)]"

definition content_guards ::
  "AgentLib \<Rightarrow> ValidationPolicy \<Rightarrow> Message \<Rightarrow> instant \<Rightarrow> (bool \<times> AgentProblem) list" where
  "content_guards lib policy message now =
     (let payload = m_Payload message; createdAt = m_CreatedAt message; expiresAt = m_ExpiresAt message in [
     (TrimSpace (mp_Schema payload) = '''' \<or> TrimSpace (mp_Subject payload) = '''' \<or>
      TrimSpace (mp_Data payload) = '''' \<or> \<not> lib_json_valid lib (mp_Data payload), PayloadIncomplete),
     (vp_MaximumPayloadBytes policy < int (length (mp_Data payload)), PayloadTooLarge),
     (createdAt = 0 \<or> expiresAt = 0, TimesRequired),
     (now + 5 * minute < createdAt, CreatedInFuture),
     (\<not> createdAt < expiresAt \<or> \<not> now < expiresAt, ExpiryInvalid),
     (vp_MaximumMessageTTL policy < time_Sub expiresAt createdAt, TTLExceeded),
     (vp_RequireProvenance policy \<and> TrimSpace (m_ProvenanceSummary message) = '''', ProvenanceRequired),
     (vp_RequireDecisionEvidence policy \<and> m_Type message = MessageTypeDecision \<and>
      normalizeStrings (m_EvidenceRefs message) = [], EvidenceRequired),
     (vp_RequireRedaction policy \<and> containsSecret lib message, ContainsSecret)])"

definition ValidateMessage ::
  "AgentLib \<Rightarrow> ValidationPolicy \<Rightarrow> Message \<Rightarrow> instant \<Rightarrow> AgentProblem option" where
  "ValidateMessage lib policy message now =
     (case first_error
        (identity_guards lib policy message @
         agent_guards ''sender'' (m_Sender message) (vp_MaximumAuthority policy) @
         agent_guards ''recipient'' (m_Recipient message) (vp_MaximumAuthority policy) @
         authority_guards policy message @ content_guards lib policy message now) of
       Some problem \<Rightarrow> Some problem
     | None \<Rightarrow>
         (case ComputeMessageDigest lib message of
           None \<Rightarrow> Some DigestNotComputed
         | Some digest \<Rightarrow>
             if \<not> EqualFold (TrimSpace (m_PayloadDigest message)) digest
             then Some PayloadDigestMismatch else None))"

text \<open>
  The four identifiers of a delegation are looked at in the order of a Go map; the model's error
  does not tell them apart.
\<close>

definition delegation_guards ::
  "AgentLib \<Rightarrow> ValidationPolicy \<Rightarrow> DelegationEnvelope \<Rightarrow> (bool \<times> AgentProblem) list" where
  "delegation_guards lib policy delegation =
     [(policy_incomplete policy, PolicyIncomplete),
      (\<not> requireUUID lib (dl_ID delegation) \<or> \<not> requireUUID lib (dl_TaskID delegation) \<or>
       \<not> requireUUID lib (dl_IdempotencyKey delegation) \<or>
       \<not> requireUUID lib (dl_CorrelationID delegation), NotAUUID)] @
     agent_guards ''principal'' (dl_Principal delegation) (vp_MaximumAuthority policy) @
     agent_guards ''delegate'' (dl_Delegate delegation) (vp_MaximumAuthority policy) @
     [(a_ID (dl_Principal delegation) = a_ID (dl_Delegate delegation), PartiesMustDiffer),
      (normalizeText (dl_Objective delegation) = '''', ObjectiveRequired),
      (normalizeStrings (dl_SuccessCriteria delegation) = [], SuccessCriteriaRequired),
      (normalizeStrings (dl_StopConditions delegation) = [], StopConditionsRequired),
      (normalizeStrings (dl_ProhibitedActions delegation) = [], ProhibitedActionsRequired)]"

definition execution_guards ::
  "ValidationPolicy \<Rightarrow> DelegationEnvelope \<Rightarrow> instant \<Rightarrow> (bool \<times> AgentProblem) list" where
  "execution_guards policy delegation now = [
     (dl_ExecutionMode delegation \<notin> set (vp_AllowedExecutionModes policy), ModeNotAccepted),
     (dl_ApprovalMode delegation \<noteq> ApprovalModeNotRequired \<and>
      dl_ApprovalMode delegation \<noteq> ApprovalBeforeExecution, ApprovalModeInvalid),
     (dl_RequiredAuthority delegation < 0 \<or> vp_MaximumAuthority policy < dl_RequiredAuthority delegation \<or>
      a_AuthorityCeiling (dl_Principal delegation) < dl_RequiredAuthority delegation \<or>
      a_AuthorityCeiling (dl_Delegate delegation) < dl_RequiredAuthority delegation, AuthorityExceedsCeiling),
     (dl_ExecutionMode delegation = ExecutionModeExecuteLowRisk \<and> 2 < dl_RequiredAuthority delegation \<and>
      dl_ApprovalMode delegation \<noteq> ApprovalBeforeExecution, HumanApprovalRequired),
     (dl_ApprovalMode delegation = ApprovalBeforeExecution \<and>
      (dl_Status delegation = DelegationInProgress \<or> dl_Status delegation = DelegationCompleted) \<and>
      TrimSpace (dl_HumanApprovalRef delegation) = '''', ApprovalRefRequired),
     (case dl_Status delegation of DelegationStatusOther t \<Rightarrow> True | _ \<Rightarrow> False, DelegationStatusInvalid),
     (dl_CreatedAt delegation = 0 \<or> dl_DueAt delegation = 0 \<or>
      \<not> dl_CreatedAt delegation < dl_DueAt delegation \<or> \<not> now < dl_DueAt delegation, DueTimeInvalid),
     (dl_UpdatedAt delegation \<noteq> 0 \<and> dl_UpdatedAt delegation < dl_CreatedAt delegation, UpdateBeforeCreation)]"

fun validate_claims :: "string list \<Rightarrow> ResourceClaim list \<Rightarrow> AgentProblem option" where
  "validate_claims seenResources [] = None"
| "validate_claims seenResources (claim # claims) =
     (let resource = normalizeID (rc_Resource claim) in
      if resource = '''' then Some ClaimWithoutResource
      else if rc_Access claim \<noteq> ResourceRead \<and> rc_Access claim \<noteq> ResourceWrite then Some ClaimAccessInvalid
      else if resource \<in> set seenResources then Some DuplicateClaim
      else validate_claims (resource # seenResources) claims)"

definition ValidateDelegation ::
  "AgentLib \<Rightarrow> ValidationPolicy \<Rightarrow> DelegationEnvelope \<Rightarrow> instant \<Rightarrow> AgentProblem option" where
  "ValidateDelegation lib policy delegation now =
     (case first_error (delegation_guards lib policy delegation @ execution_guards policy delegation now) of
       Some problem \<Rightarrow> Some problem
     | None \<Rightarrow>
         (case validate_claims [] (dl_ResourceClaims delegation) of
           Some problem \<Rightarrow> Some problem
         | None \<Rightarrow>
             if vp_RequireRedaction policy \<and> delegationContainsSecret lib delegation
             then Some ContainsSecret else None))"

definition status_problem :: "Acknowledgment \<Rightarrow> instant \<Rightarrow> AgentProblem option" where
  "status_problem acknowledgment now =
     (case ak_Status acknowledgment of
        AcknowledgmentAccepted \<Rightarrow>
          if ak_RetryAfter acknowledgment \<noteq> None then Some RetryNotAllowed else None
      | AcknowledgmentRejected \<Rightarrow>
          if normalizeText (ak_Reason acknowledgment) = '''' then Some ReasonRequired else None
      | AcknowledgmentDeferred \<Rightarrow>
          (case ak_RetryAfter acknowledgment of
             None \<Rightarrow> Some RetryTimeRequired
           | Some t \<Rightarrow> if \<not> now < t then Some RetryTimeRequired else None)
      | AcknowledgmentStatusOther text \<Rightarrow> Some AcknowledgmentStatusInvalid)"

definition ValidateAcknowledgment ::
  "AgentLib \<Rightarrow> Message \<Rightarrow> Acknowledgment \<Rightarrow> instant \<Rightarrow> AgentProblem option" where
  "ValidateAcknowledgment lib message acknowledgment now =
     (case first_error [
        (\<not> requireUUID lib (ak_ID acknowledgment), NotAUUID),
        (\<not> requireUUID lib (ak_IdempotencyKey acknowledgment), NotAUUID),
        (ak_MessageID acknowledgment \<noteq> m_ID message \<or>
         ak_CorrelationID acknowledgment \<noteq> m_CorrelationID message \<or>
         normalizeID (ak_RecipientID acknowledgment) \<noteq> normalizeID (a_ID (m_Recipient message)),
         EnvelopeMismatch)] of
       Some problem \<Rightarrow> Some problem
     | None \<Rightarrow>
     case status_problem acknowledgment now of
       Some problem \<Rightarrow> Some problem
     | None \<Rightarrow> first_error [
        (ak_CreatedAt acknowledgment = 0 \<or> ak_CreatedAt acknowledgment < m_CreatedAt message \<or>
         now + 5 * minute < ak_CreatedAt acknowledgment, CreationTimeInvalid),
        (leaks lib (ak_Reason acknowledgment), ContainsSecret)])"

end
