(* ===== verification/AgentCoordination.thy ===== *)
theory AgentCoordination
  imports AgentMessages "HOL-Library.AList"
begin

text \<open>
  The operations on coordination envelopes (\<open>internal/agentcoordination\<close>): the transitions of
  delegations (\<open>state.go\<close>), the detection and the transitions of conflicts (\<open>conflict.go\<close>), the
  timeouts (\<open>timeout.go\<close>) and the dispatch of messages (\<open>coordinator.go\<close>). The store and the
  transport of a coordinator are interfaces of the code: functions on a state of their own.
\<close>

section \<open>Delegations\<close>

record DelegationTransition =
  dt_To :: DelegationStatus
  dt_ActorID :: string
  dt_Reason :: string
  dt_CompletionEvidence :: "string list"
  dt_HumanApprovalRef :: string

datatype TransitionProblem =
    TransitionNotAllowed | ActorAndReasonRequired | TransitionTimeInvalid
  | CompletionEvidenceRequired | ExternalApprovalRequired | StrategyRequired | HumanReviewRequired

definition delegation_targets :: "DelegationStatus \<Rightarrow> DelegationStatus list" where
  "delegation_targets s =
     (case s of
        DelegationProposed \<Rightarrow> [DelegationAccepted, DelegationRejected, DelegationCancelled,
          DelegationExpired, DelegationEscalated]
      | DelegationAccepted \<Rightarrow> [DelegationInProgress, DelegationBlocked, DelegationCancelled,
          DelegationExpired, DelegationEscalated]
      | DelegationInProgress \<Rightarrow> [DelegationBlocked, DelegationCompleted, DelegationCancelled,
          DelegationExpired, DelegationEscalated]
      | DelegationBlocked \<Rightarrow> [DelegationInProgress, DelegationCancelled, DelegationExpired,
          DelegationEscalated]
      | DelegationEscalated \<Rightarrow> [DelegationAccepted, DelegationInProgress, DelegationBlocked,
          DelegationCompleted, DelegationCancelled, DelegationExpired]
      | _ \<Rightarrow> [])"

definition allowedDelegationTransition :: "DelegationStatus \<Rightarrow> DelegationStatus \<Rightarrow> bool" where
  "allowedDelegationTransition s t \<longleftrightarrow> t \<in> set (delegation_targets s)"

text \<open>The approval a transition into execution needs: its own reference, or the delegation's.\<close>

definition approval_ref :: "DelegationEnvelope \<Rightarrow> DelegationTransition \<Rightarrow> string" where
  "approval_ref delegation transition =
     (let given = TrimSpace (dt_HumanApprovalRef transition) in
      if given = '''' then TrimSpace (dl_HumanApprovalRef delegation) else given)"

definition needs_approval :: "DelegationEnvelope \<Rightarrow> DelegationStatus \<Rightarrow> bool" where
  "needs_approval delegation t \<longleftrightarrow> dl_ApprovalMode delegation = ApprovalBeforeExecution \<and>
     (t = DelegationInProgress \<or> t = DelegationCompleted)"

definition transition_guards ::
  "DelegationEnvelope \<Rightarrow> DelegationTransition \<Rightarrow> instant \<Rightarrow> (bool \<times> TransitionProblem) list" where
  "transition_guards delegation transition now = [
     (\<not> allowedDelegationTransition (dl_Status delegation) (dt_To transition), TransitionNotAllowed),
     (normalizeID (dt_ActorID transition) = '''' \<or> normalizeText (dt_Reason transition) = '''',
      ActorAndReasonRequired),
     (now = 0 \<or> now < dl_CreatedAt delegation, TransitionTimeInvalid),
     (dt_To transition = DelegationCompleted \<and> normalizeStrings (dt_CompletionEvidence transition) = [],
      CompletionEvidenceRequired),
     (needs_approval delegation (dt_To transition) \<and> approval_ref delegation transition = '''',
      ExternalApprovalRequired)]"

definition TransitionDelegation ::
  "DelegationEnvelope \<Rightarrow> DelegationTransition \<Rightarrow> instant \<Rightarrow> TransitionProblem + DelegationEnvelope" where
  "TransitionDelegation delegation transition now =
     (case first_error (transition_guards delegation transition now) of
        Some problem \<Rightarrow> Inl problem
      | None \<Rightarrow>
          Inr (delegation\<lparr>
            dl_CompletionEvidence :=
              (if dt_To transition = DelegationCompleted then normalizeStrings (dt_CompletionEvidence transition)
               else dl_CompletionEvidence delegation),
            dl_HumanApprovalRef :=
              (if needs_approval delegation (dt_To transition) then approval_ref delegation transition
               else dl_HumanApprovalRef delegation),
            dl_Transitions := dl_Transitions delegation @
              [\<lparr>dv_From = dl_Status delegation, dv_To = dt_To transition,
                dv_ActorID = normalizeID (dt_ActorID transition),
                dv_Reason = normalizeText (dt_Reason transition), dv_CreatedAt = now\<rparr>],
            dl_Status := dt_To transition,
            dl_StatusReason := normalizeText (dt_Reason transition),
            dl_UpdatedAt := now\<rparr>))"

definition terminalDelegation :: "DelegationStatus \<Rightarrow> bool" where
  "terminalDelegation status \<longleftrightarrow> status = DelegationCompleted \<or> status = DelegationCancelled \<or>
     status = DelegationRejected \<or> status = DelegationExpired"

section \<open>Conflicts\<close>

datatype ConflictType = ConflictResourceContention | ConflictContradictoryDecision

datatype ConflictState =
    ConflictDetected | ConflictUnderReview | ConflictResolutionProposed | ConflictResolved
  | ConflictEscalated | ConflictDismissed | ConflictStateOther string

datatype ConflictSeverity = ConflictSeverityMedium | ConflictSeverityHigh

datatype ResolutionStrategy =
    ResolutionSerialize | ResolutionReassign | ResolutionMerge | ResolutionHumanReview
  | ResolutionAcceptOne | ResolutionNone | ResolutionOther string

record ConflictEvent =
  ce_From :: ConflictState
  ce_To :: ConflictState
  ce_ActorID :: string
  ce_Strategy :: ResolutionStrategy
  ce_Rationale :: string
  ce_CreatedAt :: instant

record Conflict =
  cf_ID :: string
  cf_CorrelationID :: string
  cf_Type :: ConflictType
  cf_State :: ConflictState
  cf_Severity :: ConflictSeverity
  cf_Subject :: string
  cf_ParticipantIDs :: "string list"
  cf_MessageIDs :: "string list"
  cf_DelegationIDs :: "string list"
  cf_DetectedAt :: instant
  cf_UpdatedAt :: instant
  cf_Resolution :: ResolutionStrategy
  cf_ResolutionNotes :: string
  cf_Events :: "ConflictEvent list"

record ConflictTransition =
  ct_To :: ConflictState
  ct_ActorID :: string
  ct_Strategy :: ResolutionStrategy
  ct_Rationale :: string

definition conflict_targets :: "ConflictState \<Rightarrow> ConflictState list" where
  "conflict_targets s =
     (case s of
        ConflictDetected \<Rightarrow> [ConflictUnderReview, ConflictResolutionProposed, ConflictEscalated,
          ConflictDismissed]
      | ConflictUnderReview \<Rightarrow> [ConflictResolutionProposed, ConflictEscalated, ConflictDismissed]
      | ConflictResolutionProposed \<Rightarrow> [ConflictResolved, ConflictUnderReview, ConflictEscalated,
          ConflictDismissed]
      | ConflictEscalated \<Rightarrow> [ConflictUnderReview, ConflictResolutionProposed, ConflictResolved,
          ConflictDismissed]
      | _ \<Rightarrow> [])"

definition allowedConflictTransition :: "ConflictState \<Rightarrow> ConflictState \<Rightarrow> bool" where
  "allowedConflictTransition s t \<longleftrightarrow> t \<in> set (conflict_targets s)"

text \<open>\<open>ResolutionNone\<close> is the empty strategy.\<close>

definition validResolutionStrategy :: "ResolutionStrategy \<Rightarrow> bool" where
  "validResolutionStrategy strategy =
     (case strategy of
        ResolutionSerialize \<Rightarrow> True | ResolutionReassign \<Rightarrow> True | ResolutionMerge \<Rightarrow> True
      | ResolutionHumanReview \<Rightarrow> True | ResolutionAcceptOne \<Rightarrow> True | _ \<Rightarrow> False)"

definition conflict_guards ::
  "Conflict \<Rightarrow> ConflictTransition \<Rightarrow> instant \<Rightarrow> (bool \<times> TransitionProblem) list" where
  "conflict_guards conflict transition now = [
     (\<not> allowedConflictTransition (cf_State conflict) (ct_To transition), TransitionNotAllowed),
     (normalizeID (ct_ActorID transition) = '''' \<or> normalizeText (ct_Rationale transition) = '''',
      ActorAndReasonRequired),
     (now = 0 \<or> now < cf_DetectedAt conflict, TransitionTimeInvalid),
     ((ct_To transition = ConflictResolutionProposed \<or> ct_To transition = ConflictResolved) \<and>
      \<not> validResolutionStrategy (ct_Strategy transition), StrategyRequired),
     (ct_To transition = ConflictEscalated \<and> ct_Strategy transition \<noteq> ResolutionHumanReview,
      HumanReviewRequired)]"

definition TransitionConflict ::
  "Conflict \<Rightarrow> ConflictTransition \<Rightarrow> instant \<Rightarrow> TransitionProblem + Conflict" where
  "TransitionConflict conflict transition now =
     (case first_error (conflict_guards conflict transition now) of
        Some problem \<Rightarrow> Inl problem
      | None \<Rightarrow>
          Inr (conflict\<lparr>
            cf_Events := cf_Events conflict @
              [\<lparr>ce_From = cf_State conflict, ce_To = ct_To transition,
                ce_ActorID = normalizeID (ct_ActorID transition), ce_Strategy = ct_Strategy transition,
                ce_Rationale = normalizeText (ct_Rationale transition), ce_CreatedAt = now\<rparr>],
            cf_State := ct_To transition,
            cf_UpdatedAt := now,
            cf_Resolution := (if ct_Strategy transition \<noteq> ResolutionNone then ct_Strategy transition
                              else cf_Resolution conflict),
            cf_ResolutionNotes := normalizeText (ct_Rationale transition)\<rparr>))"

definition claimsConflict :: "ResourceClaim \<Rightarrow> ResourceClaim \<Rightarrow> bool" where
  "claimsConflict left right \<longleftrightarrow>
     (if rc_Access left = ResourceRead \<and> rc_Access right = ResourceRead then False
      else rc_Exclusive left \<or> rc_Exclusive right \<or>
        rc_Access left = ResourceWrite \<and> rc_Access right = ResourceWrite)"

definition delegationWindowsOverlap :: "DelegationEnvelope \<Rightarrow> DelegationEnvelope \<Rightarrow> bool" where
  "delegationWindowsOverlap left right \<longleftrightarrow>
     dl_CreatedAt left < dl_DueAt right \<and> dl_CreatedAt right < dl_DueAt left"

definition conflict_type_text :: "ConflictType \<Rightarrow> string" where
  "conflict_type_text t =
     (case t of ConflictResourceContention \<Rightarrow> ''resource_contention''
      | ConflictContradictoryDecision \<Rightarrow> ''contradictory_decision'')"

definition conflict_name ::
  "string \<Rightarrow> ConflictType \<Rightarrow> string \<Rightarrow> string list \<Rightarrow> string list \<Rightarrow> string list \<Rightarrow> string" where
  "conflict_name correlationID conflictType subject participantIDs messageIDs delegationIDs =
     Join [correlationID, conflict_type_text conflictType, subject,
       Join (normalizeStrings participantIDs) '','', Join (normalizeStrings messageIDs) '','',
       Join (normalizeStrings delegationIDs) '',''] ''|''"

definition newConflict ::
  "AgentLib \<Rightarrow> string \<Rightarrow> ConflictType \<Rightarrow> ConflictSeverity \<Rightarrow> string \<Rightarrow> string list \<Rightarrow> string list \<Rightarrow>
     string list \<Rightarrow> instant \<Rightarrow> Conflict" where
  "newConflict lib correlationID conflictType severity subject participantIDs messageIDs delegationIDs now =
     \<lparr>cf_ID = lib_name_uuid lib
        (conflict_name correlationID conflictType subject participantIDs messageIDs delegationIDs),
      cf_CorrelationID = correlationID, cf_Type = conflictType, cf_State = ConflictDetected,
      cf_Severity = severity, cf_Subject = subject,
      cf_ParticipantIDs = normalizeStrings participantIDs, cf_MessageIDs = normalizeStrings messageIDs,
      cf_DelegationIDs = normalizeStrings delegationIDs, cf_DetectedAt = now, cf_UpdatedAt = now,
      cf_Resolution = ResolutionNone, cf_ResolutionNotes = '''', cf_Events = []\<rparr>"

text \<open>The pairs a double loop \<open>i < j\<close> visits.\<close>

fun pairs :: "'a list \<Rightarrow> ('a \<times> 'a) list" where
  "pairs [] = []"
| "pairs (x # xs) = map (Pair x) xs @ pairs xs"

definition competing :: "DelegationEnvelope \<Rightarrow> DelegationEnvelope \<Rightarrow> bool" where
  "competing left right \<longleftrightarrow> \<not> terminalDelegation (dl_Status left) \<and> \<not> (terminalDelegation (dl_Status right) \<or>
     dl_CorrelationID left \<noteq> dl_CorrelationID right \<or>
     normalizeID (a_ID (dl_Delegate left)) = normalizeID (a_ID (dl_Delegate right)) \<or>
     \<not> delegationWindowsOverlap left right)"

definition claims_compete :: "ResourceClaim \<Rightarrow> ResourceClaim \<Rightarrow> bool" where
  "claims_compete leftClaim rightClaim \<longleftrightarrow>
     \<not> (normalizeID (rc_Resource leftClaim) \<noteq> normalizeID (rc_Resource rightClaim) \<or>
        \<not> claimsConflict leftClaim rightClaim)"

definition claim_severity :: "ResourceClaim \<Rightarrow> ResourceClaim \<Rightarrow> ConflictSeverity" where
  "claim_severity leftClaim rightClaim =
     (if rc_Exclusive leftClaim \<and> rc_Exclusive rightClaim \<and> rc_Access leftClaim = ResourceWrite \<and>
         rc_Access rightClaim = ResourceWrite
      then ConflictSeverityHigh else ConflictSeverityMedium)"

definition resource_conflict ::
  "AgentLib \<Rightarrow> instant \<Rightarrow> DelegationEnvelope \<Rightarrow> DelegationEnvelope \<Rightarrow> ResourceClaim \<Rightarrow> ResourceClaim \<Rightarrow> Conflict" where
  "resource_conflict lib now left right leftClaim rightClaim =
     newConflict lib (dl_CorrelationID left) ConflictResourceContention (claim_severity leftClaim rightClaim)
       (normalizeID (rc_Resource leftClaim)) [a_ID (dl_Delegate left), a_ID (dl_Delegate right)] []
       [dl_ID left, dl_ID right] now"

text \<open>A Go map from identifiers to conflicts: a later conflict replaces an earlier one of its identifier.\<close>

definition deduplicateConflicts :: "Conflict list \<Rightarrow> Conflict list" where
  "deduplicateConflicts conflicts =
     map snd (fold (\<lambda>conflict seen. AList.update (cf_ID conflict) conflict seen) conflicts [])"

definition detectResourceConflicts :: "AgentLib \<Rightarrow> DelegationEnvelope list \<Rightarrow> instant \<Rightarrow> Conflict list" where
  "detectResourceConflicts lib delegations now = deduplicateConflicts
     (concat (map (\<lambda>(left, right).
        if \<not> competing left right then []
        else concat (map (\<lambda>leftClaim.
          map (resource_conflict lib now left right leftClaim)
            (filter (claims_compete leftClaim) (dl_ResourceClaims right))) (dl_ResourceClaims left)))
       (pairs delegations)))"

definition decisionPayloadDigest :: "AgentLib \<Rightarrow> Message \<Rightarrow> string" where
  "decisionPayloadDigest lib message =
     (let data = mp_Data (m_Payload message);
          payload = (case lib_json lib data of None \<Rightarrow> JString (TrimSpace data) | Some value \<Rightarrow> value)
      in case lib_decision_digest lib (TrimSpace (mp_Schema (m_Payload message)))
                (normalizeText (mp_Subject (m_Payload message))) payload of
           None \<Rightarrow> lib_sha256 lib (TrimSpace data)
         | Some digest \<Rightarrow> digest)"

definition decision_key :: "Message \<Rightarrow> string \<times> string" where
  "decision_key message = (m_CorrelationID message, normalizeText (mp_Subject (m_Payload message)))"

definition contradictory :: "AgentLib \<Rightarrow> Message \<Rightarrow> Message \<Rightarrow> bool" where
  "contradictory lib left right \<longleftrightarrow>
     \<not> (normalizeID (a_ID (m_Sender left)) = normalizeID (a_ID (m_Sender right)) \<or>
        decisionPayloadDigest lib left = decisionPayloadDigest lib right)"

definition decision_conflict :: "AgentLib \<Rightarrow> instant \<Rightarrow> Message \<Rightarrow> Message \<Rightarrow> Conflict" where
  "decision_conflict lib now left right =
     newConflict lib (fst (decision_key left)) ConflictContradictoryDecision ConflictSeverityHigh
       (snd (decision_key left)) [a_ID (m_Sender left), a_ID (m_Sender right)] [m_ID left, m_ID right] [] now"

text \<open>The groups in the order of their first message; the order of the Go map is arbitrary.\<close>

definition detectDecisionConflicts :: "AgentLib \<Rightarrow> Message list \<Rightarrow> instant \<Rightarrow> Conflict list" where
  "detectDecisionConflicts lib messages now =
     (let decided = filter (\<lambda>m. m_Type m = MessageTypeDecision) messages;
          grouped = map (\<lambda>key. filter (\<lambda>m. decision_key m = key) decided) (remdups (map decision_key decided))
      in deduplicateConflicts (concat (map (\<lambda>decisions.
           map (\<lambda>(left, right). decision_conflict lib now left right)
             (filter (\<lambda>(left, right). contradictory lib left right) (pairs decisions))) grouped)))"

definition DetectConflicts ::
  "AgentLib \<Rightarrow> Message list \<Rightarrow> DelegationEnvelope list \<Rightarrow> instant \<Rightarrow> Conflict list" where
  "DetectConflicts lib messages delegations now =
     sort_key cf_ID (detectResourceConflicts lib delegations now @ detectDecisionConflicts lib messages now)"

section \<open>Timeouts\<close>

datatype TimeoutAction = TimeoutNone | TimeoutRemind | TimeoutEscalate | TimeoutExpire | TimeoutManualReview

record EscalationPolicy =
  ep_AcknowledgmentTimeout :: int
  ep_CompletionTimeout :: int
  ep_ReminderInterval :: int
  ep_MaximumReminders :: int
  ep_MaximumEscalations :: int
  ep_EscalationRecipients :: "string list"

text \<open>The zero time is 0.\<close>

record TimeoutEvaluation =
  te_Action :: TimeoutAction
  te_Reason :: string
  te_DueAt :: instant
  te_Recipients :: "string list"

datatype TimeoutProblem = EscalationPolicyIncomplete | NegativeCounter

definition ValidateEscalationPolicy :: "EscalationPolicy \<Rightarrow> bool" where
  "ValidateEscalationPolicy policy \<longleftrightarrow>
     \<not> (ep_AcknowledgmentTimeout policy \<le> 0 \<or> ep_CompletionTimeout policy \<le> 0 \<or>
        ep_ReminderInterval policy \<le> 0 \<or> ep_MaximumReminders policy < 0 \<or> ep_MaximumEscalations policy < 0)"

definition evaluation :: "TimeoutAction \<Rightarrow> string \<Rightarrow> instant \<Rightarrow> string list \<Rightarrow> TimeoutEvaluation" where
  "evaluation action reason dueAt recipients =
     \<lparr>te_Action = action, te_Reason = reason, te_DueAt = dueAt, te_Recipients = recipients\<rparr>"

text \<open>The product of two 64-bit signed integers.\<close>

definition mult_int64 :: "int \<Rightarrow> int \<Rightarrow> int" where
  "mult_int64 a b = (a * b + 2 ^ 63) mod 2 ^ 64 - 2 ^ 63"

definition escalationEvaluation :: "string \<Rightarrow> EscalationPolicy \<Rightarrow> int \<Rightarrow> instant \<Rightarrow> TimeoutEvaluation" where
  "escalationEvaluation reason policy escalationCount now =
     (let recipients = normalizeStrings (ep_EscalationRecipients policy) in
      if ep_MaximumEscalations policy \<le> escalationCount \<or> recipients = []
      then evaluation TimeoutManualReview (reason @ ''; automated escalation limit reached'') now []
      else evaluation TimeoutEscalate reason now recipients)"

text \<open>What the acknowledgment decides, if it does.\<close>

definition acknowledged ::
  "Acknowledgment option \<Rightarrow> EscalationPolicy \<Rightarrow> int \<Rightarrow> instant \<Rightarrow> TimeoutEvaluation option" where
  "acknowledged acknowledgment policy escalationCount now =
     (case acknowledgment of
        None \<Rightarrow> None
      | Some a \<Rightarrow>
          (case ak_Status a of
             AcknowledgmentAccepted \<Rightarrow> Some (evaluation TimeoutNone ''message acknowledged'' 0 [])
           | AcknowledgmentRejected \<Rightarrow>
               Some (escalationEvaluation ''recipient rejected the message'' policy escalationCount now)
           | AcknowledgmentDeferred \<Rightarrow>
               (case ak_RetryAfter a of
                  Some t \<Rightarrow>
                    if now < t then Some (evaluation TimeoutNone ''recipient deferred acknowledgment'' t [])
                    else None
                | None \<Rightarrow> None)
           | AcknowledgmentStatusOther text \<Rightarrow> None))"

definition EvaluateMessageTimeout ::
  "Message \<Rightarrow> Acknowledgment option \<Rightarrow> EscalationPolicy \<Rightarrow> int \<Rightarrow> int \<Rightarrow> instant \<Rightarrow>
     TimeoutProblem + TimeoutEvaluation" where
  "EvaluateMessageTimeout message acknowledgment policy reminderCount escalationCount now =
     (if \<not> ValidateEscalationPolicy policy then Inl EscalationPolicyIncomplete
      else if reminderCount < 0 \<or> escalationCount < 0 then Inl NegativeCounter
      else if \<not> now < m_ExpiresAt message
        then Inr (evaluation TimeoutExpire ''message envelope expired'' (m_ExpiresAt message) [])
      else if \<not> m_RequiresAck message
        then Inr (evaluation TimeoutNone ''acknowledgment not required'' 0 [])
      else case acknowledged acknowledgment policy escalationCount now of
        Some decided \<Rightarrow> Inr decided
      | None \<Rightarrow>
          (let dueAt = m_CreatedAt message + ep_AcknowledgmentTimeout policy in
           if now < dueAt
           then Inr (evaluation TimeoutNone ''acknowledgment window remains open'' dueAt [])
           else if reminderCount < ep_MaximumReminders policy
           then Inr (evaluation TimeoutRemind ''acknowledgment is overdue''
                       (dueAt + mult_int64 reminderCount (ep_ReminderInterval policy)) [])
           else Inr (escalationEvaluation ''acknowledgment remained overdue after reminders'' policy
                       escalationCount now)))"

definition EvaluateDelegationTimeout ::
  "DelegationEnvelope \<Rightarrow> EscalationPolicy \<Rightarrow> int \<Rightarrow> instant \<Rightarrow> TimeoutProblem + TimeoutEvaluation" where
  "EvaluateDelegationTimeout delegation policy escalationCount now =
     (if \<not> ValidateEscalationPolicy policy then Inl EscalationPolicyIncomplete
      else if escalationCount < 0 then Inl NegativeCounter
      else if terminalDelegation (dl_Status delegation)
        then Inr (evaluation TimeoutNone ''delegation is in a terminal state'' 0 [])
      else
        (let timeoutAt = dl_CreatedAt delegation + ep_CompletionTimeout policy;
             dueAt = (if timeoutAt < dl_DueAt delegation then timeoutAt else dl_DueAt delegation)
         in if now < dueAt
            then Inr (evaluation TimeoutNone ''delegation completion window remains open'' dueAt [])
            else Inr (escalationEvaluation ''delegation completion is overdue'' policy escalationCount now)))"

section \<open>Dispatch\<close>

record DeliveryReceipt =
  rt_MessageID :: string
  rt_CorrelationID :: string
  rt_TransportID :: string
  rt_AcceptedAt :: instant
  rt_Duplicate :: bool

datatype DispatchClaimStatus =
    DispatchClaimAcquired | DispatchClaimDuplicate | DispatchClaimConflict | DispatchClaimOther string

record DispatchClaim =
  dc_Status :: DispatchClaimStatus
  dc_Receipt :: "DeliveryReceipt option"

text \<open>The interfaces \<open>DispatchStore\<close> and \<open>Transport\<close>, over the state \<open>'s\<close> of both.\<close>

record 's DispatchPorts =
  port_Begin :: "string \<Rightarrow> string \<Rightarrow> instant \<Rightarrow> 's \<Rightarrow> (string + DispatchClaim) \<times> 's"
  port_Complete :: "string \<Rightarrow> string \<Rightarrow> DeliveryReceipt \<Rightarrow> 's \<Rightarrow> string option \<times> 's"
  port_Abandon :: "string \<Rightarrow> string \<Rightarrow> 's \<Rightarrow> string option \<times> 's"
  port_Deliver :: "Message \<Rightarrow> 's \<Rightarrow> (string + DeliveryReceipt) \<times> 's"

datatype DispatchError =
    MessageInvalid AgentProblem | DigestFailed | BeginFailed string | ReceiptUnavailable
  | DispatchKeyConflict | InvalidClaimState | AbandonFailed string string | DeliverFailed string
  | InvalidReceipt | CompleteFailed string

definition NewCoordinator :: "ValidationPolicy \<Rightarrow> AgentProblem + ValidationPolicy" where
  "NewCoordinator policy = (if policy_incomplete policy then Inl PolicyIncomplete else Inr policy)"

definition receipt_matches :: "Message \<Rightarrow> DeliveryReceipt \<Rightarrow> bool" where
  "receipt_matches message receipt \<longleftrightarrow>
     \<not> (rt_MessageID receipt \<noteq> m_ID message \<or> rt_CorrelationID receipt \<noteq> m_CorrelationID message \<or>
        rt_AcceptedAt receipt = 0)"

definition deliver_claimed ::
  "'s DispatchPorts \<Rightarrow> Message \<Rightarrow> string \<Rightarrow> 's \<Rightarrow> (DispatchError + DeliveryReceipt) \<times> 's" where
  "deliver_claimed ports message digest s =
     (case port_Deliver ports message s of
        (Inl err, s) \<Rightarrow>
          (case port_Abandon ports (m_IdempotencyKey message) digest s of
             (Some abandonErr, s) \<Rightarrow> (Inl (AbandonFailed err abandonErr), s)
           | (None, s) \<Rightarrow> (Inl (DeliverFailed err), s))
      | (Inr receipt, s) \<Rightarrow>
          if \<not> receipt_matches message receipt
          then (Inl InvalidReceipt, snd (port_Abandon ports (m_IdempotencyKey message) digest s))
          else (case port_Complete ports (m_IdempotencyKey message) digest receipt s of
                  (Some err, s) \<Rightarrow> (Inl (CompleteFailed err), s)
                | (None, s) \<Rightarrow> (Inr receipt, s)))"

definition Dispatch ::
  "AgentLib \<Rightarrow> 's DispatchPorts \<Rightarrow> ValidationPolicy \<Rightarrow> instant \<Rightarrow> Message \<Rightarrow> 's \<Rightarrow>
     (DispatchError + DeliveryReceipt) \<times> 's" where
  "Dispatch lib ports policy now message s =
     (case ValidateMessage lib policy message now of
        Some problem \<Rightarrow> (Inl (MessageInvalid problem), s)
      | None \<Rightarrow>
          (case ComputeMessageDigest lib message of
             None \<Rightarrow> (Inl DigestFailed, s)
           | Some digest \<Rightarrow>
               (case port_Begin ports (m_IdempotencyKey message) digest (m_ExpiresAt message) s of
                  (Inl err, s) \<Rightarrow> (Inl (BeginFailed err), s)
                | (Inr claim, s) \<Rightarrow>
                    (case dc_Status claim of
                       DispatchClaimDuplicate \<Rightarrow>
                         (case dc_Receipt claim of
                            None \<Rightarrow> (Inl ReceiptUnavailable, s)
                          | Some receipt \<Rightarrow> (Inr (receipt\<lparr>rt_Duplicate := True\<rparr>), s))
                     | DispatchClaimConflict \<Rightarrow> (Inl DispatchKeyConflict, s)
                     | DispatchClaimAcquired \<Rightarrow> deliver_claimed ports message digest s
                     | DispatchClaimOther text \<Rightarrow> (Inl InvalidClaimState, s)))))"

end
