(* ===== verification/AgentFacts.thy ===== *)
theory AgentFacts
  imports AgentCoordination
begin

text \<open>
  Facts about agent coordination. The locale \<open>logged_machine\<close> is the contract shared by the
  transitions of delegations and of conflicts: a step goes to an allowed state and logs where it
  came from and went to. It is interpreted on both.
\<close>

section \<open>Logged state machines\<close>

fun event_chain ::
  "('e \<Rightarrow> 'q) \<Rightarrow> ('e \<Rightarrow> 'q) \<Rightarrow> ('q \<Rightarrow> 'q \<Rightarrow> bool) \<Rightarrow> 'q \<Rightarrow> 'e list \<Rightarrow> 'q \<Rightarrow> bool" where
  "event_chain src dst allowed s [] t \<longleftrightarrow> s = t"
| "event_chain src dst allowed s (e # es) t \<longleftrightarrow>
     src e = s \<and> allowed s (dst e) \<and> event_chain src dst allowed (dst e) es t"

lemma event_chain_snoc:
  "event_chain src dst allowed s es t \<Longrightarrow> src e = t \<Longrightarrow> allowed t (dst e) \<Longrightarrow>
     event_chain src dst allowed s (es @ [e]) (dst e)"
  by (induction es arbitrary: s) auto

locale logged_machine =
  fixes step :: "'x \<Rightarrow> 'x \<Rightarrow> bool"
    and status :: "'x \<Rightarrow> 'q"
    and log :: "'x \<Rightarrow> 'e list"
    and src :: "'e \<Rightarrow> 'q"
    and dst :: "'e \<Rightarrow> 'q"
    and allowed :: "'q \<Rightarrow> 'q \<Rightarrow> bool"
  assumes step_logged: "step x x' \<Longrightarrow> \<exists>e. log x' = log x @ [e] \<and> src e = status x \<and> dst e = status x' \<and>
      allowed (status x) (status x')"
begin

lemma run_logged:
  "step\<^sup>*\<^sup>* x x' \<Longrightarrow> \<exists>es. log x' = log x @ es \<and> event_chain src dst allowed (status x) es (status x')"
proof (induction rule: rtranclp_induct)
  case (step y z)
  from step(3) obtain es where es: "log y = log x @ es" "event_chain src dst allowed (status x) es (status y)"
    by blast
  from step_logged [OF step(2)] obtain e where
    e: "log z = log y @ [e]" "src e = status y" "dst e = status z" "allowed (status y) (status z)" by blast
  with es event_chain_snoc [OF es(2), of e] show ?case by (intro exI [of _ "es @ [e]"]) simp
qed simp

lemma stuck:
  assumes "step\<^sup>*\<^sup>* x x'" "\<And>t. \<not> allowed (status x) t"
  shows "x' = x"
  using assms by (induction rule: converse_rtranclp_induct) (auto dest: step_logged)

end

section \<open>Delegations\<close>

inductive delegation_step :: "DelegationEnvelope \<Rightarrow> DelegationEnvelope \<Rightarrow> bool" where
  "TransitionDelegation delegation transition now = Inr delegation' \<Longrightarrow> delegation_step delegation delegation'"

inductive conflict_step :: "Conflict \<Rightarrow> Conflict \<Rightarrow> bool" where
  "TransitionConflict conflict transition now = Inr conflict' \<Longrightarrow> conflict_step conflict conflict'"

inductive_cases delegation_stepE: "delegation_step d d'"
inductive_cases conflict_stepE: "conflict_step c c'"

lemma transition_guards_passed:
  assumes "first_error (transition_guards d t now) = None"
  shows "allowedDelegationTransition (dl_Status d) (dt_To t)"
    "dt_To t = DelegationCompleted \<Longrightarrow> normalizeStrings (dt_CompletionEvidence t) \<noteq> []"
    "needs_approval d (dt_To t) \<Longrightarrow> approval_ref d t \<noteq> ''''"
proof -
  have g: "\<forall>g \<in> set (transition_guards d t now). \<not> fst g" using assms by (simp add: first_error_None_iff)
  note g = g [unfolded transition_guards_def list.set ball_simps fst_conv]
  from g show "allowedDelegationTransition (dl_Status d) (dt_To t)"
    "dt_To t = DelegationCompleted \<Longrightarrow> normalizeStrings (dt_CompletionEvidence t) \<noteq> []"
    "needs_approval d (dt_To t) \<Longrightarrow> approval_ref d t \<noteq> ''''" by blast+
qed

lemma TransitionDelegation_Inr:
  assumes "TransitionDelegation d t now = Inr d'"
  shows "first_error (transition_guards d t now) = None" "dl_Status d' = dt_To t"
    "dl_ApprovalMode d' = dl_ApprovalMode d"
    "dl_CompletionEvidence d' = (if dt_To t = DelegationCompleted
       then normalizeStrings (dt_CompletionEvidence t) else dl_CompletionEvidence d)"
    "dl_HumanApprovalRef d' = (if needs_approval d (dt_To t) then approval_ref d t else dl_HumanApprovalRef d)"
    "dl_Transitions d' = dl_Transitions d @ [\<lparr>dv_From = dl_Status d, dv_To = dt_To t,
       dv_ActorID = normalizeID (dt_ActorID t), dv_Reason = normalizeText (dt_Reason t), dv_CreatedAt = now\<rparr>]"
  using assms unfolding TransitionDelegation_def by (auto split: option.splits)

lemma TransitionConflict_Inr:
  assumes "TransitionConflict c t now = Inr c'"
  shows "allowedConflictTransition (cf_State c) (ct_To t)" "cf_State c' = ct_To t"
    "cf_Events c' = cf_Events c @ [\<lparr>ce_From = cf_State c, ce_To = ct_To t,
       ce_ActorID = normalizeID (ct_ActorID t), ce_Strategy = ct_Strategy t,
       ce_Rationale = normalizeText (ct_Rationale t), ce_CreatedAt = now\<rparr>]"
proof -
  from assms have p: "first_error (conflict_guards c t now) = None"
    by (auto simp: TransitionConflict_def split: option.splits)
  with assms show "cf_State c' = ct_To t"
    "cf_Events c' = cf_Events c @ [\<lparr>ce_From = cf_State c, ce_To = ct_To t,
       ce_ActorID = normalizeID (ct_ActorID t), ce_Strategy = ct_Strategy t,
       ce_Rationale = normalizeText (ct_Rationale t), ce_CreatedAt = now\<rparr>]"
    by (auto simp: TransitionConflict_def)
  have g: "\<forall>g \<in> set (conflict_guards c t now). \<not> fst g" using p by (simp add: first_error_None_iff)
  note g = g [unfolded conflict_guards_def list.set ball_simps fst_conv]
  then show "allowedConflictTransition (cf_State c) (ct_To t)" by blast
qed

interpretation delegations: logged_machine delegation_step dl_Status dl_Transitions dv_From dv_To
  allowedDelegationTransition
proof
  fix d d' assume "delegation_step d d'"
  then obtain t now where t: "TransitionDelegation d t now = Inr d'" by (rule delegation_stepE)
  note f = TransitionDelegation_Inr [OF t]
  from transition_guards_passed(1) [OF f(1)] f
  show "\<exists>e. dl_Transitions d' = dl_Transitions d @ [e] \<and> dv_From e = dl_Status d \<and> dv_To e = dl_Status d' \<and>
      allowedDelegationTransition (dl_Status d) (dl_Status d')" by auto
qed

interpretation conflicts: logged_machine conflict_step cf_State cf_Events ce_From ce_To allowedConflictTransition
proof
  fix c c' assume "conflict_step c c'"
  then obtain t now where t: "TransitionConflict c t now = Inr c'" by (rule conflict_stepE)
  from TransitionConflict_Inr [OF t]
  show "\<exists>e. cf_Events c' = cf_Events c @ [e] \<and> ce_From e = cf_State c \<and> ce_To e = cf_State c' \<and>
      allowedConflictTransition (cf_State c) (cf_State c')" by auto
qed

text \<open>Execution needs an approval, completion needs evidence.\<close>

definition cleared :: "DelegationEnvelope \<Rightarrow> bool" where
  "cleared d \<longleftrightarrow> (needs_approval d (dl_Status d) \<longrightarrow> TrimSpace (dl_HumanApprovalRef d) \<noteq> '''')"

lemma approval_ref_trimmed: "TrimSpace (approval_ref d t) = approval_ref d t"
  by (simp add: approval_ref_def Let_def)

lemma step_cleared: "delegation_step d d' \<Longrightarrow> cleared d' \<and>
    (dl_Status d' = DelegationCompleted \<longrightarrow> dl_CompletionEvidence d' \<noteq> [])"
proof (erule delegation_stepE)
  fix t now assume t: "TransitionDelegation d t now = Inr d'"
  note f = TransitionDelegation_Inr [OF t] and g = transition_guards_passed [OF TransitionDelegation_Inr(1) [OF t]]
  have "cleared d'"
    using f(2,3,5) g(3) by (simp add: cleared_def needs_approval_def approval_ref_trimmed)
  with f g show ?thesis by simp
qed

lemma run_cleared:
  "delegation_step\<^sup>*\<^sup>* d d' \<Longrightarrow> d' = d \<or> cleared d' \<and> (dl_Status d' = DelegationCompleted \<longrightarrow> dl_CompletionEvidence d' \<noteq> [])"
  by (induction rule: rtranclp_induct) (auto dest: step_cleared)

lemma execution_guards_passed:
  assumes "ValidateDelegation lib policy d now = None"
  shows "first_error (delegation_guards lib policy d @ execution_guards policy d now) = None"
    "validate_claims [] (dl_ResourceClaims d) = None"
    "\<not> (vp_RequireRedaction policy \<and> delegationContainsSecret lib d)"
  using assms unfolding ValidateDelegation_def by (auto split: option.splits if_splits)

lemma valid_cleared:
  assumes "ValidateDelegation lib policy d now = None"
  shows "cleared d"
proof -
  have g: "\<forall>g \<in> set (execution_guards policy d now). \<not> fst g"
    using execution_guards_passed(1) [OF assms] by (simp add: first_error_None_iff)
  note g = g [unfolded execution_guards_def list.set ball_simps fst_conv]
  from g show ?thesis unfolding cleared_def needs_approval_def by blast
qed

section \<open>Conflicts\<close>

lemma set_pairs: "set (pairs xs) = {(xs ! i, xs ! j) | i j. i < j \<and> j < length xs}"
proof (induction xs)
  case (Cons x xs)
  have "set (pairs (x # xs)) = Pair x ` set xs \<union> {(xs ! i, xs ! j) | i j. i < j \<and> j < length xs}"
    using Cons by simp
  also have "\<dots> = {((x # xs) ! i, (x # xs) ! j) | i j. i < j \<and> j < length (x # xs)}"
  proof (intro set_eqI iffI)
    fix p assume "p \<in> Pair x ` set xs \<union> {(xs ! i, xs ! j) | i j. i < j \<and> j < length xs}"
    then consider k where "k < length xs" "p = (x, xs ! k)"
      | i j where "i < j" "j < length xs" "p = (xs ! i, xs ! j)" by (auto simp: in_set_conv_nth)
    then show "p \<in> {((x # xs) ! i, (x # xs) ! j) | i j. i < j \<and> j < length (x # xs)}"
    proof cases
      case 1
      then show ?thesis by (intro CollectI exI [of _ 0] exI [of _ "Suc k"]) simp
    next
      case 2
      then show ?thesis by (intro CollectI exI [of _ "Suc i"] exI [of _ "Suc j"]) simp
    qed
  next
    fix p assume "p \<in> {((x # xs) ! i, (x # xs) ! j) | i j. i < j \<and> j < length (x # xs)}"
    then obtain i j where p: "p = ((x # xs) ! i, (x # xs) ! j)" "i < j" "j < Suc (length xs)" by auto
    then obtain j' where j: "j = Suc j'" by (cases j) auto
    show "p \<in> Pair x ` set xs \<union> {(xs ! i, xs ! j) | i j. i < j \<and> j < length xs}"
      using p unfolding j by (cases i) auto
  qed
  finally show ?case .
qed simp

lemma in_pairs_iff:
  "(x, y) \<in> set (pairs xs) \<longleftrightarrow> (\<exists>i j. i < j \<and> j < length xs \<and> x = xs ! i \<and> y = xs ! j)"
  by (auto simp: set_pairs)

lemma pairs_filter: "pairs (filter P xs) = filter (\<lambda>(x, y). P x \<and> P y) (pairs xs)"
  by (induction xs) (auto simp: filter_map o_def filter_empty_conv)

lemma dedup_fold:
  "set (map fst (fold (\<lambda>c seen. AList.update (cf_ID c) c seen) cs seen)) = set (map fst seen) \<union> cf_ID ` set cs"
  "set (map snd (fold (\<lambda>c seen. AList.update (cf_ID c) c seen) cs seen)) \<subseteq> set (map snd seen) \<union> set cs"
  "\<forall>(k, c) \<in> set seen. k = cf_ID c \<Longrightarrow>
     \<forall>(k, c) \<in> set (fold (\<lambda>c seen. AList.update (cf_ID c) c seen) cs seen). k = cf_ID c"
  "distinct (map fst seen) \<Longrightarrow> distinct (map fst (fold (\<lambda>c seen. AList.update (cf_ID c) c seen) cs seen))"
proof (induction cs arbitrary: seen)
  case (Cons c cs)
  {
    case 1
    show ?case using Cons(1) by (simp add: dom_update)
  next
    case 2
    have "set (map snd (AList.update (cf_ID c) c seen)) \<subseteq> insert c (set (map snd seen))"
      by (induction seen) auto
    with Cons(2) [of "AList.update (cf_ID c) c seen"] show ?case by auto
  next
    case 3
    have "\<forall>(k, e) \<in> set (AList.update (cf_ID c) c seen). k = cf_ID e"
      using 3 by (induction seen) auto
    from Cons(3) [OF this] show ?case by simp
  next
    case 4
    then show ?case by (simp add: Cons(4) distinct_update)
  }
qed simp_all

lemma deduplicate:
  "cf_ID ` set (deduplicateConflicts cs) = cf_ID ` set cs" "set (deduplicateConflicts cs) \<subseteq> set cs"
  "distinct (map cf_ID (deduplicateConflicts cs))"
proof -
  let ?r = "fold (\<lambda>c seen. AList.update (cf_ID c) c seen) cs []"
  have k: "map cf_ID (map snd ?r) = map fst ?r"
    using dedup_fold(3) [of "[]" cs] by (auto intro!: map_cong)
  have "set (map cf_ID (deduplicateConflicts cs)) = cf_ID ` set cs"
    unfolding deduplicateConflicts_def k using dedup_fold(1) [of cs "[]"] by simp
  then show "cf_ID ` set (deduplicateConflicts cs) = cf_ID ` set cs" by simp
  show "set (deduplicateConflicts cs) \<subseteq> set cs"
    unfolding deduplicateConflicts_def using dedup_fold(2) [of cs "[]"] by simp
  show "distinct (map cf_ID (deduplicateConflicts cs))"
    unfolding deduplicateConflicts_def k using dedup_fold(4) [of "[]" cs] by simp
qed

text \<open>What the detection reports, before identifiers are merged.\<close>

definition resource_clashes :: "AgentLib \<Rightarrow> DelegationEnvelope list \<Rightarrow> instant \<Rightarrow> Conflict set" where
  "resource_clashes lib ds now = {resource_conflict lib now l r lc rc | l r lc rc.
     (\<exists>i j. i < j \<and> j < length ds \<and> l = ds ! i \<and> r = ds ! j) \<and>
     \<not> terminalDelegation (dl_Status l) \<and> \<not> terminalDelegation (dl_Status r) \<and>
     dl_CorrelationID l = dl_CorrelationID r \<and>
     normalizeID (a_ID (dl_Delegate l)) \<noteq> normalizeID (a_ID (dl_Delegate r)) \<and>
     dl_CreatedAt l < dl_DueAt r \<and> dl_CreatedAt r < dl_DueAt l \<and>
     lc \<in> set (dl_ResourceClaims l) \<and> rc \<in> set (dl_ResourceClaims r) \<and>
     normalizeID (rc_Resource lc) = normalizeID (rc_Resource rc) \<and> claimsConflict lc rc}"

definition decision_clashes :: "AgentLib \<Rightarrow> Message list \<Rightarrow> instant \<Rightarrow> Conflict set" where
  "decision_clashes lib ms now = {decision_conflict lib now l r | l r.
     (\<exists>i j. i < j \<and> j < length ms \<and> l = ms ! i \<and> r = ms ! j) \<and>
     m_Type l = MessageTypeDecision \<and> m_Type r = MessageTypeDecision \<and>
     m_CorrelationID l = m_CorrelationID r \<and>
     normalizeText (mp_Subject (m_Payload l)) = normalizeText (mp_Subject (m_Payload r)) \<and>
     normalizeID (a_ID (m_Sender l)) \<noteq> normalizeID (a_ID (m_Sender r)) \<and>
     decisionPayloadDigest lib l \<noteq> decisionPayloadDigest lib r}"

lemma detectResourceConflicts_ids:
  "cf_ID ` set (detectResourceConflicts lib ds now) = cf_ID ` resource_clashes lib ds now"
  "set (detectResourceConflicts lib ds now) \<subseteq> resource_clashes lib ds now"
proof -
  let ?all = "concat (map (\<lambda>(left, right). if \<not> competing left right then []
      else concat (map (\<lambda>leftClaim. map (resource_conflict lib now left right leftClaim)
        (filter (claims_compete leftClaim) (dl_ResourceClaims right))) (dl_ResourceClaims left))) (pairs ds))"
  have "set ?all = {resource_conflict lib now l r lc rc | l r lc rc. (l, r) \<in> set (pairs ds) \<and> competing l r \<and>
      lc \<in> set (dl_ResourceClaims l) \<and> rc \<in> set (dl_ResourceClaims r) \<and> claims_compete lc rc}"
    by (auto split: if_splits) blast+
  also have "\<dots> = resource_clashes lib ds now"
  proof -
    have "(l, r) \<in> set (pairs ds) \<and> competing l r \<and> lc \<in> set (dl_ResourceClaims l) \<and>
        rc \<in> set (dl_ResourceClaims r) \<and> claims_compete lc rc \<longleftrightarrow>
      (l, r) \<in> set (pairs ds) \<and>
      \<not> terminalDelegation (dl_Status l) \<and> \<not> terminalDelegation (dl_Status r) \<and>
      dl_CorrelationID l = dl_CorrelationID r \<and>
      normalizeID (a_ID (dl_Delegate l)) \<noteq> normalizeID (a_ID (dl_Delegate r)) \<and>
      dl_CreatedAt l < dl_DueAt r \<and> dl_CreatedAt r < dl_DueAt l \<and>
      lc \<in> set (dl_ResourceClaims l) \<and> rc \<in> set (dl_ResourceClaims r) \<and>
      normalizeID (rc_Resource lc) = normalizeID (rc_Resource rc) \<and> claimsConflict lc rc" for l r lc rc
      unfolding competing_def claims_compete_def delegationWindowsOverlap_def by blast
    then show ?thesis unfolding resource_clashes_def in_pairs_iff [symmetric] by (simp only:)
  qed
  finally have e: "set ?all = resource_clashes lib ds now" .
  show "cf_ID ` set (detectResourceConflicts lib ds now) = cf_ID ` resource_clashes lib ds now"
    by (simp only: detectResourceConflicts_def deduplicate(1) e)
  show "set (detectResourceConflicts lib ds now) \<subseteq> resource_clashes lib ds now"
    unfolding detectResourceConflicts_def e [symmetric] by (rule deduplicate(2))
qed

lemma detectDecisionConflicts_ids:
  "cf_ID ` set (detectDecisionConflicts lib ms now) = cf_ID ` decision_clashes lib ms now"
  "set (detectDecisionConflicts lib ms now) \<subseteq> decision_clashes lib ms now"
proof -
  let ?D = "filter (\<lambda>m. m_Type m = MessageTypeDecision) ms"
  let ?g = "map (\<lambda>key. filter (\<lambda>m. decision_key m = key) ?D) (remdups (map decision_key ?D))"
  let ?all = "concat (map (\<lambda>decisions. map (\<lambda>(left, right). decision_conflict lib now left right)
      (filter (\<lambda>(left, right). contradictory lib left right) (pairs decisions))) ?g)"
  have "set ?all = {decision_conflict lib now l r | l r. \<exists>d \<in> set ?g. (l, r) \<in> set (pairs d) \<and> contradictory lib l r}"
    by auto
  also have "\<dots> = {decision_conflict lib now l r | l r. (l, r) \<in> set (pairs ms) \<and>
      m_Type l = MessageTypeDecision \<and> m_Type r = MessageTypeDecision \<and>
      decision_key l = decision_key r \<and> contradictory lib l r}"
  proof -
    have "(\<exists>d \<in> set ?g. (l, r) \<in> set (pairs d)) \<longleftrightarrow> (l, r) \<in> set (pairs ms) \<and>
        m_Type l = MessageTypeDecision \<and> m_Type r = MessageTypeDecision \<and> decision_key l = decision_key r" for l r
    proof -
      have "l \<in> set ms" if "(l, r) \<in> set (pairs ms)" using that by (auto simp: set_pairs)
      then show ?thesis by (auto simp: pairs_filter)
    qed
    then show ?thesis by blast
  qed
  also have "\<dots> = decision_clashes lib ms now"
  proof -
    have "(l, r) \<in> set (pairs ms) \<and> m_Type l = MessageTypeDecision \<and> m_Type r = MessageTypeDecision \<and>
        decision_key l = decision_key r \<and> contradictory lib l r \<longleftrightarrow>
      (l, r) \<in> set (pairs ms) \<and>
      m_Type l = MessageTypeDecision \<and> m_Type r = MessageTypeDecision \<and>
      m_CorrelationID l = m_CorrelationID r \<and>
      normalizeText (mp_Subject (m_Payload l)) = normalizeText (mp_Subject (m_Payload r)) \<and>
      normalizeID (a_ID (m_Sender l)) \<noteq> normalizeID (a_ID (m_Sender r)) \<and>
      decisionPayloadDigest lib l \<noteq> decisionPayloadDigest lib r" for l r
      unfolding decision_key_def contradictory_def prod.inject by blast
    then show ?thesis unfolding decision_clashes_def in_pairs_iff [symmetric] by (simp only:)
  qed
  finally have e: "set ?all = decision_clashes lib ms now" .
  show "cf_ID ` set (detectDecisionConflicts lib ms now) = cf_ID ` decision_clashes lib ms now"
    by (simp only: detectDecisionConflicts_def Let_def deduplicate(1) e)
  show "set (detectDecisionConflicts lib ms now) \<subseteq> decision_clashes lib ms now"
    unfolding detectDecisionConflicts_def Let_def e [symmetric] by (rule deduplicate(2))
qed

section \<open>Respelled parties\<close>

text \<open>Validation looks at the identifier of the delegate only here.\<close>

lemma validated_respelled:
  assumes v: "ValidateDelegation lib policy d now = None"
    and x: "normalizeID x = normalizeID (a_ID (dl_Principal d))" "x \<noteq> a_ID (dl_Principal d)"
  defines "d' \<equiv> d\<lparr>dl_Delegate := (dl_Delegate d)\<lparr>a_ID := x\<rparr>\<rparr>"
  shows "ValidateDelegation lib policy d' now = None"
proof -
  note g = execution_guards_passed [OF v]
  have "\<forall>g \<in> set (delegation_guards lib policy d). \<not> fst g"
    using g(1) by (simp add: first_error_None_iff)
  note dg = this [unfolded delegation_guards_def agent_guards_def set_append ball_Un list.set ball_simps fst_conv]
  have same: "dl_Principal d' = dl_Principal d" "a_ID (dl_Delegate d') = x"
    "a_Role (dl_Delegate d') = a_Role (dl_Delegate d)"
    "a_AuthorityCeiling (dl_Delegate d') = a_AuthorityCeiling (dl_Delegate d)"
    "dl_ID d' = dl_ID d" "dl_TaskID d' = dl_TaskID d" "dl_IdempotencyKey d' = dl_IdempotencyKey d"
    "dl_CorrelationID d' = dl_CorrelationID d" "dl_Objective d' = dl_Objective d"
    "dl_SuccessCriteria d' = dl_SuccessCriteria d" "dl_StopConditions d' = dl_StopConditions d"
    "dl_ProhibitedActions d' = dl_ProhibitedActions d" "dl_ResourceClaims d' = dl_ResourceClaims d"
    by (simp_all add: d'_def)
  have "normalizeID (a_ID (dl_Principal d)) \<noteq> ''''" using dg by blast
  with dg x have "\<forall>g \<in> set (delegation_guards lib policy d'). \<not> fst g"
    unfolding delegation_guards_def agent_guards_def set_append ball_Un list.set ball_simps fst_conv same by auto
  moreover have "execution_guards policy d' now = execution_guards policy d now"
    unfolding execution_guards_def by (simp add: d'_def)
  moreover have "delegationContainsSecret lib d' = delegationContainsSecret lib d"
    by (simp add: delegationContainsSecret_def d'_def)
  moreover have "\<forall>g \<in> set (execution_guards policy d now). \<not> fst g"
    using g(1) by (simp add: first_error_None_iff)
  ultimately have "first_error (delegation_guards lib policy d' @ execution_guards policy d' now) = None"
    "validate_claims [] (dl_ResourceClaims d') = None"
    "\<not> (vp_RequireRedaction policy \<and> delegationContainsSecret lib d')"
    using g(2,3) by (auto simp: first_error_None_iff same)
  then show ?thesis unfolding ValidateDelegation_def by simp
qed

section \<open>Dispatch\<close>

text \<open>The calls a coordinator makes, with their results, logged beside the state of the ports.\<close>

datatype DispatchCall =
    CallBegin string string instant "string + DispatchClaim"
  | CallDeliver Message "string + DeliveryReceipt"
  | CallComplete string string DeliveryReceipt "string option"
  | CallAbandon string string "string option"

definition logged :: "('r \<Rightarrow> DispatchCall) \<Rightarrow> ('s \<Rightarrow> 'r \<times> 's) \<Rightarrow> 's \<times> DispatchCall list \<Rightarrow> 'r \<times> 's \<times> DispatchCall list" where
  "logged call f = (\<lambda>(s, calls). let (r, s') = f s in (r, s', calls @ [call r]))"

definition traced :: "'s DispatchPorts \<Rightarrow> ('s \<times> DispatchCall list) DispatchPorts" where
  "traced ports =
     \<lparr>port_Begin = (\<lambda>key digest t. logged (CallBegin key digest t) (port_Begin ports key digest t)),
      port_Complete = (\<lambda>key digest receipt. logged (CallComplete key digest receipt)
        (port_Complete ports key digest receipt)),
      port_Abandon = (\<lambda>key digest. logged (CallAbandon key digest) (port_Abandon ports key digest)),
      port_Deliver = (\<lambda>message. logged (CallDeliver message) (port_Deliver ports message))\<rparr>"

text \<open>
  The call that settles a claim after the delivery \<open>x\<close> of a message: it completes it with the
  matching receipt, and the result \<open>r\<close> is that receipt if the store did, or it abandons it and
  the result is an error.
\<close>

definition settlement ::
  "Message \<Rightarrow> string \<Rightarrow> (string + DeliveryReceipt) \<Rightarrow> (DispatchError + DeliveryReceipt) \<Rightarrow> DispatchCall \<Rightarrow> bool" where
  "settlement message digest x r call \<longleftrightarrow>
     (case call of
        CallComplete key d receipt failed \<Rightarrow> key = m_IdempotencyKey message \<and> d = digest \<and> x = Inr receipt \<and>
          receipt_matches message receipt \<and> (r = Inr receipt \<longleftrightarrow> failed = None)
      | CallAbandon key d failed \<Rightarrow> key = m_IdempotencyKey message \<and> d = digest \<and> isl r
      | _ \<Rightarrow> False)"

text \<open>What follows an acquired claim: one delivery and one settlement.\<close>

lemma deliver_claimed_calls:
  assumes "deliver_claimed (traced ports) message digest (s, calls) = (r, s', calls')"
  shows "\<exists>x y. calls' = calls @ [CallDeliver message x, y] \<and> settlement message digest x r y"
proof -
  obtain x s1 where x: "port_Deliver ports message s = (x, s1)" by fastforce
  have d: "port_Deliver (traced ports) message (s, calls) = (x, s1, calls @ [CallDeliver message x])"
    by (simp add: traced_def logged_def x)
  obtain e s2 where e: "port_Abandon ports (m_IdempotencyKey message) digest s1 = (e, s2)" by fastforce
  have a: "port_Abandon (traced ports) (m_IdempotencyKey message) digest (s1, calls @ [CallDeliver message x]) =
      (e, s2, calls @ [CallDeliver message x, CallAbandon (m_IdempotencyKey message) digest e])"
    by (simp add: traced_def logged_def e)
  note m = assms [unfolded deliver_claimed_def d prod.case]
  show ?thesis
  proof (cases "\<exists>receipt. x = Inr receipt \<and> receipt_matches message receipt")
    case True
    then obtain receipt where r: "x = Inr receipt" "receipt_matches message receipt" by blast
    obtain e' s3 where c: "port_Complete ports (m_IdempotencyKey message) digest receipt s1 = (e', s3)" by fastforce
    have c': "port_Complete (traced ports) (m_IdempotencyKey message) digest receipt (s1, calls @ [CallDeliver message x]) =
        (e', s3, calls @ [CallDeliver message x, CallComplete (m_IdempotencyKey message) digest receipt e'])"
      by (simp add: traced_def logged_def c)
    from m r c' have "calls' = calls @ [CallDeliver message x, CallComplete (m_IdempotencyKey message) digest receipt e']"
      "r = Inr receipt \<longleftrightarrow> e' = None"
      by (auto split: option.splits)
    with r show ?thesis by (intro exI conjI) (assumption, simp add: settlement_def)
  next
    case False
    from m False a have "isl r"
      "calls' = calls @ [CallDeliver message x, CallAbandon (m_IdempotencyKey message) digest e]"
      by (auto split: sum.splits option.splits)
    then show ?thesis by (intro exI conjI) (assumption, simp add: settlement_def)
  qed
qed

end
