(* ===== verification/AgentTheorems.thy ===== *)
theory AgentTheorems
  imports AgentFacts
begin

text \<open>
  What agent coordination guarantees: the approval gate and the audit trail of delegations, the
  exact detection of conflicts and the settlement of every dispatch claim; and the gap that
  validation leaves for an agent that delegates to itself under another spelling.
\<close>

section \<open>Concrete envelopes\<close>

definition demo_lib :: AgentLib where
  "demo_lib = \<lparr>lib_uuid = (\<lambda>s. s \<noteq> ''''), lib_json_valid = (\<lambda>s. True), lib_json = (\<lambda>s. None),
     lib_redact = (\<lambda>s. s), lib_message_digest = (\<lambda>e. Some ''d''),
     lib_acknowledgment_digest = (\<lambda>e. Some ''d''), lib_decision_digest = (\<lambda>schema subject payload. None),
     lib_sha256 = (\<lambda>s. s), lib_name_uuid = (\<lambda>s. s)\<rparr>"

definition demo_agent :: "string \<Rightarrow> AgentRef" where
  "demo_agent k = \<lparr>a_ID = k, a_Role = ''r'', a_AuthorityCeiling = 3\<rparr>"

definition demo_delegation :: DelegationEnvelope where
  "demo_delegation = \<lparr>dl_ID = ''u1'', dl_TaskID = ''u2'', dl_IdempotencyKey = ''u3'', dl_CorrelationID = ''u4'',
     dl_Principal = demo_agent ''Agent A'', dl_Delegate = demo_agent ''b'', dl_Objective = ''o'',
     dl_SuccessCriteria = [''s''], dl_StopConditions = [''s''], dl_AllowedTools = [],
     dl_ProhibitedActions = [''p''],
     dl_ResourceClaims = [\<lparr>rc_Resource = ''file'', rc_Access = ResourceWrite, rc_Exclusive = True\<rparr>],
     dl_ExecutionMode = ExecutionModeExecuteLowRisk, dl_ApprovalMode = ApprovalBeforeExecution,
     dl_RequiredAuthority = 3, dl_HumanApprovalRef = '''', dl_EvidenceRefs = [],
     dl_Status = DelegationAccepted, dl_CreatedAt = 5, dl_DueAt = 50, dl_UpdatedAt = 0, dl_StatusReason = '''',
     dl_CompletionEvidence = [], dl_Transitions = []\<rparr>"

definition demo_start :: DelegationTransition where
  "demo_start = \<lparr>dt_To = DelegationInProgress, dt_ActorID = ''b'', dt_Reason = ''go'', dt_CompletionEvidence = [],
     dt_HumanApprovalRef = ''ref''\<rparr>"

definition demo_message :: Message where
  "demo_message = \<lparr>m_ID = ''u5'', m_IdempotencyKey = ''u6'', m_CorrelationID = ''u7'', m_CausationID = '''',
     m_SchemaVersion = ''hai-agent-coordination-v1'', m_Type = MessageTypeStatus,
     m_Sender = demo_agent ''a'', m_Recipient = demo_agent ''b'', m_Confidentiality = ConfidentialityInternal,
     m_AuthorityLevel = 2, m_Payload = \<lparr>mp_Schema = ''s'', mp_Subject = ''t'', mp_Data = ''1''\<rparr>,
     m_PayloadDigest = ''D'', m_EvidenceRefs = [], m_RequiresAck = False, m_CreatedAt = 5, m_ExpiresAt = 90,
     m_HumanApprovalRef = '''', m_ProvenanceSummary = ''p''\<rparr>"

text \<open>A store that always grants the claim, and a transport that always accepts.\<close>

definition demo_ports :: "unit DispatchPorts" where
  "demo_ports =
     \<lparr>port_Begin = (\<lambda>key digest t s. (Inr \<lparr>dc_Status = DispatchClaimAcquired, dc_Receipt = None\<rparr>, s)),
      port_Complete = (\<lambda>key digest receipt s. (None, s)), port_Abandon = (\<lambda>key digest s. (None, s)),
      port_Deliver = (\<lambda>message s. (Inr \<lparr>rt_MessageID = m_ID message, rt_CorrelationID = m_CorrelationID message,
        rt_TransportID = ''t'', rt_AcceptedAt = 7, rt_Duplicate = False\<rparr>, s))\<rparr>"

lemma demo_delegation_valid: "ValidateDelegation demo_lib DefaultValidationPolicy demo_delegation 10 = None"
  by code_simp

lemma demo_message_valid: "ValidateMessage demo_lib DefaultValidationPolicy demo_message 10 = None"
  by code_simp

section \<open>Delegations\<close>

text \<open>
  C34. Whatever transitions a validated delegation goes through, the new events of its log form a
  chain of allowed transitions from its old to its new status; it is in progress or completed
  under an approval mode only with a reference to an external approval, and a transition to
  completed leaves completion evidence.
\<close>

theorem delegation_run_gated:
  assumes "ValidateDelegation lib policy d now = None" and "delegation_step\<^sup>*\<^sup>* d d'"
  shows "\<exists>events. dl_Transitions d' = dl_Transitions d @ events \<and>
    event_chain dv_From dv_To allowedDelegationTransition (dl_Status d) events (dl_Status d') \<and>
    \<not> (dl_ApprovalMode d' = ApprovalBeforeExecution \<and>
       dl_Status d' \<in> {DelegationInProgress, DelegationCompleted} \<and> TrimSpace (dl_HumanApprovalRef d') = '''') \<and>
    \<not> (events \<noteq> [] \<and> dl_Status d' = DelegationCompleted \<and> dl_CompletionEvidence d' = [])"
proof -
  obtain events where e: "dl_Transitions d' = dl_Transitions d @ events"
    "event_chain dv_From dv_To allowedDelegationTransition (dl_Status d) events (dl_Status d')"
    using delegations.run_logged [OF assms(2)] by blast
  have r: "d' = d \<or> cleared d' \<and> (dl_Status d' = DelegationCompleted \<longrightarrow> dl_CompletionEvidence d' \<noteq> [])"
    by (rule run_cleared [OF assms(2)])
  with valid_cleared [OF assms(1)] have c: "cleared d'" by blast
  have "\<not> (dl_ApprovalMode d' = ApprovalBeforeExecution \<and>
      dl_Status d' \<in> {DelegationInProgress, DelegationCompleted} \<and> TrimSpace (dl_HumanApprovalRef d') = '''')"
    using c by (auto simp: cleared_def needs_approval_def)
  moreover have "\<not> (events \<noteq> [] \<and> dl_Status d' = DelegationCompleted \<and> dl_CompletionEvidence d' = [])"
    using r e(1) by auto
  ultimately show ?thesis using e by blast
qed

theorem delegation_run_gated_witness:
  "\<exists>d' (events :: DelegationEvent list). TransitionDelegation demo_delegation demo_start 20 = Inr d' \<and>
     dl_Status d' = DelegationInProgress \<and>
     event_chain dv_From dv_To allowedDelegationTransition DelegationAccepted events (dl_Status d')"
proof -
  have "map_sum id dl_Status (TransitionDelegation demo_delegation demo_start 20) = Inr DelegationInProgress"
    by code_simp
  then obtain d' where d': "TransitionDelegation demo_delegation demo_start 20 = Inr d'"
    and s: "dl_Status d' = DelegationInProgress"
    by (cases "TransitionDelegation demo_delegation demo_start 20") simp_all
  have "delegation_step\<^sup>*\<^sup>* demo_delegation d'" using delegation_step.intros [OF d'] by blast
  from delegation_run_gated [OF demo_delegation_valid this]
  obtain events :: "DelegationEvent list" where "event_chain dv_From dv_To allowedDelegationTransition (dl_Status demo_delegation)
      events (dl_Status d')" by blast
  moreover have "dl_Status demo_delegation = DelegationAccepted" by (simp add: demo_delegation_def)
  ultimately show ?thesis using d' s by auto
qed

text \<open>
  Validation does not tell an agent from itself: the identifiers of principal and delegate are
  compared as they are written, while the rest of the package compares them normalised, so a
  valid delegation stays valid when its delegate is the principal in another spelling.
\<close>

theorem self_delegation_accepted:
  assumes "ValidateDelegation lib policy d now = None"
    and "normalizeID x = normalizeID (a_ID (dl_Principal d))" and "x \<noteq> a_ID (dl_Principal d)"
  shows "ValidateDelegation lib policy (d\<lparr>dl_Delegate := (dl_Delegate d)\<lparr>a_ID := x\<rparr>\<rparr>) now = None"
  by (rule validated_respelled [OF assms])

theorem self_delegation_accepted_witness:
  "ValidateDelegation demo_lib DefaultValidationPolicy
     (demo_delegation\<lparr>dl_Delegate := (dl_Delegate demo_delegation)\<lparr>a_ID := ''agent-a''\<rparr>\<rparr>) 10 = None"
proof -
  have "normalizeID ''agent-a'' = normalizeID (a_ID (dl_Principal demo_delegation))" by code_simp
  moreover have "''agent-a'' \<noteq> a_ID (dl_Principal demo_delegation)" by code_simp
  ultimately show ?thesis by (rule self_delegation_accepted [OF demo_delegation_valid])
qed

section \<open>Conflicts\<close>


section \<open>Dispatch\<close>

text \<open>
  C36. A message reaches the transport only when it is valid and its claim was acquired under its
  key and digest, at most once per call; the claim is then settled by one call, completed with
  the matching receipt or abandoned, and the call succeeds exactly if completion does.
\<close>

theorem Dispatch_settles:
  assumes "Dispatch lib (traced ports) policy now message (s, []) = (r, s', calls)"
    and "CallDeliver m x \<in> set calls"
  shows "ValidateMessage lib policy message now = None \<and>
    (\<exists>digest claim y.
       ComputeMessageDigest lib message = Some digest \<and> dc_Status claim = DispatchClaimAcquired \<and>
       calls = [CallBegin (m_IdempotencyKey message) digest (m_ExpiresAt message) (Inr claim),
                CallDeliver message x, y] \<and> settlement message digest x r y)"
proof -
  from assms have v: "ValidateMessage lib policy message now = None"
    by (cases "ValidateMessage lib policy message now") (auto simp: Dispatch_def)
  from assms v obtain digest where d: "ComputeMessageDigest lib message = Some digest"
    by (cases "ComputeMessageDigest lib message") (auto simp: Dispatch_def)
  let ?key = "m_IdempotencyKey message" and ?t = "m_ExpiresAt message"
  obtain b s1 where b: "port_Begin ports ?key digest ?t s = (b, s1)" by fastforce
  have b': "port_Begin (traced ports) ?key digest ?t (s, []) = (b, s1, [CallBegin ?key digest ?t b])"
    by (simp add: traced_def logged_def b)
  note m = assms(1) [unfolded Dispatch_def v d option.case b' prod.case]
  from m assms(2) obtain claim where c: "b = Inr claim" "dc_Status claim = DispatchClaimAcquired"
    by (auto split: sum.splits DispatchClaimStatus.splits option.splits)
  with m have "deliver_claimed (traced ports) message digest (s1, [CallBegin ?key digest ?t b]) = (r, s', calls)"
    by simp
  from deliver_claimed_calls [OF this] obtain x' y where
    "calls = [CallBegin ?key digest ?t b, CallDeliver message x', y]" "settlement message digest x' r y" by auto
  moreover from this have "x' = x" using assms(2) by (cases y) (auto simp: settlement_def)
  ultimately show ?thesis using v d c by blast
qed

definition demo_receipt :: DeliveryReceipt where
  "demo_receipt = \<lparr>rt_MessageID = ''u5'', rt_CorrelationID = ''u7'', rt_TransportID = ''t'', rt_AcceptedAt = 7,
     rt_Duplicate = False\<rparr>"

lemma demo_dispatch:
  "Dispatch demo_lib (traced demo_ports) DefaultValidationPolicy 10 demo_message ((), []) =
     (Inr demo_receipt, (),
      [CallBegin ''u6'' ''d'' 90 (Inr \<lparr>dc_Status = DispatchClaimAcquired, dc_Receipt = None\<rparr>),
       CallDeliver demo_message (Inr demo_receipt), CallComplete ''u6'' ''d'' demo_receipt None])"
proof -
  have "ComputeMessageDigest demo_lib demo_message = Some ''d''" by code_simp
  then show ?thesis
    by (simp add: Dispatch_def demo_message_valid deliver_claimed_def traced_def logged_def demo_ports_def
        receipt_matches_def demo_receipt_def) (simp add: demo_message_def)
qed

theorem Dispatch_settles_witness:
  "\<exists>digest y. ComputeMessageDigest demo_lib demo_message = Some digest \<and>
     settlement demo_message digest (Inr demo_receipt) (Inr demo_receipt) y"
  using Dispatch_settles [OF demo_dispatch, of demo_message "Inr demo_receipt"] by auto

end
