(* ===== verification/PlannerTypes.thy ===== *)
theory PlannerTypes
  imports Prelude
begin

text \<open>
  Package \<open>resourceplanner\<close>, files \<open>types.go\<close> and \<open>validation.go\<close>: what a planning request and a
  planning decision are, and the normalisation and validation of a request. Redaction, SHA-256 and
  the digests of encoded structs are the arguments \<open>PlannerLib\<close>. A nil pointer is \<open>None\<close>;
  \<open>cloneRequest\<close> copies a value, which is what a record is.
\<close>

section \<open>Types\<close>

datatype Feasibility = Feasible | FeasibleWithApprovals | Infeasible

datatype DeadlineKind = HardDeadline | SoftDeadline | OtherDeadlineKind string

datatype DurationMode = ExpectedDuration | ConservativeDuration | OtherDurationMode string

record DurationEstimate =
  du_OptimisticMinutes :: int
  du_ExpectedMinutes :: int
  du_PessimisticMinutes :: int
  du_Basis :: string

record ResourceRequirement =
  rr_ResourceID :: string
  rr_CapacityUnits :: int

record CapacityWindow =
  cw_ResourceID :: string
  cw_Start :: instant
  cw_End :: instant
  cw_CapacityUnits :: int

record UsageEstimate =
  us_CostMicros :: int
  us_InputTokens :: int
  us_OutputTokens :: int
  us_ToolCalls :: int

record UsageBudget =
  bu_MaxCostMicros :: "int option"
  bu_MaxInputTokens :: "int option"
  bu_MaxOutputTokens :: "int option"
  bu_MaxToolCalls :: "int option"

record TaskApproval =
  ta_Required :: bool
  ta_Reasons :: "string list"

record PlanTask =
  tk_ID :: string
  tk_Duration :: DurationEstimate
  tk_EarliestStart :: "instant option"
  tk_Deadline :: "instant option"
  tk_DeadlineKind :: DeadlineKind
  tk_Dependencies :: "string list"
  tk_Resources :: "ResourceRequirement list"
  tk_EstimatedUsage :: UsageEstimate
  tk_Priority :: int
  tk_Optional :: bool
  tk_Approval :: TaskApproval
  tk_UncertaintyReviewPct :: int

record ReviewPolicy =
  rv_CostThresholdMicros :: "int option"
  rv_InputTokenThreshold :: "int option"
  rv_OutputTokenThreshold :: "int option"
  rv_ToolCallThreshold :: "int option"
  rv_UncertaintyThreshold :: int
  rv_SoftDeadlineMiss :: bool

record PlanningRequest =
  pq_OwnerIdentity :: string
  pq_OwnerScopeDigest :: string
  pq_WorkspaceID :: string
  pq_PlanID :: string
  pq_AsOf :: instant
  pq_HorizonStart :: instant
  pq_HorizonEnd :: instant
  pq_DurationMode :: DurationMode
  pq_Tasks :: "PlanTask list"
  pq_Availability :: "CapacityWindow list"
  pq_Budget :: UsageBudget
  pq_ApprovalPolicy :: ReviewPolicy

record Allocation =
  alc_ResourceID :: string
  alc_CapacityUnits :: int

record ScheduledTask =
  sk_TaskID :: string
  sk_Start :: instant
  sk_End :: instant
  sk_PlannedDurationMinutes :: int
  sk_DeadlineSlackMinutes :: "int option"
  sk_DependencySlackMinutes :: int
  sk_NetworkSlackMinutes :: int
  sk_Critical :: bool
  sk_Allocations :: "Allocation list"
  sk_Dependencies :: "string list"
  sk_DurationEstimateBasis :: string
  sk_DurationUncertaintyPct :: int

record Blocker =
  bk_Code :: string
  bk_TaskID :: string
  bk_ResourceID :: string
  bk_Detail :: string
  bk_BlocksFeasibility :: bool

record ReviewFlag =
  vf_Code :: string
  vf_TaskID :: string
  vf_Reason :: string
  vf_Mandatory :: bool

record ReplanReason =
  rpr_Code :: string
  rpr_TaskIDs :: "string list"
  rpr_ResourceIDs :: "string list"
  rpr_Detail :: string
  rpr_SuggestedChange :: string

record FallbackStage =
  fg_Stage :: nat
  fg_Code :: string
  fg_Description :: string
  fg_TriggeredBy :: "string list"
  fg_AffectedTaskIDs :: "string list"
  fg_RequiresApproval :: bool

record BudgetAssessment =
  bas_Estimated :: UsageEstimate
  bas_Limits :: UsageBudget
  bas_WithinCostLimit :: bool
  bas_WithinInputTokenLimit :: bool
  bas_WithinOutputTokenLimit :: bool
  bas_WithinToolCallLimit :: bool

record PlanAudit =
  pau_Sequence :: nat
  pau_Code :: string
  pau_Subject :: string
  pau_Detail :: string

record PlanningDecision =
  pld_PlanID :: string
  pld_OwnerScopeDigest :: string
  pld_WorkspaceID :: string
  pld_AlgorithmVersion :: string
  pld_AsOf :: instant
  pld_InputDigest :: string
  pld_DecisionDigest :: string
  pld_Feasibility :: Feasibility
  pld_Scheduled :: "ScheduledTask list"
  pld_UnscheduledTaskIDs :: "string list"
  pld_Budget :: BudgetAssessment
  pld_CriticalBlockers :: "Blocker list"
  pld_Advisories :: "Blocker list"
  pld_ApprovalFlags :: "ReviewFlag list"
  pld_ReplanReasons :: "ReplanReason list"
  pld_FallbackStages :: "FallbackStage list"
  pld_Audit :: "PlanAudit list"
  pld_Authority :: string
  pld_CanExecute :: bool
  pld_GrantsAuthority :: bool

section \<open>Time\<close>

definition nanos_per_minute :: int where
  "nanos_per_minute = 60 * nanos_per_second"

text \<open>\<open>time.Time.Truncate(time.Minute)\<close>: down to a multiple of a minute since the zero time.\<close>

definition minuteUTC :: "instant \<Rightarrow> instant" where
  "minuteUTC t = t - t mod nanos_per_minute"

text \<open>The quotient of two durations, rounded towards zero as Go's \<open>/\<close> does.\<close>

definition minutesBetween :: "instant \<Rightarrow> instant \<Rightarrow> int" where
  "minutesBetween t u =
     (let d = time_Sub u t in if d < 0 then - (- d div nanos_per_minute) else d div nanos_per_minute)"

text \<open>The value of an \<open>int64\<close> expression whose exact value is \<open>x\<close>.\<close>

definition wrap_int64 :: "int \<Rightarrow> int" where
  "wrap_int64 x = (x + 2 ^ 63) mod 2 ^ 64 - 2 ^ 63"

text \<open>\<open>time.Duration(minutes) * time.Minute\<close>\<close>

definition minutes_span :: "int \<Rightarrow> duration" where
  "minutes_span minutes = wrap_int64 (minutes * nanos_per_minute)"

section \<open>Limits\<close>

definition maxTasks :: nat where
  "maxTasks = 500"

definition maxDependencies :: nat where
  "maxDependencies = 100"

definition maxResources :: nat where
  "maxResources = 100"

definition maxWindows :: nat where
  "maxWindows = 5000"

definition maxMinutes :: int where
  "maxMinutes = 10 * 365 * 24 * 60"

definition maxCapacity :: int where
  "maxCapacity = 1000000000"

lemmas planner_limits = maxTasks_def maxDependencies_def maxResources_def maxWindows_def maxMinutes_def maxCapacity_def

section \<open>Validation\<close>

datatype PlannerError =
    OwnerIdentityUnsafe | WorkspaceIDInvalid | PlanIDInvalid | AsOfRequired | HorizonInvalid | HorizonTooLong
  | AsOfAfterHorizon | DurationModeInvalid | TaskCountInvalid | TooManyWindows
  | LimitNegative string string | UncertaintyThresholdInvalid
  | TaskIDInvalid nat | TaskIDDuplicated string | DurationInvalid string | BasisTooLong string
  | EarliestStartOutside string | DeadlineOutside string | DeadlineBeforeStart string
  | DeadlineKindInvalid string | PriorityInvalid string | TooManyDependencies string
  | DependencyIDInvalid string | DependencyRepeated string string | TooManyResources string
  | RequirementInvalid string | ResourceRepeated string string | UsageNegative string
  | ReviewPctInvalid string | ExplanationUnsafe string | ApprovalReasonRequired string
  | SelfDependency string | WindowInvalid nat | WindowOutside nat
  | UsageOverflows string | RequestDigestFailed | DecisionDigestFailed

record PlannerLib =
  pll_redact :: "string \<Rightarrow> string"
  pll_sha256 :: "string \<Rightarrow> string"
  pll_request_digest :: "PlanningRequest \<Rightarrow> string option"
  pll_decision_digest :: "PlanningDecision \<Rightarrow> string option"

definition char_within :: "char \<Rightarrow> string \<Rightarrow> bool" where
  "char_within c ends = (hd ends \<le> c \<and> c \<le> last ends)"

definition opaque_char :: "char \<Rightarrow> bool" where
  "opaque_char c = (list_ex (char_within c) [''az'', ''AZ'', ''09''] \<or> c \<in> set ''-_.'')"

definition validOpaqueID :: "string \<Rightarrow> bool" where
  "validOpaqueID value \<longleftrightarrow> value \<noteq> [] \<and> length value \<le> 96 \<and> (\<forall>c \<in> set value. opaque_char c)"

definition hasUnsafeText :: "PlannerLib \<Rightarrow> string \<Rightarrow> bool" where
  "hasUnsafeText lib value =
     (let value = TrimSpace value in value \<noteq> [] \<and> pll_redact lib value \<noteq> value)"

definition containsUnsafeStrings :: "PlannerLib \<Rightarrow> string list \<Rightarrow> bool" where
  "containsUnsafeStrings lib values = list_ex (hasUnsafeText lib) values"

definition validateDuration :: "string \<Rightarrow> DurationEstimate \<Rightarrow> PlannerError option" where
  "validateDuration taskID estimate = first_error
     [(du_OptimisticMinutes estimate \<le> 0 \<or> du_ExpectedMinutes estimate \<le> 0 \<or> du_PessimisticMinutes estimate \<le> 0 \<or>
         du_ExpectedMinutes estimate < du_OptimisticMinutes estimate \<or>
         du_PessimisticMinutes estimate < du_ExpectedMinutes estimate \<or>
         maxMinutes < du_PessimisticMinutes estimate, DurationInvalid taskID),
      (500 < length (du_Basis estimate), BasisTooLong taskID)]"

definition validateUsage :: "string \<Rightarrow> UsageEstimate \<Rightarrow> PlannerError option" where
  "validateUsage taskID usage =
     (if us_CostMicros usage < 0 \<or> us_InputTokens usage < 0 \<or> us_OutputTokens usage < 0 \<or> us_ToolCalls usage < 0
      then Some (UsageNegative taskID) else None)"

definition negative :: "int option \<Rightarrow> bool" where
  "negative value = (case value of None \<Rightarrow> False | Some v \<Rightarrow> v < 0)"

definition validateBudget :: "UsageBudget \<Rightarrow> string \<Rightarrow> PlannerError option" where
  "validateBudget budget label = first_error
     [(negative (bu_MaxCostMicros budget), LimitNegative label ''cost''),
      (negative (bu_MaxInputTokens budget), LimitNegative label ''input tokens''),
      (negative (bu_MaxOutputTokens budget), LimitNegative label ''output tokens''),
      (negative (bu_MaxToolCalls budget), LimitNegative label ''tool calls'')]"

definition validateReviewPolicy :: "ReviewPolicy \<Rightarrow> PlannerError option" where
  "validateReviewPolicy policy =
     (case validateBudget
             \<lparr>bu_MaxCostMicros = rv_CostThresholdMicros policy, bu_MaxInputTokens = rv_InputTokenThreshold policy,
              bu_MaxOutputTokens = rv_OutputTokenThreshold policy, bu_MaxToolCalls = rv_ToolCallThreshold policy\<rparr>
             ''approval'' of
        Some e \<Rightarrow> Some e
      | None \<Rightarrow> if rv_UncertaintyThreshold policy < 0 \<or> 10000 < rv_UncertaintyThreshold policy
                then Some UncertaintyThresholdInvalid else None)"

text \<open>The loop of \<open>normalizeUniqueIDs\<close>; the caller sorts the result.\<close>

fun unique_ids :: "string \<Rightarrow> string list \<Rightarrow> string list \<Rightarrow> PlannerError + string list" where
  "unique_ids taskID seen [] = Inr []"
| "unique_ids taskID seen (v # vs) =
     (let v = TrimSpace v in
      if \<not> validOpaqueID v then Inl (DependencyIDInvalid taskID)
      else if v \<in> set seen then Inl (DependencyRepeated taskID v)
      else and_then (unique_ids taskID (v # seen) vs) (\<lambda>rest. Inr (v # rest)))"

definition normalizeUniqueIDs :: "string \<Rightarrow> string list \<Rightarrow> PlannerError + string list" where
  "normalizeUniqueIDs taskID values = and_then (unique_ids taskID [] values) (\<lambda>values. Inr (sort values))"

fun reason_texts :: "string list \<Rightarrow> string list \<Rightarrow> string list" where
  "reason_texts seen [] = []"
| "reason_texts seen (v # vs) =
     (let v = TrimSpace v in
      if v = [] \<or> 500 < length v \<or> v \<in> set seen then reason_texts seen vs
      else v # reason_texts (v # seen) vs)"

definition normalize_reasons :: "string list \<Rightarrow> string list" where
  "normalize_reasons values = sort (reason_texts [] values)"

fun tidy_requirements :: "string \<Rightarrow> string list \<Rightarrow> ResourceRequirement list \<Rightarrow> PlannerError + ResourceRequirement list" where
  "tidy_requirements taskID seen [] = Inr []"
| "tidy_requirements taskID seen (r # rs) =
     (let r = r\<lparr>rr_ResourceID := TrimSpace (rr_ResourceID r)\<rparr> in
      if \<not> validOpaqueID (rr_ResourceID r) \<or> rr_CapacityUnits r \<le> 0 \<or> maxCapacity < rr_CapacityUnits r
      then Inl (RequirementInvalid taskID)
      else if rr_ResourceID r \<in> set seen then Inl (ResourceRepeated taskID (rr_ResourceID r))
      else and_then (tidy_requirements taskID (rr_ResourceID r # seen) rs) (\<lambda>rest. Inr (r # rest)))"

text \<open>
  The body of the loop over the tasks of a request: the task is rewritten in place and checked
  on the way. \<open>seen\<close> holds the identifiers of the tasks before it.
\<close>

definition task_identity_guards :: "nat \<Rightarrow> string list \<Rightarrow> PlanTask \<Rightarrow> (bool \<times> PlannerError) list" where
  "task_identity_guards i seen task =
     [(\<not> validOpaqueID (tk_ID task), TaskIDInvalid i),
      (tk_ID task \<in> set seen, TaskIDDuplicated (tk_ID task))]"

definition time_guards :: "PlanningRequest \<Rightarrow> PlanTask \<Rightarrow> (bool \<times> PlannerError) list" where
  "time_guards request task =
     [(case tk_EarliestStart task of None \<Rightarrow> False
         | Some v \<Rightarrow> v < pq_HorizonStart request \<or> pq_HorizonEnd request \<le> v, EarliestStartOutside (tk_ID task)),
      (case tk_Deadline task of None \<Rightarrow> False
         | Some v \<Rightarrow> v \<le> pq_HorizonStart request \<or> pq_HorizonEnd request < v, DeadlineOutside (tk_ID task)),
      (case (tk_Deadline task, tk_EarliestStart task) of (Some v, Some e) \<Rightarrow> v \<le> e | _ \<Rightarrow> False,
         DeadlineBeforeStart (tk_ID task)),
      (tk_DeadlineKind task \<noteq> HardDeadline \<and> tk_DeadlineKind task \<noteq> SoftDeadline, DeadlineKindInvalid (tk_ID task)),
      (tk_Priority task < 0 \<or> 100 < tk_Priority task, PriorityInvalid (tk_ID task)),
      (maxDependencies < length (tk_Dependencies task), TooManyDependencies (tk_ID task))]"

definition explanation_guards :: "PlannerLib \<Rightarrow> PlanTask \<Rightarrow> (bool \<times> PlannerError) list" where
  "explanation_guards lib task =
     [(tk_UncertaintyReviewPct task < 0 \<or> 10000 < tk_UncertaintyReviewPct task, ReviewPctInvalid (tk_ID task)),
      (hasUnsafeText lib (du_Basis (tk_Duration task)) \<or> containsUnsafeStrings lib (ta_Reasons (tk_Approval task)),
         ExplanationUnsafe (tk_ID task)),
      (ta_Required (tk_Approval task) \<and> ta_Reasons (tk_Approval task) = [], ApprovalReasonRequired (tk_ID task))]"

definition tidy_times :: "PlanTask \<Rightarrow> PlanTask" where
  "tidy_times task = task
     \<lparr>tk_ID := TrimSpace (tk_ID task),
      tk_EarliestStart := map_option minuteUTC (tk_EarliestStart task),
      tk_Deadline := map_option minuteUTC (tk_Deadline task),
      tk_DeadlineKind := (if tk_DeadlineKind task = OtherDeadlineKind '''' then HardDeadline else tk_DeadlineKind task)\<rparr>"

definition early_checks :: "PlanningRequest \<Rightarrow> nat \<Rightarrow> string list \<Rightarrow> PlanTask \<Rightarrow> PlannerError option" where
  "early_checks request i seen task =
     (case first_error (task_identity_guards i seen task) of Some e \<Rightarrow> Some e | None \<Rightarrow>
      (case validateDuration (tk_ID task) (tk_Duration task) of Some e \<Rightarrow> Some e | None \<Rightarrow>
       first_error (time_guards request task)))"

definition late_checks :: "PlannerLib \<Rightarrow> PlanTask \<Rightarrow> PlannerError option" where
  "late_checks lib task =
     (case validateUsage (tk_ID task) (tk_EstimatedUsage task) of Some e \<Rightarrow> Some e | None \<Rightarrow>
      first_error (explanation_guards lib task))"

definition with_lists :: "PlanTask \<Rightarrow> string list \<Rightarrow> ResourceRequirement list \<Rightarrow> PlanTask" where
  "with_lists task dependencies resources = task
     \<lparr>tk_Dependencies := dependencies,
      tk_Resources := sort_key rr_ResourceID resources,
      tk_Approval := (tk_Approval task)\<lparr>ta_Reasons := normalize_reasons (ta_Reasons (tk_Approval task))\<rparr>\<rparr>"

definition tidy_task :: "PlannerLib \<Rightarrow> PlanningRequest \<Rightarrow> nat \<Rightarrow> string list \<Rightarrow> PlanTask \<Rightarrow> PlannerError + PlanTask" where
  "tidy_task lib request i seen task =
     (let task = tidy_times task in
      case early_checks request i seen task of Some e \<Rightarrow> Inl e | None \<Rightarrow>
      and_then (normalizeUniqueIDs (tk_ID task) (tk_Dependencies task)) (\<lambda>dependencies.
      if maxResources < length (tk_Resources task) then Inl (TooManyResources (tk_ID task)) else
      and_then (tidy_requirements (tk_ID task) [] (tk_Resources task)) (\<lambda>resources.
      let task = with_lists task dependencies resources in
      case late_checks lib task of Some e \<Rightarrow> Inl e | None \<Rightarrow> Inr task)))"

fun tidy_tasks :: "PlannerLib \<Rightarrow> PlanningRequest \<Rightarrow> nat \<Rightarrow> string list \<Rightarrow> PlanTask list \<Rightarrow> PlannerError + PlanTask list" where
  "tidy_tasks lib request i seen [] = Inr []"
| "tidy_tasks lib request i seen (t # ts) =
     and_then (tidy_task lib request i seen t) (\<lambda>task.
     and_then (tidy_tasks lib request (Suc i) (tk_ID task # seen) ts) (\<lambda>rest. Inr (task # rest)))"

definition self_dependency :: "PlanTask \<Rightarrow> PlannerError option" where
  "self_dependency task =
     (if tk_ID task \<in> set (tk_Dependencies task) then Some (SelfDependency (tk_ID task)) else None)"

definition tidy_window :: "CapacityWindow \<Rightarrow> CapacityWindow" where
  "tidy_window window = window
     \<lparr>cw_ResourceID := TrimSpace (cw_ResourceID window),
      cw_Start := minuteUTC (cw_Start window), cw_End := minuteUTC (cw_End window)\<rparr>"

definition window_guards :: "PlanningRequest \<Rightarrow> nat \<Rightarrow> CapacityWindow \<Rightarrow> (bool \<times> PlannerError) list" where
  "window_guards request i window =
     [(\<not> validOpaqueID (cw_ResourceID window) \<or> cw_CapacityUnits window \<le> 0 \<or> maxCapacity < cw_CapacityUnits window,
         WindowInvalid i),
      (cw_Start window < pq_HorizonStart request \<or> pq_HorizonEnd request < cw_End window \<or>
         cw_End window \<le> cw_Start window, WindowOutside i)]"

fun tidy_windows :: "PlanningRequest \<Rightarrow> nat \<Rightarrow> CapacityWindow list \<Rightarrow> PlannerError + CapacityWindow list" where
  "tidy_windows request i [] = Inr []"
| "tidy_windows request i (w # ws) =
     (let w = tidy_window w in
      case first_error (window_guards request i w) of Some e \<Rightarrow> Inl e
      | None \<Rightarrow> and_then (tidy_windows request (Suc i) ws) (\<lambda>rest. Inr (w # rest)))"

definition window_key :: "CapacityWindow \<Rightarrow> string \<times> instant \<times> instant \<times> int" where
  "window_key w = (cw_ResourceID w, cw_Start w, cw_End w, cw_CapacityUnits w)"

text \<open>The fields of the request itself; whether \<open>AsOf\<close> is set is asked before it is truncated.\<close>

definition tidy_request_fields :: "PlannerLib \<Rightarrow> PlanningRequest \<Rightarrow> PlanningRequest" where
  "tidy_request_fields lib request = request
     \<lparr>pq_OwnerIdentity := TrimSpace (pq_OwnerIdentity request),
      pq_OwnerScopeDigest := pll_sha256 lib (TrimSpace (pq_OwnerIdentity request)),
      pq_WorkspaceID := TrimSpace (pq_WorkspaceID request),
      pq_PlanID := TrimSpace (pq_PlanID request),
      pq_AsOf := minuteUTC (pq_AsOf request),
      pq_HorizonStart := minuteUTC (pq_HorizonStart request),
      pq_HorizonEnd := minuteUTC (pq_HorizonEnd request),
      pq_DurationMode := (if pq_DurationMode request = OtherDurationMode '''' then ExpectedDuration
                          else pq_DurationMode request)\<rparr>"

definition request_guards :: "PlannerLib \<Rightarrow> bool \<Rightarrow> PlanningRequest \<Rightarrow> (bool \<times> PlannerError) list" where
  "request_guards lib asOfZero r =
     [(pq_OwnerIdentity r = [] \<or> 320 < length (pq_OwnerIdentity r) \<or> hasUnsafeText lib (pq_OwnerIdentity r),
         OwnerIdentityUnsafe),
      (pq_WorkspaceID r \<noteq> [] \<and> \<not> validOpaqueID (pq_WorkspaceID r), WorkspaceIDInvalid),
      (\<not> validOpaqueID (pq_PlanID r), PlanIDInvalid),
      (asOfZero, AsOfRequired),
      (pq_HorizonStart r = 0 \<or> pq_HorizonEnd r \<le> pq_HorizonStart r, HorizonInvalid),
      (maxMinutes < minutesBetween (pq_HorizonStart r) (pq_HorizonEnd r), HorizonTooLong),
      (pq_HorizonEnd r < pq_AsOf r, AsOfAfterHorizon),
      (pq_DurationMode r \<noteq> ExpectedDuration \<and> pq_DurationMode r \<noteq> ConservativeDuration, DurationModeInvalid),
      (pq_Tasks r = [] \<or> maxTasks < length (pq_Tasks r), TaskCountInvalid),
      (maxWindows < length (pq_Availability r), TooManyWindows)]"

definition request_checks :: "PlannerLib \<Rightarrow> bool \<Rightarrow> PlanningRequest \<Rightarrow> PlannerError option" where
  "request_checks lib asOfZero r =
     (case first_error (request_guards lib asOfZero r) of Some e \<Rightarrow> Some e | None \<Rightarrow>
      (case validateBudget (pq_Budget r) ''budget'' of Some e \<Rightarrow> Some e | None \<Rightarrow>
       validateReviewPolicy (pq_ApprovalPolicy r)))"

definition normalizeAndValidate :: "PlannerLib \<Rightarrow> PlanningRequest \<Rightarrow> PlannerError + PlanningRequest" where
  "normalizeAndValidate lib request =
     (let r = tidy_request_fields lib request in
      case request_checks lib (pq_AsOf request = 0) r of Some e \<Rightarrow> Inl e | None \<Rightarrow>
      and_then (tidy_tasks lib r 0 [] (pq_Tasks r)) (\<lambda>tasks.
      case first_failure self_dependency tasks of Some e \<Rightarrow> Inl e | None \<Rightarrow>
      and_then (tidy_windows r 0 (pq_Availability r)) (\<lambda>windows.
      Inr (r\<lparr>pq_Tasks := sort_key tk_ID tasks, pq_Availability := sort_key window_key windows\<rparr>))))"

end
