(* ===== verification/ResourcePlanner.thy ===== *)
theory ResourcePlanner
  imports PlannerTypes PlanGraph "HOL-Library.Multiset"
begin

text \<open>
  Package \<open>resourceplanner\<close>, file \<open>planner.go\<close>: the order of the tasks, the search for a slot of
  simultaneous capacity, the greedy schedule, slack, budgets, review flags and what a decision
  says about them. The planner keeps no state: \<open>Plan\<close> is a function of the request.
\<close>

section \<open>The order of the tasks\<close>

text \<open>A nil deadline reads as the zero time.\<close>

definition taskBefore :: "PlanTask \<Rightarrow> PlanTask \<Rightarrow> bool" where
  "taskBefore left right =
     (let leftDeadline = (case tk_Deadline left of None \<Rightarrow> 0 | Some d \<Rightarrow> d);
          rightDeadline = (case tk_Deadline right of None \<Rightarrow> 0 | Some d \<Rightarrow> d)
      in if (leftDeadline = 0) \<noteq> (rightDeadline = 0) then leftDeadline \<noteq> 0
         else if leftDeadline \<noteq> rightDeadline then leftDeadline < rightDeadline
         else if tk_Priority left \<noteq> tk_Priority right then tk_Priority right < tk_Priority left
         else tk_ID left < tk_ID right)"

text \<open>\<open>sort.Slice\<close> with a comparison function.\<close>

fun insert_by :: "('a \<Rightarrow> 'a \<Rightarrow> bool) \<Rightarrow> 'a \<Rightarrow> 'a list \<Rightarrow> 'a list" where
  "insert_by precedes x [] = [x]"
| "insert_by precedes x (y # ys) = (if precedes y x then y # insert_by precedes x ys else x # y # ys)"

definition sort_by :: "('a \<Rightarrow> 'a \<Rightarrow> bool) \<Rightarrow> 'a list \<Rightarrow> 'a list" where
  "sort_by precedes xs = foldr (insert_by precedes) xs []"

definition task_map :: "PlanTask list \<Rightarrow> string \<Rightarrow> PlanTask option" where
  "task_map taskList = map_of (map (\<lambda>t. (tk_ID t, t)) taskList)"

definition blocker :: "string \<Rightarrow> string \<Rightarrow> string \<Rightarrow> string \<Rightarrow> Blocker" where
  "blocker code taskID resourceID detail =
     \<lparr>bk_Code = code, bk_TaskID = taskID, bk_ResourceID = resourceID, bk_Detail = detail, bk_BlocksFeasibility = True\<rparr>"

definition sortBlockers :: "Blocker list \<Rightarrow> Blocker list" where
  "sortBlockers blockers = sort_key (\<lambda>b. (bk_Code b, bk_TaskID b, bk_ResourceID b)) blockers"

definition missing_detail :: string where
  "missing_detail = ''a declared dependency is absent from the planning request''"

text \<open>The two loops over tasks and dependencies: blockers for the absent ones, arcs for the others.\<close>

definition missing_blockers :: "PlanTask list \<Rightarrow> Blocker list" where
  "missing_blockers taskList = concat (map (\<lambda>task.
     map (\<lambda>_. blocker ''missing_dependency'' (tk_ID task) '''' missing_detail)
       (filter (\<lambda>d. task_map taskList d = None) (tk_Dependencies task))) taskList)"

definition task_arcs :: "PlanTask list \<Rightarrow> (string \<times> string) list" where
  "task_arcs taskList = concat (map (\<lambda>task.
     map (\<lambda>d. (d, tk_ID task)) (filter (\<lambda>d. task_map taskList d \<noteq> None) (tk_Dependencies task))) taskList)"

text \<open>
  The body of the loop for one ready task: its dependents, sorted, lose a predecessor and become
  ready when none is left.
\<close>

fun release_dependents :: "string list \<Rightarrow> string list \<Rightarrow> (string \<Rightarrow> int) \<Rightarrow> string list \<times> (string \<Rightarrow> int)" where
  "release_dependents [] ready indegree = (ready, indegree)"
| "release_dependents (d # ds) ready indegree =
     (let indegree = indegree(d := indegree d - 1)
      in release_dependents ds (if indegree d = 0 then ready @ [d] else ready) indegree)"

definition before_id :: "(string \<Rightarrow> PlanTask option) \<Rightarrow> string \<Rightarrow> string \<Rightarrow> bool" where
  "before_id tasks a b = (case (tasks a, tasks b) of (Some s, Some t) \<Rightarrow> taskBefore s t | _ \<Rightarrow> False)"

lemma length_insert_by [simp]: "length (insert_by precedes x ys) = Suc (length ys)"
  by (induction ys) simp_all

lemma length_sort_by [simp]: "length (sort_by precedes xs) = length xs"
  by (induction xs) (simp_all add: sort_by_def)

lemma release_dependents_release:
  "mset ready = mset queue \<Longrightarrow> release_dependents targets ready indegree = (ready', indegree') \<Longrightarrow>
     \<exists>queue'. release targets queue indegree = (queue', indegree') \<and> mset ready' = mset queue'"
proof (induction targets arbitrary: ready queue indegree)
  case (Cons y ys)
  let ?ind = "indegree(y := indegree y - 1)"
  have "release_dependents ys (if ?ind y = 0 then ready @ [y] else ready) ?ind = (ready', indegree')"
    using Cons(3) by (simp only: release_dependents.simps Let_def)
  note r = this
  have "mset (if ?ind y = 0 then ready @ [y] else ready) = mset (if ?ind y = 0 then y # queue else queue)"
    using Cons(2) by simp
  note ih = Cons(1) [OF this r]
  show ?case unfolding release.simps Let_def by (rule ih)
qed simp

lemma release_dependents_size:
  assumes "set targets \<subseteq> snd ` set g" "release_dependents targets ready indegree = (ready', indegree')"
  shows "length ready' + positive g indegree' = length ready + positive g indegree"
proof -
  from release_dependents_release [OF refl assms(2)] obtain queue'
    where "release targets ready indegree = (queue', indegree')" "mset ready' = mset queue'" by blast
  with release_size [OF assms(1)] show ?thesis by (metis size_mset)
qed

function order_loop ::
  "(string \<Rightarrow> PlanTask option) \<Rightarrow> (string \<times> string) list \<Rightarrow> string list \<Rightarrow> (string \<Rightarrow> int) \<Rightarrow> string list \<Rightarrow>
   string list \<times> (string \<Rightarrow> int)" where
  "order_loop tasks g ready indegree order =
     (case sort_by (before_id tasks) ready of
        [] \<Rightarrow> (order, indegree)
      | task # rest \<Rightarrow>
          let (ready, indegree) = release_dependents (sort (succs g task)) rest indegree
          in order_loop tasks g ready indegree (order @ [task]))"
  by pat_completeness auto
termination
proof (relation "measure (\<lambda>(tasks, g, ready, indegree, order). length ready + positive g indegree)")
  fix tasks :: "string \<Rightarrow> PlanTask option" and g :: "(string \<times> string) list"
    and ready indegree order task rest p ready' indegree'
  assume s: "sort_by (before_id tasks) ready = task # rest"
    and "p = release_dependents (sort (succs g task)) rest indegree" "(ready', indegree') = p"
  then have r: "release_dependents (sort (succs g task)) rest indegree = (ready', indegree')" by simp
  have "set (sort (succs g task)) \<subseteq> snd ` set g" using succs_targets [of g task] by simp
  from release_dependents_size [OF this r] arg_cong [OF s, of length]
  have "length ready' + positive g indegree' < length ready + positive g indegree" by simp
  then show "((tasks, g, ready', indegree', order @ [task]), tasks, g, ready, indegree, order) \<in>
      measure (\<lambda>(tasks, g, ready, indegree, order). length ready + positive g indegree)" by simp
qed simp

declare order_loop.simps [simp del]

definition cycle_detail :: string where
  "cycle_detail = ''the task participates in a dependency cycle''"

text \<open>
  \<open>dependencyOrder\<close>; the tasks that are ready at the start come from a Go map, here in the order
  of the request, and are sorted before one is taken.
\<close>

definition dependencyOrder :: "PlanTask list \<Rightarrow> string list \<times> Blocker list" where
  "dependencyOrder taskList =
     (let g = task_arcs taskList;
          ready = filter (\<lambda>x. indegrees g x = 0) (map tk_ID taskList);
          (order, indegree) = order_loop (task_map taskList) g ready (indegrees g) [];
          cyclic = (if length order \<noteq> length taskList
                    then map (\<lambda>t. blocker ''dependency_cycle'' (tk_ID t) '''' cycle_detail)
                           (filter (\<lambda>t. 0 < indegree (tk_ID t)) taskList)
                    else [])
      in (order, sortBlockers (missing_blockers taskList @ cyclic)))"

section \<open>Budgets and review flags\<close>

text \<open>\<open>safeAdd\<close>: the sum of two \<open>int64\<close>, or nothing where it would exceed the greatest.\<close>

definition safeAdd :: "int \<Rightarrow> int \<Rightarrow> int option" where
  "safeAdd left right = (if 0 < right \<and> 2 ^ 63 - 1 - right < left then None else Some (wrap_int64 (left + right)))"

definition aggregate_step :: "UsageEstimate \<Rightarrow> PlanTask \<Rightarrow> PlannerError + UsageEstimate" where
  "aggregate_step acc task =
     (let u = tk_EstimatedUsage task in
      case safeAdd (us_CostMicros acc) (us_CostMicros u) of None \<Rightarrow> Inl (UsageOverflows ''cost'') | Some c \<Rightarrow>
     (case safeAdd (us_InputTokens acc) (us_InputTokens u) of None \<Rightarrow> Inl (UsageOverflows ''input-token'') | Some i \<Rightarrow>
     (case safeAdd (us_OutputTokens acc) (us_OutputTokens u) of None \<Rightarrow> Inl (UsageOverflows ''output-token'') | Some q \<Rightarrow>
     (case safeAdd (us_ToolCalls acc) (us_ToolCalls u) of None \<Rightarrow> Inl (UsageOverflows ''tool-call'') | Some t \<Rightarrow>
      Inr \<lparr>us_CostMicros = c, us_InputTokens = i, us_OutputTokens = q, us_ToolCalls = t\<rparr>))))"

fun aggregate_from :: "UsageEstimate \<Rightarrow> PlanTask list \<Rightarrow> PlannerError + UsageEstimate" where
  "aggregate_from acc [] = Inr acc"
| "aggregate_from acc (t # ts) = and_then (aggregate_step acc t) (\<lambda>acc. aggregate_from acc ts)"

definition no_usage :: UsageEstimate where
  "no_usage = \<lparr>us_CostMicros = 0, us_InputTokens = 0, us_OutputTokens = 0, us_ToolCalls = 0\<rparr>"

definition aggregateUsage :: "PlanTask list \<Rightarrow> PlannerError + UsageEstimate" where
  "aggregateUsage tasks = aggregate_from no_usage tasks"

definition within_limit :: "int \<Rightarrow> int option \<Rightarrow> bool" where
  "within_limit value limit = (case limit of None \<Rightarrow> True | Some l \<Rightarrow> value \<le> l)"

definition assessBudget :: "UsageEstimate \<Rightarrow> UsageBudget \<Rightarrow> BudgetAssessment" where
  "assessBudget usage budget =
     \<lparr>bas_Estimated = usage, bas_Limits = budget,
      bas_WithinCostLimit = within_limit (us_CostMicros usage) (bu_MaxCostMicros budget),
      bas_WithinInputTokenLimit = within_limit (us_InputTokens usage) (bu_MaxInputTokens budget),
      bas_WithinOutputTokenLimit = within_limit (us_OutputTokens usage) (bu_MaxOutputTokens budget),
      bas_WithinToolCallLimit = within_limit (us_ToolCalls usage) (bu_MaxToolCalls budget)\<rparr>"

definition budgetBlockers :: "BudgetAssessment \<Rightarrow> Blocker list" where
  "budgetBlockers assessment =
     map (\<lambda>(ok, code, detail). blocker code '''' '''' detail) (filter (\<lambda>c. \<not> fst c)
       [(bas_WithinCostLimit assessment, ''cost_budget_exceeded'', ''estimated cost exceeds the hard cost budget''),
        (bas_WithinInputTokenLimit assessment, ''input_token_budget_exceeded'',
           ''estimated input tokens exceed the hard token budget''),
        (bas_WithinOutputTokenLimit assessment, ''output_token_budget_exceeded'',
           ''estimated output tokens exceed the hard token budget''),
        (bas_WithinToolCallLimit assessment, ''tool_call_budget_exceeded'',
           ''estimated tool calls exceed the hard tool budget'')])"

definition budgetAuditDetail :: "BudgetAssessment \<Rightarrow> string" where
  "budgetAuditDetail assessment =
     (if bas_WithinCostLimit assessment \<and> bas_WithinInputTokenLimit assessment \<and>
         bas_WithinOutputTokenLimit assessment \<and> bas_WithinToolCallLimit assessment
      then ''all configured hard budgets are satisfied''
      else ''one or more configured hard budgets are exceeded'')"

definition uncertaintyPercent :: "DurationEstimate \<Rightarrow> int" where
  "uncertaintyPercent estimate =
     (du_PessimisticMinutes estimate - du_OptimisticMinutes estimate) * 100 div du_ExpectedMinutes estimate"

definition review_flag :: "string \<Rightarrow> string \<Rightarrow> string \<Rightarrow> ReviewFlag" where
  "review_flag code taskID reason = \<lparr>vf_Code = code, vf_TaskID = taskID, vf_Reason = reason, vf_Mandatory = True\<rparr>"

definition sortApprovalFlags :: "ReviewFlag list \<Rightarrow> ReviewFlag list" where
  "sortApprovalFlags flags = sort_key (\<lambda>f. (vf_Code f, vf_TaskID f)) flags"

definition review_threshold :: "PlanTask \<Rightarrow> ReviewPolicy \<Rightarrow> int" where
  "review_threshold task policy =
     (if 0 < tk_UncertaintyReviewPct task then tk_UncertaintyReviewPct task else rv_UncertaintyThreshold policy)"

definition task_flags :: "ReviewPolicy \<Rightarrow> PlanTask \<Rightarrow> ReviewFlag list" where
  "task_flags policy task =
     (if ta_Required (tk_Approval task)
      then [review_flag ''task_approval_required'' (tk_ID task) (Join (ta_Reasons (tk_Approval task)) ''; '')] else []) @
     (let threshold = review_threshold task policy in
      if 0 < threshold \<and> threshold \<le> uncertaintyPercent (tk_Duration task)
      then [review_flag ''duration_uncertainty_review'' (tk_ID task)
              ''duration uncertainty meets the configured review threshold''] else [])"

definition exceeds :: "int \<times> int option \<Rightarrow> bool" where
  "exceeds p = (case snd p of None \<Rightarrow> False | Some t \<Rightarrow> t < fst p)"

definition usage_flags :: "UsageEstimate \<Rightarrow> ReviewPolicy \<Rightarrow> ReviewFlag list" where
  "usage_flags usage policy =
     map (\<lambda>(_, code, reason). review_flag code '''' reason) (filter (\<lambda>(p, _). exceeds p)
       [((us_CostMicros usage, rv_CostThresholdMicros policy), ''cost_threshold_review'',
           ''estimated cost exceeds the review threshold''),
        ((us_InputTokens usage, rv_InputTokenThreshold policy), ''input_token_threshold_review'',
           ''estimated input tokens exceed the review threshold''),
        ((us_OutputTokens usage, rv_OutputTokenThreshold policy), ''output_token_threshold_review'',
           ''estimated output tokens exceed the review threshold''),
        ((us_ToolCalls usage, rv_ToolCallThreshold policy), ''tool_call_threshold_review'',
           ''estimated tool calls exceed the review threshold'')])"

definition approvalFlags :: "PlanTask list \<Rightarrow> UsageEstimate \<Rightarrow> ReviewPolicy \<Rightarrow> ReviewFlag list" where
  "approvalFlags tasks usage policy =
     sortApprovalFlags (concat (map (task_flags policy) tasks) @ usage_flags usage policy)"

section \<open>The search for a slot\<close>

text \<open>What a scheduled task takes of one resource.\<close>

record Booking =
  bo_taskID :: string
  bo_resourceID :: string
  bo_start :: instant
  bo_end :: instant
  bo_units :: int

text \<open>\<open>uniqueTimes\<close>: sorted, and equal neighbours once.\<close>

fun drop_equal :: "instant list \<Rightarrow> instant list" where
  "drop_equal [] = []"
| "drop_equal [t] = [t]"
| "drop_equal (t # u # ts) = (if t = u then drop_equal (u # ts) else t # drop_equal (u # ts))"

definition uniqueTimes :: "instant list \<Rightarrow> instant list" where
  "uniqueTimes values = drop_equal (sort values)"

definition intervalsOverlap :: "instant \<Rightarrow> instant \<Rightarrow> instant \<Rightarrow> instant \<Rightarrow> bool" where
  "intervalsOverlap leftStart leftEnd rightStart rightEnd \<longleftrightarrow> leftStart < rightEnd \<and> rightStart < leftEnd"

text \<open>The boundaries inside \<open>[start, end)\<close> of the windows and bookings of a resource that overlap it.\<close>

definition inner_times :: "instant \<Rightarrow> instant \<Rightarrow> instant \<Rightarrow> instant \<Rightarrow> instant list" where
  "inner_times s e a b = filter (\<lambda>t. s < t \<and> t < e) [a, b]"

definition slot_boundaries :: "string \<Rightarrow> instant \<Rightarrow> instant \<Rightarrow> CapacityWindow list \<Rightarrow> Booking list \<Rightarrow> instant list" where
  "slot_boundaries resourceID s e windows bookings =
     uniqueTimes ([s, e] @
       concat (map (\<lambda>w. inner_times s e (cw_Start w) (cw_End w))
         (filter (\<lambda>w. cw_ResourceID w = resourceID \<and> intervalsOverlap s e (cw_Start w) (cw_End w)) windows)) @
       concat (map (\<lambda>b. inner_times s e (bo_start b) (bo_end b))
         (filter (\<lambda>b. bo_resourceID b = resourceID \<and> intervalsOverlap s e (bo_start b) (bo_end b)) bookings)))"

text \<open>The two inner loops: the capacity and the use of a resource at an instant.\<close>

definition window_at :: "string \<Rightarrow> instant \<Rightarrow> CapacityWindow \<Rightarrow> bool" where
  "window_at resourceID t w \<longleftrightarrow> cw_ResourceID w = resourceID \<and> cw_Start w \<le> t \<and> t < cw_End w"

definition booking_at :: "string \<Rightarrow> instant \<Rightarrow> Booking \<Rightarrow> bool" where
  "booking_at resourceID t b \<longleftrightarrow> bo_resourceID b = resourceID \<and> bo_start b \<le> t \<and> t < bo_end b"

definition capacity_at :: "CapacityWindow list \<Rightarrow> string \<Rightarrow> instant \<Rightarrow> int" where
  "capacity_at windows resourceID t =
     fold (\<lambda>w capacity. if window_at resourceID t w \<and> capacity < cw_CapacityUnits w then cw_CapacityUnits w else capacity)
       windows 0"

definition used_at :: "Booking list \<Rightarrow> string \<Rightarrow> instant \<Rightarrow> int" where
  "used_at bookings resourceID t =
     fold (\<lambda>b used. if booking_at resourceID t b then used + bo_units b else used) bookings 0"

text \<open>The loop over the segments between neighbouring boundaries.\<close>

fun segments_fit :: "(instant \<Rightarrow> bool) \<Rightarrow> instant list \<Rightarrow> bool" where
  "segments_fit fits (t # u # ts) = ((t < u \<longrightarrow> fits t) \<and> segments_fit fits (u # ts))"
| "segments_fit fits _ = True"

definition capacityAvailable :: "ResourceRequirement \<Rightarrow> instant \<Rightarrow> instant \<Rightarrow> CapacityWindow list \<Rightarrow> Booking list \<Rightarrow> bool" where
  "capacityAvailable requirement s e windows bookings =
     segments_fit (\<lambda>t. rr_CapacityUnits requirement \<le>
         capacity_at windows (rr_ResourceID requirement) t - used_at bookings (rr_ResourceID requirement) t)
       (slot_boundaries (rr_ResourceID requirement) s e windows bookings)"

definition resourceHasCandidateWindow :: "string \<Rightarrow> PlanTask \<Rightarrow> int \<Rightarrow> CapacityWindow list \<Rightarrow> bool" where
  "resourceHasCandidateWindow resourceID task duration windows =
     (let units = (case find (\<lambda>r. rr_ResourceID r = resourceID) (tk_Resources task) of
                     None \<Rightarrow> 0 | Some r \<Rightarrow> rr_CapacityUnits r)
      in list_ex (\<lambda>w. cw_ResourceID w = resourceID \<and> units \<le> cw_CapacityUnits w \<and>
           duration \<le> minutesBetween (cw_Start w) (cw_End w)) windows)"

definition slot_candidates :: "instant \<Rightarrow> instant \<Rightarrow> CapacityWindow list \<Rightarrow> Booking list \<Rightarrow> instant list" where
  "slot_candidates earliest latestEnd windows bookings =
     uniqueTimes (earliest #
       filter (\<lambda>t. earliest \<le> t \<and> t < latestEnd) (map cw_Start windows) @
       filter (\<lambda>t. earliest \<le> t \<and> t < latestEnd) (map bo_end bookings))"

definition candidate_fits ::
  "PlanTask \<Rightarrow> instant \<Rightarrow> instant \<Rightarrow> int \<Rightarrow> CapacityWindow list \<Rightarrow> Booking list \<Rightarrow> instant \<Rightarrow> bool" where
  "candidate_fits task earliest latestEnd duration windows bookings t \<longleftrightarrow>
     earliest \<le> t \<and> t + minutes_span duration \<le> latestEnd \<and>
     list_all (\<lambda>r. capacityAvailable r t (t + minutes_span duration) windows bookings) (tk_Resources task)"

text \<open>The slot found, or the resource that is reported as the reason; the empty text is no resource.\<close>

definition findSlot ::
  "PlanTask \<Rightarrow> instant \<Rightarrow> instant \<Rightarrow> int \<Rightarrow> CapacityWindow list \<Rightarrow> Booking list \<Rightarrow> string + instant" where
  "findSlot task earliest latestEnd duration windows bookings =
     (if tk_Resources task = []
      then (if earliest + minutes_span duration \<le> latestEnd then Inr earliest else Inl '''')
      else case find (candidate_fits task earliest latestEnd duration windows bookings)
                  (slot_candidates earliest latestEnd windows bookings) of
             Some t \<Rightarrow> Inr t
           | None \<Rightarrow>
               (case find (\<lambda>r. \<not> resourceHasCandidateWindow (rr_ResourceID r) task duration windows) (tk_Resources task) of
                  Some r \<Rightarrow> Inl (rr_ResourceID r)
                | None \<Rightarrow> Inl (rr_ResourceID (hd (tk_Resources task)))))"

section \<open>The schedule\<close>

type_synonym schedule = "(string \<times> ScheduledTask) list"

definition selectedDuration :: "DurationEstimate \<Rightarrow> DurationMode \<Rightarrow> int \<times> string" where
  "selectedDuration estimate mode =
     (if mode = ConservativeDuration then (du_PessimisticMinutes estimate, ''pessimistic'')
      else (du_ExpectedMinutes estimate, ''expected''))"

text \<open>The end of the last dependency, or what blocks the task.\<close>

fun dependency_end ::
  "(string \<Rightarrow> PlanTask option) \<Rightarrow> schedule \<Rightarrow> string \<Rightarrow> instant \<Rightarrow> string list \<Rightarrow> Blocker + instant" where
  "dependency_end tasks scheduled taskID e [] = Inr e"
| "dependency_end tasks scheduled taskID e (d # ds) =
     (if tasks d = None then Inl (blocker ''missing_dependency'' taskID '''' missing_detail)
      else case map_of scheduled d of
             None \<Rightarrow> Inl (blocker ''dependency_unavailable'' taskID '''' ''a dependency could not be scheduled'')
           | Some entry \<Rightarrow> dependency_end tasks scheduled taskID (if e < sk_End entry then sk_End entry else e) ds)"

definition dependencyReadiness ::
  "PlanTask \<Rightarrow> schedule \<Rightarrow> (string \<Rightarrow> PlanTask option) \<Rightarrow> instant \<Rightarrow> Blocker + instant" where
  "dependencyReadiness task scheduled tasks horizonStart =
     dependency_end tasks scheduled (tk_ID task) horizonStart (tk_Dependencies task)"

definition allocationsFor :: "PlanTask \<Rightarrow> Allocation list" where
  "allocationsFor task =
     map (\<lambda>r. \<lparr>alc_ResourceID = rr_ResourceID r, alc_CapacityUnits = rr_CapacityUnits r\<rparr>) (tk_Resources task)"

definition blockerTaskSet :: "Blocker list \<Rightarrow> string list" where
  "blockerTaskSet blockers = map bk_TaskID (filter (\<lambda>b. bk_BlocksFeasibility b \<and> bk_TaskID b \<noteq> '''') blockers)"

text \<open>What the loop over the tasks changes: the parts of the decision, the schedule, the bookings, the blocked tasks.\<close>

record PlanState =
  ps_scheduled :: schedule
  ps_bookings :: "Booking list"
  ps_blocked :: "string list"
  ps_blockers :: "Blocker list"
  ps_advisories :: "Blocker list"
  ps_flags :: "ReviewFlag list"
  ps_unscheduled :: "string list"
  ps_audit :: "PlanAudit list"

definition append_audit :: "string \<Rightarrow> string \<Rightarrow> string \<Rightarrow> PlanAudit list \<Rightarrow> PlanAudit list" where
  "append_audit code subject detail audit =
     audit @ [\<lparr>pau_Sequence = length audit + 1, pau_Code = code, pau_Subject = subject, pau_Detail = detail\<rparr>]"

text \<open>The four branches that leave a task out; all but the first report a blocker and mark the task.\<close>

definition leave_out :: "string \<Rightarrow> string \<Rightarrow> PlanState \<Rightarrow> PlanState" where
  "leave_out taskID detail st = st
     \<lparr>ps_unscheduled := ps_unscheduled st @ [taskID],
      ps_audit := append_audit ''task_unscheduled'' taskID detail (ps_audit st)\<rparr>"

definition block_task :: "string \<Rightarrow> Blocker \<Rightarrow> PlanState \<Rightarrow> PlanState" where
  "block_task taskID b st =
     leave_out taskID (bk_Code b)
       (st\<lparr>ps_blockers := ps_blockers st @ [b], ps_blocked := taskID # ps_blocked st\<rparr>)"

definition later_of :: "instant \<Rightarrow> instant \<Rightarrow> instant" where
  "later_of t u = (if t < u then u else t)"

definition earliest_start :: "PlanTask \<Rightarrow> instant \<Rightarrow> instant \<Rightarrow> instant" where
  "earliest_start task planningStart dependencyEnd =
     later_of (case tk_EarliestStart task of None \<Rightarrow> planningStart | Some e \<Rightarrow> later_of planningStart e) dependencyEnd"

definition latest_end :: "PlanTask \<Rightarrow> instant \<Rightarrow> instant" where
  "latest_end task horizonEnd =
     (case tk_Deadline task of None \<Rightarrow> horizonEnd
      | Some d \<Rightarrow> if tk_DeadlineKind task = HardDeadline \<and> d < horizonEnd then d else horizonEnd)"

definition conflict_blocker :: "string \<Rightarrow> PlanTask \<Rightarrow> int \<Rightarrow> CapacityWindow list \<Rightarrow> Blocker" where
  "conflict_blocker reason task duration windows =
     (if reason \<noteq> '''' \<and> \<not> resourceHasCandidateWindow reason task duration windows
      then blocker ''resource_capacity_unavailable'' (tk_ID task) reason
             ''required resource has no availability window with sufficient capacity and duration''
      else blocker ''schedule_capacity_conflict'' (tk_ID task) reason
             ''no simultaneous capacity slot satisfies the task duration and hard limits'')"

definition deadline_slack :: "PlanTask \<Rightarrow> instant \<Rightarrow> int option" where
  "deadline_slack task e = map_option (minutesBetween e) (tk_Deadline task)"

definition schedule_entry :: "PlanTask \<Rightarrow> instant \<Rightarrow> int \<Rightarrow> string \<Rightarrow> instant \<Rightarrow> ScheduledTask" where
  "schedule_entry task start duration basis dependencyEnd =
     (let e = start + minutes_span duration in
      \<lparr>sk_TaskID = tk_ID task, sk_Start = start, sk_End = e, sk_PlannedDurationMinutes = duration,
       sk_DeadlineSlackMinutes = deadline_slack task e,
       sk_DependencySlackMinutes = minutesBetween dependencyEnd start, sk_NetworkSlackMinutes = 0, sk_Critical = False,
       sk_Allocations = allocationsFor task, sk_Dependencies = tk_Dependencies task,
       sk_DurationEstimateBasis = basis, sk_DurationUncertaintyPct = uncertaintyPercent (tk_Duration task)\<rparr>)"

definition misses_soft_deadline :: "PlanTask \<Rightarrow> instant \<Rightarrow> bool" where
  "misses_soft_deadline task e =
     (case deadline_slack task e of None \<Rightarrow> False | Some slack \<Rightarrow> slack < 0 \<and> tk_DeadlineKind task = SoftDeadline)"

definition note_soft_miss :: "ReviewPolicy \<Rightarrow> PlanTask \<Rightarrow> PlanState \<Rightarrow> PlanState" where
  "note_soft_miss policy task st = st
     \<lparr>ps_advisories := ps_advisories st @
        [\<lparr>bk_Code = ''soft_deadline_missed'', bk_TaskID = tk_ID task, bk_ResourceID = '''',
          bk_Detail = ''the advisory schedule ends after a soft deadline'', bk_BlocksFeasibility = False\<rparr>],
      ps_flags := ps_flags st @
        (if rv_SoftDeadlineMiss policy
         then [review_flag ''soft_deadline_miss_review'' (tk_ID task) ''the proposed schedule misses a soft deadline'']
         else [])\<rparr>"

definition bookings_of :: "PlanTask \<Rightarrow> instant \<Rightarrow> instant \<Rightarrow> Booking list" where
  "bookings_of task s e =
     map (\<lambda>r. \<lparr>bo_taskID = tk_ID task, bo_resourceID = rr_ResourceID r, bo_start = s, bo_end = e,
               bo_units = rr_CapacityUnits r\<rparr>) (tk_Resources task)"

definition place_task :: "ReviewPolicy \<Rightarrow> PlanTask \<Rightarrow> ScheduledTask \<Rightarrow> PlanState \<Rightarrow> PlanState" where
  "place_task policy task entry st =
     (let st = (if misses_soft_deadline task (sk_End entry) then note_soft_miss policy task st else st)
      in st\<lparr>ps_scheduled := AList.update (tk_ID task) entry (ps_scheduled st),
            ps_bookings := ps_bookings st @ bookings_of task (sk_Start entry) (sk_End entry),
            ps_audit := append_audit ''task_scheduled'' (tk_ID task)
              (''scheduled for '' @ decimal (nat (sk_PlannedDurationMinutes entry)) @ '' minutes'') (ps_audit st)\<rparr>)"

text \<open>The body of the loop, for a task that no graph blocker names, with the end of its last dependency.\<close>

definition fit_task :: "PlanningRequest \<Rightarrow> instant \<Rightarrow> PlanTask \<Rightarrow> instant \<Rightarrow> PlanState \<Rightarrow> PlanState" where
  "fit_task request planningStart task dependencyEnd st =
     (let earliest = earliest_start task planningStart dependencyEnd;
          (duration, basis) = selectedDuration (tk_Duration task) (pq_DurationMode request);
          latestEnd = latest_end task (pq_HorizonEnd request)
      in if latestEnd < earliest + minutes_span duration
         then block_task (tk_ID task) (blocker ''deadline_dependency_conflict'' (tk_ID task) ''''
                ''dependency completion or earliest start leaves insufficient time before the hard limit'') st
         else case findSlot task earliest latestEnd duration (pq_Availability request) (ps_bookings st) of
                Inl reason \<Rightarrow> block_task (tk_ID task) (conflict_blocker reason task duration (pq_Availability request)) st
              | Inr start \<Rightarrow>
                  place_task (pq_ApprovalPolicy request) task (schedule_entry task start duration basis dependencyEnd) st)"

definition plan_task :: "PlanningRequest \<Rightarrow> instant \<Rightarrow> PlanTask \<Rightarrow> PlanState \<Rightarrow> PlanState" where
  "plan_task request planningStart task st =
     (if tk_ID task \<in> set (ps_blocked st)
      then leave_out (tk_ID task) ''dependency graph validation blocked scheduling'' st
      else case dependencyReadiness task (ps_scheduled st) (task_map (pq_Tasks request)) planningStart of
             Inl b \<Rightarrow> block_task (tk_ID task) b st
           | Inr dependencyEnd \<Rightarrow> fit_task request planningStart task dependencyEnd st)"

definition plan_tasks :: "PlanningRequest \<Rightarrow> instant \<Rightarrow> string list \<Rightarrow> PlanState \<Rightarrow> PlanState" where
  "plan_tasks request planningStart order st =
     fold (\<lambda>x st. case task_map (pq_Tasks request) x of None \<Rightarrow> st | Some task \<Rightarrow> plan_task request planningStart task st)
       order st"

section \<open>Slack\<close>

definition scheduled_dependents :: "schedule \<Rightarrow> string \<Rightarrow> string list" where
  "scheduled_dependents scheduled x =
     concat (map (\<lambda>(y, entry). map (\<lambda>_. y) (filter (\<lambda>d. d = x) (sk_Dependencies entry))) scheduled)"

text \<open>\<open>latestFinish\<close> before the backward pass: the end of the horizon or an earlier deadline of either kind.\<close>

definition deadline_finish :: "PlanTask list \<Rightarrow> instant \<Rightarrow> string \<Rightarrow> instant" where
  "deadline_finish taskList horizonEnd x =
     (case task_map taskList x of None \<Rightarrow> horizonEnd
      | Some task \<Rightarrow> (case tk_Deadline task of None \<Rightarrow> horizonEnd
                        | Some d \<Rightarrow> if d < horizonEnd then d else horizonEnd))"

definition pull_finish :: "schedule \<Rightarrow> string \<Rightarrow> (string \<Rightarrow> instant) \<Rightarrow> string \<Rightarrow> instant" where
  "pull_finish scheduled x finish =
     finish(x := fold (\<lambda>y latest.
         let candidate = finish y + minutes_span (- (case map_of scheduled y of None \<Rightarrow> 0
                           | Some entry \<Rightarrow> sk_PlannedDurationMinutes entry))
         in if candidate < latest then candidate else latest)
       (scheduled_dependents scheduled x) (finish x))"

definition latest_finish :: "schedule \<Rightarrow> string list \<Rightarrow> (string \<Rightarrow> instant) \<Rightarrow> string \<Rightarrow> instant" where
  "latest_finish scheduled order finish =
     foldr (\<lambda>x finish. if map_of scheduled x = None then finish else pull_finish scheduled x finish) order finish"

definition with_slack :: "(string \<Rightarrow> instant) \<Rightarrow> ScheduledTask \<Rightarrow> ScheduledTask" where
  "with_slack finish entry =
     (let slack = minutesBetween (sk_End entry) (finish (sk_TaskID entry))
      in entry\<lparr>sk_NetworkSlackMinutes := slack, sk_Critical := slack \<le> 0\<rparr>)"

definition computeSlack :: "string list \<Rightarrow> PlanTask list \<Rightarrow> schedule \<Rightarrow> instant \<Rightarrow> ScheduledTask list" where
  "computeSlack order taskList scheduled horizonEnd =
     (let finish = latest_finish scheduled order (deadline_finish taskList horizonEnd)
      in map (with_slack finish) (List.map_filter (map_of scheduled) order))"

section \<open>What the decision says of its blockers\<close>

definition graph_codes :: "string list" where
  "graph_codes = [''missing_dependency'', ''dependency_cycle'', ''dependency_unavailable'']"

definition capacity_codes :: "string list" where
  "capacity_codes = [''resource_capacity_unavailable'', ''schedule_capacity_conflict'']"

definition deadline_codes :: "string list" where
  "deadline_codes = [''deadline_dependency_conflict'', ''soft_deadline_missed'']"

definition budget_codes :: "string list" where
  "budget_codes = [''cost_budget_exceeded'', ''input_token_budget_exceeded'', ''output_token_budget_exceeded'',
     ''tool_call_budget_exceeded'']"

definition replanGuidance :: "string \<Rightarrow> string \<times> string" where
  "replanGuidance code =
     (if code \<in> set graph_codes then
        (''the dependency graph cannot produce an executable order'',
         ''repair or satisfy prerequisites, then create a new decision'')
      else if code \<in> set capacity_codes then
        (''declared availability cannot carry the proposed work'',
         ''add a reviewed capacity window, reduce duration, or move work'')
      else if code \<in> set deadline_codes then
        (''the schedule conflicts with a declared deadline'', ''review scope, ordering, capacity, or deadline'')
      else if code \<in> set budget_codes then
        (''estimated usage exceeds a hard budget'',
         ''reduce scope or obtain a separately authorized budget change before replanning'')
      else (''the plan has an unresolved constraint'', ''review the constraint and submit a revised planning request''))"

text \<open>\<open>sortedKeys\<close> of the set of the texts; the empty text is never added.\<close>

definition sorted_texts :: "string list \<Rightarrow> string list" where
  "sorted_texts values = sort (remdups (filter (\<lambda>v. v \<noteq> '''') values))"

definition buildReplanReasons :: "Blocker list \<Rightarrow> ReplanReason list" where
  "buildReplanReasons blockers =
     map (\<lambda>code. let group = filter (\<lambda>b. bk_Code b = code) blockers; (detail, change) = replanGuidance code in
            \<lparr>rpr_Code = code, rpr_TaskIDs = sorted_texts (map bk_TaskID group),
             rpr_ResourceIDs = sorted_texts (map bk_ResourceID group), rpr_Detail = detail, rpr_SuggestedChange = change\<rparr>)
       (sort (remdups (map bk_Code blockers)))"

definition fallback_stage :: "string \<Rightarrow> nat" where
  "fallback_stage code =
     (if code \<in> set graph_codes then 1 else if code \<in> set capacity_codes then 2
      else if code \<in> set budget_codes then 3 else if code \<in> set deadline_codes then 4 else 5)"

text \<open>What \<open>add\<close> has put into the maps: triples of stage, code and task.\<close>

definition fallback_entries :: "Blocker list \<Rightarrow> ReviewFlag list \<Rightarrow> (nat \<times> string \<times> string) list" where
  "fallback_entries blockers approvals =
     map (\<lambda>b. (fallback_stage (bk_Code b), bk_Code b, bk_TaskID b)) blockers @
     map (\<lambda>f. (5, vf_Code f, vf_TaskID f)) approvals"

definition fallback_descriptions :: "(nat \<times> string \<times> string \<times> bool) list" where
  "fallback_descriptions =
     [(1, ''repair_prerequisites'',
         ''Repair missing, failed, or cyclic prerequisites before scheduling dependent work.'', False),
      (2, ''rebalance_capacity'', ''Rebalance declared availability, capacity, ordering, or duration estimates.'', False),
      (3, ''reduce_scope_or_review_budget'',
         ''Reduce optional scope first; any budget increase requires separate authorization.'', True),
      (4, ''review_deadlines'', ''Review scope and capacity before proposing a deadline change.'', True),
      (5, ''human_review'', ''Route unresolved risk and mandatory approval flags to an authorized reviewer.'', True)]"

definition buildFallbackStages :: "Blocker list \<Rightarrow> ReviewFlag list \<Rightarrow> PlanTask list \<Rightarrow> FallbackStage list" where
  "buildFallbackStages blockers approvals tasks =
     (let entries = fallback_entries blockers approvals in
      concat (map (\<lambda>(stage, code, description, requiresApproval).
        let here = filter (\<lambda>e. fst e = stage) entries in
        if here = [] then []
        else [\<lparr>fg_Stage = stage, fg_Code = code, fg_Description = description,
               fg_TriggeredBy = sort (remdups (map (\<lambda>e. fst (snd e)) here)),
               fg_AffectedTaskIDs = sorted_texts (map (\<lambda>e. snd (snd e)) here @
                 (if stage = 3 then map tk_ID (filter tk_Optional tasks) else [])),
               fg_RequiresApproval = requiresApproval\<rparr>]) fallback_descriptions))"

definition determineFeasibility :: "Blocker list \<Rightarrow> ReviewFlag list \<Rightarrow> Feasibility" where
  "determineFeasibility blockers approvals =
     (if list_ex bk_BlocksFeasibility blockers then Infeasible
      else if approvals \<noteq> [] then FeasibleWithApprovals else Feasible)"

section \<open>Plan\<close>

definition feasibility_text :: "Feasibility \<Rightarrow> string" where
  "feasibility_text f = (case f of Feasible \<Rightarrow> ''feasible'' | FeasibleWithApprovals \<Rightarrow> ''feasible_with_approvals''
     | Infeasible \<Rightarrow> ''infeasible'')"

definition planning_start :: "PlanningRequest \<Rightarrow> instant" where
  "planning_start request = later_of (pq_HorizonStart request) (pq_AsOf request)"

text \<open>The state before the loop over the tasks.\<close>

definition start_state :: "PlanningRequest \<Rightarrow> UsageEstimate \<Rightarrow> PlanState" where
  "start_state request usage =
     (let (order, graphBlockers) = dependencyOrder (pq_Tasks request);
          assessment = assessBudget usage (pq_Budget request);
          blockers = graphBlockers @ budgetBlockers assessment;
          planID = pq_PlanID request
      in \<lparr>ps_scheduled = [], ps_bookings = [], ps_blocked = blockerTaskSet blockers, ps_blockers = blockers,
          ps_advisories = [], ps_flags = approvalFlags (pq_Tasks request) usage (pq_ApprovalPolicy request),
          ps_unscheduled = [],
          ps_audit = append_audit ''budget_assessed'' planID (budgetAuditDetail assessment)
            (append_audit ''dependency_graph_assessed'' planID
               (''ordered '' @ decimal (length order) @ '' of '' @ decimal (length (pq_Tasks request)) @ '' tasks'')
             (append_audit ''request_normalized'' planID ''validated deterministic planning input'' []))\<rparr>)"

definition planned_state :: "PlanningRequest \<Rightarrow> UsageEstimate \<Rightarrow> PlanState" where
  "planned_state request usage =
     plan_tasks request (planning_start request) (fst (dependencyOrder (pq_Tasks request))) (start_state request usage)"

text \<open>The tasks that were never reached are left out too.\<close>

definition unscheduled_ids :: "PlanTask list \<Rightarrow> PlanState \<Rightarrow> string list" where
  "unscheduled_ids taskList st =
     sort (fold (\<lambda>task ids. if map_of (ps_scheduled st) (tk_ID task) \<noteq> None \<or> tk_ID task \<in> set ids then ids
                            else ids @ [tk_ID task]) taskList (ps_unscheduled st))"

definition conclude_plan :: "PlanningRequest \<Rightarrow> UsageEstimate \<Rightarrow> string \<Rightarrow> PlanState \<Rightarrow> PlanningDecision" where
  "conclude_plan request usage inputDigest st =
     (let unscheduled = unscheduled_ids (pq_Tasks request) st;
          scheduled = computeSlack (fst (dependencyOrder (pq_Tasks request))) (pq_Tasks request) (ps_scheduled st)
                        (pq_HorizonEnd request);
          blockers = sortBlockers (ps_blockers st);
          advisories = sortBlockers (ps_advisories st);
          flags = sortApprovalFlags (ps_flags st);
          issues = blockers @ advisories;
          feasibility = determineFeasibility blockers flags
      in \<lparr>pld_PlanID = pq_PlanID request, pld_OwnerScopeDigest = pq_OwnerScopeDigest request,
          pld_WorkspaceID = pq_WorkspaceID request, pld_AlgorithmVersion = ''resourceplanner/v1'',
          pld_AsOf = pq_AsOf request, pld_InputDigest = inputDigest, pld_DecisionDigest = '''',
          pld_Feasibility = feasibility, pld_Scheduled = scheduled, pld_UnscheduledTaskIDs = unscheduled,
          pld_Budget = assessBudget usage (pq_Budget request), pld_CriticalBlockers = blockers,
          pld_Advisories = advisories, pld_ApprovalFlags = flags, pld_ReplanReasons = buildReplanReasons issues,
          pld_FallbackStages = buildFallbackStages issues flags (pq_Tasks request),
          pld_Audit = append_audit ''decision_completed'' (pq_PlanID request)
            (feasibility_text feasibility @ '' with '' @ decimal (length scheduled) @ '' scheduled and '' @
             decimal (length unscheduled) @ '' unscheduled tasks'') (ps_audit st),
          pld_Authority = ''advisory_only'', pld_CanExecute = False, pld_GrantsAuthority = False\<rparr>)"

text \<open>The owner's identity is not encoded (\<open>json:"-"\<close>), so the digest of the request does not see it.\<close>

definition Plan_request :: "PlannerLib \<Rightarrow> PlanningRequest \<Rightarrow> PlannerError + PlanningDecision" where
  "Plan_request lib request =
     and_then (normalizeAndValidate lib request) (\<lambda>request.
     case pll_request_digest lib (request\<lparr>pq_OwnerIdentity := ''''\<rparr>) of None \<Rightarrow> Inl RequestDigestFailed
     | Some inputDigest \<Rightarrow>
     and_then (aggregateUsage (pq_Tasks request)) (\<lambda>usage.
     let decision = conclude_plan request usage inputDigest (planned_state request usage)
     in case pll_decision_digest lib decision of None \<Rightarrow> Inl DecisionDigestFailed
        | Some digest \<Rightarrow> Inr (decision\<lparr>pld_DecisionDigest := digest\<rparr>)))"

end
