(* ===== verification/PlannerCalendar.thy ===== *)
theory PlannerCalendar
  imports ResourcePlanner
begin

text \<open>
  The calendar of the planner. \<open>step_function\<close> is the contract of a quantity that changes only at
  known instants: looking at the start of every segment between them is enough. \<open>opening_times\<close> is the
  contract of a condition that begins to hold only at known instants: whatever interval it holds
  on can be moved to the left until it starts at one of them. Both are interpreted on the room of a
  resource, and give that \<open>findSlot\<close> finds the first possible slot whenever there is one.
\<close>

section \<open>Quantities that change at known instants\<close>

locale step_function =
  fixes level :: "'c \<Rightarrow> instant \<Rightarrow> 'v"
    and changes :: "'c \<Rightarrow> instant set"
  assumes change: "level c (t - 1) \<noteq> level c t \<Longrightarrow> t \<in> changes c"
begin

lemma steady:
  assumes "s \<le> t" "\<And>u. u \<in> changes c \<Longrightarrow> \<not> (s < u \<and> u \<le> t)"
  shows "level c t = level c s"
  using assms
proof (induction t rule: int_ge_induct)
  case (step t)
  have "level c (t + 1 - 1) = level c (t + 1)"
    using change [of c "t + 1"] step.hyps step.prems [of "t + 1"] by (cases "t + 1 \<in> changes c") auto
  moreover have "level c t = level c s" using step.prems by (intro step.IH) force
  ultimately show ?case by simp
qed simp

lemma sampled:
  assumes "sorted_wrt (<) bs" "bs \<noteq> []" "\<And>u. u \<in> changes c \<Longrightarrow> hd bs < u \<Longrightarrow> u < last bs \<Longrightarrow> u \<in> set bs"
  shows "segments_fit (\<lambda>t. P (level c t)) bs \<longleftrightarrow> (\<forall>t. hd bs \<le> t \<and> t < last bs \<longrightarrow> P (level c t))"
  using assms
proof (induction bs rule: induct_list012)
  case (3 t u ts)
  have tu: "t < u" and rest: "\<forall>v \<in> set ts. u < v" using "3.prems"(1) by auto
  have ul: "u \<le> last (u # ts)" using rest by (cases ts) (auto simp: order_less_imp_le)
  have in_ts: "v \<in> set (u # ts)" if "v \<in> changes c" "t < v" "v < last (u # ts)" for v
    using "3.prems"(3) [of v] that by auto
  have first: "level c v = level c t" if "t \<le> v" "v < u" for v
  proof (rule steady [OF that(1)])
    fix w assume "w \<in> changes c"
    show "\<not> (t < w \<and> w \<le> v)"
      using in_ts [OF \<open>w \<in> changes c\<close>] that(2) ul rest by force
  qed
  have "segments_fit (\<lambda>t. P (level c t)) (u # ts) \<longleftrightarrow>
      (\<forall>v. hd (u # ts) \<le> v \<and> v < last (u # ts) \<longrightarrow> P (level c v))"
  proof (rule "3.IH"(2))
    show "sorted_wrt (<) (u # ts)" using "3.prems"(1) by simp
    show "v \<in> set (u # ts)" if "v \<in> changes c" "hd (u # ts) < v" "v < last (u # ts)" for v
      using in_ts [OF that(1)] that(2,3) tu by simp
  qed simp
  then have "segments_fit (\<lambda>t. P (level c t)) (u # ts) \<longleftrightarrow> (\<forall>v. u \<le> v \<and> v < last (u # ts) \<longrightarrow> P (level c v))"
    by (simp only: list.sel)
  moreover have "P (level c t) \<longleftrightarrow> (\<forall>v. t \<le> v \<and> v < u \<longrightarrow> P (level c v))"
    using first tu by (metis order_refl)
  ultimately have "segments_fit (\<lambda>t. P (level c t)) (t # u # ts) \<longleftrightarrow>
      (\<forall>v. t \<le> v \<and> v < u \<longrightarrow> P (level c v)) \<and> (\<forall>v. u \<le> v \<and> v < last (u # ts) \<longrightarrow> P (level c v))"
    using tu by (simp only: segments_fit.simps) blast
  also have "\<dots> \<longleftrightarrow> (\<forall>v. t \<le> v \<and> v < last (u # ts) \<longrightarrow> P (level c v))"
    using tu ul by (meson linorder_not_less order_less_le_trans order_less_imp_le order_trans)
  finally show ?case by simp
qed auto

end

locale opening_times =
  fixes valid :: "'c \<Rightarrow> bool"
    and open_at :: "'c \<Rightarrow> instant \<Rightarrow> bool"
    and openings :: "'c \<Rightarrow> instant set"
  assumes opens: "valid c \<Longrightarrow> open_at c t \<Longrightarrow> \<not> open_at c (t - 1) \<Longrightarrow> t \<in> openings c"
begin

text \<open>An interval on which the condition holds can be moved to \<open>earliest\<close> or to an opening.\<close>

lemma leftmost:
  assumes v: "valid c" and d: "0 < d" and s: "earliest \<le> s" and o: "\<And>t. s \<le> t \<Longrightarrow> t < s + d \<Longrightarrow> open_at c t"
  shows "\<exists>u. (u = earliest \<or> u \<in> openings c) \<and> earliest \<le> u \<and> u \<le> s \<and> (\<forall>t. u \<le> t \<and> t < u + d \<longrightarrow> open_at c t)"
  using s o
proof (induction s rule: int_ge_induct)
  case base
  then show ?case by blast
next
  case (step s)
  show ?case
  proof (cases "open_at c s")
    case True
    have "open_at c t" if "s \<le> t" "t < s + d" for t
      using step.prems [of t] True that by (cases "t = s") auto
    from step.IH [OF this] show ?thesis by force
  next
    case False
    have "open_at c (s + 1)" using step.prems d by simp
    with False opens [OF v this] have "s + 1 \<in> openings c" by simp
    with step.prems step.hyps show ?thesis by force
  qed
qed

end

section \<open>The room of a resource\<close>

definition room :: "CapacityWindow list \<Rightarrow> Booking list \<Rightarrow> string \<Rightarrow> instant \<Rightarrow> int" where
  "room windows bookings resourceID t = capacity_at windows resourceID t - used_at bookings resourceID t"

definition window_ends :: "string \<Rightarrow> CapacityWindow list \<Rightarrow> instant set" where
  "window_ends resourceID windows =
     (\<Union>w \<in> {w \<in> set windows. cw_ResourceID w = resourceID \<and> cw_Start w < cw_End w}. {cw_Start w, cw_End w})"

definition booking_ends :: "string \<Rightarrow> Booking list \<Rightarrow> instant set" where
  "booking_ends resourceID bookings =
     (\<Union>b \<in> {b \<in> set bookings. bo_resourceID b = resourceID \<and> bo_start b < bo_end b}. {bo_start b, bo_end b})"

lemma used_from: "fold (\<lambda>b used. if P b then used + f b else used) bs (n :: int) = n + (\<Sum>b\<leftarrow>filter P bs. f b)"
  by (induction bs arbitrary: n) simp_all

lemma used_at_sum: "used_at bookings r t = (\<Sum>b\<leftarrow>filter (booking_at r t) bookings. bo_units b)"
  by (simp add: used_at_def used_from)

lemma used_at_append: "used_at (xs @ ys) r t = used_at xs r t + used_at ys r t"
  by (simp add: used_at_sum)

lemma Max_merge: "finite S \<Longrightarrow> Max (insert (max a b) S) = Max (insert a (insert b S))" for a :: int
  by (cases "S = {}") (simp_all add: max.assoc)

lemma capacity_from:
  "fold (\<lambda>w c. if P w \<and> c < f w then f w else c) ws n = Max (insert n (f ` {w \<in> set ws. P w}))" for n :: int
proof (induction ws arbitrary: n)
  case (Cons w ws)
  let ?S = "f ` {v \<in> set ws. P v}"
  have "f ` {v \<in> set (w # ws). P v} = (if P w then insert (f w) ?S else ?S)" by auto
  moreover have "(if P w \<and> n < f w then f w else n) = (if P w then max n (f w) else n)" by auto
  ultimately show ?case
    using Cons [of "if P w then max n (f w) else n"] Max_merge [of ?S n "f w"] by simp
qed simp

lemma capacity_at_Max:
  "capacity_at windows r t = Max (insert 0 (cw_CapacityUnits ` {w \<in> set windows. window_at r t w}))"
  by (simp add: capacity_at_def capacity_from)

lemma capacity_at_mono:
  assumes "{w \<in> set windows. window_at r t w} \<subseteq> {w \<in> set windows. window_at r u w}"
  shows "capacity_at windows r t \<le> capacity_at windows r u"
  unfolding capacity_at_Max using assms by (intro Max_mono) auto

lemma used_at_mono:
  assumes "\<forall>b \<in> set bookings. 0 \<le> bo_units b" "\<And>b. b \<in> set bookings \<Longrightarrow> booking_at r t b \<Longrightarrow> booking_at r u b"
  shows "used_at bookings r t \<le> used_at bookings r u"
  unfolding used_at_sum using assms by (induction bookings) auto

lemma window_steady:
  "t \<notin> window_ends r windows \<Longrightarrow> w \<in> set windows \<Longrightarrow> window_at r (t - 1) w \<longleftrightarrow> window_at r t w"
  using zle_diff1_eq [of t "cw_End w"] by (cases "cw_Start w < cw_End w") (force simp: window_ends_def window_at_def)+

lemma booking_steady:
  "t \<notin> booking_ends r bookings \<Longrightarrow> b \<in> set bookings \<Longrightarrow> booking_at r (t - 1) b \<longleftrightarrow> booking_at r t b"
  using zle_diff1_eq [of t "bo_end b"] by (cases "bo_start b < bo_end b") (force simp: booking_ends_def booking_at_def)+

interpretation room_steps: step_function "\<lambda>(windows, bookings, r). room windows bookings r"
    "\<lambda>(windows, bookings, r). window_ends r windows \<union> booking_ends r bookings"
proof
  fix c :: "CapacityWindow list \<times> Booking list \<times> string" and t
  obtain windows bookings r where c: "c = (windows, bookings, r)" by (cases c)
  have "room windows bookings r (t - 1) = room windows bookings r t"
    if "t \<notin> window_ends r windows" "t \<notin> booking_ends r bookings"
  proof -
    have "{w \<in> set windows. window_at r (t - 1) w} = {w \<in> set windows. window_at r t w}"
      using window_steady [OF that(1)] by blast
    moreover have "filter (booking_at r (t - 1)) bookings = filter (booking_at r t) bookings"
      using booking_steady [OF that(2)] by (rule filter_cong [OF refl])
    ultimately show ?thesis by (simp add: room_def capacity_at_Max used_at_sum)
  qed
  then show "(case c of (windows, bookings, r) \<Rightarrow> room windows bookings r) (t - 1) \<noteq>
      (case c of (windows, bookings, r) \<Rightarrow> room windows bookings r) t \<Longrightarrow>
      t \<in> (case c of (windows, bookings, r) \<Rightarrow> window_ends r windows \<union> booking_ends r bookings)"
    by (auto simp: c)
qed

section \<open>Looking at the boundaries is enough\<close>

lemma drop_equal_props:
  "sorted ts \<Longrightarrow> sorted_wrt (<) (drop_equal ts) \<and> set (drop_equal ts) = set ts"
  by (induction ts rule: drop_equal.induct) (auto simp: order_le_less)

lemma uniqueTimes_props:
  "sorted_wrt (<) (uniqueTimes ts)" "set (uniqueTimes ts) = set ts"
  using drop_equal_props [of "sort ts"] by (simp_all add: uniqueTimes_def)

lemma strict_ends:
  fixes bs :: "int list"
  assumes "sorted_wrt (<) bs" "s \<in> set bs" "e \<in> set bs" "\<forall>t \<in> set bs. s \<le> t \<and> t \<le> e"
  shows "bs \<noteq> []" "hd bs = s" "last bs = e"
proof -
  show ne: "bs \<noteq> []" using assms(2) by auto
  have le: "\<forall>t \<in> set bs. hd bs \<le> t \<and> t \<le> last bs"
    using assms(1) ne by (induction bs rule: induct_list012) (auto simp: order_less_imp_le)
  show "hd bs = s" "last bs = e"
    using le assms(2-4) hd_in_set [OF ne] last_in_set [OF ne] by force+
qed

lemma inner_times_set: "set (inner_times s e a b) = {t. s < t \<and> t < e \<and> (t = a \<or> t = b)}"
  unfolding inner_times_def by auto

lemma slot_boundaries_set:
  "set (slot_boundaries r s e windows bookings) =
     {s, e} \<union> {t. s < t \<and> t < e \<and>
        ((\<exists>w \<in> set windows. cw_ResourceID w = r \<and> intervalsOverlap s e (cw_Start w) (cw_End w) \<and> (t = cw_Start w \<or> t = cw_End w)) \<or>
         (\<exists>b \<in> set bookings. bo_resourceID b = r \<and> intervalsOverlap s e (bo_start b) (bo_end b) \<and> (t = bo_start b \<or> t = bo_end b)))}"
  unfolding slot_boundaries_def uniqueTimes_props(2) by (auto simp: inner_times_set)

lemma slot_boundaries_changes:
  assumes "t \<in> window_ends r windows \<union> booking_ends r bookings" "s < t" "t < e"
  shows "t \<in> set (slot_boundaries r s e windows bookings)"
  unfolding slot_boundaries_set using assms
  by (auto simp: window_ends_def booking_ends_def intervalsOverlap_def)

lemma capacityAvailable_iff:
  assumes "s < e"
  shows "capacityAvailable q s e windows bookings \<longleftrightarrow>
    (\<forall>t. s \<le> t \<and> t < e \<longrightarrow> rr_CapacityUnits q \<le> room windows bookings (rr_ResourceID q) t)"
proof -
  let ?bs = "slot_boundaries (rr_ResourceID q) s e windows bookings"
  let ?c = "(windows, bookings, rr_ResourceID q)"
  have sorted: "sorted_wrt (<) ?bs" by (simp add: slot_boundaries_def uniqueTimes_props(1))
  have "s \<in> set ?bs" "e \<in> set ?bs" "\<forall>t \<in> set ?bs. s \<le> t \<and> t \<le> e"
    unfolding slot_boundaries_set using assms by auto
  note ends = strict_ends [OF sorted this]
  have "t \<in> set ?bs" if "t \<in> (case ?c of (windows, bookings, r) \<Rightarrow> window_ends r windows \<union> booking_ends r bookings)"
    "hd ?bs < t" "t < last ?bs" for t
    using slot_boundaries_changes that by (simp add: ends(2,3))
  from room_steps.sampled [where c = ?c and P = "\<lambda>n. rr_CapacityUnits q \<le> n", OF sorted ends(1) this]
  show ?thesis by (simp add: capacityAvailable_def room_def ends(2,3))
qed

section \<open>The first slot\<close>

text \<open>Where every requirement has its units, and what a slot has to satisfy.\<close>

definition roomy :: "ResourceRequirement list \<times> CapacityWindow list \<times> Booking list \<Rightarrow> instant \<Rightarrow> bool" where
  "roomy c t = (case c of (requirements, windows, bookings) \<Rightarrow>
     \<forall>r \<in> set requirements. rr_CapacityUnits r \<le> room windows bookings (rr_ResourceID r) t)"

definition possible_slot ::
  "PlanTask \<Rightarrow> instant \<Rightarrow> instant \<Rightarrow> int \<Rightarrow> CapacityWindow list \<Rightarrow> Booking list \<Rightarrow> instant \<Rightarrow> bool" where
  "possible_slot task earliest latestEnd duration windows bookings s \<longleftrightarrow>
     earliest \<le> s \<and> s + minutes_span duration \<le> latestEnd \<and>
     (\<forall>t. s \<le> t \<and> t < s + minutes_span duration \<longrightarrow> roomy (tk_Resources task, windows, bookings) t)"

lemma candidate_fits_iff:
  "0 < minutes_span duration \<Longrightarrow> candidate_fits task earliest latestEnd duration windows bookings s \<longleftrightarrow>
     possible_slot task earliest latestEnd duration windows bookings s"
  by (auto simp: candidate_fits_def possible_slot_def roomy_def list_all_iff capacityAvailable_iff)

lemma capacity_rises:
  assumes "\<And>w. w \<in> set windows \<Longrightarrow> cw_Start w \<noteq> t"
  shows "capacity_at windows r t \<le> capacity_at windows r (t - 1)"
  using assms by (intro capacity_at_mono) (force simp: window_at_def)

lemma used_falls:
  assumes "\<forall>b \<in> set bookings. 0 \<le> bo_units b" "\<And>b. b \<in> set bookings \<Longrightarrow> bo_end b \<noteq> t"
  shows "used_at bookings r (t - 1) \<le> used_at bookings r t"
  using assms by (intro used_at_mono) (force simp: booking_at_def)+

interpretation slots: opening_times
    "\<lambda>(requirements, windows, bookings). \<forall>b \<in> set bookings. 0 \<le> bo_units b"
    roomy
    "\<lambda>(requirements, windows, bookings). cw_Start ` set windows \<union> bo_end ` set bookings"
proof
  fix c :: "ResourceRequirement list \<times> CapacityWindow list \<times> Booking list" and t
  obtain q windows bookings where c: "c = (q, windows, bookings)" by (cases c)
  assume v: "case c of (requirements, windows, bookings) \<Rightarrow> \<forall>b \<in> set bookings. 0 \<le> bo_units b"
    and now: "roomy c t" and before: "\<not> roomy c (t - 1)"
  have "room windows bookings r t \<le> room windows bookings r (t - 1)"
    if "t \<notin> cw_Start ` set windows \<union> bo_end ` set bookings" for r
  proof -
    have "capacity_at windows r t \<le> capacity_at windows r (t - 1)" using that by (intro capacity_rises) auto
    moreover have "used_at bookings r (t - 1) \<le> used_at bookings r t"
      using that v by (intro used_falls) (auto simp: c)
    ultimately show ?thesis by (simp add: room_def)
  qed
  then show "t \<in> (case c of (requirements, windows, bookings) \<Rightarrow> cw_Start ` set windows \<union> bo_end ` set bookings)"
    using now before unfolding c roomy_def prod.case by (meson order_trans)
qed

lemma slot_candidates_set:
  "t \<in> set (slot_candidates earliest latestEnd windows bookings) \<longleftrightarrow>
     t = earliest \<or> earliest \<le> t \<and> t < latestEnd \<and> t \<in> cw_Start ` set windows \<union> bo_end ` set bookings"
  unfolding slot_candidates_def uniqueTimes_props(2) by auto

lemma possible_candidate:
  assumes "0 < minutes_span duration" "\<forall>b \<in> set bookings. 0 \<le> bo_units b"
    "possible_slot task earliest latestEnd duration windows bookings s"
  shows "\<exists>u \<in> set (slot_candidates earliest latestEnd windows bookings).
    u \<le> s \<and> possible_slot task earliest latestEnd duration windows bookings u"
proof -
  let ?c = "(tk_Resources task, windows, bookings)"
  have v: "case ?c of (requirements, windows, bookings) \<Rightarrow> \<forall>b \<in> set bookings. 0 \<le> bo_units b"
    using assms(2) by simp
  from assms(3) have "earliest \<le> s" "\<And>t. s \<le> t \<Longrightarrow> t < s + minutes_span duration \<Longrightarrow> roomy ?c t"
    by (simp_all add: possible_slot_def)
  from slots.leftmost [OF v assms(1) this] obtain u where
    u: "u = earliest \<or> u \<in> cw_Start ` set windows \<union> bo_end ` set bookings" "earliest \<le> u" "u \<le> s"
    "\<forall>t. u \<le> t \<and> t < u + minutes_span duration \<longrightarrow> roomy ?c t" by auto
  moreover have "u + minutes_span duration \<le> latestEnd" "u < latestEnd"
    using u(3) assms(1,3) by (auto simp: possible_slot_def)
  ultimately show ?thesis by (auto simp: slot_candidates_set possible_slot_def)
qed

lemma find_first_sorted:
  fixes xs :: "'a :: linorder list"
  assumes "find P xs = Some x" "sorted_wrt (<) xs" "y \<in> set xs" "P y"
  shows "x \<le> y"
  using assms by (induction xs) (auto split: if_splits)

lemma findSlot_spec:
  assumes d: "0 < minutes_span duration" and b: "\<forall>b \<in> set bookings. 0 \<le> bo_units b"
  shows "case findSlot task earliest latestEnd duration windows bookings of
      Inr s \<Rightarrow> possible_slot task earliest latestEnd duration windows bookings s \<and>
        (\<forall>u. possible_slot task earliest latestEnd duration windows bookings u \<longrightarrow> s \<le> u)
    | Inl reason \<Rightarrow> \<forall>u. \<not> possible_slot task earliest latestEnd duration windows bookings u"
proof (cases "tk_Resources task = []")
  case True
  then show ?thesis by (auto simp: findSlot_def possible_slot_def roomy_def)
next
  case False
  let ?cs = "slot_candidates earliest latestEnd windows bookings"
  let ?ok = "possible_slot task earliest latestEnd duration windows bookings"
  have ok: "candidate_fits task earliest latestEnd duration windows bookings = ?ok"
    using candidate_fits_iff [OF d] by blast
  show ?thesis
  proof (cases "find ?ok ?cs")
    case None
    then have "\<not> ?ok u" for u
      using possible_candidate [OF d b, of task earliest latestEnd windows u] by (auto simp: find_None_iff)
    with None False show ?thesis by (simp add: findSlot_def ok split: option.split)
  next
    case (Some s)
    have sorted: "sorted_wrt (<) ?cs" by (simp add: slot_candidates_def uniqueTimes_props(1))
    have "s \<le> u" if "?ok u" for u
      using possible_candidate [OF d b that] find_first_sorted [OF Some sorted] by force
    moreover have "?ok s" using Some by (auto simp: find_Some_iff)
    ultimately show ?thesis using Some False by (simp add: findSlot_def ok)
  qed
qed

end
