(* ===== verification/PlannerOrder.thy ===== *)
theory PlannerOrder
  imports ResourcePlanner PlanFacts
begin

text \<open>
  The order in which the planner looks at the tasks: a topological order of the dependencies that
  exist, which takes the task with the nearest deadline, then the highest priority, then the least
  identifier among the ready ones, and which leaves out exactly the tasks behind a cycle. The
  invariant is that of Kahn's algorithm from the plan graphs.
\<close>

section \<open>Sorting by comparison\<close>

definition task_key :: "PlanTask \<Rightarrow> bool \<times> instant \<times> int \<times> string" where
  "task_key task =
     (let d = (case tk_Deadline task of None \<Rightarrow> 0 | Some d \<Rightarrow> d) in (d = 0, d, - tk_Priority task, tk_ID task))"

lemma taskBefore_key: "taskBefore s t \<longleftrightarrow> task_key s < task_key t"
proof -
  let ?d = "\<lambda>t. case tk_Deadline t of None \<Rightarrow> 0 | Some d \<Rightarrow> d"
  show ?thesis
    by (cases "?d s = 0"; cases "?d t = 0")
      (auto simp: taskBefore_def task_key_def Let_def less_prod_def' linorder_neq_iff)
qed

lemma insert_by_key:
  assumes "\<And>y. y \<in> set ys \<Longrightarrow> precedes y x \<longleftrightarrow> k y < k x"
  shows "insert_by precedes x ys = insort_key k x ys"
  using assms by (induction ys) (auto simp: not_le)

lemma sort_by_key:
  assumes "\<And>x y. x \<in> set xs \<Longrightarrow> y \<in> set xs \<Longrightarrow> precedes x y \<longleftrightarrow> k x < k y"
  shows "sort_by precedes xs = sort_key k xs"
  using assms
proof (induction xs)
  case (Cons x xs)
  have "insert_by precedes x (sort_key k xs) = insort_key k x (sort_key k xs)"
    using Cons(2) by (intro insert_by_key) simp
  moreover have "sort_by precedes xs = sort_key k xs" using Cons by simp
  ultimately show ?case by (simp add: sort_by_def)
qed (simp add: sort_by_def)

section \<open>The loop\<close>

lemma kahn_inv_perm: "mset q = mset q' \<Longrightarrow> kahn_inv g N q ind v \<longleftrightarrow> kahn_inv g N q' ind v"
  using mset_eq_setD [of q q'] mset_eq_imp_distinct_iff [of q q'] by (simp add: kahn_inv_def)

lemma kahn_inv_visited: "set v = set v' \<Longrightarrow> distinct v' \<Longrightarrow> kahn_inv g N q ind v \<Longrightarrow> kahn_inv g N q ind v'"
  by (simp add: kahn_inv_def)

lemma release_targets_perm:
  assumes "mset targets = mset targets'" "release targets queue ind = (q, i)" "release targets' queue ind = (q', i')"
    and "distinct queue" "\<forall>y \<in> set queue. ind y \<le> 0"
  shows "i = i' \<and> mset q = mset q'"
proof -
  have "count_list targets = count_list targets'"
    using assms(1) by (metis count_mset ext)
  then show ?thesis
    using release_spec [OF assms(2,4,5)] release_spec [OF assms(3,4,5)] by (metis set_eq_iff_mset_eq_distinct)
qed

lemma order_step:
  assumes i: "kahn_inv g N (x # rest) ind (rev order)" and g: "set g \<subseteq> N \<times> N"
    and r: "release_dependents (sort (succs g x)) rest ind = (ready', ind')"
  shows "kahn_inv g N ready' ind' (rev (order @ [x]))"
proof -
  obtain q2 i2 where r2: "release (succs g x) rest ind = (q2, i2)" by fastforce
  from release_dependents_release [OF refl r] obtain q1
    where r1: "release (sort (succs g x)) rest ind = (q1, ind')" "mset ready' = mset q1" by blast
  have "distinct rest" "\<forall>y \<in> set rest. ind y \<le> 0" using i by (auto simp: kahn_inv_def)
  from release_targets_perm [OF _ r1(1) r2 this] have "ind' = i2" "mset q1 = mset q2" by simp_all
  with kahn_inv_step [OF i g r2] r1(2) show ?thesis by (simp add: kahn_inv_perm [of ready' q2])
qed

text \<open>Every task stands behind its predecessors, and before the later ones that were ready with it.\<close>

definition ordered :: "(string \<times> string) list \<Rightarrow> (string \<Rightarrow> 'k :: linorder) \<Rightarrow> string set \<Rightarrow> string list \<Rightarrow> bool" where
  "ordered g k N order \<longleftrightarrow> (\<forall>p y s. order = p @ y # s \<longrightarrow>
     (\<forall>x. (x, y) \<in> set g \<longrightarrow> x \<in> set p) \<and>
     (\<forall>z \<in> N - set p. (\<forall>x. (x, z) \<in> set g \<longrightarrow> x \<in> set p) \<longrightarrow> k y \<le> k z))"

lemma ordered_snoc:
  assumes "ordered g k N order" "\<And>x. (x, y) \<in> set g \<Longrightarrow> x \<in> set order"
    "\<And>z. z \<in> N \<Longrightarrow> z \<notin> set order \<Longrightarrow> (\<And>x. (x, z) \<in> set g \<Longrightarrow> x \<in> set order) \<Longrightarrow> k y \<le> k z"
  shows "ordered g k N (order @ [y])"
  unfolding ordered_def
proof (intro allI impI)
  fix p x s assume e: "order @ [y] = p @ x # s"
  show "(\<forall>u. (u, x) \<in> set g \<longrightarrow> u \<in> set p) \<and>
      (\<forall>z \<in> N - set p. (\<forall>u. (u, z) \<in> set g \<longrightarrow> u \<in> set p) \<longrightarrow> k x \<le> k z)"
  proof (cases s rule: rev_cases)
    case Nil
    with e have "p = order" "x = y" by simp_all
    with assms(2,3) show ?thesis by blast
  next
    case (snoc s' z)
    with e have "order = p @ x # s'" by simp
    with assms(1) show ?thesis unfolding ordered_def by blast
  qed
qed

definition ready_key :: "(string \<Rightarrow> PlanTask option) \<Rightarrow> string \<Rightarrow> bool \<times> instant \<times> int \<times> string" where
  "ready_key tasks x = task_key (the (tasks x))"

lemma order_loop_spec:
  assumes "kahn_inv g N ready ind (rev order)" "set g \<subseteq> N \<times> N" "\<And>x. x \<in> N \<Longrightarrow> tasks x \<noteq> None"
    and "ordered g (ready_key tasks) N order"
  shows "\<exists>order' ind'. order_loop tasks g ready ind order = (order', ind') \<and>
    kahn_inv g N [] ind' (rev order') \<and> ordered g (ready_key tasks) N order'"
  using assms
proof (induction tasks g ready ind order rule: order_loop.induct)
  case (1 tasks g ready ind order)
  have sub: "set ready \<subseteq> N" using "1.prems"(1) by (auto simp: kahn_inv_def)
  have sorted: "sort_by (before_id tasks) ready = sort_key (ready_key tasks) ready"
  proof (rule sort_by_key)
    fix x y assume "x \<in> set ready" "y \<in> set ready"
    with sub "1.prems"(3) obtain s t where "tasks x = Some s" "tasks y = Some t" by blast
    then show "before_id tasks x y \<longleftrightarrow> ready_key tasks x < ready_key tasks y"
      by (simp add: before_id_def ready_key_def taskBefore_key)
  qed
  show ?case
  proof (cases "sort_by (before_id tasks) ready")
    case Nil
    then have "ready = []" using length_sort_by by (metis length_0_conv)
    with Nil "1.prems"(1,4) show ?thesis by (subst order_loop.simps) simp
  next
    case (Cons x rest)
    let ?k = "ready_key tasks"
    have m: "mset ready = mset (x # rest)" and srt: "sorted (map ?k (x # rest))"
      using Cons [unfolded sorted] by (metis mset_sort, metis sorted_sort_key)
    have inv: "kahn_inv g N (x # rest) ind (rev order)"
      using "1.prems"(1) kahn_inv_perm [OF m] by blast
    obtain ready' ind' where r: "release_dependents (sort (succs g x)) rest ind = (ready', ind')" by fastforce
    have waiting: "set (x # rest) \<union> set order = {y \<in> N. in_count g (set order) y = 0}"
      using inv unfolding kahn_inv_def set_rev by blast
    then have x: "in_count g (set order) x = 0" by auto
    have "ordered g ?k N (order @ [x])"
    proof (rule ordered_snoc [OF "1.prems"(4)])
      show "y \<in> set order" if "(y, x) \<in> set g" for y using x that by (simp add: in_count_zero_iff)
      show "?k x \<le> ?k z" if "z \<in> N" "z \<notin> set order" "\<And>y. (y, z) \<in> set g \<Longrightarrow> y \<in> set order" for z
      proof -
        have "in_count g (set order) z = 0" using that(3) by (simp add: in_count_zero_iff)
        with that(1,2) waiting have "z \<in> set (x # rest)" by blast
        with srt show ?thesis by auto
      qed
    qed
    from "1.IH" [OF Cons r [symmetric] refl order_step [OF inv "1.prems"(2) r] "1.prems"(2,3) this] Cons r
    show ?thesis by (subst order_loop.simps) simp
  qed
qed

section \<open>What is ordered and what is left out\<close>

text \<open>The tasks that lie on a cycle of dependencies or depend, over any number of steps, on one.\<close>

definition behind_cycle :: "(string \<times> string) list \<Rightarrow> string \<Rightarrow> bool" where
  "behind_cycle g y \<longleftrightarrow> (\<exists>c. (c, c) \<in> (set g)\<^sup>+ \<and> (c, y) \<in> (set g)\<^sup>*)"

lemma kahn_done:
  assumes i: "kahn_inv g N [] ind v" and g: "set g \<subseteq> N \<times> N" and f: "finite N"
  shows "set v = {y \<in> N. \<not> behind_cycle g y}"
proof (rule set_eqI, rule iffI)
  fix y assume y: "y \<in> set v"
  have s: "settled ((set g)\<inverse>) (set v)" and "y \<in> N" using i y by (auto simp: kahn_inv_def)
  moreover have "\<not> behind_cycle g y"
  proof
    assume "behind_cycle g y"
    then obtain c where c: "(c, c) \<in> (set g)\<^sup>+" "(c, y) \<in> (set g)\<^sup>*" by (auto simp: behind_cycle_def)
    then have "(y, c) \<in> ((set g)\<inverse>)\<^sup>*" by (simp add: rtrancl_converse)
    from settled_reach [OF s y this] s have "(c, c) \<notin> ((set g)\<inverse>)\<^sup>+" by (simp add: settled_def)
    with c(1) show False by (simp add: trancl_converse)
  qed
  ultimately show "y \<in> {y \<in> N. \<not> behind_cycle g y}" by simp
next
  fix y assume y: "y \<in> {y \<in> N. \<not> behind_cycle g y}"
  show "y \<in> set v"
  proof (rule ccontr)
    assume n: "y \<notin> set v"
    let ?U = "{z \<in> N - set v. (z, y) \<in> (set g)\<^sup>*}"
    let ?R = "set g \<inter> ?U \<times> ?U"
    have "\<exists>x \<in> ?U. (x, z) \<in> ?R" if z: "z \<in> ?U" for z
    proof -
      have "in_count g (set v) z \<noteq> 0" using i z by (auto simp: kahn_inv_def)
      then obtain x where "(x, z) \<in> set g" "x \<notin> set v" by (auto simp: in_count_zero_iff)
      then have "x \<in> ?U" using z g by (auto intro: converse_rtrancl_into_rtrancl)
      with \<open>(x, z) \<in> set g\<close> z show ?thesis by blast
    qed
    moreover have "?U \<noteq> {}" using y n by blast
    ultimately have "\<not> acyclic ?R" using f by (intro stuck_cycle [of ?U]) simp_all
    then obtain c where c: "(c, c) \<in> ?R\<^sup>+" by (auto simp: acyclic_def)
    then have "c \<in> ?U" by (meson IntD2 SigmaD1 tranclD)
    moreover have "(c, c) \<in> (set g)\<^sup>+" using c by (meson Int_lower1 trancl_mono)
    ultimately have "behind_cycle g y" unfolding behind_cycle_def by blast
    with y show False by simp
  qed
qed

definition task_ids :: "PlanTask list \<Rightarrow> string set" where
  "task_ids ts = tk_ID ` set ts"

lemma task_map_Some_iff:
  "distinct (map tk_ID ts) \<Longrightarrow> task_map ts x = Some t \<longleftrightarrow> t \<in> set ts \<and> tk_ID t = x"
  by (auto simp: task_map_def map_of_eq_Some_iff comp_def)

lemma task_map_None_iff: "task_map ts x = None \<longleftrightarrow> x \<notin> task_ids ts"
  by (simp add: task_map_def task_ids_def map_of_eq_None_iff image_image)

lemma set_task_arcs:
  "set (task_arcs ts) = {(d, x). d \<in> task_ids ts \<and> (\<exists>t \<in> set ts. x = tk_ID t \<and> d \<in> set (tk_Dependencies t))}"
  by (auto simp: task_arcs_def task_map_None_iff)

text \<open>The blockers that \<open>dependencyOrder\<close> reports, before they are sorted.\<close>

definition cycle_blockers :: "PlanTask list \<Rightarrow> string list \<Rightarrow> Blocker list" where
  "cycle_blockers ts order =
     map (\<lambda>t. blocker ''dependency_cycle'' (tk_ID t) '''' cycle_detail) (filter (\<lambda>t. tk_ID t \<notin> set order) ts)"

lemma dependencyOrder_spec:
  assumes d: "distinct (map tk_ID ts)"
  shows "\<exists>order. dependencyOrder ts = (order, sortBlockers (missing_blockers ts @ cycle_blockers ts order)) \<and>
    distinct order \<and> set order = {y \<in> task_ids ts. \<not> behind_cycle (task_arcs ts) y} \<and>
    ordered (task_arcs ts) (ready_key (task_map ts)) (task_ids ts) order"
proof -
  let ?g = "task_arcs ts" and ?N = "task_ids ts"
  have g: "set ?g \<subseteq> ?N \<times> ?N" by (auto simp: set_task_arcs task_ids_def)
  have f: "finite ?N" by (simp add: task_ids_def)
  have start: "kahn_inv ?g ?N (filter (\<lambda>x. indegrees ?g x = 0) (map tk_ID ts)) (indegrees ?g) (rev [])"
    using kahn_inv_start [OF d, of ?N ?g] by (simp add: task_ids_def)
  have "ordered ?g (ready_key (task_map ts)) ?N []" by (simp add: ordered_def)
  from order_loop_spec [OF start g _ this] obtain order ind where
    o: "order_loop (task_map ts) ?g (filter (\<lambda>x. indegrees ?g x = 0) (map tk_ID ts)) (indegrees ?g) [] = (order, ind)"
    and i: "kahn_inv ?g ?N [] ind (rev order)" and od: "ordered ?g (ready_key (task_map ts)) ?N order"
    by (auto simp: task_map_None_iff)
  from kahn_done [OF i g f] have s: "set order = {y \<in> ?N. \<not> behind_cycle ?g y}" by simp
  have di: "distinct order" using i by (simp add: kahn_inv_def)
  have ind: "ind = in_count ?g (set order)" and zero: "set order = {y \<in> ?N. in_count ?g (set order) y = 0}"
    using i by (simp_all add: kahn_inv_def)
  have pos: "0 < ind (tk_ID t) \<longleftrightarrow> tk_ID t \<notin> set order" if "t \<in> set ts" for t
  proof -
    have "0 \<le> ind (tk_ID t)" unfolding ind in_count_def by simp
    moreover have "tk_ID t \<in> ?N" using that by (simp add: task_ids_def)
    ultimately show ?thesis using zero ind by force
  qed
  have cyc: "(if length order \<noteq> length ts
       then map (\<lambda>t. blocker ''dependency_cycle'' (tk_ID t) '''' cycle_detail) (filter (\<lambda>t. 0 < ind (tk_ID t)) ts)
       else []) = cycle_blockers ts order"
  proof (cases "length order = length ts")
    case True
    have "set order = set (map tk_ID ts)"
    proof (rule card_subset_eq)
      show "set order \<subseteq> set (map tk_ID ts)" using s by (auto simp: task_ids_def)
      show "card (set order) = card (set (map tk_ID ts))"
        using distinct_card [OF di] distinct_card [OF d] True by simp
    qed simp
    with True show ?thesis by (auto simp: cycle_blockers_def)
  next
    case False
    then show ?thesis using filter_cong [OF refl pos, of ts] by (simp add: cycle_blockers_def)
  qed
  have "dependencyOrder ts = (order, sortBlockers (missing_blockers ts @ cycle_blockers ts order))"
    unfolding dependencyOrder_def Let_def o prod.case cyc ..
  with s di od show ?thesis by blast
qed

lemma order_props:
  assumes "distinct (map tk_ID ts)"
  shows "distinct (fst (dependencyOrder ts))"
    "set (fst (dependencyOrder ts)) = {y \<in> task_ids ts. \<not> behind_cycle (task_arcs ts) y}"
    "ordered (task_arcs ts) (ready_key (task_map ts)) (task_ids ts) (fst (dependencyOrder ts))"
proof -
  from dependencyOrder_spec [OF assms] obtain order where
    e: "dependencyOrder ts = (order, sortBlockers (missing_blockers ts @ cycle_blockers ts order))" and
    o: "distinct order" "set order = {y \<in> task_ids ts. \<not> behind_cycle (task_arcs ts) y}"
      "ordered (task_arcs ts) (ready_key (task_map ts)) (task_ids ts) order" by blast
  from o show "distinct (fst (dependencyOrder ts))"
    "set (fst (dependencyOrder ts)) = {y \<in> task_ids ts. \<not> behind_cycle (task_arcs ts) y}"
    "ordered (task_arcs ts) (ready_key (task_map ts)) (task_ids ts) (fst (dependencyOrder ts))"
    unfolding e fst_conv by blast+
qed

end
