(* ===== verification/PlannerFacts.thy ===== *)
theory PlannerFacts
  imports PlannerCalendar PlannerOrder
begin

text \<open>
  What validation gives, and the invariant of the loop over the tasks: no resource is ever booked
  beyond its capacity, every placed task keeps its times, and every task that was looked at is
  either placed or left out with a reason.
\<close>

section \<open>Validated requests\<close>

definition valid_duration :: "DurationEstimate \<Rightarrow> bool" where
  "valid_duration e \<longleftrightarrow> 0 < du_OptimisticMinutes e \<and> du_OptimisticMinutes e \<le> du_ExpectedMinutes e \<and>
     du_ExpectedMinutes e \<le> du_PessimisticMinutes e \<and> du_PessimisticMinutes e \<le> maxMinutes"

definition valid_usage :: "UsageEstimate \<Rightarrow> bool" where
  "valid_usage u \<longleftrightarrow> 0 \<le> us_CostMicros u \<and> 0 \<le> us_InputTokens u \<and> 0 \<le> us_OutputTokens u \<and> 0 \<le> us_ToolCalls u"

definition valid_task :: "PlanTask \<Rightarrow> bool" where
  "valid_task t \<longleftrightarrow> tk_ID t \<noteq> '''' \<and> valid_duration (tk_Duration t) \<and> valid_usage (tk_EstimatedUsage t) \<and>
     distinct (map rr_ResourceID (tk_Resources t)) \<and> (\<forall>r \<in> set (tk_Resources t). 0 < rr_CapacityUnits r) \<and>
     tk_DeadlineKind t \<in> {HardDeadline, SoftDeadline}"

lemma validateDuration_passed: "validateDuration x e = None \<Longrightarrow> valid_duration e"
  by (auto simp: validateDuration_def valid_duration_def split: if_splits)

lemma validateUsage_passed: "validateUsage x u = None \<Longrightarrow> valid_usage u"
  by (auto simp: validateUsage_def valid_usage_def split: if_splits)

lemma tidy_requirements_props:
  "tidy_requirements x seen rs = Inr qs \<Longrightarrow>
     distinct (map rr_ResourceID qs) \<and> rr_ResourceID ` set qs \<inter> set seen = {} \<and> (\<forall>q \<in> set qs. 0 < rr_CapacityUnits q)"
proof (induction rs arbitrary: seen qs)
  case (Cons r rs)
  let ?r = "r\<lparr>rr_ResourceID := TrimSpace (rr_ResourceID r)\<rparr>"
  from Cons(2) obtain rest where rest: "tidy_requirements x (rr_ResourceID ?r # seen) rs = Inr rest"
    and q: "qs = ?r # rest" "rr_ResourceID ?r \<notin> set seen" "0 < rr_CapacityUnits ?r"
    by (auto simp: Let_def and_then_Inr_iff split: if_splits)
  from Cons(1) [OF rest] q show ?case by auto
qed simp

lemma early_checks_passed:
  assumes "early_checks request i seen t = None"
  shows "tk_ID t \<noteq> ''''" "tk_ID t \<notin> set seen" "valid_duration (tk_Duration t)" "tk_DeadlineKind t \<in> {HardDeadline, SoftDeadline}"
proof -
  have g: "first_error (task_identity_guards i seen t) = None" "validateDuration (tk_ID t) (tk_Duration t) = None"
    "first_error (time_guards request t) = None"
    using assms unfolding early_checks_def by (simp_all split: option.splits)
  from g(1) show "tk_ID t \<noteq> ''''" "tk_ID t \<notin> set seen"
    by (auto simp: task_identity_guards_def validOpaqueID_def split: if_splits)
  from g(2) show "valid_duration (tk_Duration t)" by (rule validateDuration_passed)
  have "\<forall>g \<in> set (time_guards request t). \<not> fst g" using g(3) by (simp add: first_error_None_iff)
  note h = this [unfolded time_guards_def list.set ball_simps fst_conv]
  from h show "tk_DeadlineKind t \<in> {HardDeadline, SoftDeadline}" by blast
qed

lemma tidy_task_props:
  assumes "tidy_task lib request i seen t = Inr u"
  shows "valid_task u" "tk_ID u \<notin> set seen"
proof -
  let ?t = "tidy_times t"
  from assms have e: "early_checks request i seen ?t = None"
    by (simp add: tidy_task_def Let_def split: option.splits)
  with assms obtain ds rs where r: "tidy_requirements (tk_ID ?t) [] (tk_Resources ?t) = Inr rs"
    and u: "late_checks lib (with_lists ?t ds rs) = None" "u = with_lists ?t ds rs"
    by (auto simp: tidy_task_def Let_def and_then_Inr_iff split: if_splits option.splits)
  have fields: "tk_ID u = tk_ID ?t" "tk_Duration u = tk_Duration ?t" "tk_DeadlineKind u = tk_DeadlineKind ?t"
    "tk_Resources u = sort_key rr_ResourceID rs" "tk_EstimatedUsage u = tk_EstimatedUsage ?t"
    by (simp_all add: u(2) with_lists_def)
  have "valid_usage (tk_EstimatedUsage u)"
    using u unfolding late_checks_def by (auto split: option.splits dest: validateUsage_passed)
  moreover have "distinct (map rr_ResourceID (tk_Resources u))" "\<forall>q \<in> set (tk_Resources u). 0 < rr_CapacityUnits q"
    using tidy_requirements_props [OF r] by (simp_all add: fields distinct_map)
  ultimately show "valid_task u" using early_checks_passed [OF e] by (simp add: valid_task_def fields)
  show "tk_ID u \<notin> set seen" using early_checks_passed(2) [OF e] by (simp add: fields)
qed

lemma tidy_tasks_props:
  "tidy_tasks lib request i seen ts = Inr us \<Longrightarrow>
     distinct (map tk_ID us) \<and> tk_ID ` set us \<inter> set seen = {} \<and> (\<forall>u \<in> set us. valid_task u)"
proof (induction lib request i seen ts arbitrary: us rule: tidy_tasks.induct)
  case (2 lib request i seen t ts)
  from 2(2) obtain u rest where u: "tidy_task lib request i seen t = Inr u"
    "tidy_tasks lib request (Suc i) (tk_ID u # seen) ts = Inr rest" "us = u # rest"
    by (auto simp: and_then_Inr_iff)
  from 2(1) [OF u(2)] tidy_task_props [OF u(1)] u(3) show ?case by auto
qed simp

lemma tidy_windows_props:
  "tidy_windows request i ws = Inr vs \<Longrightarrow> \<forall>w \<in> set vs. cw_Start w < cw_End w \<and> 0 < cw_CapacityUnits w"
proof (induction request i ws arbitrary: vs rule: tidy_windows.induct)
  case (2 request i w ws)
  then show ?case
    by (auto simp: Let_def window_guards_def and_then_Inr_iff split: option.splits if_splits)
qed simp

definition valid_request :: "PlanningRequest \<Rightarrow> bool" where
  "valid_request r \<longleftrightarrow> distinct (map tk_ID (pq_Tasks r)) \<and>
     (\<forall>t \<in> set (pq_Tasks r). valid_task t \<and> tk_ID t \<notin> set (tk_Dependencies t)) \<and>
     (\<forall>w \<in> set (pq_Availability r). cw_Start w < cw_End w \<and> 0 < cw_CapacityUnits w)"

lemma normalizeAndValidate_cases:
  assumes "normalizeAndValidate lib q = Inr r"
  obtains tasks windows where
    "request_checks lib (pq_AsOf q = 0) (tidy_request_fields lib q) = None"
    "tidy_tasks lib (tidy_request_fields lib q) 0 [] (pq_Tasks q) = Inr tasks"
    "first_failure self_dependency tasks = None"
    "tidy_windows (tidy_request_fields lib q) 0 (pq_Availability q) = Inr windows"
    "r = (tidy_request_fields lib q)\<lparr>pq_Tasks := sort_key tk_ID tasks, pq_Availability := sort_key window_key windows\<rparr>"
proof -
  have f: "pq_Tasks (tidy_request_fields lib q) = pq_Tasks q" "pq_Availability (tidy_request_fields lib q) = pq_Availability q"
    by (simp_all add: tidy_request_fields_def)
  show ?thesis
    using assms that unfolding normalizeAndValidate_def Let_def f
    by (auto simp: and_then_Inr_iff split: option.splits)
qed

lemma normalized_valid:
  assumes "normalizeAndValidate lib q = Inr r"
  shows "valid_request r"
proof -
  from assms obtain tasks windows where
    t: "tidy_tasks lib (tidy_request_fields lib q) 0 [] (pq_Tasks q) = Inr tasks" and
    s: "first_failure self_dependency tasks = None" and
    w: "tidy_windows (tidy_request_fields lib q) 0 (pq_Availability q) = Inr windows" and
    r: "r = (tidy_request_fields lib q)\<lparr>pq_Tasks := sort_key tk_ID tasks, pq_Availability := sort_key window_key windows\<rparr>"
    by (rule normalizeAndValidate_cases)
  have "\<forall>t \<in> set tasks. tk_ID t \<notin> set (tk_Dependencies t)"
    using s by (auto simp: first_failure_None_iff self_dependency_def split: if_splits)
  with tidy_tasks_props [OF t] tidy_windows_props [OF w] show ?thesis
    by (simp add: valid_request_def r distinct_map)
qed

section \<open>What a schedule has to keep\<close>

text \<open>A schedule says when a task starts, if it is placed at all.\<close>

definition planned_minutes :: "PlanningRequest \<Rightarrow> PlanTask \<Rightarrow> int" where
  "planned_minutes r task =
     (if pq_DurationMode r = ConservativeDuration then du_PessimisticMinutes (tk_Duration task)
      else du_ExpectedMinutes (tk_Duration task))"

definition planned_end :: "PlanningRequest \<Rightarrow> PlanTask \<Rightarrow> instant \<Rightarrow> instant" where
  "planned_end r task s = s + planned_minutes r task * nanos_per_minute"

definition keeps_times :: "PlanningRequest \<Rightarrow> (string \<Rightarrow> instant option) \<Rightarrow> bool" where
  "keeps_times r \<sigma> \<longleftrightarrow> (\<forall>task \<in> set (pq_Tasks r). \<forall>s. \<sigma> (tk_ID task) = Some s \<longrightarrow>
     pq_AsOf r \<le> s \<and> pq_HorizonStart r \<le> s \<and> (\<forall>e. tk_EarliestStart task = Some e \<longrightarrow> e \<le> s) \<and>
     planned_end r task s \<le> pq_HorizonEnd r \<and>
     (\<forall>d. tk_Deadline task = Some d \<and> tk_DeadlineKind task = HardDeadline \<longrightarrow> planned_end r task s \<le> d) \<and>
     (\<forall>x \<in> set (tk_Dependencies task). \<exists>dep \<in> set (pq_Tasks r). \<exists>u.
        tk_ID dep = x \<and> \<sigma> x = Some u \<and> planned_end r dep u \<le> s))"

definition required_units :: "PlanTask \<Rightarrow> string \<Rightarrow> int" where
  "required_units task x = (\<Sum>q\<leftarrow>filter (\<lambda>q. rr_ResourceID q = x) (tk_Resources task). rr_CapacityUnits q)"

text \<open>What the tasks that run at \<open>t\<close> take together of a resource.\<close>

definition task_load :: "PlanningRequest \<Rightarrow> (string \<Rightarrow> instant option) \<Rightarrow> string \<Rightarrow> instant \<Rightarrow> PlanTask \<Rightarrow> int" where
  "task_load r \<sigma> x t task =
     (case \<sigma> (tk_ID task) of None \<Rightarrow> 0
      | Some s \<Rightarrow> if s \<le> t \<and> t < planned_end r task s then required_units task x else 0)"

definition planned_load :: "PlanningRequest \<Rightarrow> (string \<Rightarrow> instant option) \<Rightarrow> string \<Rightarrow> instant \<Rightarrow> int" where
  "planned_load r \<sigma> x t = (\<Sum>task \<in> set (pq_Tasks r). task_load r \<sigma> x t task)"

definition keeps_capacity :: "PlanningRequest \<Rightarrow> (string \<Rightarrow> instant option) \<Rightarrow> bool" where
  "keeps_capacity r \<sigma> \<longleftrightarrow> (\<forall>x t. planned_load r \<sigma> x t \<noteq> 0 \<longrightarrow>
     (\<exists>w \<in> set (pq_Availability r). cw_ResourceID w = x \<and> cw_Start w \<le> t \<and> t < cw_End w \<and>
        planned_load r \<sigma> x t \<le> cw_CapacityUnits w))"

lemma wrap_int64_fits: "- (2 ^ 63) \<le> x \<Longrightarrow> x < 2 ^ 63 \<Longrightarrow> wrap_int64 x = x"
  by (simp add: wrap_int64_def)

lemma minutes_span_exact: "- maxMinutes \<le> m \<Longrightarrow> m \<le> maxMinutes \<Longrightarrow> minutes_span m = m * nanos_per_minute"
  unfolding minutes_span_def
  by (rule wrap_int64_fits) (simp_all add: maxMinutes_def nanos_per_minute_def nanos_per_second_def)

lemma planned_minutes_bounds:
  "valid_task task \<Longrightarrow> 0 < planned_minutes r task \<and> planned_minutes r task \<le> maxMinutes"
  by (simp add: valid_task_def valid_duration_def planned_minutes_def)

lemma planned_span:
  assumes "valid_task task"
  shows "minutes_span (planned_minutes r task) = planned_minutes r task * nanos_per_minute"
    "0 < minutes_span (planned_minutes r task)"
proof -
  note b = planned_minutes_bounds [OF assms, of r]
  then show e: "minutes_span (planned_minutes r task) = planned_minutes r task * nanos_per_minute"
    by (intro minutes_span_exact) simp_all
  show "0 < minutes_span (planned_minutes r task)"
    using b unfolding e by (simp add: nanos_per_minute_def nanos_per_second_def)
qed

lemma planned_end_span: "valid_task task \<Longrightarrow> planned_end r task s = s + minutes_span (planned_minutes r task)"
  by (simp add: planned_end_def planned_span)

lemma selectedDuration_fst: "fst (selectedDuration (tk_Duration task) (pq_DurationMode r)) = planned_minutes r task"
  by (simp add: selectedDuration_def planned_minutes_def)

section \<open>One more task\<close>

lemma planned_load_place:
  assumes "distinct (map tk_ID (pq_Tasks r))" "task \<in> set (pq_Tasks r)" "\<sigma> (tk_ID task) = None"
  shows "planned_load r (\<sigma>(tk_ID task \<mapsto> s)) x t =
    planned_load r \<sigma> x t + (if s \<le> t \<and> t < planned_end r task s then required_units task x else 0)"
proof -
  let ?T = "set (pq_Tasks r)"
  have "tk_ID u \<noteq> tk_ID task" if "u \<in> ?T - {task}" for u
    using assms(1,2) that by (auto simp: distinct_map inj_on_def)
  then have "(\<Sum>u \<in> ?T - {task}. task_load r (\<sigma>(tk_ID task \<mapsto> s)) x t u) = (\<Sum>u \<in> ?T - {task}. task_load r \<sigma> x t u)"
    by (intro sum.cong) (simp_all add: task_load_def)
  moreover have "task_load r \<sigma> x t task = 0" using assms(3) by (simp add: task_load_def)
  moreover have "task_load r (\<sigma>(tk_ID task \<mapsto> s)) x t task =
      (if s \<le> t \<and> t < planned_end r task s then required_units task x else 0)" by (simp add: task_load_def)
  moreover have split: "sum f ?T = f task + sum f (?T - {task})" for f :: "PlanTask \<Rightarrow> int"
    using assms(2) by (intro sum.remove) simp_all
  ultimately show ?thesis unfolding planned_load_def split by linarith
qed

lemma used_at_bookings_of:
  "used_at (bookings_of task s e) x t = (if s \<le> t \<and> t < e then required_units task x else 0)"
proof -
  have "(\<Sum>b\<leftarrow>filter (booking_at x t) (bookings_of task s e). bo_units b) =
      (\<Sum>q\<leftarrow>filter (\<lambda>q. rr_ResourceID q = x \<and> s \<le> t \<and> t < e) (tk_Resources task). rr_CapacityUnits q)"
    by (simp add: bookings_of_def filter_map comp_def booking_at_def)
  then show ?thesis by (auto simp: used_at_sum required_units_def)
qed

lemma units_of_one:
  "distinct (map rr_ResourceID qs) \<Longrightarrow>
     (\<Sum>q\<leftarrow>filter (\<lambda>q. rr_ResourceID q = x) qs. rr_CapacityUnits q) = 0 \<or>
     (\<exists>q \<in> set qs. rr_ResourceID q = x \<and>
        (\<Sum>q\<leftarrow>filter (\<lambda>q. rr_ResourceID q = x) qs. rr_CapacityUnits q) = rr_CapacityUnits q)"
proof (induction qs)
  case (Cons q qs)
  have "filter (\<lambda>q. rr_ResourceID q = x) qs = []" if "rr_ResourceID q = x"
  proof (rule filter_False)
    have "rr_ResourceID q \<notin> rr_ResourceID ` set qs" using Cons(2) by simp
    then show "\<forall>u \<in> set qs. rr_ResourceID u \<noteq> x" using that by (metis imageI)
  qed
  with Cons show ?case by (cases "rr_ResourceID q = x") auto
qed simp

lemma required_units_one:
  "valid_task task \<Longrightarrow> required_units task x = 0 \<or>
     (\<exists>q \<in> set (tk_Resources task). rr_ResourceID q = x \<and> required_units task x = rr_CapacityUnits q)"
  unfolding required_units_def by (rule units_of_one) (simp add: valid_task_def)

lemma room_for_units:
  assumes v: "valid_task task" and p: "roomy (tk_Resources task, windows, bookings) t"
    and c: "used_at bookings x t \<le> capacity_at windows x t"
  shows "used_at bookings x t + required_units task x \<le> capacity_at windows x t"
  using required_units_one [OF v, of x] p c by (auto simp: roomy_def room_def)

end
