(* ===== verification/PlannerRun.thy ===== *)
theory PlannerRun
  imports PlannerFacts
begin

text \<open>
  The loop over the tasks: \<open>sched_inv\<close> says that the entries placed so far keep every time and every
  capacity, \<open>left_inv\<close> accounts for every task that was looked at. Both hold at the start and are
  kept by every pass, so they hold of the decision.
\<close>

section \<open>The invariant of the schedule\<close>

definition starts :: "schedule \<Rightarrow> string \<Rightarrow> instant option" where
  "starts sch x = map_option sk_Start (map_of sch x)"

definition entry_of :: "PlanningRequest \<Rightarrow> PlanTask \<Rightarrow> ScheduledTask \<Rightarrow> bool" where
  "entry_of r task e \<longleftrightarrow> sk_TaskID e = tk_ID task \<and> sk_End e = planned_end r task (sk_Start e) \<and>
     sk_PlannedDurationMinutes e = planned_minutes r task \<and> sk_Allocations e = allocationsFor task \<and>
     sk_Dependencies e = tk_Dependencies task"

definition sched_inv :: "PlanningRequest \<Rightarrow> PlanState \<Rightarrow> bool" where
  "sched_inv r st \<longleftrightarrow>
     (\<forall>x e. map_of (ps_scheduled st) x = Some e \<longrightarrow> (\<exists>task \<in> set (pq_Tasks r). tk_ID task = x \<and> entry_of r task e)) \<and>
     keeps_times r (starts (ps_scheduled st)) \<and>
     (\<forall>x t. used_at (ps_bookings st) x t = planned_load r (starts (ps_scheduled st)) x t) \<and>
     (\<forall>x t. used_at (ps_bookings st) x t \<le> capacity_at (pq_Availability r) x t) \<and>
     (\<forall>b \<in> set (ps_bookings st). 0 \<le> bo_units b)"

text \<open>It looks only at what was placed and booked.\<close>

lemma sched_inv_same:
  "ps_scheduled st' = ps_scheduled st \<Longrightarrow> ps_bookings st' = ps_bookings st \<Longrightarrow> sched_inv r st' \<longleftrightarrow> sched_inv r st"
  by (simp only: sched_inv_def)

lemma dependency_end_Inr:
  "dependency_end tasks sch x e ds = Inr e' \<Longrightarrow>
     e \<le> e' \<and> (\<forall>d \<in> set ds. \<exists>entry. map_of sch d = Some entry \<and> sk_End entry \<le> e')"
proof (induction ds arbitrary: e)
  case (Cons d ds)
  from Cons(2) obtain entry where m: "map_of sch d = Some entry"
    and r: "dependency_end tasks sch x (if e < sk_End entry then sk_End entry else e) ds = Inr e'"
    by (auto split: if_splits option.splits)
  from Cons(1) [OF r] m show ?case by (auto split: if_splits)
qed simp

lemma dependency_end_Inl:
  "dependency_end tasks sch x e ds = Inl b \<Longrightarrow> bk_TaskID b = x \<and> bk_BlocksFeasibility b"
  by (induction ds arbitrary: e) (auto simp: blocker_def split: if_splits option.splits)

lemma starts_update: "starts (AList.update x e sch) = (starts sch)(x \<mapsto> sk_Start e)"
  by (auto simp: starts_def update_conv' fun_eq_iff)

lemma place_task_fields [simp]:
  "ps_scheduled (place_task policy task entry st) = AList.update (tk_ID task) entry (ps_scheduled st)"
  "ps_bookings (place_task policy task entry st) =
     ps_bookings st @ bookings_of task (sk_Start entry) (sk_End entry)"
  "ps_blocked (place_task policy task entry st) = ps_blocked st"
  "ps_blockers (place_task policy task entry st) = ps_blockers st"
  "ps_unscheduled (place_task policy task entry st) = ps_unscheduled st"
  by (simp_all add: place_task_def note_soft_miss_def Let_def)

lemma leave_out_fields [simp]:
  "ps_scheduled (leave_out x detail st) = ps_scheduled st"
  "ps_bookings (leave_out x detail st) = ps_bookings st"
  "ps_blocked (leave_out x detail st) = ps_blocked st"
  "ps_blockers (leave_out x detail st) = ps_blockers st"
  "ps_unscheduled (leave_out x detail st) = ps_unscheduled st @ [x]"
  by (simp_all add: leave_out_def)

lemma block_task_fields [simp]:
  "ps_scheduled (block_task x b st) = ps_scheduled st"
  "ps_bookings (block_task x b st) = ps_bookings st"
  "ps_blocked (block_task x b st) = x # ps_blocked st"
  "ps_blockers (block_task x b st) = ps_blockers st @ [b]"
  "ps_unscheduled (block_task x b st) = ps_unscheduled st @ [x]"
  by (simp_all add: block_task_def)

lemma sched_inv_left [simp]:
  "sched_inv r (leave_out x detail st) \<longleftrightarrow> sched_inv r st"
  "sched_inv r (block_task x b st) \<longleftrightarrow> sched_inv r st"
  by (rule sched_inv_same; simp)+

lemma schedule_entry_fields [simp]:
  "sk_TaskID (schedule_entry task s m basis e) = tk_ID task"
  "sk_Start (schedule_entry task s m basis e) = s"
  "sk_End (schedule_entry task s m basis e) = s + minutes_span m"
  "sk_PlannedDurationMinutes (schedule_entry task s m basis e) = m"
  "sk_Allocations (schedule_entry task s m basis e) = allocationsFor task"
  "sk_Dependencies (schedule_entry task s m basis e) = tk_Dependencies task"
  by (simp_all add: schedule_entry_def Let_def)

text \<open>The earliest start is after everything that has to precede the task.\<close>

lemma earliest_start_le:
  assumes "earliest_start task p e \<le> s"
  shows "p \<le> s" "e \<le> s" "\<And>t. tk_EarliestStart task = Some t \<Longrightarrow> t \<le> s"
  using assms by (auto simp: earliest_start_def later_of_def split: option.splits if_splits)

lemma latest_end_le:
  assumes "e \<le> latest_end task h"
  shows "e \<le> h" "\<And>d. tk_Deadline task = Some d \<Longrightarrow> tk_DeadlineKind task = HardDeadline \<Longrightarrow> e \<le> d"
  using assms by (auto simp: latest_end_def split: option.splits if_splits)

lemma planning_start_le:
  assumes "planning_start r \<le> s"
  shows "pq_AsOf r \<le> s" "pq_HorizonStart r \<le> s"
  using assms by (auto simp: planning_start_def later_of_def split: if_splits)

lemma keeps_times_place:
  assumes "valid_request r" "keeps_times r \<sigma>" "task \<in> set (pq_Tasks r)" "\<sigma> (tk_ID task) = None"
    "planning_start r \<le> s" "\<And>t. tk_EarliestStart task = Some t \<Longrightarrow> t \<le> s"
    "planned_end r task s \<le> latest_end task (pq_HorizonEnd r)"
    "\<And>x. x \<in> set (tk_Dependencies task) \<Longrightarrow>
       \<exists>dep \<in> set (pq_Tasks r). \<exists>u. tk_ID dep = x \<and> \<sigma> x = Some u \<and> planned_end r dep u \<le> s"
  shows "keeps_times r (\<sigma>(tk_ID task \<mapsto> s))"
  unfolding keeps_times_def
proof (intro ballI allI impI)
  fix v u assume v: "v \<in> set (pq_Tasks r)" and u: "(\<sigma>(tk_ID task \<mapsto> s)) (tk_ID v) = Some u"
  let ?deps = "\<lambda>\<sigma>. \<forall>x \<in> set (tk_Dependencies v). \<exists>dep \<in> set (pq_Tasks r). \<exists>w. tk_ID dep = x \<and> \<sigma> x = Some w \<and>
        planned_end r dep w \<le> u"
  let ?own = "pq_AsOf r \<le> u \<and> pq_HorizonStart r \<le> u \<and> (\<forall>e. tk_EarliestStart v = Some e \<longrightarrow> e \<le> u) \<and>
      planned_end r v u \<le> pq_HorizonEnd r \<and>
      (\<forall>d. tk_Deadline v = Some d \<and> tk_DeadlineKind v = HardDeadline \<longrightarrow> planned_end r v u \<le> d)"
  have "?own \<and> ?deps \<sigma>"
  proof (cases "tk_ID v = tk_ID task")
    case True
    then have "v = task" using assms(1,3) v by (auto simp: valid_request_def distinct_map inj_on_def)
    moreover have "u = s" using u True by simp
    ultimately show ?thesis
      using planning_start_le [OF assms(5)] assms(6) latest_end_le [OF assms(7)] assms(8) by blast
  next
    case False
    then have "\<sigma> (tk_ID v) = Some u" using u by simp
    with assms(2) v show ?thesis unfolding keeps_times_def by blast
  qed
  moreover have "?deps (\<sigma>(tk_ID task \<mapsto> s))" if "?deps \<sigma>"
    using that assms(4) by (metis fun_upd_other option.distinct(1))
  ultimately show "pq_AsOf r \<le> u \<and> pq_HorizonStart r \<le> u \<and> (\<forall>e. tk_EarliestStart v = Some e \<longrightarrow> e \<le> u) \<and>
      planned_end r v u \<le> pq_HorizonEnd r \<and>
      (\<forall>d. tk_Deadline v = Some d \<and> tk_DeadlineKind v = HardDeadline \<longrightarrow> planned_end r v u \<le> d) \<and>
      ?deps (\<sigma>(tk_ID task \<mapsto> s))" by blast
qed

lemma sched_inv_place:
  assumes i: "sched_inv r st" and v: "valid_request r" and m: "task \<in> set (pq_Tasks r)"
    and n: "map_of (ps_scheduled st) (tk_ID task) = None"
    and d: "dependencyReadiness task (ps_scheduled st) (task_map (pq_Tasks r)) (planning_start r) = Inr e"
    and f: "findSlot task (earliest_start task (planning_start r) e) (latest_end task (pq_HorizonEnd r))
              (planned_minutes r task) (pq_Availability r) (ps_bookings st) = Inr s"
  shows "sched_inv r (place_task policy task (schedule_entry task s (planned_minutes r task) basis e) st)"
proof -
  let ?st = "place_task policy task (schedule_entry task s (planned_minutes r task) basis e) st"
  let ?\<sigma> = "starts (ps_scheduled st)"
  have vt: "valid_task task" using v m by (simp add: valid_request_def)
  have entries: "\<exists>u \<in> set (pq_Tasks r). tk_ID u = x \<and> entry_of r u en"
    if "map_of (ps_scheduled st) x = Some en" for x en using i that by (simp add: sched_inv_def)
  have sig: "starts (ps_scheduled ?st) = ?\<sigma>(tk_ID task \<mapsto> s)" by (simp add: starts_update)
  have fresh: "?\<sigma> (tk_ID task) = None" using n by (simp add: starts_def)
  have "\<forall>b \<in> set (ps_bookings st). 0 \<le> bo_units b" using i by (simp add: sched_inv_def)
  from findSlot_spec [OF planned_span(2) [OF vt] this, of task "earliest_start task (planning_start r) e"
      "latest_end task (pq_HorizonEnd r)" r "pq_Availability r"] f
  have slot: "possible_slot task (earliest_start task (planning_start r) e) (latest_end task (pq_HorizonEnd r))
      (planned_minutes r task) (pq_Availability r) (ps_bookings st) s" by simp
  then have e1: "earliest_start task (planning_start r) e \<le> s"
    and e2: "planned_end r task s \<le> latest_end task (pq_HorizonEnd r)"
    and free: "\<And>t. s \<le> t \<Longrightarrow> t < planned_end r task s \<Longrightarrow> roomy (tk_Resources task, pq_Availability r, ps_bookings st) t"
    by (simp_all add: possible_slot_def planned_end_span [OF vt])
  have deps: "\<exists>dep \<in> set (pq_Tasks r). \<exists>u. tk_ID dep = x \<and> ?\<sigma> x = Some u \<and> planned_end r dep u \<le> s"
    if "x \<in> set (tk_Dependencies task)" for x
  proof -
    from dependency_end_Inr [OF d [unfolded dependencyReadiness_def]] that
    obtain en where en: "map_of (ps_scheduled st) x = Some en" "sk_End en \<le> e" by blast
    from entries [OF en(1)] obtain dep where "dep \<in> set (pq_Tasks r)" "tk_ID dep = x" "entry_of r dep en" by blast
    with en earliest_start_le(2) [OF e1] show ?thesis by (auto simp: starts_def entry_of_def)
  qed
  have times: "keeps_times r (starts (ps_scheduled ?st))"
    unfolding sig
  proof (rule keeps_times_place [where task = task])
    show "keeps_times r ?\<sigma>" using i by (simp add: sched_inv_def)
  qed (fact v m fresh e2 deps earliest_start_le(1,3) [OF e1])+
  have "distinct (map tk_ID (pq_Tasks r))" using v by (simp add: valid_request_def)
  note load = planned_load_place [where \<sigma> = "?\<sigma>", OF this m fresh]
  have used: "used_at (ps_bookings ?st) x t = used_at (ps_bookings st) x t +
      (if s \<le> t \<and> t < planned_end r task s then required_units task x else 0)" for x t
    by (simp add: used_at_append used_at_bookings_of planned_end_span [OF vt])
  have u1: "used_at (ps_bookings ?st) x t = planned_load r (starts (ps_scheduled ?st)) x t" for x t
    unfolding used sig load using i by (simp add: sched_inv_def)
  have bound: "used_at (ps_bookings st) x t \<le> capacity_at (pq_Availability r) x t" for x t
    using i unfolding sched_inv_def by blast
  have u2: "used_at (ps_bookings ?st) x t \<le> capacity_at (pq_Availability r) x t" for x t
    using room_for_units [OF vt free bound] bound unfolding used by simp
  have own: "entry_of r task (schedule_entry task s (planned_minutes r task) basis e)"
    by (simp add: entry_of_def planned_end_span [OF vt])
  have ent: "\<exists>u \<in> set (pq_Tasks r). tk_ID u = x \<and> entry_of r u en" if "map_of (ps_scheduled ?st) x = Some en" for x en
    using that entries [of x en] own m by (auto simp: update_conv' split: if_splits)
  have pos: "\<forall>b \<in> set (ps_bookings ?st). 0 \<le> bo_units b"
  proof -
    have "\<forall>b \<in> set (bookings_of task s t). 0 \<le> bo_units b" for t
      using vt by (auto simp: bookings_of_def valid_task_def order_less_imp_le)
    then show ?thesis using i by (auto simp: sched_inv_def)
  qed
  show ?thesis unfolding sched_inv_def using ent times u1 u2 pos by blast
qed

text \<open>What one pass does with a task that was not placed before.\<close>

lemma plan_task_cases:
  assumes "valid_request r" "task \<in> set (pq_Tasks r)"
  shows "(tk_ID task \<in> set (ps_blocked st) \<and>
       plan_task r p task st = leave_out (tk_ID task) ''dependency graph validation blocked scheduling'' st) \<or>
    (\<exists>b. bk_TaskID b = tk_ID task \<and> bk_BlocksFeasibility b \<and> plan_task r p task st = block_task (tk_ID task) b st) \<or>
    (tk_ID task \<notin> set (ps_blocked st) \<and> (\<exists>e s policy basis.
       dependencyReadiness task (ps_scheduled st) (task_map (pq_Tasks r)) p = Inr e \<and>
       findSlot task (earliest_start task p e) (latest_end task (pq_HorizonEnd r)) (planned_minutes r task)
         (pq_Availability r) (ps_bookings st) = Inr s \<and>
       plan_task r p task st = place_task policy task (schedule_entry task s (planned_minutes r task) basis e) st))"
    (is "?left \<or> ?blocked \<or> ?placed")
proof (cases "tk_ID task \<in> set (ps_blocked st)")
  case True
  then show ?thesis by (simp add: plan_task_def)
next
  case free: False
  show ?thesis
  proof (cases "dependencyReadiness task (ps_scheduled st) (task_map (pq_Tasks r)) p")
    case (Inl b)
    then have "bk_TaskID b = tk_ID task \<and> bk_BlocksFeasibility b"
      unfolding dependencyReadiness_def by (rule dependency_end_Inl)
    moreover have "plan_task r p task st = block_task (tk_ID task) b st" using free Inl by (simp add: plan_task_def)
    ultimately show ?thesis by blast
  next
    case (Inr e)
    let ?d = "selectedDuration (tk_Duration task) (pq_DurationMode r)"
    let ?early = "earliest_start task p e" and ?late = "latest_end task (pq_HorizonEnd r)"
    obtain basis where sel: "?d = (planned_minutes r task, basis)"
      using selectedDuration_fst [of task r] by (metis prod.collapse)
    have fit: "plan_task r p task st = fit_task r p task e st" using free Inr by (simp add: plan_task_def)
    show ?thesis
    proof (cases "?late < ?early + minutes_span (planned_minutes r task)")
      case True
      then have "fit_task r p task e st = block_task (tk_ID task) (blocker ''deadline_dependency_conflict'' (tk_ID task) ''''
           ''dependency completion or earliest start leaves insufficient time before the hard limit'') st"
        by (simp add: fit_task_def Let_def sel)
      moreover have "bk_TaskID (blocker c x y z) = x \<and> bk_BlocksFeasibility (blocker c x y z)" for c x y z
        by (simp add: blocker_def)
      ultimately show ?thesis unfolding fit by blast
    next
      case False
      show ?thesis
      proof (cases "findSlot task ?early ?late (planned_minutes r task) (pq_Availability r) (ps_bookings st)")
        case (Inl reason)
        then have "fit_task r p task e st = block_task (tk_ID task)
            (conflict_blocker reason task (planned_minutes r task) (pq_Availability r)) st"
          using False by (simp add: fit_task_def Let_def sel)
        moreover have "bk_TaskID (conflict_blocker reason task n w) = tk_ID task \<and>
            bk_BlocksFeasibility (conflict_blocker reason task n w)" for n w
          by (simp add: conflict_blocker_def blocker_def)
        ultimately show ?thesis unfolding fit by blast
      next
        case found: (Inr s)
        then have "fit_task r p task e st = place_task (pq_ApprovalPolicy r) task
            (schedule_entry task s (planned_minutes r task) basis e) st"
          using False by (simp add: fit_task_def Let_def sel)
        with found Inr free show ?thesis unfolding fit by blast
      qed
    qed
  qed
qed

section \<open>Who is left out\<close>

text \<open>\<open>B\<close> are the blockers of the graph and the budget, which are reported before the loop.\<close>

definition left_inv :: "PlanningRequest \<Rightarrow> Blocker list \<Rightarrow> string list \<Rightarrow> PlanState \<Rightarrow> bool" where
  "left_inv r B seen st \<longleftrightarrow>
     dom (map_of (ps_scheduled st)) \<union> set (ps_unscheduled st) = set seen \<and>
     dom (map_of (ps_scheduled st)) \<inter> set (ps_blocked st) = {} \<and>
     set (ps_unscheduled st) \<subseteq> set (ps_blocked st) \<and> distinct (ps_unscheduled st) \<and>
     set B \<subseteq> set (ps_blockers st) \<and>
     (\<forall>x \<in> set (ps_blocked st). \<exists>b \<in> set (ps_blockers st). bk_TaskID b = x) \<and>
     (\<forall>b \<in> set (ps_blockers st). bk_BlocksFeasibility b \<and>
        (if bk_TaskID b = '''' then b \<in> set B else bk_TaskID b \<in> set (ps_blocked st) \<inter> task_ids (pq_Tasks r)))"

lemma left_inv_leave_out:
  assumes "left_inv r B seen st" "x \<notin> set seen" "x \<in> set (ps_blocked st)"
  shows "left_inv r B (seen @ [x]) (leave_out x detail st)"
  using assms unfolding left_inv_def by auto

lemma left_inv_block_task:
  assumes i: "left_inv r B seen st" and x: "x \<notin> set seen" "x \<in> task_ids (pq_Tasks r)" "x \<noteq> ''''"
    and b: "bk_TaskID b = x" "bk_BlocksFeasibility b"
  shows "left_inv r B (seen @ [x]) (block_task x b st)"
  using i x b unfolding left_inv_def block_task_fields by auto

lemma left_inv_place_task:
  assumes i: "left_inv r B seen st" and x: "tk_ID task \<notin> set seen" "tk_ID task \<notin> set (ps_blocked st)"
  shows "left_inv r B (seen @ [tk_ID task]) (place_task policy task entry st)"
proof -
  have "dom (map_of (AList.update (tk_ID task) entry (ps_scheduled st))) = insert (tk_ID task) (dom (map_of (ps_scheduled st)))"
    by (simp add: update_conv')
  with i x show ?thesis unfolding left_inv_def place_task_fields by auto
qed

lemma plan_tasks_inv:
  assumes v: "valid_request r"
  shows "distinct (seen @ order) \<Longrightarrow> set order \<subseteq> task_ids (pq_Tasks r) \<Longrightarrow> sched_inv r st \<Longrightarrow> left_inv r B seen st \<Longrightarrow>
    sched_inv r (plan_tasks r (planning_start r) order st) \<and>
    left_inv r B (seen @ order) (plan_tasks r (planning_start r) order st)"
proof (induction order arbitrary: seen st)
  case Nil
  then show ?case by (simp add: plan_tasks_def)
next
  case (Cons x order)
  from Cons.prems(2) obtain task where m: "task \<in> set (pq_Tasks r)" and x: "x = tk_ID task"
    by (auto simp: task_ids_def)
  have tm: "task_map (pq_Tasks r) x = Some task"
    using v m x by (simp add: task_map_Some_iff valid_request_def)
  let ?st = "plan_task r (planning_start r) task st"
  have fold: "plan_tasks r (planning_start r) (x # order) st = plan_tasks r (planning_start r) order ?st"
    by (simp add: plan_tasks_def tm)
  have new: "x \<notin> set seen" using Cons.prems(1) by simp
  have "x \<noteq> ''''" using v m x by (simp add: valid_request_def valid_task_def)
  have known: "x \<in> task_ids (pq_Tasks r)" using m x by (simp add: task_ids_def)
  have unplaced: "map_of (ps_scheduled st) (tk_ID task) = None"
    using Cons.prems(4) new x by (auto simp: left_inv_def)
  have "sched_inv r ?st \<and> left_inv r B (seen @ [x]) ?st"
    using plan_task_cases [OF v m, of st "planning_start r"]
  proof (elim disjE exE conjE)
    assume "tk_ID task \<in> set (ps_blocked st)"
      "?st = leave_out (tk_ID task) ''dependency graph validation blocked scheduling'' st"
    then show ?thesis
      using left_inv_leave_out [OF Cons.prems(4) new] Cons.prems(3) by (simp add: x)
  next
    fix b assume "bk_TaskID b = tk_ID task" "bk_BlocksFeasibility b" "?st = block_task (tk_ID task) b st"
    then show ?thesis
      using left_inv_block_task [OF Cons.prems(4) new known \<open>x \<noteq> ''''\<close>, of b] Cons.prems(3) by (simp add: x)
  next
    fix e s policy basis
    assume "tk_ID task \<notin> set (ps_blocked st)"
      and d: "dependencyReadiness task (ps_scheduled st) (task_map (pq_Tasks r)) (planning_start r) = Inr e"
      and f: "findSlot task (earliest_start task (planning_start r) e) (latest_end task (pq_HorizonEnd r))
           (planned_minutes r task) (pq_Availability r) (ps_bookings st) = Inr s"
      and "?st = place_task policy task (schedule_entry task s (planned_minutes r task) basis e) st"
    then show ?thesis
      using sched_inv_place [OF Cons.prems(3) v m unplaced d f] left_inv_place_task [OF Cons.prems(4) new [unfolded x]]
      by (simp add: x)
  qed
  with Cons.IH [of "seen @ [x]" ?st] Cons.prems(1,2) show ?case unfolding fold by simp
qed

lemma sched_inv_start:
  "ps_scheduled st = [] \<Longrightarrow> ps_bookings st = [] \<Longrightarrow> sched_inv r st"
  by (simp add: sched_inv_def keeps_times_def starts_def used_at_sum planned_load_def task_load_def capacity_at_Max)

definition first_blockers :: "PlanningRequest \<Rightarrow> UsageEstimate \<Rightarrow> Blocker list" where
  "first_blockers r usage =
     snd (dependencyOrder (pq_Tasks r)) @ budgetBlockers (assessBudget usage (pq_Budget r))"

lemma start_state_fields:
  "ps_scheduled (start_state r usage) = []" "ps_bookings (start_state r usage) = []"
  "ps_unscheduled (start_state r usage) = []" "ps_blockers (start_state r usage) = first_blockers r usage"
  "ps_blocked (start_state r usage) = blockerTaskSet (first_blockers r usage)"
  by (simp_all add: start_state_def first_blockers_def Let_def split: prod.split)

lemma budgetBlockers_props: "b \<in> set (budgetBlockers a) \<Longrightarrow> bk_BlocksFeasibility b \<and> bk_TaskID b = ''''"
  by (auto simp: budgetBlockers_def blocker_def)

lemma graph_blockers_props:
  assumes "distinct (map tk_ID ts)" "b \<in> set (snd (dependencyOrder ts))"
  shows "bk_BlocksFeasibility b \<and> bk_TaskID b \<in> task_ids ts"
proof -
  from dependencyOrder_spec [OF assms(1)] obtain order where
    "snd (dependencyOrder ts) = sortBlockers (missing_blockers ts @ cycle_blockers ts order)" by auto
  with assms(2) show ?thesis
    by (auto simp: sortBlockers_def missing_blockers_def cycle_blockers_def blocker_def task_ids_def)
qed

lemma left_inv_start:
  assumes v: "valid_request r"
  shows "left_inv r (first_blockers r usage) [] (start_state r usage)"
proof -
  have d: "distinct (map tk_ID (pq_Tasks r))" using v by (simp add: valid_request_def)
  have ids: "x \<noteq> ''''" if "x \<in> task_ids (pq_Tasks r)" for x
    using v that by (auto simp: task_ids_def valid_request_def valid_task_def)
  have b: "bk_BlocksFeasibility b \<and> (bk_TaskID b = '''' \<or> bk_TaskID b \<in> task_ids (pq_Tasks r))"
    if "b \<in> set (first_blockers r usage)" for b
    using that graph_blockers_props [OF d, of b] budgetBlockers_props [of b] by (auto simp: first_blockers_def)
  show ?thesis
    unfolding left_inv_def start_state_fields blockerTaskSet_def using b by auto
qed

text \<open>What the loop leaves: the two invariants, over the order of the tasks.\<close>

lemma planned_state_inv:
  assumes v: "valid_request r"
  shows "sched_inv r (planned_state r usage)"
    "left_inv r (first_blockers r usage) (fst (dependencyOrder (pq_Tasks r))) (planned_state r usage)"
proof -
  have "distinct (map tk_ID (pq_Tasks r))" using v by (simp add: valid_request_def)
  from dependencyOrder_spec [OF this]
  have "distinct ([] @ fst (dependencyOrder (pq_Tasks r)))" "set (fst (dependencyOrder (pq_Tasks r))) \<subseteq> task_ids (pq_Tasks r)"
    by auto
  from plan_tasks_inv [OF v this sched_inv_start left_inv_start [OF v]]
  show "sched_inv r (planned_state r usage)"
    "left_inv r (first_blockers r usage) (fst (dependencyOrder (pq_Tasks r))) (planned_state r usage)"
    by (simp_all add: planned_state_def start_state_fields)
qed

section \<open>The decision\<close>

definition decision_starts :: "PlanningDecision \<Rightarrow> string \<Rightarrow> instant option" where
  "decision_starts d = map_of (map (\<lambda>e. (sk_TaskID e, sk_Start e)) (pld_Scheduled d))"

lemma Plan_request_cases:
  assumes "Plan_request lib q = Inr d"
  obtains r usage inputDigest digest where "normalizeAndValidate lib q = Inr r" "aggregateUsage (pq_Tasks r) = Inr usage"
    "pll_request_digest lib (r\<lparr>pq_OwnerIdentity := ''''\<rparr>) = Some inputDigest"
    "d = (conclude_plan r usage inputDigest (planned_state r usage))\<lparr>pld_DecisionDigest := digest\<rparr>"
  using assms by (auto simp: Plan_request_def and_then_Inr_iff Let_def split: option.splits)

lemma with_slack_fields [simp]:
  "sk_TaskID (with_slack f e) = sk_TaskID e" "sk_Start (with_slack f e) = sk_Start e" "sk_End (with_slack f e) = sk_End e"
  "entry_of r task (with_slack f e) = entry_of r task e"
  by (simp_all add: with_slack_def entry_of_def Let_def)

lemma map_filter_starts:
  assumes "\<And>x e. m x = Some e \<Longrightarrow> sk_TaskID e = x"
  shows "map_of (map (\<lambda>e. (sk_TaskID e, sk_Start e)) (map (with_slack f) (List.map_filter m order))) x =
    (if x \<in> set order then map_option sk_Start (m x) else None)"
  using assms by (induction order) (auto simp: map_filter_simps split: option.splits)

lemma map_filter_ids:
  assumes "\<And>x e. m x = Some e \<Longrightarrow> sk_TaskID e = x"
  shows "map sk_TaskID (map (with_slack f) (List.map_filter m order)) = filter (\<lambda>x. m x \<noteq> None) order"
  using assms by (induction order) (auto simp: map_filter_simps split: option.splits)

lemma entry_ids:
  assumes "sched_inv r st" "map_of (ps_scheduled st) x = Some e"
  shows "sk_TaskID e = x"
  using assms by (auto simp: sched_inv_def entry_of_def)

text \<open>The schedule after \<open>computeSlack\<close>, by its identifiers and starts.\<close>

lemma slack_starts:
  assumes "sched_inv r st"
  shows "map_of (map (\<lambda>e. (sk_TaskID e, sk_Start e)) (computeSlack order ts (ps_scheduled st) h)) x =
    (if x \<in> set order then starts (ps_scheduled st) x else None)"
  unfolding computeSlack_def Let_def starts_def by (rule map_filter_starts) (erule entry_ids [OF assms])

lemma slack_ids:
  assumes "sched_inv r st"
  shows "map sk_TaskID (computeSlack order ts (ps_scheduled st) h) =
    filter (\<lambda>x. map_of (ps_scheduled st) x \<noteq> None) order"
  unfolding computeSlack_def Let_def by (rule map_filter_ids) (erule entry_ids [OF assms])

lemma conclude_fields:
  "pld_Scheduled (conclude_plan r usage i st) = computeSlack (fst (dependencyOrder (pq_Tasks r))) (pq_Tasks r) (ps_scheduled st)
     (pq_HorizonEnd r)"
  "pld_UnscheduledTaskIDs (conclude_plan r usage i st) = unscheduled_ids (pq_Tasks r) st"
  "pld_CriticalBlockers (conclude_plan r usage i st) = sortBlockers (ps_blockers st)"
  "pld_Budget (conclude_plan r usage i st) = assessBudget usage (pq_Budget r)"
  "pld_Feasibility (conclude_plan r usage i st) =
     determineFeasibility (sortBlockers (ps_blockers st)) (sortApprovalFlags (ps_flags st))"
  "pld_ApprovalFlags (conclude_plan r usage i st) = sortApprovalFlags (ps_flags st)"
  by (simp_all add: conclude_plan_def Let_def)

lemma conclude_starts:
  assumes "valid_request r"
  shows "decision_starts (conclude_plan r usage i (planned_state r usage)) = starts (ps_scheduled (planned_state r usage))"
proof
  fix x
  let ?st = "planned_state r usage" and ?order = "fst (dependencyOrder (pq_Tasks r))"
  note inv = planned_state_inv [OF assms, of usage]
  have "map_of (ps_scheduled ?st) x = None" if "x \<notin> set ?order"
    using inv(2) that by (auto simp: left_inv_def)
  then show "decision_starts (conclude_plan r usage i ?st) x = starts (ps_scheduled ?st) x"
    unfolding decision_starts_def conclude_fields slack_starts [OF inv(1)] by (simp add: starts_def)
qed

lemma unscheduled_fold:
  "set (fold (\<lambda>task ids. if P (tk_ID task) \<or> tk_ID task \<in> set ids then ids else ids @ [tk_ID task]) ts ids) =
     set ids \<union> {x \<in> task_ids ts. \<not> P x}"
  "distinct ids \<Longrightarrow> distinct (fold (\<lambda>task ids. if P (tk_ID task) \<or> tk_ID task \<in> set ids then ids else ids @ [tk_ID task]) ts ids)"
  by (induction ts arbitrary: ids) (auto simp: task_ids_def)

text \<open>Every task is scheduled once or left out once.\<close>

lemma conclude_partition:
  assumes v: "valid_request r"
  shows "distinct (map sk_TaskID (pld_Scheduled (conclude_plan r usage i (planned_state r usage))))"
    "distinct (pld_UnscheduledTaskIDs (conclude_plan r usage i (planned_state r usage)))"
    "sk_TaskID ` set (pld_Scheduled (conclude_plan r usage i (planned_state r usage))) = dom (map_of (ps_scheduled (planned_state r usage)))"
    "set (pld_UnscheduledTaskIDs (conclude_plan r usage i (planned_state r usage))) =
       task_ids (pq_Tasks r) - dom (map_of (ps_scheduled (planned_state r usage)))"
proof -
  let ?st = "planned_state r usage" and ?order = "fst (dependencyOrder (pq_Tasks r))"
  note inv = planned_state_inv [OF v, of usage]
  have "distinct (map tk_ID (pq_Tasks r))" using v by (simp add: valid_request_def)
  from dependencyOrder_spec [OF this] have o: "distinct ?order" "set ?order \<subseteq> task_ids (pq_Tasks r)" by auto
  have "map sk_TaskID (pld_Scheduled (conclude_plan r usage i ?st)) = filter (\<lambda>x. map_of (ps_scheduled ?st) x \<noteq> None) ?order"
    unfolding conclude_fields by (rule slack_ids [OF inv(1)])
  note ids = this
  show "distinct (map sk_TaskID (pld_Scheduled (conclude_plan r usage i ?st)))"
    unfolding ids using o(1) by simp
  have dom: "dom (map_of (ps_scheduled ?st)) \<subseteq> set ?order" using inv(2) by (auto simp: left_inv_def)
  have "set (map sk_TaskID (pld_Scheduled (conclude_plan r usage i ?st))) = dom (map_of (ps_scheduled ?st))"
    unfolding ids using dom by auto
  then show "sk_TaskID ` set (pld_Scheduled (conclude_plan r usage i ?st)) = dom (map_of (ps_scheduled ?st))" by simp
  have un: "distinct (ps_unscheduled ?st)" "set (ps_unscheduled ?st) \<subseteq> task_ids (pq_Tasks r)"
    "set (ps_unscheduled ?st) \<inter> dom (map_of (ps_scheduled ?st)) = {}"
    using inv(2) o(2) unfolding left_inv_def by auto
  show "distinct (pld_UnscheduledTaskIDs (conclude_plan r usage i ?st))"
    unfolding conclude_fields unscheduled_ids_def using unscheduled_fold(2) [where P = "\<lambda>x. map_of (ps_scheduled ?st) x \<noteq> None", OF un(1)] by simp
  show "set (pld_UnscheduledTaskIDs (conclude_plan r usage i ?st)) = task_ids (pq_Tasks r) - dom (map_of (ps_scheduled ?st))"
    unfolding conclude_fields unscheduled_ids_def set_sort unscheduled_fold(1) [where P = "\<lambda>x. map_of (ps_scheduled ?st) x \<noteq> None"] using un(2,3) by auto
qed

lemma conclude_entries:
  assumes v: "valid_request r" and e: "e \<in> set (pld_Scheduled (conclude_plan r usage i (planned_state r usage)))"
  shows "\<exists>task \<in> set (pq_Tasks r). entry_of r task e"
proof -
  let ?st = "planned_state r usage"
  from e obtain x e' f where "map_of (ps_scheduled ?st) x = Some e'" "e = with_slack f e'"
    by (auto simp: conclude_fields computeSlack_def Let_def List.map_filter_def)
  then show ?thesis
    using planned_state_inv(1) [OF v, of usage] unfolding sched_inv_def with_slack_fields by (metis with_slack_fields(4))
qed

lemma over_budget:
  "budgetBlockers a = [] \<longleftrightarrow> bas_WithinCostLimit a \<and> bas_WithinInputTokenLimit a \<and> bas_WithinOutputTokenLimit a \<and>
     bas_WithinToolCallLimit a"
  by (simp add: budgetBlockers_def)

lemma conclude_blockers:
  assumes v: "valid_request r"
  shows "ps_blockers (planned_state r usage) = [] \<longleftrightarrow>
      task_ids (pq_Tasks r) \<subseteq> dom (map_of (ps_scheduled (planned_state r usage))) \<and>
      budgetBlockers (assessBudget usage (pq_Budget r)) = []"
    "\<forall>b \<in> set (ps_blockers (planned_state r usage)). bk_BlocksFeasibility b"
proof -
  let ?st = "planned_state r usage" and ?order = "fst (dependencyOrder (pq_Tasks r))"
  note inv = planned_state_inv [OF v, of usage]
  have "distinct (map tk_ID (pq_Tasks r))" using v by (simp add: valid_request_def)
  from dependencyOrder_spec [OF this]
  have gb: "snd (dependencyOrder (pq_Tasks r)) = sortBlockers (missing_blockers (pq_Tasks r) @ cycle_blockers (pq_Tasks r) ?order)"
    by auto
  show "\<forall>b \<in> set (ps_blockers ?st). bk_BlocksFeasibility b" using inv(2) unfolding left_inv_def by blast
  have first: "set (first_blockers r usage) \<subseteq> set (ps_blockers ?st)" using inv(2) unfolding left_inv_def by blast
  have un: "ps_unscheduled ?st = []" "dom (map_of (ps_scheduled ?st)) = set ?order" if "ps_blockers ?st = []"
    using inv(2) that unfolding left_inv_def by auto
  have left: "bk_TaskID b \<in> task_ids (pq_Tasks r) - dom (map_of (ps_scheduled ?st))"
    if "b \<in> set (ps_blockers ?st)" "bk_TaskID b \<noteq> ''''" for b
  proof -
    have "bk_TaskID b \<in> set (ps_blocked ?st) \<inter> task_ids (pq_Tasks r)"
      using inv(2) that unfolding left_inv_def by metis
    moreover have "dom (map_of (ps_scheduled ?st)) \<inter> set (ps_blocked ?st) = {}" using inv(2) unfolding left_inv_def by blast
    ultimately show ?thesis by blast
  qed
  have bud: "b \<in> set (budgetBlockers (assessBudget usage (pq_Budget r)))"
    if "b \<in> set (ps_blockers ?st)" "bk_TaskID b = ''''" for b
  proof -
    have "b \<in> set (first_blockers r usage)" using inv(2) that unfolding left_inv_def by auto
    moreover have "b \<notin> set (snd (dependencyOrder (pq_Tasks r)))"
      using graph_blockers_props [of "pq_Tasks r" b] that(2) v
      by (force simp: valid_request_def valid_task_def task_ids_def)
    ultimately show ?thesis by (simp add: first_blockers_def)
  qed
  show "ps_blockers ?st = [] \<longleftrightarrow> task_ids (pq_Tasks r) \<subseteq> dom (map_of (ps_scheduled ?st)) \<and>
      budgetBlockers (assessBudget usage (pq_Budget r)) = []"
  proof
    assume none: "ps_blockers ?st = []"
    with first have "first_blockers r usage = []" by simp
    then have "cycle_blockers (pq_Tasks r) ?order = []" and b: "budgetBlockers (assessBudget usage (pq_Budget r)) = []"
      using gb by (auto simp: first_blockers_def sortBlockers_def dest: arg_cong [where f = length])
    then have "task_ids (pq_Tasks r) \<subseteq> set ?order"
      by (auto simp: cycle_blockers_def filter_empty_conv task_ids_def)
    with un [OF none] b show "task_ids (pq_Tasks r) \<subseteq> dom (map_of (ps_scheduled ?st)) \<and>
        budgetBlockers (assessBudget usage (pq_Budget r)) = []" by simp
  next
    assume "task_ids (pq_Tasks r) \<subseteq> dom (map_of (ps_scheduled ?st)) \<and> budgetBlockers (assessBudget usage (pq_Budget r)) = []"
    then have "b \<notin> set (ps_blockers ?st)" for b using left [of b] bud [of b] by auto
    then show "ps_blockers ?st = []" by (metis list.set_intros(1) neq_Nil_conv)
  qed
qed

lemma keeps_capacity_bound:
  assumes "\<And>x t. 0 \<le> planned_load r \<sigma> x t" "\<And>x t. planned_load r \<sigma> x t \<le> capacity_at (pq_Availability r) x t"
  shows "keeps_capacity r \<sigma>"
  unfolding keeps_capacity_def
proof (intro allI impI)
  fix x t assume n: "planned_load r \<sigma> x t \<noteq> 0"
  let ?W = "cw_CapacityUnits ` {w \<in> set (pq_Availability r). window_at x t w}"
  have "Max (insert 0 ?W) \<in> insert 0 ?W" by (intro Max_in) simp_all
  moreover have "0 < Max (insert 0 ?W)"
    using n assms(1) [of x t] assms(2) [of x t] unfolding capacity_at_Max by linarith
  ultimately have "capacity_at (pq_Availability r) x t \<in> ?W" unfolding capacity_at_Max by auto
  with assms(2) [of x t] show "\<exists>w \<in> set (pq_Availability r). cw_ResourceID w = x \<and> cw_Start w \<le> t \<and> t < cw_End w \<and>
      planned_load r \<sigma> x t \<le> cw_CapacityUnits w"
    by (auto simp: window_at_def)
qed

lemma used_nonneg: "\<forall>b \<in> set bookings. 0 \<le> bo_units b \<Longrightarrow> 0 \<le> used_at bookings x t"
  unfolding used_at_sum by (rule sum_list_nonneg) auto

lemma sched_inv_capacity:
  assumes "sched_inv r st"
  shows "keeps_capacity r (starts (ps_scheduled st))"
proof (rule keeps_capacity_bound)
  fix x t
  have u: "used_at (ps_bookings st) x t = planned_load r (starts (ps_scheduled st)) x t"
    "used_at (ps_bookings st) x t \<le> capacity_at (pq_Availability r) x t" "\<forall>b \<in> set (ps_bookings st). 0 \<le> bo_units b"
    using assms unfolding sched_inv_def by blast+
  show "0 \<le> planned_load r (starts (ps_scheduled st)) x t"
    using used_nonneg [OF u(3), of x t] unfolding u(1) .
  show "planned_load r (starts (ps_scheduled st)) x t \<le> capacity_at (pq_Availability r) x t"
    using u(2) unfolding u(1) .
qed

lemma decided_schedule:
  assumes "Plan_request lib q = Inr d" "normalizeAndValidate lib q = Inr r"
  shows "keeps_capacity r (decision_starts d)" "keeps_times r (decision_starts d)"
    "\<And>e. e \<in> set (pld_Scheduled d) \<Longrightarrow> \<exists>task \<in> set (pq_Tasks r). entry_of r task e"
proof -
  have v: "valid_request r" using assms(2) by (rule normalized_valid)
  from Plan_request_cases [OF assms(1)] assms(2) obtain usage i digest where
    d: "d = (conclude_plan r usage i (planned_state r usage))\<lparr>pld_DecisionDigest := digest\<rparr>" by (metis sum.inject(2))
  have s: "decision_starts d = starts (ps_scheduled (planned_state r usage))"
    using conclude_starts [OF v] by (simp add: d decision_starts_def)
  note inv = planned_state_inv(1) [OF v, of usage]
  show "keeps_capacity r (decision_starts d)" unfolding s by (rule sched_inv_capacity [OF inv])
  show "keeps_times r (decision_starts d)" unfolding s using inv by (simp add: sched_inv_def)
  show "\<exists>task \<in> set (pq_Tasks r). entry_of r task e" if "e \<in> set (pld_Scheduled d)" for e
    using conclude_entries [OF v, of e usage i] that by (simp add: d)
qed

end
