(* ===== verification/PlannerSlack.thy ===== *)
theory PlannerSlack
  imports PlannerRun
begin

text \<open>
  Two computations of the planner and what they amount to: the usage of all tasks, added up in 64
  bits, and the latest finish of every scheduled task, pulled forward by one pass over the order from
  its end.
\<close>

section \<open>Usage\<close>

definition int64_usage :: "UsageEstimate \<Rightarrow> bool" where
  "int64_usage u \<longleftrightarrow> us_CostMicros u < 2 ^ 63 \<and> us_InputTokens u < 2 ^ 63 \<and> us_OutputTokens u < 2 ^ 63 \<and> us_ToolCalls u < 2 ^ 63"

definition add_usage :: "UsageEstimate \<Rightarrow> UsageEstimate \<Rightarrow> UsageEstimate" where
  "add_usage u v =
     \<lparr>us_CostMicros = us_CostMicros u + us_CostMicros v, us_InputTokens = us_InputTokens u + us_InputTokens v,
      us_OutputTokens = us_OutputTokens u + us_OutputTokens v, us_ToolCalls = us_ToolCalls u + us_ToolCalls v\<rparr>"

definition usage_sum :: "PlanTask list \<Rightarrow> UsageEstimate" where
  "usage_sum ts = fold (\<lambda>t u. add_usage u (tk_EstimatedUsage t)) ts no_usage"

lemma safeAdd_exact:
  assumes "0 \<le> l" "l < 2 ^ 63" "0 \<le> r" "r < 2 ^ 63"
  shows "safeAdd l r = (if l + r < 2 ^ 63 then Some (l + r) else None)"
  using assms wrap_int64_fits [of "l + r"] by (auto simp: safeAdd_def)

lemma aggregate_step_exact:
  assumes "valid_usage u" "int64_usage u" "valid_usage (tk_EstimatedUsage t)" "int64_usage (tk_EstimatedUsage t)"
  shows "aggregate_step u t = Inr v \<longleftrightarrow> v = add_usage u (tk_EstimatedUsage t) \<and> int64_usage v"
proof -
  let ?e = "tk_EstimatedUsage t"
  have s: "safeAdd (us_CostMicros u) (us_CostMicros ?e) =
       (if us_CostMicros u + us_CostMicros ?e < 2 ^ 63 then Some (us_CostMicros u + us_CostMicros ?e) else None)"
    "safeAdd (us_InputTokens u) (us_InputTokens ?e) =
       (if us_InputTokens u + us_InputTokens ?e < 2 ^ 63 then Some (us_InputTokens u + us_InputTokens ?e) else None)"
    "safeAdd (us_OutputTokens u) (us_OutputTokens ?e) =
       (if us_OutputTokens u + us_OutputTokens ?e < 2 ^ 63 then Some (us_OutputTokens u + us_OutputTokens ?e) else None)"
    "safeAdd (us_ToolCalls u) (us_ToolCalls ?e) =
       (if us_ToolCalls u + us_ToolCalls ?e < 2 ^ 63 then Some (us_ToolCalls u + us_ToolCalls ?e) else None)"
    using assms by (intro safeAdd_exact; simp add: valid_usage_def int64_usage_def)+
  show ?thesis
    by (cases "us_CostMicros u + us_CostMicros ?e < 2 ^ 63"; cases "us_InputTokens u + us_InputTokens ?e < 2 ^ 63";
        cases "us_OutputTokens u + us_OutputTokens ?e < 2 ^ 63"; cases "us_ToolCalls u + us_ToolCalls ?e < 2 ^ 63")
      (auto simp: aggregate_step_def Let_def s add_usage_def int64_usage_def)
qed

lemma add_usage_valid: "valid_usage u \<Longrightarrow> valid_usage v \<Longrightarrow> valid_usage (add_usage u v)"
  by (simp add: valid_usage_def add_usage_def)

lemma usage_grows:
  assumes "\<forall>t \<in> set ts. valid_usage (tk_EstimatedUsage t)" "int64_usage (fold (\<lambda>t u. add_usage u (tk_EstimatedUsage t)) ts u)"
  shows "int64_usage u"
  using assms
proof (induction ts arbitrary: u)
  case (Cons t ts)
  from Cons.IH [of "add_usage u (tk_EstimatedUsage t)"] Cons.prems
  have "int64_usage (add_usage u (tk_EstimatedUsage t))" "valid_usage (tk_EstimatedUsage t)" by simp_all
  then show ?case by (simp add: int64_usage_def add_usage_def valid_usage_def)
qed simp

lemma aggregate_from_exact:
  assumes "\<forall>t \<in> set ts. valid_usage (tk_EstimatedUsage t) \<and> int64_usage (tk_EstimatedUsage t)"
    "valid_usage u" "int64_usage u"
  shows "aggregate_from u ts = Inr v \<longleftrightarrow>
    v = fold (\<lambda>t u. add_usage u (tk_EstimatedUsage t)) ts u \<and> int64_usage v"
  using assms
proof (induction ts arbitrary: u)
  case (Cons t ts)
  let ?u = "add_usage u (tk_EstimatedUsage t)"
  have step: "aggregate_step u t = Inr w \<longleftrightarrow> w = ?u \<and> int64_usage w" for w
    using Cons.prems by (intro aggregate_step_exact) simp_all
  have val: "valid_usage ?u" using Cons.prems by (intro add_usage_valid) simp_all
  show ?case
  proof (cases "int64_usage ?u")
    case True
    then have "aggregate_step u t = Inr ?u" by (simp add: step)
    with Cons.IH [OF _ val True] Cons.prems show ?thesis by simp
  next
    case False
    then have "aggregate_step u t \<noteq> Inr w" for w by (simp add: step)
    then have "aggregate_from u (t # ts) \<noteq> Inr v" by (auto simp: and_then_Inr_iff)
    moreover have "\<not> int64_usage (fold (\<lambda>t u. add_usage u (tk_EstimatedUsage t)) (t # ts) u)"
      using usage_grows [of ts ?u] False Cons.prems(1) by auto
    ultimately show ?thesis by auto
  qed
qed auto

lemma aggregateUsage_iff:
  assumes "\<forall>t \<in> set ts. valid_usage (tk_EstimatedUsage t) \<and> int64_usage (tk_EstimatedUsage t)"
  shows "aggregateUsage ts = Inr u \<longleftrightarrow> u = usage_sum ts \<and> int64_usage u"
  unfolding aggregateUsage_def usage_sum_def
  by (rule aggregate_from_exact [OF assms]) (simp_all add: no_usage_def valid_usage_def int64_usage_def)

section \<open>Slack\<close>

lemma plan_task_scheduled:
  "ps_scheduled (plan_task r p task st) = ps_scheduled st \<or>
   (\<exists>e. ps_scheduled (plan_task r p task st) = AList.update (tk_ID task) e (ps_scheduled st))"
  by (auto simp: plan_task_def fit_task_def Let_def split: sum.split prod.split)

lemma plan_tasks_keys:
  "distinct (map fst (ps_scheduled st)) \<Longrightarrow> distinct (map fst (ps_scheduled (plan_tasks r p order st)))"
proof (induction order arbitrary: st)
  case (Cons x order)
  let ?st = "case task_map (pq_Tasks r) x of None \<Rightarrow> st | Some task \<Rightarrow> plan_task r p task st"
  have "distinct (map fst (ps_scheduled ?st))"
  proof (cases "task_map (pq_Tasks r) x")
    case (Some task)
    with plan_task_scheduled [of r p task st] Cons.prems show ?thesis by (auto simp: distinct_update)
  qed (simp add: Cons.prems)
  from Cons.IH [OF this] show ?case by (simp add: plan_tasks_def)
qed (simp add: plan_tasks_def)

lemma fold_earlier:
  "fold (\<lambda>y l. let c = f y in if c < l then c else l) ys n = Min (insert n (f ` set ys))" for n :: int
proof (induction ys arbitrary: n)
  case (Cons y ys)
  let ?S = "f ` set ys"
  have m: "(let c = f y in if c < n then c else n) = min n (f y)" by (simp add: min_def)
  have "Min (insert (min n (f y)) ?S) = Min (insert n (insert (f y) ?S))"
    by (cases "?S = {}") (simp_all add: min.assoc)
  then show ?case unfolding fold_simps m Cons by simp
qed simp

lemma finish_other: "z \<notin> set xs \<Longrightarrow> latest_finish sch xs f z = f z"
  by (induction xs) (simp_all add: latest_finish_def pull_finish_def)

lemma finish_front:
  "z \<notin> set p \<Longrightarrow> latest_finish sch (p @ xs) f z = latest_finish sch xs f z"
  by (induction p) (simp_all add: latest_finish_def pull_finish_def)

definition planned_duration :: "schedule \<Rightarrow> string \<Rightarrow> int" where
  "planned_duration sch y = (case map_of sch y of None \<Rightarrow> 0 | Some e \<Rightarrow> sk_PlannedDurationMinutes e)"

text \<open>The equation of the critical path method: a task has to finish before each dependent has to start.\<close>

lemma finish_equation:
  assumes order: "distinct order" "x \<in> set order" "map_of sch x \<noteq> None"
    and behind: "\<And>p y s. order = p @ y # s \<Longrightarrow> set (scheduled_dependents sch y) \<subseteq> set s"
  shows "latest_finish sch order f x =
    Min (insert (f x) ((\<lambda>y. latest_finish sch order f y + minutes_span (- planned_duration sch y)) ` set (scheduled_dependents sch x)))"
proof -
  from order(2) obtain p s where o: "order = p @ x # s" by (meson split_list)
  then have d: "x \<notin> set p" "x \<notin> set s" "set p \<inter> set s = {}" using order(1) by auto
  let ?F = "latest_finish sch s f" and ?L = "latest_finish sch order f"
  have same: "?F y = ?L y" if "y \<in> set s" for y
  proof -
    have "y \<notin> set (p @ [x])" using that d by auto
    then show ?thesis using finish_front [of y "p @ [x]" sch s f] o by simp
  qed
  have "?L x = pull_finish sch x ?F x"
    unfolding o finish_front [OF d(1)] using order(3) by (auto simp: latest_finish_def)
  also have "\<dots> = Min (insert (?F x) ((\<lambda>y. ?F y + minutes_span (- planned_duration sch y)) ` set (scheduled_dependents sch x)))"
    unfolding pull_finish_def fun_upd_same fold_earlier planned_duration_def ..
  also have "?F x = f x" using d(2) by (rule finish_other)
  also have "(\<lambda>y. ?F y + minutes_span (- planned_duration sch y)) ` set (scheduled_dependents sch x) =
      (\<lambda>y. ?L y + minutes_span (- planned_duration sch y)) ` set (scheduled_dependents sch x)"
    using behind [OF o] same by (intro image_cong) auto
  finally show ?thesis .
qed

lemma scheduled_dependents_set:
  "set (scheduled_dependents sch x) = {y. \<exists>e. (y, e) \<in> set sch \<and> x \<in> set (sk_Dependencies e)}"
proof (induction sch)
  case (Cons p sch)
  obtain y e where p: "p = (y, e)" by (cases p)
  have "set (map (\<lambda>_. y) (filter (\<lambda>d. d = x) (sk_Dependencies e))) = (if x \<in> set (sk_Dependencies e) then {y} else {})"
    by auto
  then have "set (scheduled_dependents (p # sch) x) =
      (if x \<in> set (sk_Dependencies e) then {y} else {}) \<union> set (scheduled_dependents sch x)"
    by (simp only: scheduled_dependents_def p list.map concat.simps prod.case set_append)
  with Cons show ?case by (auto simp: p)
qed (simp add: scheduled_dependents_def)

lemma dependents_later:
  assumes o: "ordered g k N order" "distinct order" "order = p @ y # s"
    and z: "z \<in> set order" "(y, z) \<in> set g"
  shows "z \<in> set s"
proof (rule ccontr)
  assume "z \<notin> set s"
  from z(1) obtain p' s' where o': "order = p' @ z # s'" by (meson split_list)
  then have y: "y \<in> set p'" using o(1) z(2) unfolding ordered_def by blast
  from \<open>z \<notin> set s\<close> z(1) o(3) have "z \<in> set p \<or> z = y" by auto
  then show False
  proof
    assume "z = y"
    with y o' o(2) show False by simp
  next
    assume "z \<in> set p"
    then obtain p1 p2 where p: "p = p1 @ z # p2" by (meson split_list)
    then have "y \<in> set p1" using o(1,3) z(2) unfolding ordered_def by (metis append.assoc append_Cons)
    with o(2,3) p show False by simp
  qed
qed

definition finish_of :: "PlanningRequest \<Rightarrow> UsageEstimate \<Rightarrow> string \<Rightarrow> instant" where
  "finish_of r usage = latest_finish (ps_scheduled (planned_state r usage)) (fst (dependencyOrder (pq_Tasks r)))
     (deadline_finish (pq_Tasks r) (pq_HorizonEnd r))"

lemma planned_schedule:
  fixes r usage sch
  assumes v: "valid_request r"
  defines "sch \<equiv> ps_scheduled (planned_state r usage)"
  shows "distinct (map fst sch)"
    "\<And>x e. (x, e) \<in> set sch \<Longrightarrow> x \<in> set (fst (dependencyOrder (pq_Tasks r))) \<and>
       (\<exists>task \<in> set (pq_Tasks r). tk_ID task = x \<and> entry_of r task e)"
proof -
  note inv = planned_state_inv [OF v, of usage]
  show d: "distinct (map fst sch)"
    unfolding sch_def planned_state_def by (rule plan_tasks_keys) (simp add: start_state_fields)
  fix x e assume "(x, e) \<in> set sch"
  then have m: "map_of sch x = Some e" using d by simp
  then have "x \<in> dom (map_of sch)" by blast
  then have "x \<in> set (fst (dependencyOrder (pq_Tasks r)))" using inv(2) unfolding left_inv_def sch_def by blast
  with m inv(1) show "x \<in> set (fst (dependencyOrder (pq_Tasks r))) \<and> (\<exists>task \<in> set (pq_Tasks r). tk_ID task = x \<and> entry_of r task e)"
    unfolding sched_inv_def sch_def by blast
qed

lemma scheduled_dependents_later:
  assumes v: "valid_request r" and o: "fst (dependencyOrder (pq_Tasks r)) = p @ y # s"
  shows "set (scheduled_dependents (ps_scheduled (planned_state r usage)) y) \<subseteq> set s"
proof
  fix z assume "z \<in> set (scheduled_dependents (ps_scheduled (planned_state r usage)) y)"
  then obtain e where e: "(z, e) \<in> set (ps_scheduled (planned_state r usage))" "y \<in> set (sk_Dependencies e)"
    by (auto simp: scheduled_dependents_set)
  from planned_schedule(2) [OF v e(1)] obtain task where
    z: "z \<in> set (fst (dependencyOrder (pq_Tasks r)))" "task \<in> set (pq_Tasks r)" "tk_ID task = z" "entry_of r task e" by blast
  have "distinct (map tk_ID (pq_Tasks r))" using v by (simp add: valid_request_def)
  note spec = order_props [OF this]
  have "(y, z) \<in> set (task_arcs (pq_Tasks r))"
  proof -
    have "y \<in> set (fst (dependencyOrder (pq_Tasks r)))" unfolding o by simp
    then have "y \<in> task_ids (pq_Tasks r)" unfolding spec(2) by simp
    moreover have "y \<in> set (tk_Dependencies task)" using z(4) e(2) by (simp add: entry_of_def)
    ultimately show ?thesis using z(2,3) by (auto simp: set_task_arcs)
  qed
  from dependents_later [OF spec(3,1) o z(1) this] show "z \<in> set s" .
qed

text \<open>The equation, over the entries of the schedule.\<close>

lemma finish_of_equation:
  assumes v: "valid_request r" and x: "(x, e) \<in> set (ps_scheduled (planned_state r usage))"
  shows "finish_of r usage x = Min (insert (deadline_finish (pq_Tasks r) (pq_HorizonEnd r) x)
    {finish_of r usage y - sk_PlannedDurationMinutes ey * nanos_per_minute | y ey.
       (y, ey) \<in> set (ps_scheduled (planned_state r usage)) \<and> x \<in> set (sk_Dependencies ey)})"
proof -
  let ?sch = "ps_scheduled (planned_state r usage)"
  note ps = planned_schedule [where usage = usage, OF v]
  have d: "distinct (map tk_ID (pq_Tasks r))" using v by (simp add: valid_request_def)
  have di: "distinct (fst (dependencyOrder (pq_Tasks r)))" by (rule order_props(1) [OF d])
  have m: "map_of ?sch y = Some ey" if "(y, ey) \<in> set ?sch" for y ey using ps(1) that by simp
  have span: "finish_of r usage y + minutes_span (- planned_duration ?sch y) =
      finish_of r usage y - sk_PlannedDurationMinutes ey * nanos_per_minute" if "(y, ey) \<in> set ?sch" for y ey
  proof -
    from ps(2) [OF that] obtain task where t: "task \<in> set (pq_Tasks r)" "entry_of r task ey" by blast
    then have "sk_PlannedDurationMinutes ey = planned_minutes r task" "valid_task task"
      using v by (simp_all add: entry_of_def valid_request_def)
    with planned_minutes_bounds [of task r] have "minutes_span (- sk_PlannedDurationMinutes ey) =
        - sk_PlannedDurationMinutes ey * nanos_per_minute" by (intro minutes_span_exact) simp_all
    then show ?thesis by (simp add: planned_duration_def m [OF that])
  qed
  have "map_of ?sch x \<noteq> None" using m [OF x] by simp
  from finish_equation [OF di conjunct1 [OF ps(2) [OF x]] this scheduled_dependents_later [OF v], of _ "deadline_finish (pq_Tasks r) (pq_HorizonEnd r)"]
  have "finish_of r usage x = Min (insert (deadline_finish (pq_Tasks r) (pq_HorizonEnd r) x)
      ((\<lambda>y. finish_of r usage y + minutes_span (- planned_duration ?sch y)) ` set (scheduled_dependents ?sch x)))"
    by (simp add: finish_of_def)
  also have "(\<lambda>y. finish_of r usage y + minutes_span (- planned_duration ?sch y)) ` set (scheduled_dependents ?sch x) =
      {finish_of r usage y - sk_PlannedDurationMinutes ey * nanos_per_minute | y ey. (y, ey) \<in> set ?sch \<and> x \<in> set (sk_Dependencies ey)}"
    unfolding scheduled_dependents_set using span by force
  finally show ?thesis .
qed

lemma slack_entries:
  assumes v: "valid_request r"
  shows "set (pld_Scheduled (conclude_plan r usage i (planned_state r usage))) =
    with_slack (finish_of r usage) ` snd ` set (ps_scheduled (planned_state r usage))"
proof -
  let ?sch = "ps_scheduled (planned_state r usage)" and ?order = "fst (dependencyOrder (pq_Tasks r))"
  note ps = planned_schedule [where usage = usage, OF v]
  have "set (List.map_filter (map_of ?sch) ?order) = snd ` set ?sch"
  proof (rule set_eqI)
    fix e
    have "e \<in> set (List.map_filter (map_of ?sch) ?order) \<longleftrightarrow> (\<exists>x \<in> set ?order. (x, e) \<in> set ?sch)"
      using ps(1) by (force simp: List.map_filter_def)
    also have "\<dots> \<longleftrightarrow> e \<in> snd ` set ?sch" using ps(2) by force
    finally show "e \<in> set (List.map_filter (map_of ?sch) ?order) \<longleftrightarrow> e \<in> snd ` set ?sch" .
  qed
  then show ?thesis by (simp add: conclude_fields computeSlack_def finish_of_def Let_def)
qed

lemma slack_fields:
  "sk_NetworkSlackMinutes (with_slack f e) = minutesBetween (sk_End e) (f (sk_TaskID e))"
  "sk_Critical (with_slack f e) \<longleftrightarrow> sk_NetworkSlackMinutes (with_slack f e) \<le> 0"
  "sk_Dependencies (with_slack f e) = sk_Dependencies e"
  "sk_PlannedDurationMinutes (with_slack f e) = sk_PlannedDurationMinutes e"
  by (simp_all add: with_slack_def Let_def)

lemma slack_finish:
  assumes v: "valid_request r" and e: "e \<in> set (pld_Scheduled (conclude_plan r usage i (planned_state r usage)))"
  shows "sk_NetworkSlackMinutes e = minutesBetween (sk_End e) (finish_of r usage (sk_TaskID e))"
    "sk_Critical e \<longleftrightarrow> sk_NetworkSlackMinutes e \<le> 0"
    "finish_of r usage (sk_TaskID e) = Min (insert (deadline_finish (pq_Tasks r) (pq_HorizonEnd r) (sk_TaskID e))
       {finish_of r usage (sk_TaskID f) - sk_PlannedDurationMinutes f * nanos_per_minute | f.
          f \<in> set (pld_Scheduled (conclude_plan r usage i (planned_state r usage))) \<and> sk_TaskID e \<in> set (sk_Dependencies f)})"
proof -
  let ?sch = "ps_scheduled (planned_state r usage)" and ?S = "set (pld_Scheduled (conclude_plan r usage i (planned_state r usage)))"
  let ?w = "with_slack (finish_of r usage)"
  have ids: "sk_TaskID ey = y" if "(y, ey) \<in> set ?sch" for y ey
    using planned_schedule(2) [OF v that] by (auto simp: entry_of_def)
  have S: "?S = ?w ` snd ` set ?sch" by (rule slack_entries [OF v])
  from e obtain x e' where x: "(x, e') \<in> set ?sch" "e = ?w e'" unfolding S by auto
  then have ide: "sk_TaskID e = x" by (simp add: ids [OF x(1)])
  show "sk_NetworkSlackMinutes e = minutesBetween (sk_End e) (finish_of r usage (sk_TaskID e))"
    "sk_Critical e \<longleftrightarrow> sk_NetworkSlackMinutes e \<le> 0"
    unfolding x(2) slack_fields(2) by (simp_all add: slack_fields(1))
  have "{finish_of r usage (sk_TaskID f) - sk_PlannedDurationMinutes f * nanos_per_minute | f. f \<in> ?S \<and> x \<in> set (sk_Dependencies f)} =
      {finish_of r usage y - sk_PlannedDurationMinutes ey * nanos_per_minute | y ey. (y, ey) \<in> set ?sch \<and> x \<in> set (sk_Dependencies ey)}"
    (is "?A = ?B")
  proof
    show "?A \<subseteq> ?B"
    proof
      fix n assume "n \<in> ?A"
      then obtain f where f: "n = finish_of r usage (sk_TaskID f) - sk_PlannedDurationMinutes f * nanos_per_minute"
        "f \<in> ?S" "x \<in> set (sk_Dependencies f)" by blast
      from f(2) obtain y ey where y: "(y, ey) \<in> set ?sch" "f = ?w ey" unfolding S by auto
      have "n = finish_of r usage y - sk_PlannedDurationMinutes ey * nanos_per_minute" "x \<in> set (sk_Dependencies ey)"
        using f(1,3) ids [OF y(1)] by (simp_all add: y(2) slack_fields)
      with y(1) show "n \<in> ?B" by blast
    qed
    show "?B \<subseteq> ?A"
    proof
      fix n assume "n \<in> ?B"
      then obtain y ey where y: "n = finish_of r usage y - sk_PlannedDurationMinutes ey * nanos_per_minute"
        "(y, ey) \<in> set ?sch" "x \<in> set (sk_Dependencies ey)" by blast
      have "?w ey \<in> ?S" unfolding S using y(2) by (metis image_eqI snd_conv)
      moreover have "n = finish_of r usage (sk_TaskID (?w ey)) - sk_PlannedDurationMinutes (?w ey) * nanos_per_minute"
        "x \<in> set (sk_Dependencies (?w ey))" using y(1,3) ids [OF y(2)] by (simp_all add: slack_fields)
      ultimately show "n \<in> ?A" by blast
    qed
  qed
  with finish_of_equation [OF v x(1)] show "finish_of r usage (sk_TaskID e) =
      Min (insert (deadline_finish (pq_Tasks r) (pq_HorizonEnd r) (sk_TaskID e))
       {finish_of r usage (sk_TaskID f) - sk_PlannedDurationMinutes f * nanos_per_minute | f. f \<in> ?S \<and> sk_TaskID e \<in> set (sk_Dependencies f)})"
    by (simp only: ide)
qed

end
