(* ===== verification/PlannerNormal.thy ===== *)
theory PlannerNormal
  imports PlannerFacts
begin

text \<open>
  The normalised request does not depend on the order in which tasks and availability windows are
  given: what validation rewrites in place is a map over them, what it checks does not depend on
  positions, and both lists are sorted by keys that are distinct or determine the element.
\<close>

section \<open>One task\<close>

definition tidied :: "PlannerLib \<Rightarrow> PlanningRequest \<Rightarrow> PlanTask \<Rightarrow> PlanTask option" where
  "tidied lib request t = (case tidy_task lib request 0 [] t of Inl _ \<Rightarrow> None | Inr u \<Rightarrow> Some u)"

lemma tidy_task_ID: "tidy_task lib request i seen t = Inr u \<Longrightarrow> tk_ID u = TrimSpace (tk_ID t)"
  by (auto simp: tidy_task_def tidy_times_def with_lists_def Let_def and_then_Inr_iff split: option.splits if_splits)

lemma early_checks_None_iff:
  "early_checks request i seen t = None \<longleftrightarrow> early_checks request 0 [] t = None \<and> tk_ID t \<notin> set seen"
  by (auto simp: early_checks_def task_identity_guards_def split: option.splits)

lemma tidy_task_Inr_iff:
  "tidy_task lib request i seen t = Inr u \<longleftrightarrow> tidied lib request t = Some u \<and> tk_ID u \<notin> set seen"
proof -
  let ?rest = "and_then (normalizeUniqueIDs (tk_ID (tidy_times t)) (tk_Dependencies (tidy_times t))) (\<lambda>dependencies.
      if maxResources < length (tk_Resources (tidy_times t)) then Inl (TooManyResources (tk_ID (tidy_times t))) else
      and_then (tidy_requirements (tk_ID (tidy_times t)) [] (tk_Resources (tidy_times t))) (\<lambda>resources.
      let task = with_lists (tidy_times t) dependencies resources in
      case late_checks lib task of Some e \<Rightarrow> Inl e | None \<Rightarrow> Inr task))"
  have split: "tidy_task lib request i seen t = Inr u \<longleftrightarrow> early_checks request i seen (tidy_times t) = None \<and> ?rest = Inr u"
    for i seen
    unfolding tidy_task_def Let_def by (cases "early_checks request i seen (tidy_times t)") simp_all
  have some: "tidied lib request t = Some u \<longleftrightarrow> tidy_task lib request 0 [] t = Inr u"
    by (simp add: tidied_def split: sum.split)
  have "tk_ID (tidy_times t) = tk_ID u" if "?rest = Inr u"
    using that by (auto simp: with_lists_def Let_def and_then_Inr_iff split: option.splits if_splits)
  then show ?thesis
    unfolding some split early_checks_None_iff [of request i seen] by auto
qed

section \<open>Many tasks\<close>

lemma tidy_tasks_Inr_iff:
  "tidy_tasks lib request i seen ts = Inr us \<longleftrightarrow>
     map (tidied lib request) ts = map Some us \<and> distinct (map tk_ID us) \<and> tk_ID ` set us \<inter> set seen = {}"
proof (induction ts arbitrary: i seen us)
  case (Cons t ts)
  have "tidy_tasks lib request i seen (t # ts) = Inr us \<longleftrightarrow>
      (\<exists>u rest. us = u # rest \<and> tidied lib request t = Some u \<and> tk_ID u \<notin> set seen \<and>
         map (tidied lib request) ts = map Some rest \<and> distinct (map tk_ID rest) \<and>
         tk_ID ` set rest \<inter> set (tk_ID u # seen) = {})"
    by (auto simp: and_then_Inr_iff tidy_task_Inr_iff Cons.IH)
  then show ?case by (cases us) auto
qed auto

lemma tidied_cong:
  assumes "pq_HorizonStart r = pq_HorizonStart r'" "pq_HorizonEnd r = pq_HorizonEnd r'"
  shows "tidied lib r = tidied lib r'"
  by (rule ext) (unfold tidied_def tidy_task_def early_checks_def time_guards_def assms, rule refl)

lemma tidy_windows_Inr_iff:
  "tidy_windows r i ws = Inr vs \<longleftrightarrow>
     vs = map tidy_window ws \<and> (\<forall>w \<in> set ws. first_error (window_guards r 0 (tidy_window w)) = None)"
proof (induction ws arbitrary: i vs)
  case (Cons w ws)
  have "first_error (window_guards r i (tidy_window w)) = None \<longleftrightarrow> first_error (window_guards r 0 (tidy_window w)) = None"
    by (simp add: window_guards_def)
  then show ?case by (auto simp: Let_def and_then_Inr_iff Cons.IH split: option.splits)
qed auto

lemma window_key_inj: "inj window_key"
  by (rule injI) (simp add: window_key_def CapacityWindow.equality)

lemma perm_map_Some:
  assumes "mset ts = mset ts'" "map f ts = map Some us"
  shows "\<exists>us'. map f ts' = map Some us' \<and> mset us' = mset us"
proof -
  have us: "us = map (the \<circ> f) ts" using arg_cong [OF assms(2), of "map the"] by (simp add: comp_def)
  have "\<forall>t \<in> set ts. f t \<noteq> None"
    using arg_cong [OF assms(2), of set] by (metis (no_types, lifting) imageE image_eqI list.set_map option.distinct(1))
  then have "\<forall>t \<in> set ts'. f t \<noteq> None" using assms(1) by (metis mset_eq_setD)
  then have "map f ts' = map Some (map (the \<circ> f) ts')" by simp
  moreover have "mset (map (the \<circ> f) ts') = mset us" unfolding us using assms(1) by simp
  ultimately show ?thesis by blast
qed

lemma sort_key_perm:
  assumes "mset xs = mset ys" "inj_on k (set xs)"
  shows "sort_key k xs = sort_key k ys"
  using assms by (metis mset_sort properties_for_sort_key set_mset_mset sort_key_inj_key_eq sorted_sort_key)

text \<open>The request with its tasks and windows in another order.\<close>

definition reordered :: "PlanningRequest \<Rightarrow> PlanningRequest \<Rightarrow> bool" where
  "reordered q q' \<longleftrightarrow> mset (pq_Tasks q) = mset (pq_Tasks q') \<and> mset (pq_Availability q) = mset (pq_Availability q') \<and>
     q' = q\<lparr>pq_Tasks := pq_Tasks q', pq_Availability := pq_Availability q'\<rparr>"

lemma normalized_reordered:
  assumes q: "reordered q q'" and n: "normalizeAndValidate lib q = Inr r"
  shows "normalizeAndValidate lib q' = Inr r"
proof -
  let ?f = "tidy_request_fields lib q" and ?f' = "tidy_request_fields lib q'"
  from q obtain ts ws where q': "q' = q\<lparr>pq_Tasks := ts, pq_Availability := ws\<rparr>" by (auto simp: reordered_def)
  with q have ts: "mset (pq_Tasks q) = mset ts" and ws: "mset (pq_Availability q) = mset ws"
    by (simp_all add: reordered_def)
  have f': "?f' = ?f\<lparr>pq_Tasks := ts, pq_Availability := ws\<rparr>" by (simp add: q' tidy_request_fields_def)
  have ft: "pq_Tasks ?f = pq_Tasks q" "pq_Availability ?f = pq_Availability q"
    "pq_Tasks ?f' = ts" "pq_Availability ?f' = ws" by (simp_all add: f') (simp_all add: tidy_request_fields_def)
  from n obtain tasks windows where
    c: "request_checks lib (pq_AsOf q = 0) ?f = None" and
    t: "tidy_tasks lib ?f 0 [] (pq_Tasks q) = Inr tasks" and s: "first_failure self_dependency tasks = None" and
    w: "tidy_windows ?f 0 (pq_Availability q) = Inr windows" and
    r: "r = ?f\<lparr>pq_Tasks := sort_key tk_ID tasks, pq_Availability := sort_key window_key windows\<rparr>"
    by (rule normalizeAndValidate_cases)
  have "(ts = []) = (pq_Tasks q = [])" "length ts = length (pq_Tasks q)" "length ws = length (pq_Availability q)"
    using arg_cong [OF ts, of size] arg_cong [OF ws, of size] by auto
  then have g: "request_guards lib b ?f' = request_guards lib b ?f" for b
    unfolding request_guards_def f' by (simp add: ft)
  have "pq_Budget ?f' = pq_Budget ?f" "pq_ApprovalPolicy ?f' = pq_ApprovalPolicy ?f" by (simp_all add: f')
  moreover have "pq_AsOf q' = pq_AsOf q" by (simp add: q')
  ultimately have c': "request_checks lib (pq_AsOf q' = 0) ?f' = None"
    using c by (simp only: request_checks_def g)
  have same: "tidied lib ?f' = tidied lib ?f" by (rule tidied_cong) (simp_all add: f')
  from t have tm: "map (tidied lib ?f) (pq_Tasks q) = map Some tasks" and di: "distinct (map tk_ID tasks)"
    by (simp_all add: tidy_tasks_Inr_iff)
  from perm_map_Some [OF ts tm] obtain tasks' where
    tm': "map (tidied lib ?f) ts = map Some tasks'" and p: "mset tasks' = mset tasks" by blast
  have di': "distinct (map tk_ID tasks')" using di p by (metis mset_map mset_eq_imp_distinct_iff)
  have t': "tidy_tasks lib ?f' 0 [] ts = Inr tasks'" using tm' di' by (simp add: tidy_tasks_Inr_iff same)
  have s': "first_failure self_dependency tasks' = None"
    using s mset_eq_setD [OF p] by (simp add: first_failure_None_iff)
  have guards: "window_guards ?f' 0 = window_guards ?f 0" by (rule ext) (simp add: window_guards_def f')
  from w have windows: "windows = map tidy_window (pq_Availability q)"
    and ok: "\<forall>w \<in> set (pq_Availability q). first_error (window_guards ?f 0 (tidy_window w)) = None"
    by (simp_all add: tidy_windows_Inr_iff)
  let ?ws = "map tidy_window ws"
  have w': "tidy_windows ?f' 0 ws = Inr ?ws"
    using ok mset_eq_setD [OF ws] by (simp add: tidy_windows_Inr_iff guards)
  have "sort_key tk_ID tasks' = sort_key tk_ID tasks"
    using p di' by (intro sort_key_perm) (simp_all add: distinct_map)
  moreover have "sort_key window_key ?ws = sort_key window_key windows"
    using ws by (intro sort_key_perm inj_on_subset [OF window_key_inj]) (simp_all add: windows)
  moreover have "normalizeAndValidate lib q' =
      Inr (?f'\<lparr>pq_Tasks := sort_key tk_ID tasks', pq_Availability := sort_key window_key ?ws\<rparr>)"
    unfolding normalizeAndValidate_def Let_def ft c' t' w' option.case and_then_simps s' ..
  ultimately show ?thesis by (simp add: r f')
qed

end
