(* ===== verification/PlannerTheorems.thy ===== *)
theory PlannerTheorems
  imports PlannerSlack PlannerNormal
begin

text \<open>
  The properties of the resource planner, each with a concrete request for its hypotheses.
\<close>

section \<open>A request for the witnesses\<close>

definition plain_lib :: PlannerLib where
  "plain_lib = \<lparr>pll_redact = (\<lambda>s. s), pll_sha256 = (\<lambda>s. ''owner''), pll_request_digest = (\<lambda>r. Some ''in''),
     pll_decision_digest = (\<lambda>d. Some ''out'')\<rparr>"

definition no_limits :: UsageBudget where
  "no_limits = \<lparr>bu_MaxCostMicros = None, bu_MaxInputTokens = None, bu_MaxOutputTokens = None, bu_MaxToolCalls = None\<rparr>"

definition no_review :: ReviewPolicy where
  "no_review = \<lparr>rv_CostThresholdMicros = None, rv_InputTokenThreshold = None, rv_OutputTokenThreshold = None,
     rv_ToolCallThreshold = None, rv_UncertaintyThreshold = 0, rv_SoftDeadlineMiss = False\<rparr>"

text \<open>The start of the horizon, and \<open>m\<close> minutes later.\<close>

definition clock :: "int \<Rightarrow> instant" where
  "clock m = 60000000000 * (1000000 + m)"

definition hour_task :: "string \<Rightarrow> DeadlineKind \<Rightarrow> int \<Rightarrow> PlanTask" where
  "hour_task x kind deadline =
     \<lparr>tk_ID = x, tk_Duration = \<lparr>du_OptimisticMinutes = 60, du_ExpectedMinutes = 60, du_PessimisticMinutes = 60, du_Basis = ''''\<rparr>,
      tk_EarliestStart = None, tk_Deadline = Some (clock deadline), tk_DeadlineKind = kind, tk_Dependencies = [],
      tk_Resources = [\<lparr>rr_ResourceID = ''r'', rr_CapacityUnits = 1\<rparr>], tk_EstimatedUsage = no_usage, tk_Priority = 0,
      tk_Optional = False, tk_Approval = \<lparr>ta_Required = False, ta_Reasons = []\<rparr>, tk_UncertaintyReviewPct = 0\<rparr>"

text \<open>Two tasks of an hour need the same desk: \<open>a\<close> should be done after an hour, \<open>b\<close> must be done after 90 minutes.\<close>

definition desk_request :: PlanningRequest where
  "desk_request =
     \<lparr>pq_OwnerIdentity = ''me'', pq_OwnerScopeDigest = '''', pq_WorkspaceID = '''', pq_PlanID = ''p'', pq_AsOf = clock 0,
      pq_HorizonStart = clock 0, pq_HorizonEnd = clock 180, pq_DurationMode = ExpectedDuration,
      pq_Tasks = [hour_task ''a'' SoftDeadline 60, hour_task ''b'' HardDeadline 90],
      pq_Availability = [\<lparr>cw_ResourceID = ''r'', cw_Start = clock 0, cw_End = clock 180, cw_CapacityUnits = 1\<rparr>],
      pq_Budget = no_limits, pq_ApprovalPolicy = no_review\<rparr>"

lemma desk_normalized:
  "normalizeAndValidate plain_lib desk_request = Inr (desk_request\<lparr>pq_OwnerScopeDigest := ''owner''\<rparr>)"
  by code_simp

lemma plain_planned:
  "normalizeAndValidate plain_lib q = Inr r \<Longrightarrow> aggregateUsage (pq_Tasks r) = Inr u \<Longrightarrow>
     Plan_request plain_lib q =
       Inr ((conclude_plan r u ''in'' (planned_state r u))\<lparr>pld_DecisionDigest := ''out''\<rparr>)"
  by (simp add: Plan_request_def plain_lib_def Let_def)

lemma desk_budget: "aggregateUsage (pq_Tasks desk_request) = Inr no_usage"
  by code_simp

definition desk_decision :: PlanningDecision where
  "desk_decision =
     (let r = desk_request\<lparr>pq_OwnerScopeDigest := ''owner''\<rparr>
      in (conclude_plan r no_usage ''in'' (planned_state r no_usage))\<lparr>pld_DecisionDigest := ''out''\<rparr>)"

lemma desk_planned: "Plan_request plain_lib desk_request = Inr desk_decision"
  using plain_planned [OF desk_normalized] desk_budget by (simp add: desk_decision_def Let_def)

lemma desk_outcome:
  "pld_Feasibility desk_decision = Infeasible \<and> pld_UnscheduledTaskIDs desk_decision = [''b''] \<and>
   map (\<lambda>e. (sk_TaskID e, sk_Start e, sk_End e)) (pld_Scheduled desk_decision) = [(''a'', clock 0, clock 60)]"
  by code_simp

section \<open>Properties\<close>

text \<open>
  C17. No resource is booked beyond its capacity: at every instant the tasks that the decision lets
  run then take together no more of a resource than one of its availability windows offers at that
  instant.
\<close>

theorem schedule_keeps_capacity:
  assumes "Plan_request lib q = Inr d" "normalizeAndValidate lib q = Inr r"
  shows "keeps_capacity r (decision_starts d)"
  using assms by (rule decided_schedule(1))

lemma schedule_keeps_capacity_witness:
  "keeps_capacity (desk_request\<lparr>pq_OwnerScopeDigest := ''owner''\<rparr>) (decision_starts desk_decision)"
  by (rule schedule_keeps_capacity [OF desk_planned desk_normalized])

text \<open>
  C18. Every scheduled task starts no sooner than the plan, the horizon and its own earliest start
  allow, ends within the horizon and its hard deadline, and starts only after every task it depends
  on has ended; its end is its start plus the selected estimate.
\<close>

theorem schedule_keeps_times:
  assumes "Plan_request lib q = Inr d" "normalizeAndValidate lib q = Inr r"
  shows "keeps_times r (decision_starts d) \<and>
    (\<forall>e \<in> set (pld_Scheduled d). \<exists>task \<in> set (pq_Tasks r). entry_of r task e)"
  using decided_schedule(2,3) [OF assms] by blast

definition chain_request :: PlanningRequest where
  "chain_request = desk_request
     \<lparr>pq_OwnerScopeDigest := ''owner'',
      pq_Tasks := [hour_task ''a'' SoftDeadline 60, (hour_task ''b'' HardDeadline 180)\<lparr>tk_Dependencies := [''a'']\<rparr>]\<rparr>"

definition chain_decision :: PlanningDecision where
  "chain_decision =
     (conclude_plan chain_request no_usage ''in'' (planned_state chain_request no_usage))\<lparr>pld_DecisionDigest := ''out''\<rparr>"

lemma chain_normalized: "normalizeAndValidate plain_lib chain_request = Inr chain_request"
  by code_simp

lemma chain_planned: "Plan_request plain_lib chain_request = Inr chain_decision"
  unfolding chain_decision_def by (rule plain_planned [OF chain_normalized]) code_simp

lemma chain_outcome:
  "map (\<lambda>e. (sk_TaskID e, sk_Start e)) (pld_Scheduled chain_decision) = [(''a'', clock 0), (''b'', clock 60)]"
  by code_simp

lemma schedule_keeps_times_witness:
  "keeps_times chain_request [''a'' \<mapsto> clock 0, ''b'' \<mapsto> clock 60]"
proof -
  have "decision_starts chain_decision = [''a'' \<mapsto> clock 0, ''b'' \<mapsto> clock 60]"
    unfolding decision_starts_def chain_outcome by (auto simp: fun_eq_iff)
  then show ?thesis using schedule_keeps_times [OF chain_planned chain_normalized] by simp
qed

text \<open>
  C19. The search for a slot is exact: it returns the first instant at which the task can run with
  all its resources at once for its whole duration, and it fails only if there is none, although it
  tries no other instants than the earliest start, the starts of windows and the ends of bookings.
\<close>

theorem first_slot_found:
  assumes "0 < minutes_span duration" "\<forall>b \<in> set bookings. 0 \<le> bo_units b"
  shows "findSlot task earliest latestEnd duration windows bookings = Inr s \<longleftrightarrow>
      possible_slot task earliest latestEnd duration windows bookings s \<and>
      (\<forall>u. possible_slot task earliest latestEnd duration windows bookings u \<longrightarrow> s \<le> u)"
  using findSlot_spec [OF assms, of task earliest latestEnd windows]
  by (cases "findSlot task earliest latestEnd duration windows bookings")
    (auto intro: order_antisym)

lemma first_slot_found_witness:
  "\<not> possible_slot (hour_task ''b'' HardDeadline 90) (clock 0) (clock 180) 60
     (pq_Availability desk_request) (bookings_of (hour_task ''a'' SoftDeadline 60) (clock 0) (clock 60)) (clock 59)"
proof -
  have "findSlot (hour_task ''b'' HardDeadline 90) (clock 0) (clock 180) 60 (pq_Availability desk_request)
      (bookings_of (hour_task ''a'' SoftDeadline 60) (clock 0) (clock 60)) = Inr (clock 60)" by code_simp
  moreover have "0 < minutes_span 60" by code_simp
  moreover have "\<forall>b \<in> set (bookings_of (hour_task ''a'' SoftDeadline 60) (clock 0) (clock 60)). 0 \<le> bo_units b"
    by code_simp
  ultimately show ?thesis using first_slot_found by (force simp: clock_def)
qed

text \<open>
  C20. A decision accounts for every task exactly once, scheduled or unscheduled; it is infeasible
  exactly if a task is unscheduled or a hard budget is exceeded, needs approval exactly if it is
  feasible and has a review flag, and never claims authority to execute.
\<close>

theorem feasibility_exact:
  assumes "Plan_request lib q = Inr d" "normalizeAndValidate lib q = Inr r"
  shows "distinct (map sk_TaskID (pld_Scheduled d) @ pld_UnscheduledTaskIDs d) \<and>
    set (map sk_TaskID (pld_Scheduled d) @ pld_UnscheduledTaskIDs d) = tk_ID ` set (pq_Tasks r) \<and>
    (pld_Feasibility d = Infeasible \<longleftrightarrow> pld_UnscheduledTaskIDs d \<noteq> [] \<or>
       \<not> (bas_WithinCostLimit (pld_Budget d) \<and> bas_WithinInputTokenLimit (pld_Budget d) \<and>
          bas_WithinOutputTokenLimit (pld_Budget d) \<and> bas_WithinToolCallLimit (pld_Budget d))) \<and>
    (pld_Feasibility d = Feasible \<longrightarrow> pld_ApprovalFlags d = []) \<and>
    \<not> pld_CanExecute d \<and> \<not> pld_GrantsAuthority d"
proof -
  have v: "valid_request r" using assms(2) by (rule normalized_valid)
  from Plan_request_cases [OF assms(1)] assms(2) obtain usage i digest where
    d: "d = (conclude_plan r usage i (planned_state r usage))\<lparr>pld_DecisionDigest := digest\<rparr>" by (metis sum.inject(2))
  let ?st = "planned_state r usage"
  note p = conclude_partition [OF v, of usage i] and b = conclude_blockers [OF v, of usage]
  have dom: "dom (map_of (ps_scheduled ?st)) \<subseteq> task_ids (pq_Tasks r)"
    using planned_state_inv(1) [OF v, of usage] by (force simp: sched_inv_def task_ids_def)
  have un: "pld_UnscheduledTaskIDs d = [] \<longleftrightarrow> task_ids (pq_Tasks r) \<subseteq> dom (map_of (ps_scheduled ?st))"
    using p(4) by (simp add: d flip: set_empty) 
  have "sortBlockers bs = [] \<longleftrightarrow> bs = []" "set (sortBlockers bs) = set bs" for bs
    by (simp_all add: sortBlockers_def flip: set_empty)
  note sb = this
  have inf: "determineFeasibility (sortBlockers (ps_blockers ?st)) flags = Infeasible \<longleftrightarrow> ps_blockers ?st \<noteq> []" for flags
  proof -
    have "list_ex bk_BlocksFeasibility (sortBlockers (ps_blockers ?st)) \<longleftrightarrow> ps_blockers ?st \<noteq> []"
      using b(2) unfolding list_ex_iff sb(2) by (metis list.set_intros(1) neq_Nil_conv emptyE set_empty)
    then show ?thesis by (simp add: determineFeasibility_def)
  qed
  have "pld_Feasibility d = Infeasible \<longleftrightarrow> ps_blockers ?st \<noteq> []" by (simp add: d conclude_fields inf)
  moreover have "pld_Feasibility d = Feasible \<longrightarrow> pld_ApprovalFlags d = []"
    by (simp add: d conclude_fields determineFeasibility_def)
  moreover have "\<not> pld_CanExecute d" "\<not> pld_GrantsAuthority d" by (simp_all add: d conclude_plan_def Let_def)
  moreover have "distinct (map sk_TaskID (pld_Scheduled d) @ pld_UnscheduledTaskIDs d)"
    "set (map sk_TaskID (pld_Scheduled d) @ pld_UnscheduledTaskIDs d) = tk_ID ` set (pq_Tasks r)"
    using p dom by (auto simp: d task_ids_def)
  moreover have "pld_Budget d = assessBudget usage (pq_Budget r)" by (simp add: d conclude_fields)
  ultimately show ?thesis using b(1) un over_budget by metis
qed

lemma feasibility_exact_witness:
  "pld_UnscheduledTaskIDs desk_decision \<noteq> [] \<and> pld_Feasibility desk_decision = Infeasible"
  using desk_outcome feasibility_exact [OF desk_planned desk_normalized] by simp

text \<open>
  C39. A task is reported as part of a dependency cycle exactly if it lies on a cycle or depends,
  over any number of steps, on a task that does; the tasks that are not reported are ordered, each
  behind everything it depends on.
\<close>

theorem cycle_blockers_exact:
  assumes "distinct (map tk_ID ts)"
  shows "((\<exists>b \<in> set (snd (dependencyOrder ts)). bk_Code b = ''dependency_cycle'' \<and> bk_TaskID b = x) \<longleftrightarrow>
       x \<in> tk_ID ` set ts \<and> behind_cycle (task_arcs ts) x) \<and>
    (x \<in> set (fst (dependencyOrder ts)) \<longleftrightarrow> x \<in> tk_ID ` set ts \<and> \<not> behind_cycle (task_arcs ts) x) \<and>
    (\<forall>p y s. fst (dependencyOrder ts) = p @ y # s \<longrightarrow> (\<forall>d. (d, y) \<in> set (task_arcs ts) \<longrightarrow> d \<in> set p))"
proof -
  from dependencyOrder_spec [OF assms] obtain order where
    o: "dependencyOrder ts = (order, sortBlockers (missing_blockers ts @ cycle_blockers ts order))"
    "set order = {y \<in> task_ids ts. \<not> behind_cycle (task_arcs ts) y}"
    "ordered (task_arcs ts) (ready_key (task_map ts)) (task_ids ts) order" by blast
  have "bk_Code b \<noteq> ''dependency_cycle''" if "b \<in> set (missing_blockers ts)" for b
    using that by (auto simp: missing_blockers_def blocker_def)
  moreover have "(\<exists>b \<in> set (cycle_blockers ts order). bk_Code b = ''dependency_cycle'' \<and> bk_TaskID b = x) \<longleftrightarrow>
      x \<in> task_ids ts - set order"
    by (auto simp: cycle_blockers_def blocker_def task_ids_def)
  ultimately have "(\<exists>b \<in> set (snd (dependencyOrder ts)). bk_Code b = ''dependency_cycle'' \<and> bk_TaskID b = x) \<longleftrightarrow>
      x \<in> task_ids ts - set order"
    by (auto simp: o(1) sortBlockers_def)
  then show ?thesis using o unfolding task_ids_def ordered_def fst_conv by auto
qed

text \<open>A task that only depends on a cycle, and is on none, is reported all the same.\<close>

definition knot :: "PlanTask list" where
  "knot = [(hour_task ''a'' SoftDeadline 60)\<lparr>tk_Dependencies := [''b'']\<rparr>,
     (hour_task ''b'' SoftDeadline 60)\<lparr>tk_Dependencies := [''a'']\<rparr>,
     (hour_task ''c'' SoftDeadline 60)\<lparr>tk_Dependencies := [''a'']\<rparr>]"

lemma cycle_blockers_exact_witness:
  "(\<exists>b \<in> set (snd (dependencyOrder knot)). bk_Code b = ''dependency_cycle'' \<and> bk_TaskID b = ''c'') \<and>
   (''c'', ''c'') \<notin> (set (task_arcs knot))\<^sup>+"
proof -
  have arcs: "task_arcs knot = [(''b'', ''a''), (''a'', ''b''), (''a'', ''c'')]" by code_simp
  have "distinct (map tk_ID knot)" by code_simp
  note exact = cycle_blockers_exact [OF this, of "''c''"]
  have "(''a'', ''b'') \<in> set (task_arcs knot)" "(''b'', ''a'') \<in> set (task_arcs knot)" "(''a'', ''c'') \<in> set (task_arcs knot)"
    unfolding arcs by simp_all
  then have "(''a'', ''a'') \<in> (set (task_arcs knot))\<^sup>+" "(''a'', ''c'') \<in> (set (task_arcs knot))\<^sup>*" by (meson trancl.simps, blast)
  then have "behind_cycle (task_arcs knot) ''c''" unfolding behind_cycle_def by blast
  moreover have "''c'' \<in> tk_ID ` set knot" by (simp add: knot_def hour_task_def)
  moreover have "(''c'', ''c'') \<notin> (set (task_arcs knot))\<^sup>+"
  proof
    assume "(''c'', ''c'') \<in> (set (task_arcs knot))\<^sup>+"
    then obtain y where "(''c'', y) \<in> set (task_arcs knot)" by (meson tranclD)
    then show False unfolding arcs by simp
  qed
  ultimately show ?thesis using exact by blast
qed









text \<open>
  C21. The decision does not depend on the order in which the tasks and the availability windows are
  given: two requests that differ only in it get the same decision with the same digests.
\<close>

theorem plan_order_free:
  assumes "reordered q q'"
  shows "Plan_request lib q' = Inr d \<longleftrightarrow> Plan_request lib q = Inr d"
proof
  have conv: "reordered q' q"
  proof -
    obtain ts ws where q': "q' = q\<lparr>pq_Tasks := ts, pq_Availability := ws\<rparr>" using assms by (auto simp: reordered_def)
    then show ?thesis using assms unfolding reordered_def q' by simp
  qed
  show "Plan_request lib q' = Inr d \<Longrightarrow> Plan_request lib q = Inr d"
    using normalized_reordered [OF conv, of lib] by (auto simp: Plan_request_def and_then_Inr_iff)
  show "Plan_request lib q = Inr d \<Longrightarrow> Plan_request lib q' = Inr d"
    using normalized_reordered [OF assms, of lib] by (auto simp: Plan_request_def and_then_Inr_iff)
qed

lemma plan_order_free_witness:
  "Plan_request plain_lib (desk_request\<lparr>pq_Tasks := [hour_task ''b'' HardDeadline 90, hour_task ''a'' SoftDeadline 60]\<rparr>) =
     Inr desk_decision"
proof -
  let ?q = "desk_request\<lparr>pq_Tasks := [hour_task ''b'' HardDeadline 90, hour_task ''a'' SoftDeadline 60]\<rparr>"
  have "reordered desk_request ?q" by (simp add: reordered_def desk_request_def add_mset_commute)
  from plan_order_free [OF this, of plain_lib desk_decision] desk_planned show ?thesis by blast
qed

text \<open>
  The usage estimate of a request is the exact sum over its tasks: the planner answers with it if
  every sum fits a signed 64-bit integer and refuses the request otherwise, and never wraps.
\<close>

theorem usage_total_exact:
  assumes "\<forall>t \<in> set ts. valid_usage (tk_EstimatedUsage t) \<and> int64_usage (tk_EstimatedUsage t)"
  shows "aggregateUsage ts = Inr u \<longleftrightarrow>
    us_CostMicros u = (\<Sum>t\<leftarrow>ts. us_CostMicros (tk_EstimatedUsage t)) \<and> us_CostMicros u < 2 ^ 63 \<and>
    us_InputTokens u = (\<Sum>t\<leftarrow>ts. us_InputTokens (tk_EstimatedUsage t)) \<and> us_InputTokens u < 2 ^ 63 \<and>
    us_OutputTokens u = (\<Sum>t\<leftarrow>ts. us_OutputTokens (tk_EstimatedUsage t)) \<and> us_OutputTokens u < 2 ^ 63 \<and>
    us_ToolCalls u = (\<Sum>t\<leftarrow>ts. us_ToolCalls (tk_EstimatedUsage t)) \<and> us_ToolCalls u < 2 ^ 63"
proof -
  have fold: "fold (\<lambda>t u. add_usage u (tk_EstimatedUsage t)) ts v =
      \<lparr>us_CostMicros = us_CostMicros v + (\<Sum>t\<leftarrow>ts. us_CostMicros (tk_EstimatedUsage t)),
       us_InputTokens = us_InputTokens v + (\<Sum>t\<leftarrow>ts. us_InputTokens (tk_EstimatedUsage t)),
       us_OutputTokens = us_OutputTokens v + (\<Sum>t\<leftarrow>ts. us_OutputTokens (tk_EstimatedUsage t)),
       us_ToolCalls = us_ToolCalls v + (\<Sum>t\<leftarrow>ts. us_ToolCalls (tk_EstimatedUsage t))\<rparr>" for v
    by (induction ts arbitrary: v) (simp_all add: add_usage_def)
  show ?thesis
    unfolding aggregateUsage_iff [OF assms] usage_sum_def fold
    by (cases u) (auto simp: no_usage_def int64_usage_def)
qed

lemma usage_total_exact_witness:
  "aggregateUsage (map (\<lambda>n. (hour_task ''a'' SoftDeadline 60)\<lparr>tk_EstimatedUsage := no_usage\<lparr>us_ToolCalls := n\<rparr>\<rparr>)
     [2 ^ 62, 2 ^ 62]) \<noteq> Inr (no_usage\<lparr>us_ToolCalls := 2 ^ 63\<rparr>)"
proof -
  let ?ts = "map (\<lambda>n. (hour_task ''a'' SoftDeadline 60)\<lparr>tk_EstimatedUsage := no_usage\<lparr>us_ToolCalls := n\<rparr>\<rparr>) [2 ^ 62, 2 ^ 62]"
  have "\<forall>t \<in> set ?ts. valid_usage (tk_EstimatedUsage t) \<and> int64_usage (tk_EstimatedUsage t)"
    by (simp add: valid_usage_def int64_usage_def no_usage_def)
  from usage_total_exact [OF this, of "no_usage\<lparr>us_ToolCalls := 2 ^ 63\<rparr>"] show ?thesis by simp
qed

text \<open>
  The slack of a scheduled task is the time from its end to its latest finish, and the task is
  critical exactly if there is none; the latest finishes solve the equation of the critical path
  method: a task must have finished by its deadline, by the end of the horizon, and before each of
  its scheduled dependents has to start in order to finish in time itself.
\<close>

theorem slack_exact:
  assumes "Plan_request lib q = Inr d" "normalizeAndValidate lib q = Inr r"
  shows "\<exists>finish. \<forall>e \<in> set (pld_Scheduled d).
    sk_NetworkSlackMinutes e = minutesBetween (sk_End e) (finish (sk_TaskID e)) \<and>
    (sk_Critical e \<longleftrightarrow> sk_NetworkSlackMinutes e \<le> 0) \<and>
    finish (sk_TaskID e) = Min (insert (deadline_finish (pq_Tasks r) (pq_HorizonEnd r) (sk_TaskID e))
      {finish (sk_TaskID f) - sk_PlannedDurationMinutes f * nanos_per_minute | f.
         f \<in> set (pld_Scheduled d) \<and> sk_TaskID e \<in> set (sk_Dependencies f)})"
proof -
  have v: "valid_request r" using assms(2) by (rule normalized_valid)
  from Plan_request_cases [OF assms(1)] assms(2) obtain usage i digest where
    d: "d = (conclude_plan r usage i (planned_state r usage))\<lparr>pld_DecisionDigest := digest\<rparr>" by (metis sum.inject(2))
  then have S: "pld_Scheduled d = pld_Scheduled (conclude_plan r usage i (planned_state r usage))" by simp
  show ?thesis unfolding S using slack_finish [OF v, of _ usage i] by (intro exI [of _ "finish_of r usage"] ballI conjI) blast+
qed

lemma slack_exact_witness:
  "\<exists>finish. \<forall>e \<in> set (pld_Scheduled chain_decision).
     sk_NetworkSlackMinutes e = minutesBetween (sk_End e) (finish (sk_TaskID e))"
  using slack_exact [OF chain_planned chain_normalized] by blast

end
